(* ===== verification/Prelude.thy ===== *)
theory Prelude
  imports Main "HOL-Library.Sublist"
begin

text \<open>
  Shared vocabulary of the development.

  The TypeScript sources mutate arrays of objects in place and look elements up with
  \<^verbatim>\<open>find\<close>, \<^verbatim>\<open>findIndex\<close>, \<^verbatim>\<open>some\<close>, \<^verbatim>\<open>every\<close> and \<^verbatim>\<open>filter\<close>; they signal errors by
  throwing. This theory holds the list functions that stand for the mutations
  (\<open>update_first\<close>, \<open>remove_first\<close>), the error-carrying result type, and one generic
  interface (\<open>invariant_system\<close>) through which every stateful component lifts a property of
  a single step to all reachable states.
\<close>

named_theorems list_ops \<open>rewrite rules for the array operations of the sources\<close>

section \<open>Arrays of mutable objects\<close>

text \<open>\<open>const x = xs.find(p); if (x) mutate(x)\<close>: the first match is changed in place.\<close>

fun update_first :: "('a \<Rightarrow> bool) \<Rightarrow> ('a \<Rightarrow> 'a) \<Rightarrow> 'a list \<Rightarrow> 'a list" where
  "update_first p f [] = []"
| "update_first p f (x # xs) = (if p x then f x # xs else x # update_first p f xs)"

text \<open>\<open>const i = xs.findIndex(p); if (i >= 0) xs.splice(i, 1)\<close>: the first match is removed.\<close>

fun remove_first :: "('a \<Rightarrow> bool) \<Rightarrow> 'a list \<Rightarrow> 'a list" where
  "remove_first p [] = []"
| "remove_first p (x # xs) = (if p x then xs else x # remove_first p xs)"

text \<open>\<open>xs.findIndex(p)\<close>, with \<open>None\<close> for \<open>-1\<close>.\<close>

fun find_index :: "('a \<Rightarrow> bool) \<Rightarrow> 'a list \<Rightarrow> nat option" where
  "find_index p [] = None"
| "find_index p (x # xs) = (if p x then Some 0 else map_option Suc (find_index p xs))"

text \<open>\<open>xs.some(p)\<close> and \<open>xs.includes(x)\<close>.\<close>

definition some_elem :: "('a \<Rightarrow> bool) \<Rightarrow> 'a list \<Rightarrow> bool" where
  [list_ops]: "some_elem p xs = list_ex p xs"

definition contains :: "'a list \<Rightarrow> 'a \<Rightarrow> bool" where
  [list_ops]: "contains xs x = List.member xs x"

lemma some_elem_iff [simp]: "some_elem p xs \<longleftrightarrow> (\<exists>x \<in> set xs. p x)"
  by (simp add: some_elem_def list_ex_iff)

lemma contains_iff [simp]: "contains xs x \<longleftrightarrow> x \<in> set xs"
  by (simp add: contains_def)

lemma find_index_Some: "find_index p xs = Some i \<Longrightarrow> i < length xs \<and> p (xs ! i)"
  by (induction xs arbitrary: i) (auto split: if_splits)

lemma find_index_first: "find_index p xs = Some i \<Longrightarrow> j < i \<Longrightarrow> \<not> p (xs ! j)"
proof (induction xs arbitrary: i j)
  case (Cons x xs)
  then show ?case by (cases j) (auto split: if_splits)
qed simp

lemma find_index_None: "find_index p xs = None \<longleftrightarrow> (\<forall>x \<in> set xs. \<not> p x)"
  by (induction xs) auto

lemma find_index_find: "find p xs = map_option (\<lambda>i. xs ! i) (find_index p xs)"
  by (induction xs) (auto simp: option.map_comp comp_def)

lemma length_update_first [simp]: "length (update_first p f xs) = length xs"
  by (induction xs) auto

lemma map_update_first:
  "(\<And>x. x \<in> set xs \<Longrightarrow> p x \<Longrightarrow> g (f x) = g x) \<Longrightarrow> map g (update_first p f xs) = map g xs"
  by (induction xs) auto

lemma set_update_first_cases:
  "y \<in> set (update_first p f xs) \<Longrightarrow> y \<in> set xs \<or> (\<exists>x \<in> set xs. p x \<and> y = f x)"
  by (induction xs) (auto split: if_splits)

lemma update_first_none: "(\<And>x. x \<in> set xs \<Longrightarrow> \<not> p x) \<Longrightarrow> update_first p f xs = xs"
  by (induction xs) auto

lemma length_remove_first_le: "length (remove_first p xs) \<le> length xs"
  by (induction xs) auto

lemma length_remove_first:
  "x \<in> set xs \<Longrightarrow> p x \<Longrightarrow> length (remove_first p xs) = length xs - 1"
proof (induction xs)
  case (Cons y ys)
  then show ?case by (cases ys) auto
qed simp

lemma subseq_remove_first: "subseq (remove_first p xs) xs"
  by (induction xs) auto

lemma set_remove_first_subset: "set (remove_first p xs) \<subseteq> set xs"
  by (induction xs) auto

lemma remove_first_keeps: "x \<in> set xs \<Longrightarrow> \<not> p x \<Longrightarrow> x \<in> set (remove_first p xs)"
  by (induction xs) auto

lemma subseq_set: "subseq xs ys \<Longrightarrow> set xs \<subseteq> set ys"
  by (induction rule: list_emb.induct) auto

lemma distinct_map_subseq: "subseq xs ys \<Longrightarrow> distinct (map f ys) \<Longrightarrow> distinct (map f xs)"
proof (induction rule: list_emb.induct)
  case (list_emb_Cons2 x y xs ys)
  then show ?case using subseq_set by fastforce
qed auto

lemma subseq_distinct: "subseq xs ys \<Longrightarrow> distinct ys \<Longrightarrow> distinct xs"
  using distinct_map_subseq [of xs ys id] by simp

lemma distinct_filter_nth:
  assumes "distinct (map f (filter p xs))" "a < length xs" "b < length xs"
    and "p (xs ! a)" "p (xs ! b)" "f (xs ! a) = f (xs ! b)"
  shows "a = b"
  using assms
proof (induction xs arbitrary: a b)
  case (Cons x xs)
  have tl: "n < length xs \<Longrightarrow> p (xs ! n) \<Longrightarrow> f (xs ! n) \<in> f ` set (filter p xs)" for n by auto
  from Cons.prems(1) have d: "distinct (map f (filter p xs))" by (auto split: if_splits)
  from Cons.prems(1) have nin: "p x \<Longrightarrow> f x \<notin> f ` set (filter p xs)" by simp
  show ?case
  proof (cases a; cases b)
    fix m n assume "a = Suc m" "b = Suc n"
    with Cons.prems Cons.IH [OF d, of m n] show ?thesis by simp
  next
    fix n assume "a = 0" "b = Suc n"
    with Cons.prems nin tl [of n] show ?thesis by simp
  next
    fix m assume "a = Suc m" "b = 0"
    with Cons.prems nin tl [of m] show ?thesis by simp
  qed simp
qed simp

lemma fold_keeps:
  "(\<And>x s. x \<in> set xs \<Longrightarrow> P s \<Longrightarrow> P (f x s)) \<Longrightarrow> P s \<Longrightarrow> P (fold f xs s)"
  by (induction xs arbitrary: s) auto

section \<open>Thrown errors as values\<close>

text \<open>\<open>Inl e\<close> is a thrown error, \<open>Inr x\<close> a normal return; \<open>andThen\<close> is sequencing.\<close>

fun andThen :: "'e + 'a \<Rightarrow> ('a \<Rightarrow> 'e + 'b) \<Rightarrow> 'e + 'b" where
  "andThen (Inl e) f = Inl e"
| "andThen (Inr x) f = f x"

definition guardR :: "bool \<Rightarrow> 'e \<Rightarrow> 'e + unit" where
  "guardR b e = (if b then Inr () else Inl e)"

lemma andThen_Inr_iff: "andThen m f = Inr y \<longleftrightarrow> (\<exists>x. m = Inr x \<and> f x = Inr y)"
  by (cases m) auto

lemma andThen_Inl_iff: "andThen m f = Inl e \<longleftrightarrow> m = Inl e \<or> (\<exists>x. m = Inr x \<and> f x = Inl e)"
  by (cases m) auto

lemma guardR_Inr_iff [simp]: "guardR b e = Inr u \<longleftrightarrow> b"
  by (simp add: guardR_def)

lemma guardR_Inl_iff [simp]: "guardR b e = Inl e' \<longleftrightarrow> \<not> b \<and> e' = e"
  by (auto simp: guardR_def)

section \<open>Reachable states of a component\<close>

text \<open>
  The contract between a component's step relation and its invariant. A component proves
  the two laws once, by interpretation on its own definitions; what holds in every reachable
  state then follows from the locale.
\<close>

inductive reach :: "('s \<Rightarrow> bool) \<Rightarrow> ('s \<Rightarrow> 'e \<Rightarrow> 's \<Rightarrow> bool) \<Rightarrow> 's \<Rightarrow> bool"
  for init :: "'s \<Rightarrow> bool" and step :: "'s \<Rightarrow> 'e \<Rightarrow> 's \<Rightarrow> bool" where
  reach_init: "init s \<Longrightarrow> reach init step s"
| reach_step: "reach init step s \<Longrightarrow> step s e t \<Longrightarrow> reach init step t"

inductive steps :: "('s \<Rightarrow> 'e \<Rightarrow> 's \<Rightarrow> bool) \<Rightarrow> 's \<Rightarrow> 'e list \<Rightarrow> 's \<Rightarrow> bool"
  for step :: "'s \<Rightarrow> 'e \<Rightarrow> 's \<Rightarrow> bool" where
  steps_nil: "steps step s [] s"
| steps_cons: "step s e t \<Longrightarrow> steps step t es u \<Longrightarrow> steps step s (e # es) u"

inductive_cases steps_nilE [elim!]: "steps step s [] t"
inductive_cases steps_consE [elim!]: "steps step s (e # es) t"

locale invariant_system =
  fixes init :: "'s \<Rightarrow> bool"
    and step :: "'s \<Rightarrow> 'e \<Rightarrow> 's \<Rightarrow> bool"
    and inv :: "'s \<Rightarrow> bool"
  assumes inv_init: "init s \<Longrightarrow> inv s"
    and inv_step: "inv s \<Longrightarrow> step s e t \<Longrightarrow> inv t"
begin

lemma inv_reach: "reach init step s \<Longrightarrow> inv s"
  by (induction rule: reach.induct) (auto intro: inv_init inv_step)

lemma inv_steps: "steps step s es t \<Longrightarrow> inv s \<Longrightarrow> inv t"
  by (induction rule: steps.induct) (auto intro: inv_step)

lemma reach_steps: "steps step s es t \<Longrightarrow> reach init step s \<Longrightarrow> reach init step t"
  by (induction rule: steps.induct) (auto intro: reach_step)

end

end
