(* ===== verification/JsLib.thy ===== *)
theory JsLib
  imports Prelude "HOL-Library.Char_ord" "HOL-Library.List_Lexorder"
begin

text \<open>
  The parts of the JavaScript standard library the modelled sources use: safe integers,
  decimal and hexadecimal printing, \<^verbatim>\<open>trim\<close>, \<^verbatim>\<open>toLowerCase\<close>, \<^verbatim>\<open>split\<close>, \<^verbatim>\<open>join\<close>,
  \<^verbatim>\<open>JSON.stringify\<close> followed by UTF-8 encoding (the sources only use its byte length), stable
  \<^verbatim>\<open>toSorted\<close> and \<^verbatim>\<open>Date.prototype.toISOString\<close>.

  A JavaScript string is a list of \<open>char\<close>, one per UTF-16 code unit, over the code units
  \<open>0\<close> to \<open>255\<close>; numbers that the sources treat as integers are \<open>int\<close>.
\<close>

section \<open>Numbers\<close>

definition MAX_SAFE_INTEGER :: int where
  "MAX_SAFE_INTEGER = 9007199254740991"

definition isSafeInteger :: "int \<Rightarrow> bool" where
  "isSafeInteger n \<longleftrightarrow> - MAX_SAFE_INTEGER \<le> n \<and> n \<le> MAX_SAFE_INTEGER"

definition digit :: "nat \<Rightarrow> char" where
  "digit n = (if n < 10 then char_of (48 + n) else char_of (87 + n))"

fun radix :: "nat \<Rightarrow> nat \<Rightarrow> string" where
  "radix b n = (if n < b \<or> b < 2 then [digit n] else radix b (n div b) @ [digit (n mod b)])"

declare radix.simps [simp del]

definition dec :: "int \<Rightarrow> string" where
  "dec n = (if n < 0 then CHR ''-'' # radix 10 (nat (- n)) else radix 10 (nat n))"

definition padStart :: "nat \<Rightarrow> char \<Rightarrow> string \<Rightarrow> string" where
  "padStart n c s = replicate (n - length s) c @ s"

definition isDigit :: "char \<Rightarrow> bool" where
  "isDigit c \<longleftrightarrow> 48 \<le> (of_char c :: nat) \<and> (of_char c :: nat) \<le> 57"

definition digitVal :: "char \<Rightarrow> nat" where
  "digitVal c = (of_char c :: nat) - 48"

definition isHex :: "char \<Rightarrow> bool" where
  "isHex c \<longleftrightarrow> isDigit c \<or> (97 \<le> (of_char c :: nat) \<and> (of_char c :: nat) \<le> 102) \<or>
    (65 \<le> (of_char c :: nat) \<and> (of_char c :: nat) \<le> 70)"

definition hexVal :: "char \<Rightarrow> nat" where
  "hexVal c = (let n = (of_char c :: nat) in
    if n \<le> 57 then n - 48 else if n \<le> 70 then n - 55 else n - 87)"

text \<open>\<^verbatim>\<open>Number(s)\<close> on a string of decimal digits and \<^verbatim>\<open>Number.parseInt(s, 16)\<close> on hex digits.\<close>

definition number :: "string \<Rightarrow> nat" where
  "number s = foldl (\<lambda>acc c. 10 * acc + digitVal c) 0 s"

definition hexNumber :: "string \<Rightarrow> nat" where
  "hexNumber s = foldl (\<lambda>acc c. 16 * acc + hexVal c) 0 s"

section \<open>Strings\<close>

definition isSpace :: "char \<Rightarrow> bool" where
  "isSpace c \<longleftrightarrow> (of_char c :: nat) \<in> {9, 10, 11, 12, 13, 32, 160}"

definition trim :: "string \<Rightarrow> string" where
  "trim s = rev (dropWhile isSpace (rev (dropWhile isSpace s)))"

definition lowerChar :: "char \<Rightarrow> char" where
  "lowerChar c = (let n = (of_char c :: nat) in
     if (65 \<le> n \<and> n \<le> 90) \<or> (192 \<le> n \<and> n \<le> 222 \<and> n \<noteq> 215) then char_of (n + 32) else c)"

definition toLowerCase :: "string \<Rightarrow> string" where
  "toLowerCase s = map lowerChar s"

fun splitOn :: "char \<Rightarrow> string \<Rightarrow> string list" where
  "splitOn c [] = [[]]"
| "splitOn c (x # xs) =
     (if x = c then [] # splitOn c xs
      else (case splitOn c xs of [] \<Rightarrow> [[x]] | w # ws \<Rightarrow> (x # w) # ws))"

fun joinWith :: "string \<Rightarrow> string list \<Rightarrow> string" where
  "joinWith sep [] = []"
| "joinWith sep [w] = w"
| "joinWith sep (w # v # ws) = w @ sep @ joinWith sep (v # ws)"

lemma splitOn_not_Nil [simp]: "splitOn c s \<noteq> []"
  by (cases s) (auto split: list.splits)

lemma splitOn_absent: "c \<notin> set s \<Longrightarrow> splitOn c s = [s]"
  by (induction s) auto

lemma splitOn_append: "c \<notin> set w \<Longrightarrow> splitOn c (w @ c # s) = w # splitOn c s"
  by (induction w) auto

lemma splitOn_joinWith:
  "ws \<noteq> [] \<Longrightarrow> \<forall>w \<in> set ws. c \<notin> set w \<Longrightarrow> splitOn c (joinWith [c] ws) = ws"
  by (induction "[c]" ws rule: joinWith.induct) (auto simp: splitOn_absent splitOn_append)

lemma joinWith_splitOn: "joinWith [c] (splitOn c s) = s"
proof (induction s)
  case (Cons x xs)
  then show ?case
  proof (cases "splitOn c xs")
    case (Cons w ws)
    with Cons.IH show ?thesis by (cases ws) auto
  qed simp
qed simp

lemma isDigit_digit: "n < 10 \<Longrightarrow> isDigit (digit n)"
  by (simp add: isDigit_def digit_def)

lemma digitVal_digit: "n < 10 \<Longrightarrow> digitVal (digit n) = n"
  by (simp add: digitVal_def digit_def)

lemma radix10_digits: "\<forall>c \<in> set (radix 10 n). isDigit c"
proof (induction n rule: less_induct)
  case (less n)
  show ?case
  proof (cases "n < 10")
    case True
    then show ?thesis by (simp add: radix.simps [of 10 n] isDigit_digit)
  next
    case False
    then have "n div 10 < n" by simp
    from less [OF this] False show ?thesis
      by (simp add: radix.simps [of 10 n] isDigit_digit)
  qed
qed

lemma radix_not_Nil [simp]: "radix b n \<noteq> []"
  by (subst radix.simps) simp

lemma number_snoc: "number (s @ [c]) = 10 * number s + digitVal c"
  by (simp add: number_def)

lemma number_radix10: "number (radix 10 n) = n"
proof (induction n rule: less_induct)
  case (less n)
  show ?case
  proof (cases "n < 10")
    case True
    then show ?thesis by (simp add: radix.simps [of 10 n] number_def digitVal_digit)
  next
    case False
    then have "n div 10 < n" by simp
    from less [OF this] False show ?thesis
      by (simp add: radix.simps [of 10 n] number_snoc digitVal_digit)
  qed
qed

section \<open>JSON text and its UTF-8 size\<close>

datatype json = JNull | JBool bool | JNum int | JStr string | JArr "json list"
  | JObj "(string \<times> json) list"

definition jsonChar :: "char \<Rightarrow> string" where
  "jsonChar c = (let n = (of_char c :: nat) in
     if n = 34 then [CHR 0x5C, CHR 0x22]
     else if n = 92 then [CHR 0x5C, CHR 0x5C]
     else if n = 8 then [CHR 0x5C, CHR ''b'']
     else if n = 9 then [CHR 0x5C, CHR ''t'']
     else if n = 10 then [CHR 0x5C, CHR ''n'']
     else if n = 12 then [CHR 0x5C, CHR ''f'']
     else if n = 13 then [CHR 0x5C, CHR ''r'']
     else if n < 32 then CHR 0x5C # CHR ''u'' # padStart 4 (CHR ''0'') (radix 16 n)
     else [c])"

definition jsonString :: "string \<Rightarrow> string" where
  "jsonString s = CHR 0x22 # concat (map jsonChar s) @ [CHR 0x22]"

fun stringify :: "json \<Rightarrow> string" where
  "stringify JNull = ''null''"
| "stringify (JBool b) = (if b then ''true'' else ''false'')"
| "stringify (JNum n) = dec n"
| "stringify (JStr s) = jsonString s"
| "stringify (JArr js) = ''['' @ joinWith '','' (map stringify js) @ '']''"
| "stringify (JObj fs) =
     ''{'' @ joinWith '','' (map (\<lambda>(k, v). jsonString k @ '':'' @ stringify v) fs) @ ''}''"

text \<open>\<^verbatim>\<open>new TextEncoder().encode(s).byteLength\<close> for code units below 256.\<close>

definition utf8Length :: "string \<Rightarrow> int" where
  "utf8Length s = sum_list (map (\<lambda>c. if (of_char c :: nat) < 128 then 1 else 2) s)"

definition jsonBytes :: "json \<Rightarrow> int" where
  "jsonBytes j = utf8Length (stringify j)"

lemma utf8Length_nonneg: "0 \<le> utf8Length s"
  by (auto simp: utf8Length_def intro!: sum_list_nonneg)

section \<open>Stable sorting with a numeric comparator\<close>

text \<open>
  \<^verbatim>\<open>xs.toSorted((l, r) => key(l) - key(r))\<close>. A missing key is \<^verbatim>\<open>NaN\<close>, and a comparator that
  answers \<^verbatim>\<open>NaN\<close> counts as "equal". With every key present the comparator is consistent and
  every conforming engine returns this same stable result.
\<close>

definition keyBefore :: "int option \<Rightarrow> int option \<Rightarrow> bool" where
  "keyBefore a b = (case (a, b) of (Some x, Some y) \<Rightarrow> x < y | _ \<Rightarrow> False)"

fun insertByKey :: "('a \<Rightarrow> int option) \<Rightarrow> 'a \<Rightarrow> 'a list \<Rightarrow> 'a list" where
  "insertByKey k x [] = [x]"
| "insertByKey k x (y # ys) = (if keyBefore (k y) (k x) then y # insertByKey k x ys else x # y # ys)"

fun toSortedByKey :: "('a \<Rightarrow> int option) \<Rightarrow> 'a list \<Rightarrow> 'a list" where
  "toSortedByKey k [] = []"
| "toSortedByKey k (x # xs) = insertByKey k x (toSortedByKey k xs)"

lemma set_insertByKey [simp]: "set (insertByKey k x ys) = insert x (set ys)"
  by (induction ys) auto

lemma set_toSortedByKey [simp]: "set (toSortedByKey k xs) = set xs"
  by (induction xs) auto

section \<open>Dates\<close>

text \<open>The proleptic Gregorian calendar date of a day number since 1970-01-01.\<close>

definition civil :: "int \<Rightarrow> int \<times> int \<times> int" where
  "civil days =
     (let z = days + 719468;
          era = z div 146097;
          doe = z mod 146097;
          yoe = (doe - doe div 1460 + doe div 36524 - doe div 146096) div 365;
          doy = doe - (365 * yoe + yoe div 4 - yoe div 100);
          mp = (5 * doy + 2) div 153;
          d = doy - (153 * mp + 2) div 5 + 1;
          m = (if mp < 10 then mp + 3 else mp - 9);
          y = yoe + era * 400 + (if m \<le> 2 then 1 else 0)
      in (y, m, d))"

definition pad :: "nat \<Rightarrow> int \<Rightarrow> string" where
  "pad n i = padStart n (CHR ''0'') (dec i)"

definition isoYear :: "int \<Rightarrow> string" where
  "isoYear y = (if 0 \<le> y \<and> y \<le> 9999 then pad 4 y
     else if 0 \<le> y then CHR ''+'' # pad 6 y else CHR ''-'' # pad 6 (- y))"

definition toISOString :: "int \<Rightarrow> string" where
  "toISOString t =
     (let (y, m, d) = civil (t div 86400000);
          r = t mod 86400000
      in isoYear y @ ''-'' @ pad 2 m @ ''-'' @ pad 2 d @ ''T'' @
         pad 2 (r div 3600000) @ '':'' @ pad 2 (r div 60000 mod 60) @ '':'' @
         pad 2 (r div 1000 mod 60) @ ''.'' @ pad 3 (r mod 1000) @ ''Z'')"

end
