(* ===== verification/NotificationTypes.thy ===== *)
theory NotificationTypes
  imports JsLib
begin

text \<open>
  The data of the notification engine: the channel policies an administrator configures, the
  observations the collectors report, the incidents and queued deliveries the engine keeps, and
  the JSON image whose byte size bounds the persisted state.
  Sources: \<^verbatim>\<open>web/src/lib/Notifications/Types/notifications.types.ts\<close>,
  \<^verbatim>\<open>web/src/server/Notifications/Types/notification-state.types.ts\<close>,
  \<^verbatim>\<open>web/src/config/notifications.config.ts\<close>.
\<close>

section \<open>Configuration constants\<close>

definition LIMIT_incidents :: nat where "LIMIT_incidents = 1024"
definition LIMIT_deliveries :: nat where "LIMIT_deliveries = 256"
definition LIMIT_payloadBytes :: int where "LIMIT_payloadBytes = 16384"
definition LIMIT_stateBytes :: int where "LIMIT_stateBytes = 4 * 1024 * 1024"
definition LIMIT_attempts :: int where "LIMIT_attempts = 8"
definition LIMIT_retentionMs :: int where "LIMIT_retentionMs = 7 * 24 * 60 * 60 * 1000"
definition LIMIT_deliveryLifetimeMs :: int where "LIMIT_deliveryLifetimeMs = 24 * 60 * 60 * 1000"
definition LIMIT_leaseMs :: int where "LIMIT_leaseMs = 90000"
definition LIMIT_retryInitialMs :: int where "LIMIT_retryInitialMs = 30000"
definition LIMIT_retryMaximumMs :: int where "LIMIT_retryMaximumMs = 60 * 60 * 1000"
definition LIMIT_proxyApplyGraceMs :: int where "LIMIT_proxyApplyGraceMs = 30000"
definition LIMIT_deliveriesPerTick :: nat where "LIMIT_deliveriesPerTick = 4"

lemmas notification_limits =
  LIMIT_incidents_def LIMIT_deliveries_def LIMIT_payloadBytes_def LIMIT_stateBytes_def
  LIMIT_attempts_def LIMIT_retentionMs_def LIMIT_deliveryLifetimeMs_def LIMIT_leaseMs_def
  LIMIT_retryInitialMs_def LIMIT_retryMaximumMs_def LIMIT_proxyApplyGraceMs_def
  LIMIT_deliveriesPerTick_def

section \<open>Enumerations\<close>

datatype category = CertificateRenewal | Ddns | Backup | ProxyConfiguration | HostAvailability

datatype severity = Warning | Error | Critical

text \<open>\<^verbatim>\<open>NOTIFICATION_SEVERITIES.indexOf\<close>.\<close>

fun severityIndex :: "severity \<Rightarrow> int" where
  "severityIndex Warning = 0"
| "severityIndex Error = 1"
| "severityIndex Critical = 2"

datatype payload_type = TIncident | TRecovery | TSuccess | TTest

datatype payload_severity = Sev severity | Info

datatype incident_code = ManualDnsRequired

datatype payload_code = CCertificateRenewalManualDnsRequired | CCertificateRenewalFailed
  | CDdnsUpdateFailed | CProxyApplyFailed | CHostUnavailable | COperationRecovered
  | CNotificationTest | CBackupSucceeded | CBackupFailed

datatype delivery_error = DestinationBlocked | DestinationUnavailable | RedirectDenied
  | HttpRejected | SmtpUnavailable | Timeout | CancelledError | PayloadLimit
  | ConfigurationUnavailable

datatype delivery_status = Pending | Inflight | Succeeded | Failed | Cancelled

datatype admission_status = APending | ASucceeded | AFailed

datatype health = Failing | Healthy | HPending

datatype observation_source = Event | Snapshot

section \<open>Records\<close>

datatype channel_kind = Email | Webhook

record channel_policy =
  ch_id :: string
  ch_name :: string
  ch_kind :: channel_kind
  ch_revision :: int
  ch_enabled :: bool
  ch_events :: "category list"
  ch_minimumSeverity :: severity
  ch_thresholdSeconds :: int
  ch_recovery :: bool

record engine_configuration =
  cf_enabled :: bool
  cf_pausedAfterRestore :: bool
  cf_channels :: "channel_policy list"

record host_notification =
  hn_domain :: string
  hn_failureCode :: string
  hn_detectedAt :: string
  hn_recoveryStartedAt :: "string option"
  hn_managementPath :: string
  hn_managementUrl :: "string option"

record subscription =
  su_channelId :: string
  su_channelRevision :: int

record host_context = host_notification +
  hc_policyId :: string
  hc_policyVersion :: string
  hc_contextProof :: string
  hc_contextRevision :: string
  hc_subscriptions :: "subscription list option"

record payload =
  pl_id :: string
  pl_incidentId :: string
  pl_type :: payload_type
  pl_category :: category
  pl_severity :: payload_severity
  pl_resourceId :: string
  pl_code :: payload_code
  pl_occurredAt :: string
  pl_startedAt :: string
  pl_failures :: int
  pl_host :: "host_notification option"

record marker =
  mk_channelId :: string
  mk_channelRevision :: int
  mk_failure :: admission_status
  mk_recovery :: "admission_status option"

record incident =
  in_id :: string
  in_category :: category
  in_resourceId :: string
  in_severity :: severity
  in_startedAt :: int
  in_observedAt :: int
  in_evidence :: string
  in_failures :: int
  in_code :: "incident_code option"
  in_recoveredAt :: "int option"
  in_recoveryEvidence :: "string option"
  in_channels :: "marker list"
  in_host :: "host_context option"

record delivery =
  dl_id :: string
  dl_channelId :: string
  dl_channelRevision :: int
  dl_payload :: payload
  dl_status :: delivery_status
  dl_attempts :: int
  dl_backupAvailableAt :: "int option"
  dl_createdAt :: int
  dl_updatedAt :: int
  dl_nextAttemptAt :: int
  dl_leaseToken :: "string option"
  dl_leaseExpiresAt :: "int option"
  dl_error :: "delivery_error option"

record proxy_apply_pending =
  pa_desiredRevision :: string
  pa_since :: int
  pa_observedAt :: int

record notification_state =
  st_proxyApplyPending :: "proxy_apply_pending option"
  st_incidents :: "incident list"
  st_deliveries :: "delivery list"
  st_deferredCount :: int
  st_saturationCount :: int

record observation =
  ob_source :: observation_source
  ob_category :: category
  ob_resourceId :: string
  ob_health :: health
  ob_code :: "incident_code option"
  ob_desiredRevision :: "string option"
  ob_severity :: severity
  ob_occurredAt :: string
  ob_evidence :: string
  ob_failures :: int

record claimed_delivery =
  cd_id :: string
  cd_channelId :: string
  cd_channelRevision :: int
  cd_payload :: payload
  cd_leaseToken :: string

datatype delivery_result = DeliverySuccess
  | DeliveryFailure (dr_code: delivery_error) (dr_retryable: bool) (dr_retryAfterMs: "int option")

text \<open>
  What the engine takes from its environment: SHA-256 of a string in hex (\<^verbatim>\<open>node:crypto\<close>),
  \<^verbatim>\<open>Date.parse\<close> (\<open>None\<close> is \<^verbatim>\<open>NaN\<close>; its result on other than ISO strings depends on the engine)
  and the identifier source \<^verbatim>\<open>makeId\<close>, whose \<open>n\<close>-th call returns \<open>rt_makeId rt n\<close>.
\<close>

record runtime =
  rt_sha256 :: "string \<Rightarrow> string"
  rt_dateParse :: "string \<Rightarrow> int option"
  rt_makeId :: "nat \<Rightarrow> string"

section \<open>The JSON image\<close>

fun categoryName :: "category \<Rightarrow> string" where
  "categoryName CertificateRenewal = ''certificate_renewal''"
| "categoryName Ddns = ''ddns''"
| "categoryName Backup = ''backup''"
| "categoryName ProxyConfiguration = ''proxy_configuration''"
| "categoryName HostAvailability = ''host_availability''"

fun severityName :: "severity \<Rightarrow> string" where
  "severityName Warning = ''warning''"
| "severityName Error = ''error''"
| "severityName Critical = ''critical''"

fun payloadTypeName :: "payload_type \<Rightarrow> string" where
  "payloadTypeName TIncident = ''incident''"
| "payloadTypeName TRecovery = ''recovery''"
| "payloadTypeName TSuccess = ''success''"
| "payloadTypeName TTest = ''test''"

fun payloadSeverityName :: "payload_severity \<Rightarrow> string" where
  "payloadSeverityName (Sev s) = severityName s"
| "payloadSeverityName Info = ''info''"

fun payloadCodeName :: "payload_code \<Rightarrow> string" where
  "payloadCodeName CCertificateRenewalManualDnsRequired = ''certificate_renewal_manual_dns_required''"
| "payloadCodeName CCertificateRenewalFailed = ''certificate_renewal_failed''"
| "payloadCodeName CDdnsUpdateFailed = ''ddns_update_failed''"
| "payloadCodeName CProxyApplyFailed = ''proxy_apply_failed''"
| "payloadCodeName CHostUnavailable = ''host_unavailable''"
| "payloadCodeName COperationRecovered = ''operation_recovered''"
| "payloadCodeName CNotificationTest = ''notification_test''"
| "payloadCodeName CBackupSucceeded = ''backup_succeeded''"
| "payloadCodeName CBackupFailed = ''backup_failed''"

fun errorName :: "delivery_error \<Rightarrow> string" where
  "errorName DestinationBlocked = ''destination_blocked''"
| "errorName DestinationUnavailable = ''destination_unavailable''"
| "errorName RedirectDenied = ''redirect_denied''"
| "errorName HttpRejected = ''http_rejected''"
| "errorName SmtpUnavailable = ''smtp_unavailable''"
| "errorName Timeout = ''timeout''"
| "errorName CancelledError = ''cancelled''"
| "errorName PayloadLimit = ''payload_limit''"
| "errorName ConfigurationUnavailable = ''configuration_unavailable''"

fun statusName :: "delivery_status \<Rightarrow> string" where
  "statusName Pending = ''pending''"
| "statusName Inflight = ''inflight''"
| "statusName Succeeded = ''succeeded''"
| "statusName Failed = ''failed''"
| "statusName Cancelled = ''cancelled''"

fun admissionName :: "admission_status \<Rightarrow> string" where
  "admissionName APending = ''pending''"
| "admissionName ASucceeded = ''succeeded''"
| "admissionName AFailed = ''failed''"

fun nullable :: "('a \<Rightarrow> json) \<Rightarrow> 'a option \<Rightarrow> json" where
  "nullable f None = JNull"
| "nullable f (Some x) = f x"

text \<open>A property whose value is \<^verbatim>\<open>undefined\<close> is left out of the JSON text.\<close>

fun optionalField :: "string \<Rightarrow> ('a \<Rightarrow> json) \<Rightarrow> 'a option \<Rightarrow> (string \<times> json) list" where
  "optionalField k f None = []"
| "optionalField k f (Some x) = [(k, f x)]"

definition hostFields :: "'a host_notification_scheme \<Rightarrow> (string \<times> json) list" where
  "hostFields h = [(''domain'', JStr (hn_domain h)), (''failureCode'', JStr (hn_failureCode h)),
     (''detectedAt'', JStr (hn_detectedAt h)),
     (''recoveryStartedAt'', nullable JStr (hn_recoveryStartedAt h)),
     (''managementPath'', JStr (hn_managementPath h))] @
     optionalField ''managementUrl'' JStr (hn_managementUrl h)"

definition subscriptionJson :: "subscription \<Rightarrow> json" where
  "subscriptionJson s = JObj [(''channelId'', JStr (su_channelId s)),
     (''channelRevision'', JNum (su_channelRevision s))]"

definition hostContextJson :: "host_context \<Rightarrow> json" where
  "hostContextJson h = JObj (hostFields h @
     [(''policyId'', JStr (hc_policyId h)), (''policyVersion'', JStr (hc_policyVersion h)),
      (''contextProof'', JStr (hc_contextProof h)),
      (''contextRevision'', JStr (hc_contextRevision h))] @
     optionalField ''subscriptions'' (\<lambda>ss. JArr (map subscriptionJson ss)) (hc_subscriptions h))"

definition payloadJson :: "payload \<Rightarrow> json" where
  "payloadJson p = JObj ([(''schemaVersion'', JNum 1), (''id'', JStr (pl_id p)),
     (''incidentId'', JStr (pl_incidentId p)), (''type'', JStr (payloadTypeName (pl_type p))),
     (''category'', JStr (categoryName (pl_category p))),
     (''severity'', JStr (payloadSeverityName (pl_severity p))),
     (''resourceId'', JStr (pl_resourceId p)), (''code'', JStr (payloadCodeName (pl_code p))),
     (''occurredAt'', JStr (pl_occurredAt p)), (''startedAt'', JStr (pl_startedAt p)),
     (''failures'', JNum (pl_failures p))] @
     optionalField ''host'' (\<lambda>h. JObj (hostFields h)) (pl_host p))"

definition markerJson :: "marker \<Rightarrow> json" where
  "markerJson m = JObj [(''channelId'', JStr (mk_channelId m)),
     (''channelRevision'', JNum (mk_channelRevision m)),
     (''failure'', JStr (admissionName (mk_failure m))),
     (''recovery'', nullable (\<lambda>a. JStr (admissionName a)) (mk_recovery m))]"

definition incidentJson :: "incident \<Rightarrow> json" where
  "incidentJson i = JObj ([(''id'', JStr (in_id i)),
     (''category'', JStr (categoryName (in_category i))),
     (''resourceId'', JStr (in_resourceId i)), (''severity'', JStr (severityName (in_severity i))),
     (''startedAt'', JNum (in_startedAt i)), (''observedAt'', JNum (in_observedAt i)),
     (''evidence'', JStr (in_evidence i)), (''failures'', JNum (in_failures i))] @
     optionalField ''code'' (\<lambda>_. JStr ''certificate_renewal_manual_dns_required'') (in_code i) @
     [(''recoveredAt'', nullable JNum (in_recoveredAt i)),
      (''recoveryEvidence'', nullable JStr (in_recoveryEvidence i)),
      (''channels'', JArr (map markerJson (in_channels i)))] @
     optionalField ''host'' hostContextJson (in_host i))"

definition deliveryJson :: "delivery \<Rightarrow> json" where
  "deliveryJson d = JObj ([(''id'', JStr (dl_id d)), (''channelId'', JStr (dl_channelId d)),
     (''channelRevision'', JNum (dl_channelRevision d)),
     (''payload'', payloadJson (dl_payload d)), (''status'', JStr (statusName (dl_status d))),
     (''attempts'', JNum (dl_attempts d))] @
     optionalField ''backupAvailableAt'' JNum (dl_backupAvailableAt d) @
     [(''createdAt'', JNum (dl_createdAt d)), (''updatedAt'', JNum (dl_updatedAt d)),
      (''nextAttemptAt'', JNum (dl_nextAttemptAt d)),
      (''leaseToken'', nullable JStr (dl_leaseToken d)),
      (''leaseExpiresAt'', nullable JNum (dl_leaseExpiresAt d)),
      (''error'', nullable (\<lambda>e. JStr (errorName e)) (dl_error d))])"

definition stateJson :: "notification_state \<Rightarrow> json" where
  "stateJson s = JObj [(''version'', JNum 1),
     (''proxyApplyPending'', nullable (\<lambda>p. JObj [
        (''desiredRevision'', JStr (pa_desiredRevision p)), (''since'', JNum (pa_since p)),
        (''observedAt'', JNum (pa_observedAt p))]) (st_proxyApplyPending s)),
     (''incidents'', JArr (map incidentJson (st_incidents s))),
     (''deliveries'', JArr (map deliveryJson (st_deliveries s))),
     (''deferredCount'', JNum (st_deferredCount s)),
     (''saturationCount'', JNum (st_saturationCount s))]"

end
