(* ===== verification/MonitoringState.thy ===== *)
theory MonitoringState
  imports NotificationTypes
begin

text \<open>
  The state machine behind host availability: how a diagnostic result is classified and how a streak
  of outcomes confirms an outage or a recovery.
  Sources: \<^verbatim>\<open>web/src/lib/HostMonitoring/state.ts\<close>, the result schema in
  \<^verbatim>\<open>web/src/lib/RuntimeDiagnostics/domainDiagnostics.ts\<close>, the tables and their check constraints in
  \<^verbatim>\<open>web/src/db/Schema/hostMonitoring.ts\<close>, the view in
  \<^verbatim>\<open>web/src/server/HostMonitoring/host-monitoring.service.ts\<close>. Times are milliseconds.
\<close>

section \<open>Outcomes\<close>

datatype mon_state = MUnknown | MHealthy | MUnhealthy

datatype outcome_code = OcExpectedStatus | OcUnexpectedStatus | OcUpstreamUnreachable
  | OcUpstreamTimeout | OcUpstreamDnsFailed | OcTlsFailed | OcConfigurationStale
  | OcConfigurationChanged | OcHostNotActive | OcRuntimeUnavailable | OcBusy | OcInvalidResponse

fun outcomeCodeName :: "outcome_code \<Rightarrow> string" where
  "outcomeCodeName OcExpectedStatus = ''expected_status''"
| "outcomeCodeName OcUnexpectedStatus = ''unexpected_status''"
| "outcomeCodeName OcUpstreamUnreachable = ''upstream_unreachable''"
| "outcomeCodeName OcUpstreamTimeout = ''upstream_timeout''"
| "outcomeCodeName OcUpstreamDnsFailed = ''upstream_dns_failed''"
| "outcomeCodeName OcTlsFailed = ''tls_failed''"
| "outcomeCodeName OcConfigurationStale = ''configuration_stale''"
| "outcomeCodeName OcConfigurationChanged = ''configuration_changed''"
| "outcomeCodeName OcHostNotActive = ''host_not_active''"
| "outcomeCodeName OcRuntimeUnavailable = ''runtime_unavailable''"
| "outcomeCodeName OcBusy = ''busy''"
| "outcomeCodeName OcInvalidResponse = ''invalid_response''"

record outcome =
  oc_status :: mon_state
  oc_code :: outcome_code
  oc_durationMs :: "int option"
  oc_httpStatus :: "int option"

definition unknownHostMonitoringOutcome :: "outcome_code \<Rightarrow> outcome" where
  "unknownHostMonitoringOutcome code =
     \<lparr>oc_status = MUnknown, oc_code = code, oc_durationMs = None, oc_httpStatus = None\<rparr>"

section \<open>Diagnostic results\<close>

datatype stage_code = ConfigurationActive | ConfigurationStale | ConfigurationChanged
  | HostNotActive | RuntimeUnavailable | Skipped | DnsResolved | DnsNotFound | DnsFailed
  | DnsTimeout | WildcardDomain | UpstreamResponded | UpstreamUnreachable | UpstreamTimeout
  | UpstreamDnsFailed | AccessDenied | UpstreamError | RedirectNotFollowed | UnexpectedStatus
  | TlsVerified | TlsVerificationDisabled | TlsFailed | TlsUnconfirmed | HttpUpstream | RedirectHost

datatype stage_status = Passed | SFailed | SUnknown | NotApplicable

record stage =
  sg_status :: stage_status
  sg_code :: stage_code
  sg_durationMs :: int
  sg_addresses :: "string list"
  sg_httpStatus :: "int option"

datatype host_type = ProxyHost | RedirectHostType

record diagnostics =
  dg_hostType :: host_type
  dg_hostId :: string
  dg_domain :: string
  dg_expectedRevision :: string
  dg_activeRevision :: "string option"
  dg_configuration :: stage
  dg_dns :: stage
  dg_upstream :: stage
  dg_tls :: stage

fun statusByCode :: "stage_code \<Rightarrow> stage_status" where
  "statusByCode ConfigurationActive = Passed"
| "statusByCode ConfigurationStale = SUnknown"
| "statusByCode ConfigurationChanged = SUnknown"
| "statusByCode HostNotActive = SUnknown"
| "statusByCode RuntimeUnavailable = SUnknown"
| "statusByCode Skipped = SUnknown"
| "statusByCode DnsResolved = Passed"
| "statusByCode DnsNotFound = SFailed"
| "statusByCode DnsFailed = SFailed"
| "statusByCode DnsTimeout = SFailed"
| "statusByCode WildcardDomain = NotApplicable"
| "statusByCode UpstreamResponded = Passed"
| "statusByCode UpstreamUnreachable = SFailed"
| "statusByCode UpstreamTimeout = SFailed"
| "statusByCode UpstreamDnsFailed = SFailed"
| "statusByCode AccessDenied = SFailed"
| "statusByCode UpstreamError = SFailed"
| "statusByCode RedirectNotFollowed = SUnknown"
| "statusByCode UnexpectedStatus = SUnknown"
| "statusByCode TlsVerified = Passed"
| "statusByCode TlsVerificationDisabled = SUnknown"
| "statusByCode TlsFailed = SFailed"
| "statusByCode TlsUnconfirmed = SUnknown"
| "statusByCode HttpUpstream = NotApplicable"
| "statusByCode RedirectHost = NotApplicable"

definition configurationCodes :: "stage_code list" where
  "configurationCodes = [ConfigurationActive, ConfigurationStale, ConfigurationChanged,
     HostNotActive, RuntimeUnavailable]"

definition dnsCodes :: "stage_code list" where
  "dnsCodes = [DnsResolved, DnsNotFound, DnsFailed, DnsTimeout, WildcardDomain, Skipped]"

definition upstreamCodes :: "stage_code list" where
  "upstreamCodes = [UpstreamResponded, UpstreamUnreachable, UpstreamTimeout, UpstreamDnsFailed,
     AccessDenied, UpstreamError, RedirectNotFollowed, UnexpectedStatus, RedirectHost,
     WildcardDomain, Skipped]"

definition tlsCodes :: "stage_code list" where
  "tlsCodes = [TlsVerified, TlsVerificationDisabled, TlsFailed, TlsUnconfirmed, HttpUpstream,
     RedirectHost, WildcardDomain, Skipped]"

definition expectedHttpCode :: "int \<Rightarrow> stage_code" where
  "expectedHttpCode http =
     (if http \<ge> 200 \<and> http < 300 then UpstreamResponded
      else if http \<ge> 300 \<and> http < 400 then RedirectNotFollowed
      else if http = 401 \<or> http = 403 then AccessDenied
      else if http \<ge> 500 then UpstreamError
      else UnexpectedStatus)"

definition stageFieldsOk :: "stage \<Rightarrow> bool" where
  "stageFieldsOk sg \<longleftrightarrow> 0 \<le> sg_durationMs sg \<and> sg_durationMs sg \<le> 12000 \<and>
     length (sg_addresses sg) \<le> 16 \<and> distinct (sg_addresses sg) \<and>
     (case sg_httpStatus sg of None \<Rightarrow> True | Some h \<Rightarrow> 100 \<le> h \<and> h \<le> 599)"

definition stageRuleOk :: "stage_code list \<Rightarrow> bool \<Rightarrow> bool \<Rightarrow> stage \<Rightarrow> bool" where
  "stageRuleOk codes isDns isUpstream sg \<longleftrightarrow>
     contains codes (sg_code sg) \<and> sg_status sg = statusByCode (sg_code sg) \<and>
     (isDns \<or> sg_addresses sg = []) \<and> (isUpstream \<or> sg_httpStatus sg = None)"

text \<open>The cross-field rules of \<^verbatim>\<open>domainDiagnosticsResultSchema\<close>.\<close>

definition diagnosticsOk :: "diagnostics \<Rightarrow> bool" where
  "diagnosticsOk g \<longleftrightarrow>
     stageFieldsOk (dg_configuration g) \<and> stageFieldsOk (dg_dns g) \<and>
     stageFieldsOk (dg_upstream g) \<and> stageFieldsOk (dg_tls g) \<and>
     stageRuleOk configurationCodes False False (dg_configuration g) \<and>
     stageRuleOk dnsCodes True False (dg_dns g) \<and>
     stageRuleOk upstreamCodes False True (dg_upstream g) \<and>
     stageRuleOk tlsCodes False False (dg_tls g) \<and>
     (sg_code (dg_dns g) = DnsResolved \<longleftrightarrow> sg_addresses (dg_dns g) \<noteq> []) \<and>
     (case sg_httpStatus (dg_upstream g) of
        Some http \<Rightarrow> sg_code (dg_upstream g) = expectedHttpCode http
      | None \<Rightarrow> \<not> contains [UpstreamResponded, RedirectNotFollowed, AccessDenied, UpstreamError,
          UnexpectedStatus] (sg_code (dg_upstream g))) \<and>
     (if sg_code (dg_configuration g) = ConfigurationActive
      then dg_activeRevision g = Some (dg_expectedRevision g) \<and>
        (if take 2 (dg_domain g) = ''*.''
         then sg_code (dg_dns g) = WildcardDomain \<and> sg_code (dg_upstream g) = WildcardDomain \<and>
           sg_code (dg_tls g) = WildcardDomain
         else if dg_hostType g = RedirectHostType
         then sg_code (dg_upstream g) = RedirectHost \<and> sg_code (dg_tls g) = RedirectHost
         else \<not> contains [RedirectHost, WildcardDomain] (sg_code (dg_upstream g)) \<and>
           \<not> contains [RedirectHost, WildcardDomain] (sg_code (dg_tls g)))
      else sg_code (dg_dns g) = Skipped \<and> sg_code (dg_upstream g) = Skipped \<and>
        sg_code (dg_tls g) = Skipped) \<and>
     (sg_code (dg_tls g) = TlsVerified \<longrightarrow> sg_httpStatus (dg_upstream g) \<noteq> None)"

text \<open>\<open>None\<close> is a result of another shape, which the schema refuses.\<close>

definition classifyHostMonitoringOutcome :: "diagnostics option \<Rightarrow> int \<Rightarrow> outcome" where
  "classifyHostMonitoringOutcome raw expectedStatus =
     (case raw of
        None \<Rightarrow> unknownHostMonitoringOutcome OcInvalidResponse
      | Some g \<Rightarrow>
          if \<not> diagnosticsOk g \<or> expectedStatus < 100 \<or> expectedStatus > 599
          then unknownHostMonitoringOutcome OcInvalidResponse
          else if sg_code (dg_configuration g) \<noteq> ConfigurationActive
          then (case sg_code (dg_configuration g) of
              ConfigurationStale \<Rightarrow> unknownHostMonitoringOutcome OcConfigurationStale
            | ConfigurationChanged \<Rightarrow> unknownHostMonitoringOutcome OcConfigurationChanged
            | HostNotActive \<Rightarrow> unknownHostMonitoringOutcome OcHostNotActive
            | RuntimeUnavailable \<Rightarrow> unknownHostMonitoringOutcome OcRuntimeUnavailable
            | _ \<Rightarrow> unknownHostMonitoringOutcome OcInvalidResponse)
          else
            let durationMs = Some (sg_durationMs (dg_upstream g)) in
            if sg_code (dg_tls g) = TlsFailed
            then \<lparr>oc_status = MUnhealthy, oc_code = OcTlsFailed, oc_durationMs = durationMs,
                  oc_httpStatus = None\<rparr>
            else (case sg_httpStatus (dg_upstream g) of
                Some http \<Rightarrow>
                  let accepted = (http = expectedStatus \<or>
                        (expectedStatus = 200 \<and> http \<ge> 200 \<and> http < 400))
                  in \<lparr>oc_status = (if accepted then MHealthy else MUnhealthy),
                      oc_code = (if accepted then OcExpectedStatus else OcUnexpectedStatus),
                      oc_durationMs = durationMs, oc_httpStatus = Some http\<rparr>
              | None \<Rightarrow>
                  (case sg_code (dg_upstream g) of
                     UpstreamUnreachable \<Rightarrow> \<lparr>oc_status = MUnhealthy, oc_code = OcUpstreamUnreachable,
                       oc_durationMs = durationMs, oc_httpStatus = None\<rparr>
                   | UpstreamTimeout \<Rightarrow> \<lparr>oc_status = MUnhealthy, oc_code = OcUpstreamTimeout,
                       oc_durationMs = durationMs, oc_httpStatus = None\<rparr>
                   | UpstreamDnsFailed \<Rightarrow> \<lparr>oc_status = MUnhealthy, oc_code = OcUpstreamDnsFailed,
                       oc_durationMs = durationMs, oc_httpStatus = None\<rparr>
                   | _ \<Rightarrow> unknownHostMonitoringOutcome OcInvalidResponse)))"

section \<open>Streaks\<close>

record snapshot =
  sn_state :: mon_state
  sn_failureCount :: int
  sn_recoveryCount :: int
  sn_failureStartedAt :: "int option"
  sn_recoveryStartedAt :: "int option"

datatype mon_transition_kind = OutageTransition | RecoveryTransition

record mon_transition =
  mt_kind :: mon_transition_kind
  mt_firstObservedAt :: int
  mt_confirmedAt :: int
  mt_code :: outcome_code

record thresholds =
  th_failureThreshold :: int
  th_recoveryThreshold :: int

definition cleared :: "mon_state \<Rightarrow> snapshot" where
  "cleared st = \<lparr>sn_state = st, sn_failureCount = 0, sn_recoveryCount = 0,
     sn_failureStartedAt = None, sn_recoveryStartedAt = None\<rparr>"

definition advanceHostMonitoringState :: "snapshot \<Rightarrow> outcome \<Rightarrow> thresholds \<Rightarrow> int \<Rightarrow>
    snapshot \<times> mon_transition option" where
  "advanceHostMonitoringState previous oc th now =
     (case oc_status oc of
        MUnknown \<Rightarrow> (cleared (sn_state previous), None)
      | MHealthy \<Rightarrow>
          if sn_state previous \<noteq> MUnhealthy then (cleared MHealthy, None)
          else
            let count = min (sn_recoveryCount previous + 1) (th_recoveryThreshold th);
                firstObservedAt = (case sn_recoveryStartedAt previous of Some t \<Rightarrow> t | None \<Rightarrow> now)
            in if count < th_recoveryThreshold th
               then ((cleared MUnhealthy)\<lparr>sn_recoveryCount := count,
                       sn_recoveryStartedAt := Some firstObservedAt\<rparr>, None)
               else (cleared MHealthy,
                     Some \<lparr>mt_kind = RecoveryTransition, mt_firstObservedAt = firstObservedAt,
                           mt_confirmedAt = now, mt_code = oc_code oc\<rparr>)
      | MUnhealthy \<Rightarrow>
          if sn_state previous = MUnhealthy then (cleared MUnhealthy, None)
          else
            let count = min (sn_failureCount previous + 1) (th_failureThreshold th);
                firstObservedAt = (case sn_failureStartedAt previous of Some t \<Rightarrow> t | None \<Rightarrow> now)
            in if count < th_failureThreshold th
               then ((cleared (sn_state previous))\<lparr>sn_failureCount := count,
                       sn_failureStartedAt := Some firstObservedAt\<rparr>, None)
               else (cleared MUnhealthy,
                     Some \<lparr>mt_kind = OutageTransition, mt_firstObservedAt = firstObservedAt,
                           mt_confirmedAt = now, mt_code = oc_code oc\<rparr>))"

text \<open>The check constraint on streaks.\<close>

definition streaksOk :: "thresholds \<Rightarrow> snapshot \<Rightarrow> bool" where
  "streaksOk th sn \<longleftrightarrow>
     0 \<le> sn_failureCount sn \<and> sn_failureCount sn \<le> th_failureThreshold th \<and>
     0 \<le> sn_recoveryCount sn \<and> sn_recoveryCount sn \<le> th_recoveryThreshold th \<and>
     (sn_failureCount sn = 0 \<longleftrightarrow> sn_failureStartedAt sn = None) \<and>
     (sn_recoveryCount sn = 0 \<longleftrightarrow> sn_recoveryStartedAt sn = None)"

definition thresholdsOk :: "thresholds \<Rightarrow> bool" where
  "thresholdsOk th \<longleftrightarrow> 1 \<le> th_failureThreshold th \<and> th_failureThreshold th \<le> 20 \<and>
     1 \<le> th_recoveryThreshold th \<and> th_recoveryThreshold th \<le> 20"

text \<open>Open streaks are shorter than their threshold and belong to the state they may end.\<close>

definition streaksOpen :: "thresholds \<Rightarrow> snapshot \<Rightarrow> bool" where
  "streaksOpen th sn \<longleftrightarrow> streaksOk th sn \<and>
     sn_failureCount sn < th_failureThreshold th \<and> sn_recoveryCount sn < th_recoveryThreshold th \<and>
     (sn_state sn = MUnhealthy \<longrightarrow> sn_failureCount sn = 0) \<and>
     (sn_state sn \<noteq> MUnhealthy \<longrightarrow> sn_recoveryCount sn = 0)"

fun runOutcomes :: "thresholds \<Rightarrow> (outcome \<times> int) list \<Rightarrow> snapshot \<Rightarrow>
    snapshot \<times> mon_transition list" where
  "runOutcomes th [] sn = (sn, [])"
| "runOutcomes th ((oc, now) # ocs) sn =
     (let (sn', tr) = advanceHostMonitoringState sn oc th now; (sn'', trs) = runOutcomes th ocs sn'
      in (sn'', (case tr of None \<Rightarrow> trs | Some t \<Rightarrow> t # trs)))"

lemma streaksOpen_advance:
  assumes "thresholdsOk th" "streaksOpen th sn"
  shows "streaksOpen th (fst (advanceHostMonitoringState sn oc th now))"
  using assms
  by (auto simp: advanceHostMonitoringState_def streaksOpen_def streaksOk_def thresholdsOk_def
      cleared_def Let_def split: mon_state.splits)

lemma streaksOpen_cleared: "thresholdsOk th \<Longrightarrow> streaksOpen th (cleared st)"
  by (auto simp: streaksOpen_def streaksOk_def cleared_def thresholdsOk_def)

section \<open>Properties\<close>

fun alternating :: "mon_transition_kind \<Rightarrow> mon_transition_kind list \<Rightarrow> bool" where
  "alternating k [] = True"
| "alternating k (x # xs) = (x = k \<and>
     alternating (case k of OutageTransition \<Rightarrow> RecoveryTransition | RecoveryTransition \<Rightarrow> OutageTransition) xs)"

definition nextTransition :: "mon_state \<Rightarrow> mon_transition_kind" where
  "nextTransition st = (if st = MUnhealthy then RecoveryTransition else OutageTransition)"

lemma advance_transition:
  assumes "advanceHostMonitoringState sn oc th now = (sn', tr)"
  shows "case tr of
      None \<Rightarrow> (sn_state sn' = MUnhealthy \<longleftrightarrow> sn_state sn = MUnhealthy)
    | Some t \<Rightarrow> mt_kind t = nextTransition (sn_state sn) \<and>
        nextTransition (sn_state sn') = (case mt_kind t of OutageTransition \<Rightarrow> RecoveryTransition
          | RecoveryTransition \<Rightarrow> OutageTransition) \<and> mt_confirmedAt t = now"
  using assms
  by (auto simp: advanceHostMonitoringState_def nextTransition_def cleared_def Let_def
      split: mon_state.splits if_splits)

text \<open>
  Claim C13: outages and recoveries alternate. Whatever probes are run and in whatever order, a host
  that is not known to be down reports an outage first, then a recovery, then an outage again, so a
  recovery is never reported without the outage it ends.
\<close>

theorem outages_and_recoveries_alternate:
  "alternating (nextTransition (sn_state sn)) (map mt_kind (snd (runOutcomes th ocs sn)))"
proof (induction ocs arbitrary: sn)
  case (Cons o_now ocs)
  obtain oc now where o_now: "o_now = (oc, now)" by force
  obtain sn' tr where a: "advanceHostMonitoringState sn oc th now = (sn', tr)" by force
  from advance_transition [OF a] Cons [of sn'] show ?case
    by (cases tr) (auto simp: o_now a nextTransition_def split: prod.splits)
qed simp

lemma failing_streak:
  assumes "thresholdsOk th" "st \<noteq> MUnhealthy" "\<forall>oc \<in> set ocs. oc_status (fst oc) = MUnhealthy"
    and "0 \<le> n" "n < th_failureThreshold th" "n = 0 \<longleftrightarrow> since = None"
  shows "runOutcomes th ocs ((cleared st)\<lparr>sn_failureCount := n, sn_failureStartedAt := since\<rparr>) =
    (let first = (case since of Some t \<Rightarrow> t | None \<Rightarrow> snd (hd ocs));
         k = nat (th_failureThreshold th - n) - 1
     in if int (length ocs) + n < th_failureThreshold th
        then ((cleared st)\<lparr>sn_failureCount := n + int (length ocs),
               sn_failureStartedAt := (if ocs = [] then since else Some first)\<rparr>, [])
        else (cleared MUnhealthy, [\<lparr>mt_kind = OutageTransition, mt_firstObservedAt = first,
               mt_confirmedAt = snd (ocs ! k), mt_code = oc_code (fst (ocs ! k))\<rparr>]))"
  using assms(3-)
proof (induction ocs arbitrary: n since)
  case Nil
  then show ?case by (simp add: cleared_def)
next
  case (Cons o_now ocs)
  obtain oc now where o_now: "o_now = (oc, now)" by force
  have bad: "oc_status oc = MUnhealthy" using Cons.prems(1) o_now by simp
  let ?first = "case since of Some t \<Rightarrow> t | None \<Rightarrow> now"
  let ?sn = "(cleared st)\<lparr>sn_failureCount := n, sn_failureStartedAt := since\<rparr>"
  have down: "runOutcomes th xs (cleared MUnhealthy) = (cleared MUnhealthy, [])"
    if "\<forall>oc \<in> set xs. oc_status (fst oc) = MUnhealthy" for xs
    using that by (induction xs) (auto simp: advanceHostMonitoringState_def cleared_def)
  show ?case
  proof (cases "n + 1 < th_failureThreshold th")
    case True
    have "advanceHostMonitoringState ?sn oc th now =
        ((cleared st)\<lparr>sn_failureCount := n + 1, sn_failureStartedAt := Some ?first\<rparr>, None)"
      using bad assms(2) True Cons.prems(2) by (simp add: advanceHostMonitoringState_def Let_def cleared_def)
    moreover have "nat (th_failureThreshold th - n) - 1 = Suc (nat (th_failureThreshold th - (n + 1)) - 1)"
      using True by (simp add: Suc_nat_eq_nat_zadd1 nat_diff_distrib')
    ultimately show ?thesis
      using Cons.IH [of "n + 1" "Some ?first"] Cons.prems o_now True
      by (auto simp: Let_def add.assoc add.commute split: prod.splits)
  next
    case False
    then have thr: "th_failureThreshold th = n + 1" using Cons.prems(3) by simp
    then have "advanceHostMonitoringState ?sn oc th now =
        (cleared MUnhealthy, Some \<lparr>mt_kind = OutageTransition, mt_firstObservedAt = ?first,
           mt_confirmedAt = now, mt_code = oc_code oc\<rparr>)"
      using bad assms(2) Cons.prems(2) by (simp add: advanceHostMonitoringState_def Let_def cleared_def)
    moreover have "runOutcomes th ocs (cleared MUnhealthy) = (cleared MUnhealthy, [])"
      by (rule down) (use Cons.prems(1) in simp)
    ultimately show ?thesis using thr o_now by (simp add: Let_def split: option.split)
  qed
qed


definition sampleFailure :: outcome where
  "sampleFailure = \<lparr>oc_status = MUnhealthy, oc_code = OcUpstreamTimeout, oc_durationMs = Some 3000,
     oc_httpStatus = None\<rparr>"


end
