(* ===== verification/IncidentEngine.thy ===== *)
theory IncidentEngine
  imports NotificationTypes
begin

text \<open>
  The incident engine of the notification subsystem,
  \<^verbatim>\<open>web/src/server/Notifications/incident-engine.ts\<close>: how observations open, update, supersede and
  close incidents; how incidents are admitted as queued deliveries to the configured channels;
  how a delivery is leased to a sender, acknowledged, retried and terminated.

  The code works on a \<^verbatim>\<open>structuredClone\<close> of the state and mutates it; the model passes the state
  explicitly. \<^verbatim>\<open>makeId\<close> is a counter threaded beside the state. Loops over \<^verbatim>\<open>state.deliveries\<close>
  that may also change an incident's markers are \<open>sweep\<close>.
\<close>

section \<open>Markers and owed recoveries\<close>

definition markerOf :: "channel_policy \<Rightarrow> marker \<Rightarrow> bool" where
  "markerOf ch m \<longleftrightarrow> mk_channelId m = ch_id ch \<and> mk_channelRevision m = ch_revision ch"

definition deferredHostFailure :: "incident \<Rightarrow> channel_policy \<Rightarrow> bool" where
  "deferredHostFailure i ch \<longleftrightarrow>
     in_category i = HostAvailability \<and>
     (case in_recoveredAt i of None \<Rightarrow> False | Some recoveredAt \<Rightarrow>
        (case in_host i of None \<Rightarrow> False | Some h \<Rightarrow>
           (case hc_subscriptions h of None \<Rightarrow> False | Some subs \<Rightarrow>
              some_elem (\<lambda>su. su_channelId su = ch_id ch \<and> su_channelRevision su = ch_revision ch) subs)) \<and>
        \<not> some_elem (markerOf ch) (in_channels i) \<and>
        ch_enabled ch \<and>
        contains (ch_events ch) (in_category i) \<and>
        severityIndex (in_severity i) \<ge> severityIndex (ch_minimumSeverity ch) \<and>
        recoveredAt - in_startedAt i \<ge> ch_thresholdSeconds ch * 1000)"

definition recoveryOwed :: "incident \<Rightarrow> engine_configuration \<Rightarrow> bool" where
  "recoveryOwed i cfg \<longleftrightarrow>
     some_elem (deferredHostFailure i) (cf_channels cfg) \<or>
     (in_recoveredAt i \<noteq> None \<and>
      some_elem (\<lambda>m. mk_failure m = ASucceeded \<and> mk_recovery m = None \<and>
        some_elem (\<lambda>ch. markerOf ch m \<and> ch_enabled ch \<and>
          contains (ch_events ch) (in_category i) \<and> ch_recovery ch) (cf_channels cfg))
        (in_channels i))"

definition createNotificationState :: notification_state where
  "createNotificationState = \<lparr>st_proxyApplyPending = None, st_incidents = [], st_deliveries = [],
     st_deferredCount = 0, st_saturationCount = 0\<rparr>"

definition deliveryLifetimeStartedAt :: "delivery \<Rightarrow> int" where
  "deliveryLifetimeStartedAt d =
     (if pl_category (dl_payload d) = Backup
      then (case dl_backupAvailableAt d of Some t \<Rightarrow> t | None \<Rightarrow> dl_createdAt d)
      else dl_createdAt d)"

definition isActive :: "delivery \<Rightarrow> bool" where
  "isActive d \<longleftrightarrow> dl_status d = Pending \<or> dl_status d = Inflight"

section \<open>Terminating a delivery\<close>

definition markTerminal :: "delivery \<Rightarrow> incident list \<Rightarrow> incident list" where
  "markTerminal d incs =
     (if pl_type (dl_payload d) = TTest then incs
      else update_first (\<lambda>i. in_id i = pl_incidentId (dl_payload d))
        (\<lambda>i. i\<lparr>in_channels := update_first
           (\<lambda>m. mk_channelId m = dl_channelId d \<and> mk_channelRevision m = dl_channelRevision d)
           (\<lambda>m. let status = (if dl_status d = Succeeded then ASucceeded else AFailed) in
              if pl_type (dl_payload d) = TIncident then m\<lparr>mk_failure := status\<rparr>
              else m\<lparr>mk_recovery := Some status\<rparr>)
           (in_channels i)\<rparr>) incs)"

definition terminate :: "delivery_status \<Rightarrow> int \<Rightarrow> delivery \<Rightarrow> incident list \<Rightarrow>
    delivery \<times> incident list" where
  "terminate status now d incs =
     (let leaseLost = (dl_status d = Inflight);
          d' = d\<lparr>dl_status := status,
                 dl_error := Some (if status = Cancelled then CancelledError
                   else if leaseLost then Timeout
                   else (case dl_error d of Some e \<Rightarrow> e | None \<Rightarrow> Timeout)),
                 dl_updatedAt := now, dl_leaseToken := None, dl_leaseExpiresAt := None\<rparr>
      in (d', markTerminal d' incs))"

definition isSupersededManualDelivery :: "incident list \<Rightarrow> delivery \<Rightarrow> bool" where
  "isSupersededManualDelivery incs d \<longleftrightarrow>
     pl_code (dl_payload d) = CCertificateRenewalManualDnsRequired \<and>
     (case find (\<lambda>i. in_id i = pl_incidentId (dl_payload d)) incs of
        None \<Rightarrow> False
      | Some i \<Rightarrow> in_recoveredAt i \<noteq> None \<and>
          some_elem (\<lambda>m. mk_channelId m = dl_channelId d \<and>
            mk_channelRevision m = dl_channelRevision d \<and> mk_recovery m = Some AFailed)
            (in_channels i))"

text \<open>A loop over the deliveries whose body may also change the incidents' markers.\<close>

fun sweep :: "(delivery \<Rightarrow> incident list \<Rightarrow> delivery \<times> incident list) \<Rightarrow> delivery list \<Rightarrow>
    incident list \<Rightarrow> delivery list \<times> incident list" where
  "sweep f [] incs = ([], incs)"
| "sweep f (d # ds) incs =
     (let (d', incs') = f d incs; (ds', incs'') = sweep f ds incs' in (d' # ds', incs''))"

section \<open>Reconciliation\<close>

definition retryDelay :: "int \<Rightarrow> int" where
  "retryDelay attempts =
     min LIMIT_retryMaximumMs (LIMIT_retryInitialMs * 2 ^ nat (max 0 (attempts - 1)))"

definition channelAllows :: "engine_configuration \<Rightarrow> delivery \<Rightarrow> bool" where
  "channelAllows cfg d \<longleftrightarrow> cf_enabled cfg \<and> \<not> cf_pausedAfterRestore cfg \<and>
     some_elem (\<lambda>ch. ch_enabled ch \<and> ch_id ch = dl_channelId d \<and>
       ch_revision ch = dl_channelRevision d \<and>
       contains (ch_events ch) (pl_category (dl_payload d))) (cf_channels cfg)"

definition leaseHeld :: "int \<Rightarrow> delivery \<Rightarrow> bool" where
  "leaseHeld now d \<longleftrightarrow> dl_status d = Inflight \<and>
     (case dl_leaseExpiresAt d of None \<Rightarrow> False | Some t \<Rightarrow> t > now)"

definition reconcileDelivery :: "engine_configuration \<Rightarrow> int \<Rightarrow> delivery \<Rightarrow> incident list \<Rightarrow>
    delivery \<times> incident list" where
  "reconcileDelivery cfg now d incs =
     (if \<not> isActive d then (d, incs)
      else if leaseHeld now d then (d, incs)
      else if \<not> channelAllows cfg d \<or> isSupersededManualDelivery incs d
        then terminate Cancelled now d incs
      else if pl_type (dl_payload d) = TTest then terminate Failed now d incs
      else if now - deliveryLifetimeStartedAt d \<ge> LIMIT_deliveryLifetimeMs \<or>
              dl_attempts d \<ge> LIMIT_attempts
        then terminate Failed now d incs
      else if dl_status d = Inflight
        then (d\<lparr>dl_status := Pending, dl_leaseToken := None, dl_leaseExpiresAt := None,
                dl_nextAttemptAt := now + retryDelay (dl_attempts d), dl_updatedAt := now\<rparr>, incs)
      else (d, incs))"

definition pruneMarkers :: "engine_configuration \<Rightarrow> incident \<Rightarrow> incident" where
  "pruneMarkers cfg i = i\<lparr>in_channels := filter (\<lambda>m. some_elem (\<lambda>ch. markerOf ch m) (cf_channels cfg))
     (in_channels i)\<rparr>"

definition keepIncident :: "engine_configuration \<Rightarrow> int \<Rightarrow> delivery list \<Rightarrow> incident \<Rightarrow> bool" where
  "keepIncident cfg now ds i \<longleftrightarrow>
     (case in_recoveredAt i of None \<Rightarrow> True | Some t \<Rightarrow> now - t < LIMIT_retentionMs) \<or>
     recoveryOwed i cfg \<or>
     some_elem (\<lambda>d. isActive d \<and> pl_incidentId (dl_payload d) = in_id i) ds"

definition reconcile :: "engine_configuration \<Rightarrow> int \<Rightarrow> notification_state \<Rightarrow> notification_state" where
  "reconcile cfg now s =
     (let (ds, incs) = sweep (reconcileDelivery cfg now) (st_deliveries s) (st_incidents s);
          incs1 = map (pruneMarkers cfg) incs;
          ds1 = filter (\<lambda>d. isActive d \<or> now - dl_updatedAt d < LIMIT_retentionMs) ds;
          incs2 = filter (keepIncident cfg now ds1) incs1
      in s\<lparr>st_deferredCount := 0, st_deliveries := ds1, st_incidents := incs2\<rparr>)"

section \<open>Admission under the capacity limits\<close>

definition reserveNotificationDeliverySlot :: "notification_state \<Rightarrow> notification_state option" where
  "reserveNotificationDeliverySlot s =
     (if length (st_deliveries s) < LIMIT_deliveries then Some s
      else (case find_index (\<lambda>d. \<not> isActive d) (st_deliveries s) of
              None \<Rightarrow> None
            | Some _ \<Rightarrow> Some (s\<lparr>st_deliveries := remove_first (\<lambda>d. \<not> isActive d) (st_deliveries s)\<rparr>)))"

definition deferAdmission :: "notification_state \<Rightarrow> notification_state" where
  "deferAdmission s = s\<lparr>st_deferredCount := st_deferredCount s + 1,
     st_saturationCount := min MAX_SAFE_INTEGER (st_saturationCount s + 1)\<rparr>"

definition withinStateLimit :: "notification_state \<Rightarrow> bool" where
  "withinStateLimit s \<longleftrightarrow>
     jsonBytes (stateJson s) \<le> LIMIT_stateBytes - int LIMIT_deliveries * 256"

definition evictable :: "engine_configuration \<Rightarrow> delivery list \<Rightarrow> incident \<Rightarrow> bool" where
  "evictable cfg ds i \<longleftrightarrow> in_recoveredAt i \<noteq> None \<and> \<not> recoveryOwed i cfg \<and>
     \<not> some_elem (\<lambda>d. isActive d \<and> pl_incidentId (dl_payload d) = in_id i) ds"

text \<open>The flag is the boolean the code returns; the state is the mutated argument.\<close>

definition appendNotificationIncident :: "engine_configuration \<Rightarrow> incident \<Rightarrow>
    notification_state \<Rightarrow> bool \<times> notification_state" where
  "appendNotificationIncident cfg i s =
     (let full = (length (st_incidents s) \<ge> LIMIT_incidents);
          victim = find_index (evictable cfg (st_deliveries s)) (st_incidents s)
      in if full \<and> victim = None then (False, deferAdmission s)
         else
           let s1 = (if full then s\<lparr>st_incidents :=
                       remove_first (evictable cfg (st_deliveries s)) (st_incidents s)\<rparr> else s);
               s2 = s1\<lparr>st_incidents := st_incidents s1 @ [i]\<rparr>
           in if withinStateLimit s2 then (True, s2) else (False, deferAdmission s1))"

definition incidentPayload :: "string \<Rightarrow> bool \<Rightarrow> incident \<Rightarrow> payload" where
  "incidentPayload pid recovery i =
     \<lparr>pl_id = pid, pl_incidentId = in_id i,
      pl_type = (if recovery then TRecovery else TIncident),
      pl_category = in_category i,
      pl_severity = (if recovery then Info else Sev (in_severity i)),
      pl_resourceId = in_resourceId i,
      pl_code = (if recovery then COperationRecovered
        else if in_category i = CertificateRenewal
          then (if in_code i = None then CCertificateRenewalFailed
                else CCertificateRenewalManualDnsRequired)
        else if in_category i = Ddns then CDdnsUpdateFailed
        else if in_category i = HostAvailability then CHostUnavailable
        else CProxyApplyFailed),
      pl_occurredAt = toISOString
        (if recovery then (case in_recoveredAt i of Some t \<Rightarrow> t | None \<Rightarrow> 0) else in_observedAt i),
      pl_startedAt = toISOString (in_startedAt i),
      pl_failures = in_failures i,
      pl_host = map_option (\<lambda>h. \<lparr>hn_domain = hn_domain h, hn_failureCode = hn_failureCode h,
          hn_detectedAt = hn_detectedAt h,
          hn_recoveryStartedAt = (if recovery then hn_recoveryStartedAt h else None),
          hn_managementPath = hn_managementPath h, hn_managementUrl = None\<rparr>) (in_host i)\<rparr>"

definition queuedDelivery :: "string \<Rightarrow> channel_policy \<Rightarrow> payload \<Rightarrow> int \<Rightarrow> delivery" where
  "queuedDelivery did ch p now =
     \<lparr>dl_id = did, dl_channelId = ch_id ch, dl_channelRevision = ch_revision ch, dl_payload = p,
      dl_status = Pending, dl_attempts = 0, dl_backupAvailableAt = None, dl_createdAt = now,
      dl_updatedAt = now, dl_nextAttemptAt = now, dl_leaseToken = None, dl_leaseExpiresAt = None,
      dl_error = None\<rparr>"

definition isRecoveryFor :: "incident \<Rightarrow> channel_policy \<Rightarrow> bool" where
  "isRecoveryFor i ch \<longleftrightarrow> in_recoveredAt i \<noteq> None \<and> \<not> deferredHostFailure i ch"

text \<open>The guards of the loop body: whether the code goes on to queue a delivery.\<close>

definition wantsDelivery :: "int \<Rightarrow> incident \<Rightarrow> channel_policy \<Rightarrow> bool" where
  "wantsDelivery now i ch \<longleftrightarrow>
     ch_enabled ch \<and> contains (ch_events ch) (in_category i) \<and>
     (let m = find (markerOf ch) (in_channels i) in
      if isRecoveryFor i ch
      then (case m of None \<Rightarrow> False
            | Some mk \<Rightarrow> mk_failure mk = ASucceeded \<and> mk_recovery mk = None \<and> ch_recovery ch)
      else m = None \<and> contains (ch_events ch) (in_category i) \<and>
        severityIndex (in_severity i) \<ge> severityIndex (ch_minimumSeverity ch) \<and>
        (case in_recoveredAt i of Some t \<Rightarrow> t | None \<Rightarrow> now) - in_startedAt i
          \<ge> ch_thresholdSeconds ch * 1000)"

definition markAdmitted :: "channel_policy \<Rightarrow> incident \<Rightarrow> incident" where
  "markAdmitted ch i =
     i\<lparr>in_channels :=
        (if find (markerOf ch) (in_channels i) = None
         then in_channels i @ [\<lparr>mk_channelId = ch_id ch, mk_channelRevision = ch_revision ch,
                mk_failure = APending, mk_recovery = None\<rparr>]
         else update_first (markerOf ch) (\<lambda>m. m\<lparr>mk_recovery := Some APending\<rparr>) (in_channels i))\<rparr>"

text \<open>
  One iteration of the inner loop, for the incident at position \<open>k\<close>. When the state grows too
  large the code pops the delivery and undoes the marker again: that is the state before them.
\<close>

definition admitOne :: "runtime \<Rightarrow> int \<Rightarrow> nat \<Rightarrow> channel_policy \<Rightarrow>
    notification_state \<times> nat \<Rightarrow> notification_state \<times> nat" where
  "admitOne rt now k ch sn =
     (let (s, n) = sn; i = st_incidents s ! k in
      if \<not> wantsDelivery now i ch then (s, n)
      else (case reserveNotificationDeliverySlot s of
        None \<Rightarrow> (deferAdmission s, n)
      | Some s1 \<Rightarrow>
          let did = rt_makeId rt n; p = incidentPayload did (isRecoveryFor i ch) i in
          if jsonBytes (payloadJson p) > LIMIT_payloadBytes then (deferAdmission s1, Suc n)
          else
            let s2 = s1\<lparr>st_incidents := (st_incidents s1)[k := markAdmitted ch i],
                        st_deliveries := st_deliveries s1 @ [queuedDelivery did ch p now]\<rparr>
            in if withinStateLimit s2 then (s2, Suc n) else (deferAdmission s1, Suc n)))"

definition skipIncident :: "string option \<Rightarrow> incident \<Rightarrow> bool" where
  "skipIncident only i = (case only of Some x \<Rightarrow> x \<noteq> [] \<and> in_id i \<noteq> x | None \<Rightarrow> False)"

definition admitIncident :: "runtime \<Rightarrow> engine_configuration \<Rightarrow> int \<Rightarrow> string option \<Rightarrow> nat \<Rightarrow>
    notification_state \<times> nat \<Rightarrow> notification_state \<times> nat" where
  "admitIncident rt cfg now only k sn =
     (if skipIncident only (st_incidents (fst sn) ! k) then sn
      else fold (admitOne rt now k) (cf_channels cfg) sn)"

definition admitNotificationIncidents :: "runtime \<Rightarrow> engine_configuration \<Rightarrow> int \<Rightarrow>
    string option \<Rightarrow> notification_state \<times> nat \<Rightarrow> notification_state \<times> nat" where
  "admitNotificationIncidents rt cfg now only sn =
     (if \<not> cf_enabled cfg \<or> cf_pausedAfterRestore cfg then sn
      else fold (admitIncident rt cfg now only) [0..<length (st_incidents (fst sn))] sn)"

section \<open>Observations\<close>

definition sameResource :: "observation \<Rightarrow> incident \<Rightarrow> bool" where
  "sameResource ob i \<longleftrightarrow> in_category i = ob_category ob \<and> in_resourceId i = ob_resourceId ob"

definition openFor :: "observation \<Rightarrow> incident \<Rightarrow> bool" where
  "openFor ob i \<longleftrightarrow> sameResource ob i \<and> in_recoveredAt i = None"

definition lastSeen :: "incident \<Rightarrow> int" where
  "lastSeen i = (case in_recoveredAt i of Some t \<Rightarrow> t | None \<Rightarrow> in_observedAt i)"

definition lastObservedAt :: "observation \<Rightarrow> incident list \<Rightarrow> int" where
  "lastObservedAt ob incs = fold max (map lastSeen (filter (sameResource ob) incs)) (-1)"

definition observationUsable :: "observation \<Rightarrow> int \<Rightarrow> int \<Rightarrow> bool" where
  "observationUsable ob observedAt now \<longleftrightarrow>
     isSafeInteger observedAt \<and> 0 \<le> observedAt \<and> observedAt \<le> now \<and>
     \<not> (ob_source ob = Event \<and> now - observedAt \<ge> LIMIT_retentionMs) \<and>
     length (ob_resourceId ob) \<noteq> 0 \<and> length (ob_resourceId ob) \<le> 512 \<and>
     length (ob_evidence ob) \<le> 512 \<and>
     isSafeInteger (ob_failures ob) \<and> 0 \<le> ob_failures ob"

text \<open>
  The branch for proxy configuration signals. The result is the health and start time the rest
  of the loop body works with, or \<open>None\<close> for \<^verbatim>\<open>continue\<close>.
\<close>

definition proxyApplyPhase :: "observation \<Rightarrow> int \<Rightarrow> notification_state \<Rightarrow>
    notification_state \<times> (health \<times> int) option" where
  "proxyApplyPhase ob observedAt s =
     (if ob_category ob \<noteq> ProxyConfiguration then (s, Some (ob_health ob, observedAt))
      else
        let pending = st_proxyApplyPending s in
        if (case pending of None \<Rightarrow> False | Some p \<Rightarrow> observedAt < pa_observedAt p) then (s, None)
        else (case ob_health ob of
            HPending \<Rightarrow>
              (case ob_desiredRevision ob of None \<Rightarrow> (s, None) | Some r \<Rightarrow>
                if r = [] \<or> length r > 128 then (s, None)
                else (case pending of
                    None \<Rightarrow> (s\<lparr>st_proxyApplyPending := Some \<lparr>pa_desiredRevision = r,
                        pa_since = observedAt, pa_observedAt = observedAt\<rparr>\<rparr>, None)
                  | Some p \<Rightarrow>
                      if pa_desiredRevision p \<noteq> r
                      then (s\<lparr>st_proxyApplyPending := Some \<lparr>pa_desiredRevision = r,
                        pa_since = observedAt, pa_observedAt = observedAt\<rparr>\<rparr>, None)
                      else
                        let s' = s\<lparr>st_proxyApplyPending := Some (p\<lparr>pa_observedAt := observedAt\<rparr>)\<rparr> in
                        if observedAt - pa_since p < LIMIT_proxyApplyGraceMs then (s', None)
                        else (s', Some (Failing, pa_since p))))
          | Healthy \<Rightarrow> (s\<lparr>st_proxyApplyPending := None\<rparr>, Some (Healthy, observedAt))
          | Failing \<Rightarrow> (s, Some (Failing, observedAt))))"

text \<open>A replay of a transition that is already closed: same source time, known evidence.\<close>

definition isReplay :: "observation \<Rightarrow> int \<Rightarrow> string \<Rightarrow> incident list \<Rightarrow> bool" where
  "isReplay ob observedAt evidence incs \<longleftrightarrow>
     find_index (openFor ob) incs = None \<and> observedAt = lastObservedAt ob incs \<and>
     some_elem (\<lambda>i. lastSeen i = observedAt \<and>
       (in_evidence i = evidence \<or> in_recoveryEvidence i = Some evidence))
       (filter (sameResource ob) incs)"

definition supersedes :: "observation \<Rightarrow> string \<Rightarrow> incident \<Rightarrow> bool" where
  "supersedes ob evidence i \<longleftrightarrow> in_code i \<noteq> ob_code ob \<or>
     (ob_code ob = Some ManualDnsRequired \<and> in_evidence i \<noteq> evidence)"

definition recoverIncident :: "int \<Rightarrow> string \<Rightarrow> incident \<Rightarrow> incident" where
  "recoverIncident observedAt evidence i =
     i\<lparr>in_recoveredAt := Some observedAt, in_recoveryEvidence := Some evidence\<rparr>"

text \<open>\<^verbatim>\<open>marker.recovery ??= 'failed'\<close> for every marker of the incident.\<close>

definition silenceRecovery :: "incident \<Rightarrow> incident" where
  "silenceRecovery i = i\<lparr>in_channels := map (\<lambda>m. if mk_recovery m = None
     then m\<lparr>mk_recovery := Some AFailed\<rparr> else m) (in_channels i)\<rparr>"

definition cancelPendingOf :: "string \<Rightarrow> int \<Rightarrow> delivery \<Rightarrow> incident list \<Rightarrow>
    delivery \<times> incident list" where
  "cancelPendingOf iid now d incs =
     (if pl_incidentId (dl_payload d) = iid \<and> dl_status d = Pending
      then terminate Cancelled now d incs else (d, incs))"

definition supersedeIncident :: "nat \<Rightarrow> int \<Rightarrow> string \<Rightarrow> int \<Rightarrow> notification_state \<Rightarrow>
    notification_state" where
  "supersedeIncident k observedAt evidence now s =
     (let i = st_incidents s ! k;
          (ds, incs) = sweep (cancelPendingOf (in_id i) now) (st_deliveries s)
             ((st_incidents s)[k := recoverIncident observedAt evidence i])
      in s\<lparr>st_deliveries := ds, st_incidents := incs[k := silenceRecovery (incs ! k)]\<rparr>)"

definition refreshIncident :: "observation \<Rightarrow> int \<Rightarrow> string \<Rightarrow> incident \<Rightarrow> incident" where
  "refreshIncident ob observedAt evidence i =
     i\<lparr>in_code := ob_code ob,
       in_failures := (if in_evidence i \<noteq> evidence
         then min MAX_SAFE_INTEGER (max (in_failures i + 1) (ob_failures ob)) else in_failures i),
       in_evidence := evidence, in_observedAt := observedAt, in_severity := ob_severity ob\<rparr>"

definition newIncident :: "string \<Rightarrow> observation \<Rightarrow> int \<Rightarrow> int \<Rightarrow> string \<Rightarrow> incident" where
  "newIncident iid ob startedAt observedAt evidence =
     \<lparr>in_id = iid, in_category = ob_category ob, in_resourceId = ob_resourceId ob,
      in_severity = ob_severity ob, in_startedAt = startedAt, in_observedAt = observedAt,
      in_evidence = evidence, in_failures = max 1 (ob_failures ob), in_code = ob_code ob,
      in_recoveredAt = None, in_recoveryEvidence = None, in_channels = [], in_host = None\<rparr>"

text \<open>The tail of the loop body, once health and start time are settled.\<close>

definition applySignal :: "runtime \<Rightarrow> engine_configuration \<Rightarrow> int \<Rightarrow> observation \<Rightarrow> int \<Rightarrow> health \<Rightarrow>
    int \<Rightarrow> notification_state \<times> nat \<Rightarrow> notification_state \<times> nat" where
  "applySignal rt cfg now ob observedAt health startedAt sn =
     (let (s, n) = sn;
          incs = st_incidents s;
          evidence = rt_sha256 rt (ob_evidence ob);
          current = find_index (openFor ob) incs
      in
      if health = HPending then (s, n)
      else if health = Healthy \<and>
              (case current of None \<Rightarrow> False | Some k \<Rightarrow> in_evidence (incs ! k) = evidence) then (s, n)
      else if isReplay ob observedAt evidence incs then (s, n)
      else if health = Healthy then
        (case current of None \<Rightarrow> (s, n)
         | Some k \<Rightarrow> (s\<lparr>st_incidents := incs[k := recoverIncident observedAt evidence (incs ! k)]\<rparr>, n))
      else
        (case current of
           None \<Rightarrow> (snd (appendNotificationIncident cfg
                     (newIncident (rt_makeId rt n) ob startedAt observedAt evidence) s), Suc n)
         | Some k \<Rightarrow>
             if supersedes ob evidence (incs ! k) then
               let startedAt' = (if in_code (incs ! k) = Some ManualDnsRequired \<and> ob_code ob = None
                                 then in_startedAt (incs ! k) else startedAt)
               in (snd (appendNotificationIncident cfg
                     (newIncident (rt_makeId rt n) ob startedAt' observedAt evidence)
                     (supersedeIncident k observedAt evidence now s)), Suc n)
             else (s\<lparr>st_incidents := incs[k := refreshIncident ob observedAt evidence (incs ! k)]\<rparr>, n)))"

definition observeOne :: "runtime \<Rightarrow> engine_configuration \<Rightarrow> int \<Rightarrow> observation \<Rightarrow>
    notification_state \<times> nat \<Rightarrow> notification_state \<times> nat" where
  "observeOne rt cfg now ob sn =
     (case rt_dateParse rt (ob_occurredAt ob) of
        None \<Rightarrow> sn
      | Some observedAt \<Rightarrow>
          let (s, n) = sn in
          if \<not> observationUsable ob observedAt now then (s, n)
          else if observedAt < lastObservedAt ob (st_incidents s) then (s, n)
          else (case proxyApplyPhase ob observedAt s of
              (s', None) \<Rightarrow> (s', n)
            | (s', Some (health, startedAt)) \<Rightarrow>
                applySignal rt cfg now ob observedAt health startedAt (s', n)))"

definition observeNotificationSignals :: "runtime \<Rightarrow> engine_configuration \<Rightarrow> observation list \<Rightarrow>
    int \<Rightarrow> notification_state \<times> nat \<Rightarrow> notification_state \<times> nat" where
  "observeNotificationSignals rt cfg obs now sn =
     (let (s, n) = sn;
          sorted = toSortedByKey (\<lambda>ob. rt_dateParse rt (ob_occurredAt ob)) obs
      in admitNotificationIncidents rt cfg now None
           (fold (observeOne rt cfg now) sorted (reconcile cfg now s, n)))"

section \<open>Claiming and acknowledging deliveries\<close>

definition dueAt :: "int \<Rightarrow> delivery \<Rightarrow> bool" where
  "dueAt now d \<longleftrightarrow> dl_status d = Pending \<and> dl_nextAttemptAt d \<le> now"

definition leaseDelivery :: "int \<Rightarrow> string \<Rightarrow> delivery \<Rightarrow> delivery" where
  "leaseDelivery now token d =
     d\<lparr>dl_status := Inflight, dl_attempts := dl_attempts d + 1, dl_updatedAt := now,
       dl_leaseToken := Some token, dl_leaseExpiresAt := Some (now + LIMIT_leaseMs)\<rparr>"

definition claimNotificationDelivery :: "runtime \<Rightarrow> engine_configuration \<Rightarrow> int \<Rightarrow>
    notification_state \<times> nat \<Rightarrow> (notification_state \<times> nat) \<times> claimed_delivery option" where
  "claimNotificationDelivery rt cfg now sn =
     (let (s, n) = admitNotificationIncidents rt cfg now None (reconcile cfg now (fst sn), snd sn) in
      if \<not> cf_enabled cfg \<or> cf_pausedAfterRestore cfg then ((s, n), None)
      else (case find (dueAt now) (st_deliveries s) of
          None \<Rightarrow> ((s, n), None)
        | Some d \<Rightarrow>
            let token = rt_makeId rt n in
            ((s\<lparr>st_deliveries := update_first (dueAt now) (leaseDelivery now token) (st_deliveries s)\<rparr>,
              Suc n),
             Some \<lparr>cd_id = dl_id d, cd_channelId = dl_channelId d,
                   cd_channelRevision = dl_channelRevision d, cd_payload = dl_payload d,
                   cd_leaseToken = token\<rparr>)))"

definition leasedTo :: "string \<Rightarrow> int \<Rightarrow> delivery \<Rightarrow> bool" where
  "leasedTo token now d \<longleftrightarrow> dl_leaseToken d = Some token \<and> leaseHeld now d"

definition terminalCode :: "delivery_error \<Rightarrow> bool" where
  "terminalCode e \<longleftrightarrow>
     contains [DestinationBlocked, RedirectDenied, PayloadLimit, ConfigurationUnavailable] e"

text \<open>The update of the leased delivery, and of the marker it answers for.\<close>

definition settleDelivery :: "engine_configuration \<Rightarrow> delivery_result \<Rightarrow> int \<Rightarrow> delivery \<Rightarrow>
    incident list \<Rightarrow> delivery \<times> incident list" where
  "settleDelivery cfg result now d incs =
     (let d1 = d\<lparr>dl_updatedAt := now, dl_leaseToken := None, dl_leaseExpiresAt := None\<rparr> in
      case result of
        DeliverySuccess \<Rightarrow>
          let d2 = d1\<lparr>dl_status := Succeeded, dl_error := None\<rparr> in (d2, markTerminal d2 incs)
      | DeliveryFailure code retryable retryAfterMs \<Rightarrow>
          if isSupersededManualDelivery incs d1 then terminate Cancelled now d1 incs
          else
            let d2 = d1\<lparr>dl_error := Some code\<rparr> in
            if retryable \<and> pl_type (dl_payload d2) \<noteq> TTest \<and> \<not> terminalCode code \<and>
               channelAllows cfg d2 \<and> dl_attempts d2 < LIMIT_attempts \<and>
               now - deliveryLifetimeStartedAt d2 < LIMIT_deliveryLifetimeMs
            then
              let retryAfter = (case retryAfterMs of None \<Rightarrow> 0 | Some r \<Rightarrow> max 0 r) in
              (d2\<lparr>dl_status := Pending,
                  dl_nextAttemptAt := now +
                    min LIMIT_retryMaximumMs (max (retryDelay (dl_attempts d2)) retryAfter)\<rparr>, incs)
            else
              let d3 = d2\<lparr>dl_status := Failed\<rparr> in (d3, markTerminal d3 incs))"

definition finishNotificationDelivery :: "engine_configuration \<Rightarrow> string \<Rightarrow> delivery_result \<Rightarrow> int \<Rightarrow>
    notification_state \<Rightarrow> notification_state" where
  "finishNotificationDelivery cfg token result now s =
     reconcile cfg now
       (case find_index (leasedTo token now) (st_deliveries s) of
          None \<Rightarrow> s
        | Some k \<Rightarrow>
            let (d, incs) = settleDelivery cfg result now (st_deliveries s ! k) (st_incidents s)
            in s\<lparr>st_deliveries := (st_deliveries s)[k := d], st_incidents := incs\<rparr>)"

end
