(* ===== verification/StateSchema.thy ===== *)
theory StateSchema
  imports NotificationTypes
begin

text \<open>
  The validator of the persisted engine state,
  \<^verbatim>\<open>web/src/server/Notifications/notification-state.validation.ts\<close>: field formats and bounds
  (\<open>shapeOk\<close>) and the cross-field rules of its \<^verbatim>\<open>superRefine\<close> (\<open>refinementOk\<close>). The storage layer
  runs it on every read and every write, so a state that fails it stops all deliveries.

  The string formats that the validation library checks itself (\<^verbatim>\<open>uuid\<close>, \<^verbatim>\<open>iso.datetime\<close>,
  \<^verbatim>\<open>url\<close>) are the parameters of the record \<open>formats\<close>.
\<close>

record formats =
  zf_uuid :: "string \<Rightarrow> bool"
  zf_datetime :: "string \<Rightarrow> bool"
  zf_url :: "string \<Rightarrow> bool"

section \<open>Fields\<close>

definition LIMIT_totalChannels :: nat where "LIMIT_totalChannels = 256"

definition HOST_MONITORING_OUTCOME_CODES :: "string list" where
  "HOST_MONITORING_OUTCOME_CODES =
     [''expected_status'', ''unexpected_status'', ''upstream_unreachable'', ''upstream_timeout'',
      ''upstream_dns_failed'', ''tls_failed'', ''configuration_stale'', ''configuration_changed'',
      ''host_not_active'', ''runtime_unavailable'', ''busy'', ''invalid_response'']"

definition timeOk :: "int \<Rightarrow> bool" where
  "timeOk t \<longleftrightarrow> 0 \<le> t \<and> t \<le> 8640000000000000"

definition counterOk :: "int \<Rightarrow> bool" where
  "counterOk n \<longleftrightarrow> 0 \<le> n \<and> n \<le> MAX_SAFE_INTEGER"

definition revisionOk :: "int \<Rightarrow> bool" where
  "revisionOk n \<longleftrightarrow> 1 \<le> n \<and> n \<le> MAX_SAFE_INTEGER"

fun nullableOk :: "('a \<Rightarrow> bool) \<Rightarrow> 'a option \<Rightarrow> bool" where
  "nullableOk p None = True"
| "nullableOk p (Some x) = p x"

definition sizeOk :: "nat \<Rightarrow> nat \<Rightarrow> string \<Rightarrow> bool" where
  "sizeOk lo hi s \<longleftrightarrow> lo \<le> length s \<and> length s \<le> hi"

definition isLowerHex :: "char \<Rightarrow> bool" where
  "isLowerHex c \<longleftrightarrow> isDigit c \<or> (97 \<le> (of_char c :: nat) \<and> (of_char c :: nat) \<le> 102)"

definition isDomainChar :: "char \<Rightarrow> bool" where
  "isDomainChar c \<longleftrightarrow> isDigit c \<or> (97 \<le> (of_char c :: nat) \<and> (of_char c :: nat) \<le> 122) \<or>
     c = CHR ''.'' \<or> c = CHR ''-''"

text \<open>\<^verbatim>\<open>/^sha256:[a-f0-9]{64}$/u\<close>.\<close>

definition sha256Tag :: "string \<Rightarrow> bool" where
  "sha256Tag s \<longleftrightarrow> take 7 s = ''sha256:'' \<and> length (drop 7 s) = 64 \<and> list_all isLowerHex (drop 7 s)"

definition hostNotificationOk :: "formats \<Rightarrow> 'a host_notification_scheme \<Rightarrow> bool" where
  "hostNotificationOk zf h \<longleftrightarrow>
     sizeOk 1 253 (hn_domain h) \<and> list_all isDomainChar (hn_domain h) \<and>
     contains HOST_MONITORING_OUTCOME_CODES (hn_failureCode h) \<and>
     zf_datetime zf (hn_detectedAt h) \<and>
     nullableOk (zf_datetime zf) (hn_recoveryStartedAt h) \<and>
     hn_managementPath h = ''/proxy-hosts'' \<and>
     nullableOk (\<lambda>u. zf_url zf u \<and> length u \<le> 2048) (hn_managementUrl h)"

definition hostContextOk :: "formats \<Rightarrow> host_context \<Rightarrow> bool" where
  "hostContextOk zf h \<longleftrightarrow>
     hostNotificationOk zf h \<and> zf_uuid zf (hc_policyId h) \<and> zf_uuid zf (hc_policyVersion h) \<and>
     sha256Tag (hc_contextProof h) \<and> sha256Tag (hc_contextRevision h) \<and>
     nullableOk (\<lambda>ss. length ss \<le> LIMIT_totalChannels \<and>
       list_all (\<lambda>s. zf_uuid zf (su_channelId s) \<and> revisionOk (su_channelRevision s)) ss)
       (hc_subscriptions h)"

definition payloadShapeOk :: "formats \<Rightarrow> payload \<Rightarrow> bool" where
  "payloadShapeOk zf p \<longleftrightarrow>
     zf_uuid zf (pl_id p) \<and> zf_uuid zf (pl_incidentId p) \<and> sizeOk 1 512 (pl_resourceId p) \<and>
     zf_datetime zf (pl_occurredAt p) \<and> zf_datetime zf (pl_startedAt p) \<and>
     counterOk (pl_failures p) \<and> nullableOk (hostNotificationOk zf) (pl_host p)"

definition markerShapeOk :: "formats \<Rightarrow> marker \<Rightarrow> bool" where
  "markerShapeOk zf m \<longleftrightarrow> zf_uuid zf (mk_channelId m) \<and> revisionOk (mk_channelRevision m)"

definition incidentShapeOk :: "formats \<Rightarrow> incident \<Rightarrow> bool" where
  "incidentShapeOk zf i \<longleftrightarrow>
     zf_uuid zf (in_id i) \<and> sizeOk 1 512 (in_resourceId i) \<and>
     timeOk (in_startedAt i) \<and> timeOk (in_observedAt i) \<and> length (in_evidence i) \<le> 512 \<and>
     counterOk (in_failures i) \<and> nullableOk timeOk (in_recoveredAt i) \<and>
     nullableOk (\<lambda>e. length e = 64) (in_recoveryEvidence i) \<and>
     length (in_channels i) \<le> LIMIT_totalChannels \<and> list_all (markerShapeOk zf) (in_channels i) \<and>
     nullableOk (hostContextOk zf) (in_host i)"

definition deliveryShapeOk :: "formats \<Rightarrow> delivery \<Rightarrow> bool" where
  "deliveryShapeOk zf d \<longleftrightarrow>
     zf_uuid zf (dl_id d) \<and> zf_uuid zf (dl_channelId d) \<and> revisionOk (dl_channelRevision d) \<and>
     payloadShapeOk zf (dl_payload d) \<and> 0 \<le> dl_attempts d \<and> dl_attempts d \<le> LIMIT_attempts \<and>
     nullableOk timeOk (dl_backupAvailableAt d) \<and> timeOk (dl_createdAt d) \<and>
     timeOk (dl_updatedAt d) \<and> timeOk (dl_nextAttemptAt d) \<and>
     nullableOk (zf_uuid zf) (dl_leaseToken d) \<and> nullableOk timeOk (dl_leaseExpiresAt d)"

definition shapeOk :: "formats \<Rightarrow> notification_state \<Rightarrow> bool" where
  "shapeOk zf s \<longleftrightarrow>
     nullableOk (\<lambda>p. sizeOk 1 128 (pa_desiredRevision p) \<and> timeOk (pa_since p) \<and>
       timeOk (pa_observedAt p)) (st_proxyApplyPending s) \<and>
     counterOk (st_deferredCount s) \<and> counterOk (st_saturationCount s) \<and>
     length (st_incidents s) \<le> LIMIT_incidents \<and> list_all (incidentShapeOk zf) (st_incidents s) \<and>
     length (st_deliveries s) \<le> LIMIT_deliveries \<and> list_all (deliveryShapeOk zf) (st_deliveries s)"

section \<open>Cross-field rules\<close>

text \<open>
  The code keeps sets of what it has seen and reports an issue when an element repeats: the lists
  are \<open>distinct\<close>. An incident's key is the pair that the code serialises to JSON.
\<close>

definition incidentKey :: "incident \<Rightarrow> category \<times> string" where
  "incidentKey i = (in_category i, in_resourceId i)"

definition isOpen :: "incident \<Rightarrow> bool" where
  "isOpen i \<longleftrightarrow> in_recoveredAt i = None"

definition chronologyOk :: "incident \<Rightarrow> bool" where
  "chronologyOk i \<longleftrightarrow>
     in_startedAt i \<le> in_observedAt i \<and>
     (case in_recoveredAt i of None \<Rightarrow> True | Some t \<Rightarrow> in_observedAt i \<le> t) \<and>
     (in_recoveredAt i = None \<longleftrightarrow> in_recoveryEvidence i = None)"

definition incidentRefinementOk :: "incident \<Rightarrow> bool" where
  "incidentRefinementOk i \<longleftrightarrow>
     (in_category i = HostAvailability \<longleftrightarrow> in_host i \<noteq> None) \<and> chronologyOk i \<and>
     distinct (map mk_channelId (in_channels i))"

definition leaseShapeOk :: "delivery \<Rightarrow> bool" where
  "leaseShapeOk d \<longleftrightarrow>
     (if dl_status d = Inflight then dl_leaseToken d \<noteq> None \<and> dl_leaseExpiresAt d \<noteq> None
      else dl_leaseToken d = None \<and> dl_leaseExpiresAt d = None)"

definition backupWindowOk :: "delivery \<Rightarrow> bool" where
  "backupWindowOk d \<longleftrightarrow>
     (case dl_backupAvailableAt d of None \<Rightarrow> True | Some t \<Rightarrow>
        pl_category (dl_payload d) = Backup \<and> dl_createdAt d \<le> t \<and>
        t \<le> dl_createdAt d + 86400 * 1000)"

definition deliveryRefinementOk :: "delivery \<Rightarrow> bool" where
  "deliveryRefinementOk d \<longleftrightarrow>
     (pl_type (dl_payload d) = TTest \<or>
      (pl_category (dl_payload d) = HostAvailability \<longleftrightarrow> pl_host (dl_payload d) \<noteq> None)) \<and>
     dl_id d = pl_id (dl_payload d) \<and> leaseShapeOk d \<and> backupWindowOk d \<and>
     dl_createdAt d \<le> dl_updatedAt d"

text \<open>The rules that do not measure bytes, and the two that do.\<close>

definition semanticsOk :: "notification_state \<Rightarrow> bool" where
  "semanticsOk s \<longleftrightarrow>
     (case st_proxyApplyPending s of None \<Rightarrow> True | Some p \<Rightarrow> pa_since p \<le> pa_observedAt p) \<and>
     distinct (map in_id (st_incidents s)) \<and>
     distinct (map incidentKey (filter isOpen (st_incidents s))) \<and>
     list_all incidentRefinementOk (st_incidents s) \<and>
     distinct (map dl_id (st_deliveries s)) \<and>
     distinct (List.map_filter dl_leaseToken (st_deliveries s)) \<and>
     list_all deliveryRefinementOk (st_deliveries s)"

definition bytesOk :: "notification_state \<Rightarrow> bool" where
  "bytesOk s \<longleftrightarrow>
     jsonBytes (stateJson s) \<le> LIMIT_stateBytes \<and>
     list_all (\<lambda>d. jsonBytes (payloadJson (dl_payload d)) \<le> LIMIT_payloadBytes) (st_deliveries s)"

definition refinementOk :: "notification_state \<Rightarrow> bool" where
  "refinementOk s \<longleftrightarrow> semanticsOk s \<and> bytesOk s"

definition notificationStateSchema :: "formats \<Rightarrow> notification_state \<Rightarrow> bool" where
  "notificationStateSchema zf s \<longleftrightarrow> shapeOk zf s \<and> refinementOk s"

end
