(* ===== verification/NotificationQueue.thy ===== *)
theory NotificationQueue
  imports IncidentEngine StateSchema
begin

text \<open>
  The other writers of the engine state: host availability transitions
  (\<^verbatim>\<open>host-availability.ts\<close>), the manual channel test (\<^verbatim>\<open>notification-test.ts\<close>) and the fan-out of
  backup outcomes (\<^verbatim>\<open>backup-outcomes.ts\<close>), all under \<^verbatim>\<open>web/src/server/Notifications\<close>; and the
  read side, \<^verbatim>\<open>summarizeNotificationState\<close> and \<^verbatim>\<open>getNotificationDeliveryState\<close>.
\<close>

text \<open>\<^verbatim>\<open>NotificationDomainError\<close>; \<open>SchemaRejected\<close> is the exception of a failed \<^verbatim>\<open>parse\<close>.\<close>

datatype domain_error = InvalidInput | ConfigurationConflict | ConfigurationUnavailableError
  | DestinationRequired | DestinationBlockedError | SchemaRejected

section \<open>Host availability\<close>

datatype transition_kind = Outage | Recovery

record host_transition =
  ht_kind :: transition_kind
  ht_incidentId :: string
  ht_proxyHostId :: string
  ht_startedAt :: int
  ht_occurredAt :: int
  ht_failures :: int
  ht_host :: host_context

definition cancelHostDelivery :: "string list \<Rightarrow> int \<Rightarrow> delivery \<Rightarrow> delivery" where
  "cancelHostDelivery ids now d =
     (if pl_category (dl_payload d) = HostAvailability \<and>
         contains ids (pl_incidentId (dl_payload d)) \<and>
         (dl_status d = Pending \<or> dl_status d = Inflight)
      then d\<lparr>dl_status := Cancelled, dl_error := Some CancelledError, dl_updatedAt := now,
             dl_leaseToken := None, dl_leaseExpiresAt := None\<rparr>
      else d)"

definition cancelHostAvailabilityIncidents :: "notification_state \<Rightarrow> string list \<Rightarrow> int \<Rightarrow>
    notification_state" where
  "cancelHostAvailabilityIncidents s ids now =
     (if ids = [] then s
      else s\<lparr>st_incidents := filter (\<lambda>i. in_category i \<noteq> HostAvailability \<or>
               \<not> contains ids (in_id i)) (st_incidents s),
             st_deliveries := map (cancelHostDelivery ids now) (st_deliveries s)\<rparr>)"

definition hostChannel :: "channel_policy \<Rightarrow> bool" where
  "hostChannel ch \<longleftrightarrow> ch_enabled ch \<and> contains (ch_events ch) HostAvailability"

definition subscribedTo :: "channel_policy \<Rightarrow> subscription \<Rightarrow> bool" where
  "subscribedTo ch su \<longleftrightarrow> su_channelId su = ch_id ch \<and> su_channelRevision su = ch_revision ch"

definition hostIncident :: "engine_configuration \<Rightarrow> host_transition \<Rightarrow> incident" where
  "hostIncident cfg tr =
     \<lparr>in_id = ht_incidentId tr, in_category = HostAvailability, in_resourceId = ht_proxyHostId tr,
      in_severity = Error, in_startedAt = ht_startedAt tr, in_observedAt = ht_occurredAt tr,
      in_evidence = ht_incidentId tr, in_failures = ht_failures tr, in_code = None,
      in_recoveredAt = None, in_recoveryEvidence = None, in_channels = [],
      in_host = Some ((ht_host tr)\<lparr>hc_subscriptions := Some
        (map (\<lambda>ch. \<lparr>su_channelId = ch_id ch, su_channelRevision = ch_revision ch\<rparr>)
          (filter hostChannel (cf_channels cfg)))\<rparr>)\<rparr>"

definition observeHostOutage :: "runtime \<Rightarrow> engine_configuration \<Rightarrow> host_transition \<Rightarrow> int \<Rightarrow>
    notification_state \<times> nat \<Rightarrow> domain_error + notification_state \<times> nat" where
  "observeHostOutage rt cfg tr now sn =
     (let (s, n) = sn in
      if \<not> cf_enabled cfg \<or> cf_pausedAfterRestore cfg then Inr (s, n)
      else if some_elem (\<lambda>i. in_id i = ht_incidentId tr) (st_incidents s) then Inr (s, n)
      else
        let stale = map in_id (filter (\<lambda>i. in_category i = HostAvailability \<and>
              in_resourceId i = ht_proxyHostId tr \<and> in_recoveredAt i = None) (st_incidents s));
            (admitted, s2) = appendNotificationIncident cfg (hostIncident cfg tr)
              (cancelHostAvailabilityIncidents s stale now)
        in if \<not> admitted then Inl ConfigurationUnavailableError
           else Inr (observeNotificationSignals rt cfg [] now (s2, n)))"

text \<open>Subscriptions of the outage that the current configuration still carries.\<close>

definition keptSubscriptions :: "engine_configuration \<Rightarrow> incident \<Rightarrow> subscription list" where
  "keptSubscriptions cfg i =
     (if cf_enabled cfg \<and> \<not> cf_pausedAfterRestore cfg
      then filter (\<lambda>su. some_elem (\<lambda>ch. hostChannel ch \<and> subscribedTo ch su) (cf_channels cfg))
        (case in_host i of None \<Rightarrow> [] | Some h \<Rightarrow>
           (case hc_subscriptions h of None \<Rightarrow> [] | Some ss \<Rightarrow> ss))
      else [])"

definition subscribedChannels :: "engine_configuration \<Rightarrow> subscription list \<Rightarrow> engine_configuration" where
  "subscribedChannels cfg subs =
     cfg\<lparr>cf_channels := filter (\<lambda>ch. some_elem (subscribedTo ch) subs) (cf_channels cfg)\<rparr>"

definition closeHostIncident :: "runtime \<Rightarrow> host_transition \<Rightarrow> subscription list \<Rightarrow> incident \<Rightarrow> incident" where
  "closeHostIncident rt tr subs i =
     i\<lparr>in_recoveredAt := Some (ht_occurredAt tr),
       in_recoveryEvidence := Some (rt_sha256 rt (ht_incidentId tr @ '':recovered'')),
       in_host := Some ((ht_host tr)\<lparr>hc_subscriptions := Some subs\<rparr>)\<rparr>"

definition updateIncident :: "nat \<Rightarrow> (incident \<Rightarrow> incident) \<Rightarrow> notification_state \<Rightarrow> notification_state" where
  "updateIncident k f s = s\<lparr>st_incidents := (st_incidents s)[k := f (st_incidents s ! k)]\<rparr>"

definition observeHostRecovery :: "runtime \<Rightarrow> engine_configuration \<Rightarrow> host_transition \<Rightarrow> int \<Rightarrow>
    notification_state \<times> nat \<Rightarrow> notification_state \<times> nat" where
  "observeHostRecovery rt cfg tr now sn =
     (let (s, n) = sn in
      case find_index (\<lambda>i. in_id i = ht_incidentId tr \<and> in_host i \<noteq> None) (st_incidents s) of
        None \<Rightarrow> (s, n)
      | Some k \<Rightarrow>
          let i = st_incidents s ! k; subs = keptSubscriptions cfg i in
          if in_recoveredAt i \<noteq> None then (s, n)
          else
            let s1 = (if \<not> cf_enabled cfg \<or> cf_pausedAfterRestore cfg
                      then updateIncident k silenceRecovery s else s);
                (s2, m) = admitNotificationIncidents rt (subscribedChannels cfg subs)
                  (ht_occurredAt tr) (Some (in_id i)) (s1, n)
            in observeNotificationSignals rt cfg [] now
                 (updateIncident k (closeHostIncident rt tr subs) s2, m))"

definition observeHostAvailabilityTransition :: "runtime \<Rightarrow> engine_configuration \<Rightarrow>
    host_transition \<Rightarrow> int \<Rightarrow> notification_state \<times> nat \<Rightarrow>
    domain_error + notification_state \<times> nat" where
  "observeHostAvailabilityTransition rt cfg tr now sn =
     (case ht_kind tr of
        Outage \<Rightarrow> observeHostOutage rt cfg tr now sn
      | Recovery \<Rightarrow> Inr (observeHostRecovery rt cfg tr now sn))"

section \<open>The channel test\<close>

definition testPayload :: "string \<Rightarrow> string \<Rightarrow> category \<Rightarrow> int \<Rightarrow> payload" where
  "testPayload pid iid cat now =
     \<lparr>pl_id = pid, pl_incidentId = iid, pl_type = TTest, pl_category = cat, pl_severity = Info,
      pl_resourceId = ''test'', pl_code = CNotificationTest, pl_occurredAt = toISOString now,
      pl_startedAt = toISOString now, pl_failures = 0, pl_host = None\<rparr>"

definition testDelivery :: "string \<Rightarrow> string \<Rightarrow> channel_policy \<Rightarrow> payload \<Rightarrow> int \<Rightarrow> delivery" where
  "testDelivery did token ch p now =
     \<lparr>dl_id = did, dl_channelId = ch_id ch, dl_channelRevision = ch_revision ch, dl_payload = p,
      dl_status = Inflight, dl_attempts = 1, dl_backupAvailableAt = None, dl_createdAt = now,
      dl_updatedAt = now, dl_nextAttemptAt = now, dl_leaseToken = Some token,
      dl_leaseExpiresAt = Some (now + LIMIT_leaseMs), dl_error = None\<rparr>"

definition claimNotificationTestDelivery :: "runtime \<Rightarrow> engine_configuration \<Rightarrow> string \<Rightarrow> int \<Rightarrow>
    notification_state \<times> nat \<Rightarrow> domain_error + (notification_state \<times> nat) \<times> claimed_delivery" where
  "claimNotificationTestDelivery rt cfg channelId now sn =
     (let (s, n) = sn in
      case find (\<lambda>ch. ch_id ch = channelId) (cf_channels cfg) of
        None \<Rightarrow> Inl ConfigurationUnavailableError
      | Some ch \<Rightarrow>
          (case ch_events ch of
             [] \<Rightarrow> Inl ConfigurationUnavailableError
           | cat # _ \<Rightarrow>
               if \<not> cf_enabled cfg \<or> cf_pausedAfterRestore cfg \<or> \<not> ch_enabled ch
               then Inl ConfigurationUnavailableError
               else (case reserveNotificationDeliverySlot s of
                   None \<Rightarrow> Inl ConfigurationUnavailableError
                 | Some s1 \<Rightarrow>
                     let did = rt_makeId rt n; token = rt_makeId rt (Suc n);
                         p = testPayload did (rt_makeId rt (Suc (Suc n))) cat now;
                         s2 = s1\<lparr>st_deliveries := st_deliveries s1 @ [testDelivery did token ch p now]\<rparr>
                     in if jsonBytes (stateJson s2) > LIMIT_stateBytes
                        then Inl ConfigurationUnavailableError
                        else Inr ((s2, n + 3),
                          \<lparr>cd_id = did, cd_channelId = channelId, cd_channelRevision = ch_revision ch,
                           cd_payload = p, cd_leaseToken = token\<rparr>))))"

section \<open>Backup outcomes\<close>

datatype audit_kind = Requested | ConfigurationUpdated | Started | KSucceeded | KFailed
  | KInterrupted | Pruned | DeleteRequested | Deleted | DeleteFailed | RestoreRequested
  | RestoreStarted | RestoreSucceeded | RestoreFailed | RestoreInterrupted
  | OffHostConfigurationUpdated

record audit_event =
  au_sequence :: int
  au_kind :: audit_kind
  au_jobId :: "string option"
  au_actorId :: "string option"
  au_at :: int

text \<open>Placeholder identifiers: the first unused sequence number after \<open>seq\<close>.\<close>

definition placeholderId :: "nat \<Rightarrow> string" where
  "placeholderId k = ''00000000-0000-4000-8000-'' @ padStart 12 (CHR ''0'') (dec (int k))"

lemma number_padStart: "number (padStart m (CHR ''0'') s) = number s"
proof -
  have "foldl (\<lambda>acc c. 10 * acc + digitVal c) 0 (replicate k (CHR ''0'') @ s) = number s" for k
    by (induction k) (simp_all add: number_def digitVal_def)
  then show ?thesis by (simp add: padStart_def number_def)
qed

lemma inj_placeholderId: "inj placeholderId"
proof (rule injI)
  fix a b assume "placeholderId a = placeholderId b"
  then have "number (padStart 12 (CHR ''0'') (dec (int a))) = number (padStart 12 (CHR ''0'') (dec (int b)))"
    by (simp add: placeholderId_def)
  then show "a = b" by (simp only: number_padStart) (simp add: dec_def number_radix10)
qed

function placeholder :: "string list \<Rightarrow> nat \<Rightarrow> nat" where
  "placeholder used seq =
     (if contains used (placeholderId (Suc seq)) then placeholder used (Suc seq) else Suc seq)"
  by auto
termination
proof (relation "measure (\<lambda>(used, seq). card {x \<in> set used. \<exists>k > seq. x = placeholderId k})")
  fix used seq assume "contains used (placeholderId (Suc seq))"
  then have mem: "placeholderId (Suc seq) \<in> set used" by simp
  have "placeholderId (Suc seq) \<notin> {x \<in> set used. \<exists>k > Suc seq. x = placeholderId k}"
    using inj_placeholderId by (auto dest: injD)
  moreover have "placeholderId (Suc seq) \<in> {x \<in> set used. \<exists>k > seq. x = placeholderId k}"
    using mem by auto
  ultimately have "{x \<in> set used. \<exists>k > Suc seq. x = placeholderId k}
      \<subset> {x \<in> set used. \<exists>k > seq. x = placeholderId k}" by (blast dest: Suc_lessD)
  then show "((used, Suc seq), (used, seq))
      \<in> measure (\<lambda>(used, seq). card {x \<in> set used. \<exists>k > seq. x = placeholderId k})"
    by (auto intro!: psubset_card_mono)
qed simp

declare placeholder.simps [simp del]

definition isOutcome :: "audit_event \<Rightarrow> bool" where
  "isOutcome ev \<longleftrightarrow> contains [KSucceeded, KFailed, KInterrupted] (au_kind ev)"

definition backupChannels :: "engine_configuration \<Rightarrow> bool \<Rightarrow> channel_policy list" where
  "backupChannels cfg success = filter (\<lambda>ch. ch_enabled ch \<and> contains (ch_events ch) Backup \<and>
     (if success then ch_recovery ch
      else severityIndex (ch_minimumSeverity ch) \<le> severityIndex Error)) (cf_channels cfg)"

definition backupAvailability :: "audit_event \<Rightarrow> channel_policy \<Rightarrow> int \<Rightarrow> int" where
  "backupAvailability ev ch now =
     (if au_kind ev = KSucceeded then now
      else max now (au_at ev + ch_thresholdSeconds ch * 1000))"

definition backupDelivery :: "string \<Rightarrow> string \<Rightarrow> audit_event \<Rightarrow> string \<Rightarrow> channel_policy \<Rightarrow> int \<Rightarrow>
    delivery" where
  "backupDelivery did iid ev jobId ch now =
     (let success = (au_kind ev = KSucceeded) in
      \<lparr>dl_id = did, dl_channelId = ch_id ch, dl_channelRevision = ch_revision ch,
       dl_payload = \<lparr>pl_id = did, pl_incidentId = iid,
         pl_type = (if success then TSuccess else TIncident), pl_category = Backup,
         pl_severity = (if success then Info else Sev Error), pl_resourceId = jobId,
         pl_code = (if success then CBackupSucceeded else CBackupFailed),
         pl_occurredAt = toISOString (au_at ev), pl_startedAt = toISOString (au_at ev),
         pl_failures = (if success then 0 else 1), pl_host = None\<rparr>,
       dl_status = Pending, dl_attempts = 0,
       dl_backupAvailableAt = Some (backupAvailability ev ch now), dl_createdAt = now,
       dl_updatedAt = now, dl_nextAttemptAt = backupAvailability ev ch now, dl_leaseToken = None,
       dl_leaseExpiresAt = None, dl_error = None\<rparr>)"

text \<open>
  The preflight of one event: the fan-out into a candidate state, with placeholder identifiers.
  \<open>None\<close> is the early return when no slot is left.
\<close>

fun preflight :: "string \<Rightarrow> audit_event \<Rightarrow> string \<Rightarrow> int \<Rightarrow> channel_policy list \<Rightarrow> nat \<Rightarrow>
    notification_state \<Rightarrow> notification_state option" where
  "preflight iid ev jobId now [] seq s = Some s"
| "preflight iid ev jobId now (ch # chs) seq s =
     (case reserveNotificationDeliverySlot s of
        None \<Rightarrow> None
      | Some s1 \<Rightarrow>
          let k = placeholder (map dl_id (st_deliveries s1)) seq in
          preflight iid ev jobId now chs k
            (s1\<lparr>st_deliveries := st_deliveries s1 @
              [backupDelivery (placeholderId k) iid ev jobId ch now]\<rparr>))"

text \<open>The last deliveries get their final identifiers, in order.\<close>

fun relabel :: "runtime \<Rightarrow> string \<Rightarrow> nat \<Rightarrow> delivery list \<Rightarrow> delivery list" where
  "relabel rt outcomeId n [] = []"
| "relabel rt outcomeId n (d # ds) =
     d\<lparr>dl_id := rt_makeId rt n,
       dl_payload := (dl_payload d)\<lparr>pl_id := rt_makeId rt n, pl_incidentId := outcomeId\<rparr>\<rparr>
     # relabel rt outcomeId (Suc n) ds"

record backup_progress =
  bp_state :: notification_state
  bp_nextId :: nat
  bp_queued :: nat

datatype backup_step = Continue backup_progress | Stop | Reject

definition enqueueBackupOutcome :: "runtime \<Rightarrow> formats \<Rightarrow> engine_configuration \<Rightarrow> audit_event \<Rightarrow> int \<Rightarrow>
    backup_progress \<Rightarrow> backup_step" where
  "enqueueBackupOutcome rt zf cfg ev now bp =
     (case au_jobId ev of
        None \<Rightarrow> Continue bp
      | Some jobId \<Rightarrow>
          if \<not> isOutcome ev \<or> jobId = [] \<or> \<not> cf_enabled cfg \<or> cf_pausedAfterRestore cfg
          then Continue bp
          else
            let chs = backupChannels cfg (au_kind ev = KSucceeded); s = bp_state bp in
            if chs = [] then Continue bp
            else
              let k0 = placeholder (map dl_id (st_deliveries s)) 0 in
              (case preflight (placeholderId k0) ev jobId now chs k0 s of
                 None \<Rightarrow> Stop
               | Some candidate \<Rightarrow>
                   if \<not> notificationStateSchema zf candidate \<or> \<not> withinStateLimit candidate then Stop
                   else
                     let n = bp_nextId bp; keep = length (st_deliveries candidate) - length chs;
                         s' = candidate\<lparr>st_deliveries := take keep (st_deliveries candidate) @
                           relabel rt (rt_makeId rt n) (Suc n) (drop keep (st_deliveries candidate))\<rparr>
                     in if \<not> notificationStateSchema zf s' then Reject
                        else Continue \<lparr>bp_state = s', bp_nextId = Suc n + length chs,
                               bp_queued = bp_queued bp + length chs\<rparr>))"

text \<open>The result: the state, how many events were accepted, and how many deliveries were queued.\<close>

fun enqueueBackupOutcomes :: "runtime \<Rightarrow> formats \<Rightarrow> engine_configuration \<Rightarrow> audit_event list \<Rightarrow> int \<Rightarrow>
    nat \<Rightarrow> backup_progress \<Rightarrow> domain_error + backup_progress \<times> nat" where
  "enqueueBackupOutcomes rt zf cfg [] now idx bp = Inr (bp, idx)"
| "enqueueBackupOutcomes rt zf cfg (ev # evs) now idx bp =
     (case enqueueBackupOutcome rt zf cfg ev now bp of
        Continue bp' \<Rightarrow> enqueueBackupOutcomes rt zf cfg evs now (Suc idx) bp'
      | Stop \<Rightarrow> Inr (bp, idx)
      | Reject \<Rightarrow> Inl SchemaRejected)"

definition enqueueBackupOutcomeNotifications :: "runtime \<Rightarrow> formats \<Rightarrow> engine_configuration \<Rightarrow>
    audit_event list \<Rightarrow> int \<Rightarrow> notification_state \<times> nat \<Rightarrow> domain_error + backup_progress \<times> nat" where
  "enqueueBackupOutcomeNotifications rt zf cfg events now sn =
     enqueueBackupOutcomes rt zf cfg events now 0
       \<lparr>bp_state = fst sn, bp_nextId = snd sn, bp_queued = 0\<rparr>"

section \<open>What the user interface is shown\<close>

record incident_summary =
  is_id :: string
  is_category :: category
  is_resourceId :: string
  is_severity :: severity
  is_startedAt :: int
  is_observedAt :: int
  is_failures :: int
  is_code :: "incident_code option"
  is_recoveredAt :: "int option"
  is_host :: "host_context option"

record delivery_summary =
  ds_id :: string
  ds_incidentId :: string
  ds_channelId :: string
  ds_channelRevision :: int
  ds_type :: payload_type
  ds_category :: category
  ds_resourceId :: string
  ds_status :: delivery_status
  ds_attempts :: int
  ds_updatedAt :: int
  ds_error :: "delivery_error option"

record notification_status =
  ns_incidents :: "incident_summary list"
  ns_deliveries :: "delivery_summary list"
  ns_deferredCount :: int
  ns_saturationCount :: int
  ns_pendingCount :: nat

definition summarizeIncident :: "incident \<Rightarrow> incident_summary" where
  "summarizeIncident i = \<lparr>is_id = in_id i, is_category = in_category i,
     is_resourceId = in_resourceId i, is_severity = in_severity i, is_startedAt = in_startedAt i,
     is_observedAt = in_observedAt i, is_failures = in_failures i, is_code = in_code i,
     is_recoveredAt = in_recoveredAt i, is_host = in_host i\<rparr>"

definition summarizeDelivery :: "delivery \<Rightarrow> delivery_summary" where
  "summarizeDelivery d = \<lparr>ds_id = dl_id d, ds_incidentId = pl_incidentId (dl_payload d),
     ds_channelId = dl_channelId d, ds_channelRevision = dl_channelRevision d,
     ds_type = pl_type (dl_payload d), ds_category = pl_category (dl_payload d),
     ds_resourceId = pl_resourceId (dl_payload d), ds_status = dl_status d,
     ds_attempts = dl_attempts d, ds_updatedAt = dl_updatedAt d, ds_error = dl_error d\<rparr>"

definition summarizeNotificationState :: "notification_state \<Rightarrow> notification_status" where
  "summarizeNotificationState s =
     \<lparr>ns_incidents = map summarizeIncident (st_incidents s),
      ns_deliveries = map summarizeDelivery
        (drop (length (st_deliveries s) - 50) (st_deliveries s)),
      ns_deferredCount = st_deferredCount s, ns_saturationCount = st_saturationCount s,
      ns_pendingCount = length (filter isActive (st_deliveries s))\<rparr>"

datatype delivery_state = DsTest | DsBackupSucceeded | DsBackupFailed | DsRecovered | DsActive
  | DsUnknown

definition getNotificationDeliveryState :: "delivery_summary \<Rightarrow> incident_summary option \<Rightarrow>
    delivery_state" where
  "getNotificationDeliveryState d inc =
     (if ds_type d = TTest then DsTest
      else if ds_category d = Backup
        then (if ds_type d = TSuccess then DsBackupSucceeded else DsBackupFailed)
      else (case inc of None \<Rightarrow> DsUnknown
            | Some i \<Rightarrow> if is_recoveredAt i \<noteq> None then DsRecovered else DsActive))"

end
