(* ===== verification/Permissions.thy ===== *)
theory Permissions
  imports Prelude
begin

text \<open>
  The permission registry and the built-in roles: \<^verbatim>\<open>web/src/config/permissions.config.ts\<close> and
  \<^verbatim>\<open>web/src/lib/Permissions/systemRoles.ts\<close>. A permission key is the string the code and the
  database use.
\<close>

type_synonym permission_key = string

section \<open>Keys\<close>

abbreviation APP_ACCESS :: permission_key where "APP_ACCESS \<equiv> ''app.access''"
abbreviation PROXY_HOSTS_VIEW :: permission_key where "PROXY_HOSTS_VIEW \<equiv> ''proxy_hosts.view''"
abbreviation PROXY_HOSTS_CREATE :: permission_key where "PROXY_HOSTS_CREATE \<equiv> ''proxy_hosts.create''"
abbreviation PROXY_HOSTS_UPDATE :: permission_key where "PROXY_HOSTS_UPDATE \<equiv> ''proxy_hosts.update''"
abbreviation PROXY_HOSTS_DELETE :: permission_key where "PROXY_HOSTS_DELETE \<equiv> ''proxy_hosts.delete''"
abbreviation PROXY_HOSTS_ENABLE :: permission_key where "PROXY_HOSTS_ENABLE \<equiv> ''proxy_hosts.enable''"
abbreviation PROXY_HOSTS_DISABLE :: permission_key where "PROXY_HOSTS_DISABLE \<equiv> ''proxy_hosts.disable''"
abbreviation PROXY_HOSTS_APPLY :: permission_key where "PROXY_HOSTS_APPLY \<equiv> ''proxy_hosts.apply''"
abbreviation REDIRECT_HOSTS_VIEW :: permission_key where "REDIRECT_HOSTS_VIEW \<equiv> ''redirect_hosts.view''"
abbreviation REDIRECT_HOSTS_CREATE :: permission_key where "REDIRECT_HOSTS_CREATE \<equiv> ''redirect_hosts.create''"
abbreviation REDIRECT_HOSTS_UPDATE :: permission_key where "REDIRECT_HOSTS_UPDATE \<equiv> ''redirect_hosts.update''"
abbreviation REDIRECT_HOSTS_DELETE :: permission_key where "REDIRECT_HOSTS_DELETE \<equiv> ''redirect_hosts.delete''"
abbreviation REDIRECT_HOSTS_ENABLE :: permission_key where "REDIRECT_HOSTS_ENABLE \<equiv> ''redirect_hosts.enable''"
abbreviation REDIRECT_HOSTS_DISABLE :: permission_key where "REDIRECT_HOSTS_DISABLE \<equiv> ''redirect_hosts.disable''"
abbreviation REDIRECT_HOSTS_APPLY :: permission_key where "REDIRECT_HOSTS_APPLY \<equiv> ''redirect_hosts.apply''"
abbreviation CERTIFICATES_VIEW :: permission_key where "CERTIFICATES_VIEW \<equiv> ''certificates.view''"
abbreviation CERTIFICATES_CREATE :: permission_key where "CERTIFICATES_CREATE \<equiv> ''certificates.create''"
abbreviation CERTIFICATES_UPDATE :: permission_key where "CERTIFICATES_UPDATE \<equiv> ''certificates.update''"
abbreviation CERTIFICATES_DELETE :: permission_key where "CERTIFICATES_DELETE \<equiv> ''certificates.delete''"
abbreviation CERTIFICATES_ISSUE :: permission_key where "CERTIFICATES_ISSUE \<equiv> ''certificates.issue''"
abbreviation CERTIFICATES_RENEW :: permission_key where "CERTIFICATES_RENEW \<equiv> ''certificates.renew''"
abbreviation DNS_CONNECTIONS_VIEW :: permission_key where "DNS_CONNECTIONS_VIEW \<equiv> ''dns_connections.view''"
abbreviation DNS_CONNECTIONS_MANAGE :: permission_key where "DNS_CONNECTIONS_MANAGE \<equiv> ''dns_connections.manage''"
abbreviation BACKUPS_VIEW :: permission_key where "BACKUPS_VIEW \<equiv> ''backups.view''"
abbreviation BACKUPS_MANAGE :: permission_key where "BACKUPS_MANAGE \<equiv> ''backups.manage''"
abbreviation DDNS_VIEW :: permission_key where "DDNS_VIEW \<equiv> ''ddns.view''"
abbreviation DDNS_MANAGE :: permission_key where "DDNS_MANAGE \<equiv> ''ddns.manage''"
abbreviation NOTIFICATIONS_VIEW :: permission_key where "NOTIFICATIONS_VIEW \<equiv> ''notifications.view''"
abbreviation NOTIFICATIONS_MANAGE :: permission_key where "NOTIFICATIONS_MANAGE \<equiv> ''notifications.manage''"
abbreviation DOCKER_DISCOVERY_VIEW :: permission_key where "DOCKER_DISCOVERY_VIEW \<equiv> ''docker_discovery.view''"
abbreviation DOCKER_DISCOVERY_MANAGE :: permission_key where "DOCKER_DISCOVERY_MANAGE \<equiv> ''docker_discovery.manage''"
abbreviation TRUSTED_CAS_VIEW :: permission_key where "TRUSTED_CAS_VIEW \<equiv> ''trusted_cas.view''"
abbreviation TRUSTED_CAS_CREATE :: permission_key where "TRUSTED_CAS_CREATE \<equiv> ''trusted_cas.create''"
abbreviation TRUSTED_CAS_UPDATE :: permission_key where "TRUSTED_CAS_UPDATE \<equiv> ''trusted_cas.update''"
abbreviation TRUSTED_CAS_DELETE :: permission_key where "TRUSTED_CAS_DELETE \<equiv> ''trusted_cas.delete''"
abbreviation USERS_VIEW :: permission_key where "USERS_VIEW \<equiv> ''users.view''"
abbreviation USERS_CREATE :: permission_key where "USERS_CREATE \<equiv> ''users.create''"
abbreviation USERS_UPDATE :: permission_key where "USERS_UPDATE \<equiv> ''users.update''"
abbreviation USERS_DISABLE :: permission_key where "USERS_DISABLE \<equiv> ''users.disable''"
abbreviation USERS_ENABLE :: permission_key where "USERS_ENABLE \<equiv> ''users.enable''"
abbreviation USERS_ASSIGN_ROLES :: permission_key where "USERS_ASSIGN_ROLES \<equiv> ''users.assign_roles''"
abbreviation ROLES_VIEW :: permission_key where "ROLES_VIEW \<equiv> ''roles.view''"
abbreviation ROLES_CREATE :: permission_key where "ROLES_CREATE \<equiv> ''roles.create''"
abbreviation ROLES_UPDATE :: permission_key where "ROLES_UPDATE \<equiv> ''roles.update''"
abbreviation ROLES_DELETE :: permission_key where "ROLES_DELETE \<equiv> ''roles.delete''"
abbreviation ROLES_ASSIGN_PERMISSIONS :: permission_key where "ROLES_ASSIGN_PERMISSIONS \<equiv> ''roles.assign_permissions''"
abbreviation ACCESS_POLICIES_VIEW :: permission_key where "ACCESS_POLICIES_VIEW \<equiv> ''access_policies.view''"
abbreviation ACCESS_POLICIES_CREATE :: permission_key where "ACCESS_POLICIES_CREATE \<equiv> ''access_policies.create''"
abbreviation ACCESS_POLICIES_UPDATE :: permission_key where "ACCESS_POLICIES_UPDATE \<equiv> ''access_policies.update''"
abbreviation ACCESS_POLICIES_DELETE :: permission_key where "ACCESS_POLICIES_DELETE \<equiv> ''access_policies.delete''"
abbreviation ACCESS_POLICIES_ASSIGN :: permission_key where "ACCESS_POLICIES_ASSIGN \<equiv> ''access_policies.assign''"
abbreviation ACCESS_POLICIES_APPLY :: permission_key where "ACCESS_POLICIES_APPLY \<equiv> ''access_policies.apply''"
abbreviation PROXY_ACCESS_LOGS_VIEW :: permission_key where "PROXY_ACCESS_LOGS_VIEW \<equiv> ''proxy-access-logs:view''"
abbreviation CROWDSEC_VIEW :: permission_key where "CROWDSEC_VIEW \<equiv> ''crowdsec.view''"
abbreviation CROWDSEC_UPDATE :: permission_key where "CROWDSEC_UPDATE \<equiv> ''crowdsec.update''"
abbreviation DEFAULT_SITE_VIEW :: permission_key where "DEFAULT_SITE_VIEW \<equiv> ''default_site.view''"
abbreviation DEFAULT_SITE_UPDATE :: permission_key where "DEFAULT_SITE_UPDATE \<equiv> ''default_site.update''"
abbreviation AUDIT_LOGS_VIEW :: permission_key where "AUDIT_LOGS_VIEW \<equiv> ''audit-logs:view''"
abbreviation NPM_IMPORT :: permission_key where "NPM_IMPORT \<equiv> ''system.npm_import''"
abbreviation MIGRATION :: permission_key where "MIGRATION \<equiv> ''system.migration''"
abbreviation ACCOUNT_VIEW :: permission_key where "ACCOUNT_VIEW \<equiv> ''account.view''"
abbreviation ACCOUNT_UPDATE :: permission_key where "ACCOUNT_UPDATE \<equiv> ''account.update''"

definition PERMISSION_REGISTRY :: "permission_key list" where
  "PERMISSION_REGISTRY =
     [APP_ACCESS, PROXY_HOSTS_VIEW, PROXY_HOSTS_CREATE, PROXY_HOSTS_UPDATE,
      PROXY_HOSTS_DELETE, PROXY_HOSTS_ENABLE, PROXY_HOSTS_DISABLE, PROXY_HOSTS_APPLY,
      REDIRECT_HOSTS_VIEW, REDIRECT_HOSTS_CREATE, REDIRECT_HOSTS_UPDATE, REDIRECT_HOSTS_DELETE,
      REDIRECT_HOSTS_ENABLE, REDIRECT_HOSTS_DISABLE, REDIRECT_HOSTS_APPLY, CERTIFICATES_VIEW,
      CERTIFICATES_CREATE, CERTIFICATES_UPDATE, CERTIFICATES_DELETE, CERTIFICATES_ISSUE,
      CERTIFICATES_RENEW, DNS_CONNECTIONS_VIEW, DNS_CONNECTIONS_MANAGE, BACKUPS_VIEW,
      BACKUPS_MANAGE, DDNS_VIEW, DDNS_MANAGE, NOTIFICATIONS_VIEW,
      NOTIFICATIONS_MANAGE, DOCKER_DISCOVERY_VIEW, DOCKER_DISCOVERY_MANAGE, TRUSTED_CAS_VIEW,
      TRUSTED_CAS_CREATE, TRUSTED_CAS_UPDATE, TRUSTED_CAS_DELETE, USERS_VIEW,
      USERS_CREATE, USERS_UPDATE, USERS_DISABLE, USERS_ENABLE,
      USERS_ASSIGN_ROLES, ROLES_VIEW, ROLES_CREATE, ROLES_UPDATE,
      ROLES_DELETE, ROLES_ASSIGN_PERMISSIONS, ACCESS_POLICIES_VIEW, ACCESS_POLICIES_CREATE,
      ACCESS_POLICIES_UPDATE, ACCESS_POLICIES_DELETE, ACCESS_POLICIES_ASSIGN, ACCESS_POLICIES_APPLY,
      PROXY_ACCESS_LOGS_VIEW, CROWDSEC_VIEW, CROWDSEC_UPDATE, DEFAULT_SITE_VIEW,
      DEFAULT_SITE_UPDATE, AUDIT_LOGS_VIEW, NPM_IMPORT, MIGRATION,
      ACCOUNT_VIEW, ACCOUNT_UPDATE]"

section \<open>Built-in roles\<close>

definition OWNER :: string where "OWNER = ''owner''"
definition ADMIN :: string where "ADMIN = ''admin''"
definition VIEWER :: string where "VIEWER = ''viewer''"

record system_role =
  sr_key :: string
  sr_name :: string
  sr_description :: string
  sr_permissionKeys :: "permission_key list"

definition SYSTEM_ROLE_REGISTRY :: "system_role list" where
  "SYSTEM_ROLE_REGISTRY =
     [\<lparr>sr_key = OWNER, sr_name = ''Owner'',
       sr_description = ''Built-in role with every registered permission.'', sr_permissionKeys = PERMISSION_REGISTRY\<rparr>,
      \<lparr>sr_key = ADMIN, sr_name = ''Administrator'',
       sr_description = ''Built-in role for user and custom-role administration without owner powers.'', sr_permissionKeys =
        [APP_ACCESS, PROXY_HOSTS_VIEW, PROXY_HOSTS_CREATE, PROXY_HOSTS_UPDATE,
         PROXY_HOSTS_DELETE, PROXY_HOSTS_ENABLE, PROXY_HOSTS_DISABLE, PROXY_HOSTS_APPLY,
         REDIRECT_HOSTS_VIEW, REDIRECT_HOSTS_CREATE, REDIRECT_HOSTS_UPDATE, REDIRECT_HOSTS_DELETE,
         REDIRECT_HOSTS_ENABLE, REDIRECT_HOSTS_DISABLE, REDIRECT_HOSTS_APPLY, CERTIFICATES_VIEW,
         CERTIFICATES_CREATE, CERTIFICATES_UPDATE, CERTIFICATES_DELETE, CERTIFICATES_ISSUE,
         CERTIFICATES_RENEW, DNS_CONNECTIONS_VIEW, DNS_CONNECTIONS_MANAGE, BACKUPS_VIEW,
         BACKUPS_MANAGE, DDNS_VIEW, DDNS_MANAGE, NOTIFICATIONS_VIEW,
         NOTIFICATIONS_MANAGE, DOCKER_DISCOVERY_VIEW, DOCKER_DISCOVERY_MANAGE, TRUSTED_CAS_VIEW,
         TRUSTED_CAS_CREATE, TRUSTED_CAS_UPDATE, TRUSTED_CAS_DELETE, USERS_VIEW,
         USERS_CREATE, USERS_UPDATE, USERS_DISABLE, USERS_ENABLE,
         USERS_ASSIGN_ROLES, ROLES_VIEW, ROLES_CREATE, ROLES_UPDATE,
         ROLES_DELETE, ROLES_ASSIGN_PERMISSIONS, ACCESS_POLICIES_VIEW, ACCESS_POLICIES_CREATE,
         ACCESS_POLICIES_UPDATE, ACCESS_POLICIES_DELETE, ACCESS_POLICIES_ASSIGN, ACCESS_POLICIES_APPLY,
         PROXY_ACCESS_LOGS_VIEW, CROWDSEC_VIEW, CROWDSEC_UPDATE, DEFAULT_SITE_VIEW,
         DEFAULT_SITE_UPDATE, AUDIT_LOGS_VIEW, NPM_IMPORT, MIGRATION,
         ACCOUNT_VIEW, ACCOUNT_UPDATE]\<rparr>,
      \<lparr>sr_key = VIEWER, sr_name = ''Viewer'',
       sr_description = ''Built-in role for basic application and account access.'', sr_permissionKeys =
        [APP_ACCESS, PROXY_HOSTS_VIEW, REDIRECT_HOSTS_VIEW, CERTIFICATES_VIEW,
         TRUSTED_CAS_VIEW, CROWDSEC_VIEW, ACCOUNT_VIEW, ACCOUNT_UPDATE]\<rparr>]"

lemma distinct_registry: "distinct PERMISSION_REGISTRY"
  by (simp add: PERMISSION_REGISTRY_def)

lemma system_roles_registered:
  "r \<in> set SYSTEM_ROLE_REGISTRY \<Longrightarrow> set (sr_permissionKeys r) \<subseteq> set PERMISSION_REGISTRY"
  by (auto simp: SYSTEM_ROLE_REGISTRY_def PERMISSION_REGISTRY_def)

end
