(* ===== verification/NotificationConfig.thy ===== *)
theory NotificationConfig
  imports IncidentEngine NotificationQueue Permissions
begin

text \<open>
  The stored notification configuration: how an administrator's update becomes the next revision
  (\<^verbatim>\<open>notification-settings.ts\<close>), which rules the stored value obeys
  (\<^verbatim>\<open>notification-settings.validation.ts\<close>), and how it is narrowed to what the owners of personal
  channels may currently see (\<^verbatim>\<open>notification-access.ts\<close>), all under
  \<^verbatim>\<open>web/src/server/Notifications\<close> and \<^verbatim>\<open>web/src/lib/Notifications\<close>.

  Encryption of a destination, which is the platform's WebCrypto, and
  the check of a destination's address are arguments.
\<close>

section \<open>Data\<close>

datatype destination =
    EmailDestination (de_recipients: "string list")
  | WebhookDestination (de_url: string) (de_authorizationToken: "string option")
      (de_allowedPrivateCidrs: "string list")

fun destinationKind :: "destination \<Rightarrow> channel_kind" where
  "destinationKind (EmailDestination _) = Email"
| "destinationKind (WebhookDestination _ _ _) = Webhook"

record encrypted_destination =
  ed_ciphertext :: string
  ed_iv :: string

record stored_channel = channel_policy +
  sc_ownerUserId :: "string option"
  sc_destination :: encrypted_destination
  sc_hasAuthorization :: bool

record stored_configuration =
  nc_revision :: int
  nc_enabled :: bool
  nc_pausedAfterRestore :: bool
  nc_channels :: "stored_channel list"

record channel_input =
  ci_id :: string
  ci_name :: string
  ci_kind :: channel_kind
  ci_enabled :: bool
  ci_events :: "category list"
  ci_minimumSeverity :: severity
  ci_thresholdSeconds :: int
  ci_recovery :: bool
  ci_destination :: "destination option"

record configuration_input =
  nu_expectedRevision :: int
  nu_enabled :: bool
  nu_channels :: "channel_input list"

definition DEFAULT_NOTIFICATION_CONFIGURATION :: stored_configuration where
  "DEFAULT_NOTIFICATION_CONFIGURATION =
     \<lparr>nc_revision = 0, nc_enabled = False, nc_pausedAfterRestore = False, nc_channels = []\<rparr>"

text \<open>The engine reads a stored configuration as an engine configuration.\<close>

definition engineConfiguration :: "stored_configuration \<Rightarrow> engine_configuration" where
  "engineConfiguration c = \<lparr>cf_enabled = nc_enabled c, cf_pausedAfterRestore = nc_pausedAfterRestore c,
     cf_channels = map channel_policy.truncate (nc_channels c)\<rparr>"

section \<open>Updates\<close>

definition MAX_REVISION :: int where "MAX_REVISION = 4294967295"

definition samePolicy :: "channel_input \<Rightarrow> stored_channel \<Rightarrow> bool" where
  "samePolicy ci ch \<longleftrightarrow>
     ci_id ci = ch_id ch \<and> ci_name ci = ch_name ch \<and> ci_kind ci = ch_kind ch \<and>
     ci_enabled ci = ch_enabled ch \<and> ci_events ci = ch_events ch \<and>
     ci_minimumSeverity ci = ch_minimumSeverity ch \<and>
     ci_thresholdSeconds ci = ch_thresholdSeconds ch \<and> ci_recovery ci = ch_recovery ch"

definition buildChannel :: "(string \<Rightarrow> destination \<Rightarrow> encrypted_destination) \<Rightarrow> (destination \<Rightarrow> bool) \<Rightarrow>
    stored_configuration \<Rightarrow> channel_input \<Rightarrow> domain_error + stored_channel" where
  "buildChannel seal destinationValid current ci =
     (let existing = find (\<lambda>saved. ch_id saved = ci_id ci) (nc_channels current) in
      if ci_destination ci = None \<and>
         (case existing of None \<Rightarrow> True | Some saved \<Rightarrow> ch_kind saved \<noteq> ci_kind ci)
      then Inl DestinationRequired
      else if (case ci_destination ci of None \<Rightarrow> False | Some d \<Rightarrow> \<not> destinationValid d)
      then Inl DestinationBlockedError
      else
        let unchanged = (case existing of None \<Rightarrow> False
              | Some saved \<Rightarrow> ci_destination ci = None \<and> samePolicy ci saved);
            revision = (case existing of
                Some saved \<Rightarrow> if unchanged then ch_revision saved else nc_revision current + 1
              | None \<Rightarrow> nc_revision current + 1)
        in if revision > MAX_REVISION then Inl ConfigurationConflict
           else Inr \<lparr>ch_id = ci_id ci, ch_name = ci_name ci, ch_kind = ci_kind ci,
                ch_revision = revision, ch_enabled = ci_enabled ci, ch_events = ci_events ci,
                ch_minimumSeverity = ci_minimumSeverity ci,
                ch_thresholdSeconds = ci_thresholdSeconds ci, ch_recovery = ci_recovery ci,
                sc_ownerUserId = (case existing of None \<Rightarrow> None | Some saved \<Rightarrow>
                   (if sc_ownerUserId saved = Some [] then None else sc_ownerUserId saved)),
                sc_destination = (case ci_destination ci of Some d \<Rightarrow> seal (ci_id ci) d
                   | None \<Rightarrow> sc_destination (the existing)),
                sc_hasAuthorization = (case ci_destination ci of
                     Some d \<Rightarrow> (case d of EmailDestination _ \<Rightarrow> False
                       | WebhookDestination _ token _ \<Rightarrow> token \<noteq> None)
                   | None \<Rightarrow> sc_hasAuthorization (the existing))\<rparr>)"

fun traverse :: "('a \<Rightarrow> 'e + 'b) \<Rightarrow> 'a list \<Rightarrow> 'e + 'b list" where
  "traverse f [] = Inr []"
| "traverse f (x # xs) = andThen (f x) (\<lambda>y. andThen (traverse f xs) (\<lambda>ys. Inr (y # ys)))"

definition buildNotificationConfiguration :: "(string \<Rightarrow> destination \<Rightarrow> encrypted_destination) \<Rightarrow>
    (destination \<Rightarrow> bool) \<Rightarrow> stored_configuration \<Rightarrow> configuration_input \<Rightarrow>
    domain_error + stored_configuration" where
  "buildNotificationConfiguration seal destinationValid current input =
     (if nu_expectedRevision input \<noteq> nc_revision current \<or> nc_revision current \<ge> MAX_REVISION
      then Inl ConfigurationConflict
      else andThen (traverse (buildChannel seal destinationValid current) (nu_channels input))
        (\<lambda>channels. Inr \<lparr>nc_revision = nc_revision current + 1, nc_enabled = nu_enabled input,
           nc_pausedAfterRestore = (if nu_enabled input then False else nc_pausedAfterRestore current),
           nc_channels = channels\<rparr>))"

section \<open>Rules for the stored value\<close>

definition ownerCount :: "stored_channel list \<Rightarrow> string option \<Rightarrow> nat" where
  "ownerCount chs owner = length (filter (\<lambda>ch. sc_ownerUserId ch = owner) chs)"

definition channelShapeOk :: "stored_channel \<Rightarrow> bool" where
  "channelShapeOk ch \<longleftrightarrow> ch_events ch \<noteq> [] \<and> length (ch_events ch) \<le> 5 \<and> distinct (ch_events ch) \<and>
     0 \<le> ch_thresholdSeconds ch \<and> ch_thresholdSeconds ch \<le> 86400 \<and>
     0 < ch_revision ch \<and> ch_revision ch \<le> MAX_REVISION"

definition storedConfigurationOk :: "stored_configuration \<Rightarrow> bool" where
  "storedConfigurationOk c \<longleftrightarrow>
     0 \<le> nc_revision c \<and> nc_revision c \<le> MAX_REVISION \<and>
     length (nc_channels c) \<le> LIMIT_totalChannels \<and> list_all channelShapeOk (nc_channels c) \<and>
     \<not> (nc_enabled c \<and> nc_pausedAfterRestore c) \<and>
     distinct (map ch_id (nc_channels c)) \<and>
     list_all (\<lambda>ch. ch_revision ch \<le> nc_revision c) (nc_channels c) \<and>
     list_all (\<lambda>ch. ownerCount (nc_channels c) (sc_ownerUserId ch) \<le> 16) (nc_channels c)"

text \<open>What the input validation guarantees about an update.\<close>

definition inputChannelOk :: "channel_input \<Rightarrow> bool" where
  "inputChannelOk ci \<longleftrightarrow> ci_events ci \<noteq> [] \<and> length (ci_events ci) \<le> 5 \<and> distinct (ci_events ci) \<and>
     0 \<le> ci_thresholdSeconds ci \<and> ci_thresholdSeconds ci \<le> 86400 \<and>
     (case ci_destination ci of None \<Rightarrow> True | Some d \<Rightarrow> destinationKind d = ci_kind ci)"

definition updateInputOk :: "configuration_input \<Rightarrow> bool" where
  "updateInputOk input \<longleftrightarrow> 0 \<le> nu_expectedRevision input \<and> nu_expectedRevision input \<le> MAX_REVISION \<and>
     length (nu_channels input) \<le> 16 \<and> list_all inputChannelOk (nu_channels input) \<and>
     distinct (map ci_id (nu_channels input))"

section \<open>Access of channel owners\<close>

definition getAllowedNotificationCategories :: "permission_key list \<Rightarrow> category list" where
  "getAllowedNotificationCategories ps =
     (if contains ps CERTIFICATES_VIEW then [CertificateRenewal] else []) @
     (if contains ps DDNS_VIEW then [Ddns] else []) @
     (if contains ps PROXY_HOSTS_VIEW \<or> contains ps REDIRECT_HOSTS_VIEW \<or>
         contains ps ACCESS_POLICIES_VIEW then [ProxyConfiguration] else []) @
     (if contains ps BACKUPS_VIEW then [Backup] else []) @
     (if contains ps PROXY_HOSTS_VIEW then [HostAvailability] else [])"

definition canUsePrivateNotificationDestinations :: "permission_key list \<Rightarrow> bool" where
  "canUsePrivateNotificationDestinations ps = contains ps NOTIFICATIONS_MANAGE"

definition filterChannelByOwner :: "(string \<Rightarrow> permission_key list option) \<Rightarrow> stored_channel \<Rightarrow>
    stored_channel list" where
  "filterChannelByOwner owners ch =
     (case sc_ownerUserId ch of
        None \<Rightarrow> [ch]
      | Some owner \<Rightarrow>
          if owner = [] then [ch]
          else (case owners owner of
              None \<Rightarrow> []
            | Some ps \<Rightarrow>
                if \<not> contains ps APP_ACCESS then []
                else
                  let events = filter (contains (getAllowedNotificationCategories ps)) (ch_events ch)
                  in if events \<noteq> [] then [ch\<lparr>ch_events := events\<rparr>] else []))"

definition filterNotificationConfigurationByOwnerAccess :: "stored_configuration \<Rightarrow>
    (string \<Rightarrow> permission_key list option) \<Rightarrow> stored_configuration" where
  "filterNotificationConfigurationByOwnerAccess c owners =
     c\<lparr>nc_channels := concat (map (filterChannelByOwner owners) (nc_channels c))\<rparr>"

definition filterNotificationStateForChannels :: "notification_state \<Rightarrow> stored_channel list \<Rightarrow>
    category list option \<Rightarrow> notification_state" where
  "filterNotificationStateForChannels s chs allowedCategories =
     (let ids = map ch_id chs;
          categoryAllowed = (\<lambda>cat. case allowedCategories of None \<Rightarrow> True | Some cs \<Rightarrow> contains cs cat);
          deliveries = filter (\<lambda>d. contains ids (dl_channelId d) \<and>
            categoryAllowed (pl_category (dl_payload d))) (st_deliveries s);
          incidentIds = map (\<lambda>d. pl_incidentId (dl_payload d)) deliveries
      in s\<lparr>st_incidents := map (\<lambda>i. i\<lparr>in_channels := filter (\<lambda>m. contains ids (mk_channelId m)) (in_channels i)\<rparr>)
             (filter (\<lambda>i. categoryAllowed (in_category i) \<and> (contains incidentIds (in_id i) \<or>
               some_elem (\<lambda>m. contains ids (mk_channelId m)) (in_channels i))) (st_incidents s)),
           st_deliveries := deliveries, st_deferredCount := 0, st_saturationCount := 0\<rparr>)"

section \<open>Lemmas\<close>

lemma traverse_Inr: "traverse f xs = Inr ys \<longleftrightarrow> list_all2 (\<lambda>x y. f x = Inr y) xs ys"
  by (induction xs arbitrary: ys) (auto simp: andThen_Inr_iff list_all2_Cons1)

lemma list_all2_right: "list_all2 P xs ys \<Longrightarrow> y \<in> set ys \<Longrightarrow> \<exists>x \<in> set xs. P x y"
  by (induction rule: list_all2_induct) auto

lemma build_Inr:
  assumes "buildNotificationConfiguration seal valid c input = Inr c'"
  shows "nu_expectedRevision input = nc_revision c" "nc_revision c < MAX_REVISION"
    "nc_revision c' = nc_revision c + 1" "nc_enabled c' = nu_enabled input"
    "nc_pausedAfterRestore c' \<longleftrightarrow> \<not> nu_enabled input \<and> nc_pausedAfterRestore c"
    "list_all2 (\<lambda>ci ch. buildChannel seal valid c ci = Inr ch) (nu_channels input) (nc_channels c')"
  using assms
  by (auto simp: buildNotificationConfiguration_def andThen_Inr_iff traverse_Inr split: if_splits)

lemma buildChannel_Inr:
  assumes "buildChannel seal valid c ci = Inr ch"
  shows "ch_id ch = ci_id ci" "samePolicy ci ch" "sc_ownerUserId ch \<noteq> Some []"
    "ch_revision ch = nc_revision c + 1 \<or>
     (\<exists>old \<in> set (nc_channels c). ch_id old = ch_id ch \<and> ch_revision old = ch_revision ch \<and>
        samePolicy ci old \<and> sc_destination ch = sc_destination old)"
    "sc_ownerUserId ch = None \<or> (\<exists>old \<in> set (nc_channels c). ch_id old = ch_id ch \<and>
        sc_ownerUserId old = sc_ownerUserId ch)"
proof -
  show "ch_id ch = ci_id ci" "samePolicy ci ch"
    using assms by (auto simp: buildChannel_def Let_def samePolicy_def split: if_splits)
  show "sc_ownerUserId ch \<noteq> Some []"
    using assms by (auto simp: buildChannel_def Let_def split: if_splits option.splits)
  have mem: "find (\<lambda>saved. ch_id saved = ci_id ci) (nc_channels c) = Some old \<Longrightarrow>
      old \<in> set (nc_channels c) \<and> ch_id old = ci_id ci" for old
    by (auto simp: find_Some_iff)
  show "ch_revision ch = nc_revision c + 1 \<or>
     (\<exists>old \<in> set (nc_channels c). ch_id old = ch_id ch \<and> ch_revision old = ch_revision ch \<and>
        samePolicy ci old \<and> sc_destination ch = sc_destination old)"
  proof (cases "find (\<lambda>saved. ch_id saved = ci_id ci) (nc_channels c)")
    case None
    with assms show ?thesis by (auto simp: buildChannel_def Let_def split: if_splits option.splits)
  next
    case (Some old)
    with assms mem [OF Some] show ?thesis
      by (auto simp: buildChannel_def Let_def split: if_splits option.splits)
  qed
  show "sc_ownerUserId ch = None \<or> (\<exists>old \<in> set (nc_channels c). ch_id old = ch_id ch \<and>
        sc_ownerUserId old = sc_ownerUserId ch)"
  proof (cases "find (\<lambda>saved. ch_id saved = ci_id ci) (nc_channels c)")
    case None
    with assms show ?thesis by (auto simp: buildChannel_def Let_def split: if_splits option.splits)
  next
    case (Some old)
    with assms mem [OF Some] show ?thesis
      by (auto simp: buildChannel_def Let_def split: if_splits)
  qed
qed

lemma filterChannelByOwner_mem:
  assumes "ch' \<in> set (filterChannelByOwner owners ch)"
  shows "ch_id ch' = ch_id ch" "ch_revision ch' = ch_revision ch" "sc_ownerUserId ch' = sc_ownerUserId ch"
    "set (ch_events ch') \<subseteq> set (ch_events ch)"
    "sc_ownerUserId ch' = Some owner \<Longrightarrow> owner \<noteq> [] \<Longrightarrow> \<exists>ps. owners owner = Some ps \<and> APP_ACCESS \<in> set ps \<and>
       set (ch_events ch') \<subseteq> set (getAllowedNotificationCategories ps)"
  using assms
  by (auto simp: filterChannelByOwner_def Let_def split: option.splits if_splits)

lemma distinct_filterChannels:
  "distinct (map ch_id chs) \<Longrightarrow> distinct (map ch_id (concat (map (filterChannelByOwner owners) chs)))"
proof (induction chs)
  case (Cons ch chs)
  have "map ch_id (filterChannelByOwner owners ch) \<in> {[], [ch_id ch]}"
    by (auto simp: filterChannelByOwner_def Let_def split: option.splits)
  with Cons show ?case by (auto dest: filterChannelByOwner_mem(1))
qed simp

section \<open>Properties\<close>


definition sampleInput :: configuration_input where
  "sampleInput = \<lparr>nu_expectedRevision = 0, nu_enabled = True, nu_channels =
     [\<lparr>ci_id = ''c'', ci_name = ''Ops'', ci_kind = Email, ci_enabled = True, ci_events = [Ddns],
       ci_minimumSeverity = Warning, ci_thresholdSeconds = 60, ci_recovery = True,
       ci_destination = Some (EmailDestination [''ops@example.org''])\<rparr>]\<rparr>"

definition sampleSeal :: "string \<Rightarrow> destination \<Rightarrow> encrypted_destination" where
  "sampleSeal i d = \<lparr>ed_ciphertext = i, ed_iv = i\<rparr>"

definition sampleStored :: stored_configuration where
  "sampleStored = \<lparr>nc_revision = 1, nc_enabled = True, nc_pausedAfterRestore = False, nc_channels =
     [\<lparr>ch_id = ''c'', ch_name = ''Ops'', ch_kind = Email, ch_revision = 1, ch_enabled = True,
       ch_events = [Ddns], ch_minimumSeverity = Warning, ch_thresholdSeconds = 60, ch_recovery = True,
       sc_ownerUserId = None, sc_destination = \<lparr>ed_ciphertext = ''c'', ed_iv = ''c''\<rparr>,
       sc_hasAuthorization = False\<rparr>]\<rparr>"

lemma sample_build:
  "buildNotificationConfiguration sampleSeal (\<lambda>_. True) DEFAULT_NOTIFICATION_CONFIGURATION sampleInput
     = Inr sampleStored"
  by (simp add: buildNotificationConfiguration_def sampleInput_def sampleStored_def sampleSeal_def
      DEFAULT_NOTIFICATION_CONFIGURATION_def buildChannel_def MAX_REVISION_def Let_def)

lemma sample_stored_ok: "storedConfigurationOk DEFAULT_NOTIFICATION_CONFIGURATION"
  "updateInputOk sampleInput"
  by (simp_all add: storedConfigurationOk_def DEFAULT_NOTIFICATION_CONFIGURATION_def MAX_REVISION_def
      updateInputOk_def sampleInput_def inputChannelOk_def)


text \<open>
  A channel revision identifies one policy and one destination. If an update leaves a
  channel with the identifier and revision it had before, then nothing about it changed, so a
  delivery queued for that revision can never reach another destination.
\<close>

theorem channel_revisions_never_alias:
  assumes "storedConfigurationOk c" "buildNotificationConfiguration seal valid c input = Inr c'"
    and "ch \<in> set (nc_channels c)" "ch' \<in> set (nc_channels c')"
    and "ch_id ch' = ch_id ch" "ch_revision ch' = ch_revision ch"
  shows "channel_policy.truncate ch' = channel_policy.truncate ch \<and> sc_destination ch' = sc_destination ch"
proof -
  from list_all2_right [OF build_Inr(6) [OF assms(2)] assms(4)] obtain ci
    where ci: "buildChannel seal valid c ci = Inr ch'" by blast
  have "ch_revision ch \<le> nc_revision c"
    using assms(1,3) by (simp add: storedConfigurationOk_def list_all_iff)
  with buildChannel_Inr(4) [OF ci] assms(6) obtain old where old: "old \<in> set (nc_channels c)"
    "ch_id old = ch_id ch'" "samePolicy ci old" "sc_destination ch' = sc_destination old" by auto
  have "old = ch"
    using assms(1,3,5) old(1,2) by (auto simp: storedConfigurationOk_def distinct_map dest: inj_onD)
  with old buildChannel_Inr(2) [OF ci] assms(6) show ?thesis
    by (simp add: samePolicy_def channel_policy.truncate_def)
qed

definition sampleUpdate :: configuration_input where
  "sampleUpdate = sampleInput\<lparr>nu_expectedRevision := 1, nu_channels :=
     map (\<lambda>ci. ci\<lparr>ci_destination := None\<rparr>) (nu_channels sampleInput)\<rparr>"

theorem channel_revisions_never_alias_witness:
  "buildNotificationConfiguration sampleSeal (\<lambda>_. True) sampleStored sampleUpdate
     = Inr (sampleStored\<lparr>nc_revision := 2\<rparr>) \<and>
   sc_destination (hd (nc_channels (sampleStored\<lparr>nc_revision := 2\<rparr>))) = sc_destination (hd (nc_channels sampleStored))"
proof -
  have b: "buildNotificationConfiguration sampleSeal (\<lambda>_. True) sampleStored sampleUpdate
      = Inr (sampleStored\<lparr>nc_revision := 2\<rparr>)"
    by (simp add: buildNotificationConfiguration_def sampleInput_def sampleStored_def sampleUpdate_def
        samePolicy_def buildChannel_def MAX_REVISION_def Let_def)
  have "storedConfigurationOk sampleStored"
    by (simp add: storedConfigurationOk_def sampleStored_def MAX_REVISION_def channelShapeOk_def
        ownerCount_def LIMIT_totalChannels_def)
  from channel_revisions_never_alias [OF this b, of "hd (nc_channels sampleStored)"
      "hd (nc_channels (sampleStored\<lparr>nc_revision := 2\<rparr>))"] b show ?thesis by (simp add: sampleStored_def)
qed

end
