(* ===== verification/HostMonitoring.thy ===== *)
theory HostMonitoring
  imports MonitoringState NotificationConfig
begin

text \<open>
  The durable side of host monitoring,
  \<^verbatim>\<open>web/src/server/HostMonitoring/host-monitoring.repository.ts\<close>, with the notification calls it makes
  (\<^verbatim>\<open>web/src/server/Notifications/host-availability.repository.ts\<close>). The tables are lists of rows;
  an SQL update with a condition maps over them, \<^verbatim>\<open>returning\<close> is the filter of the touched rows.
  Each transaction runs under the advisory lock, so it is one step; where the code reads the
  database clock more than once, the readings are separate arguments.
\<close>

section \<open>Tables\<close>

record check_policy =
  cp_id :: string
  cp_proxyHostId :: string
  cp_domain :: string
  cp_enabled :: bool
  cp_version :: string
  cp_contextProof :: "string option"
  cp_contextRevision :: "string option"
  cp_intervalSeconds :: int
  cp_timeoutMs :: int
  cp_expectedStatus :: int
  cp_failureThreshold :: int
  cp_recoveryThreshold :: int
  cp_retentionDays :: int
  cp_sampleLimit :: nat
  cp_incidentLimit :: nat
  cp_snapshot :: snapshot
  cp_nextCheckAt :: int
  cp_lastCheckedAt :: "int option"
  cp_lastOutcome :: "mon_state option"
  cp_lastCode :: "outcome_code option"
  cp_lastDurationMs :: "int option"
  cp_lastHttpStatus :: "int option"
  cp_leaseToken :: "string option"
  cp_leaseExpiresAt :: "int option"
  cp_configuredBy :: "string option"
  cp_updatedAt :: int

datatype closed_reason = ClosedRecovered | PolicyChanged | MonitoringDisabled

record check_incident =
  ic_id :: string
  ic_policyId :: string
  ic_startedAt :: int
  ic_detectedAt :: int
  ic_recoveryStartedAt :: "int option"
  ic_recoveredAt :: "int option"
  ic_failureCode :: outcome_code
  ic_recoveryCode :: "outcome_code option"
  ic_closedReason :: "closed_reason option"
  ic_closedAt :: "int option"

record check_observation =
  co_id :: string
  co_policyId :: string
  co_policyVersion :: string
  co_checkedAt :: int
  co_status :: mon_state
  co_code :: outcome_code
  co_durationMs :: "int option"
  co_httpStatus :: "int option"

record monitoring_settings =
  hs_domain :: string
  hs_enabled :: bool
  hs_intervalSeconds :: int
  hs_timeoutMs :: int
  hs_expectedStatus :: int
  hs_failureThreshold :: int
  hs_recoveryThreshold :: int
  hs_retentionDays :: int
  hs_sampleLimit :: nat
  hs_incidentLimit :: nat

record proxy_db =
  db_policies :: "check_policy list"
  db_observations :: "check_observation list"
  db_incidents :: "check_incident list"
  db_hosts :: "(string \<times> bool) list"
  db_domains :: "(string \<times> string) list"
  db_rowId :: nat
  db_uuid :: nat
  db_configuration :: stored_configuration
  db_engine :: notification_state

text \<open>
  The environment of a transaction: the runtime, the database's row identifiers (\<^verbatim>\<open>uuidv7()\<close>), the
  validation library's formats and the current permissions of channel owners.
\<close>

record db_env =
  de_runtime :: runtime
  de_rowId :: "nat \<Rightarrow> string"
  de_formats :: formats
  de_owners :: "string \<Rightarrow> permission_key list option"

definition LIMIT_maxPolicies :: nat where "LIMIT_maxPolicies = 1000"
definition LIMIT_maxActiveClaims :: nat where "LIMIT_maxActiveClaims = 2"
definition LIMIT_monitoringLeaseMs :: int where "LIMIT_monitoringLeaseMs = 45000"
definition LIMIT_maxObservations :: nat where "LIMIT_maxObservations = 100000"
definition LIMIT_maxIncidents :: nat where "LIMIT_maxIncidents = 10000"

definition thresholdsOf :: "check_policy \<Rightarrow> thresholds" where
  "thresholdsOf p = \<lparr>th_failureThreshold = cp_failureThreshold p,
     th_recoveryThreshold = cp_recoveryThreshold p\<rparr>"

definition isOpenIncident :: "check_incident \<Rightarrow> bool" where
  "isOpenIncident i \<longleftrightarrow> ic_closedReason i = None"

definition updatePolicy :: "string \<Rightarrow> (check_policy \<Rightarrow> check_policy) \<Rightarrow> proxy_db \<Rightarrow> proxy_db" where
  "updatePolicy pid f db = db\<lparr>db_policies := map (\<lambda>p. if cp_id p = pid then f p else p) (db_policies db)\<rparr>"

definition updateOpenIncidents :: "string list \<Rightarrow> (check_incident \<Rightarrow> check_incident) \<Rightarrow> proxy_db \<Rightarrow> proxy_db" where
  "updateOpenIncidents pids f db = db\<lparr>db_incidents := map (\<lambda>i.
     if contains pids (ic_policyId i) \<and> isOpenIncident i then f i else i) (db_incidents db)\<rparr>"

definition closeAs :: "closed_reason \<Rightarrow> int \<Rightarrow> check_incident \<Rightarrow> check_incident" where
  "closeAs reason at i = i\<lparr>ic_closedReason := Some reason, ic_closedAt := Some at,
     ic_recoveryStartedAt := None\<rparr>"

section \<open>Notification calls\<close>

definition effectiveConfiguration :: "db_env \<Rightarrow> proxy_db \<Rightarrow> stored_configuration" where
  "effectiveConfiguration env db =
     filterNotificationConfigurationByOwnerAccess (db_configuration db) (de_owners env)"

text \<open>\<^verbatim>\<open>writeNotificationRuntime\<close>: the state is validated before it is written.\<close>

definition writeEngine :: "db_env \<Rightarrow> notification_state \<Rightarrow> nat \<Rightarrow> proxy_db \<Rightarrow> domain_error + proxy_db" where
  "writeEngine env s n db =
     (if s = db_engine db then Inr (db\<lparr>db_uuid := n\<rparr>)
      else if notificationStateSchema (de_formats env) s then Inr (db\<lparr>db_engine := s, db_uuid := n\<rparr>)
      else Inl ConfigurationUnavailableError)"

definition hostIncidentIds :: "string list \<Rightarrow> notification_state \<Rightarrow> string list" where
  "hostIncidentIds hostIds s =
     map in_id (filter (\<lambda>i. in_host i \<noteq> None \<and> contains hostIds (in_resourceId i)) (st_incidents s))"

definition cancelHostAvailabilityForHosts :: "db_env \<Rightarrow> string list \<Rightarrow> int \<Rightarrow> proxy_db \<Rightarrow>
    domain_error + proxy_db" where
  "cancelHostAvailabilityForHosts env hostIds now db =
     (if hostIds = [] \<or> hostIncidentIds hostIds (db_engine db) = [] then Inr db
      else writeEngine env (cancelHostAvailabilityIncidents (db_engine db)
        (hostIncidentIds hostIds (db_engine db)) now) (db_uuid db) db)"

definition hostTransition :: "check_policy \<Rightarrow> string \<Rightarrow> string \<Rightarrow> check_incident \<Rightarrow> transition_kind \<Rightarrow> int \<Rightarrow>
    host_transition" where
  "hostTransition p proof revision i kind occurredAt =
     \<lparr>ht_kind = kind, ht_incidentId = ic_id i, ht_proxyHostId = cp_proxyHostId p,
      ht_startedAt = ic_startedAt i, ht_occurredAt = occurredAt, ht_failures = cp_failureThreshold p,
      ht_host = \<lparr>hn_domain = cp_domain p, hn_failureCode = outcomeCodeName (ic_failureCode i),
        hn_detectedAt = toISOString (ic_detectedAt i),
        hn_recoveryStartedAt = map_option toISOString (ic_recoveryStartedAt i),
        hn_managementPath = ''/proxy-hosts'', hn_managementUrl = None,
        hc_policyId = cp_id p, hc_policyVersion = cp_version p, hc_contextProof = proof,
        hc_contextRevision = revision, hc_subscriptions = None\<rparr>\<rparr>"

definition recordHostAvailabilityTransition :: "db_env \<Rightarrow> check_policy \<Rightarrow> string \<Rightarrow> string \<Rightarrow>
    check_incident \<Rightarrow> transition_kind \<Rightarrow> int \<Rightarrow> proxy_db \<Rightarrow> domain_error + proxy_db" where
  "recordHostAvailabilityTransition env p proof revision i kind now db =
     (let stored = db_configuration db in
      if kind = Outage \<and> (\<not> nc_enabled stored \<or> nc_pausedAfterRestore stored \<or>
           \<not> some_elem (\<lambda>ch. ch_enabled ch \<and> contains (ch_events ch) HostAvailability) (nc_channels stored))
      then Inr db
      else if kind = Recovery \<and> \<not> some_elem (\<lambda>c. in_id c = ic_id i) (st_incidents (db_engine db))
      then Inr db
      else (case (if kind = Recovery then ic_recoveredAt i else Some (ic_detectedAt i)) of
          None \<Rightarrow> Inr db
        | Some occurredAt \<Rightarrow>
            andThen (observeHostAvailabilityTransition (de_runtime env)
                (engineConfiguration (effectiveConfiguration env db))
                (hostTransition p proof revision i kind occurredAt) (max now occurredAt)
                (db_engine db, db_uuid db))
              (\<lambda>(s, n). writeEngine env s n db)))"

section \<open>Policies\<close>

definition resetPolicy :: "string \<Rightarrow> int \<Rightarrow> check_policy \<Rightarrow> check_policy" where
  "resetPolicy version now p = p\<lparr>cp_version := version, cp_snapshot := cleared MUnknown,
     cp_contextProof := None, cp_contextRevision := None, cp_leaseToken := None,
     cp_leaseExpiresAt := None, cp_lastCheckedAt := None, cp_lastOutcome := None,
     cp_lastCode := None, cp_lastDurationMs := None, cp_lastHttpStatus := None,
     cp_nextCheckAt := now, cp_updatedAt := now\<rparr>"

fun invalidatePolicies :: "(nat \<Rightarrow> string) \<Rightarrow> string list \<Rightarrow> int \<Rightarrow> nat \<Rightarrow> check_policy list \<Rightarrow>
    check_policy list \<times> nat" where
  "invalidatePolicies rowId hostIds now n [] = ([], n)"
| "invalidatePolicies rowId hostIds now n (p # ps) =
     (if contains hostIds (cp_proxyHostId p)
      then let (ps', m) = invalidatePolicies rowId hostIds now (Suc n) ps
           in (resetPolicy (rowId n) now p # ps', m)
      else let (ps', m) = invalidatePolicies rowId hostIds now n ps in (p # ps', m))"

definition invalidateHostMonitoringForHosts :: "db_env \<Rightarrow> string list \<Rightarrow> closed_reason \<Rightarrow> int \<Rightarrow> proxy_db \<Rightarrow>
    domain_error + proxy_db" where
  "invalidateHostMonitoringForHosts env hostIds reason now db =
     (if hostIds = [] then Inr db
      else
        let touched = map cp_id (filter (\<lambda>p. contains hostIds (cp_proxyHostId p)) (db_policies db));
            (ps, n) = invalidatePolicies (de_rowId env) hostIds now (db_rowId db) (db_policies db);
            db1 = db\<lparr>db_policies := ps, db_rowId := n\<rparr>
        in cancelHostAvailabilityForHosts env hostIds now
             (if touched = [] then db1 else updateOpenIncidents touched (closeAs reason now) db1))"

definition applySettings :: "monitoring_settings \<Rightarrow> string \<Rightarrow> check_policy \<Rightarrow> check_policy" where
  "applySettings st actor p = p\<lparr>cp_domain := hs_domain st, cp_enabled := hs_enabled st,
     cp_intervalSeconds := hs_intervalSeconds st, cp_timeoutMs := hs_timeoutMs st,
     cp_expectedStatus := hs_expectedStatus st, cp_failureThreshold := hs_failureThreshold st,
     cp_recoveryThreshold := hs_recoveryThreshold st, cp_retentionDays := hs_retentionDays st,
     cp_sampleLimit := hs_sampleLimit st, cp_incidentLimit := hs_incidentLimit st,
     cp_configuredBy := Some actor\<rparr>"

definition newPolicy :: "string \<Rightarrow> string \<Rightarrow> check_policy" where
  "newPolicy pid hostId = \<lparr>cp_id = pid, cp_proxyHostId = hostId, cp_domain = [], cp_enabled = False,
     cp_version = [], cp_contextProof = None, cp_contextRevision = None, cp_intervalSeconds = 60,
     cp_timeoutMs = 3000, cp_expectedStatus = 200, cp_failureThreshold = 3, cp_recoveryThreshold = 2,
     cp_retentionDays = 7, cp_sampleLimit = 1440, cp_incidentLimit = 100,
     cp_snapshot = cleared MUnknown, cp_nextCheckAt = 0, cp_lastCheckedAt = None,
     cp_lastOutcome = None, cp_lastCode = None, cp_lastDurationMs = None, cp_lastHttpStatus = None,
     cp_leaseToken = None, cp_leaseExpiresAt = None, cp_configuredBy = None, cp_updatedAt = 0\<rparr>"

section \<open>Retention\<close>

definition laterObservation :: "check_observation \<Rightarrow> check_observation \<Rightarrow> bool" where
  "laterObservation a b \<longleftrightarrow> co_checkedAt a > co_checkedAt b \<or>
     (co_checkedAt a = co_checkedAt b \<and> co_id a > co_id b)"

definition laterClosed :: "check_incident \<Rightarrow> check_incident \<Rightarrow> bool" where
  "laterClosed a b \<longleftrightarrow> (case (ic_closedAt a, ic_closedAt b) of
     (Some x, Some y) \<Rightarrow> x > y \<or> (x = y \<and> ic_id a > ic_id b) | _ \<Rightarrow> False)"

text \<open>The rank of a row in its descending order is the number of rows before it.\<close>

definition rank :: "('a \<Rightarrow> 'a \<Rightarrow> bool) \<Rightarrow> 'a list \<Rightarrow> 'a \<Rightarrow> nat" where
  "rank later rows x = length (filter (\<lambda>y. later y x) rows)"

definition dayMs :: int where "dayMs = 86400000"

definition expiredObservation :: "check_policy \<Rightarrow> int \<Rightarrow> check_observation list \<Rightarrow> check_observation \<Rightarrow> bool" where
  "expiredObservation p now rows ob \<longleftrightarrow> co_policyId ob = cp_id p \<and>
     (co_checkedAt ob < now - cp_retentionDays p * dayMs \<or>
      rank laterObservation (filter (\<lambda>r. co_policyId r = cp_id p) rows) ob \<ge> cp_sampleLimit p)"

definition openCount :: "string \<Rightarrow> check_incident list \<Rightarrow> nat" where
  "openCount pid rows = length (filter (\<lambda>i. ic_policyId i = pid \<and> isOpenIncident i) rows)"

definition expiredIncident :: "check_policy \<Rightarrow> int \<Rightarrow> check_incident list \<Rightarrow> check_incident \<Rightarrow> bool" where
  "expiredIncident p now rows i \<longleftrightarrow> ic_policyId i = cp_id p \<and> \<not> isOpenIncident i \<and>
     ((case ic_closedAt i of None \<Rightarrow> False | Some t \<Rightarrow> t < now - cp_retentionDays p * dayMs) \<or>
      rank laterClosed (filter (\<lambda>r. ic_policyId r = cp_id p \<and> \<not> isOpenIncident r) rows) i
        \<ge> cp_incidentLimit p - openCount (cp_id p) rows)"

definition prunePolicyHistory :: "check_policy \<Rightarrow> int \<Rightarrow> proxy_db \<Rightarrow> proxy_db" where
  "prunePolicyHistory p now db = db\<lparr>
     db_observations := filter (\<lambda>ob. \<not> expiredObservation p now (db_observations db) ob) (db_observations db),
     db_incidents := filter (\<lambda>i. \<not> expiredIncident p now (db_incidents db) i) (db_incidents db)\<rparr>"

definition policyById :: "string \<Rightarrow> proxy_db \<Rightarrow> check_policy option" where
  "policyById pid db = find (\<lambda>p. cp_id p = pid) (db_policies db)"

text \<open>The sweep joins every row with its policy; rows without a policy are not touched.\<close>

definition sweptObservation :: "int \<Rightarrow> proxy_db \<Rightarrow> check_observation \<Rightarrow> bool" where
  "sweptObservation now db ob = (case policyById (co_policyId ob) db of
     None \<Rightarrow> False
   | Some p \<Rightarrow> expiredObservation p now (db_observations db) ob \<or>
       rank laterObservation (filter (\<lambda>r. policyById (co_policyId r) db \<noteq> None) (db_observations db)) ob
         \<ge> LIMIT_maxObservations)"

definition sweptIncident :: "int \<Rightarrow> proxy_db \<Rightarrow> check_incident \<Rightarrow> bool" where
  "sweptIncident now db i = (case policyById (ic_policyId i) db of
     None \<Rightarrow> False
   | Some p \<Rightarrow> \<not> isOpenIncident i \<and>
       ((case ic_closedAt i of None \<Rightarrow> False | Some t \<Rightarrow> t < now - cp_retentionDays p * dayMs) \<or>
        rank laterClosed (filter (\<lambda>r. ic_policyId r = cp_id p \<and> \<not> isOpenIncident r) (db_incidents db)) i
          \<ge> cp_incidentLimit p - (if openCount (cp_id p) (db_incidents db) = 0 then 0 else 1) \<or>
        rank laterClosed (filter (\<lambda>r. policyById (ic_policyId r) db \<noteq> None \<and> \<not> isOpenIncident r)
            (db_incidents db)) i
          \<ge> LIMIT_maxIncidents - length (filter isOpenIncident (db_incidents db))))"

definition pruneHistory :: "int \<Rightarrow> proxy_db \<Rightarrow> proxy_db" where
  "pruneHistory now db = (let db1 = db\<lparr>db_observations :=
       filter (\<lambda>ob. \<not> sweptObservation now db ob) (db_observations db)\<rparr>
     in db1\<lparr>db_incidents := filter (\<lambda>i. \<not> sweptIncident now db1 i) (db_incidents db1)\<rparr>)"

section \<open>Saving, claiming, releasing\<close>

datatype monitoring_error = PolicyLimitReached | PolicyNotSaved

definition saveHostMonitoringPolicy :: "db_env \<Rightarrow> string \<Rightarrow> monitoring_settings \<Rightarrow> string \<Rightarrow>
    check_policy option \<Rightarrow> int \<Rightarrow> proxy_db \<Rightarrow> monitoring_error + check_policy \<times> proxy_db" where
  "saveHostMonitoringPolicy env hostId settings actor existing now db =
     (if existing = None \<and> length (db_policies db) \<ge> LIMIT_maxPolicies then Inl PolicyLimitReached
      else
        let version = rt_makeId (de_runtime env) (db_uuid db);
            change = (\<lambda>p. resetPolicy version now (applySettings settings actor p));
            db1 = db\<lparr>db_uuid := Suc (db_uuid db)\<rparr>
        in case existing of
             None \<Rightarrow>
               let p = change (newPolicy (de_rowId env (db_rowId db)) hostId)
               in Inr (p, pruneHistory now (db1\<lparr>db_policies := db_policies db1 @ [p],
                    db_rowId := Suc (db_rowId db1)\<rparr>))
           | Some old \<Rightarrow>
               let db2 = updateOpenIncidents [cp_id old]
                     (closeAs (if hs_enabled settings then PolicyChanged else MonitoringDisabled) now) db1;
                   db3 = updatePolicy (cp_id old) change db2
               in (case find (\<lambda>p. cp_id p = cp_id old) (db_policies db3) of
                     None \<Rightarrow> Inl PolicyNotSaved
                   | Some p \<Rightarrow> Inr (p, pruneHistory now db3)))"

definition hostEligible :: "check_policy \<Rightarrow> proxy_db \<Rightarrow> bool" where
  "hostEligible p db \<longleftrightarrow> contains (db_hosts db) (cp_proxyHostId p, True) \<and>
     contains (db_domains db) (cp_proxyHostId p, cp_domain p)"

definition leaseActive :: "int \<Rightarrow> check_policy \<Rightarrow> bool" where
  "leaseActive now p \<longleftrightarrow> (case cp_leaseExpiresAt p of None \<Rightarrow> False | Some t \<Rightarrow> t > now)"

definition claimable :: "int \<Rightarrow> proxy_db \<Rightarrow> check_policy \<Rightarrow> bool" where
  "claimable now db p \<longleftrightarrow> cp_enabled p \<and> hostEligible p db \<and> cp_nextCheckAt p \<le> now \<and> \<not> leaseActive now p"

definition soonerPolicy :: "check_policy \<Rightarrow> check_policy \<Rightarrow> bool" where
  "soonerPolicy a b \<longleftrightarrow> cp_nextCheckAt a < cp_nextCheckAt b \<or>
     (cp_nextCheckAt a = cp_nextCheckAt b \<and> cp_id a < cp_id b)"

definition claimDueHostMonitoringPolicy :: "db_env \<Rightarrow> int \<Rightarrow> proxy_db \<Rightarrow>
    (check_policy \<times> string) option \<times> proxy_db" where
  "claimDueHostMonitoringPolicy env now db =
     (if length (filter (leaseActive now) (db_policies db)) \<ge> LIMIT_maxActiveClaims then (None, db)
      else
        let due = filter (claimable now db) (db_policies db) in
        case find (\<lambda>p. list_all (\<lambda>q. \<not> soonerPolicy q p) due) due of
          None \<Rightarrow> (None, db)
        | Some p \<Rightarrow>
            let token = rt_makeId (de_runtime env) (db_uuid db);
                lease = (\<lambda>q. q\<lparr>cp_leaseToken := Some token,
                  cp_leaseExpiresAt := Some (now + LIMIT_monitoringLeaseMs)\<rparr>)
            in (Some (lease p, token),
                (updatePolicy (cp_id p) lease db)\<lparr>db_uuid := Suc (db_uuid db)\<rparr>))"

definition holdsClaim :: "check_policy \<times> string \<Rightarrow> int \<Rightarrow> check_policy \<Rightarrow> bool" where
  "holdsClaim claim now p \<longleftrightarrow> cp_id p = cp_id (fst claim) \<and> cp_version p = cp_version (fst claim) \<and>
     cp_leaseToken p = Some (snd claim) \<and> leaseActive now p"

definition currentClaim :: "check_policy \<times> string \<Rightarrow> int \<Rightarrow> proxy_db \<Rightarrow> check_policy option" where
  "currentClaim claim now db = find (holdsClaim claim now) (db_policies db)"

definition clearLease :: "check_policy \<Rightarrow> int \<Rightarrow> proxy_db \<Rightarrow> proxy_db" where
  "clearLease p now db = updatePolicy (cp_id p) (\<lambda>q. q\<lparr>cp_leaseToken := None,
     cp_leaseExpiresAt := None, cp_nextCheckAt := now + cp_intervalSeconds p * 1000,
     cp_updatedAt := now\<rparr>) db"

definition releaseHostMonitoringClaim :: "check_policy \<times> string \<Rightarrow> int \<Rightarrow> proxy_db \<Rightarrow> bool \<times> proxy_db" where
  "releaseHostMonitoringClaim claim now db =
     (case currentClaim claim now db of
        None \<Rightarrow> (False, db)
      | Some p \<Rightarrow> (True, clearLease p now db))"

section \<open>Completing a claim\<close>

definition recordOutcome :: "check_policy \<Rightarrow> outcome \<Rightarrow> snapshot \<Rightarrow> string \<Rightarrow> string \<Rightarrow> int \<Rightarrow> int \<Rightarrow>
    check_policy \<Rightarrow> check_policy" where
  "recordOutcome p oc sn proof revision checkedAt now q = q\<lparr>cp_snapshot := sn,
     cp_contextProof := Some proof, cp_contextRevision := Some revision,
     cp_lastCheckedAt := Some checkedAt, cp_lastOutcome := Some (oc_status oc),
     cp_lastCode := Some (oc_code oc), cp_lastDurationMs := oc_durationMs oc,
     cp_lastHttpStatus := oc_httpStatus oc, cp_leaseToken := None, cp_leaseExpiresAt := None,
     cp_nextCheckAt := now + cp_intervalSeconds p * 1000, cp_updatedAt := now\<rparr>"

definition openIncident :: "string \<Rightarrow> string \<Rightarrow> mon_transition \<Rightarrow> check_incident" where
  "openIncident iid pid tr = \<lparr>ic_id = iid, ic_policyId = pid, ic_startedAt = mt_firstObservedAt tr,
     ic_detectedAt = mt_confirmedAt tr, ic_recoveryStartedAt = None, ic_recoveredAt = None,
     ic_failureCode = mt_code tr, ic_recoveryCode = None, ic_closedReason = None, ic_closedAt = None\<rparr>"

definition recoverAs :: "mon_transition \<Rightarrow> check_incident \<Rightarrow> check_incident" where
  "recoverAs tr i = i\<lparr>ic_recoveryStartedAt := Some (mt_firstObservedAt tr),
     ic_recoveredAt := Some (mt_confirmedAt tr), ic_recoveryCode := Some (mt_code tr),
     ic_closedReason := Some ClosedRecovered, ic_closedAt := Some (mt_confirmedAt tr)\<rparr>"

definition openIncidentOf :: "string \<Rightarrow> proxy_db \<Rightarrow> check_incident option" where
  "openIncidentOf pid db = find (\<lambda>i. ic_policyId i = pid \<and> isOpenIncident i) (db_incidents db)"

text \<open>The incident rows a state change writes, and the incident to report, if any.\<close>

definition writeTransition :: "db_env \<Rightarrow> check_policy \<Rightarrow> snapshot \<Rightarrow> snapshot \<times> mon_transition option \<Rightarrow>
    proxy_db \<Rightarrow> proxy_db \<times> (check_incident \<times> transition_kind) option" where
  "writeTransition env p previous change db =
     (case snd change of
        Some tr \<Rightarrow>
          (case mt_kind tr of
             OutageTransition \<Rightarrow>
               let i = openIncident (de_rowId env (db_rowId db)) (cp_id p) tr
               in (db\<lparr>db_incidents := db_incidents db @ [i], db_rowId := Suc (db_rowId db)\<rparr>,
                   Some (i, Outage))
           | RecoveryTransition \<Rightarrow>
               (updateOpenIncidents [cp_id p] (recoverAs tr) db,
                map_option (\<lambda>i. (recoverAs tr i, Recovery)) (openIncidentOf (cp_id p) db)))
      | None \<Rightarrow>
          (if sn_state previous = MUnhealthy
           then updateOpenIncidents [cp_id p]
             (\<lambda>i. i\<lparr>ic_recoveryStartedAt := sn_recoveryStartedAt (fst change)\<rparr>) db
           else db, None))"

definition insertObservation :: "db_env \<Rightarrow> check_policy \<Rightarrow> outcome \<Rightarrow> int \<Rightarrow> proxy_db \<Rightarrow> proxy_db" where
  "insertObservation env p oc now db = db\<lparr>
     db_observations := db_observations db @ [\<lparr>co_id = de_rowId env (db_rowId db),
       co_policyId = cp_id p, co_policyVersion = cp_version p, co_checkedAt = now,
       co_status = oc_status oc, co_code = oc_code oc, co_durationMs = oc_durationMs oc,
       co_httpStatus = oc_httpStatus oc\<rparr>],
     db_rowId := Suc (db_rowId db)\<rparr>"

text \<open>
  \<open>t1\<close>, \<open>t2\<close>, \<open>t3\<close> are the readings of the clock when the claim is looked up, after the context
  comparison, and at the final update. \<open>Inl\<close> is an exception that rolls the transaction back.
\<close>

definition completeHostMonitoringClaim :: "db_env \<Rightarrow> check_policy \<times> string \<Rightarrow> outcome \<Rightarrow>
    (check_policy \<Rightarrow> bool) \<Rightarrow> string \<Rightarrow> string \<Rightarrow> int \<Rightarrow> int \<Rightarrow> int \<Rightarrow> proxy_db \<Rightarrow>
    domain_error + bool \<times> proxy_db" where
  "completeHostMonitoringClaim env claim oc contextMatches proof revision t1 t2 t3 db =
     (case currentClaim claim t1 db of
        None \<Rightarrow> Inr (False, db)
      | Some p \<Rightarrow>
          if \<not> cp_enabled p \<or> \<not> hostEligible p db \<or> \<not> contextMatches p
          then Inr (False, clearLease p t2 db)
          else if \<not> leaseActive t2 p then Inr (False, db)
          else
            let contextChanged = (cp_contextProof p \<noteq> Some proof \<or> cp_contextRevision p \<noteq> Some revision);
                db1 = (if contextChanged then updateOpenIncidents [cp_id p] (closeAs PolicyChanged t2) db
                       else db);
                previous = (if contextChanged then cleared MUnknown else cp_snapshot p);
                change = advanceHostMonitoringState previous oc (thresholdsOf p) t2;
                db2 = insertObservation env p oc t2 db1;
                (db3, report) = writeTransition env p previous change db2;
                db4 = prunePolicyHistory p t3 db3
            in if \<not> some_elem (holdsClaim claim t3) (db_policies db4) then Inr (False, db)
               else
                 let db5 = updatePolicy (cp_id p) (recordOutcome p oc (fst change) proof revision t2 t3) db4
                 in case report of
                      None \<Rightarrow> Inr (True, db5)
                    | Some (i, kind) \<Rightarrow>
                        andThen (recordHostAvailabilityTransition env p proof revision i kind t3 db5)
                          (\<lambda>db6. Inr (True, db6)))"

end
