(* ===== verification/MonitoringService.thy ===== *)
theory MonitoringService
  imports HostMonitoring
begin

text \<open>
  What stands on the monitoring repository: the policy service
  (\<^verbatim>\<open>web/src/server/HostMonitoring/host-monitoring.service.ts\<close>), the probe
  (\<^verbatim>\<open>host-monitoring.probe.ts\<close>, with the context callbacks of \<^verbatim>\<open>host-monitoring.worker.server.ts\<close>) and
  one round of the worker (\<^verbatim>\<open>host-monitoring.worker.ts\<close>). The HTTP inspection, the context reader of
  the runtime component and the domain normaliser are arguments.
\<close>

section \<open>Settings and views\<close>

definition settingsOk :: "(string \<Rightarrow> bool) \<Rightarrow> monitoring_settings \<Rightarrow> bool" where
  "settingsOk domainOk st \<longleftrightarrow>
     1 \<le> length (hs_domain st) \<and> length (hs_domain st) \<le> 253 \<and> domainOk (hs_domain st) \<and>
     take 2 (hs_domain st) \<noteq> ''*.'' \<and>
     30 \<le> hs_intervalSeconds st \<and> hs_intervalSeconds st \<le> 86400 \<and>
     1000 \<le> hs_timeoutMs st \<and> hs_timeoutMs st \<le> 10000 \<and>
     100 \<le> hs_expectedStatus st \<and> hs_expectedStatus st \<le> 599 \<and>
     1 \<le> hs_failureThreshold st \<and> hs_failureThreshold st \<le> 20 \<and>
     1 \<le> hs_recoveryThreshold st \<and> hs_recoveryThreshold st \<le> 20 \<and>
     1 \<le> hs_retentionDays st \<and> hs_retentionDays st \<le> 30 \<and>
     10 \<le> hs_sampleLimit st \<and> hs_sampleLimit st \<le> 10000 \<and>
     1 \<le> hs_incidentLimit st \<and> hs_incidentLimit st \<le> 1000"

definition policySettings :: "check_policy \<Rightarrow> monitoring_settings" where
  "policySettings p = \<lparr>hs_domain = cp_domain p, hs_enabled = cp_enabled p,
     hs_intervalSeconds = cp_intervalSeconds p, hs_timeoutMs = cp_timeoutMs p,
     hs_expectedStatus = cp_expectedStatus p, hs_failureThreshold = cp_failureThreshold p,
     hs_recoveryThreshold = cp_recoveryThreshold p, hs_retentionDays = cp_retentionDays p,
     hs_sampleLimit = cp_sampleLimit p, hs_incidentLimit = cp_incidentLimit p\<rparr>"

datatype availability = AvDisabled | AvHostDisabled | AvDomainRemoved | AvNotChecked | AvStale
  | AvState mon_state

record policy_view =
  pv_id :: string
  pv_proxyHostId :: string
  pv_version :: string
  pv_settings :: monitoring_settings
  pv_state :: mon_state
  pv_availability :: availability
  pv_lastCheckedAt :: "int option"
  pv_lastOutcome :: "mon_state option"
  pv_lastCode :: "outcome_code option"
  pv_lastDurationMs :: "int option"
  pv_lastHttpStatus :: "int option"
  pv_nextCheckAt :: "int option"

definition policyAvailability :: "check_policy \<Rightarrow> bool \<Rightarrow> string list \<Rightarrow> int \<Rightarrow> availability" where
  "policyAvailability p hostEnabled domains now =
     (if \<not> cp_enabled p then AvDisabled
      else if \<not> hostEnabled then AvHostDisabled
      else if \<not> contains domains (cp_domain p) then AvDomainRemoved
      else case cp_lastCheckedAt p of
          None \<Rightarrow> AvNotChecked
        | Some checked \<Rightarrow>
            if now - checked > cp_intervalSeconds p * 2000 + cp_timeoutMs p + 15000 then AvStale
            else if cp_lastOutcome p = Some MUnknown then AvState MUnknown
            else AvState (sn_state (cp_snapshot p)))"

definition policyView :: "check_policy \<Rightarrow> bool \<Rightarrow> string list \<Rightarrow> int \<Rightarrow> policy_view" where
  "policyView p hostEnabled domains now =
     (let eligible = (cp_enabled p \<and> hostEnabled \<and> contains domains (cp_domain p)) in
      \<lparr>pv_id = cp_id p, pv_proxyHostId = cp_proxyHostId p, pv_version = cp_version p,
       pv_settings = policySettings p, pv_state = sn_state (cp_snapshot p),
       pv_availability = policyAvailability p hostEnabled domains now,
       pv_lastCheckedAt = cp_lastCheckedAt p, pv_lastOutcome = cp_lastOutcome p,
       pv_lastCode = cp_lastCode p, pv_lastDurationMs = cp_lastDurationMs p,
       pv_lastHttpStatus = cp_lastHttpStatus p,
       pv_nextCheckAt = (if eligible then Some (cp_nextCheckAt p) else None)\<rparr>)"

definition hostDomainsOf :: "string \<Rightarrow> proxy_db \<Rightarrow> string list" where
  "hostDomainsOf hostId db = map snd (filter (\<lambda>hd. fst hd = hostId) (db_domains db))"

definition readHostMonitoringPolicy :: "string \<Rightarrow> proxy_db \<Rightarrow> check_policy option" where
  "readHostMonitoringPolicy hostId db = find (\<lambda>p. cp_proxyHostId p = hostId) (db_policies db)"

section \<open>The service\<close>

datatype service_error = InvalidInput | Forbidden | RateLimited | HostNotFound | VersionConflict
  | SaveFailed monitoring_error

record save_input =
  si_proxyHostId :: string
  si_expectedVersion :: "string option"
  si_settings :: monitoring_settings

definition readHost :: "permission_key list \<Rightarrow> string \<Rightarrow> proxy_db \<Rightarrow> service_error + bool" where
  "readHost permissions hostId db =
     (if \<not> contains permissions PROXY_HOSTS_VIEW then Inl Forbidden
      else case map_of (db_hosts db) hostId of
          None \<Rightarrow> Inl HostNotFound
        | Some enabled \<Rightarrow> Inr enabled)"

definition getPolicy :: "permission_key list \<Rightarrow> string \<Rightarrow> int \<Rightarrow> proxy_db \<Rightarrow>
    service_error + policy_view option" where
  "getPolicy permissions hostId now db =
     andThen (readHost permissions hostId db) (\<lambda>enabled.
       Inr (map_option (\<lambda>p. policyView p enabled (hostDomainsOf hostId db) now)
         (readHostMonitoringPolicy hostId db)))"

definition savePolicy :: "db_env \<Rightarrow> (string \<Rightarrow> bool) \<Rightarrow> string \<Rightarrow> permission_key list \<Rightarrow> bool \<Rightarrow>
    save_input \<Rightarrow> int \<Rightarrow> proxy_db \<Rightarrow> service_error + policy_view \<times> proxy_db" where
  "savePolicy env domainOk actor permissions withinRate input now db =
     (let hostId = si_proxyHostId input; settings = si_settings input in
      andThen (guardR (settingsOk domainOk settings) InvalidInput) (\<lambda>_.
      andThen (guardR (contains permissions PROXY_HOSTS_UPDATE) Forbidden) (\<lambda>_.
      andThen (guardR withinRate RateLimited) (\<lambda>_.
      andThen (readHost permissions hostId db) (\<lambda>enabled.
        let domains = hostDomainsOf hostId db; existing = readHostMonitoringPolicy hostId db in
        andThen (guardR (contains domains (hs_domain settings)) InvalidInput) (\<lambda>_.
        andThen (guardR (map_option cp_version existing = si_expectedVersion input) VersionConflict) (\<lambda>_.
          if map_option policySettings existing = Some settings
          then Inr (policyView (the existing) enabled domains now, db)
          else (case saveHostMonitoringPolicy env hostId settings actor existing now db of
              Inl e \<Rightarrow> Inl (SaveFailed e)
            | Inr (p, db') \<Rightarrow> Inr (policyView p enabled domains now, db')))))))))"

section \<open>The probe\<close>

record probe_context =
  pc_enabled :: bool
  pc_proof :: string
  pc_revision :: string
  pc_availabilityProof :: string
  pc_availabilityRevision :: string

text \<open>What the inspection gives: a result (\<open>None\<close> when the schema refuses its shape) or an error.\<close>

datatype inspection = Inspected "diagnostics option" | InspectionBusy | InspectionFailed

definition readContext :: "(check_policy \<Rightarrow> probe_context option) \<Rightarrow> check_policy \<times> string \<Rightarrow> int \<Rightarrow>
    proxy_db \<Rightarrow> probe_context option" where
  "readContext reader claim now db =
     (if some_elem (\<lambda>p. holdsClaim claim now p \<and> cp_enabled p) (db_policies db)
      then reader (fst claim) else None)"

definition probeOutcome :: "check_policy \<Rightarrow> probe_context \<Rightarrow> inspection \<Rightarrow> outcome" where
  "probeOutcome p ctx inspected =
     (case inspected of
        Inspected (Some g) \<Rightarrow>
          if \<not> diagnosticsOk g \<or> dg_hostType g \<noteq> ProxyHost \<or> dg_hostId g \<noteq> cp_proxyHostId p \<or>
             dg_domain g \<noteq> cp_domain p \<or> dg_expectedRevision g \<noteq> pc_revision ctx
          then unknownHostMonitoringOutcome OcInvalidResponse
          else classifyHostMonitoringOutcome (Some g) (cp_expectedStatus p)
      | Inspected None \<Rightarrow> unknownHostMonitoringOutcome OcInvalidResponse
      | InspectionBusy \<Rightarrow> unknownHostMonitoringOutcome OcBusy
      | InspectionFailed \<Rightarrow> unknownHostMonitoringOutcome OcRuntimeUnavailable)"

definition contextStillMatches :: "(check_policy \<Rightarrow> probe_context option) \<Rightarrow> probe_context \<Rightarrow>
    check_policy \<Rightarrow> bool" where
  "contextStillMatches reader ctx p =
     (case reader p of
        None \<Rightarrow> False
      | Some later \<Rightarrow> pc_enabled later \<and> pc_proof later = pc_proof ctx \<and>
          pc_revision later = pc_revision ctx)"

text \<open>
  The clock readings of a probe: when the context is read, the three of the completion, and the
  final release.
\<close>

record probe_times =
  pt_read :: int
  pt_claim :: int
  pt_compare :: int
  pt_write :: int
  pt_release :: int

text \<open>
  One claimed probe. \<open>reader\<close> and \<open>laterReader\<close> are the runtime's context before the inspection and
  at completion. A cancelled probe, a refused context and a failed completion all end in the
  release of the \<^verbatim>\<open>finally\<close> block.
\<close>

definition runClaim :: "db_env \<Rightarrow> (check_policy \<Rightarrow> probe_context option) \<Rightarrow>
    (check_policy \<Rightarrow> probe_context option) \<Rightarrow> inspection \<Rightarrow> bool \<Rightarrow> check_policy \<times> string \<Rightarrow>
    probe_times \<Rightarrow> proxy_db \<Rightarrow> proxy_db" where
  "runClaim env reader laterReader inspected cancelled claim pt db =
     (let db' = (if cancelled then db
          else case readContext reader claim (pt_read pt) db of
              None \<Rightarrow> db
            | Some ctx \<Rightarrow>
                if \<not> pc_enabled ctx then db
                else (case completeHostMonitoringClaim env claim (probeOutcome (fst claim) ctx inspected)
                      (contextStillMatches laterReader ctx) (pc_availabilityProof ctx)
                      (pc_availabilityRevision ctx) (pt_claim pt) (pt_compare pt) (pt_write pt) db of
                    Inl e \<Rightarrow> db
                  | Inr (completed, db1) \<Rightarrow> db1))
      in snd (releaseHostMonitoringClaim claim (pt_release pt) db'))"

end
