(* ===== verification/Observations.thy ===== *)
theory Observations
  imports NotificationTypes
begin

text \<open>
  Where signals come from: \<^verbatim>\<open>web/src/server/Notifications/observations.ts\<close> turns certificate events,
  certificate snapshots, dynamic DNS results and the state of the proxy runtime into observations,
  and \<^verbatim>\<open>collector.ts\<close> gathers them in one poll. The controller calls the collector makes are
  arguments: a call that fails, or whose answer its schema refuses, is \<open>None\<close>. Certificate error
  codes are opaque strings here; timestamps are the strings the controller sends.
\<close>

section \<open>Certificates\<close>

datatype certificate_source = ManualSource | Acme
datatype certificate_status = CPending | CValid | CFailed
datatype certificate_operation = OpIdle | OpIssuing | OpRenewing
datatype operation_kind = OkIssue | OkRenew | OkImport
datatype operation_stage = StAwaitingDns | StCheckingDns | StCancelling | StCancelled | StExpired
  | StQueued | StCreatingOrder | StPreparingChallenge | StWaitingForValidation | StFinalizing
  | StCertificateReady | StApplying | StApplied | StRetryScheduled | StFailed | StNeedsAttention
datatype event_kind = EkOperatorActionRequired | EkCancelled | EkExpired | EkAccepted | EkStarted
  | EkIssued | EkActivated | EkRenewed | EkRetryScheduled | EkFailed
datatype manual_status = MsAwaitingInput | MsCheckingDns | MsValidating | MsFinalizing | MsComplete
  | MsCancelled | MsExpired | MsFailed
datatype dns_mode = DmProvider | DmManual | DmDelegated

record manual_dns =
  md_status :: manual_status
  md_lastErrorCode :: "string option"

record current_operation =
  op_id :: string
  op_kind :: operation_kind
  op_stage :: operation_stage
  op_dnsMode :: "dns_mode option"
  op_manualDns :: "manual_dns option"
  op_startedAt :: string
  op_updatedAt :: string

record certificate =
  ce_id :: string
  ce_source :: certificate_source
  ce_status :: certificate_status
  ce_operation :: certificate_operation
  ce_currentOperation :: "current_operation option"
  ce_expiresAt :: "string option"
  ce_fingerprint :: "string option"
  ce_hasCandidate :: bool
  ce_lastErrorCode :: "string option"
  ce_attemptCount :: "int option"
  ce_lastAttemptAt :: "string option"
  ce_lastActivatedAt :: "string option"
  ce_lastErrorAt :: "string option"

record certificate_event =
  ev_operationId :: string
  ev_operationKind :: "operation_kind option"
  ev_certificateId :: string
  ev_kind :: event_kind
  ev_stage :: operation_stage
  ev_occurredAt :: string
  ev_errorCode :: "string option"

definition time :: "runtime \<Rightarrow> string option \<Rightarrow> int option" where
  "time rt v = (case v of None \<Rightarrow> None | Some s \<Rightarrow> if s = [] then None else rt_dateParse rt s)"

text \<open>\<^verbatim>\<open>operation.manualDns?.status ?? operation.stage\<close> is one of failed, expired, cancelled.\<close>

definition manualEnded :: "current_operation \<Rightarrow> bool" where
  "manualEnded op = (case op_manualDns op of
     Some md \<Rightarrow> contains [MsFailed, MsExpired, MsCancelled] (md_status md)
   | None \<Rightarrow> contains [StFailed, StExpired, StCancelled] (op_stage op))"

definition isPendingManualDnsRenewal :: "certificate \<Rightarrow> bool" where
  "isPendingManualDnsRenewal c = (case ce_currentOperation c of
     None \<Rightarrow> False
   | Some op \<Rightarrow> op_dnsMode op = Some DmManual \<and> op_kind op = OkRenew \<and> ce_operation c \<noteq> OpIdle \<and>
       \<not> manualEnded op)"

definition activatedTime :: "runtime \<Rightarrow> certificate \<Rightarrow> int \<Rightarrow> int option" where
  "activatedTime rt c now =
     (let failed = time rt (ce_lastErrorAt c) in
      case time rt (ce_lastActivatedAt c) of
        None \<Rightarrow> None
      | Some activated \<Rightarrow>
          if ce_source c \<noteq> Acme \<or> ce_status c \<noteq> CValid \<or>
             ce_fingerprint c = None \<or> ce_fingerprint c = Some [] \<or> ce_hasCandidate c \<or>
             ce_operation c \<noteq> OpIdle \<or> activated > now \<or>
             (ce_lastErrorCode c \<noteq> None \<and> failed = None) \<or>
             (case failed of None \<Rightarrow> False | Some f \<Rightarrow> activated \<le> f) \<or>
             (case time rt (ce_expiresAt c) of None \<Rightarrow> 0 | Some e \<Rightarrow> e) \<le> now
          then None else Some activated)"

definition activatedAt :: "runtime \<Rightarrow> certificate \<Rightarrow> int \<Rightarrow> string option" where
  "activatedAt rt c now = map_option toISOString (activatedTime rt c now)"

definition operationIs :: "string \<Rightarrow> certificate \<Rightarrow> bool" where
  "operationIs oid c = (case ce_currentOperation c of None \<Rightarrow> False | Some op \<Rightarrow> op_id op = oid)"

definition eventOperationKind :: "certificate_event \<Rightarrow> certificate \<Rightarrow> operation_kind option" where
  "eventOperationKind ev c = (case ev_operationKind ev of
     Some k \<Rightarrow> Some k
   | None \<Rightarrow> if operationIs (ev_operationId ev) c then map_option op_kind (ce_currentOperation c) else None)"

definition renewalObservation :: "observation_source \<Rightarrow> string \<Rightarrow> health \<Rightarrow> severity \<Rightarrow> string \<Rightarrow> json \<Rightarrow>
    int \<Rightarrow> observation" where
  "renewalObservation source certificateId health severity at evidence failures =
     \<lparr>ob_source = source, ob_category = CertificateRenewal, ob_resourceId = certificateId,
      ob_health = health, ob_code = None, ob_desiredRevision = None, ob_severity = severity,
      ob_occurredAt = at, ob_evidence = stringify evidence, ob_failures = failures\<rparr>"

definition attempts :: "certificate \<Rightarrow> int" where
  "attempts c = max 1 (case ce_attemptCount c of None \<Rightarrow> 1 | Some n \<Rightarrow> n)"

definition certificateEventObservation :: "runtime \<Rightarrow> certificate list \<Rightarrow> int \<Rightarrow> certificate_event \<Rightarrow>
    observation list" where
  "certificateEventObservation rt certificates now ev =
     (case find (\<lambda>c. ce_id c = ev_certificateId ev) (rev certificates) of
        None \<Rightarrow> []
      | Some c \<Rightarrow>
          (case time rt (Some (ev_occurredAt ev)) of
             None \<Rightarrow> []
           | Some occurred \<Rightarrow>
               if ce_source c \<noteq> Acme \<or> occurred > now \<or> eventOperationKind ev c \<noteq> Some OkRenew \<or>
                  isPendingManualDnsRenewal c
               then []
               else
                 let failing = ((ev_kind ev = EkFailed \<or> ev_kind ev = EkRetryScheduled) \<and> ev_errorCode ev \<noteq> None);
                     severity = (if ev_stage ev = StNeedsAttention then Critical else Error)
                 in if failing
                    then [renewalObservation Event (ev_certificateId ev) Failing severity
                      (toISOString occurred)
                      (JArr [JStr ''certificate-renewal'', JStr (ev_operationId ev),
                         JStr (toISOString occurred), JStr (the (ev_errorCode ev))])
                      (if operationIs (ev_operationId ev) c \<and> time rt (ce_lastErrorAt c) = Some occurred
                       then attempts c else 1)]
                    else (case activatedTime rt c now of
                        None \<Rightarrow> []
                      | Some activated \<Rightarrow>
                          if (ev_kind ev = EkRenewed \<or> ev_kind ev = EkActivated) \<and> ev_stage ev = StApplied \<and>
                             activated \<ge> occurred
                          then [renewalObservation Event (ev_certificateId ev) Healthy severity
                            (toISOString activated)
                            (JArr [JStr ''certificate-activation'', JStr (toISOString activated)]) 0]
                          else [])))"

definition certificateEventObservations :: "runtime \<Rightarrow> certificate_event list \<Rightarrow> certificate list \<Rightarrow> int \<Rightarrow>
    observation list" where
  "certificateEventObservations rt events certificates now =
     concat (map (certificateEventObservation rt certificates now) events)"

definition manualDnsObservation :: "runtime \<Rightarrow> certificate \<Rightarrow> current_operation \<Rightarrow> int \<Rightarrow> observation list" where
  "manualDnsObservation rt c op now =
     (case (map_option md_status (op_manualDns op), time rt (Some (op_startedAt op))) of
        (Some MsAwaitingInput, Some occurred) \<Rightarrow>
          if occurred \<le> now
          then [(renewalObservation Snapshot (ce_id c) Failing Error (toISOString occurred)
                  (JArr [JStr ''certificate-manual-dns'', JStr (op_id op)]) 1)
                  \<lparr>ob_code := Some ManualDnsRequired\<rparr>]
          else []
      | _ \<Rightarrow> [])"

definition renewalError :: "certificate \<Rightarrow> string option" where
  "renewalError c = (case ce_lastErrorCode c of
     Some code \<Rightarrow> Some code
   | None \<Rightarrow> (case ce_currentOperation c of
       None \<Rightarrow> None
     | Some op \<Rightarrow> if op_dnsMode op = Some DmManual \<and> manualEnded op
         then (case op_manualDns op of None \<Rightarrow> None | Some md \<Rightarrow> md_lastErrorCode md) else None))"

text \<open>\<^verbatim>\<open>lastErrorAt ?? lastAttemptAt ?? operation?.updatedAt\<close>.\<close>

definition renewalErrorAt :: "certificate \<Rightarrow> string option" where
  "renewalErrorAt c = (case ce_lastErrorAt c of
     Some at \<Rightarrow> Some at
   | None \<Rightarrow> (case ce_lastAttemptAt c of
       Some at \<Rightarrow> Some at
     | None \<Rightarrow> map_option op_updatedAt (ce_currentOperation c)))"

definition renewalFailure :: "runtime \<Rightarrow> certificate \<Rightarrow> int \<Rightarrow> observation list" where
  "renewalFailure rt c now =
     (let renewing = (case ce_currentOperation c of None \<Rightarrow> ce_operation c = OpRenewing
            | Some op \<Rightarrow> op_kind op = OkRenew) in
      case (renewalError c, time rt (renewalErrorAt c)) of
        (Some code, Some occurred) \<Rightarrow>
          if renewing \<and> occurred \<le> now
          then [renewalObservation Snapshot (ce_id c) Failing
                  (if map_option op_stage (ce_currentOperation c) = Some StNeedsAttention then Critical else Error)
                  (toISOString occurred)
                  (JArr [JStr ''certificate-renewal'',
                     (case ce_currentOperation c of None \<Rightarrow> JNull | Some op \<Rightarrow> JStr (op_id op)),
                     JStr (toISOString occurred), JStr code])
                  (attempts c)]
          else []
      | _ \<Rightarrow> [])"

definition certificateSnapshotObservation :: "runtime \<Rightarrow> int \<Rightarrow> certificate \<Rightarrow> observation list" where
  "certificateSnapshotObservation rt now c =
     (if ce_source c \<noteq> Acme then []
      else if isPendingManualDnsRenewal c
      then (case ce_currentOperation c of None \<Rightarrow> [] | Some op \<Rightarrow> manualDnsObservation rt c op now)
      else renewalFailure rt c now @
        (case activatedAt rt c now of
           None \<Rightarrow> []
         | Some activation \<Rightarrow> [renewalObservation Snapshot (ce_id c) Healthy Error activation
             (JArr [JStr ''certificate-activation'', JStr activation]) 0]))"

definition certificateSnapshotObservations :: "runtime \<Rightarrow> certificate list \<Rightarrow> int \<Rightarrow> observation list" where
  "certificateSnapshotObservations rt certificates now =
     concat (map (certificateSnapshotObservation rt now) certificates)"

section \<open>Dynamic DNS\<close>

datatype record_type = RecordA | RecordAAAA
datatype record_status = RsUnchanged | RsUpdated | RsWouldCreate | RsWouldUpdate
  | RsAdoptionRequired | RsCreationRequired | RsSkipped | RsFailed

record ddns_target =
  dt_id :: string
  dt_recordType :: record_type
  dt_enabled :: bool

record ddns_configuration =
  dc_revision :: int
  dc_enabled :: bool
  dc_ipv4 :: bool
  dc_ipv6 :: bool
  dc_targets :: "ddns_target list"

record ddns_target_state =
  ds_targetId :: string
  ds_lastAttemptAt :: "int option"
  ds_lastSuccessAt :: "int option"
  ds_lastStatus :: "record_status option"
  ds_consecutiveFailures :: int
  ds_permanentFailure :: bool
  ds_connectionRevision :: "int option"

record ddns_snapshot =
  dn_configuration :: "ddns_configuration option"
  dn_targets :: "ddns_target_state list"
  dn_restorePaused :: bool

definition ddnsEnabledIds :: "ddns_configuration \<Rightarrow> string list" where
  "ddnsEnabledIds cfg = map dt_id (filter (\<lambda>t. dt_enabled t \<and>
     (case dt_recordType t of RecordA \<Rightarrow> dc_ipv4 cfg | RecordAAAA \<Rightarrow> dc_ipv6 cfg)) (dc_targets cfg))"

definition ddnsFailed :: "ddns_target_state \<Rightarrow> bool" where
  "ddnsFailed t \<longleftrightarrow> ds_permanentFailure t \<or> ds_consecutiveFailures t > 0 \<or> ds_lastStatus t = Some RsFailed"

definition ddnsSucceeded :: "ddns_target_state \<Rightarrow> bool" where
  "ddnsSucceeded t \<longleftrightarrow> \<not> ddnsFailed t \<and> (ds_lastStatus t = Some RsUpdated \<or> ds_lastStatus t = Some RsUnchanged) \<and>
     (case (ds_lastSuccessAt t, ds_lastAttemptAt t) of (Some s, Some a) \<Rightarrow> s \<ge> a | _ \<Rightarrow> False)"

fun recordStatusName :: "record_status \<Rightarrow> string" where
  "recordStatusName RsUnchanged = ''unchanged''"
| "recordStatusName RsUpdated = ''updated''"
| "recordStatusName RsWouldCreate = ''would_create''"
| "recordStatusName RsWouldUpdate = ''would_update''"
| "recordStatusName RsAdoptionRequired = ''adoption_required''"
| "recordStatusName RsCreationRequired = ''creation_required''"
| "recordStatusName RsSkipped = ''skipped''"
| "recordStatusName RsFailed = ''failed''"

definition ddnsObservation :: "ddns_configuration \<Rightarrow> int \<Rightarrow> ddns_target_state \<Rightarrow> observation list" where
  "ddnsObservation cfg now t =
     (let failed = ddnsFailed t;
          at = (if failed then ds_lastAttemptAt t else if ddnsSucceeded t then ds_lastSuccessAt t else None)
      in case at of
           None \<Rightarrow> []
         | Some at \<Rightarrow>
             if at * 1000 > now then []
             else [\<lparr>ob_source = Snapshot, ob_category = Ddns, ob_resourceId = ds_targetId t,
               ob_health = (if failed then Failing else Healthy), ob_code = None, ob_desiredRevision = None,
               ob_severity = (if ds_permanentFailure t then Critical else Error),
               ob_occurredAt = toISOString (at * 1000),
               ob_evidence = stringify (JArr [JStr ''ddns'', JNum (dc_revision cfg),
                 (case ds_connectionRevision t of None \<Rightarrow> JNull | Some r \<Rightarrow> JNum r), JNum at,
                 (case ds_lastStatus t of None \<Rightarrow> JNull | Some s \<Rightarrow> JStr (recordStatusName s)),
                 JNum (ds_consecutiveFailures t), JBool (ds_permanentFailure t)]),
               ob_failures = (if failed then max 1 (ds_consecutiveFailures t) else 0)\<rparr>])"

definition ddnsObservations :: "ddns_snapshot \<Rightarrow> int \<Rightarrow> observation list" where
  "ddnsObservations sn now =
     (case dn_configuration sn of
        None \<Rightarrow> []
      | Some cfg \<Rightarrow>
          if \<not> dc_enabled cfg \<or> dn_restorePaused sn then []
          else concat (map (ddnsObservation cfg now)
            (filter (\<lambda>t. contains (ddnsEnabledIds cfg) (ds_targetId t)) (dn_targets sn))))"

section \<open>Proxy runtime\<close>

record runtime_status =
  rs_available :: bool
  rs_running :: bool
  rs_activeRevision :: "string option"

definition proxyConfigurationObservation :: "string \<Rightarrow> runtime_status option \<Rightarrow> string \<Rightarrow> int \<Rightarrow> observation list" where
  "proxyConfigurationObservation before status after now =
     (case status of
        None \<Rightarrow> []
      | Some st \<Rightarrow>
          if before \<noteq> after then []
          else
            let healthy = (rs_available st \<and> rs_running st \<and> rs_activeRevision st = Some before) in
            [\<lparr>ob_source = Snapshot, ob_category = ProxyConfiguration, ob_resourceId = ''instance'',
              ob_health = (if healthy then Healthy else HPending), ob_code = None,
              ob_desiredRevision = Some before, ob_severity = Error, ob_occurredAt = toISOString now,
              ob_evidence = stringify (JArr [JStr ''proxy'', JStr before,
                (case rs_activeRevision st of None \<Rightarrow> JNull | Some r \<Rightarrow> JStr r),
                JBool (rs_available st), JBool (rs_running st)]),
              ob_failures = (if healthy then 0 else 1)\<rparr>])"

section \<open>One poll\<close>

record event_page =
  pg_events :: "certificate_event list"
  pg_nextCursor :: string
  pg_hasMore :: bool

text \<open>
  The controller as the collector sees it during one poll. \<open>co_now\<close> gives the clock reading of each
  use: one per page, then the snapshot, dynamic DNS and the proxy.
\<close>

record controller =
  co_certificates :: "certificate list option"
  co_certificateEvents :: "string option \<Rightarrow> event_page option"
  co_ddns :: "ddns_snapshot option"
  co_proxyBefore :: "string option"
  co_proxyStatus :: "runtime_status option option"
  co_proxyAfter :: "string option"
  co_now :: "nat \<Rightarrow> int"

definition PAGES :: nat where "PAGES = 5"

fun certificatePages :: "runtime \<Rightarrow> controller \<Rightarrow> certificate list \<Rightarrow> nat \<Rightarrow> string option \<Rightarrow>
    (observation list \<times> string option) option" where
  "certificatePages rt co snapshot 0 cursor = Some ([], cursor)"
| "certificatePages rt co snapshot (Suc left) cursor =
     (case co_certificateEvents co cursor of
        None \<Rightarrow> None
      | Some page \<Rightarrow>
          if length (pg_events page) > 100 \<or> (pg_hasMore page \<and> Some (pg_nextCursor page) = cursor) then None
          else
            let obs = certificateEventObservations rt (pg_events page) snapshot (co_now co (PAGES - Suc left))
            in if \<not> pg_hasMore page then Some (obs, Some (pg_nextCursor page))
               else map_option (\<lambda>(more, c). (obs @ more, c))
                 (certificatePages rt co snapshot left (Some (pg_nextCursor page))))"

definition observationKey :: "observation \<Rightarrow> string" where
  "observationKey ob = ob_resourceId ob @ '':'' @ ob_occurredAt ob"

definition collectCertificates :: "runtime \<Rightarrow> controller \<Rightarrow> string option \<Rightarrow> observation list \<times> string option" where
  "collectCertificates rt co cursor =
     (case co_certificates co of
        None \<Rightarrow> ([], cursor)
      | Some snapshot \<Rightarrow>
          (case certificatePages rt co snapshot PAGES cursor of
             None \<Rightarrow> ([], cursor)
           | Some (events, newCursor) \<Rightarrow>
               let eventFailures = map observationKey (filter (\<lambda>ob. ob_health ob = Failing) events)
               in (events @ filter (\<lambda>ob. ob_health ob = Healthy \<or> \<not> contains eventFailures (observationKey ob))
                     (certificateSnapshotObservations rt snapshot (co_now co PAGES)), newCursor)))"

definition collectDdns :: "controller \<Rightarrow> observation list" where
  "collectDdns co = (case co_ddns co of None \<Rightarrow> [] | Some sn \<Rightarrow> ddnsObservations sn (co_now co (PAGES + 1)))"

definition collectProxy :: "controller \<Rightarrow> observation list" where
  "collectProxy co = (case (co_proxyBefore co, co_proxyStatus co, co_proxyAfter co) of
     (Some before, Some status, Some after) \<Rightarrow>
       proxyConfigurationObservation before status after (co_now co (PAGES + 2))
   | _ \<Rightarrow> [])"

text \<open>\<open>None\<close> is the rejection of an aborted poll.\<close>

definition collectNotificationObservations :: "runtime \<Rightarrow> controller \<Rightarrow> bool \<Rightarrow> string option \<Rightarrow>
    (observation list \<times> string option) option" where
  "collectNotificationObservations rt co aborted cursor =
     (if aborted then None
      else let (certs, newCursor) = collectCertificates rt co cursor in
        Some (toSortedByKey (\<lambda>ob. rt_dateParse rt (ob_occurredAt ob))
          (certs @ collectDdns co @ collectProxy co), newCursor))"

section \<open>What a poll reports\<close>

definition reportedBy :: "int \<Rightarrow> observation \<Rightarrow> bool" where
  "reportedBy limit ob \<longleftrightarrow> ob_category ob \<noteq> HostAvailability \<and>
     (\<exists>t \<le> limit. ob_occurredAt ob = toISOString t) \<and>
     (ob_health ob = Healthy \<longrightarrow> ob_failures ob = 0 \<and> ob_code ob = None) \<and>
     (ob_health ob \<noteq> Healthy \<longrightarrow> ob_failures ob \<ge> 1)"

lemma reportedBy_later: "reportedBy a ob \<Longrightarrow> a \<le> b \<Longrightarrow> reportedBy b ob"
  by (auto simp: reportedBy_def intro: order.trans)

lemma activatedTime_past: "activatedTime rt c now = Some t \<Longrightarrow> t \<le> now"
  by (auto simp: activatedTime_def Let_def split: option.splits if_splits)

lemma attempts_pos [simp]: "1 \<le> attempts c"
  by (simp add: attempts_def)

lemma reported_renewalObservation:
  assumes "t \<le> now" "health = Healthy \<Longrightarrow> n = 0" "health \<noteq> Healthy \<Longrightarrow> 1 \<le> n"
  shows "reportedBy now (renewalObservation source cid health severity (toISOString t) evidence n)"
  using assms by (auto simp: reportedBy_def renewalObservation_def simp del: stringify.simps)

lemma reported_event: "ob \<in> set (certificateEventObservation rt certificates now ev) \<Longrightarrow> reportedBy now ob"
  by (auto simp: certificateEventObservation_def Let_def simp del: stringify.simps
      split: option.splits if_splits intro!: reported_renewalObservation dest: activatedTime_past)

lemma reported_events: "ob \<in> set (certificateEventObservations rt evs certificates now) \<Longrightarrow> reportedBy now ob"
  by (auto simp: certificateEventObservations_def dest: reported_event)

lemma reported_manual:
  assumes "ob \<in> set (manualDnsObservation rt c op now)"
  shows "reportedBy now ob"
proof -
  from assms obtain t where "t \<le> now"
      "ob = (renewalObservation Snapshot (ce_id c) Failing Error (toISOString t)
        (JArr [JStr ''certificate-manual-dns'', JStr (op_id op)]) 1)\<lparr>ob_code := Some ManualDnsRequired\<rparr>"
    unfolding manualDnsObservation_def by (auto split: option.splits manual_status.splits if_splits)
  then show ?thesis by (auto simp: reportedBy_def renewalObservation_def simp del: stringify.simps)
qed

lemma reported_renewal: "ob \<in> set (renewalFailure rt c now) \<Longrightarrow> reportedBy now ob"
  by (auto simp: renewalFailure_def Let_def simp del: stringify.simps
      split: option.splits if_splits intro!: reported_renewalObservation)

lemma reported_activation:
  "activatedAt rt c now = Some at \<Longrightarrow>
   reportedBy now (renewalObservation Snapshot (ce_id c) Healthy Error at (JArr [JStr kind, JStr at]) 0)"
  by (auto simp: activatedAt_def simp del: stringify.simps intro!: reported_renewalObservation dest: activatedTime_past)

lemma reported_snapshot: "ob \<in> set (certificateSnapshotObservations rt certificates now) \<Longrightarrow> reportedBy now ob"
  unfolding certificateSnapshotObservations_def certificateSnapshotObservation_def
  by (auto simp del: stringify.simps split: if_splits option.splits
      dest: reported_manual reported_renewal intro!: reported_activation)

lemma reported_target:
  assumes ob: "ob \<in> set (ddnsObservation cfg now t)"
  shows "reportedBy now ob"
proof (cases "if ddnsFailed t then ds_lastAttemptAt t else if ddnsSucceeded t then ds_lastSuccessAt t else None")
  case None
  then show ?thesis using ob by (simp only: ddnsObservation_def Let_def option.case) simp
next
  case (Some at)
  then have "ob \<in> set (if at * 1000 > now then [] else [ob])" "ob_category ob = Ddns"
      "ob_occurredAt ob = toISOString (at * 1000)" "ob_code ob = None"
      "ob_health ob = (if ddnsFailed t then Failing else Healthy)"
      "ob_failures ob = (if ddnsFailed t then max 1 (ds_consecutiveFailures t) else 0)"
    using ob by (simp_all only: ddnsObservation_def Let_def option.case) (simp_all del: stringify.simps split: if_splits)
  moreover from this(1) have "\<exists>t \<le> now. toISOString (at * 1000) = toISOString t"
    by (intro exI [of _ "at * 1000"]) (simp split: if_splits)
  ultimately show ?thesis by (auto simp: reportedBy_def split: if_splits)
qed

lemma reported_ddns: "ob \<in> set (ddnsObservations sn now) \<Longrightarrow> reportedBy now ob"
  by (auto simp: ddnsObservations_def split: option.splits if_splits dest: reported_target)

lemma reported_proxy: "ob \<in> set (proxyConfigurationObservation b st a now) \<Longrightarrow> reportedBy now ob"
  by (auto simp: proxyConfigurationObservation_def reportedBy_def Let_def simp del: stringify.simps
      split: option.splits if_splits)

lemma reported_pages:
  assumes "certificatePages rt co snapshot left cursor = Some (obs, newCursor)" "ob \<in> set obs" "\<And>k. co_now co k \<le> limit"
  shows "reportedBy limit ob"
  using assms
proof (induction left arbitrary: cursor obs newCursor)
  case (Suc left)
  have events: "reportedBy limit ob"
    if "ob \<in> set (certificateEventObservations rt evs snapshot (co_now co k))" for evs k
    using reportedBy_later [OF reported_events [OF that] Suc.prems(3)] .
  from Suc show ?case by (auto simp: Let_def split: option.splits if_splits dest: events)
qed simp

lemma reported_certificates:
  assumes "ob \<in> set (fst (collectCertificates rt co cursor))" "\<And>k. co_now co k \<le> limit"
  shows "reportedBy limit ob"
  using assms reported_pages [of rt co _ PAGES cursor]
  by (auto simp: collectCertificates_def Let_def split: option.splits prod.splits
      dest!: reported_snapshot intro: reportedBy_later)

text \<open>
  Claim C20: a poll reports only what its sources can know. No observation is about host
  availability, none is dated after the latest reading of the clock, a healthy one carries no failure
  count, and every other one counts at least one failure.
\<close>

theorem collected_observations_are_sound:
  assumes "collectNotificationObservations rt co aborted cursor = Some (obs, newCursor)" "ob \<in> set obs"
    and "\<And>k. co_now co k \<le> limit"
  shows "reportedBy limit ob"
proof -
  from assms(1,2) have "ob \<in> set (fst (collectCertificates rt co cursor)) \<or> ob \<in> set (collectDdns co) \<or>
      ob \<in> set (collectProxy co)"
    by (auto simp: collectNotificationObservations_def split: if_splits prod.splits)
  then show ?thesis
    using reported_certificates [of ob rt co cursor limit] assms(3)
    by (auto simp: collectDdns_def collectProxy_def split: option.splits
        dest!: reported_ddns reported_proxy intro: reportedBy_later)
qed

text \<open>
  A renewal that waits for manual DNS records is neither reported as failed nor as
  recovered. Its certificate gives at most the request for the records, and its events give nothing.
\<close>

theorem pending_manual_renewal_is_quiet:
  assumes "isPendingManualDnsRenewal c"
  shows "certificateEventObservation rt [c] now ev = [] \<and>
    map ob_code (certificateSnapshotObservation rt now c) \<in> {[], [Some ManualDnsRequired]}"
  using assms
  by (auto simp: certificateEventObservation_def certificateSnapshotObservation_def manualDnsObservation_def
      split: option.split manual_status.split)

definition waitingCertificate :: certificate where
  "waitingCertificate = \<lparr>ce_id = ''c1'', ce_source = Acme, ce_status = CValid, ce_operation = OpRenewing,
     ce_currentOperation = Some \<lparr>op_id = ''o1'', op_kind = OkRenew, op_stage = StAwaitingDns,
       op_dnsMode = Some DmManual, op_manualDns = Some \<lparr>md_status = MsAwaitingInput, md_lastErrorCode = None\<rparr>,
       op_startedAt = ''x'', op_updatedAt = ''x''\<rparr>,
     ce_expiresAt = Some ''y'', ce_fingerprint = Some ''f'', ce_hasCandidate = False,
     ce_lastErrorCode = Some ''acme_failed'', ce_attemptCount = None, ce_lastAttemptAt = None,
     ce_lastActivatedAt = None, ce_lastErrorAt = Some ''x''\<rparr>"

definition obsRuntime :: runtime where
  "obsRuntime = \<lparr>rt_sha256 = (\<lambda>s. s), rt_dateParse = (\<lambda>s. Some 500), rt_makeId = (\<lambda>n. replicate n CHR ''x'')\<rparr>"

definition obsController :: controller where
  "obsController = \<lparr>co_certificates = Some [waitingCertificate],
     co_certificateEvents = (\<lambda>_. Some \<lparr>pg_events = [], pg_nextCursor = ''1'', pg_hasMore = False\<rparr>),
     co_ddns = None, co_proxyBefore = None, co_proxyStatus = None, co_proxyAfter = None, co_now = (\<lambda>_. 1000)\<rparr>"

lemma obs_collected:
  "map_option (\<lambda>(obs, newCursor). (map ob_code obs, newCursor))
     (collectNotificationObservations obsRuntime obsController False None) =
   Some ([Some ManualDnsRequired], Some ''1'')"
  by code_simp

theorem collected_observations_are_sound_witness:
  "reportedBy 1000 (hd (fst (the (collectNotificationObservations obsRuntime obsController False None))))"
proof -
  from obs_collected obtain obs newCursor where
    c: "collectNotificationObservations obsRuntime obsController False None = Some (obs, newCursor)" "obs \<noteq> []" by auto
  from c(2) have "hd obs \<in> set obs" by simp
  from collected_observations_are_sound [OF c(1) this, of 1000] c(1) show ?thesis
    by (simp add: obsController_def)
qed

definition obsEvent :: certificate_event where
  "obsEvent = \<lparr>ev_operationId = ''o1'', ev_operationKind = Some OkRenew, ev_certificateId = ''c1'',
     ev_kind = EkFailed, ev_stage = StFailed, ev_occurredAt = ''x'', ev_errorCode = Some ''acme_failed''\<rparr>"

theorem pending_manual_renewal_is_quiet_witness:
  "certificateEventObservation obsRuntime [waitingCertificate] 1000 obsEvent = [] \<and>
   map ob_code (certificateSnapshotObservation obsRuntime 1000 waitingCertificate) = [Some ManualDnsRequired]"
proof -
  have "isPendingManualDnsRenewal waitingCertificate"
    by (simp add: isPendingManualDnsRenewal_def waitingCertificate_def manualEnded_def)
  from pending_manual_renewal_is_quiet [OF this, of obsRuntime 1000 obsEvent]
  have "certificateEventObservation obsRuntime [waitingCertificate] 1000 obsEvent = []" by blast
  moreover have "map ob_code (certificateSnapshotObservation obsRuntime 1000 waitingCertificate) = [Some ManualDnsRequired]"
    by code_simp
  ultimately show ?thesis ..
qed

end
