(* ===== verification/NotificationStore.thy ===== *)
theory NotificationStore
  imports MonitoringService Observations
begin

text \<open>
  The transactions of the notification worker on the stored configuration and runtime:
  \<^verbatim>\<open>notification-storage.ts\<close>, \<^verbatim>\<open>notification-collection.ts\<close>, \<^verbatim>\<open>notification-repository.ts\<close>,
  \<^verbatim>\<open>host-availability.repository.ts\<close>, \<^verbatim>\<open>backup-outcomes.server.ts\<close> and
  \<^verbatim>\<open>notification-configuration-persistence.server.ts\<close> under \<^verbatim>\<open>web/src/server/Notifications\<close>.

  Both settings rows are validated when they are read and when they are written. The row locks make
  every read-write transaction one step; where the code first looks at the configuration in a
  read-only transaction of its own, that earlier database is an argument. Comparisons of serialized
  states are comparisons of states. An identifier that is drawn and thrown away is not counted.
\<close>

section \<open>The stored runtime\<close>

record collection_lease =
  cl_token :: string
  cl_expiresAt :: int

record notification_runtime =
  nr_engine :: notification_state
  nr_certificateCursor :: "string option"
  nr_collectionLease :: "collection_lease option"

record collection_claim =
  cc_token :: string
  cc_configurationRevision :: int
  cc_certificateCursor :: "string option"

record delivery_claim = claimed_delivery +
  cd_channel :: stored_channel

record notification_db =
  nd_tables :: proxy_db
  nd_certificateCursor :: "string option"
  nd_collectionLease :: "collection_lease option"

text \<open>
  A cursor is a store identifier (a lower-case UUID of version 7), a colon and a sequence number of at
  most 64 bits.
\<close>

definition uuidV7CharOk :: "nat \<Rightarrow> char \<Rightarrow> bool" where
  "uuidV7CharOk i c \<longleftrightarrow>
     (if contains [8, 13, 18, 23] i then c = CHR ''-''
      else if i = 14 then c = CHR ''7''
      else if i = 19 then contains ''89ab'' c
      else isLowerHex c)"

definition certificateEventIdOk :: "string \<Rightarrow> bool" where
  "certificateEventIdOk s \<longleftrightarrow> length s = 36 \<and> list_all (\<lambda>(i, c). uuidV7CharOk i c) (enumerate 0 s)"

definition certificateEventCursorOk :: "string \<Rightarrow> bool" where
  "certificateEventCursorOk s \<longleftrightarrow> length s \<le> 57 \<and>
     (let storeId = takeWhile (\<lambda>c. c \<noteq> CHR '':'') s; sequence = drop (Suc (length storeId)) s in
      storeId \<noteq> [] \<and> length storeId < length s \<and> \<not> contains sequence (CHR '':'') \<and>
      certificateEventIdOk storeId \<and> sequence \<noteq> [] \<and> length sequence \<le> 20 \<and> list_all isDigit sequence \<and>
      number sequence \<le> 18446744073709551615)"

definition runtimeSchema :: "formats \<Rightarrow> notification_runtime \<Rightarrow> bool" where
  "runtimeSchema zf r \<longleftrightarrow> notificationStateSchema zf (nr_engine r) \<and>
     nullableOk certificateEventCursorOk (nr_certificateCursor r) \<and>
     nullableOk (\<lambda>l. zf_uuid zf (cl_token l) \<and> timeOk (cl_expiresAt l)) (nr_collectionLease r)"

definition createRuntime :: notification_runtime where
  "createRuntime = \<lparr>nr_engine = createNotificationState, nr_certificateCursor = None,
     nr_collectionLease = None\<rparr>"

definition storedRuntime :: "notification_db \<Rightarrow> notification_runtime" where
  "storedRuntime nd = \<lparr>nr_engine = db_engine (nd_tables nd),
     nr_certificateCursor = nd_certificateCursor nd, nr_collectionLease = nd_collectionLease nd\<rparr>"

definition storeRuntime :: "notification_runtime \<Rightarrow> nat \<Rightarrow> notification_db \<Rightarrow> notification_db" where
  "storeRuntime r n nd = nd\<lparr>nd_tables := (nd_tables nd)\<lparr>db_engine := nr_engine r, db_uuid := n\<rparr>,
     nd_certificateCursor := nr_certificateCursor r, nd_collectionLease := nr_collectionLease r\<rparr>"

definition readNotificationRuntime :: "db_env \<Rightarrow> notification_db \<Rightarrow> domain_error + notification_runtime" where
  "readNotificationRuntime env nd =
     (if runtimeSchema (de_formats env) (storedRuntime nd) then Inr (storedRuntime nd)
      else Inl ConfigurationUnavailableError)"

definition writeNotificationRuntime :: "db_env \<Rightarrow> notification_runtime \<Rightarrow> nat \<Rightarrow> notification_db \<Rightarrow>
    domain_error + notification_db" where
  "writeNotificationRuntime env r n nd =
     (if runtimeSchema (de_formats env) r then Inr (storeRuntime r n nd)
      else Inl ConfigurationUnavailableError)"

definition readNotificationConfiguration :: "notification_db \<Rightarrow> domain_error + stored_configuration" where
  "readNotificationConfiguration nd =
     (let c = db_configuration (nd_tables nd) in
      if storedConfigurationOk c then Inr c else Inl ConfigurationUnavailableError)"

definition writeNotificationConfiguration :: "stored_configuration \<Rightarrow> notification_db \<Rightarrow>
    domain_error + notification_db" where
  "writeNotificationConfiguration c nd =
     (if storedConfigurationOk c
      then Inr (nd\<lparr>nd_tables := (nd_tables nd)\<lparr>db_configuration := c\<rparr>\<rparr>)
      else Inl ConfigurationUnavailableError)"

text \<open>Configuration and runtime as a writing transaction reads them, the former as its owners may see it.\<close>

definition lockNotifications :: "db_env \<Rightarrow> notification_db \<Rightarrow>
    domain_error + stored_configuration \<times> notification_runtime" where
  "lockNotifications env nd =
     andThen (readNotificationConfiguration nd) (\<lambda>stored.
     andThen (readNotificationRuntime env nd) (\<lambda>r.
       Inr (filterNotificationConfigurationByOwnerAccess stored (de_owners env), r)))"

section \<open>Collection\<close>

definition leaseNotificationCollection :: "notification_runtime \<Rightarrow> stored_configuration \<Rightarrow> int \<Rightarrow> string \<Rightarrow>
    (notification_runtime \<times> collection_claim) option" where
  "leaseNotificationCollection r cfg now token =
     (if \<not> nc_enabled cfg \<or> nc_pausedAfterRestore cfg \<or> \<not> some_elem ch_enabled (nc_channels cfg) \<or>
         (case nr_collectionLease r of None \<Rightarrow> False | Some l \<Rightarrow> cl_expiresAt l > now)
      then None
      else Some (r\<lparr>nr_collectionLease := Some \<lparr>cl_token = token, cl_expiresAt = now + LIMIT_leaseMs\<rparr>\<rparr>,
        \<lparr>cc_token = token, cc_configurationRevision = nc_revision cfg,
         cc_certificateCursor = nr_certificateCursor r\<rparr>))"

text \<open>The result: the runtime, the next identifier, and whether the engine changed.\<close>

definition commitNotificationCollectedBatch :: "runtime \<Rightarrow> notification_runtime \<Rightarrow> stored_configuration \<Rightarrow>
    collection_claim \<Rightarrow> observation list \<times> string option \<Rightarrow> int \<Rightarrow> nat \<Rightarrow>
    (notification_runtime \<times> nat) \<times> bool" where
  "commitNotificationCollectedBatch rt r cfg claim batch now n =
     (case nr_collectionLease r of
        None \<Rightarrow> ((r, n), False)
      | Some l \<Rightarrow>
          if cl_token l \<noteq> cc_token claim then ((r, n), False)
          else if \<not> (cl_expiresAt l > now \<and> nc_revision cfg = cc_configurationRevision claim \<and>
                     nc_enabled cfg \<and> \<not> nc_pausedAfterRestore cfg)
          then ((r\<lparr>nr_collectionLease := None\<rparr>, n), False)
          else
            let (s, m) = observeNotificationSignals rt (engineConfiguration cfg) (fst batch) now (nr_engine r, n)
            in ((\<lparr>nr_engine = s, nr_certificateCursor = snd batch, nr_collectionLease = None\<rparr>, m),
                s \<noteq> nr_engine r))"

section \<open>Host incidents against the monitoring tables\<close>

text \<open>The enabled policies whose host is enabled and still has the domain (the inner joins).\<close>

definition livePolicies :: "proxy_db \<Rightarrow> check_policy list" where
  "livePolicies db = filter (\<lambda>p. cp_enabled p \<and> contains (db_hosts db) (cp_proxyHostId p, True) \<and>
     contains (db_domains db) (cp_proxyHostId p, cp_domain p)) (db_policies db)"

definition staleHostIncident :: "proxy_db \<Rightarrow> incident \<Rightarrow> bool" where
  "staleHostIncident db i =
     (case in_host i of
        None \<Rightarrow> False
      | Some h \<Rightarrow>
          (case find (\<lambda>p. cp_id p = hc_policyId h) (livePolicies db) of
             None \<Rightarrow> True
           | Some p \<Rightarrow> cp_proxyHostId p \<noteq> in_resourceId i \<or> cp_version p \<noteq> hc_policyVersion h \<or>
               cp_domain p \<noteq> hn_domain h \<or> cp_contextProof p \<noteq> Some (hc_contextProof h) \<or>
               cp_contextRevision p \<noteq> Some (hc_contextRevision h)))"

definition staleHostIncidents :: "proxy_db \<Rightarrow> notification_state \<Rightarrow> string list" where
  "staleHostIncidents db s = map in_id (filter (staleHostIncident db) (st_incidents s))"

definition reconcileHostAvailability :: "proxy_db \<Rightarrow> notification_state \<Rightarrow> int \<Rightarrow> notification_state" where
  "reconcileHostAvailability db s now = cancelHostAvailabilityIncidents s (staleHostIncidents db s) now"

text \<open>
  Whether a claimed host delivery may still be sent. \<open>context\<close> gives the current monitoring context of
  a host and domain, \<open>None\<close> where the host or domain is gone.
\<close>

definition authorizeHostAvailabilityDelivery :: "(string \<Rightarrow> string \<Rightarrow> probe_context option) \<Rightarrow>
    delivery_claim \<Rightarrow> int \<Rightarrow> notification_runtime \<Rightarrow> proxy_db \<Rightarrow> bool" where
  "authorizeHostAvailabilityDelivery context claim now r db =
     (let p = cd_payload claim in
      if pl_category p \<noteq> HostAvailability \<or> pl_type p = TTest then True
      else (case find (\<lambda>i. in_id i = pl_incidentId p \<and> in_resourceId i = pl_resourceId p)
              (st_incidents (nr_engine r)) of
          None \<Rightarrow> False
        | Some i \<Rightarrow>
            (case in_host i of
               None \<Rightarrow> False
             | Some h \<Rightarrow>
                 some_elem (\<lambda>c. in_id c = in_id i)
                   (st_incidents (reconcileHostAvailability db (nr_engine r) now)) \<and>
                 (case context (in_resourceId i) (hn_domain h) of
                    None \<Rightarrow> False
                  | Some ctx \<Rightarrow> pc_enabled ctx \<and> pc_availabilityProof ctx = hc_contextProof h \<and>
                      pc_availabilityRevision ctx = hc_contextRevision h))))"

section \<open>Transactions\<close>

definition acceptsNotifications :: "stored_configuration \<Rightarrow> bool" where
  "acceptsNotifications c \<longleftrightarrow> nc_enabled c \<and> \<not> nc_pausedAfterRestore c"

definition claimNotificationCollection :: "db_env \<Rightarrow> notification_db \<Rightarrow> int \<Rightarrow> notification_db \<Rightarrow>
    domain_error + collection_claim option \<times> notification_db" where
  "claimNotificationCollection env before now nd =
     andThen (readNotificationConfiguration before) (\<lambda>snapshot.
       if \<not> acceptsNotifications snapshot \<or> \<not> some_elem ch_enabled (nc_channels snapshot)
       then Inr (None, nd)
       else andThen (readNotificationConfiguration nd) (\<lambda>stored.
         let cfg = filterNotificationConfigurationByOwnerAccess stored (de_owners env) in
         if \<not> acceptsNotifications cfg then Inr (None, nd)
         else andThen (readNotificationRuntime env nd) (\<lambda>r.
           let n = db_uuid (nd_tables nd) in
           (case leaseNotificationCollection r cfg now (rt_makeId (de_runtime env) n) of
              None \<Rightarrow> Inr (None, nd)
            | Some (r', claim) \<Rightarrow>
                andThen (writeNotificationRuntime env r' (Suc n) nd) (\<lambda>nd'. Inr (Some claim, nd'))))))"

definition commitNotificationCollection :: "db_env \<Rightarrow> collection_claim \<Rightarrow>
    observation list \<times> string option \<Rightarrow> int \<Rightarrow> int \<Rightarrow> notification_db \<Rightarrow>
    domain_error + bool \<times> notification_db" where
  "commitNotificationCollection env claim batch t1 t2 nd =
     andThen (lockNotifications env nd) (\<lambda>(cfg, r).
       let stale = staleHostIncidents (nd_tables nd) (nr_engine r);
           engine = reconcileHostAvailability (nd_tables nd) (nr_engine r) t1;
           ((r', m), changed) = commitNotificationCollectedBatch (de_runtime env)
             (r\<lparr>nr_engine := engine\<rparr>) cfg claim batch t2 (db_uuid (nd_tables nd))
       in if r' = r then Inr (changed \<or> stale \<noteq> [], nd)
          else andThen (writeNotificationRuntime env r' m nd) (\<lambda>nd'. Inr (changed \<or> stale \<noteq> [], nd')))"

definition claimNextNotificationDelivery :: "db_env \<Rightarrow> notification_db \<Rightarrow> int \<Rightarrow> int \<Rightarrow> notification_db \<Rightarrow>
    domain_error + delivery_claim option \<times> notification_db" where
  "claimNextNotificationDelivery env before t1 t2 nd =
     andThen (readNotificationConfiguration before) (\<lambda>snapshot.
       if \<not> acceptsNotifications snapshot then Inr (None, nd)
       else andThen (lockNotifications env nd) (\<lambda>(cfg, r).
         let engine = reconcileHostAvailability (nd_tables nd) (nr_engine r) t1;
             ((s, m), claimed) = claimNotificationDelivery (de_runtime env) (engineConfiguration cfg) t2
               (engine, db_uuid (nd_tables nd))
         in andThen (if s = nr_engine r then Inr nd
                     else writeNotificationRuntime env (r\<lparr>nr_engine := s\<rparr>) m nd) (\<lambda>nd'.
           (case claimed of
              None \<Rightarrow> Inr (None, nd')
            | Some d \<Rightarrow>
                (case find (\<lambda>ch. ch_id ch = cd_channelId d \<and> ch_revision ch = cd_channelRevision d)
                    (nc_channels cfg) of
                   None \<Rightarrow> Inr (None, nd')
                 | Some ch \<Rightarrow> Inr (Some (claimed_delivery.extend d \<lparr>cd_channel = ch\<rparr>), nd'))))))"

definition acknowledgeNotificationDelivery :: "db_env \<Rightarrow> string \<Rightarrow> delivery_result \<Rightarrow> int \<Rightarrow>
    notification_db \<Rightarrow> domain_error + notification_db" where
  "acknowledgeNotificationDelivery env token result now nd =
     andThen (lockNotifications env nd) (\<lambda>(cfg, r).
       let s = finishNotificationDelivery (engineConfiguration cfg) token result now (nr_engine r) in
       if s = nr_engine r then Inr nd
       else writeNotificationRuntime env (r\<lparr>nr_engine := s\<rparr>) (db_uuid (nd_tables nd)) nd)"

text \<open>
  The authorization before a transport runs. The appearance of a mail is left out: it is read from the
  owner's profile and only colours the text.
\<close>

record delivery_authorization =
  da_channel :: stored_channel
  da_allowPrivateDestinations :: bool

definition authorizedChannel :: "delivery_claim \<Rightarrow> stored_channel \<Rightarrow> bool" where
  "authorizedChannel claim ch \<longleftrightarrow> ch_id ch = cd_channelId claim \<and> ch_revision ch = cd_channelRevision claim \<and>
     sc_ownerUserId ch = sc_ownerUserId (cd_channel claim) \<and> ch_enabled ch \<and>
     contains (ch_events ch) (pl_category (cd_payload claim))"

definition authorizeNotificationDelivery :: "db_env \<Rightarrow> (string \<Rightarrow> string \<Rightarrow> probe_context option) \<Rightarrow>
    delivery_claim \<Rightarrow> int \<Rightarrow> notification_db \<Rightarrow> domain_error + delivery_authorization option" where
  "authorizeNotificationDelivery env context claim now nd =
     andThen (readNotificationConfiguration nd) (\<lambda>c.
       if \<not> acceptsNotifications c then Inr None
       else (case find (authorizedChannel claim) (nc_channels c) of
           None \<Rightarrow> Inr None
         | Some ch \<Rightarrow>
             andThen (if pl_category (cd_payload claim) \<noteq> HostAvailability \<or> pl_type (cd_payload claim) = TTest
                      then Inr True
                      else andThen (readNotificationRuntime env nd) (\<lambda>r.
                        Inr (authorizeHostAvailabilityDelivery context claim now r (nd_tables nd)))) (\<lambda>allowed.
               if \<not> allowed then Inr None
               else (case sc_ownerUserId ch of
                   None \<Rightarrow> Inr (Some \<lparr>da_channel = ch, da_allowPrivateDestinations = True\<rparr>)
                 | Some owner \<Rightarrow>
                     if owner = []
                     then Inr (Some \<lparr>da_channel = ch, da_allowPrivateDestinations = True\<rparr>)
                     else (case de_owners env owner of
                         None \<Rightarrow> Inr None
                       | Some ps \<Rightarrow>
                           if \<not> contains ps APP_ACCESS \<or> \<not> contains (getAllowedNotificationCategories ps)
                                (pl_category (cd_payload claim))
                           then Inr None
                           else Inr (Some \<lparr>da_channel = ch,
                             da_allowPrivateDestinations = canUsePrivateNotificationDestinations ps\<rparr>))))))"

section \<open>Other writers\<close>

text \<open>
  The tail of a configuration update: channels that are new may not carry an identifier the queue still
  knows. The audit entry is written in the same transaction and not modelled.
\<close>

definition aliasesOldChannel :: "string list \<Rightarrow> notification_state \<Rightarrow> bool" where
  "aliasesOldChannel newIds s \<longleftrightarrow>
     some_elem (\<lambda>d. contains newIds (dl_channelId d)) (st_deliveries s) \<or>
     some_elem (\<lambda>i. some_elem (\<lambda>m. contains newIds (mk_channelId m)) (in_channels i)) (st_incidents s)"

definition persistNotificationConfiguration :: "db_env \<Rightarrow> stored_configuration \<Rightarrow> engine_configuration \<Rightarrow>
    string list \<Rightarrow> int \<Rightarrow> notification_db \<Rightarrow> domain_error + notification_db" where
  "persistNotificationConfiguration env c effective newIds now nd =
     andThen (readNotificationRuntime env nd) (\<lambda>r.
       if aliasesOldChannel newIds (nr_engine r) then Inl domain_error.InvalidInput
       else let (s, m) = observeNotificationSignals (de_runtime env) effective [] now
              (nr_engine r, db_uuid (nd_tables nd))
         in andThen (writeNotificationConfiguration c nd) (\<lambda>nd'.
              writeNotificationRuntime env (r\<lparr>nr_engine := s\<rparr>) m nd'))"

definition enqueueBackupOutcomesInTransaction :: "db_env \<Rightarrow> audit_event list \<Rightarrow> int \<Rightarrow> notification_db \<Rightarrow>
    domain_error + (nat \<times> bool) \<times> notification_db" where
  "enqueueBackupOutcomesInTransaction env events now nd =
     (if \<not> some_elem isOutcome events then Inr ((length events, False), nd)
      else andThen (readNotificationConfiguration nd) (\<lambda>stored.
        let cfg = filterNotificationConfigurationByOwnerAccess stored (de_owners env) in
        if \<not> acceptsNotifications cfg \<or>
           \<not> some_elem (\<lambda>ch. ch_enabled ch \<and> contains (ch_events ch) Backup) (nc_channels cfg)
        then Inr ((length events, False), nd)
        else andThen (readNotificationRuntime env nd) (\<lambda>r.
          andThen (enqueueBackupOutcomeNotifications (de_runtime env) (de_formats env)
              (engineConfiguration cfg) events now (nr_engine r, db_uuid (nd_tables nd))) (\<lambda>(bp, accepted).
            if bp_queued bp > 0
            then andThen (writeNotificationRuntime env (r\<lparr>nr_engine := bp_state bp\<rparr>) (bp_nextId bp) nd)
                   (\<lambda>nd'. Inr ((accepted, True), nd'))
            else Inr ((accepted, False), nd)))))"

end
