(* ===== verification/NotificationServices.thy ===== *)
theory NotificationServices
  imports NotificationStore
begin

text \<open>
  The services behind the notification settings: administrators manage the shared channels
  (\<^verbatim>\<open>web/src/server/Admin/Notifications/notifications.service.ts\<close>), every user manages the channels it
  owns (\<^verbatim>\<open>web/src/server/UserSettings/Notifications/notifications.service.ts\<close>).

  A request passes up to three transactions with a check of the actor's permissions in each; \<open>owners\<close>
  (what the session sees), \<open>env1\<close>, \<open>before\<close> (the snapshot transaction) and \<open>env\<close>, \<open>nd\<close> (the writing one)
  are their databases. Sealing and opening a destination are the platform's cryptography, \<open>valid\<close> is the
  check of a destination.
\<close>

datatype request_error = AuthenticationRequired | PermissionDenied | TooManyRequests | Domain domain_error

fun domain :: "domain_error + 'a \<Rightarrow> request_error + 'a" where
  "domain (Inl e) = Inl (Domain e)"
| "domain (Inr x) = Inr x"

definition requirePermission :: "(string \<Rightarrow> permission_key list option) \<Rightarrow> string \<Rightarrow> permission_key \<Rightarrow>
    request_error + permission_key list" where
  "requirePermission owners actor permission =
     (case owners actor of
        None \<Rightarrow> Inl AuthenticationRequired
      | Some ps \<Rightarrow> if contains ps permission then Inr ps else Inl PermissionDenied)"

text \<open>\<^verbatim>\<open>channel.ownerUserId\<close> used as a condition.\<close>

definition isPersonal :: "stored_channel \<Rightarrow> bool" where
  "isPersonal ch \<longleftrightarrow> sc_ownerUserId ch \<noteq> None \<and> sc_ownerUserId ch \<noteq> Some []"

definition ownedBy :: "string \<Rightarrow> stored_channel \<Rightarrow> bool" where
  "ownedBy actor ch \<longleftrightarrow> sc_ownerUserId ch = Some actor"

section \<open>What is shown\<close>

record channel_summary = channel_policy +
  cs_destinationConfigured :: bool
  cs_hasAuthorization :: bool

record configuration_summary =
  su_revision :: int
  su_enabled :: bool
  su_pausedAfterRestore :: bool
  su_channels :: "channel_summary list"

definition summarizeChannel :: "stored_channel \<Rightarrow> channel_summary" where
  "summarizeChannel ch = channel_policy.extend (channel_policy.truncate ch)
     \<lparr>cs_destinationConfigured = True, cs_hasAuthorization = sc_hasAuthorization ch\<rparr>"

definition summarizeNotificationConfiguration :: "stored_configuration \<Rightarrow> configuration_summary" where
  "summarizeNotificationConfiguration c =
     \<lparr>su_revision = nc_revision c, su_enabled = nc_enabled c,
      su_pausedAfterRestore = nc_pausedAfterRestore c, su_channels = map summarizeChannel (nc_channels c)\<rparr>"

definition ownConfiguration :: "stored_configuration \<Rightarrow> string \<Rightarrow> stored_configuration" where
  "ownConfiguration c actor = c\<lparr>nc_channels := filter (ownedBy actor) (nc_channels c)\<rparr>"

definition sharedConfiguration :: "stored_configuration \<Rightarrow> stored_configuration" where
  "sharedConfiguration c = c\<lparr>nc_channels := filter (\<lambda>ch. \<not> isPersonal ch) (nc_channels c)\<rparr>"

record personal_settings =
  ps_configuration :: configuration_summary
  ps_allowedCategories :: "category list"
  ps_canUsePrivateDestinations :: bool
  ps_canResumeDelivery :: bool
  ps_smtpConfigured :: bool

definition personalSettings :: "bool \<Rightarrow> stored_configuration \<Rightarrow> string \<Rightarrow> permission_key list \<Rightarrow>
    personal_settings" where
  "personalSettings smtp c actor ps =
     (let manage = canUsePrivateNotificationDestinations ps in
      \<lparr>ps_configuration = summarizeNotificationConfiguration (ownConfiguration c actor),
       ps_allowedCategories = getAllowedNotificationCategories ps,
       ps_canUsePrivateDestinations = manage, ps_canResumeDelivery = manage, ps_smtpConfigured = smtp\<rparr>)"

definition getNotificationConfigurationService :: "(string \<Rightarrow> permission_key list option) \<Rightarrow> string \<Rightarrow>
    notification_db \<Rightarrow> request_error + configuration_summary" where
  "getNotificationConfigurationService owners actor nd =
     andThen (requirePermission owners actor NOTIFICATIONS_VIEW) (\<lambda>_.
     andThen (domain (readNotificationConfiguration nd)) (\<lambda>c.
       Inr (summarizeNotificationConfiguration (sharedConfiguration c))))"

definition getNotificationStatusService :: "(string \<Rightarrow> permission_key list option) \<Rightarrow> db_env \<Rightarrow> string \<Rightarrow>
    notification_db \<Rightarrow> request_error + notification_status" where
  "getNotificationStatusService owners env actor nd =
     andThen (requirePermission owners actor NOTIFICATIONS_VIEW) (\<lambda>_.
     andThen (domain (readNotificationConfiguration nd)) (\<lambda>c.
     andThen (domain (readNotificationRuntime env nd)) (\<lambda>r.
       Inr (summarizeNotificationState (filterNotificationStateForChannels (nr_engine r)
         (nc_channels (sharedConfiguration c)) None)))))"

definition getPersonalNotificationSettingsService :: "(string \<Rightarrow> permission_key list option) \<Rightarrow> db_env \<Rightarrow>
    bool \<Rightarrow> string \<Rightarrow> notification_db \<Rightarrow> request_error + personal_settings" where
  "getPersonalNotificationSettingsService owners env smtp actor nd =
     andThen (requirePermission owners actor APP_ACCESS) (\<lambda>_.
     andThen (requirePermission (de_owners env) actor APP_ACCESS) (\<lambda>fresh.
     andThen (domain (readNotificationConfiguration nd)) (\<lambda>c.
       Inr (personalSettings smtp c actor fresh))))"

definition getPersonalNotificationStatusService :: "(string \<Rightarrow> permission_key list option) \<Rightarrow> db_env \<Rightarrow>
    string \<Rightarrow> notification_db \<Rightarrow> request_error + notification_status" where
  "getPersonalNotificationStatusService owners env actor nd =
     andThen (requirePermission owners actor APP_ACCESS) (\<lambda>_.
     andThen (requirePermission (de_owners env) actor APP_ACCESS) (\<lambda>fresh.
     andThen (domain (readNotificationConfiguration nd)) (\<lambda>c.
     andThen (domain (readNotificationRuntime env nd)) (\<lambda>r.
       Inr (summarizeNotificationState (filterNotificationStateForChannels (nr_engine r)
         (nc_channels (ownConfiguration c actor)) (Some (getAllowedNotificationCategories fresh))))))))"

section \<open>Shared channels\<close>

definition newChannelIds :: "(stored_channel \<Rightarrow> bool) \<Rightarrow> stored_configuration \<Rightarrow> channel_input list \<Rightarrow> string list" where
  "newChannelIds mine current chs =
     map ci_id (filter (\<lambda>ci. \<not> some_elem (\<lambda>saved. mine saved \<and> ch_id saved = ci_id ci)
       (nc_channels current)) chs)"

definition updateNotificationConfigurationService :: "(string \<Rightarrow> destination \<Rightarrow> encrypted_destination) \<Rightarrow>
    (destination \<Rightarrow> bool) \<Rightarrow> (string \<Rightarrow> permission_key list option) \<Rightarrow> db_env \<Rightarrow> bool \<Rightarrow> string \<Rightarrow>
    configuration_input \<Rightarrow> notification_db \<Rightarrow> int \<Rightarrow> notification_db \<Rightarrow>
    request_error + configuration_summary \<times> notification_db" where
  "updateNotificationConfigurationService seal valid owners env withinRate actor input before now nd =
     andThen (requirePermission owners actor NOTIFICATIONS_MANAGE) (\<lambda>_.
     andThen (guardR (updateInputOk input) (Domain domain_error.InvalidInput)) (\<lambda>_.
     andThen (guardR withinRate TooManyRequests) (\<lambda>_.
     andThen (domain (readNotificationConfiguration before)) (\<lambda>snapshot.
       let personal = filter isPersonal (nc_channels snapshot) in
       andThen (guardR (\<not> some_elem (\<lambda>ci. some_elem (\<lambda>ch. ch_id ch = ci_id ci) personal) (nu_channels input) \<and>
           length personal + length (nu_channels input) \<le> LIMIT_totalChannels)
           (Domain domain_error.InvalidInput)) (\<lambda>_.
       andThen (domain (buildNotificationConfiguration seal valid (sharedConfiguration snapshot) input)) (\<lambda>built.
         let configuration = built\<lparr>nc_channels := nc_channels built @ personal\<rparr> in
         andThen (requirePermission (de_owners env) actor NOTIFICATIONS_MANAGE) (\<lambda>_.
         andThen (domain (readNotificationConfiguration nd)) (\<lambda>current.
         andThen (guardR (nc_revision current = nu_expectedRevision input) (Domain ConfigurationConflict)) (\<lambda>_.
         andThen (domain (persistNotificationConfiguration env configuration (engineConfiguration configuration)
           (newChannelIds (\<lambda>ch. \<not> isPersonal ch) current (nu_channels input)) now nd)) (\<lambda>nd'.
           Inr (summarizeNotificationConfiguration built, nd')))))))))))"

section \<open>Personal channels\<close>

record personal_input =
  pu_expectedRevision :: int
  pu_channels :: "channel_input list"
  pu_resumeDelivery :: "bool option"

definition personalInputOk :: "personal_input \<Rightarrow> bool" where
  "personalInputOk input \<longleftrightarrow> updateInputOk \<lparr>nu_expectedRevision = pu_expectedRevision input, nu_enabled = False,
     nu_channels = pu_channels input\<rparr>"

definition hasPrivateCidrs :: "destination \<Rightarrow> bool" where
  "hasPrivateCidrs d = (case d of WebhookDestination _ _ cidrs \<Rightarrow> cidrs \<noteq> [] | EmailDestination _ \<Rightarrow> False)"

fun checkChannels :: "permission_key list \<Rightarrow> (string \<Rightarrow> destination option) \<Rightarrow> channel_input list \<Rightarrow>
    domain_error + unit" where
  "checkChannels ps destinations [] = Inr ()"
| "checkChannels ps destinations (ci # cis) =
     (if some_elem (\<lambda>e. \<not> contains (getAllowedNotificationCategories ps) e) (ci_events ci)
      then Inl domain_error.InvalidInput
      else if (case destinations (ci_id ci) of None \<Rightarrow> False | Some d \<Rightarrow> hasPrivateCidrs d) \<and>
              \<not> canUsePrivateNotificationDestinations ps
      then Inl DestinationBlockedError
      else checkChannels ps destinations cis)"

definition checkPolicy :: "permission_key list \<Rightarrow> personal_input \<Rightarrow> (string \<Rightarrow> destination option) \<Rightarrow>
    domain_error + unit" where
  "checkPolicy ps input destinations =
     (if pu_resumeDelivery input \<noteq> None \<and> \<not> canUsePrivateNotificationDestinations ps
      then Inl domain_error.InvalidInput else checkChannels ps destinations (pu_channels input))"

text \<open>The destinations of an update: the given ones, and the stored ones that are kept.\<close>

definition destinationOf :: "(stored_channel \<Rightarrow> domain_error + destination) \<Rightarrow> stored_configuration \<Rightarrow>
    channel_input \<Rightarrow> domain_error + (string \<times> destination) list" where
  "destinationOf openDestination own ci =
     (case ci_destination ci of
        Some d \<Rightarrow> Inr [(ci_id ci, d)]
      | None \<Rightarrow>
          (case find (\<lambda>ch. ch_id ch = ci_id ci) (nc_channels own) of
             None \<Rightarrow> Inr []
           | Some saved \<Rightarrow> andThen (openDestination saved) (\<lambda>d. Inr [(ci_id ci, d)])))"

definition isUntouched :: "stored_configuration \<Rightarrow> personal_input \<Rightarrow> bool" where
  "isUntouched snapshot input \<longleftrightarrow> nc_revision snapshot = 0 \<and> \<not> nc_enabled snapshot \<and>
     \<not> nc_pausedAfterRestore snapshot \<and> nc_channels snapshot = [] \<and> pu_channels input = [] \<and>
     pu_resumeDelivery input \<noteq> Some True"

definition personalConfiguration :: "string \<Rightarrow> personal_input \<Rightarrow> stored_configuration \<Rightarrow> stored_configuration \<Rightarrow>
    stored_configuration" where
  "personalConfiguration actor input snapshot built =
     built\<lparr>nc_pausedAfterRestore := (if pu_resumeDelivery input = Some True then False
         else nc_pausedAfterRestore snapshot),
       nc_channels := filter (\<lambda>ch. \<not> ownedBy actor ch) (nc_channels snapshot) @
         map (\<lambda>ch. ch\<lparr>sc_ownerUserId := Some actor\<rparr>) (nc_channels built)\<rparr>"

definition updatePersonalNotificationConfigurationService ::
    "(string \<Rightarrow> destination \<Rightarrow> encrypted_destination) \<Rightarrow> (stored_channel \<Rightarrow> domain_error + destination) \<Rightarrow>
     (destination \<Rightarrow> bool) \<Rightarrow> (string \<Rightarrow> permission_key list option) \<Rightarrow> db_env \<Rightarrow> db_env \<Rightarrow> bool \<Rightarrow> bool \<Rightarrow>
     string \<Rightarrow> personal_input \<Rightarrow> notification_db \<Rightarrow> int \<Rightarrow> notification_db \<Rightarrow>
     request_error + personal_settings \<times> notification_db" where
  "updatePersonalNotificationConfigurationService seal openDestination valid owners env1 env withinRate smtp
       actor input before now nd =
     andThen (requirePermission owners actor APP_ACCESS) (\<lambda>_.
     andThen (guardR (personalInputOk input) (Domain domain_error.InvalidInput)) (\<lambda>_.
     andThen (guardR withinRate TooManyRequests) (\<lambda>_.
     andThen (requirePermission (de_owners env1) actor APP_ACCESS) (\<lambda>fresh.
     andThen (domain (readNotificationConfiguration before)) (\<lambda>snapshot.
       let own = ownConfiguration snapshot actor;
           foreign = filter (\<lambda>ch. \<not> ownedBy actor ch) (nc_channels snapshot)
       in if isUntouched snapshot input
          then andThen (guardR (pu_expectedRevision input = nc_revision snapshot) (Domain ConfigurationConflict))
            (\<lambda>_. Inr (personalSettings smtp snapshot actor fresh, nd))
          else
            andThen (guardR (\<not> some_elem (\<lambda>ci. some_elem (\<lambda>ch. ch_id ch = ci_id ci) foreign) (pu_channels input) \<and>
                length foreign + length (pu_channels input) \<le> LIMIT_totalChannels)
                (Domain domain_error.InvalidInput)) (\<lambda>_.
            andThen (domain (traverse (destinationOf openDestination own) (pu_channels input))) (\<lambda>found.
              let destinations = map_of (concat found) in
              andThen (domain (checkPolicy fresh input destinations)) (\<lambda>_.
                let first = (nc_revision snapshot = 0 \<and> nc_channels snapshot = [] \<and> pu_channels input \<noteq> []);
                    enabled = (pu_resumeDelivery input = Some True \<or> first \<or> nc_enabled snapshot)
                in andThen (domain (buildNotificationConfiguration seal valid own
                     \<lparr>nu_expectedRevision = pu_expectedRevision input, nu_enabled = enabled,
                      nu_channels = pu_channels input\<rparr>)) (\<lambda>built.
                   let configuration = personalConfiguration actor input snapshot built in
                   andThen (requirePermission (de_owners env) actor APP_ACCESS) (\<lambda>currentActor.
                   andThen (domain (checkPolicy currentActor input destinations)) (\<lambda>_.
                   andThen (domain (readNotificationConfiguration nd)) (\<lambda>current.
                   andThen (guardR (nc_revision current = pu_expectedRevision input)
                     (Domain ConfigurationConflict)) (\<lambda>_.
                   andThen (domain (persistNotificationConfiguration env configuration
                     (engineConfiguration (filterNotificationConfigurationByOwnerAccess configuration (de_owners env)))
                     (newChannelIds (ownedBy actor) current (pu_channels input)) now nd)) (\<lambda>nd'.
                     Inr (personalSettings smtp configuration actor currentActor, nd')))))))))))))))"

section \<open>The channel test\<close>

definition claimPersonalTest :: "(string \<Rightarrow> permission_key list option) \<Rightarrow> db_env \<Rightarrow> bool \<Rightarrow> string \<Rightarrow> int \<Rightarrow>
    string \<Rightarrow> int \<Rightarrow> notification_db \<Rightarrow> request_error + delivery_claim \<times> notification_db" where
  "claimPersonalTest owners env withinRate actor expectedRevision channelId now nd =
     andThen (requirePermission owners actor APP_ACCESS) (\<lambda>_.
     andThen (guardR (0 \<le> expectedRevision \<and> expectedRevision \<le> MAX_REVISION) (Domain domain_error.InvalidInput)) (\<lambda>_.
     andThen (guardR withinRate TooManyRequests) (\<lambda>_.
     andThen (requirePermission (de_owners env) actor APP_ACCESS) (\<lambda>fresh.
     andThen (domain (readNotificationConfiguration nd)) (\<lambda>c.
       case find (\<lambda>ch. ch_id ch = channelId \<and> ownedBy actor ch) (nc_channels c) of
         None \<Rightarrow> Inl (Domain domain_error.InvalidInput)
       | Some ch \<Rightarrow>
           if some_elem (\<lambda>e. \<not> contains (getAllowedNotificationCategories fresh) e) (ch_events ch)
           then Inl (Domain domain_error.InvalidInput)
           else if ch_revision ch \<noteq> expectedRevision then Inl (Domain ConfigurationConflict)
           else andThen (domain (readNotificationRuntime env nd)) (\<lambda>r.
             andThen (domain (claimNotificationTestDelivery (de_runtime env)
                 (engineConfiguration (c\<lparr>nc_channels := [ch]\<rparr>)) (ch_id ch) now
                 (nr_engine r, db_uuid (nd_tables nd)))) (\<lambda>((s, m), cd).
             andThen (domain (writeNotificationRuntime env (r\<lparr>nr_engine := s\<rparr>) m nd)) (\<lambda>nd'.
               Inr (claimed_delivery.extend cd \<lparr>cd_channel = ch\<rparr>, nd')))))))))"

text \<open>The result of a test is final: a failure is never retried.\<close>

definition terminalResult :: "delivery_result \<Rightarrow> delivery_result" where
  "terminalResult r = (case r of DeliverySuccess \<Rightarrow> DeliverySuccess
     | DeliveryFailure code _ retryAfter \<Rightarrow> DeliveryFailure code False retryAfter)"

text \<open>
  The whole test: claim, send (\<open>send\<close> is the authorized delivery, \<open>None\<close> when it throws), acknowledge.
  Between the transactions others write, so the acknowledgement has its own database.
\<close>

definition acknowledgePersonalTest :: "db_env \<Rightarrow> delivery_claim \<Rightarrow> delivery_result option \<Rightarrow> int \<Rightarrow>
    notification_db \<Rightarrow> domain_error + delivery_result \<times> notification_db" where
  "acknowledgePersonalTest env claim sent now nd =
     (let terminal = terminalResult (case sent of Some r \<Rightarrow> r
            | None \<Rightarrow> DeliveryFailure ConfigurationUnavailable False None)
      in andThen (acknowledgeNotificationDelivery env (cd_leaseToken claim) terminal now nd)
           (\<lambda>nd'. Inr (terminal, nd')))"

end
