(* ===== verification/EngineInvariant.thy ===== *)
theory EngineInvariant
  imports IncidentEngine StateSchema
begin

text \<open>
  The well-formedness invariant of the engine state: the semantic constraints that
  \<^verbatim>\<open>notification-state.validation.ts\<close> re-checks whenever the persisted state is loaded, and the
  proof that every operation of the engine keeps them. A state that broke one of them could be
  written but never read back.
\<close>

section \<open>The invariant\<close>

definition deliveryOk :: "delivery \<Rightarrow> bool" where
  "deliveryOk d \<longleftrightarrow>
     dl_id d = pl_id (dl_payload d) \<and>
     0 \<le> dl_attempts d \<and> dl_attempts d \<le> LIMIT_attempts \<and> leaseShapeOk d"

definition incidentsOk :: "incident list \<Rightarrow> bool" where
  "incidentsOk incs \<longleftrightarrow> (\<forall>i \<in> set incs. chronologyOk i) \<and> distinct (map incidentKey (filter isOpen incs))"

definition stateOk :: "notification_state \<Rightarrow> bool" where
  "stateOk s \<longleftrightarrow>
     length (st_incidents s) \<le> LIMIT_incidents \<and>
     length (st_deliveries s) \<le> LIMIT_deliveries \<and>
     incidentsOk (st_incidents s) \<and>
     (\<forall>d \<in> set (st_deliveries s). deliveryOk d) \<and>
     (case st_proxyApplyPending s of None \<Rightarrow> True | Some p \<Rightarrow> pa_since p \<le> pa_observedAt p)"

section \<open>Incidents up to their markers\<close>

text \<open>Most of the engine only touches markers; what is left of an incident is its core.\<close>

definition core :: "incident \<Rightarrow> incident" where
  "core i = i\<lparr>in_channels := []\<rparr>"

named_theorems core_simps \<open>operations that leave the cores of the incidents alone\<close>

lemma core_fields [simp]:
  "in_id (core i) = in_id i" "in_category (core i) = in_category i"
  "in_resourceId (core i) = in_resourceId i" "in_startedAt (core i) = in_startedAt i"
  "in_observedAt (core i) = in_observedAt i" "in_recoveredAt (core i) = in_recoveredAt i"
  "in_recoveryEvidence (core i) = in_recoveryEvidence i" "in_evidence (core i) = in_evidence i"
  by (simp_all add: core_def)

lemma core_channels [core_simps]: "core (i\<lparr>in_channels := ms\<rparr>) = core i"
  by (simp add: core_def)

lemma core_pruneMarkers [core_simps]: "core (pruneMarkers cfg i) = core i"
  by (simp add: pruneMarkers_def core_simps)

lemma core_markAdmitted [core_simps]: "core (markAdmitted ch i) = core i"
  by (simp add: markAdmitted_def core_simps)

lemma core_silenceRecovery [core_simps]: "core (silenceRecovery i) = core i"
  by (simp add: silenceRecovery_def core_simps)

lemma map_core_markTerminal [core_simps]: "map core (markTerminal d incs) = map core incs"
  by (simp add: markTerminal_def map_update_first core_simps)

lemma map_core_terminate [core_simps]:
  "map core (snd (terminate status now d incs)) = map core incs"
  by (simp add: terminate_def Let_def core_simps)

lemma map_core_reconcileDelivery [core_simps]:
  "map core (snd (reconcileDelivery cfg now d incs)) = map core incs"
  by (simp add: reconcileDelivery_def core_simps)

lemma map_core_cancelPendingOf [core_simps]:
  "map core (snd (cancelPendingOf iid now d incs)) = map core incs"
  by (simp add: cancelPendingOf_def core_simps)

lemma map_core_settleDelivery [core_simps]:
  "map core (snd (settleDelivery cfg r now d incs)) = map core incs"
  by (simp add: settleDelivery_def Let_def core_simps split: delivery_result.split)

lemma map_core_sweep [core_simps]:
  assumes "\<And>d incs. map core (snd (f d incs)) = map core incs"
  shows "map core (snd (sweep f ds incs)) = map core incs"
proof (induction ds arbitrary: incs)
  case (Cons d ds)
  obtain d' incs' where f: "f d incs = (d', incs')" by force
  with assms [of d incs] have "map core incs' = map core incs" by simp
  with Cons [of incs'] f show ?case by (auto split: prod.splits)
qed simp

lemma sweep_fst:
  assumes "d' \<in> set (fst (sweep f ds incs))"
  shows "\<exists>d \<in> set ds. \<exists>is. d' = fst (f d is)"
  using assms
proof (induction ds arbitrary: incs)
  case (Cons d ds)
  obtain e js where f: "f d incs = (e, js)" by force
  obtain es ks where g: "sweep f ds js = (es, ks)" by force
  from Cons.prems f g have "d' = e \<or> d' \<in> set (fst (sweep f ds js))" by simp
  then show ?case using Cons.IH [of js] f by (metis fst_conv list.set_intros(1,2))
qed simp

lemma length_sweep [simp]: "length (fst (sweep f ds incs)) = length ds"
  by (induction ds arbitrary: incs) (auto split: prod.splits, metis fst_conv)

lemma chronologyOk_core: "chronologyOk (core i) = chronologyOk i"
  by (simp add: chronologyOk_def split: option.split)

lemma incidentKey_core [simp]: "incidentKey (core i) = incidentKey i"
  by (simp add: incidentKey_def)

lemma isOpen_core [simp]: "isOpen (core i) = isOpen i"
  by (simp add: isOpen_def)

lemma incidentsOk_map_core: "incidentsOk (map core incs) = incidentsOk incs"
  by (simp add: incidentsOk_def chronologyOk_core filter_map comp_def)

lemma incidentsOk_cong_core: "map core xs = map core ys \<Longrightarrow> incidentsOk xs = incidentsOk ys"
  by (metis incidentsOk_map_core)

lemma incidentsOk_subseq: "subseq xs ys \<Longrightarrow> incidentsOk ys \<Longrightarrow> incidentsOk xs"
  unfolding incidentsOk_def
  by (meson distinct_map_subseq subseq_filter subseq_set subset_iff)

lemma incidentsOk_snoc:
  assumes "incidentsOk incs" "chronologyOk i" "isOpen i \<Longrightarrow> \<forall>j \<in> set incs. isOpen j \<longrightarrow> incidentKey j \<noteq> incidentKey i"
  shows "incidentsOk (incs @ [i])"
  using assms by (auto simp: incidentsOk_def)

lemma filter_list_update_false:
  "k < length xs \<Longrightarrow> p (xs ! k) = p y \<Longrightarrow> f (xs ! k) = f y \<Longrightarrow>
   map f (filter p (xs[k := y])) = map f (filter p xs)"
  by (induction xs arbitrary: k) (auto split: nat.splits)

lemma subseq_filter_list_update:
  "k < length xs \<Longrightarrow> \<not> p y \<Longrightarrow> subseq (filter p (xs[k := y])) (filter p xs)"
proof (induction xs arbitrary: k)
  case (Cons x xs)
  then show ?case by (cases k) auto
qed simp

lemma incidentsOk_update_same:
  assumes "incidentsOk incs" "k < length incs" "chronologyOk i"
    and "isOpen i = isOpen (incs ! k)" "incidentKey i = incidentKey (incs ! k)"
  shows "incidentsOk (incs[k := i])"
  using assms filter_list_update_false [of k incs isOpen i incidentKey]
  by (auto simp: incidentsOk_def dest!: set_update_subset_insert [THEN subsetD])

lemma incidentsOk_update_close:
  assumes "incidentsOk incs" "k < length incs" "chronologyOk i" "\<not> isOpen i"
  shows "incidentsOk (incs[k := i])"
  using assms distinct_map_subseq [OF subseq_filter_list_update [of k incs isOpen i]]
  by (auto simp: incidentsOk_def dest!: set_update_subset_insert [THEN subsetD])

section \<open>Deliveries\<close>

lemmas delivery_op_defs = terminate_def reconcileDelivery_def cancelPendingOf_def settleDelivery_def
  leaseDelivery_def

lemma deliveryOk_terminate:
  "deliveryOk d \<Longrightarrow> status \<noteq> Inflight \<Longrightarrow> deliveryOk (fst (terminate status now d incs))"
  by (simp add: terminate_def Let_def deliveryOk_def leaseShapeOk_def)

lemma deliveryOk_reconcileDelivery:
  "deliveryOk d \<Longrightarrow> deliveryOk (fst (reconcileDelivery cfg now d incs))"
  by (simp add: reconcileDelivery_def deliveryOk_terminate) (simp add: deliveryOk_def leaseShapeOk_def)

lemma deliveryOk_cancelPendingOf:
  "deliveryOk d \<Longrightarrow> deliveryOk (fst (cancelPendingOf iid now d incs))"
  by (simp add: cancelPendingOf_def deliveryOk_terminate)

lemma deliveryOk_settleDelivery:
  assumes "deliveryOk d"
  shows "deliveryOk (fst (settleDelivery cfg r now d incs))"
proof (cases r)
  case DeliverySuccess
  with assms show ?thesis by (simp add: settleDelivery_def deliveryOk_def leaseShapeOk_def Let_def)
next
  case (DeliveryFailure code retryable after)
  with assms show ?thesis
    by (auto simp: settleDelivery_def deliveryOk_def leaseShapeOk_def Let_def terminate_def)
qed

lemma deliveryOk_queuedDelivery: "deliveryOk (queuedDelivery did ch (incidentPayload did r i) now)"
  by (simp add: deliveryOk_def leaseShapeOk_def queuedDelivery_def incidentPayload_def notification_limits)

section \<open>Reconciliation and admission keep the invariant\<close>

lemma reconcile_fields:
  "st_proxyApplyPending (reconcile cfg now s) = st_proxyApplyPending s"
  by (simp add: reconcile_def Let_def split: prod.split)

lemma reconcile_incidents_subseq:
  "subseq (map core (st_incidents (reconcile cfg now s))) (map core (st_incidents s))"
proof -
  obtain ds incs where sw:
    "sweep (reconcileDelivery cfg now) (st_deliveries s) (st_incidents s) = (ds, incs)" by force
  have "map core incs = map core (st_incidents s)"
    using map_core_sweep [of "reconcileDelivery cfg now" "st_deliveries s" "st_incidents s"]
    by (simp add: sw core_simps)
  then have cores: "map core (map (pruneMarkers cfg) incs) = map core (st_incidents s)"
    by (simp add: comp_def core_simps)
  obtain p where st: "st_incidents (reconcile cfg now s) = filter p (map (pruneMarkers cfg) incs)"
    by (simp add: reconcile_def sw Let_def)
  have "subseq (filter p (map (pruneMarkers cfg) incs)) (map (pruneMarkers cfg) incs)"
    by simp
  from subseq_map [OF this, of core] show ?thesis by (simp only: st cores)
qed

lemma reconcile_delivery_from:
  assumes "d' \<in> set (st_deliveries (reconcile cfg now s))"
  shows "\<exists>d \<in> set (st_deliveries s). \<exists>is. d' = fst (reconcileDelivery cfg now d is)"
  using assms sweep_fst [of d' "reconcileDelivery cfg now" "st_deliveries s" "st_incidents s"]
  by (auto simp: reconcile_def Let_def split: prod.splits)

lemma reconcile_length:
  "length (st_deliveries (reconcile cfg now s)) \<le> length (st_deliveries s)"
proof -
  obtain ds incs where sw:
    "sweep (reconcileDelivery cfg now) (st_deliveries s) (st_incidents s) = (ds, incs)" by force
  then have "length ds = length (st_deliveries s)"
    using length_sweep [of "reconcileDelivery cfg now" "st_deliveries s" "st_incidents s"] by simp
  then show ?thesis
    by (simp add: reconcile_def sw Let_def) (metis length_filter_le)
qed

lemma stateOk_reconcile:
  assumes ok: "stateOk s"
  shows "stateOk (reconcile cfg now s)"
proof -
  let ?t = "reconcile cfg now s"
  have "incidentsOk (st_incidents ?t)"
    using incidentsOk_subseq [OF reconcile_incidents_subseq] ok
    by (simp add: incidentsOk_map_core stateOk_def)
  moreover have "length (st_incidents ?t) \<le> length (st_incidents s)"
    using list_emb_length [OF reconcile_incidents_subseq, of cfg now s] by simp
  moreover have "\<forall>d \<in> set (st_deliveries ?t). deliveryOk d"
    using reconcile_delivery_from [of _ cfg now s] ok
    by (fastforce simp: stateOk_def intro: deliveryOk_reconcileDelivery)
  ultimately show ?thesis
    using ok reconcile_length [of cfg now s] by (auto simp: stateOk_def reconcile_fields)
qed

lemma deferAdmission_fields [simp]:
  "st_incidents (deferAdmission s) = st_incidents s"
  "st_deliveries (deferAdmission s) = st_deliveries s"
  "st_proxyApplyPending (deferAdmission s) = st_proxyApplyPending s"
  by (simp_all add: deferAdmission_def)

lemma stateOk_deferAdmission [simp]: "stateOk (deferAdmission s) = stateOk s"
  by (simp add: stateOk_def)

lemma reserve_Some:
  assumes "reserveNotificationDeliverySlot s = Some s1"
  shows "length (st_deliveries s1) < length (st_deliveries s) + 1"
    and "length (st_deliveries s) \<le> LIMIT_deliveries \<Longrightarrow> length (st_deliveries s1) < LIMIT_deliveries"
    and "subseq (st_deliveries s1) (st_deliveries s)"
    and "st_incidents s1 = st_incidents s" and "st_proxyApplyPending s1 = st_proxyApplyPending s"
proof -
  from assms show "length (st_deliveries s1) < length (st_deliveries s) + 1"
    by (auto simp: reserveNotificationDeliverySlot_def le_imp_less_Suc length_remove_first_le
        split: if_splits option.splits)
  from assms show "subseq (st_deliveries s1) (st_deliveries s)"
    by (auto simp: reserveNotificationDeliverySlot_def subseq_remove_first
        split: if_splits option.splits)
  from assms show "st_incidents s1 = st_incidents s" "st_proxyApplyPending s1 = st_proxyApplyPending s"
    by (auto simp: reserveNotificationDeliverySlot_def split: if_splits option.splits)
  show "length (st_deliveries s1) < LIMIT_deliveries"
    if "length (st_deliveries s) \<le> LIMIT_deliveries"
  proof (cases "length (st_deliveries s) < LIMIT_deliveries")
    case True
    with assms show ?thesis by (simp add: reserveNotificationDeliverySlot_def)
  next
    case False
    with assms obtain k where k: "find_index (\<lambda>d. \<not> isActive d) (st_deliveries s) = Some k"
      and s1: "st_deliveries s1 = remove_first (\<lambda>d. \<not> isActive d) (st_deliveries s)"
      by (auto simp: reserveNotificationDeliverySlot_def split: option.splits)
    from find_index_Some [OF k] have "length (st_deliveries s1) = length (st_deliveries s) - 1"
      by (simp add: s1 length_remove_first [where x = "st_deliveries s ! k"])
    with that find_index_Some [OF k] show ?thesis by linarith
  qed
qed

lemma stateOk_reserve:
  "stateOk s \<Longrightarrow> reserveNotificationDeliverySlot s = Some s1 \<Longrightarrow> stateOk s1"
  using reserve_Some [of s s1] subseq_set [of "st_deliveries s1" "st_deliveries s"]
  by (auto simp: stateOk_def)

text \<open>What one iteration of the admission loop can do to the state.\<close>

lemma admitOne_cases:
  assumes "admitOne rt now k ch (s, n) = (t, m)"
  obtains (skip) "t = s" "m = n"
  | (full) "t = deferAdmission s" "m = n" "wantsDelivery now (st_incidents s ! k) ch"
  | (large) s1 where "reserveNotificationDeliverySlot s = Some s1" "t = deferAdmission s1" "m = Suc n"
      "wantsDelivery now (st_incidents s ! k) ch"
  | (queued) s1 where "reserveNotificationDeliverySlot s = Some s1" "m = Suc n"
      "wantsDelivery now (st_incidents s ! k) ch"
      "t = s1\<lparr>st_incidents := (st_incidents s1)[k := markAdmitted ch (st_incidents s ! k)],
         st_deliveries := st_deliveries s1 @ [queuedDelivery (rt_makeId rt n) ch
           (incidentPayload (rt_makeId rt n) (isRecoveryFor (st_incidents s ! k) ch)
             (st_incidents s ! k)) now]\<rparr>"
  using assms
  by (auto simp: admitOne_def Let_def split: if_splits option.splits)

lemma map_core_admitOne [core_simps]:
  "map core (st_incidents (fst (admitOne rt now k ch sn))) = map core (st_incidents (fst sn))"
proof -
  obtain s n t m where sn: "sn = (s, n)" and r: "admitOne rt now k ch (s, n) = (t, m)" by force
  from r have "map core (st_incidents t) = map core (st_incidents s)"
  proof (cases rule: admitOne_cases)
    case (queued s1)
    then show ?thesis
      by (cases "k < length (st_incidents s)")
        (auto simp: reserve_Some(4) map_update core_simps list_update_beyond
          list_update_same_conv)
  qed (auto simp: reserve_Some(4))
  with sn r show ?thesis by simp
qed

lemma stateOk_admitOne:
  assumes ok: "stateOk (fst sn)"
  shows "stateOk (fst (admitOne rt now k ch sn))"
proof -
  obtain s n t m where sn: "sn = (s, n)" and r: "admitOne rt now k ch (s, n) = (t, m)" by force
  have cores: "map core (st_incidents t) = map core (st_incidents s)"
    using map_core_admitOne [of rt now k ch sn] sn r by simp
  have "stateOk t" using r
  proof (cases rule: admitOne_cases)
    case (queued s1)
    have s1: "stateOk s1" using ok sn queued stateOk_reserve by auto
    moreover have "length (st_deliveries s1) < LIMIT_deliveries"
      using reserve_Some(2) [OF queued(1)] ok sn by (simp add: stateOk_def)
    moreover have "incidentsOk (st_incidents t)"
      using incidentsOk_cong_core [OF cores] ok sn by (simp add: stateOk_def)
    ultimately show ?thesis
      using queued by (auto simp: stateOk_def deliveryOk_queuedDelivery)
  qed (use ok sn stateOk_reserve in auto)
  with sn r show ?thesis by simp
qed

lemma stateOk_admitIncident:
  "stateOk (fst sn) \<Longrightarrow> stateOk (fst (admitIncident rt cfg now only k sn))"
  unfolding admitIncident_def
  by (auto intro!: fold_keeps [where P = "\<lambda>sn. stateOk (fst sn)"] stateOk_admitOne)

lemma stateOk_admit:
  "stateOk (fst sn) \<Longrightarrow> stateOk (fst (admitNotificationIncidents rt cfg now only sn))"
  unfolding admitNotificationIncidents_def
  by (auto intro!: fold_keeps [where P = "\<lambda>sn. stateOk (fst sn)"] stateOk_admitIncident)

section \<open>Observations keep the invariant\<close>

lemma append_cases:
  assumes "appendNotificationIncident cfg i s = (b, t)"
  obtains (refused) "\<not> b" "t = deferAdmission s"
  | (evicted) "\<not> b" "LIMIT_incidents \<le> length (st_incidents s)"
      "t = deferAdmission (s\<lparr>st_incidents := remove_first (evictable cfg (st_deliveries s)) (st_incidents s)\<rparr>)"
      "\<exists>j \<in> set (st_incidents s). evictable cfg (st_deliveries s) j"
  | (added) b "length (st_incidents s) < LIMIT_incidents"
      "t = s\<lparr>st_incidents := st_incidents s @ [i]\<rparr>"
  | (replaced) b "LIMIT_incidents \<le> length (st_incidents s)"
      "t = s\<lparr>st_incidents := remove_first (evictable cfg (st_deliveries s)) (st_incidents s) @ [i]\<rparr>"
      "\<exists>j \<in> set (st_incidents s). evictable cfg (st_deliveries s) j"
  using assms
  by (auto simp: appendNotificationIncident_def Let_def find_index_None not_le
      split: if_splits)

lemma stateOk_append:
  assumes ok: "stateOk s" and i: "chronologyOk i"
    and free: "isOpen i \<Longrightarrow> \<forall>j \<in> set (st_incidents s). isOpen j \<longrightarrow> incidentKey j \<noteq> incidentKey i"
  shows "stateOk (snd (appendNotificationIncident cfg i s))"
proof -
  let ?ev = "evictable cfg (st_deliveries s)"
  let ?rest = "remove_first ?ev (st_incidents s)"
  obtain b t where r: "appendNotificationIncident cfg i s = (b, t)" by force
  have incs: "incidentsOk (st_incidents s)" using ok by (simp add: stateOk_def)
  have rest: "incidentsOk ?rest" by (rule incidentsOk_subseq [OF subseq_remove_first incs])
  have len: "length ?rest \<le> LIMIT_incidents"
    using ok length_remove_first_le [of ?ev "st_incidents s"] by (simp add: stateOk_def)
  have snoc: "incidentsOk (?rest @ [i])"
    using incidentsOk_snoc [OF rest i] free set_remove_first_subset [of ?ev "st_incidents s"] by auto
  have "stateOk t" using r
  proof (cases rule: append_cases)
    case evicted
    with ok rest len show ?thesis by (simp add: stateOk_def)
  next
    case added
    with ok incidentsOk_snoc [OF incs i free] show ?thesis by (auto simp: stateOk_def)
  next
    case replaced
    then obtain j where "j \<in> set (st_incidents s)" "?ev j" by auto
    then have "length ?rest = length (st_incidents s) - 1" "0 < length (st_incidents s)"
      by (auto simp: length_remove_first [where x = j] intro: length_pos_if_in_set)
    then have "length (?rest @ [i]) = length (st_incidents s)" by simp
    with replaced ok snoc show ?thesis by (simp add: stateOk_def)
  qed (use ok in auto)
  with r show ?thesis by simp
qed

lemma lastObservedAt_ge:
  assumes "i \<in> set incs" "sameResource ob i"
  shows "lastSeen i \<le> lastObservedAt ob incs"
proof -
  have fold_max: "a \<le> fold max ys a \<and> (\<forall>y \<in> set ys. y \<le> fold max ys a)" for ys :: "int list" and a
  proof (induction ys arbitrary: a)
    case (Cons y ys)
    from Cons [of "max y a"] show ?case by auto
  qed simp
  from assms have "lastSeen i \<in> set (map lastSeen (filter (sameResource ob) incs))" by auto
  with fold_max show ?thesis unfolding lastObservedAt_def by blast
qed

lemma proxyApplyPhase_incidents [simp]:
  "st_incidents (fst (proxyApplyPhase ob t s)) = st_incidents s"
  "st_deliveries (fst (proxyApplyPhase ob t s)) = st_deliveries s"
  by (auto simp: proxyApplyPhase_def Let_def split: option.splits health.splits)

lemma proxyApplyPhase_pending:
  assumes "case st_proxyApplyPending s of None \<Rightarrow> True | Some p \<Rightarrow> pa_since p \<le> pa_observedAt p"
    and "proxyApplyPhase ob t s = (s', r)"
  shows "case st_proxyApplyPending s' of None \<Rightarrow> True | Some p \<Rightarrow> pa_since p \<le> pa_observedAt p"
    and "r = Some (h, st) \<Longrightarrow> st \<le> t"
  using assms
  by (auto simp: proxyApplyPhase_def Let_def split: option.splits health.splits if_splits)

lemma stateOk_proxyApplyPhase:
  "stateOk s \<Longrightarrow> proxyApplyPhase ob t s = (s', r) \<Longrightarrow> stateOk s'"
  using proxyApplyPhase_pending(1) [of s ob t s' r] proxyApplyPhase_incidents [of ob t s]
  by (auto simp: stateOk_def)

lemma chronologyOk_recover:
  "chronologyOk i \<Longrightarrow> isOpen i \<Longrightarrow> in_observedAt i \<le> t \<Longrightarrow> chronologyOk (recoverIncident t ev i)"
  by (simp add: chronologyOk_def recoverIncident_def isOpen_def)

lemma chronologyOk_refresh:
  "chronologyOk i \<Longrightarrow> isOpen i \<Longrightarrow> in_observedAt i \<le> t \<Longrightarrow> chronologyOk (refreshIncident ob t ev i)"
  by (auto simp: chronologyOk_def refreshIncident_def isOpen_def)

lemma chronologyOk_new: "st \<le> t \<Longrightarrow> chronologyOk (newIncident iid ob st t ev)"
  by (simp add: chronologyOk_def newIncident_def)

text \<open>The open incident an observation refers to, and that it is the only one.\<close>

lemma openFor_nth:
  assumes "find_index (openFor ob) incs = Some k"
  shows "k < length incs" "isOpen (incs ! k)"
    "incidentKey (incs ! k) = (ob_category ob, ob_resourceId ob)"
    "sameResource ob (incs ! k)" "in_observedAt (incs ! k) \<le> lastObservedAt ob incs"
  using find_index_Some [OF assms] lastObservedAt_ge [of "incs ! k" incs ob]
  by (auto simp: openFor_def isOpen_def sameResource_def incidentKey_def lastSeen_def)

lemma openFor_unique:
  assumes "incidentsOk incs" "find_index (openFor ob) incs = Some k"
    and "j < length incs" "isOpen (incs ! j)" "incidentKey (incs ! j) = (ob_category ob, ob_resourceId ob)"
  shows "j = k"
  using distinct_filter_nth [of incidentKey isOpen incs j k] openFor_nth [OF assms(2)] assms
  by (simp add: incidentsOk_def)

lemma no_open_none:
  assumes "find_index (openFor ob) incs = None" "i \<in> set incs" "isOpen i"
  shows "incidentKey i \<noteq> (ob_category ob, ob_resourceId ob)"
  using assms by (auto simp: find_index_None openFor_def sameResource_def isOpen_def incidentKey_def)

lemma supersede_incidents:
  fixes s :: notification_state and k :: nat
  defines "i \<equiv> st_incidents s ! k"
  assumes k: "k < length (st_incidents s)"
  shows "map core (st_incidents (supersedeIncident k t ev now s))
       = map core ((st_incidents s)[k := recoverIncident t ev i])"
proof -
  let ?incs = "(st_incidents s)[k := recoverIncident t ev i]"
  obtain ds incs where sw: "sweep (cancelPendingOf (in_id i) now) (st_deliveries s) ?incs = (ds, incs)"
    by force
  have "map core incs = map core ?incs"
    using map_core_sweep [of "cancelPendingOf (in_id i) now" "st_deliveries s" ?incs]
    by (simp add: sw core_simps)
  moreover from this k have "map core (incs[k := silenceRecovery (incs ! k)]) = map core incs"
    by (metis (no_types, lifting) core_silenceRecovery length_list_update length_map list_update_id
        map_update nth_map)
  ultimately show ?thesis using sw by (simp add: supersedeIncident_def Let_def i_def)
qed

lemma supersede_deliveries:
  assumes "d' \<in> set (st_deliveries (supersedeIncident k t ev now s))"
  shows "\<exists>d \<in> set (st_deliveries s). \<exists>is. d' = fst (cancelPendingOf (in_id (st_incidents s ! k)) now d is)"
  using assms sweep_fst [of d' "cancelPendingOf (in_id (st_incidents s ! k)) now" "st_deliveries s"
      "(st_incidents s)[k := recoverIncident t ev (st_incidents s ! k)]"]
  by (auto simp: supersedeIncident_def Let_def split: prod.splits)

lemma supersede_lengths [simp]:
  "length (st_incidents (supersedeIncident k t ev now s)) = length (st_incidents s)"
  "length (st_deliveries (supersedeIncident k t ev now s)) = length (st_deliveries s)"
  "st_proxyApplyPending (supersedeIncident k t ev now s) = st_proxyApplyPending s"
proof -
  let ?f = "cancelPendingOf (in_id (st_incidents s ! k)) now"
  let ?incs = "(st_incidents s)[k := recoverIncident t ev (st_incidents s ! k)]"
  obtain ds incs where sw: "sweep ?f (st_deliveries s) ?incs = (ds, incs)" by force
  have "length incs = length ?incs"
    using arg_cong [OF map_core_sweep [of ?f "st_deliveries s" ?incs], of length]
    by (simp add: sw core_simps)
  moreover have "length ds = length (st_deliveries s)"
    using length_sweep [of ?f "st_deliveries s" ?incs] by (simp add: sw)
  ultimately show
    "length (st_incidents (supersedeIncident k t ev now s)) = length (st_incidents s)"
    "length (st_deliveries (supersedeIncident k t ev now s)) = length (st_deliveries s)"
    "st_proxyApplyPending (supersedeIncident k t ev now s) = st_proxyApplyPending s"
    using sw by (simp_all add: supersedeIncident_def Let_def)
qed

lemma stateOk_supersede:
  assumes ok: "stateOk s" and k: "find_index (openFor ob) (st_incidents s) = Some k"
    and t: "lastObservedAt ob (st_incidents s) \<le> t"
  shows "stateOk (supersedeIncident k t ev now s)"
proof -
  note nth = openFor_nth [OF k]
  have incs: "incidentsOk (st_incidents s)" using ok by (simp add: stateOk_def)
  have "chronologyOk (recoverIncident t ev (st_incidents s ! k))"
    using incs nth t by (auto simp: incidentsOk_def intro!: chronologyOk_recover)
  then have "incidentsOk ((st_incidents s)[k := recoverIncident t ev (st_incidents s ! k)])"
    using incidentsOk_update_close [OF incs nth(1)] by (simp add: isOpen_def recoverIncident_def)
  then have "incidentsOk (st_incidents (supersedeIncident k t ev now s))"
    using incidentsOk_cong_core [OF supersede_incidents [OF nth(1)]] by simp
  moreover have "\<forall>d \<in> set (st_deliveries (supersedeIncident k t ev now s)). deliveryOk d"
    using supersede_deliveries [of _ k t ev now s] ok
    by (fastforce simp: stateOk_def intro: deliveryOk_cancelPendingOf)
  ultimately show ?thesis using ok by (simp add: stateOk_def)
qed

lemma supersede_frees_key:
  assumes ok: "incidentsOk (st_incidents s)" and k: "find_index (openFor ob) (st_incidents s) = Some k"
  shows "\<forall>j \<in> set (st_incidents (supersedeIncident k t ev now s)).
           isOpen j \<longrightarrow> incidentKey j \<noteq> (ob_category ob, ob_resourceId ob)"
proof -
  let ?L = "(st_incidents s)[k := recoverIncident t ev (st_incidents s ! k)]"
  have L: "isOpen j \<Longrightarrow> incidentKey j \<noteq> (ob_category ob, ob_resourceId ob)" if "j \<in> set ?L" for j
  proof -
    from that obtain a where a: "a < length (st_incidents s)" "j = ?L ! a"
      by (auto simp: in_set_conv_nth)
    assume "isOpen j"
    with a have "a \<noteq> k" by (auto simp: isOpen_def recoverIncident_def)
    with a openFor_unique [OF ok k, of a] \<open>isOpen j\<close> show ?thesis by auto
  qed
  have "set (map core (st_incidents (supersedeIncident k t ev now s))) = set (map core ?L)"
    using supersede_incidents [OF openFor_nth(1) [OF k]] by simp
  then have "core j \<in> core ` set ?L" if "j \<in> set (st_incidents (supersedeIncident k t ev now s))" for j
    using that by auto
  with L show ?thesis by (metis (no_types, lifting) imageE incidentKey_core isOpen_core)
qed

lemma new_incident_key [simp]:
  "incidentKey (newIncident iid ob st t ev) = (ob_category ob, ob_resourceId ob)"
  by (simp add: newIncident_def incidentKey_def)

lemma stateOk_applySignal:
  assumes ok: "stateOk s" and last: "lastObservedAt ob (st_incidents s) \<le> t" and st: "st \<le> t"
  shows "stateOk (fst (applySignal rt cfg now ob t h st (s, n)))"
proof -
  let ?incs = "st_incidents s" and ?ev = "rt_sha256 rt (ob_evidence ob)"
  have incs: "incidentsOk ?incs" using ok by (simp add: stateOk_def)
  show ?thesis
  proof (cases "find_index (openFor ob) ?incs")
    case None
    have "stateOk (snd (appendNotificationIncident cfg (newIncident (rt_makeId rt n) ob st t ?ev) s))"
      using no_open_none [OF None] by (intro stateOk_append ok chronologyOk_new st) auto
    with None ok show ?thesis by (simp add: applySignal_def Let_def)
  next
    case (Some k)
    note nth = openFor_nth [OF Some]
    let ?i = "?incs ! k"
    have i: "chronologyOk ?i" using incs nth by (simp add: incidentsOk_def)
    have le: "in_observedAt ?i \<le> t" using nth last by simp
    have rec: "stateOk (s\<lparr>st_incidents := ?incs[k := recoverIncident t ?ev ?i]\<rparr>)"
      using ok incidentsOk_update_close [OF incs nth(1) chronologyOk_recover [OF i nth(2) le]]
      by (simp add: stateOk_def isOpen_def recoverIncident_def)
    have ref: "stateOk (s\<lparr>st_incidents := ?incs[k := refreshIncident ob t ?ev ?i]\<rparr>)"
      using ok incidentsOk_update_same [OF incs nth(1) chronologyOk_refresh [OF i nth(2) le]]
      by (simp add: stateOk_def isOpen_def incidentKey_def refreshIncident_def)
    have "in_startedAt ?i \<le> t" using i le by (simp add: chronologyOk_def)
    then have sup: "stateOk (snd (appendNotificationIncident cfg
        (newIncident (rt_makeId rt n) ob st' t ?ev) (supersedeIncident k t ?ev now s)))"
      if "st' = st \<or> st' = in_startedAt ?i" for st'
      using that st supersede_frees_key [OF incs Some]
      by (intro stateOk_append stateOk_supersede [OF ok Some last] chronologyOk_new) auto
    show ?thesis
      using Some ok rec ref sup by (auto simp: applySignal_def Let_def)
  qed
qed

lemma stateOk_observeOne:
  assumes "stateOk (fst sn)"
  shows "stateOk (fst (observeOne rt cfg now ob sn))"
proof -
  obtain s n where sn: "sn = (s, n)" by force
  show ?thesis
  proof (cases "rt_dateParse rt (ob_occurredAt ob)")
    case (Some t)
    obtain s' r where ph: "proxyApplyPhase ob t s = (s', r)" by force
    have s': "stateOk s'" "st_incidents s' = st_incidents s"
      using stateOk_proxyApplyPhase [OF _ ph] assms sn proxyApplyPhase_incidents [of ob t s] ph
      by auto
    have "stateOk (fst (applySignal rt cfg now ob t h st (s', n)))"
      if "r = Some (h, st)" "\<not> t < lastObservedAt ob (st_incidents s)" for h st
      using that s' assms sn proxyApplyPhase_pending(2) [OF _ ph]
      by (intro stateOk_applySignal) (auto simp: stateOk_def)
    with Some sn assms s' ph show ?thesis
      by (auto simp: observeOne_def split: option.splits)
  qed (use assms sn in \<open>simp add: observeOne_def\<close>)
qed

lemma stateOk_observe:
  "stateOk s \<Longrightarrow> stateOk (fst (observeNotificationSignals rt cfg obs now (s, n)))"
  unfolding observeNotificationSignals_def Let_def
  by (simp, intro stateOk_admit fold_keeps [where P = "\<lambda>sn. stateOk (fst sn)"] stateOk_observeOne)
    (simp_all add: stateOk_reconcile)

section \<open>Claims and acknowledgements keep the invariant\<close>

text \<open>What a pending delivery satisfies once the state was reconciled.\<close>

definition sendable :: "engine_configuration \<Rightarrow> int \<Rightarrow> delivery \<Rightarrow> bool" where
  "sendable cfg now d \<longleftrightarrow> channelAllows cfg d \<and> pl_type (dl_payload d) \<noteq> TTest \<and>
     dl_attempts d < LIMIT_attempts \<and> now - deliveryLifetimeStartedAt d < LIMIT_deliveryLifetimeMs"

lemma sendable_reconcileDelivery:
  assumes "dl_status (fst (reconcileDelivery cfg now d incs)) = Pending"
  shows "sendable cfg now (fst (reconcileDelivery cfg now d incs))"
  using assms
  by (auto simp: reconcileDelivery_def sendable_def terminate_def Let_def isActive_def leaseHeld_def
      channelAllows_def deliveryLifetimeStartedAt_def split: if_splits option.splits)

lemma sendable_queued:
  assumes "cf_enabled cfg" "\<not> cf_pausedAfterRestore cfg" "ch \<in> set (cf_channels cfg)"
    and "wantsDelivery now i ch"
  shows "sendable cfg now (queuedDelivery did ch (incidentPayload did r i) now)"
  using assms
  by (auto simp: sendable_def channelAllows_def queuedDelivery_def incidentPayload_def
      wantsDelivery_def deliveryLifetimeStartedAt_def notification_limits)

definition allSendable :: "engine_configuration \<Rightarrow> int \<Rightarrow> notification_state \<Rightarrow> bool" where
  "allSendable cfg now s \<longleftrightarrow>
     (\<forall>d \<in> set (st_deliveries s). dl_status d = Pending \<longrightarrow> sendable cfg now d)"

lemma allSendable_reconcile: "allSendable cfg now (reconcile cfg now s)"
  using reconcile_delivery_from [of _ cfg now s]
  by (fastforce simp: allSendable_def intro: sendable_reconcileDelivery)

lemma allSendable_admitOne:
  assumes "cf_enabled cfg" "\<not> cf_pausedAfterRestore cfg" "ch \<in> set (cf_channels cfg)"
    and ok: "allSendable cfg now (fst sn)"
  shows "allSendable cfg now (fst (admitOne rt now k ch sn))"
proof -
  obtain s n t m where sn: "sn = (s, n)" and r: "admitOne rt now k ch (s, n) = (t, m)" by force
  have sub: "allSendable cfg now s1" if "reserveNotificationDeliverySlot s = Some s1" for s1
    using ok sn subseq_set [OF reserve_Some(3) [OF that]] by (auto simp: allSendable_def)
  have "allSendable cfg now t" using r
  proof (cases rule: admitOne_cases)
    case (queued s1)
    with sub sendable_queued [OF assms(1-3) queued(3)] show ?thesis by (auto simp: allSendable_def)
  next
    case (large s1)
    with sub show ?thesis by (simp add: allSendable_def)
  qed (use ok sn in \<open>auto simp: allSendable_def\<close>)
  with sn r show ?thesis by simp
qed

lemma allSendable_admit:
  assumes "allSendable cfg now (fst sn)"
  shows "allSendable cfg now (fst (admitNotificationIncidents rt cfg now only sn))"
  using assms unfolding admitNotificationIncidents_def admitIncident_def
  by (auto intro!: fold_keeps [where P = "\<lambda>sn. allSendable cfg now (fst sn)"] allSendable_admitOne)

lemma find_first_update:
  "find p xs = Some x \<Longrightarrow> y \<in> set (update_first p f xs) \<Longrightarrow> y = f x \<or> y \<in> set xs"
  by (induction xs) (auto split: if_splits)

lemma find_SomeD: "find p xs = Some x \<Longrightarrow> x \<in> set xs \<and> p x"
  by (induction xs) (auto split: if_splits)

lemma stateOk_claim:
  assumes "stateOk (fst sn)"
  shows "stateOk (fst (fst (claimNotificationDelivery rt cfg now sn)))"
proof -
  obtain s n where a: "admitNotificationIncidents rt cfg now None (reconcile cfg now (fst sn), snd sn) = (s, n)"
    by force
  have ok: "stateOk s" and all: "allSendable cfg now s"
    using stateOk_admit [of "(reconcile cfg now (fst sn), snd sn)" rt cfg now None]
      allSendable_admit [of cfg now "(reconcile cfg now (fst sn), snd sn)" rt None] a assms
    by (simp_all add: stateOk_reconcile allSendable_reconcile)
  have "stateOk (s\<lparr>st_deliveries := update_first (dueAt now) (leaseDelivery now tok) (st_deliveries s)\<rparr>)"
    if d: "find (dueAt now) (st_deliveries s) = Some d" for d tok
  proof -
    have "deliveryOk (leaseDelivery now tok d)"
      using find_SomeD [OF d] ok all
      by (auto simp: stateOk_def allSendable_def sendable_def dueAt_def deliveryOk_def leaseShapeOk_def leaseDelivery_def)
    with find_first_update [OF d] ok show ?thesis by (auto simp: stateOk_def)
  qed
  with ok a show ?thesis by (auto simp: claimNotificationDelivery_def Let_def split: option.split)
qed

lemma stateOk_finish:
  assumes "stateOk s"
  shows "stateOk (finishNotificationDelivery cfg token r now s)"
proof -
  have "stateOk (s\<lparr>st_deliveries := (st_deliveries s)[k := fst x], st_incidents := snd x\<rparr>)"
    if "x = settleDelivery cfg r now (st_deliveries s ! k) (st_incidents s)"
       "k < length (st_deliveries s)" for k x
  proof -
    have cores: "map core (snd x) = map core (st_incidents s)" using that by (simp add: core_simps)
    then have "length (snd x) = length (st_incidents s)" by (metis length_map)
    with that cores assms incidentsOk_cong_core [OF cores] show ?thesis
      by (auto simp: stateOk_def dest!: set_update_subset_insert [THEN subsetD]
          intro: deliveryOk_settleDelivery)
  qed
  with assms show ?thesis unfolding finishNotificationDelivery_def
    by (intro stateOk_reconcile)
      (auto split: option.split prod.split dest: find_index_Some, metis fst_conv snd_conv find_index_Some)
qed

end
