(* ===== verification/EngineLifecycle.thy ===== *)
theory EngineLifecycle
  imports EngineInvariant
begin

text \<open>
  The abstract life cycle of a queued delivery, and the refinement: whatever the engine does to
  its queue, every delivery of the new state is either newly created or a delivery of the old
  state that moved along the life cycle with its identity, channel and payload unchanged.
\<close>

section \<open>The life cycle\<close>

inductive lifecycle :: "delivery_status \<Rightarrow> delivery_status \<Rightarrow> bool" where
  claimed: "lifecycle Pending Inflight"
| delivered: "lifecycle Inflight Succeeded"
| retried: "lifecycle Inflight Pending"
| gave_up: "lifecycle Inflight Failed"
| revoked: "lifecycle Inflight Cancelled"
| expired: "lifecycle Pending Failed"
| withdrawn: "lifecycle Pending Cancelled"

inductive_simps lifecycle_from [simp]:
  "lifecycle Pending x" "lifecycle Inflight x" "lifecycle Succeeded x" "lifecycle Failed x"
  "lifecycle Cancelled x"

lemma lifecycle_terminal:
  "lifecycle\<^sup>*\<^sup>* a b \<Longrightarrow> a \<in> {Succeeded, Failed, Cancelled} \<Longrightarrow> b = a"
  by (induction rule: converse_rtranclp_induct) auto

definition evolves :: "delivery \<Rightarrow> delivery \<Rightarrow> bool" where
  "evolves d d' \<longleftrightarrow>
     dl_id d' = dl_id d \<and> dl_channelId d' = dl_channelId d \<and>
     dl_channelRevision d' = dl_channelRevision d \<and> dl_payload d' = dl_payload d \<and>
     dl_createdAt d' = dl_createdAt d \<and> dl_attempts d \<le> dl_attempts d' \<and>
     lifecycle\<^sup>*\<^sup>* (dl_status d) (dl_status d') \<and> (\<not> isActive d \<longrightarrow> d' = d)"

lemma evolves_refl [simp]: "evolves d d"
  by (simp add: evolves_def)

lemma evolves_trans: "evolves a b \<Longrightarrow> evolves b c \<Longrightarrow> evolves a c"
  by (auto simp: evolves_def isActive_def intro: rtranclp_trans)

section \<open>Updates of single deliveries\<close>

text \<open>
  The interface of the loop bodies that run over the queue: the delivery moves along its life
  cycle and the incidents keep their cores. The sweeps then do the same.
\<close>

locale delivery_update =
  fixes upd :: "delivery \<Rightarrow> incident list \<Rightarrow> delivery \<times> incident list"
  assumes upd_evolves: "evolves d (fst (upd d incs))"
    and upd_core: "map core (snd (upd d incs)) = map core incs"
begin

lemma sweep_core: "map core (snd (sweep upd ds incs)) = map core incs"
  by (rule map_core_sweep) (rule upd_core)

lemma sweep_evolves: "d' \<in> set (fst (sweep upd ds incs)) \<Longrightarrow> \<exists>d \<in> set ds. evolves d d'"
  using sweep_fst [of d' upd ds incs] upd_evolves by auto

lemma sweep_ids: "map dl_id (fst (sweep upd ds incs)) = map dl_id ds"
proof (induction ds arbitrary: incs)
  case (Cons d ds)
  obtain e js where f: "upd d incs = (e, js)" by force
  with upd_evolves [of d incs] have "dl_id e = dl_id d" by (simp add: evolves_def)
  with f Cons [of js] show ?case by (auto split: prod.splits)
qed simp

end

lemma evolves_terminate:
  "isActive d \<Longrightarrow> status = Failed \<or> status = Cancelled \<Longrightarrow> evolves d (fst (terminate status now d incs))"
  by (auto simp: terminate_def Let_def evolves_def isActive_def intro!: r_into_rtranclp)

lemma evolves_reconcileDelivery: "evolves d (fst (reconcileDelivery cfg now d incs))"
proof (cases "isActive d")
  case True
  then show ?thesis
    by (auto simp: reconcileDelivery_def evolves_terminate) (auto simp: evolves_def isActive_def)
qed (simp add: reconcileDelivery_def)

interpretation reconciling: delivery_update "reconcileDelivery cfg now" for cfg now
  by unfold_locales (simp_all add: evolves_reconcileDelivery core_simps)

lemma evolves_cancelPendingOf: "evolves d (fst (cancelPendingOf iid now d incs))"
  by (auto simp: cancelPendingOf_def isActive_def intro!: evolves_terminate)

interpretation superseding: delivery_update "cancelPendingOf iid now" for iid now
  by unfold_locales (simp_all add: evolves_cancelPendingOf core_simps)

lemma evolves_settleDelivery:
  assumes "dl_status d = Inflight"
  shows "evolves d (fst (settleDelivery cfg r now d incs))"
  using assms
  by (cases r)
    (auto simp: settleDelivery_def Let_def terminate_def evolves_def isActive_def intro!: r_into_rtranclp)

lemma evolves_leaseDelivery: "dl_status d = Pending \<Longrightarrow> evolves d (leaseDelivery now tok d)"
  by (auto simp: leaseDelivery_def evolves_def isActive_def intro!: r_into_rtranclp)

section \<open>Comparing queues\<close>

text \<open>
  The new queue against the old one, with the number of identifiers drawn before and after: a
  delivery that is not related to an old one carries an identifier drawn in between.
\<close>

definition descendsBy :: "(delivery \<Rightarrow> delivery \<Rightarrow> bool) \<Rightarrow> (delivery \<Rightarrow> bool) \<Rightarrow> runtime \<Rightarrow>
    notification_state \<times> nat \<Rightarrow> notification_state \<times> nat \<Rightarrow> bool" where
  "descendsBy R N rt sn tm \<longleftrightarrow> snd sn \<le> snd tm \<and> (\<forall>d' \<in> set (st_deliveries (fst tm)).
     (\<exists>d \<in> set (st_deliveries (fst sn)). R d d') \<or>
     (\<exists>k. snd sn \<le> k \<and> k < snd tm \<and> dl_id d' = rt_makeId rt k \<and> N d'))"

text \<open>
  The interface between the bodies that update one delivery and what they do to the whole queue.
  \<open>R\<close> relates a delivery to its successor, \<open>N\<close> holds of what became of a new one; the relation may
  depend on the clock (\<open>okNow\<close>) and on which lease is acknowledged (\<open>okToken\<close>).
\<close>

locale queue_relation =
  fixes R :: "delivery \<Rightarrow> delivery \<Rightarrow> bool" and N :: "delivery \<Rightarrow> bool"
    and okNow :: "int \<Rightarrow> bool" and okToken :: "string \<Rightarrow> bool"
  assumes R_refl: "R d d"
    and R_trans: "R d d' \<Longrightarrow> R d' d'' \<Longrightarrow> R d d''"
    and R_id: "R d d' \<Longrightarrow> dl_id d' = dl_id d"
    and N_new: "isActive d \<Longrightarrow> N d"
    and N_R: "N d \<Longrightarrow> R d d' \<Longrightarrow> N d'"
    and R_reconcile: "okNow now \<Longrightarrow> R d (fst (reconcileDelivery cfg now d incs))"
    and R_supersede: "R d (fst (cancelPendingOf iid now d incs))"
    and R_lease: "dl_status d = Pending \<Longrightarrow> R d (leaseDelivery now token d)"
    and R_settle: "okToken token \<Longrightarrow> leasedTo token now d \<Longrightarrow> R d (fst (settleDelivery cfg r now d incs))"
begin

lemma by_refl: "descendsBy R N rt sn sn"
  unfolding descendsBy_def using R_refl by blast

lemma by_subset:
  "set (st_deliveries (fst tm)) \<subseteq> set (st_deliveries (fst sn)) \<Longrightarrow> snd sn \<le> snd tm \<Longrightarrow>
   descendsBy R N rt sn tm"
  unfolding descendsBy_def using R_refl by blast

lemma by_trans:
  assumes "descendsBy R N rt a b" "descendsBy R N rt b c"
  shows "descendsBy R N rt a c"
  unfolding descendsBy_def
proof (intro conjI ballI)
  have le: "snd a \<le> snd b" "snd b \<le> snd c" using assms by (simp_all add: descendsBy_def)
  then show "snd a \<le> snd c" by simp
  fix d'' assume "d'' \<in> set (st_deliveries (fst c))"
  with assms(2) consider d' where "d' \<in> set (st_deliveries (fst b))" "R d' d''"
    | k where "snd b \<le> k" "k < snd c" "dl_id d'' = rt_makeId rt k" "N d''"
    by (auto simp: descendsBy_def)
  then show "(\<exists>d \<in> set (st_deliveries (fst a)). R d d'') \<or>
     (\<exists>k. snd a \<le> k \<and> k < snd c \<and> dl_id d'' = rt_makeId rt k \<and> N d'')"
  proof cases
    case 1
    from assms(1) 1(1) show ?thesis
      unfolding descendsBy_def using R_id [OF 1(2)] N_R [OF _ 1(2)] R_trans [OF _ 1(2)] le
      by (metis less_le_trans)
  next
    case 2
    with le show ?thesis by (meson order_trans)
  qed
qed

lemma by_related:
  assumes "\<And>d'. d' \<in> set (st_deliveries t) \<Longrightarrow> \<exists>d \<in> set (st_deliveries s). R d d'"
  shows "descendsBy R N rt (s, n) (t, n)"
  using assms by (simp add: descendsBy_def)

text \<open>Queueing one delivery with the next identifier.\<close>

lemma by_snoc:
  assumes "descendsBy R N rt sn (s, k)" "st_deliveries t = st_deliveries s @ [d]"
    and "dl_id d = rt_makeId rt k" "isActive d" "k < m"
  shows "descendsBy R N rt sn (t, m)"
proof -
  have "N d" using assms(4) by (rule N_new)
  with assms show ?thesis by (fastforce simp: descendsBy_def)
qed

lemma by_reconcile: "okNow now \<Longrightarrow> descendsBy R N rt (s, n) (reconcile cfg now s, n)"
  using reconcile_delivery_from [of _ cfg now s] R_reconcile
  by (intro by_related) fastforce

lemma by_reserve:
  "reserveNotificationDeliverySlot s = Some s1 \<Longrightarrow> n \<le> m \<Longrightarrow> descendsBy R N rt (s, n) (s1, m)"
  by (rule by_subset) (auto dest: reserve_Some(3) subseq_set)

lemma by_admitOne: "descendsBy R N rt sn (admitOne rt now k ch sn)"
proof -
  obtain s n t m where sn: "sn = (s, n)" and r: "admitOne rt now k ch (s, n) = (t, m)" by force
  from r have "descendsBy R N rt (s, n) (t, m)"
  proof (cases rule: admitOne_cases)
    case (queued s1)
    then show ?thesis
      by (intro by_snoc [OF by_reserve [OF queued(1) order.refl]])
        (auto simp: queuedDelivery_def isActive_def)
  next
    case (large s1)
    then show ?thesis using by_reserve [OF large(1), of n m] by (simp add: descendsBy_def)
  qed (simp_all add: by_subset)
  with sn r show ?thesis by simp
qed

lemma by_fold:
  assumes "\<And>x sn. descendsBy R N rt sn (f x sn)"
  shows "descendsBy R N rt sn (fold f xs sn)"
proof (induction xs arbitrary: sn)
  case (Cons x xs)
  from by_trans [OF assms [of sn x] Cons [of "f x sn"]] show ?case by simp
qed (simp add: by_refl)

lemma by_admit: "descendsBy R N rt sn (admitNotificationIncidents rt cfg now only sn)"
proof -
  have "descendsBy R N rt sn (admitIncident rt cfg now only k sn)" for k sn
    using by_fold [of rt "admitOne rt now k", OF by_admitOne] by (simp add: admitIncident_def by_refl)
  from by_fold [of rt "admitIncident rt cfg now only", OF this] show ?thesis
    by (simp add: admitNotificationIncidents_def by_refl)
qed

lemma by_supersede: "descendsBy R N rt (s, n) (supersedeIncident k t ev now s, n)"
  using supersede_deliveries [of _ k t ev now s] R_supersede
  by (intro by_related) fastforce

lemma append_deliveries:
  "st_deliveries (snd (appendNotificationIncident cfg i s)) = st_deliveries s"
  by (simp add: appendNotificationIncident_def Let_def)

lemma by_applySignal: "descendsBy R N rt (s, n) (applySignal rt cfg now ob t h st (s, n))"
proof -
  have "descendsBy R N rt (s, n) (snd (appendNotificationIncident cfg i (supersedeIncident k t ev now s)), Suc n)"
    for i k t ev
    by (rule by_trans [OF by_supersede [of rt s n k t ev now]]) (simp add: by_subset append_deliveries)
  then show ?thesis
    by (auto simp: applySignal_def Let_def by_subset by_refl append_deliveries split: option.split)
qed

lemma by_observeOne: "descendsBy R N rt sn (observeOne rt cfg now ob sn)"
proof -
  obtain s n where sn: "sn = (s, n)" by force
  have ph: "descendsBy R N rt (s, n) (s', n)" if "proxyApplyPhase ob t s = (s', r)" for t s' r
    using proxyApplyPhase_incidents [of ob t s] that by (simp add: by_subset)
  moreover have "descendsBy R N rt (s, n) (applySignal rt cfg now ob t h st (s', n))"
    if "proxyApplyPhase ob t s = (s', r)" for t h st s' r
    by (rule by_trans [OF ph [OF that] by_applySignal])
  ultimately show ?thesis using sn
    by (auto simp: observeOne_def by_refl split: option.split prod.split)
qed

lemma by_observe:
  assumes "okNow now"
  shows "descendsBy R N rt sn (observeNotificationSignals rt cfg obs now sn)"
proof -
  obtain s n where sn: "sn = (s, n)" by force
  have "descendsBy R N rt (reconcile cfg now s, n) (fold (observeOne rt cfg now)
      (toSortedByKey (\<lambda>ob. rt_dateParse rt (ob_occurredAt ob)) obs) (reconcile cfg now s, n))"
    by (rule by_fold [OF by_observeOne])
  from by_trans [OF by_trans [OF by_reconcile [OF assms] this] by_admit] show ?thesis
    by (simp add: observeNotificationSignals_def sn)
qed

lemma by_claim:
  assumes "okNow now"
  shows "descendsBy R N rt sn (fst (claimNotificationDelivery rt cfg now sn))"
proof -
  obtain s n where sn: "sn = (s, n)" by force
  obtain t m where a: "admitNotificationIncidents rt cfg now None (reconcile cfg now s, n) = (t, m)"
    by force
  have t: "descendsBy R N rt (s, n) (t, m)"
    using by_trans [OF by_reconcile [OF assms, of rt s n cfg] by_admit [of rt _ cfg now None]] a
    by simp
  have "descendsBy R N rt (t, m) (t\<lparr>st_deliveries := update_first (dueAt now) (leaseDelivery now tok) (st_deliveries t)\<rparr>, m)"
    for tok
    using set_update_first_cases [of _ "dueAt now" "leaseDelivery now tok" "st_deliveries t"]
      R_refl R_lease
    by (intro by_related) (fastforce simp: dueAt_def)
  moreover have "descendsBy R N rt (u, m) (u, Suc m)" for u by (simp add: by_subset)
  ultimately have "descendsBy R N rt (s, n)
      (t\<lparr>st_deliveries := update_first (dueAt now) (leaseDelivery now tok) (st_deliveries t)\<rparr>, Suc m)" for tok
    using t by (meson by_trans)
  with t sn show ?thesis
    by (auto simp: claimNotificationDelivery_def Let_def a split: option.split)
qed

lemma by_finish:
  assumes "okNow now" "okToken token"
  shows "descendsBy R N rt (s, n) (finishNotificationDelivery cfg token r now s, n)"
proof -
  have "descendsBy R N rt (s, n) (s\<lparr>st_deliveries := (st_deliveries s)[k := fst x], st_incidents := snd x\<rparr>, n)"
    if "find_index (leasedTo token now) (st_deliveries s) = Some k"
       "x = settleDelivery cfg r now (st_deliveries s ! k) (st_incidents s)" for k x
  proof -
    let ?d = "st_deliveries s ! k"
    have "?d \<in> set (st_deliveries s)" "R ?d (fst x)"
      using that(2) find_index_Some [OF that(1)] by (auto intro: R_settle [OF assms(2)])
    then show ?thesis
      using set_update_subset_insert [of "st_deliveries s" k "fst x"] R_refl
      by (intro by_related) fastforce
  qed
  then show ?thesis unfolding finishNotificationDelivery_def
    by (auto intro!: by_trans [OF _ by_reconcile [OF assms(1)]] by_refl split: option.split prod.split)
      (metis fst_conv snd_conv)
qed

end

section \<open>Two relations\<close>

text \<open>The life cycle: a delivery keeps its identity and only moves forward.\<close>

definition newborn :: "delivery \<Rightarrow> bool" where
  "newborn d \<longleftrightarrow> lifecycle\<^sup>*\<^sup>* Pending (dl_status d)"

interpretation life: queue_relation evolves newborn "\<lambda>_. True" "\<lambda>_. True"
proof unfold_locales
  show "newborn d" if "isActive d" for d
    using that by (auto simp: newborn_def isActive_def intro: r_into_rtranclp)
  show "newborn d'" if "newborn d" "evolves d d'" for d d'
    using that by (auto simp: newborn_def evolves_def intro: rtranclp_trans)
qed (auto simp: evolves_reconcileDelivery evolves_cancelPendingOf evolves_leaseDelivery leasedTo_def
    leaseHeld_def evolves_settleDelivery intro: evolves_trans, simp add: evolves_def)

text \<open>
  The lease: until it expires, a delivery leased with this token stays as it is unless it is
  cancelled, and so does every delivery that is already closed.
\<close>

definition heldUntil :: "string \<Rightarrow> int \<Rightarrow> delivery \<Rightarrow> bool" where
  "heldUntil token expires d \<longleftrightarrow>
     dl_status d = Inflight \<and> dl_leaseToken d = Some token \<and> dl_leaseExpiresAt d = Some expires"

definition undisturbed :: "string \<Rightarrow> int \<Rightarrow> delivery \<Rightarrow> delivery \<Rightarrow> bool" where
  "undisturbed token expires d d' \<longleftrightarrow> dl_id d' = dl_id d \<and>
     (\<not> isActive d \<or> heldUntil token expires d \<longrightarrow> d' = d \<or> \<not> isActive d')"

lemma undisturbed_terminate:
  "status \<in> {Failed, Cancelled} \<Longrightarrow> undisturbed token expires d (fst (terminate status now d incs))"
  by (auto simp: undisturbed_def terminate_def Let_def isActive_def)

interpretation lease: queue_relation "undisturbed token expires" "\<lambda>_. True" "\<lambda>now. now < expires"
    "\<lambda>t. t \<noteq> token" for token expires
proof unfold_locales
  show "undisturbed token expires d (fst (reconcileDelivery cfg now d incs))" if "now < expires"
    for d cfg now incs
    using that by (auto simp: reconcileDelivery_def undisturbed_terminate)
      (auto simp: undisturbed_def heldUntil_def isActive_def leaseHeld_def)
  show "undisturbed token expires d (fst (settleDelivery cfg r now d incs))"
    if "token' \<noteq> token" "leasedTo token' now d" for token' d cfg r now incs
    using that by (cases r) (auto simp: settleDelivery_def Let_def terminate_def undisturbed_def
        heldUntil_def isActive_def leasedTo_def leaseHeld_def)
qed (auto simp: undisturbed_def cancelPendingOf_def terminate_def Let_def leaseDelivery_def
    heldUntil_def isActive_def)

end
