(* ===== verification/EngineIdentity.thy ===== *)
theory EngineIdentity
  imports EngineLifecycle NotificationQueue
begin

text \<open>
  Identities in the engine state. Incident identifiers, delivery identifiers and lease tokens stay
  pairwise different, marker lists keep one entry per channel, host contexts stay with host
  incidents, and no delivery is stamped before it was created. These are the remaining rules of
  the persisted-state validator; they need the identifier source to be injective and the clock not
  to run backwards. The world of an operation is the engine state, the number of identifiers drawn
  so far and the latest time seen.
\<close>

section \<open>Queues with distinct identities\<close>

definition made :: "runtime \<Rightarrow> nat \<Rightarrow> string \<Rightarrow> bool" where
  "made rt n x \<longleftrightarrow> (\<exists>k < n. x = rt_makeId rt k)"

definition hostPayloadOk :: "payload \<Rightarrow> bool" where
  "hostPayloadOk p \<longleftrightarrow> pl_type p = TTest \<or> (pl_category p = HostAvailability \<longleftrightarrow> pl_host p \<noteq> None)"

definition queuedOk :: "runtime \<Rightarrow> nat \<Rightarrow> int \<Rightarrow> delivery \<Rightarrow> bool" where
  "queuedOk rt n c d \<longleftrightarrow>
     made rt n (dl_id d) \<and> (\<forall>t. dl_leaseToken d = Some t \<longrightarrow> made rt n t) \<and>
     dl_createdAt d \<le> dl_updatedAt d \<and> dl_updatedAt d \<le> c \<and>
     hostPayloadOk (dl_payload d) \<and> backupWindowOk d"

definition tokens :: "delivery list \<Rightarrow> string list" where
  "tokens ds = List.map_filter dl_leaseToken ds"

definition queueOk :: "runtime \<Rightarrow> nat \<Rightarrow> int \<Rightarrow> delivery list \<Rightarrow> bool" where
  "queueOk rt n c ds \<longleftrightarrow>
     (\<forall>d \<in> set ds. queuedOk rt n c d) \<and> distinct (map dl_id ds) \<and> distinct (tokens ds)"

lemma tokens_simps [simp]:
  "tokens [] = []"
  "tokens (d # ds) = (case dl_leaseToken d of None \<Rightarrow> tokens ds | Some t \<Rightarrow> t # tokens ds)"
  "tokens (ds @ es) = tokens ds @ tokens es"
  by (simp_all add: tokens_def List.map_filter_def split: option.split)

lemma set_tokens: "t \<in> set (tokens ds) \<longleftrightarrow> (\<exists>d \<in> set ds. dl_leaseToken d = Some t)"
  by (induction ds) (auto split: option.split)

lemma subseq_tokens: "subseq xs ys \<Longrightarrow> subseq (tokens xs) (tokens ys)"
  by (induction rule: list_emb.induct) (auto split: option.split)

lemma made_mono: "made rt n x \<Longrightarrow> n \<le> m \<Longrightarrow> made rt m x"
  by (auto simp: made_def intro: less_le_trans)

lemma not_made: "inj (rt_makeId rt) \<Longrightarrow> n \<le> k \<Longrightarrow> \<not> made rt n (rt_makeId rt k)"
  by (auto simp: made_def dest!: injD)

lemma made_next [simp]: "k < n \<Longrightarrow> made rt n (rt_makeId rt k)"
  by (auto simp: made_def)

lemma queuedOk_mono: "queuedOk rt n c d \<Longrightarrow> n \<le> m \<Longrightarrow> c \<le> e \<Longrightarrow> queuedOk rt m e d"
  by (auto simp: queuedOk_def intro: made_mono)

lemma queueOk_mono: "queueOk rt n c ds \<Longrightarrow> n \<le> m \<Longrightarrow> c \<le> e \<Longrightarrow> queueOk rt m e ds"
  by (auto simp: queueOk_def intro: queuedOk_mono)

lemma queueOk_subseq: "subseq xs ys \<Longrightarrow> queueOk rt n c ys \<Longrightarrow> queueOk rt n c xs"
  unfolding queueOk_def using subseq_tokens [of xs ys]
  by (meson distinct_map_subseq subseq_distinct subseq_set subset_iff)

lemma queueOk_snoc:
  assumes inj: "inj (rt_makeId rt)" and ok: "queueOk rt n c ds" and d: "queuedOk rt m c d"
    and new: "n \<le> m" "n \<le> k" "dl_id d = rt_makeId rt k"
    and lease: "\<And>t. dl_leaseToken d = Some t \<Longrightarrow> \<exists>j \<ge> n. t = rt_makeId rt j"
  shows "queueOk rt m c (ds @ [d])"
proof -
  have "dl_id d \<notin> dl_id ` set ds"
    using ok not_made [OF inj new(2)] new(3) by (auto simp: queueOk_def queuedOk_def)
  moreover have "t \<notin> set (tokens ds)" if "dl_leaseToken d = Some t" for t
    using ok not_made [OF inj] lease [OF that] by (auto simp: queueOk_def queuedOk_def set_tokens)
  ultimately show ?thesis
    using ok d new(1) by (auto simp: queueOk_def intro: queuedOk_mono split: option.split)
qed

text \<open>An update that may end or pass on a lease, but keeps the rest of the identity.\<close>

definition settled :: "int \<Rightarrow> delivery \<Rightarrow> delivery \<Rightarrow> bool" where
  "settled now d d' \<longleftrightarrow>
     dl_id d' = dl_id d \<and> dl_payload d' = dl_payload d \<and> dl_createdAt d' = dl_createdAt d \<and>
     dl_backupAvailableAt d' = dl_backupAvailableAt d \<and>
     (dl_leaseToken d' = None \<or> dl_leaseToken d' = dl_leaseToken d) \<and>
     (dl_updatedAt d' = dl_updatedAt d \<or> dl_updatedAt d' = now)"

lemma settled_refl [simp]: "settled now d d"
  by (simp add: settled_def)

lemma queuedOk_settled: "queuedOk rt n c d \<Longrightarrow> settled now d d' \<Longrightarrow> c \<le> now \<Longrightarrow> queuedOk rt n now d'"
  by (auto simp: queuedOk_def settled_def backupWindowOk_def split: option.splits)

lemma queueOk_settle:
  assumes "list_all2 (settled now) ds ds'" "queueOk rt n c ds" "c \<le> now"
  shows "queueOk rt n now ds'"
proof -
  have "map dl_id ds' = map dl_id ds \<and> subseq (tokens ds') (tokens ds)"
    using assms(1) by (induction rule: list_all2_induct) (auto simp: settled_def split: option.splits)
  moreover have "\<forall>d' \<in> set ds'. queuedOk rt n now d'"
    using assms by (auto simp: list_all2_conv_all_nth in_set_conv_nth queueOk_def)
      (metis nth_mem queuedOk_settled)
  ultimately show ?thesis
    using assms(2) by (auto simp: queueOk_def dest: subseq_distinct)
qed

lemma settled_update:
  "k < length ds \<Longrightarrow> settled now (ds ! k) d' \<Longrightarrow> list_all2 (settled now) ds (ds[k := d'])"
  by (auto simp: list_all2_conv_all_nth nth_list_update)

section \<open>Rosters of incidents\<close>

definition rosterEntryOk :: "runtime \<Rightarrow> nat \<Rightarrow> incident \<Rightarrow> bool" where
  "rosterEntryOk rt n i \<longleftrightarrow>
     (in_category i = HostAvailability \<longleftrightarrow> in_host i \<noteq> None) \<and>
     (if in_host i = None then made rt n (in_id i) else \<forall>k. in_id i \<noteq> rt_makeId rt k)"

definition rosterOk :: "runtime \<Rightarrow> nat \<Rightarrow> incident list \<Rightarrow> bool" where
  "rosterOk rt n incs \<longleftrightarrow> distinct (map in_id incs) \<and> (\<forall>i \<in> set incs. rosterEntryOk rt n i)"

lemma core_host [simp]: "in_host (core i) = in_host i"
  by (simp add: core_def)

lemma rosterOk_map_core: "rosterOk rt n (map core incs) = rosterOk rt n incs"
  by (simp add: rosterOk_def rosterEntryOk_def comp_def)

lemma rosterOk_cong_core: "map core xs = map core ys \<Longrightarrow> rosterOk rt n xs = rosterOk rt n ys"
  by (metis rosterOk_map_core)

lemma rosterOk_mono: "rosterOk rt n incs \<Longrightarrow> n \<le> m \<Longrightarrow> rosterOk rt m incs"
  by (auto simp: rosterOk_def rosterEntryOk_def intro: made_mono split: if_splits)

lemma rosterOk_subseq: "subseq xs ys \<Longrightarrow> rosterOk rt n ys \<Longrightarrow> rosterOk rt n xs"
  unfolding rosterOk_def by (meson distinct_map_subseq subseq_set subset_iff)

lemma rosterOk_snoc:
  "rosterOk rt n incs \<Longrightarrow> n \<le> m \<Longrightarrow> rosterEntryOk rt m i \<Longrightarrow> in_id i \<notin> in_id ` set incs \<Longrightarrow>
   rosterOk rt m (incs @ [i])"
  using rosterOk_mono [of rt n incs m] by (auto simp: rosterOk_def)

lemma rosterOk_update:
  assumes "rosterOk rt n incs" "k < length incs" "in_id i = in_id (incs ! k)" "rosterEntryOk rt n i"
  shows "rosterOk rt n (incs[k := i])"
proof -
  have "map in_id (incs[k := i]) = map in_id incs"
    using assms(2,3) by (metis list_update_id map_update nth_map)
  with assms show ?thesis by (auto simp: rosterOk_def dest!: set_update_subset_insert [THEN subsetD])
qed

section \<open>Markers\<close>

definition markerKeys :: "incident \<Rightarrow> (string \<times> int) list" where
  "markerKeys i = map (\<lambda>m. (mk_channelId m, mk_channelRevision m)) (in_channels i)"

definition markersOk :: "incident list \<Rightarrow> bool" where
  "markersOk incs \<longleftrightarrow> (\<forall>i \<in> set incs. distinct (markerKeys i))"

definition channelKey :: "channel_policy \<Rightarrow> string \<times> int" where
  "channelKey ch = (ch_id ch, ch_revision ch)"

definition markersIn :: "engine_configuration \<Rightarrow> incident list \<Rightarrow> bool" where
  "markersIn cfg incs \<longleftrightarrow>
     (\<forall>i \<in> set incs. set (markerKeys i) \<subseteq> channelKey ` set (cf_channels cfg))"

lemma markerOf_key: "markerOf ch m \<longleftrightarrow> (mk_channelId m, mk_channelRevision m) = channelKey ch"
  by (auto simp: markerOf_def channelKey_def)

lemma map_marker_update:
  assumes "\<And>m. mk_channelId (f m) = mk_channelId m" "\<And>m. mk_channelRevision (f m) = mk_channelRevision m"
  shows "markerKeys (i\<lparr>in_channels := update_first p f (in_channels i)\<rparr>) = markerKeys i"
  using assms by (simp add: markerKeys_def map_update_first)

named_theorems marker_simps \<open>operations that leave the keys of the markers alone\<close>

lemma keys_markTerminal [marker_simps]: "map markerKeys (markTerminal d incs) = map markerKeys incs"
  by (simp add: markTerminal_def map_update_first map_marker_update Let_def)

lemma keys_terminate [marker_simps]:
  "map markerKeys (snd (terminate status now d incs)) = map markerKeys incs"
  by (simp add: terminate_def Let_def marker_simps)

lemma keys_reconcileDelivery [marker_simps]:
  "map markerKeys (snd (reconcileDelivery cfg now d incs)) = map markerKeys incs"
  by (simp add: reconcileDelivery_def marker_simps)

lemma keys_cancelPendingOf [marker_simps]:
  "map markerKeys (snd (cancelPendingOf iid now d incs)) = map markerKeys incs"
  by (simp add: cancelPendingOf_def marker_simps)

lemma keys_settleDelivery [marker_simps]:
  "map markerKeys (snd (settleDelivery cfg r now d incs)) = map markerKeys incs"
  by (simp add: settleDelivery_def Let_def marker_simps split: delivery_result.split)

lemma keys_silenceRecovery [marker_simps]: "markerKeys (silenceRecovery i) = markerKeys i"
  by (simp add: silenceRecovery_def markerKeys_def)

lemma keys_pruneMarkers: "subseq (markerKeys (pruneMarkers cfg i)) (markerKeys i)"
  by (simp add: pruneMarkers_def markerKeys_def subseq_map)

lemma keys_pruneMarkers_in: "set (markerKeys (pruneMarkers cfg i)) \<subseteq> channelKey ` set (cf_channels cfg)"
  by (auto simp: pruneMarkers_def markerKeys_def markerOf_key)

lemma keys_markAdmitted:
  "markerKeys (markAdmitted ch i) =
     (if find (markerOf ch) (in_channels i) = None then markerKeys i @ [channelKey ch] else markerKeys i)"
  by (simp add: markAdmitted_def map_marker_update) (simp add: markerKeys_def channelKey_def)

lemma distinct_markAdmitted: "distinct (markerKeys i) \<Longrightarrow> distinct (markerKeys (markAdmitted ch i))"
  by (auto simp: keys_markAdmitted find_None_iff markerOf_key) (auto simp: markerKeys_def)

lemma markersOk_cong: "map markerKeys xs = map markerKeys ys \<Longrightarrow> markersOk xs = markersOk ys"
proof -
  have "markersOk zs \<longleftrightarrow> (\<forall>ks \<in> set (map markerKeys zs). distinct ks)" for zs
    by (simp add: markersOk_def)
  then show "map markerKeys xs = map markerKeys ys \<Longrightarrow> markersOk xs = markersOk ys" by metis
qed

lemma markersIn_cong: "map markerKeys xs = map markerKeys ys \<Longrightarrow> markersIn cfg xs = markersIn cfg ys"
proof -
  have "markersIn cfg zs \<longleftrightarrow> (\<forall>ks \<in> set (map markerKeys zs). set ks \<subseteq> channelKey ` set (cf_channels cfg))"
    for zs by (simp add: markersIn_def)
  then show "map markerKeys xs = map markerKeys ys \<Longrightarrow> markersIn cfg xs = markersIn cfg ys" by metis
qed

lemma one_marker_per_channel:
  assumes "markersOk incs" "markersIn cfg incs" "distinct (map ch_id (cf_channels cfg))" "i \<in> set incs"
  shows "distinct (map mk_channelId (in_channels i))"
proof -
  have "inj_on fst (set (markerKeys i))"
  proof (rule inj_onI)
    fix x y assume xy: "x \<in> set (markerKeys i)" "y \<in> set (markerKeys i)" "fst x = fst y"
    have "set (markerKeys i) \<subseteq> channelKey ` set (cf_channels cfg)"
      using assms(2,4) by (simp add: markersIn_def)
    with xy obtain a b where "a \<in> set (cf_channels cfg)" "b \<in> set (cf_channels cfg)"
      "x = channelKey a" "y = channelKey b" by (meson imageE subsetD)
    moreover from this xy(3) have "ch_id a = ch_id b" by (simp add: channelKey_def)
    ultimately show "x = y" using assms(3) by (auto simp: distinct_map dest: inj_onD)
  qed
  then have "distinct (map fst (markerKeys i))"
    using assms(1,4) by (simp add: distinct_map markersOk_def)
  then show ?thesis by (simp add: markerKeys_def comp_def)
qed

end
