(* ===== verification/EngineWorld.thy ===== *)
theory EngineWorld
  imports EngineIdentity
begin

text \<open>
  Every operation on the engine state keeps the identities of \<open>EngineIdentity\<close>. The operations of
  the engine are followed loop body by loop body; the host, test and backup writers at the end.
\<close>

definition worldOk :: "runtime \<Rightarrow> int \<Rightarrow> notification_state \<times> nat \<Rightarrow> bool" where
  "worldOk rt c sn \<longleftrightarrow>
     queueOk rt (snd sn) c (st_deliveries (fst sn)) \<and> rosterOk rt (snd sn) (st_incidents (fst sn)) \<and>
     markersOk (st_incidents (fst sn))"

text \<open>The same, with markers only for channels of the configuration in force.\<close>

definition worldIn :: "runtime \<Rightarrow> engine_configuration \<Rightarrow> int \<Rightarrow> notification_state \<times> nat \<Rightarrow> bool" where
  "worldIn rt cfg c sn \<longleftrightarrow> worldOk rt c sn \<and> markersIn cfg (st_incidents (fst sn))"

section \<open>Loops over the queue\<close>

locale settling_update = delivery_update +
  fixes now :: int
  assumes upd_settled: "settled now d (fst (upd d incs))"
    and upd_keys: "map markerKeys (snd (upd d incs)) = map markerKeys incs"
begin

lemma sweep_settled: "list_all2 (settled now) ds (fst (sweep upd ds incs))"
proof (induction ds arbitrary: incs)
  case (Cons d ds)
  obtain e js where f: "upd d incs = (e, js)" by force
  with upd_settled [of d incs] Cons [of js] show ?case by (auto split: prod.splits)
qed simp

lemma sweep_keys: "map markerKeys (snd (sweep upd ds incs)) = map markerKeys incs"
proof (induction ds arbitrary: incs)
  case (Cons d ds)
  obtain e js where f: "upd d incs = (e, js)" by force
  with upd_keys [of d incs] Cons [of js] show ?case by (auto split: prod.splits)
qed simp

lemma sweep_world:
  assumes "queueOk rt n c ds" "rosterOk rt n incs" "markersOk incs" "c \<le> now"
  shows "queueOk rt n now (fst (sweep upd ds incs))" "rosterOk rt n (snd (sweep upd ds incs))"
    "markersOk (snd (sweep upd ds incs))"
  using assms queueOk_settle [OF sweep_settled] rosterOk_cong_core [OF sweep_core]
    markersOk_cong [OF sweep_keys] by auto

end

lemma settled_terminate: "settled now d (fst (terminate status now d incs))"
  by (simp add: terminate_def Let_def settled_def)

interpretation reconciling_settles: settling_update "reconcileDelivery cfg now" now for cfg now
  by unfold_locales
    (auto simp: reconcileDelivery_def settled_terminate marker_simps, simp add: settled_def)

interpretation superseding_settles: settling_update "cancelPendingOf iid now" now for iid now
  by unfold_locales (simp_all add: cancelPendingOf_def settled_terminate marker_simps)

lemma settled_settleDelivery: "settled now d (fst (settleDelivery cfg r now d incs))"
  by (cases r) (auto simp: settleDelivery_def Let_def terminate_def settled_def)

lemma worldIn_reconcile:
  assumes ok: "worldOk rt c (s, n)" and c: "c \<le> now"
  shows "worldIn rt cfg now (reconcile cfg now s, n)"
proof -
  let ?f = "reconcileDelivery cfg now"
  obtain ds incs where sw: "sweep ?f (st_deliveries s) (st_incidents s) = (ds, incs)" by force
  have w: "queueOk rt n now ds" "rosterOk rt n incs" "markersOk incs"
    using reconciling_settles.sweep_world [of rt n c "st_deliveries s" "st_incidents s" now cfg]
      ok c sw by (simp_all add: worldOk_def)
  obtain p q where r: "st_deliveries (reconcile cfg now s) = filter p ds"
    "st_incidents (reconcile cfg now s) = filter q (map (pruneMarkers cfg) incs)"
    by (simp add: reconcile_def sw Let_def)
  have "rosterOk rt n (map (pruneMarkers cfg) incs)"
    using w(2) rosterOk_cong_core [of "map (pruneMarkers cfg) incs" incs] by (simp add: comp_def core_simps)
  moreover have "markersOk (filter q (map (pruneMarkers cfg) incs))"
    using w(3) subseq_distinct [OF keys_pruneMarkers] by (auto simp: markersOk_def)
  moreover have "markersIn cfg (filter q (map (pruneMarkers cfg) incs))"
    using keys_pruneMarkers_in by (fastforce simp: markersIn_def)
  ultimately show ?thesis
    using queueOk_subseq [OF subseq_filter_left w(1)] rosterOk_subseq [OF subseq_filter_left]
    by (simp add: worldIn_def worldOk_def r)
qed

section \<open>Admission\<close>

lemma worldOk_deferAdmission [simp]:
  "worldOk rt c (deferAdmission s, n) = worldOk rt c (s, n)"
  "worldIn rt cfg c (deferAdmission s, n) = worldIn rt cfg c (s, n)"
  by (simp_all add: worldOk_def worldIn_def)

lemma worldOk_mono: "worldOk rt c (s, n) \<Longrightarrow> n \<le> m \<Longrightarrow> c \<le> e \<Longrightarrow> worldOk rt e (s, m)"
  by (auto simp: worldOk_def intro: queueOk_mono rosterOk_mono)

lemma worldIn_mono: "worldIn rt cfg c (s, n) \<Longrightarrow> n \<le> m \<Longrightarrow> c \<le> e \<Longrightarrow> worldIn rt cfg e (s, m)"
  by (auto simp: worldIn_def intro: worldOk_mono)

lemma worldOk_reserve:
  assumes "worldOk rt c (s, n)" "reserveNotificationDeliverySlot s = Some s1"
  shows "worldOk rt c (s1, n)"
  using assms reserve_Some [OF assms(2)] queueOk_subseq by (auto simp: worldOk_def)

lemma queuedOk_queuedDelivery:
  assumes "rosterEntryOk rt m i" "now \<le> c" "k < n"
  shows "queuedOk rt n c (queuedDelivery (rt_makeId rt k) ch (incidentPayload (rt_makeId rt k) r i) now)"
  using assms
  by (auto simp: queuedOk_def queuedDelivery_def incidentPayload_def backupWindowOk_def
      hostPayloadOk_def rosterEntryOk_def)

lemma admitOne_count: "admitOne rt now k ch (s, n) = (t, m) \<Longrightarrow> n \<le> m"
  by (auto elim!: admitOne_cases)

lemma worldOk_admitOne:
  assumes inj: "inj (rt_makeId rt)" and ok: "worldOk rt c (s, n)" and now: "now \<le> c"
    and k: "k < length (st_incidents s)" and r: "admitOne rt now k ch (s, n) = (t, m)"
  shows "worldOk rt c (t, m)"
  using r
proof (cases rule: admitOne_cases)
  case (queued s1)
  let ?i = "st_incidents s ! k"
  note s1 = worldOk_reserve [OF ok queued(1)]
  have entry: "rosterEntryOk rt n ?i" using ok k by (simp add: worldOk_def rosterOk_def)
  have "queueOk rt m c (st_deliveries t)"
    using queueOk_snoc [OF inj _ queuedOk_queuedDelivery [OF entry now, of n m ch],
        of n "st_deliveries s1"] s1 queued(2,4)
    by (simp add: worldOk_def queuedDelivery_def)
  moreover have "rosterOk rt m (st_incidents t)"
    using rosterOk_cong_core [of "st_incidents t" "st_incidents s"] map_core_admitOne [of rt now k ch "(s, n)"]
      r ok rosterOk_mono [of rt n _ m] queued(2) by (simp add: worldOk_def)
  moreover have "markersOk (st_incidents t)"
    using ok k distinct_markAdmitted [of ?i ch] queued(1,4)
    by (auto simp: worldOk_def markersOk_def reserve_Some(4)
        dest!: set_update_subset_insert [THEN subsetD])
  ultimately show ?thesis by (simp add: worldOk_def)
next
  case (large s1)
  with worldOk_reserve [OF ok large(1)] show ?thesis by (auto intro: worldOk_mono)
qed (use ok in auto)

lemma markersIn_admitOne:
  assumes "markersIn cfg (st_incidents s)" "ch \<in> set (cf_channels cfg)"
    and k: "k < length (st_incidents s)" and r: "admitOne rt now k ch (s, n) = (t, m)"
  shows "markersIn cfg (st_incidents t)"
  using r
proof (cases rule: admitOne_cases)
  case (queued s1)
  have "st_incidents s ! k \<in> set (st_incidents s)" using k by simp
  with assms(1,2) have "set (markerKeys (markAdmitted ch (st_incidents s ! k)))
      \<subseteq> channelKey ` set (cf_channels cfg)"
    by (auto simp: markersIn_def keys_markAdmitted)
  with assms(1) queued(1,4) show ?thesis
    by (auto simp: markersIn_def reserve_Some(4) dest!: set_update_subset_insert [THEN subsetD])
qed (use assms in \<open>auto simp: reserve_Some(4)\<close>)

text \<open>The two nested loops: only the number of incidents has to be remembered.\<close>

definition admitInv :: "(notification_state \<times> nat \<Rightarrow> bool) \<Rightarrow> nat \<Rightarrow> notification_state \<times> nat \<Rightarrow> bool" where
  "admitInv P L sn \<longleftrightarrow> P sn \<and> length (st_incidents (fst sn)) = L"

lemma length_admitOne:
  "length (st_incidents (fst (admitOne rt now k ch sn))) = length (st_incidents (fst sn))"
  by (metis length_map map_core_admitOne)

lemma admit_keeps:
  assumes step: "\<And>k ch sn. k < length (st_incidents (fst sn)) \<Longrightarrow> ch \<in> set (cf_channels cfg) \<Longrightarrow>
      P sn \<Longrightarrow> P (admitOne rt now k ch sn)"
    and P: "P sn"
  shows "P (admitNotificationIncidents rt cfg now only sn)"
proof -
  let ?L = "length (st_incidents (fst sn))"
  have inner: "admitInv P ?L (admitIncident rt cfg now only k sn')"
    if "admitInv P ?L sn'" "k < ?L" for k sn'
  proof -
    have "admitInv P ?L (fold (admitOne rt now k) (cf_channels cfg) sn')"
      by (rule fold_keeps) (use that step in \<open>auto simp: admitInv_def length_admitOne\<close>)
    with that show ?thesis by (simp add: admitIncident_def)
  qed
  have "admitInv P ?L (fold (admitIncident rt cfg now only) [0..<?L] sn)"
    by (rule fold_keeps) (use P inner in \<open>auto simp: admitInv_def\<close>)
  then show ?thesis using P by (simp add: admitNotificationIncidents_def admitInv_def)
qed

lemma worldOk_admit:
  assumes "inj (rt_makeId rt)" "worldOk rt c sn" "now \<le> c"
  shows "worldOk rt c (admitNotificationIncidents rt cfg now only sn)"
proof (rule admit_keeps)
  fix k ch sn' assume "k < length (st_incidents (fst sn'))" "worldOk rt c sn'"
  then show "worldOk rt c (admitOne rt now k ch sn')"
    using worldOk_admitOne [OF assms(1) _ assms(3), of "fst sn'" "snd sn'"] by (metis prod.collapse)
qed (rule assms(2))

lemma worldIn_admit:
  assumes "inj (rt_makeId rt)" "worldIn rt cfg c sn" "now \<le> c"
  shows "worldIn rt cfg c (admitNotificationIncidents rt cfg now only sn)"
proof (rule admit_keeps)
  fix k ch sn' assume "k < length (st_incidents (fst sn'))" "worldIn rt cfg c sn'" "ch \<in> set (cf_channels cfg)"
  then show "worldIn rt cfg c (admitOne rt now k ch sn')"
    using worldOk_admitOne [OF assms(1) _ assms(3), of "fst sn'" "snd sn'" k ch]
      markersIn_admitOne [of cfg "fst sn'" ch k rt now "snd sn'"]
    unfolding worldIn_def by (metis prod.collapse)
qed (rule assms(2))

section \<open>Observations\<close>

lemma worldOk_append:
  assumes ok: "worldOk rt c (s, n)" and le: "n \<le> m" and i: "rosterEntryOk rt m i" "distinct (markerKeys i)"
    and fresh: "in_id i \<notin> in_id ` set (st_incidents s)"
  shows "worldOk rt c (snd (appendNotificationIncident cfg i s), m)"
proof -
  let ?rest = "remove_first (evictable cfg (st_deliveries s)) (st_incidents s)"
  obtain b t where r: "appendNotificationIncident cfg i s = (b, t)" by force
  have sub: "set ?rest \<subseteq> set (st_incidents s)" by (rule set_remove_first_subset)
  have q: "queueOk rt m c (st_deliveries s)" and ro: "rosterOk rt n (st_incidents s)"
    using ok le by (auto simp: worldOk_def intro: queueOk_mono)
  have rest: "rosterOk rt n ?rest" by (rule rosterOk_subseq [OF subseq_remove_first ro])
  have ro': "rosterOk rt m (st_incidents s @ [i])" "rosterOk rt m (?rest @ [i])"
    using rosterOk_snoc [OF ro le i(1)] rosterOk_snoc [OF rest le i(1)] fresh sub by auto
  have mk: "markersOk (st_incidents s)" "markersOk ?rest" "markersOk [i]"
    using ok sub i(2) by (auto simp: worldOk_def markersOk_def)
  from r have "worldOk rt c (t, m)"
    by (cases rule: append_cases)
      (use q ro' mk rosterOk_mono [OF rest le] rosterOk_mono [OF ro le] in
        \<open>auto simp: worldOk_def markersOk_def\<close>)
  with r show ?thesis by simp
qed

lemma markersIn_append:
  assumes "markersIn cfg (st_incidents s)" "markerKeys i = []"
  shows "markersIn cfg (st_incidents (snd (appendNotificationIncident cfg' i s)))"
proof -
  obtain b t where r: "appendNotificationIncident cfg' i s = (b, t)" by force
  have "markersIn cfg (st_incidents t)"
    using r by (cases rule: append_cases)
      (use assms set_remove_first_subset [of "evictable cfg' (st_deliveries s)" "st_incidents s"] in
        \<open>auto simp: markersIn_def\<close>)
  with r show ?thesis by simp
qed

lemma keys_update:
  assumes "k < length incs" "markerKeys i = markerKeys (incs ! k)"
  shows "map markerKeys (incs[k := i]) = map markerKeys incs"
  using assms by (metis list_update_id map_update nth_map)

text \<open>Replacing one incident by another with the same identity, context and markers.\<close>

lemma worldIn_update:
  assumes ok: "worldIn rt cfg c (s, n)" and k: "k < length (st_incidents s)"
    and i: "in_id i = in_id (st_incidents s ! k)" "in_category i = in_category (st_incidents s ! k)"
      "in_host i = in_host (st_incidents s ! k)" "markerKeys i = markerKeys (st_incidents s ! k)"
  shows "worldIn rt cfg c (s\<lparr>st_incidents := (st_incidents s)[k := i]\<rparr>, n)"
proof -
  have "rosterEntryOk rt n (st_incidents s ! k)"
    using ok k by (simp add: worldIn_def worldOk_def rosterOk_def)
  with i have "rosterEntryOk rt n i" by (simp add: rosterEntryOk_def)
  with ok k i(1) have "rosterOk rt n ((st_incidents s)[k := i])"
    by (intro rosterOk_update) (auto simp: worldIn_def worldOk_def)
  with ok show ?thesis
    using markersOk_cong [OF keys_update [OF k i(4)]] markersIn_cong [OF keys_update [OF k i(4)]]
    by (simp add: worldIn_def worldOk_def)
qed

lemma keys_recover_refresh [simp]:
  "markerKeys (recoverIncident t ev i) = markerKeys i"
  "markerKeys (refreshIncident ob t ev i) = markerKeys i"
  by (simp_all add: recoverIncident_def refreshIncident_def markerKeys_def)

lemma worldIn_supersede:
  assumes ok: "worldIn rt cfg c (s, n)" and c: "c \<le> now" and k: "k < length (st_incidents s)"
  shows "worldIn rt cfg now (supersedeIncident k t ev now s, n)"
proof -
  let ?i = "st_incidents s ! k"
  let ?s1 = "s\<lparr>st_incidents := (st_incidents s)[k := recoverIncident t ev ?i]\<rparr>"
  have s1: "worldIn rt cfg c (?s1, n)"
    by (rule worldIn_update [OF ok k]) (simp_all add: recoverIncident_def markerKeys_def)
  obtain ds incs where sw:
    "sweep (cancelPendingOf (in_id ?i) now) (st_deliveries s) (st_incidents ?s1) = (ds, incs)" by force
  have w: "queueOk rt n now ds" "rosterOk rt n incs" "markersOk incs"
    using superseding_settles.sweep_world [of rt n c "st_deliveries s" "st_incidents ?s1" now "in_id ?i"]
      s1 c sw by (simp_all add: worldIn_def worldOk_def)
  have keys: "map markerKeys incs = map markerKeys (st_incidents ?s1)"
    using superseding_settles.sweep_keys [of "in_id ?i" now "st_deliveries s" "st_incidents ?s1"] sw by simp
  have "markersIn cfg incs" using s1 markersIn_cong [OF keys] by (simp add: worldIn_def)
  with w have in1: "worldIn rt cfg now (s\<lparr>st_deliveries := ds, st_incidents := incs\<rparr>, n)"
    by (simp add: worldIn_def worldOk_def)
  have "k < length incs" using k arg_cong [OF keys, of length] by simp
  moreover have "in_id (silenceRecovery i) = in_id i" "in_category (silenceRecovery i) = in_category i"
    "in_host (silenceRecovery i) = in_host i" for i by (simp_all add: silenceRecovery_def)
  ultimately show ?thesis
    using sw worldIn_update [OF in1, of k "silenceRecovery (incs ! k)"]
    by (simp add: supersedeIncident_def Let_def marker_simps)
qed

lemma fresh_incident:
  assumes "inj (rt_makeId rt)" "rosterOk rt n incs" "n \<le> k"
  shows "rt_makeId rt k \<notin> in_id ` set incs"
proof
  assume "rt_makeId rt k \<in> in_id ` set incs"
  then obtain i where "i \<in> set incs" "in_id i = rt_makeId rt k" by auto
  with assms(2) not_made [OF assms(1,3)] show False
    by (auto simp: rosterOk_def rosterEntryOk_def split: if_splits)
qed

lemma worldIn_newIncident:
  assumes inj: "inj (rt_makeId rt)" and ok: "worldIn rt cfg c (s, n)" and cat: "ob_category ob \<noteq> HostAvailability"
  shows "worldIn rt cfg c (snd (appendNotificationIncident cfg' (newIncident (rt_makeId rt n) ob st t ev) s), Suc n)"
proof -
  let ?i = "newIncident (rt_makeId rt n) ob st t ev"
  have i: "rosterEntryOk rt (Suc n) ?i" "markerKeys ?i = []" "in_id ?i = rt_makeId rt n"
    using cat by (auto simp: rosterEntryOk_def newIncident_def markerKeys_def made_def)
  have fresh: "in_id ?i \<notin> in_id ` set (st_incidents s)"
    unfolding i(3) by (rule fresh_incident [OF inj]) (use ok in \<open>auto simp: worldIn_def worldOk_def\<close>)
  show ?thesis
    using worldOk_append [OF _ _ i(1) _ fresh, of c n cfg'] markersIn_append [OF _ i(2)] ok i(2)
    by (simp add: worldIn_def)
qed

lemma worldIn_applySignal:
  assumes inj: "inj (rt_makeId rt)" and ok: "worldIn rt cfg now (s, n)"
    and cat: "ob_category ob \<noteq> HostAvailability"
  shows "worldIn rt cfg now (applySignal rt cfg now ob t h st (s, n))"
proof (cases "find_index (openFor ob) (st_incidents s)")
  case None
  with worldIn_newIncident [OF inj ok cat] ok show ?thesis by (simp add: applySignal_def Let_def)
next
  case (Some k)
  note k = openFor_nth(1) [OF Some]
  let ?i = "st_incidents s ! k" and ?ev = "rt_sha256 rt (ob_evidence ob)"
  have "worldIn rt cfg now (s\<lparr>st_incidents := (st_incidents s)[k := recoverIncident t ?ev ?i]\<rparr>, n)"
    by (rule worldIn_update [OF ok k]) (simp_all add: recoverIncident_def markerKeys_def)
  moreover have "worldIn rt cfg now (s\<lparr>st_incidents := (st_incidents s)[k := refreshIncident ob t ?ev ?i]\<rparr>, n)"
    by (rule worldIn_update [OF ok k]) (simp_all add: refreshIncident_def markerKeys_def)
  moreover note worldIn_newIncident [OF inj worldIn_supersede [OF ok order.refl k, of t ?ev] cat]
  ultimately show ?thesis using Some ok by (auto simp: applySignal_def Let_def)
qed

lemma worldIn_observeOne:
  assumes "inj (rt_makeId rt)" "worldIn rt cfg now sn" "ob_category ob \<noteq> HostAvailability"
  shows "worldIn rt cfg now (observeOne rt cfg now ob sn)"
proof -
  obtain s n where sn: "sn = (s, n)" by force
  have "worldIn rt cfg now (s', n)" if "proxyApplyPhase ob t s = (s', r)" for t s' r
    using proxyApplyPhase_incidents [of ob t s] that assms(2) sn by (simp add: worldIn_def worldOk_def)
  moreover from this have "worldIn rt cfg now (applySignal rt cfg now ob t h st (s', n))"
    if "proxyApplyPhase ob t s = (s', r)" for t h st s' r
    using worldIn_applySignal [OF assms(1) _ assms(3)] that by blast
  ultimately show ?thesis using assms(2) sn
    by (auto simp: observeOne_def Let_def split: option.split prod.split)
qed

lemma worldIn_observe:
  assumes "inj (rt_makeId rt)" "worldOk rt c sn" "c \<le> now"
    and "\<And>ob. ob \<in> set obs \<Longrightarrow> ob_category ob \<noteq> HostAvailability"
  shows "worldIn rt cfg now (observeNotificationSignals rt cfg obs now sn)"
proof -
  obtain s n where sn: "sn = (s, n)" by force
  have "worldIn rt cfg now (fold (observeOne rt cfg now)
      (toSortedByKey (\<lambda>ob. rt_dateParse rt (ob_occurredAt ob)) obs) (reconcile cfg now s, n))"
    by (rule fold_keeps) (use assms sn in \<open>auto intro: worldIn_observeOne worldIn_reconcile\<close>)
  from worldIn_admit [OF assms(1) this] show ?thesis
    by (simp add: observeNotificationSignals_def sn)
qed

section \<open>Claims and acknowledgements\<close>

lemma queueOk_lease:
  assumes inj: "inj (rt_makeId rt)" and ok: "queueOk rt n now ds"
  shows "queueOk rt (Suc n) now (update_first (dueAt now) (leaseDelivery now (rt_makeId rt n)) ds)"
  using ok
proof (induction ds)
  case (Cons d ds)
  have new: "rt_makeId rt n \<notin> set (tokens (d # ds))"
  proof
    assume "rt_makeId rt n \<in> set (tokens (d # ds))"
    then obtain e where "e \<in> set (d # ds)" "dl_leaseToken e = Some (rt_makeId rt n)"
      unfolding set_tokens by auto
    with Cons.prems not_made [OF inj order.refl] show False by (auto simp: queueOk_def queuedOk_def)
  qed
  have ids: "set (map dl_id (update_first (dueAt now) f xs)) = set (map dl_id xs)"
    if "\<And>x. dl_id (f x) = dl_id x" for f xs using map_update_first [of xs _ dl_id f] that by metis
  show ?case
  proof (cases "dueAt now d")
    case True
    have tl: "queueOk rt (Suc n) now ds" and hd: "queuedOk rt (Suc n) now d"
      using Cons.prems by (auto simp: queueOk_def intro: queuedOk_mono split: option.splits)
    have "queuedOk rt (Suc n) now (leaseDelivery now (rt_makeId rt n) d)"
      using hd by (auto simp: queuedOk_def leaseDelivery_def backupWindowOk_def split: option.splits)
    with tl True Cons.prems new show ?thesis
      by (auto simp: queueOk_def leaseDelivery_def split: option.splits)
  next
    case False
    have sub: "set (tokens (update_first (dueAt now) (leaseDelivery now (rt_makeId rt n)) ds))
        \<subseteq> insert (rt_makeId rt n) (set (tokens ds))"
      by (auto simp: set_tokens leaseDelivery_def dest!: set_update_first_cases)
    have "dl_id (leaseDelivery now tok x) = dl_id x" for tok x by (simp add: leaseDelivery_def)
    with False Cons new sub ids [of "leaseDelivery now (rt_makeId rt n)" ds] show ?thesis
      by (auto simp: queueOk_def intro: queuedOk_mono split: option.splits)
  qed
qed (simp add: queueOk_def)

lemma worldIn_claim:
  assumes inj: "inj (rt_makeId rt)" and ok: "worldOk rt c sn" and c: "c \<le> now"
  shows "worldIn rt cfg now (fst (claimNotificationDelivery rt cfg now sn))"
proof -
  obtain s n where a: "admitNotificationIncidents rt cfg now None (reconcile cfg now (fst sn), snd sn) = (s, n)"
    by force
  have w: "worldIn rt cfg now (s, n)"
    using worldIn_admit [OF inj worldIn_reconcile [of rt c "fst sn" "snd sn"]] ok c a by (metis order.refl prod.collapse)
  then have "worldIn rt cfg now (s\<lparr>st_deliveries := update_first (dueAt now)
      (leaseDelivery now (rt_makeId rt n)) (st_deliveries s)\<rparr>, Suc n)"
    using queueOk_lease [OF inj] by (auto simp: worldIn_def worldOk_def intro: rosterOk_mono)
  with w a show ?thesis by (auto simp: claimNotificationDelivery_def Let_def split: option.split)
qed

lemma worldIn_finish:
  assumes ok: "worldOk rt c (s, n)" and c: "c \<le> now"
  shows "worldIn rt cfg now (finishNotificationDelivery cfg token r now s, n)"
proof (cases "find_index (leasedTo token now) (st_deliveries s)")
  case None
  with worldIn_reconcile [OF ok c] show ?thesis by (simp add: finishNotificationDelivery_def)
next
  case (Some k)
  obtain d incs where x: "settleDelivery cfg r now (st_deliveries s ! k) (st_incidents s) = (d, incs)" by force
  let ?t = "s\<lparr>st_deliveries := (st_deliveries s)[k := d], st_incidents := incs\<rparr>"
  have "queueOk rt n now ((st_deliveries s)[k := d])"
    using queueOk_settle [OF settled_update _ c, of k "st_deliveries s" d rt n] find_index_Some [OF Some]
      settled_settleDelivery [of now "st_deliveries s ! k" cfg r "st_incidents s"] x ok
    by (simp add: worldOk_def)
  moreover have "map core incs = map core (st_incidents s)" "map markerKeys incs = map markerKeys (st_incidents s)"
    using map_core_settleDelivery [of cfg r now "st_deliveries s ! k" "st_incidents s"]
      keys_settleDelivery [of cfg r now "st_deliveries s ! k" "st_incidents s"] x by simp_all
  ultimately have "worldOk rt now (?t, n)"
    using ok rosterOk_cong_core [of incs "st_incidents s"] markersOk_cong [of incs "st_incidents s"]
    by (simp add: worldOk_def)
  from worldIn_reconcile [OF this order.refl] show ?thesis
    by (simp add: finishNotificationDelivery_def Some x)
qed

end
