(* ===== verification/QueueWriters.thy ===== *)
theory QueueWriters
  imports EngineWorld
begin

text \<open>
  The writers beside the engine proper keep the state well formed and its identities distinct:
  host availability transitions, the channel test and the backup fan-out.
\<close>

section \<open>Host availability\<close>

definition timely :: "host_transition \<Rightarrow> int \<Rightarrow> notification_state \<Rightarrow> bool" where
  "timely tr now s \<longleftrightarrow> ht_startedAt tr \<le> ht_occurredAt tr \<and> ht_occurredAt tr \<le> now \<and>
     (\<forall>i \<in> set (st_incidents s). in_id i = ht_incidentId tr \<longrightarrow> in_observedAt i \<le> ht_occurredAt tr)"

lemma stateOk_cancel: "stateOk s \<Longrightarrow> stateOk (cancelHostAvailabilityIncidents s ids now)"
proof -
  have "deliveryOk d \<Longrightarrow> deliveryOk (cancelHostDelivery ids now d)" for d
    by (auto simp: cancelHostDelivery_def deliveryOk_def leaseShapeOk_def)
  moreover have "incidentsOk incs \<Longrightarrow> incidentsOk (filter p incs)" for incs p
    by (rule incidentsOk_subseq) simp_all
  ultimately show "stateOk s \<Longrightarrow> stateOk (cancelHostAvailabilityIncidents s ids now)"
    by (auto simp: cancelHostAvailabilityIncidents_def stateOk_def
        intro: le_trans [OF length_filter_le])
qed

lemma cancel_incidents:
  "st_incidents (cancelHostAvailabilityIncidents s ids now) =
     filter (\<lambda>i. in_category i \<noteq> HostAvailability \<or> \<not> contains ids (in_id i)) (st_incidents s)"
  by (auto simp: cancelHostAvailabilityIncidents_def intro!: filter_True [symmetric])

lemma worldOk_cancel:
  assumes "worldOk rt c (s, n)" "c \<le> now"
  shows "worldOk rt now (cancelHostAvailabilityIncidents s ids now, n)"
proof -
  have "list_all2 (settled now) (st_deliveries s) (map (cancelHostDelivery ids now) (st_deliveries s))"
    by (simp add: list_all2_conv_all_nth cancelHostDelivery_def settled_def)
  then have "queueOk rt n now (map (cancelHostDelivery ids now) (st_deliveries s))"
    by (rule queueOk_settle) (use assms in \<open>auto simp: worldOk_def\<close>)
  moreover have "rosterOk rt n (filter p (st_incidents s))" for p
    by (rule rosterOk_subseq [OF subseq_filter_left]) (use assms in \<open>simp add: worldOk_def\<close>)
  ultimately show ?thesis
    using assms worldOk_mono [OF assms(1) order.refl assms(2)]
    by (auto simp: cancelHostAvailabilityIncidents_def worldOk_def markersOk_def)
qed

lemma host_incident [simp]:
  "in_id (hostIncident cfg tr) = ht_incidentId tr" "markerKeys (hostIncident cfg tr) = []"
  "incidentKey (hostIncident cfg tr) = (HostAvailability, ht_proxyHostId tr)"
  by (simp_all add: hostIncident_def markerKeys_def incidentKey_def)

lemma outage_cases:
  assumes "observeHostOutage rt cfg tr now (s, n) = Inr sn"
  obtains (ignored) "sn = (s, n)"
  | (opened) s2 where "appendNotificationIncident cfg (hostIncident cfg tr)
      (cancelHostAvailabilityIncidents s (map in_id (filter (\<lambda>i. in_category i = HostAvailability \<and>
              in_resourceId i = ht_proxyHostId tr \<and> in_recoveredAt i = None) (st_incidents s))) now)
      = (True, s2)"
    "sn = observeNotificationSignals rt cfg [] now (s2, n)"
    "\<forall>i \<in> set (st_incidents s). in_id i \<noteq> ht_incidentId tr"
  using assms
  by (auto simp: observeHostOutage_def Let_def split: if_splits prod.splits)

lemma stateOk_outage:
  assumes ok: "stateOk s" and t: "timely tr now s" and r: "observeHostOutage rt cfg tr now (s, n) = Inr sn"
  shows "stateOk (fst sn)"
  using r
proof (cases rule: outage_cases)
  case (opened s2)
  let ?ids = "map in_id (filter (\<lambda>i. in_category i = HostAvailability \<and>
              in_resourceId i = ht_proxyHostId tr \<and> in_recoveredAt i = None) (st_incidents s))"
  let ?s1 = "cancelHostAvailabilityIncidents s ?ids now"
  have "chronologyOk (hostIncident cfg tr)"
    using t by (simp add: chronologyOk_def hostIncident_def timely_def)
  moreover have "\<forall>j \<in> set (st_incidents ?s1). isOpen j \<longrightarrow> incidentKey j \<noteq> incidentKey (hostIncident cfg tr)"
    by (auto simp: cancel_incidents isOpen_def incidentKey_def hostIncident_def)
  ultimately have "stateOk (snd (appendNotificationIncident cfg (hostIncident cfg tr) ?s1))"
    by (intro stateOk_append stateOk_cancel ok) auto
  then have "stateOk s2" using opened(1) by simp
  with opened(2) show ?thesis using stateOk_observe by simp
qed (use ok in simp)

lemma worldIn_outage:
  assumes inj: "inj (rt_makeId rt)" and ok: "worldOk rt c (s, n)" and c: "c \<le> now"
    and fresh: "\<And>k. ht_incidentId tr \<noteq> rt_makeId rt k"
    and r: "observeHostOutage rt cfg tr now (s, n) = Inr sn"
  shows "sn = (s, n) \<or> worldIn rt cfg now sn"
  using r
proof (cases rule: outage_cases)
  case (opened s2)
  have "rosterEntryOk rt n (hostIncident cfg tr)"
    using fresh by (simp add: rosterEntryOk_def hostIncident_def)
  moreover have "in_id (hostIncident cfg tr)
      \<notin> in_id ` set (st_incidents (cancelHostAvailabilityIncidents s ids now))" for ids
    using opened(3) by (auto simp: cancel_incidents)
  ultimately have "worldOk rt now (snd (appendNotificationIncident cfg (hostIncident cfg tr)
      (cancelHostAvailabilityIncidents s ids now)), n)" for ids
    by (intro worldOk_append [OF worldOk_cancel [OF ok c]]) simp_all
  with opened(1) have "worldOk rt now (s2, n)" by (metis snd_conv)
  from worldIn_observe [OF inj this order.refl, of "[]"] opened(2) show ?thesis by simp
qed simp

lemma recovery_cases:
  obtains (ignored) "observeHostRecovery rt cfg tr now (s, n) = (s, n)"
  | (closed) k s1 s2 m subs where "k < length (st_incidents s)"
    "in_id (st_incidents s ! k) = ht_incidentId tr" "in_host (st_incidents s ! k) \<noteq> None"
    "isOpen (st_incidents s ! k)" "s1 = s \<or> s1 = updateIncident k silenceRecovery s"
    "admitNotificationIncidents rt (subscribedChannels cfg subs) (ht_occurredAt tr)
       (Some (in_id (st_incidents s ! k))) (s1, n) = (s2, m)"
    "observeHostRecovery rt cfg tr now (s, n) =
       observeNotificationSignals rt cfg [] now (updateIncident k (closeHostIncident rt tr subs) s2, m)"
proof (cases "find_index (\<lambda>i. in_id i = ht_incidentId tr \<and> in_host i \<noteq> None) (st_incidents s)")
  case None
  then show ?thesis using ignored by (simp add: observeHostRecovery_def)
next
  case (Some k)
  let ?i = "st_incidents s ! k"
  let ?subs = "keptSubscriptions cfg ?i"
  let ?s1 = "if \<not> cf_enabled cfg \<or> cf_pausedAfterRestore cfg then updateIncident k silenceRecovery s else s"
  obtain s2 m where a: "admitNotificationIncidents rt (subscribedChannels cfg ?subs) (ht_occurredAt tr)
      (Some (in_id ?i)) (?s1, n) = (s2, m)" by force
  show ?thesis
  proof (cases "in_recoveredAt ?i")
    case None
    then have "observeHostRecovery rt cfg tr now (s, n) =
       observeNotificationSignals rt cfg [] now (updateIncident k (closeHostIncident rt tr ?subs) s2, m)"
      using Some a by (simp add: observeHostRecovery_def Let_def)
    from closed [OF _ _ _ _ _ a this] find_index_Some [OF Some] None show ?thesis
      by (auto simp: isOpen_def)
  next
    case (Some t)
    with \<open>find_index _ _ = _\<close> ignored show ?thesis by (simp add: observeHostRecovery_def Let_def)
  qed
qed

lemma map_core_admit:
  "map core (st_incidents (fst (admitNotificationIncidents rt cfg now only sn))) =
   map core (st_incidents (fst sn))"
  by (rule admit_keeps [where P = "\<lambda>sn'. map core (st_incidents (fst sn')) = map core (st_incidents (fst sn))"])
    (simp_all add: map_core_admitOne)

lemma core_updateIncident:
  assumes "\<And>i. core (f i) = core i"
  shows "map core (st_incidents (updateIncident k f s)) = map core (st_incidents s)"
  using assms by (cases "k < length (st_incidents s)")
    (simp_all add: updateIncident_def map_update list_update_beyond list_update_same_conv)

lemma recovery_core:
  assumes "s1 = s \<or> s1 = updateIncident k silenceRecovery s"
    and "admitNotificationIncidents rt cfg t only (s1, n) = (s2, m)"
  shows "map core (st_incidents s2) = map core (st_incidents s)"
  using assms core_updateIncident [of silenceRecovery k s] map_core_admit [of rt cfg t only "(s1, n)"]
  by (auto simp: core_simps)

lemma stateOk_updateIncident_core:
  assumes "stateOk s" "\<And>i. core (f i) = core i"
  shows "stateOk (updateIncident k f s)"
proof -
  have "incidentsOk (st_incidents (updateIncident k f s)) = incidentsOk (st_incidents s)"
    by (rule incidentsOk_cong_core [OF core_updateIncident]) (rule assms(2))
  with assms(1) show ?thesis by (simp add: stateOk_def updateIncident_def)
qed

lemma stateOk_recovery:
  assumes ok: "stateOk s" and t: "timely tr now s"
  shows "stateOk (fst (observeHostRecovery rt cfg tr now (s, n)))"
proof (cases rule: recovery_cases [of rt cfg tr now s n])
  case (closed k s1 s2 m subs)
  have "stateOk s1" using closed(5) ok stateOk_updateIncident_core [of s silenceRecovery k]
    by (auto simp: core_simps)
  then have s2: "stateOk s2" using stateOk_admit [of "(s1, n)"] closed(6) by (metis fst_conv)
  have cores: "map core (st_incidents s2) = map core (st_incidents s)" by (rule recovery_core [OF closed(5,6)])
  then have len: "k < length (st_incidents s2)" using closed(1) by (metis length_map)
  have eq: "core (st_incidents s2 ! k) = core (st_incidents s ! k)"
    using cores closed(1) len by (metis nth_map)
  have incs: "incidentsOk (st_incidents s2)" using s2 by (simp add: stateOk_def)
  have "in_observedAt (st_incidents s2 ! k) \<le> ht_occurredAt tr"
    using eq closed(1,2) t unfolding timely_def by (metis core_fields(5) nth_mem)
  moreover have "chronologyOk (st_incidents s2 ! k)" using incs len by (simp add: incidentsOk_def)
  ultimately have "chronologyOk (closeHostIncident rt tr subs (st_incidents s2 ! k))"
    by (simp add: chronologyOk_def closeHostIncident_def)
  then have "stateOk (updateIncident k (closeHostIncident rt tr subs) s2)"
    using s2 incidentsOk_update_close [OF incs len]
    by (simp add: stateOk_def updateIncident_def isOpen_def closeHostIncident_def)
  then show ?thesis using stateOk_observe closed(7) by simp
qed (use ok in simp)

lemma worldOk_updateIncident:
  assumes ok: "worldOk rt c (s, n)" and k: "k < length (st_incidents s)"
    and f: "in_id (f (st_incidents s ! k)) = in_id (st_incidents s ! k)"
      "in_category (f (st_incidents s ! k)) = in_category (st_incidents s ! k)"
      "in_host (f (st_incidents s ! k)) = None \<longleftrightarrow> in_host (st_incidents s ! k) = None"
      "markerKeys (f (st_incidents s ! k)) = markerKeys (st_incidents s ! k)"
  shows "worldOk rt c (updateIncident k f s, n)"
proof -
  have "rosterEntryOk rt n (st_incidents s ! k)" using ok k by (simp add: worldOk_def rosterOk_def)
  then have "rosterEntryOk rt n (f (st_incidents s ! k))" using f by (simp add: rosterEntryOk_def)
  with ok k f(1) have "rosterOk rt n ((st_incidents s)[k := f (st_incidents s ! k)])"
    by (intro rosterOk_update) (auto simp: worldOk_def)
  with ok show ?thesis
    using markersOk_cong [OF keys_update [OF k f(4)]] by (simp add: worldOk_def updateIncident_def)
qed

lemma worldIn_recovery:
  assumes inj: "inj (rt_makeId rt)" and ok: "worldOk rt c (s, n)" and c: "c \<le> now"
    and t: "timely tr now s"
  shows "observeHostRecovery rt cfg tr now (s, n) = (s, n) \<or>
    worldIn rt cfg now (observeHostRecovery rt cfg tr now (s, n))"
proof (cases rule: recovery_cases [of rt cfg tr now s n])
  case (closed k s1 s2 m subs)
  have now: "worldOk rt now (s, n)" by (rule worldOk_mono [OF ok order.refl c])
  have "worldOk rt now (updateIncident k silenceRecovery s, n)"
    by (rule worldOk_updateIncident [OF now closed(1)]) (simp_all add: marker_simps, simp_all add: silenceRecovery_def)
  with closed(5) now have "worldOk rt now (s1, n)" by auto
  then have s2: "worldOk rt now (s2, m)"
    using worldOk_admit [OF inj, of now "(s1, n)" "ht_occurredAt tr"] t closed(6)
    by (metis timely_def)
  have cores: "map core (st_incidents s2) = map core (st_incidents s)" by (rule recovery_core [OF closed(5,6)])
  then have len: "k < length (st_incidents s2)" using closed(1) by (metis length_map)
  have "core (st_incidents s2 ! k) = core (st_incidents s ! k)"
    using cores closed(1) len by (metis nth_map)
  then have "in_host (st_incidents s2 ! k) \<noteq> None" using closed(3) by (metis core_host)
  then have "worldOk rt now (updateIncident k (closeHostIncident rt tr subs) s2, m)"
    by (intro worldOk_updateIncident [OF s2 len]) (simp_all add: closeHostIncident_def markerKeys_def)
  from worldIn_observe [OF inj this order.refl, of "[]"] closed(7) show ?thesis by simp
qed simp

lemma stateOk_transition:
  assumes "stateOk s" "timely tr now s"
    and "observeHostAvailabilityTransition rt cfg tr now (s, n) = Inr sn"
  shows "stateOk (fst sn)"
proof (cases "ht_kind tr")
  case Outage
  with assms stateOk_outage [OF assms(1,2)] show ?thesis
    by (simp add: observeHostAvailabilityTransition_def)
next
  case Recovery
  with assms stateOk_recovery [OF assms(1,2), of rt cfg n] show ?thesis
    by (simp add: observeHostAvailabilityTransition_def)
qed

lemma worldIn_transition:
  assumes "inj (rt_makeId rt)" "worldOk rt c (s, n)" "c \<le> now" "timely tr now s"
    and "\<And>k. ht_incidentId tr \<noteq> rt_makeId rt k"
    and "observeHostAvailabilityTransition rt cfg tr now (s, n) = Inr sn"
  shows "sn = (s, n) \<or> worldIn rt cfg now sn"
proof (cases "ht_kind tr")
  case Outage
  with assms(6) show ?thesis
    by (intro worldIn_outage [OF assms(1-3,5)]) (simp_all add: observeHostAvailabilityTransition_def)
next
  case Recovery
  with assms(6) worldIn_recovery [OF assms(1-4), of cfg] show ?thesis
    by (auto simp: observeHostAvailabilityTransition_def)
qed

section \<open>The channel test\<close>

lemma test_cases:
  assumes "claimNotificationTestDelivery rt cfg channelId now (s, n) = Inr ((t, m), cd)"
  obtains s1 ch cat where "reserveNotificationDeliverySlot s = Some s1" "m = n + 3"
    "ch \<in> set (cf_channels cfg)" "ch_id ch = channelId" "ch_enabled ch" "cat \<in> set (ch_events ch)"
    "cf_enabled cfg" "\<not> cf_pausedAfterRestore cfg" "jsonBytes (stateJson t) \<le> LIMIT_stateBytes"
    "t = s1\<lparr>st_deliveries := st_deliveries s1 @ [testDelivery (rt_makeId rt n) (rt_makeId rt (Suc n)) ch
       (testPayload (rt_makeId rt n) (rt_makeId rt (Suc (Suc n))) cat now) now]\<rparr>"
    "cd = \<lparr>cd_id = rt_makeId rt n, cd_channelId = channelId, cd_channelRevision = ch_revision ch,
       cd_payload = testPayload (rt_makeId rt n) (rt_makeId rt (Suc (Suc n))) cat now,
       cd_leaseToken = rt_makeId rt (Suc n)\<rparr>"
proof -
  from assms obtain ch where ch: "find (\<lambda>ch. ch_id ch = channelId) (cf_channels cfg) = Some ch"
    by (auto simp: claimNotificationTestDelivery_def split: option.splits)
  from assms ch obtain cat rest where ev: "ch_events ch = cat # rest"
    by (auto simp: claimNotificationTestDelivery_def split: list.splits)
  from assms ch ev obtain s1 where s1: "reserveNotificationDeliverySlot s = Some s1"
    by (auto simp: claimNotificationTestDelivery_def split: option.splits if_splits)
  show ?thesis
    by (rule that [OF s1, of ch cat])
      (use assms ch ev s1 find_SomeD [OF ch] in
        \<open>auto simp: claimNotificationTestDelivery_def Let_def not_less split: if_splits\<close>)
qed

lemma stateOk_test:
  assumes "stateOk s" "claimNotificationTestDelivery rt cfg channelId now (s, n) = Inr ((t, m), cd)"
  shows "stateOk t"
  using assms(2)
proof (cases rule: test_cases)
  case (1 s1 ch cat)
  have "deliveryOk (testDelivery a b ch (testPayload a e cat now) now)" for a b e
    by (simp add: deliveryOk_def leaseShapeOk_def testDelivery_def testPayload_def notification_limits)
  with 1 stateOk_reserve [OF assms(1) 1(1)] reserve_Some(2) [OF 1(1)] assms(1) show ?thesis
    by (auto simp: stateOk_def)
qed

lemma worldOk_test:
  assumes inj: "inj (rt_makeId rt)" and ok: "worldOk rt c (s, n)" and c: "c \<le> now"
    and r: "claimNotificationTestDelivery rt cfg channelId now (s, n) = Inr ((t, m), cd)"
  shows "worldOk rt now (t, m) \<and> set (st_incidents t) = set (st_incidents s)"
  using r
proof (cases rule: test_cases)
  case (1 s1 ch cat)
  let ?d = "testDelivery (rt_makeId rt n) (rt_makeId rt (Suc n)) ch
    (testPayload (rt_makeId rt n) (rt_makeId rt (Suc (Suc n))) cat now) now"
  have s1: "worldOk rt now (s1, n)"
    by (rule worldOk_reserve [OF worldOk_mono [OF ok order.refl c] 1(1)])
  have "queuedOk rt (n + 3) now ?d"
    by (auto simp: queuedOk_def testDelivery_def testPayload_def hostPayloadOk_def backupWindowOk_def)
  then have "queueOk rt m now (st_deliveries s1 @ [?d])"
    using s1 1(2) by (intro queueOk_snoc [OF inj, of n _ _ _ _ n])
      (auto simp: worldOk_def testDelivery_def intro: exI [of _ "Suc n"])
  with 1 s1 show ?thesis
    by (auto simp: worldOk_def reserve_Some(4) intro: rosterOk_mono)
qed

section \<open>Backup outcomes\<close>

lemma stateOk_schema: "notificationStateSchema zf s \<Longrightarrow> stateOk s"
  by (auto simp: notificationStateSchema_def refinementOk_def semanticsOk_def shapeOk_def stateOk_def
      incidentsOk_def list_all_iff incidentRefinementOk_def deliveryRefinementOk_def deliveryOk_def
      deliveryShapeOk_def)

text \<open>The deliveries an event adds, as the preflight builds them.\<close>

definition drafted :: "int \<Rightarrow> delivery \<Rightarrow> bool" where
  "drafted now d \<longleftrightarrow> dl_status d = Pending \<and> dl_leaseToken d = None \<and> dl_updatedAt d = now"

lemma drafted_backup: "drafted now (backupDelivery did iid ev jobId ch now)"
  by (simp add: drafted_def backupDelivery_def Let_def)

lemma remove_first_append:
  "\<forall>x \<in> set ys. \<not> p x \<Longrightarrow> remove_first p (xs @ ys) = remove_first p xs @ ys"
proof (induction xs)
  case Nil
  then show ?case by (induction ys) auto
qed auto

lemma reserve_drafted:
  assumes "reserveNotificationDeliverySlot s = Some s1" "st_deliveries s = base @ added" "\<forall>d \<in> set added. drafted now d"
  shows "\<exists>base'. st_deliveries s1 = base' @ added \<and> subseq base' base"
  using assms remove_first_append [of added "\<lambda>d. \<not> isActive d" base]
  by (auto simp: reserveNotificationDeliverySlot_def drafted_def isActive_def subseq_remove_first
      split: if_splits option.splits)

lemma preflight_shape:
  assumes "preflight iid ev jobId now chs seq s = Some t" "st_deliveries s = base @ added"
    and "\<forall>d \<in> set added. drafted now d"
  shows "\<exists>base' added'. st_deliveries t = base' @ added' \<and> subseq base' base \<and>
    (\<forall>d \<in> set added'. drafted now d) \<and> length added' = length added + length chs \<and>
    st_incidents t = st_incidents s"
  using assms
proof (induction chs arbitrary: seq s base added)
  case Nil
  then show ?case by auto
next
  case (Cons ch chs)
  from Cons.prems(1) obtain s1 where s1: "reserveNotificationDeliverySlot s = Some s1"
    by (auto split: option.splits)
  from reserve_drafted [OF s1 Cons.prems(2,3)] obtain base1 where
    b: "st_deliveries s1 = base1 @ added" "subseq base1 base" by blast
  let ?k = "placeholder (map dl_id (st_deliveries s1)) seq"
  let ?d = "backupDelivery (placeholderId ?k) iid ev jobId ch now"
  let ?s2 = "s1\<lparr>st_deliveries := st_deliveries s1 @ [?d]\<rparr>"
  have "preflight iid ev jobId now chs ?k ?s2 = Some t" using Cons.prems(1) s1 by (simp add: Let_def)
  from Cons.IH [OF this, of base1 "added @ [?d]"] b Cons.prems(3) obtain base' added' where
    "st_deliveries t = base' @ added'" "subseq base' base1" "\<forall>d \<in> set added'. drafted now d"
    "length added' = length added + length (ch # chs)" "st_incidents t = st_incidents ?s2"
    by (auto simp: drafted_backup)
  with b(2) reserve_Some(4) [OF s1] show ?case
    by (intro exI [of _ base'] exI [of _ added']) (auto intro: subseq_order.order_trans)
qed

lemma relabel_members:
  "d' \<in> set (relabel rt oid k ds) \<Longrightarrow> \<exists>d \<in> set ds. \<exists>j < length ds. dl_id d' = rt_makeId rt (k + j) \<and>
     dl_leaseToken d' = dl_leaseToken d \<and> dl_updatedAt d' = dl_updatedAt d"
proof (induction ds arbitrary: k)
  case (Cons d ds)
  then show ?case
  proof (cases "d' \<in> set (relabel rt oid (Suc k) ds)")
    case True
    from Cons.IH [OF True] show ?thesis by (metis add_Suc_shift length_Cons list.set_intros(2) Suc_less_eq)
  qed auto
qed simp

lemma outcome_cases:
  assumes "enqueueBackupOutcome rt zf cfg ev now bp = Continue bp'"
  obtains (skip) "bp' = bp"
  | (queued) base added chs where "notificationStateSchema zf (bp_state bp')"
    "st_deliveries (bp_state bp') =
       base @ relabel rt (rt_makeId rt (bp_nextId bp)) (Suc (bp_nextId bp)) added"
    "subseq base (st_deliveries (bp_state bp))" "\<forall>d \<in> set added. drafted now d"
    "length added = length chs" "chs = backupChannels cfg (au_kind ev = KSucceeded)"
    "bp_nextId bp' = Suc (bp_nextId bp) + length added" "bp_queued bp' = bp_queued bp + length added"
    "st_incidents (bp_state bp') = st_incidents (bp_state bp)"
proof (cases "bp' = bp")
  case False
  let ?chs = "backupChannels cfg (au_kind ev = KSucceeded)"
  let ?k0 = "placeholder (map dl_id (st_deliveries (bp_state bp))) 0"
  from assms False obtain jobId t where
    pre: "preflight (placeholderId ?k0) ev jobId now ?chs ?k0 (bp_state bp) = Some t"
    and bp': "bp' = \<lparr>bp_state = t\<lparr>st_deliveries := take (length (st_deliveries t) - length ?chs) (st_deliveries t) @
        relabel rt (rt_makeId rt (bp_nextId bp)) (Suc (bp_nextId bp))
          (drop (length (st_deliveries t) - length ?chs) (st_deliveries t))\<rparr>,
        bp_nextId = Suc (bp_nextId bp) + length ?chs, bp_queued = bp_queued bp + length ?chs\<rparr>"
    and sch: "notificationStateSchema zf (bp_state bp')"
    by (auto simp: enqueueBackupOutcome_def Let_def split: option.splits if_splits)
  from preflight_shape [OF pre, of "st_deliveries (bp_state bp)" "[]"] obtain base added where
    "st_deliveries t = base @ added" "subseq base (st_deliveries (bp_state bp))"
    "\<forall>d \<in> set added. drafted now d" "length added = length ?chs"
    "st_incidents t = st_incidents (bp_state bp)" by auto
  then show ?thesis using sch bp' by (intro queued [of base added ?chs]) auto
qed (rule skip)

lemma stateOk_outcome:
  assumes "stateOk (bp_state bp)" "enqueueBackupOutcome rt zf cfg ev now bp = Continue bp'"
  shows "stateOk (bp_state bp')"
  using assms(2) by (cases rule: outcome_cases) (use assms(1) in \<open>auto intro: stateOk_schema\<close>)

lemma worldOk_outcome:
  assumes ok: "worldOk rt now (bp_state bp, bp_nextId bp)"
    and r: "enqueueBackupOutcome rt zf cfg ev now bp = Continue bp'"
  shows "worldOk rt now (bp_state bp', bp_nextId bp')"
  using r
proof (cases rule: outcome_cases)
  case (queued base added chs)
  let ?n = "bp_nextId bp" and ?m = "bp_nextId bp'"
  have sem: "semanticsOk (bp_state bp')"
    using queued(1) by (simp add: notificationStateSchema_def refinementOk_def)
  have old: "queuedOk rt ?m now d" if "d \<in> set base" for d
  proof -
    have "queuedOk rt ?n now d"
      using that ok subseq_set [OF queued(3)] by (auto simp: worldOk_def queueOk_def)
    then show ?thesis by (rule queuedOk_mono) (use queued(7) in simp_all)
  qed
  have "made rt ?m (dl_id d) \<and> (\<forall>t. dl_leaseToken d = Some t \<longrightarrow> made rt ?m t) \<and> dl_updatedAt d \<le> now"
    if d: "d \<in> set (relabel rt (rt_makeId rt ?n) (Suc ?n) added)" for d
    using relabel_members [OF d] queued(4,7) by (auto simp: drafted_def)
  moreover have "deliveryRefinementOk d" if "d \<in> set (st_deliveries (bp_state bp'))" for d
    using that sem by (simp add: semanticsOk_def list_all_iff)
  ultimately have "queuedOk rt ?m now d" if "d \<in> set (st_deliveries (bp_state bp'))" for d
    using that old queued(2) by (auto simp: queuedOk_def deliveryRefinementOk_def hostPayloadOk_def)
  then have "queueOk rt ?m now (st_deliveries (bp_state bp'))"
    using sem by (simp add: queueOk_def semanticsOk_def tokens_def)
  then show ?thesis
    using ok queued(7,9) by (auto simp: worldOk_def intro: rosterOk_mono)
qed (use ok in simp)

lemma outcome_incidents:
  "enqueueBackupOutcome rt zf cfg ev now bp = Continue bp' \<Longrightarrow>
   st_incidents (bp_state bp') = st_incidents (bp_state bp)"
  by (cases rule: outcome_cases) auto

lemma backup_keeps:
  assumes "enqueueBackupOutcomes rt zf cfg evs now idx bp = Inr (bp', acc)"
    and "stateOk (bp_state bp)" "worldOk rt now (bp_state bp, bp_nextId bp)"
  shows "stateOk (bp_state bp')" "worldOk rt now (bp_state bp', bp_nextId bp')"
    "st_incidents (bp_state bp') = st_incidents (bp_state bp)"
  using assms
proof (induction evs arbitrary: idx bp)
  case (Cons ev evs)
  {
    case 1
    then show ?case using Cons.IH(1) stateOk_outcome worldOk_outcome
      by (auto split: backup_step.splits)
  next
    case 2
    then show ?case using Cons.IH(2) stateOk_outcome worldOk_outcome
      by (auto split: backup_step.splits)
  next
    case 3
    then show ?case using Cons.IH(3) stateOk_outcome worldOk_outcome outcome_incidents
      by (force split: backup_step.splits)
  }
qed auto

section \<open>What the writers do to the queue\<close>

lemma relabel_status: "d' \<in> set (relabel rt oid k ds) \<Longrightarrow> \<forall>d \<in> set ds. drafted now d \<Longrightarrow> dl_status d' = Pending"
  by (induction ds arbitrary: k) (auto simp: drafted_def)

locale queue_writers = queue_relation +
  assumes R_cancelHost: "R d (cancelHostDelivery ids now d)"
begin

lemma by_cancel: "descendsBy R N rt (s, n) (cancelHostAvailabilityIncidents s ids now, n)"
  unfolding cancelHostAvailabilityIncidents_def using R_cancelHost
  by (auto intro!: by_related by_refl) blast

lemma by_outage:
  assumes "okNow now" "observeHostOutage rt cfg tr now (s, n) = Inr sn"
  shows "descendsBy R N rt (s, n) sn"
  using assms(2)
proof (cases rule: outage_cases)
  case (opened s2)
  from arg_cong [OF opened(1), of "\<lambda>x. st_deliveries (snd x)"]
  have "st_deliveries s2 = st_deliveries (cancelHostAvailabilityIncidents s
      (map in_id (filter (\<lambda>i. in_category i = HostAvailability \<and>
        in_resourceId i = ht_proxyHostId tr \<and> in_recoveredAt i = None) (st_incidents s))) now)"
    by (simp add: append_deliveries)
  then have "descendsBy R N rt (s, n) (s2, n)" using by_cancel by (simp add: descendsBy_def)
  from by_trans [OF this by_observe [OF assms(1), of rt "(s2, n)" cfg "[]"]] opened(2)
  show ?thesis by simp
qed (simp add: by_refl)

lemma by_recovery:
  assumes "okNow now"
  shows "descendsBy R N rt (s, n) (observeHostRecovery rt cfg tr now (s, n))"
proof (cases rule: recovery_cases [of rt cfg tr now s n])
  case (closed k s1 s2 m subs)
  have "descendsBy R N rt (s, n) (s1, n)" using closed(5) by (auto simp: updateIncident_def by_subset)
  from by_trans [OF this by_admit] closed(6) have "descendsBy R N rt (s, n) (s2, m)" by metis
  then have "descendsBy R N rt (s, n) (updateIncident k (closeHostIncident rt tr subs) s2, m)"
    by (simp add: descendsBy_def updateIncident_def)
  from by_trans [OF this by_observe [OF assms, of rt _ cfg "[]"]] closed(7)
  show ?thesis by simp
qed (simp add: by_refl)

lemma by_transition:
  assumes "okNow now" "observeHostAvailabilityTransition rt cfg tr now (s, n) = Inr sn"
  shows "descendsBy R N rt (s, n) sn"
  using assms by_outage [OF assms(1)] by_recovery [OF assms(1)]
  by (auto simp: observeHostAvailabilityTransition_def split: transition_kind.splits)

lemma by_test:
  assumes "claimNotificationTestDelivery rt cfg channelId now (s, n) = Inr ((t, m), cd)"
  shows "descendsBy R N rt (s, n) (t, m)"
  using assms
proof (cases rule: test_cases)
  case (1 s1 ch cat)
  then show ?thesis
    by (intro by_snoc [OF by_reserve [OF 1(1) order.refl]]) (auto simp: testDelivery_def isActive_def)
qed

lemma by_outcome:
  assumes "enqueueBackupOutcome rt zf cfg ev now bp = Continue bp'"
  shows "descendsBy R N rt (bp_state bp, bp_nextId bp) (bp_state bp', bp_nextId bp')"
  using assms
proof (cases rule: outcome_cases)
  case (queued base added chs)
  let ?n = "bp_nextId bp"
  have "\<exists>k. ?n \<le> k \<and> k < bp_nextId bp' \<and> dl_id d = rt_makeId rt k \<and> N d"
    if "d \<in> set (relabel rt (rt_makeId rt ?n) (Suc ?n) added)" for d
  proof -
    from relabel_members [OF that] obtain j where "j < length added" "dl_id d = rt_makeId rt (Suc ?n + j)"
      by auto
    moreover have "N d" using relabel_status [OF that queued(4)] by (intro N_new) (simp add: isActive_def)
    ultimately show ?thesis using queued(7) by (intro exI [of _ "Suc ?n + j"]) auto
  qed
  with subseq_set [OF queued(3)] queued(2,7) show ?thesis
    unfolding descendsBy_def using R_refl by fastforce
qed (simp add: by_refl)

lemma by_backup:
  assumes "enqueueBackupOutcomes rt zf cfg evs now idx bp = Inr (bp', acc)"
  shows "descendsBy R N rt (bp_state bp, bp_nextId bp) (bp_state bp', bp_nextId bp')"
  using assms
proof (induction evs arbitrary: idx bp)
  case (Cons ev evs)
  then show ?case
    by (auto split: backup_step.splits intro: by_trans [OF by_outcome] by_refl)
qed (simp add: by_refl)

end

interpretation life_writers: queue_writers evolves newborn "\<lambda>_. True" "\<lambda>_. True"
  by unfold_locales
    (auto simp: cancelHostDelivery_def evolves_def isActive_def intro!: r_into_rtranclp)

interpretation lease_writers: queue_writers "undisturbed token expires" "\<lambda>_. True" "\<lambda>now. now < expires"
    "\<lambda>t. t \<noteq> token" for token expires
  by unfold_locales (auto simp: cancelHostDelivery_def undisturbed_def isActive_def)

end
