(* ===== verification/NotificationSystem.thy ===== *)
theory NotificationSystem
  imports QueueWriters
begin

text \<open>
  The notification queue as a system: every writer of the engine state as a step, in any order and
  with any configuration in force at the time of the step. What holds in all reachable states
  follows from the \<open>invariant_system\<close> interface.

  The steps carry what the callers guarantee: the stored configuration has distinct channel
  identifiers (\<^verbatim>\<open>storedNotificationConfigurationSchema\<close>), the collectors report no host
  availability signals (they come as transitions instead), a host transition is not dated in the
  future nor before the incident it closes, and its identifier is not one of the queue's own.
  Time does not go backwards from one step to the next.
\<close>

datatype engine_event =
    Observe engine_configuration "observation list"
  | Claim engine_configuration
  | Acknowledge engine_configuration string delivery_result
  | HostTransition engine_configuration host_transition
  | CancelHosts "string list"
  | TestChannel engine_configuration string
  | BackupOutcomes engine_configuration "audit_event list"

type_synonym world = "notification_state \<times> nat \<times> int"

definition distinctChannels :: "engine_configuration \<Rightarrow> bool" where
  "distinctChannels cfg \<longleftrightarrow> distinct (map ch_id (cf_channels cfg))"

definition collectable :: "observation list \<Rightarrow> bool" where
  "collectable obs \<longleftrightarrow> list_all (\<lambda>ob. ob_category ob \<noteq> HostAvailability) obs"

definition acceptable :: "runtime \<Rightarrow> host_transition \<Rightarrow> int \<Rightarrow> notification_state \<Rightarrow> bool" where
  "acceptable rt tr now s \<longleftrightarrow> timely tr now s \<and> (\<forall>k. ht_incidentId tr \<noteq> rt_makeId rt k)"

definition engineInit :: "world \<Rightarrow> bool" where
  "engineInit w \<longleftrightarrow> w = (createNotificationState, 0, 0)"

inductive engineStep :: "runtime \<Rightarrow> formats \<Rightarrow> world \<Rightarrow> engine_event \<times> int \<Rightarrow> world \<Rightarrow> bool"
  for rt :: runtime and zf :: formats where
  observe: "c \<le> now \<Longrightarrow> distinctChannels cfg \<Longrightarrow> collectable obs \<Longrightarrow>
    observeNotificationSignals rt cfg obs now (s, n) = (t, m) \<Longrightarrow>
    engineStep rt zf (s, n, c) (Observe cfg obs, now) (t, m, now)"
| claim: "c \<le> now \<Longrightarrow> distinctChannels cfg \<Longrightarrow>
    claimNotificationDelivery rt cfg now (s, n) = ((t, m), cd) \<Longrightarrow>
    engineStep rt zf (s, n, c) (Claim cfg, now) (t, m, now)"
| acknowledge: "c \<le> now \<Longrightarrow> distinctChannels cfg \<Longrightarrow>
    finishNotificationDelivery cfg token r now s = t \<Longrightarrow>
    engineStep rt zf (s, n, c) (Acknowledge cfg token r, now) (t, n, now)"
| transition: "c \<le> now \<Longrightarrow> distinctChannels cfg \<Longrightarrow> acceptable rt tr now s \<Longrightarrow>
    observeHostAvailabilityTransition rt cfg tr now (s, n) = Inr (t, m) \<Longrightarrow>
    engineStep rt zf (s, n, c) (HostTransition cfg tr, now) (t, m, now)"
| cancel: "c \<le> now \<Longrightarrow> cancelHostAvailabilityIncidents s ids now = t \<Longrightarrow>
    engineStep rt zf (s, n, c) (CancelHosts ids, now) (t, n, now)"
| test: "c \<le> now \<Longrightarrow> claimNotificationTestDelivery rt cfg channelId now (s, n) = Inr ((t, m), cd) \<Longrightarrow>
    engineStep rt zf (s, n, c) (TestChannel cfg channelId, now) (t, m, now)"
| backup: "c \<le> now \<Longrightarrow>
    enqueueBackupOutcomeNotifications rt zf cfg events now (s, n) = Inr (bp, accepted) \<Longrightarrow>
    engineStep rt zf (s, n, c) (BackupOutcomes cfg events, now) (bp_state bp, bp_nextId bp, now)"

inductive_cases engineStepE: "engineStep rt zf w e w'"

definition oneMarkerPerChannel :: "notification_state \<Rightarrow> bool" where
  "oneMarkerPerChannel s \<longleftrightarrow> (\<forall>i \<in> set (st_incidents s). distinct (map mk_channelId (in_channels i)))"

definition engineInv :: "runtime \<Rightarrow> world \<Rightarrow> bool" where
  "engineInv rt w \<longleftrightarrow> (inj (rt_makeId rt) \<longrightarrow>
     (case w of (s, n, c) \<Rightarrow> stateOk s \<and> worldOk rt c (s, n) \<and> oneMarkerPerChannel s))"

lemma worldIn_oneMarker:
  "worldIn rt cfg c (s, n) \<Longrightarrow> distinctChannels cfg \<Longrightarrow> oneMarkerPerChannel s"
  using one_marker_per_channel [of "st_incidents s" cfg]
  by (auto simp: worldIn_def worldOk_def oneMarkerPerChannel_def distinctChannels_def)

lemma worldIn_worldOk: "worldIn rt cfg c sn \<Longrightarrow> worldOk rt c sn"
  by (simp add: worldIn_def)

lemma engineInv_init: "engineInit w \<Longrightarrow> engineInv rt w"
  by (simp add: engineInit_def engineInv_def createNotificationState_def stateOk_def incidentsOk_def
      worldOk_def queueOk_def rosterOk_def markersOk_def oneMarkerPerChannel_def)

lemma engineInv_step:
  assumes "engineInv rt w" "engineStep rt zf w e w'"
  shows "engineInv rt w'"
  unfolding engineInv_def
proof
  assume inj: "inj (rt_makeId rt)"
  obtain s n c where w: "w = (s, n, c)" by (cases w)
  have ok: "stateOk s" "worldOk rt c (s, n)" "oneMarkerPerChannel s"
    using assms(1) inj w by (simp_all add: engineInv_def)
  have goal: "stateOk t \<Longrightarrow> worldIn rt cfg now (t, m) \<Longrightarrow> distinctChannels cfg \<Longrightarrow>
      stateOk t \<and> worldOk rt now (t, m) \<and> oneMarkerPerChannel t" for t m now cfg
    using worldIn_oneMarker worldIn_worldOk by blast
  from assms(2) show "case w' of (s, n, c) \<Rightarrow> stateOk s \<and> worldOk rt c (s, n) \<and> oneMarkerPerChannel s"
    unfolding w
  proof (cases rule: engineStep.cases)
    case (observe now cfg obs t m)
    then show ?thesis
      using stateOk_observe [OF ok(1), of rt cfg obs now n] worldIn_observe [OF inj ok(2), of now obs cfg]
        goal [of t cfg now m] by (auto simp: collectable_def list_all_iff)
  next
    case (claim now cfg t m cd)
    then show ?thesis
      using stateOk_claim [of "(s, n)" rt cfg now] worldIn_claim [OF inj ok(2), of now cfg]
        goal [of t cfg now m] ok(1) by auto
  next
    case (acknowledge now cfg token r t)
    then show ?thesis
      using stateOk_finish [OF ok(1)] worldIn_finish [OF ok(2), of now cfg token r]
        goal [of t cfg now n] by auto
  next
    case (transition now cfg tr t m)
    have tr: "timely tr now s" "\<And>k. ht_incidentId tr \<noteq> rt_makeId rt k"
      using transition by (simp_all add: acceptable_def)
    have "stateOk t"
      using stateOk_transition [OF ok(1) tr(1)] transition by (metis fst_conv)
    moreover have "(t, m) = (s, n) \<or> worldIn rt cfg now (t, m)"
      using worldIn_transition [OF inj ok(2)] transition tr by metis
    ultimately show ?thesis
      using transition ok worldOk_mono [OF ok(2) order.refl] goal [of t cfg now m] by auto
  next
    case (cancel now ids t)
    then show ?thesis
      using stateOk_cancel [OF ok(1)] worldOk_cancel [OF ok(2)] ok(3)
      by (auto simp: oneMarkerPerChannel_def cancel_incidents)
  next
    case (test now cfg channelId t m cd)
    then show ?thesis
      using stateOk_test [OF ok(1)] worldOk_test [OF inj ok(2)] ok(3)
      by (auto simp: oneMarkerPerChannel_def)
  next
    case (backup now cfg events bp accepted)
    then show ?thesis
      using backup_keeps [of rt zf cfg events now 0 "\<lparr>bp_state = s, bp_nextId = n, bp_queued = 0\<rparr>" bp accepted]
        ok worldOk_mono [OF ok(2) order.refl, of now]
      by (auto simp: enqueueBackupOutcomeNotifications_def oneMarkerPerChannel_def)
  qed
qed

interpretation notifications: invariant_system engineInit "engineStep rt zf" "engineInv rt" for rt zf
  by unfold_locales (auto intro: engineInv_init engineInv_step)

lemma engineInv_semantics:
  assumes "engineInv rt (s, n, c)" "inj (rt_makeId rt)"
  shows "semanticsOk s"
proof -
  have ok: "stateOk s" "worldOk rt c (s, n)" "oneMarkerPerChannel s"
    using assms by (simp_all add: engineInv_def)
  have "deliveryRefinementOk d" if "d \<in> set (st_deliveries s)" for d
    using ok that by (simp add: stateOk_def deliveryOk_def worldOk_def queueOk_def queuedOk_def
        deliveryRefinementOk_def hostPayloadOk_def)
  moreover have "incidentRefinementOk i" if "i \<in> set (st_incidents s)" for i
    using ok that by (simp add: stateOk_def incidentsOk_def worldOk_def rosterOk_def rosterEntryOk_def
        oneMarkerPerChannel_def incidentRefinementOk_def)
  ultimately show ?thesis
    using ok by (auto simp: semanticsOk_def stateOk_def incidentsOk_def worldOk_def queueOk_def
        rosterOk_def tokens_def list_all_iff)
qed

section \<open>The queue along a run\<close>

text \<open>The clock and lease conditions of a queue relation, for one event.\<close>

definition eventOk :: "(int \<Rightarrow> bool) \<Rightarrow> (string \<Rightarrow> bool) \<Rightarrow> engine_event \<times> int \<Rightarrow> bool" where
  "eventOk okNow okToken e \<longleftrightarrow> okNow (snd e) \<and>
     (case fst e of Acknowledge _ token _ \<Rightarrow> okToken token | _ \<Rightarrow> True)"

context queue_writers
begin

lemma by_step:
  assumes "engineStep rt zf (s, n, c) e (t, m, c')" "eventOk okNow okToken e"
  shows "descendsBy R N rt (s, n) (t, m)"
  using assms(1)
proof (cases rule: engineStep.cases)
  case observe
  then show ?thesis using by_observe assms(2) by (metis eventOk_def snd_conv)
next
  case claim
  then show ?thesis using by_claim assms(2) by (metis eventOk_def fst_conv snd_conv)
next
  case acknowledge
  then show ?thesis using by_finish assms(2) by (auto simp: eventOk_def)
next
  case transition
  then show ?thesis using by_transition assms(2) by (metis eventOk_def snd_conv)
next
  case cancel
  then show ?thesis using by_cancel by auto
next
  case test
  then show ?thesis using by_test by metis
next
  case (backup cfg events bp accepted)
  then show ?thesis
    using by_backup [of rt zf cfg events c' 0 "\<lparr>bp_state = s, bp_nextId = n, bp_queued = 0\<rparr>" bp accepted]
    by (simp add: enqueueBackupOutcomeNotifications_def)
qed

lemma by_steps:
  assumes "steps (engineStep rt zf) w es w'" "\<forall>e \<in> set es. eventOk okNow okToken e"
    and "w = (s, n, c)" "w' = (t, m, c')"
  shows "descendsBy R N rt (s, n) (t, m)"
  using assms
proof (induction arbitrary: s n c rule: steps.induct)
  case (steps_cons w1 e w2 es w3)
  obtain u k b where w2: "w2 = (u, k, b)" by (cases w2)
  have "descendsBy R N rt (s, n) (u, k)"
    using steps_cons.hyps(1) steps_cons.prems w2 by (intro by_step) auto
  moreover have "descendsBy R N rt (u, k) (t, m)"
    using steps_cons.IH steps_cons.prems w2 by simp
  ultimately show ?case by (rule by_trans)
qed (simp add: by_refl)

end

end
