(* ===== verification/EngineProperties.thy ===== *)
theory EngineProperties
  imports NotificationSystem
begin

text \<open>
  The properties of the notification engine and its queue, with a concrete runtime, configuration
  and run at which the hypotheses of each are met.
\<close>

section \<open>Claims\<close>

lemma claim_Some:
  assumes "claimNotificationDelivery rt cfg now (s, n) = ((t, m), Some cd)"
  obtains v k d where
    "admitNotificationIncidents rt cfg now None (reconcile cfg now s, n) = (v, k)" "m = Suc k"
    "cf_enabled cfg" "\<not> cf_pausedAfterRestore cfg" "find (dueAt now) (st_deliveries v) = Some d"
    "t = v\<lparr>st_deliveries := update_first (dueAt now) (leaseDelivery now (rt_makeId rt k)) (st_deliveries v)\<rparr>"
    "cd = \<lparr>cd_id = dl_id d, cd_channelId = dl_channelId d, cd_channelRevision = dl_channelRevision d,
       cd_payload = dl_payload d, cd_leaseToken = rt_makeId rt k\<rparr>"
proof -
  obtain v k where a: "admitNotificationIncidents rt cfg now None (reconcile cfg now s, n) = (v, k)" by force
  from assms obtain d where "find (dueAt now) (st_deliveries v) = Some d"
    by (auto simp: claimNotificationDelivery_def a split: if_splits option.splits)
  with assms a show ?thesis
    by (intro that [OF a, of d])
      (auto simp: claimNotificationDelivery_def Let_def split: if_splits)
qed

lemma leased_member:
  "find p xs = Some x \<Longrightarrow> f x \<in> set (update_first p f xs)"
  by (induction xs) (auto split: if_splits)

lemma claim_allSendable:
  assumes "admitNotificationIncidents rt cfg now None (reconcile cfg now s, n) = (v, k)"
  shows "allSendable cfg now v"
  using allSendable_admit [of cfg now "(reconcile cfg now s, n)" rt None] allSendable_reconcile assms
  by simp

lemma reach_inv:
  "reach engineInit (engineStep rt zf) w \<Longrightarrow> engineInv rt w"
  by (rule notifications.inv_reach)

lemma engineInv_queue:
  "engineInv rt (s, n, c) \<Longrightarrow> inj (rt_makeId rt) \<Longrightarrow> queueOk rt n c (st_deliveries s) \<and> stateOk s"
  by (simp add: engineInv_def worldOk_def)

lemma queueOk_same_id:
  "queueOk rt n c ds \<Longrightarrow> d \<in> set ds \<Longrightarrow> e \<in> set ds \<Longrightarrow> dl_id d = dl_id e \<Longrightarrow> d = e"
  by (auto simp: queueOk_def distinct_map dest: inj_onD)

text \<open>A delivery that descends from one with a known identity is a successor of that one.\<close>

lemma descends_same_id:
  assumes inj: "inj (rt_makeId rt)" and desc: "descendsBy R N rt (s, n) (t, m)"
    and q: "queueOk rt n c (st_deliveries s)" and id: "\<And>a b. R a b \<Longrightarrow> dl_id b = dl_id a"
    and d: "d \<in> set (st_deliveries s)" and d': "d' \<in> set (st_deliveries t)" and eq: "dl_id d' = dl_id d"
  shows "R d d'"
proof -
  have made: "made rt n (dl_id d)" using q d by (simp add: queueOk_def queuedOk_def)
  from desc d' consider e where "e \<in> set (st_deliveries s)" "R e d'"
    | k where "n \<le> k" "dl_id d' = rt_makeId rt k" by (auto simp: descendsBy_def)
  then show ?thesis
  proof cases
    case 1
    with id eq queueOk_same_id [OF q 1(1) d] show ?thesis by metis
  next
    case 2
    with not_made [OF inj 2(1)] made eq show ?thesis by simp
  qed
qed

lemma exclusive_core:
  assumes inj: "inj (rt_makeId rt)" and q: "queueOk rt n c (st_deliveries s)"
    and d: "d \<in> set (st_deliveries s)" "heldUntil token expires d"
    and desc: "descendsBy (undisturbed token expires) (\<lambda>_. True) rt (s, n) (t, m)"
    and e: "e \<in> set (st_deliveries t)" "dl_status e = Pending"
  shows "dl_id e \<noteq> dl_id d"
proof
  assume "dl_id e = dl_id d"
  then have "undisturbed token expires d e"
    by (intro descends_same_id [OF inj desc q _ d(1) e(1)]) (simp_all add: undisturbed_def)
  with d(2) e(2) show False by (auto simp: undisturbed_def heldUntil_def isActive_def)
qed

section \<open>A concrete run\<close>

text \<open>
  A runtime whose identifiers are the decimal numbers and whose dates are written as milliseconds,
  one webhook channel, one failing DDNS target, and the run that observes it and claims the
  delivery.
\<close>

definition sampleRuntime :: runtime where
  "sampleRuntime = \<lparr>rt_sha256 = (\<lambda>s. s),
     rt_dateParse = (\<lambda>s. if s \<noteq> [] \<and> list_all isDigit s then Some (int (number s)) else None),
     rt_makeId = (\<lambda>n. dec (int n))\<rparr>"

definition sampleFormats :: formats where
  "sampleFormats = \<lparr>zf_uuid = (\<lambda>s. s \<noteq> []), zf_datetime = (\<lambda>s. s \<noteq> []), zf_url = (\<lambda>s. s \<noteq> [])\<rparr>"

definition sampleChannel :: channel_policy where
  "sampleChannel = \<lparr>ch_id = ''c'', ch_name = ''Ops'', ch_kind = Webhook, ch_revision = 1,
     ch_enabled = True, ch_events = [Ddns, HostAvailability, Backup], ch_minimumSeverity = Warning,
     ch_thresholdSeconds = 0, ch_recovery = True\<rparr>"

definition sampleConfiguration :: engine_configuration where
  "sampleConfiguration = \<lparr>cf_enabled = True, cf_pausedAfterRestore = False,
     cf_channels = [sampleChannel]\<rparr>"

definition sampleObservation :: observation where
  "sampleObservation = \<lparr>ob_source = Snapshot, ob_category = Ddns, ob_resourceId = ''r'',
     ob_health = Failing, ob_code = None, ob_desiredRevision = None, ob_severity = Error,
     ob_occurredAt = ''900'', ob_evidence = ''e'', ob_failures = 1\<rparr>"

definition samplePayload :: payload where
  "samplePayload = \<lparr>pl_id = ''1'', pl_incidentId = ''0'', pl_type = TIncident, pl_category = Ddns,
     pl_severity = Sev Error, pl_resourceId = ''r'', pl_code = CDdnsUpdateFailed,
     pl_occurredAt = ''1970-01-01T00:00:00.900Z'', pl_startedAt = ''1970-01-01T00:00:00.900Z'',
     pl_failures = 1, pl_host = None\<rparr>"

definition sampleObserved :: "notification_state \<times> nat" where
  "sampleObserved = (\<lparr>st_proxyApplyPending = None,
     st_incidents = [\<lparr>in_id = ''0'', in_category = Ddns, in_resourceId = ''r'', in_severity = Error,
       in_startedAt = 900, in_observedAt = 900, in_evidence = ''e'', in_failures = 1, in_code = None,
       in_recoveredAt = None, in_recoveryEvidence = None,
       in_channels = [\<lparr>mk_channelId = ''c'', mk_channelRevision = 1, mk_failure = APending,
         mk_recovery = None\<rparr>], in_host = None\<rparr>],
     st_deliveries = [\<lparr>dl_id = ''1'', dl_channelId = ''c'', dl_channelRevision = 1,
       dl_payload = samplePayload, dl_status = Pending, dl_attempts = 0, dl_backupAvailableAt = None,
       dl_createdAt = 1000, dl_updatedAt = 1000, dl_nextAttemptAt = 1000, dl_leaseToken = None,
       dl_leaseExpiresAt = None, dl_error = None\<rparr>],
     st_deferredCount = 0, st_saturationCount = 0\<rparr>, 2)"

lemma sample_observe:
  "observeNotificationSignals sampleRuntime sampleConfiguration [sampleObservation] 1000
     (createNotificationState, 0) = sampleObserved"
  by code_simp

definition sampleClaim :: "(notification_state \<times> nat) \<times> claimed_delivery option" where
  "sampleClaim = claimNotificationDelivery sampleRuntime sampleConfiguration 1000 sampleObserved"

lemma inj_sample: "inj (rt_makeId sampleRuntime)"
proof (rule injI)
  fix a b assume "rt_makeId sampleRuntime a = rt_makeId sampleRuntime b"
  then have "number (dec (int a)) = number (dec (int b))" by (simp add: sampleRuntime_def)
  then show "a = b" by (simp add: dec_def number_radix10)
qed

lemma sample_channels: "distinctChannels sampleConfiguration"
  by (simp add: distinctChannels_def sampleConfiguration_def)

lemma sample_reach:
  "reach engineInit (engineStep sampleRuntime sampleFormats) (fst sampleObserved, snd sampleObserved, 1000)"
proof (rule reach_step)
  show "reach engineInit (engineStep sampleRuntime sampleFormats) (createNotificationState, 0, 0)"
    by (rule reach_init) (simp add: engineInit_def)
  show "engineStep sampleRuntime sampleFormats (createNotificationState, 0, 0)
      (Observe sampleConfiguration [sampleObservation], 1000) (fst sampleObserved, snd sampleObserved, 1000)"
    by (rule observe) (simp_all add: sample_channels sample_observe, simp add: collectable_def sampleObservation_def)
qed

lemma sample_claimed: "snd sampleClaim \<noteq> None"
  by code_simp

lemma sample_claim:
  "claimNotificationDelivery sampleRuntime sampleConfiguration 1000 (fst sampleObserved, snd sampleObserved)
     = ((fst (fst sampleClaim), snd (fst sampleClaim)), Some (the (snd sampleClaim)))"
  using sample_claimed by (simp add: sampleClaim_def [symmetric])

lemma sample_step:
  "engineStep sampleRuntime sampleFormats (fst sampleObserved, snd sampleObserved, 1000)
     (Claim sampleConfiguration, 1000) (fst (fst sampleClaim), snd (fst sampleClaim), 1000)"
  by (rule claim [OF _ sample_channels sample_claim]) simp

section \<open>Properties\<close>



text \<open>
  Claim C2: a lease is exclusive. Once a delivery has been claimed, no later claim hands out the
  same delivery before the lease expires, whatever happens in between, unless the holder itself
  acknowledges it.
\<close>

theorem lease_is_exclusive:
  assumes "inj (rt_makeId rt)" "reach engineInit (engineStep rt zf) (s, n, c)" "c \<le> now"
    and "distinctChannels cfg" "claimNotificationDelivery rt cfg now (s, n) = ((t, m), Some cd)"
    and "steps (engineStep rt zf) (t, m, now) es (u, k, c')"
    and "\<forall>e \<in> set es. eventOk (\<lambda>x. x < now + 90000) (\<lambda>token. token \<noteq> cd_leaseToken cd) e"
    and "now' < now + 90000"
  shows "map_option cd_id (snd (claimNotificationDelivery rt cfg' now' (u, k))) \<noteq> Some (cd_id cd)"
proof -
  let ?tok = "cd_leaseToken cd" and ?exp = "now + 90000"
  have "engineStep rt zf (s, n, c) (Claim cfg, now) (t, m, now)" by (rule claim) fact+
  then have "engineInv rt (t, m, now)" using engineInv_step reach_inv assms(2) by blast
  then have q: "queueOk rt m now (st_deliveries t)" using engineInv_queue assms(1) by blast
  from assms(5) obtain d where d: "d \<in> set (st_deliveries t)" "heldUntil ?tok ?exp d" "dl_id d = cd_id cd"
  proof (cases rule: claim_Some)
    case (1 v k d)
    have "leaseDelivery now (rt_makeId rt k) d \<in> set (st_deliveries t)"
      using leased_member [OF 1(5)] 1(6) by simp
    with 1(7) show ?thesis
      by (intro that [of "leaseDelivery now (rt_makeId rt k) d"])
        (auto simp: heldUntil_def leaseDelivery_def notification_limits)
  qed
  have "cd_id cd' \<noteq> cd_id cd" if "claimNotificationDelivery rt cfg' now' (u, k) = ((t', m'), Some cd')" for t' m' cd'
    using that
  proof (cases rule: claim_Some)
    case (1 v j e)
    have "descendsBy (undisturbed ?tok ?exp) (\<lambda>_. True) rt (t, m) (u, k)"
      using lease_writers.by_steps [of rt zf _ es _ ?exp ?tok] assms(6,7) by simp
    moreover have "descendsBy (undisturbed ?tok ?exp) (\<lambda>_. True) rt (u, k) (v, j)"
      using lease.by_trans [OF lease.by_reconcile lease.by_admit, of now' ?exp] 1(1) assms(8) by metis
    ultimately have desc: "descendsBy (undisturbed ?tok ?exp) (\<lambda>_. True) rt (t, m) (v, j)"
      by (rule lease.by_trans)
    have "e \<in> set (st_deliveries v)" "dl_status e = Pending"
      using find_SomeD [OF 1(5)] by (auto simp: dueAt_def)
    from exclusive_core [OF assms(1) q d(1,2) desc this] d(3) 1(7) show ?thesis by simp
  qed
  then show ?thesis by (metis (no_types, lifting) map_option_eq_Some prod.collapse)
qed

theorem lease_is_exclusive_witness:
  "map_option cd_id (snd (claimNotificationDelivery sampleRuntime sampleConfiguration 90999 (fst sampleClaim)))
     \<noteq> Some (cd_id (the (snd sampleClaim)))"
  using lease_is_exclusive [OF inj_sample sample_reach _ sample_channels sample_claim steps_nil,
      where now' = 90999 and cfg' = sampleConfiguration] by simp



text \<open>
  Claim C4: a delivery that has succeeded, failed or been cancelled is final. In every later state a
  delivery with its identifier is that very delivery, so nothing is ever sent or retried again.
\<close>

theorem closed_deliveries_are_final:
  assumes "inj (rt_makeId rt)" "reach engineInit (engineStep rt zf) (s, n, c)"
    and "steps (engineStep rt zf) (s, n, c) es (t, m, c')"
    and "d \<in> set (st_deliveries s)" "dl_status d \<in> {Succeeded, Failed, Cancelled}"
    and "d' \<in> set (st_deliveries t)" "dl_id d' = dl_id d"
  shows "d' = d"
proof -
  have q: "queueOk rt n c (st_deliveries s)" using engineInv_queue reach_inv assms(1,2) by blast
  have "descendsBy evolves newborn rt (s, n) (t, m)"
    by (rule life_writers.by_steps [OF assms(3)]) (simp_all add: eventOk_def split: engine_event.split)
  from descends_same_id [OF assms(1) this q _ assms(4,6,7)] have "evolves d d'" by (simp add: evolves_def)
  with assms(5) show ?thesis by (auto simp: evolves_def isActive_def)
qed

text \<open>The claimed delivery, acknowledged as delivered, and a later poll.\<close>

definition sampleDelivered :: notification_state where
  "sampleDelivered = finishNotificationDelivery sampleConfiguration (cd_leaseToken (the (snd sampleClaim)))
     DeliverySuccess 2000 (fst (fst sampleClaim))"

lemma sample_delivered_reach:
  "reach engineInit (engineStep sampleRuntime sampleFormats) (sampleDelivered, snd (fst sampleClaim), 2000)"
proof (rule reach_step [OF reach_step [OF sample_reach sample_step]])
  show "engineStep sampleRuntime sampleFormats (fst (fst sampleClaim), snd (fst sampleClaim), 1000)
      (Acknowledge sampleConfiguration (cd_leaseToken (the (snd sampleClaim))) DeliverySuccess, 2000)
      (sampleDelivered, snd (fst sampleClaim), 2000)"
    by (rule acknowledge) (simp_all add: sample_channels sampleDelivered_def)
qed

lemma sample_delivered: "map dl_status (st_deliveries sampleDelivered) = [Succeeded]"
  by code_simp

theorem closed_deliveries_are_final_witness:
  "list_all (\<lambda>d'. d' = hd (st_deliveries sampleDelivered))
     (filter (\<lambda>d'. dl_id d' = dl_id (hd (st_deliveries sampleDelivered)))
       (st_deliveries (reconcile sampleConfiguration 3000 sampleDelivered)))"
proof -
  have "engineStep sampleRuntime sampleFormats (sampleDelivered, snd (fst sampleClaim), 2000)
      (Acknowledge sampleConfiguration [] DeliverySuccess, 3000)
      (finishNotificationDelivery sampleConfiguration [] DeliverySuccess 3000 sampleDelivered, snd (fst sampleClaim), 3000)"
    by (rule acknowledge) (simp_all add: sample_channels)
  moreover have "finishNotificationDelivery sampleConfiguration [] DeliverySuccess 3000 sampleDelivered
      = reconcile sampleConfiguration 3000 sampleDelivered"
    by code_simp
  ultimately have st: "steps (engineStep sampleRuntime sampleFormats) (sampleDelivered, snd (fst sampleClaim), 2000)
      [(Acknowledge sampleConfiguration [] DeliverySuccess, 3000)]
      (reconcile sampleConfiguration 3000 sampleDelivered, snd (fst sampleClaim), 3000)"
    by (auto intro: steps.intros)
  have "hd (st_deliveries sampleDelivered) \<in> set (st_deliveries sampleDelivered)"
    "dl_status (hd (st_deliveries sampleDelivered)) \<in> {Succeeded, Failed, Cancelled}"
    using sample_delivered by (cases "st_deliveries sampleDelivered"; simp)+
  from closed_deliveries_are_final [OF inj_sample sample_delivered_reach st this] show ?thesis
    by (auto simp: list_all_iff)
qed

text \<open>
  Claim C5: what a claim hands out may be sent. Notifications are enabled, the channel exists in the
  revision the delivery was made for, is enabled and subscribed to the category; the delivery is not
  a manual test and is younger than a day; it is recorded in flight under the returned lease token
  for 90 seconds, and this is at most its eighth attempt.
\<close>

theorem claimed_delivery_may_be_sent:
  assumes "claimNotificationDelivery rt cfg now (s, n) = ((t, m), Some cd)"
  shows "cf_enabled cfg \<and> \<not> cf_pausedAfterRestore cfg \<and>
    (\<exists>ch \<in> set (cf_channels cfg). ch_enabled ch \<and> ch_id ch = cd_channelId cd \<and>
       ch_revision ch = cd_channelRevision cd \<and> pl_category (cd_payload cd) \<in> set (ch_events ch)) \<and>
    pl_type (cd_payload cd) \<noteq> TTest \<and>
    (\<exists>d \<in> set (st_deliveries t). dl_id d = cd_id cd \<and> dl_payload d = cd_payload cd \<and>
       dl_status d = Inflight \<and> dl_leaseToken d = Some (cd_leaseToken cd) \<and>
       dl_leaseExpiresAt d = Some (now + 90000) \<and> dl_attempts d \<le> 8 \<and>
       now - deliveryLifetimeStartedAt d < 86400000)"
  using assms
proof (cases rule: claim_Some)
  case (1 v k d)
  let ?e = "leaseDelivery now (rt_makeId rt k) d"
  have "sendable cfg now d"
    using claim_allSendable [OF 1(1)] find_SomeD [OF 1(5)] by (auto simp: allSendable_def dueAt_def)
  moreover have "?e \<in> set (st_deliveries t)" using leased_member [OF 1(5)] 1(6) by simp
  moreover have "deliveryLifetimeStartedAt ?e = deliveryLifetimeStartedAt d"
    by (simp add: deliveryLifetimeStartedAt_def leaseDelivery_def split: option.split)
  ultimately show ?thesis
    using 1(3,4,7) by (auto simp: sendable_def channelAllows_def notification_limits
        intro!: bexI [of _ ?e]) (simp_all add: leaseDelivery_def notification_limits)
qed

theorem claimed_delivery_may_be_sent_witness:
  "cf_enabled sampleConfiguration \<and> pl_type (cd_payload (the (snd sampleClaim))) \<noteq> TTest"
  using claimed_delivery_may_be_sent [OF sample_claim] by blast

text \<open>
  The retry schedule. After attempt \<open>a\<close> the wait is 30 seconds doubled \<open>a - 1\<close> times while
  that is below an hour and an hour from then on; it never shrinks from one attempt to the next.
\<close>

theorem retry_schedule:
  "retryDelay a = (if a \<le> 1 then 30000 else if a \<le> 7 then 30000 * 2 ^ nat (a - 1) else 3600000) \<and>
   retryDelay a \<le> retryDelay (a + 1)"
proof -
  have pow: "2 ^ 7 \<le> (2 :: int) ^ nat (b - 1)" if "8 \<le> b" for b
    using that by (intro power_increasing) auto
  have late: "retryDelay b = 3600000" if "8 \<le> b" for b
    using pow [OF that] that by (simp add: retryDelay_def notification_limits min_def)
  have "a \<le> 1 \<or> a = 2 \<or> a = 3 \<or> a = 4 \<or> a = 5 \<or> a = 6 \<or> a = 7 \<or> 8 \<le> a" by arith
  then show ?thesis
    by (elim disjE) (auto simp: late, auto simp: retryDelay_def notification_limits min_def)
qed

text \<open>
  When notifications are switched off, or paused after a restore, nothing is handed out and
  nothing is queued: every delivery still active afterwards is one whose lease is running, and all
  others are closed.
\<close>

theorem disabled_engine_sends_nothing:
  assumes "\<not> cf_enabled cfg \<or> cf_pausedAfterRestore cfg"
  shows "snd (claimNotificationDelivery rt cfg now (s, n)) = None \<and>
    (\<forall>d \<in> set (st_deliveries (fst (fst (claimNotificationDelivery rt cfg now (s, n))))).
       isActive d \<longrightarrow> leaseHeld now d \<and> d \<in> set (st_deliveries s))"
proof -
  have admit: "admitNotificationIncidents rt cfg now None sn = sn" for sn
    using assms by (auto simp: admitNotificationIncidents_def)
  have rec: "leaseHeld now d' \<and> d' = d" if "d' = fst (reconcileDelivery cfg now d is)" "isActive d'" for d d' "is"
    using that assms
    by (auto simp: reconcileDelivery_def channelAllows_def terminate_def Let_def isActive_def split: if_splits)
  have "isActive d \<longrightarrow> leaseHeld now d \<and> d \<in> set (st_deliveries s)"
    if "d \<in> set (st_deliveries (reconcile cfg now s))" for d
  proof -
    from reconcile_delivery_from [OF that] obtain d0 js
      where "d0 \<in> set (st_deliveries s)" "d = fst (reconcileDelivery cfg now d0 js)" by blast
    with rec [of d d0 js] show ?thesis by auto
  qed
  moreover have "claimNotificationDelivery rt cfg now (s, n) = ((reconcile cfg now s, n), None)"
    using assms by (simp add: claimNotificationDelivery_def admit)
  ultimately show ?thesis by simp
qed

theorem disabled_engine_sends_nothing_witness:
  "snd (claimNotificationDelivery sampleRuntime (sampleConfiguration\<lparr>cf_enabled := False\<rparr>) 1000 sampleObserved) = None"
  using disabled_engine_sends_nothing [of "sampleConfiguration\<lparr>cf_enabled := False\<rparr>" sampleRuntime 1000
      "fst sampleObserved" "snd sampleObserved"] by simp

lemma find_marker_update:
  "(\<And>m. markerOf ch (f m) = markerOf ch m) \<Longrightarrow>
   find (markerOf ch) (update_first (markerOf ch) f ms) = map_option f (find (markerOf ch) ms)"
  by (induction ms) auto

lemma find_snoc:
  "\<forall>x \<in> set xs. \<not> p x \<Longrightarrow> find p (xs @ [y]) = (if p y then Some y else None)"
  by (induction xs) auto

lemma find_marker_admitted:
  "find (markerOf ch) (in_channels (markAdmitted ch i)) =
     Some (case find (markerOf ch) (in_channels i) of
        None \<Rightarrow> \<lparr>mk_channelId = ch_id ch, mk_channelRevision = ch_revision ch, mk_failure = APending,
          mk_recovery = None\<rparr>
      | Some m \<Rightarrow> m\<lparr>mk_recovery := Some APending\<rparr>)"
proof (cases "find (markerOf ch) (in_channels i)")
  case None
  then have "\<forall>m \<in> set (in_channels i). \<not> markerOf ch m" by (auto simp: find_None_iff)
  then have "find (markerOf ch) (in_channels i @ [m]) = (if markerOf ch m then Some m else None)" for m
    by (rule find_snoc)
  with None show ?thesis by (simp add: markAdmitted_def markerOf_def)
next
  case (Some m)
  then show ?thesis by (simp add: markAdmitted_def find_marker_update markerOf_def)
qed

lemma marker_excludes_deferred:
  "find (markerOf ch) (in_channels i) = Some m \<Longrightarrow> \<not> deferredHostFailure i ch"
  by (auto simp: deferredHostFailure_def dest!: find_SomeD split: option.splits)

lemma wants_marker:
  assumes "find (markerOf ch) (in_channels i) = Some m"
  shows "wantsDelivery now i ch \<longleftrightarrow> ch_enabled ch \<and> in_category i \<in> set (ch_events ch) \<and>
    in_recoveredAt i \<noteq> None \<and> mk_failure m = ASucceeded \<and> mk_recovery m = None \<and> ch_recovery ch"
  using assms marker_excludes_deferred [OF assms]
  by (auto simp: wantsDelivery_def isRecoveryFor_def Let_def)


text \<open>The incident before its delivery was queued: nothing announced yet.\<close>

definition sampleOpened :: notification_state where
  "sampleOpened = (fst sampleObserved)\<lparr>st_incidents := map (\<lambda>i. i\<lparr>in_channels := []\<rparr>)
     (st_incidents (fst sampleObserved)), st_deliveries := []\<rparr>"

lemma sample_admit: "admitOne sampleRuntime 1000 0 sampleChannel (sampleOpened, 1) = sampleObserved"
  by code_simp




text \<open>
  A failed attempt is rescheduled with care. When the transport reports a retryable
  failure and the delivery stays queued, its next attempt lies at least the backoff delay and at most
  an hour ahead, also when the receiver asked for more; terminal codes, manual tests and the last
  attempt are never rescheduled.
\<close>

theorem retries_are_bounded:
  assumes "dl_status d = Inflight"
    and "dl_status (fst (settleDelivery cfg r now d incs)) = Pending"
  shows "\<exists>code after. r = DeliveryFailure code True after \<and>
    now + retryDelay (dl_attempts d) \<le> dl_nextAttemptAt (fst (settleDelivery cfg r now d incs)) \<and>
    dl_nextAttemptAt (fst (settleDelivery cfg r now d incs)) \<le> now + 3600000 \<and>
    code \<notin> {DestinationBlocked, RedirectDenied, PayloadLimit, ConfigurationUnavailable} \<and>
    pl_type (dl_payload d) \<noteq> TTest \<and> dl_attempts d < 8 \<and> channelAllows cfg d \<and>
    now - deliveryLifetimeStartedAt d < 86400000"
proof (cases r)
  case DeliverySuccess
  with assms show ?thesis by (simp add: settleDelivery_def Let_def)
next
  case (DeliveryFailure code retryable after)
  have cap: "retryDelay a \<le> LIMIT_retryMaximumMs" for a by (simp add: retryDelay_def)
  have same: "channelAllows cfg (d\<lparr>dl_updatedAt := now, dl_leaseToken := None, dl_leaseExpiresAt := None,
      dl_error := Some code\<rparr>) = channelAllows cfg d"
    "deliveryLifetimeStartedAt (d\<lparr>dl_updatedAt := now, dl_leaseToken := None, dl_leaseExpiresAt := None,
      dl_error := Some code\<rparr>) = deliveryLifetimeStartedAt d"
    by (simp_all add: channelAllows_def deliveryLifetimeStartedAt_def split: option.split)
  from assms DeliveryFailure show ?thesis
    using cap [of "dl_attempts d"]
    by (auto simp: settleDelivery_def Let_def terminate_def same terminalCode_def notification_limits
        min_def max_def split: if_splits)
qed

theorem retries_are_bounded_witness:
  "\<exists>code after. DeliveryFailure Timeout True (Some 7200000) = DeliveryFailure code True after \<and>
    dl_nextAttemptAt (fst (settleDelivery sampleConfiguration (DeliveryFailure Timeout True (Some 7200000)) 2000
      (hd (st_deliveries (fst (fst sampleClaim)))) [])) \<le> 2000 + 3600000"
proof -
  have "dl_status (hd (st_deliveries (fst (fst sampleClaim)))) = Inflight"
    "dl_status (fst (settleDelivery sampleConfiguration (DeliveryFailure Timeout True (Some 7200000)) 2000
      (hd (st_deliveries (fst (fst sampleClaim)))) [])) = Pending"
    by code_simp+
  from retries_are_bounded [OF this] show ?thesis by blast
qed

end
