(* ===== verification/NotificationRepository.thy ===== *)
theory NotificationRepository
  imports NotificationServices EngineProperties
begin

text \<open>
  The repository transactions as steps on the stored rows. Every one of them is a run of engine steps
  (the engine's theorems therefore hold of the database), both rows stay valid, and a collection claim
  that lost its lease commits nothing.
\<close>

section \<open>What a transaction reads and writes\<close>

lemma readRuntime_Inr:
  "readNotificationRuntime env nd = Inr r \<longleftrightarrow>
     r = storedRuntime nd \<and> runtimeSchema (de_formats env) (storedRuntime nd)"
  by (auto simp: readNotificationRuntime_def)

lemma readConfiguration_Inr:
  "readNotificationConfiguration nd = Inr c \<longleftrightarrow>
     c = db_configuration (nd_tables nd) \<and> storedConfigurationOk c"
  by (auto simp: readNotificationConfiguration_def Let_def)

lemma writeRuntime_Inr:
  "writeNotificationRuntime env r n nd = Inr nd' \<longleftrightarrow>
     nd' = storeRuntime r n nd \<and> runtimeSchema (de_formats env) r"
  by (auto simp: writeNotificationRuntime_def)

lemma writeConfiguration_Inr:
  "writeNotificationConfiguration c nd = Inr nd' \<longleftrightarrow>
     nd' = nd\<lparr>nd_tables := (nd_tables nd)\<lparr>db_configuration := c\<rparr>\<rparr> \<and> storedConfigurationOk c"
  by (auto simp: writeNotificationConfiguration_def)

definition ownerView :: "db_env \<Rightarrow> notification_db \<Rightarrow> stored_configuration" where
  "ownerView env nd = filterNotificationConfigurationByOwnerAccess (db_configuration (nd_tables nd)) (de_owners env)"

lemma lock_Inr:
  "lockNotifications env nd = Inr (cfg, r) \<longleftrightarrow>
     cfg = ownerView env nd \<and> r = storedRuntime nd \<and>
     storedConfigurationOk (db_configuration (nd_tables nd)) \<and> runtimeSchema (de_formats env) (storedRuntime nd)"
  by (auto simp: lockNotifications_def andThen_Inr_iff readRuntime_Inr readConfiguration_Inr ownerView_def)

lemma domain_Inr [simp]: "domain m = Inr x \<longleftrightarrow> m = Inr x"
  by (cases m) auto

lemmas rows_Inr = readRuntime_Inr readConfiguration_Inr writeRuntime_Inr writeConfiguration_Inr lock_Inr

lemma stored_store [simp]: "storedRuntime (storeRuntime r n nd) = r"
  by (simp add: storedRuntime_def storeRuntime_def)

lemma store_fields [simp]:
  "db_engine (nd_tables (storeRuntime r n nd)) = nr_engine r"
  "db_uuid (nd_tables (storeRuntime r n nd)) = n"
  "db_configuration (nd_tables (storeRuntime r n nd)) = db_configuration (nd_tables nd)"
  "nd_certificateCursor (storeRuntime r n nd) = nr_certificateCursor r"
  "nd_collectionLease (storeRuntime r n nd) = nr_collectionLease r"
  by (simp_all add: storeRuntime_def)

lemma stored_fields [simp]:
  "nr_engine (storedRuntime nd) = db_engine (nd_tables nd)"
  "nr_certificateCursor (storedRuntime nd) = nd_certificateCursor nd"
  "nr_collectionLease (storedRuntime nd) = nd_collectionLease nd"
  by (simp_all add: storedRuntime_def)

lemma stored_runtime_cong:
  "db_engine (nd_tables nd) = db_engine (nd_tables nd') \<Longrightarrow> nd_certificateCursor nd = nd_certificateCursor nd' \<Longrightarrow>
   nd_collectionLease nd = nd_collectionLease nd' \<Longrightarrow> storedRuntime nd = storedRuntime nd'"
  by (simp add: storedRuntime_def)

lemma engine_channel_ids [simp]:
  "map ch_id (cf_channels (engineConfiguration c)) = map ch_id (nc_channels c)"
  by (simp add: engineConfiguration_def channel_policy.truncate_def)

lemma ownerView_distinct:
  "storedConfigurationOk (db_configuration (nd_tables nd)) \<Longrightarrow> distinctChannels (engineConfiguration (ownerView env nd))"
  using distinct_filterChannels [of "nc_channels (db_configuration (nd_tables nd))" "de_owners env"]
  by (simp add: distinctChannels_def ownerView_def storedConfigurationOk_def
      filterNotificationConfigurationByOwnerAccess_def)

section \<open>Steps\<close>

datatype repository_event =
    CollectionClaimed "collection_claim option"
  | CollectionCommitted collection_claim
  | DeliveryClaimed "delivery_claim option"
  | DeliveryAcknowledged string delivery_result
  | SharedChannelsUpdated string configuration_input
  | PersonalChannelsUpdated string personal_input
  | BackupsEnqueued
  | ChannelTested delivery_claim
  | MonitoringWrote

definition hostEvent :: "engine_event \<times> int \<Rightarrow> bool" where
  "hostEvent e = (case fst e of HostTransition _ _ \<Rightarrow> True | CancelHosts _ \<Rightarrow> True | _ \<Rightarrow> False)"

text \<open>
  Each step has its own environment: the permissions of channel owners change over time, the runtime and
  the validation library do not. \<open>monitoring\<close> is a write of host monitoring: its tables may change in any
  way, the engine by host transitions and cancellations. Collected batches are what the collector
  gives, which never holds host signals.
\<close>

definition envOf :: "runtime \<Rightarrow> formats \<Rightarrow> db_env \<Rightarrow> bool" where
  "envOf rt zf env \<longleftrightarrow> de_runtime env = rt \<and> de_formats env = zf"

inductive repositoryStep :: "runtime \<Rightarrow> formats \<Rightarrow> notification_db \<times> int \<Rightarrow> repository_event \<Rightarrow>
    notification_db \<times> int \<Rightarrow> bool"
  for rt :: runtime and zf :: formats where
  collection_claimed: "envOf rt zf env \<Longrightarrow> c \<le> now \<Longrightarrow>
    claimNotificationCollection env before now nd = Inr (r, nd') \<Longrightarrow>
    repositoryStep rt zf (nd, c) (CollectionClaimed r) (nd', now)"
| collection_committed: "envOf rt zf env \<Longrightarrow> c \<le> t1 \<Longrightarrow> t1 \<le> t2 \<Longrightarrow> collectable (fst batch) \<Longrightarrow>
    commitNotificationCollection env claim batch t1 t2 nd = Inr (changed, nd') \<Longrightarrow>
    repositoryStep rt zf (nd, c) (CollectionCommitted claim) (nd', t2)"
| delivery_claimed: "envOf rt zf env \<Longrightarrow> c \<le> t1 \<Longrightarrow> t1 \<le> t2 \<Longrightarrow>
    claimNextNotificationDelivery env before t1 t2 nd = Inr (r, nd') \<Longrightarrow>
    repositoryStep rt zf (nd, c) (DeliveryClaimed r) (nd', t2)"
| acknowledged: "envOf rt zf env \<Longrightarrow> c \<le> now \<Longrightarrow>
    acknowledgeNotificationDelivery env token res now nd = Inr nd' \<Longrightarrow>
    repositoryStep rt zf (nd, c) (DeliveryAcknowledged token res) (nd', now)"
| shared_updated: "envOf rt zf env \<Longrightarrow> c \<le> now \<Longrightarrow>
    updateNotificationConfigurationService seal valid owners env rate actor input before now nd = Inr (v, nd') \<Longrightarrow>
    repositoryStep rt zf (nd, c) (SharedChannelsUpdated actor input) (nd', now)"
| personal_updated: "envOf rt zf env \<Longrightarrow> c \<le> now \<Longrightarrow>
    updatePersonalNotificationConfigurationService seal opn valid owners env1 env rate smtp actor pinput before now nd
      = Inr (v, nd') \<Longrightarrow>
    repositoryStep rt zf (nd, c) (PersonalChannelsUpdated actor pinput) (nd', now)"
| tested: "envOf rt zf env \<Longrightarrow> c \<le> now \<Longrightarrow>
    claimPersonalTest owners env rate actor expected channelId now nd = Inr (claim', nd') \<Longrightarrow>
    repositoryStep rt zf (nd, c) (ChannelTested claim') (nd', now)"
| backups: "envOf rt zf env \<Longrightarrow> c \<le> now \<Longrightarrow>
    enqueueBackupOutcomesInTransaction env events now nd = Inr (r, nd') \<Longrightarrow>
    repositoryStep rt zf (nd, c) BackupsEnqueued (nd', now)"
| monitoring: "steps (engineStep rt zf) (db_engine (nd_tables nd), db_uuid (nd_tables nd), c) es (s, n, c') \<Longrightarrow>
    list_all hostEvent es \<Longrightarrow> n \<le> db_uuid db \<Longrightarrow> db_engine db = s \<Longrightarrow>
    s = db_engine (nd_tables nd) \<or> notificationStateSchema zf s \<Longrightarrow>
    db_configuration db = db_configuration (nd_tables nd) \<Longrightarrow> c \<le> c' \<Longrightarrow>
    repositoryStep rt zf (nd, c) MonitoringWrote (nd\<lparr>nd_tables := db\<rparr>, c')"

inductive_cases repositoryStepE: "repositoryStep rt zf w e w'"

definition repositoryInit :: "notification_db \<times> int \<Rightarrow> bool" where
  "repositoryInit w \<longleftrightarrow> storedRuntime (fst w) = createRuntime \<and> 0 \<le> snd w \<and>
     db_configuration (nd_tables (fst w)) = DEFAULT_NOTIFICATION_CONFIGURATION"

section \<open>Transactions are runs of the engine\<close>

text \<open>The engine as the database stores it; other components may draw identifiers in between.\<close>

definition engineRun :: "runtime \<Rightarrow> formats \<Rightarrow> notification_db \<times> int \<Rightarrow> notification_db \<times> int \<Rightarrow> bool" where
  "engineRun rt zf w w' \<longleftrightarrow>
     (\<exists>es n c'. steps (engineStep rt zf)
        (db_engine (nd_tables (fst w)), db_uuid (nd_tables (fst w)), snd w) es
        (db_engine (nd_tables (fst w')), n, c') \<and>
        n \<le> db_uuid (nd_tables (fst w')) \<and> c' \<le> snd w')"

lemma engineRun_still:
  assumes "db_engine (nd_tables nd') = db_engine (nd_tables nd)" "db_uuid (nd_tables nd) \<le> db_uuid (nd_tables nd')"
    "c \<le> c'"
  shows "engineRun rt zf (nd, c) (nd', c')"
  unfolding engineRun_def
  by (rule exI [of _ "[]"], rule exI [of _ "db_uuid (nd_tables nd)"], rule exI [of _ c])
    (simp add: assms steps_nil)

lemma engineRun_later: "engineRun rt zf w (nd', c1) \<Longrightarrow> c1 \<le> c2 \<Longrightarrow> engineRun rt zf w (nd', c2)"
  unfolding engineRun_def by (metis fst_conv order.trans snd_conv)

lemma engineRun_one:
  assumes "engineStep rt zf (db_engine (nd_tables nd), db_uuid (nd_tables nd), c) e (s, m, c')"
    and "db_engine (nd_tables nd') = s" "m \<le> db_uuid (nd_tables nd')"
  shows "engineRun rt zf (nd, c) (nd', c')"
  unfolding engineRun_def
  by (rule exI [of _ "[e]"], rule exI [of _ m], rule exI [of _ c'])
    (use assms in \<open>auto intro: steps_cons steps_nil\<close>)

lemma engineRun_cancel_then:
  assumes c: "c \<le> t1"
    and e: "engineStep rt zf (cancelHostAvailabilityIncidents (db_engine (nd_tables nd)) ids t1,
      db_uuid (nd_tables nd), t1) e (s, m, t2)"
    and nd': "db_engine (nd_tables nd') = s" "m \<le> db_uuid (nd_tables nd')"
  shows "engineRun rt zf (nd, c) (nd', t2)"
proof -
  have "engineStep rt zf (db_engine (nd_tables nd), db_uuid (nd_tables nd), c) (CancelHosts ids, t1)
      (cancelHostAvailabilityIncidents (db_engine (nd_tables nd)) ids t1, db_uuid (nd_tables nd), t1)"
    using c by (intro engineStep.cancel) simp_all
  then have "steps (engineStep rt zf) (db_engine (nd_tables nd), db_uuid (nd_tables nd), c)
      [(CancelHosts ids, t1), e] (s, m, t2)"
    using e by (blast intro: steps_cons steps_nil)
  then show ?thesis
    unfolding engineRun_def
    by (intro exI [of _ "[(CancelHosts ids, t1), e]"] exI [of _ m] exI [of _ t2]) (simp add: nd')
qed

lemma engineRun_cancelled:
  assumes "c \<le> t1" "t1 \<le> t2"
    and "db_engine (nd_tables nd') = cancelHostAvailabilityIncidents (db_engine (nd_tables nd)) ids t1"
    "db_uuid (nd_tables nd') = db_uuid (nd_tables nd)"
  shows "engineRun rt zf (nd, c) (nd', t2)"
proof -
  have "engineRun rt zf (nd, c) (nd', t1)"
    by (rule engineRun_one, rule engineStep.cancel [OF assms(1) refl]) (simp_all add: assms)
  then show ?thesis using assms(2) by (rule engineRun_later)
qed

lemma run_claimCollection:
  assumes "claimNotificationCollection env before now nd = Inr (r, nd')" "c \<le> now"
  shows "engineRun rt zf (nd, c) (nd', now)"
  using assms
  by (auto simp: claimNotificationCollection_def leaseNotificationCollection_def andThen_Inr_iff rows_Inr Let_def
      split: if_splits option.splits intro!: engineRun_still)

lemma run_commitCollection:
  assumes res: "commitNotificationCollection env claim batch t1 t2 nd = Inr (changed, nd')"
    and c: "c \<le> t1" "t1 \<le> t2" and obs: "collectable (fst batch)" and env: "envOf rt zf env"
  shows "engineRun rt zf (nd, c) (nd', t2)"
proof -
  let ?ids = "staleHostIncidents (nd_tables nd) (db_engine (nd_tables nd))"
  let ?s = "cancelHostAvailabilityIncidents (db_engine (nd_tables nd)) ?ids t1"
  let ?cfg = "ownerView env nd"
  let ?r = "(storedRuntime nd)\<lparr>nr_engine := ?s\<rparr>"
  obtain r' m ch where com: "commitNotificationCollectedBatch rt ?r ?cfg claim batch t2 (db_uuid (nd_tables nd))
      = ((r', m), ch)" by (metis prod.exhaust)
  from res com env have ok: "storedConfigurationOk (db_configuration (nd_tables nd))"
    and nd': "(r' = storedRuntime nd \<and> nd' = nd) \<or> nd' = storeRuntime r' m nd"
    by (auto simp: commitNotificationCollection_def andThen_Inr_iff rows_Inr Let_def envOf_def
        reconcileHostAvailability_def split: if_splits prod.splits)
  have eng: "db_engine (nd_tables nd') = nr_engine r'" and uuid: "nd' = nd \<or> db_uuid (nd_tables nd') = m"
    using nd' by auto
  consider (same) "nr_engine r' = ?s" "m = db_uuid (nd_tables nd)"
    | (observed) "observeNotificationSignals rt (engineConfiguration ?cfg) (fst batch) t2
        (?s, db_uuid (nd_tables nd)) = (nr_engine r', m)"
    using com by (auto simp: commitNotificationCollectedBatch_def split: option.splits if_splits prod.splits)
  then show ?thesis
  proof cases
    case same
    then show ?thesis using c eng uuid by (intro engineRun_cancelled [OF c]) auto
  next
    case observed
    have step: "engineStep rt zf (?s, db_uuid (nd_tables nd), t1) (Observe (engineConfiguration ?cfg) (fst batch), t2)
        (nr_engine r', m, t2)"
      by (rule engineStep.observe [OF c(2) ownerView_distinct [OF ok] obs observed])
    show ?thesis
    proof (cases "nd' = nd")
      case True
      then show ?thesis using c by (intro engineRun_still) auto
    next
      case False
      with uuid show ?thesis by (intro engineRun_cancel_then [OF c(1) step eng]) simp
    qed
  qed
qed

lemma run_claimDelivery:
  assumes res: "claimNextNotificationDelivery env before t1 t2 nd = Inr (r, nd')"
    and c: "c \<le> t1" "t1 \<le> t2" and env: "envOf rt zf env"
  shows "engineRun rt zf (nd, c) (nd', t2)"
proof (cases "nd' = nd")
  case True
  then show ?thesis using c by (intro engineRun_still) auto
next
  case False
  let ?ids = "staleHostIncidents (nd_tables nd) (db_engine (nd_tables nd))"
  let ?s = "cancelHostAvailabilityIncidents (db_engine (nd_tables nd)) ?ids t1"
  let ?cfg = "engineConfiguration (ownerView env nd)"
  obtain s m cd where claim: "claimNotificationDelivery rt ?cfg t2 (?s, db_uuid (nd_tables nd)) = ((s, m), cd)"
    by (metis prod.exhaust)
  from res False claim env have ok: "storedConfigurationOk (db_configuration (nd_tables nd))"
    and nd': "nd' = storeRuntime ((storedRuntime nd)\<lparr>nr_engine := s\<rparr>) m nd"
    by (auto simp: claimNextNotificationDelivery_def andThen_Inr_iff rows_Inr Let_def envOf_def
        reconcileHostAvailability_def split: if_splits option.splits)
  have "engineStep rt zf (?s, db_uuid (nd_tables nd), t1) (Claim ?cfg, t2) (s, m, t2)"
    by (rule engineStep.claim [OF c(2) ownerView_distinct [OF ok] claim])
  then show ?thesis by (rule engineRun_cancel_then [OF c(1)]) (simp_all add: nd')
qed

lemma run_acknowledge:
  assumes res: "acknowledgeNotificationDelivery env token result now nd = Inr nd'" and c: "c \<le> now"
  shows "engineRun rt zf (nd, c) (nd', now)"
proof (cases "nd' = nd")
  case True
  then show ?thesis using c by (intro engineRun_still) auto
next
  case False
  from res False have ok: "storedConfigurationOk (db_configuration (nd_tables nd))"
    and nd': "nd' = storeRuntime ((storedRuntime nd)\<lparr>nr_engine :=
      finishNotificationDelivery (engineConfiguration (ownerView env nd)) token result now (db_engine (nd_tables nd))\<rparr>)
      (db_uuid (nd_tables nd)) nd"
    by (auto simp: acknowledgeNotificationDelivery_def andThen_Inr_iff rows_Inr Let_def split: if_splits)
  show ?thesis
    by (rule engineRun_one, rule engineStep.acknowledge [OF c ownerView_distinct [OF ok] refl]) (simp_all add: nd')
qed

lemma persist_Inr:
  assumes "persistNotificationConfiguration env cfg effective newIds now nd = Inr nd'"
  obtains s m where "observeNotificationSignals (de_runtime env) effective [] now
      (db_engine (nd_tables nd), db_uuid (nd_tables nd)) = (s, m)"
    "\<not> aliasesOldChannel newIds (db_engine (nd_tables nd))" "storedConfigurationOk cfg"
    "nd' = storeRuntime ((storedRuntime nd)\<lparr>nr_engine := s\<rparr>) m (nd\<lparr>nd_tables := (nd_tables nd)\<lparr>db_configuration := cfg\<rparr>\<rparr>)"
    "runtimeSchema (de_formats env) ((storedRuntime nd)\<lparr>nr_engine := s\<rparr>)"
  using assms
  by (auto simp: persistNotificationConfiguration_def andThen_Inr_iff rows_Inr Let_def
      split: if_splits prod.splits)

lemma run_persist:
  assumes res: "persistNotificationConfiguration env cfg effective newIds now nd = Inr nd'"
    and c: "c \<le> now" and env: "envOf rt zf env"
    and eff: "storedConfigurationOk cfg \<Longrightarrow> distinctChannels effective"
  shows "engineRun rt zf (nd, c) (nd', now)"
proof -
  from res obtain s m where p: "observeNotificationSignals rt effective [] now
      (db_engine (nd_tables nd), db_uuid (nd_tables nd)) = (s, m)" "storedConfigurationOk cfg"
    "db_engine (nd_tables nd') = s" "db_uuid (nd_tables nd') = m"
    by (rule persist_Inr) (use env in \<open>auto simp: envOf_def\<close>)
  show ?thesis
    by (intro engineRun_one [OF engineStep.observe [OF c eff [OF p(2)] _ p(1)]])
      (simp_all add: collectable_def p(3,4))
qed

text \<open>What an accepted update of the configuration did, for both services.\<close>

lemma shared_Inr:
  assumes "updateNotificationConfigurationService seal valid owners env rate actor input before now nd = Inr (v, nd')"
  obtains built where
    "updateInputOk input" "nc_revision (db_configuration (nd_tables nd)) = nu_expectedRevision input"
    "storedConfigurationOk (db_configuration (nd_tables nd))"
    "storedConfigurationOk (db_configuration (nd_tables before))"
    "buildNotificationConfiguration seal valid (sharedConfiguration (db_configuration (nd_tables before))) input
       = Inr built"
    "persistNotificationConfiguration env
      (built\<lparr>nc_channels := nc_channels built @ filter isPersonal (nc_channels (db_configuration (nd_tables before)))\<rparr>)
      (engineConfiguration (built\<lparr>nc_channels := nc_channels built @
        filter isPersonal (nc_channels (db_configuration (nd_tables before)))\<rparr>))
      (newChannelIds (\<lambda>ch. \<not> isPersonal ch) (db_configuration (nd_tables nd)) (nu_channels input)) now nd = Inr nd'"
  using assms
  by (auto simp: updateNotificationConfigurationService_def andThen_Inr_iff rows_Inr Let_def)

lemma destinationOf_keys: "destinationOf opn own ci = Inr xs \<Longrightarrow> set (map fst xs) \<subseteq> {ci_id ci}"
  by (auto simp: destinationOf_def andThen_Inr_iff split: option.splits)

lemma destinations_given:
  assumes "traverse (destinationOf opn own) cis = Inr found" "distinct (map ci_id cis)" "ci \<in> set cis"
    and "ci_destination ci \<noteq> None"
  shows "map_of (concat found) (ci_id ci) = ci_destination ci"
  using assms
proof (induction cis arbitrary: found)
  case (Cons c cis)
  then obtain xs rest where f: "destinationOf opn own c = Inr xs" "traverse (destinationOf opn own) cis = Inr rest"
    "found = xs # rest" by (auto simp: andThen_Inr_iff)
  show ?case
  proof (cases "ci = c")
    case True
    then show ?thesis using Cons.prems(4) f(1,3) by (auto simp: destinationOf_def)
  next
    case False
    then have "ci \<in> set cis" "ci_id ci \<noteq> ci_id c" using Cons.prems(2,3) by (auto simp: image_iff)
    moreover from this(2) have "map_of xs (ci_id ci) = None"
      using destinationOf_keys [OF f(1)] by (auto simp: map_of_eq_None_iff)
    ultimately show ?thesis using Cons.IH [OF f(2)] Cons.prems f(3) by (simp add: map_add_def)
  qed
qed simp

lemma personal_Inr:
  assumes "updatePersonalNotificationConfigurationService seal opn valid owners env1 env rate smtp actor input
    before now nd = Inr (v, nd')"
  obtains (untouched) "nd' = nd"
  | (stored) built enabled ps destinations where
    "personalInputOk input" "nc_revision (db_configuration (nd_tables nd)) = pu_expectedRevision input"
    "storedConfigurationOk (db_configuration (nd_tables nd))"
    "storedConfigurationOk (db_configuration (nd_tables before))"
    "buildNotificationConfiguration seal valid (ownConfiguration (db_configuration (nd_tables before)) actor)
       \<lparr>nu_expectedRevision = pu_expectedRevision input, nu_enabled = enabled, nu_channels = pu_channels input\<rparr>
       = Inr built"
    "de_owners env actor = Some ps" "APP_ACCESS \<in> set ps" "checkPolicy ps input destinations = Inr ()"
    "\<And>ci. ci \<in> set (pu_channels input) \<Longrightarrow> ci_destination ci \<noteq> None \<Longrightarrow>
       destinations (ci_id ci) = ci_destination ci"
    "persistNotificationConfiguration env
      (personalConfiguration actor input (db_configuration (nd_tables before)) built)
      (engineConfiguration (filterNotificationConfigurationByOwnerAccess
        (personalConfiguration actor input (db_configuration (nd_tables before)) built) (de_owners env)))
      (newChannelIds (ownedBy actor) (db_configuration (nd_tables nd)) (pu_channels input)) now nd = Inr nd'"
proof (cases "isUntouched (db_configuration (nd_tables before)) input")
  case True
  then show ?thesis using assms untouched
    by (auto simp: updatePersonalNotificationConfigurationService_def andThen_Inr_iff rows_Inr Let_def)
next
  case False
  let ?c = "db_configuration (nd_tables before)"
  from assms False obtain found built enabled ps where
    r: "personalInputOk input" "nc_revision (db_configuration (nd_tables nd)) = pu_expectedRevision input"
    "storedConfigurationOk (db_configuration (nd_tables nd))" "storedConfigurationOk ?c"
    and found: "traverse (destinationOf opn (ownConfiguration ?c actor)) (pu_channels input) = Inr found"
    and built: "buildNotificationConfiguration seal valid (ownConfiguration ?c actor)
       \<lparr>nu_expectedRevision = pu_expectedRevision input, nu_enabled = enabled, nu_channels = pu_channels input\<rparr>
       = Inr built"
    and actor: "de_owners env actor = Some ps" "APP_ACCESS \<in> set ps" "checkPolicy ps input (map_of (concat found)) = Inr ()"
    and persist: "persistNotificationConfiguration env (personalConfiguration actor input ?c built)
      (engineConfiguration (filterNotificationConfigurationByOwnerAccess
        (personalConfiguration actor input ?c built) (de_owners env)))
      (newChannelIds (ownedBy actor) (db_configuration (nd_tables nd)) (pu_channels input)) now nd = Inr nd'"
    by (auto simp: updatePersonalNotificationConfigurationService_def andThen_Inr_iff rows_Inr Let_def
        requirePermission_def split: option.splits if_splits)
  have "distinct (map ci_id (pu_channels input))" using r(1) by (simp add: personalInputOk_def updateInputOk_def)
  then show ?thesis using stored [OF r built actor _ persist] destinations_given [OF found] by blast
qed

lemma run_shared:
  assumes res: "updateNotificationConfigurationService seal valid owners env rate actor input before now nd = Inr (v, nd')"
    and c: "c \<le> now" and env: "envOf rt zf env"
  shows "engineRun rt zf (nd, c) (nd', now)"
  using res
  by (rule shared_Inr, elim run_persist [OF _ c env]) (simp add: distinctChannels_def storedConfigurationOk_def)

lemma run_personal:
  assumes res: "updatePersonalNotificationConfigurationService seal opn valid owners env1 env rate smtp actor input
      before now nd = Inr (v, nd')"
    and c: "c \<le> now" and env: "envOf rt zf env"
  shows "engineRun rt zf (nd, c) (nd', now)"
  using res
proof (cases rule: personal_Inr)
  case untouched
  then show ?thesis using c by (intro engineRun_still) auto
next
  case stored
  from stored(10) show ?thesis
    by (rule run_persist [OF _ c env])
      (auto simp: distinctChannels_def storedConfigurationOk_def filterNotificationConfigurationByOwnerAccess_def
        intro!: distinct_filterChannels)
qed

lemma run_test:
  assumes res: "claimPersonalTest owners env rate actor expected channelId now nd = Inr (claim, nd')"
    and c: "c \<le> now" and env: "envOf rt zf env"
  shows "engineRun rt zf (nd, c) (nd', now)"
proof -
  from res env obtain cfg cid s m cd where
    t: "claimNotificationTestDelivery rt cfg cid now (db_engine (nd_tables nd), db_uuid (nd_tables nd)) = Inr ((s, m), cd)"
      "nd' = storeRuntime ((storedRuntime nd)\<lparr>nr_engine := s\<rparr>) m nd"
    by (auto simp: claimPersonalTest_def andThen_Inr_iff rows_Inr envOf_def split: option.splits if_splits)
  show ?thesis by (rule engineRun_one [OF engineStep.test [OF c t(1)]]) (simp_all add: t(2))
qed

lemma run_backups:
  assumes res: "enqueueBackupOutcomesInTransaction env events now nd = Inr (r, nd')"
    and c: "c \<le> now" and env: "envOf rt zf env"
  shows "engineRun rt zf (nd, c) (nd', now)"
proof (cases "nd' = nd")
  case True
  then show ?thesis using c by (intro engineRun_still) auto
next
  case False
  with res env obtain bp accepted where
    b: "enqueueBackupOutcomeNotifications rt zf (engineConfiguration (ownerView env nd)) events now
        (db_engine (nd_tables nd), db_uuid (nd_tables nd)) = Inr (bp, accepted)"
      "nd' = storeRuntime ((storedRuntime nd)\<lparr>nr_engine := bp_state bp\<rparr>) (bp_nextId bp) nd"
    by (auto simp: enqueueBackupOutcomesInTransaction_def andThen_Inr_iff rows_Inr Let_def envOf_def
        ownerView_def split: if_splits)
  show ?thesis by (rule engineRun_one [OF engineStep.backup [OF c b(1)]]) (simp_all add: b(2))
qed

lemma step_runs_engine:
  assumes "repositoryStep rt zf w e w'"
  shows "engineRun rt zf w w'"
  using assms
proof (induction rule: repositoryStep.induct)
  case (monitoring nd c es s n c' db)
  then show ?case unfolding engineRun_def by auto
qed (auto intro: run_claimCollection run_commitCollection run_claimDelivery run_acknowledge run_shared
    run_personal run_test run_backups)

section \<open>Both rows stay valid\<close>

definition repositoryInv :: "runtime \<Rightarrow> formats \<Rightarrow> notification_db \<times> int \<Rightarrow> bool" where
  "repositoryInv rt zf w \<longleftrightarrow> storedConfigurationOk (db_configuration (nd_tables (fst w))) \<and>
     runtimeSchema zf (storedRuntime (fst w)) \<and>
     engineInv rt (db_engine (nd_tables (fst w)), db_uuid (nd_tables (fst w)), snd w)"

lemma engineInv_later:
  "engineInv rt (s, n, c) \<Longrightarrow> n \<le> m \<Longrightarrow> c \<le> e \<Longrightarrow> engineInv rt (s, m, e)"
  by (auto simp: engineInv_def intro: worldOk_mono)

lemma engineInv_run:
  assumes "engineRun rt zf w w'"
    and "engineInv rt (db_engine (nd_tables (fst w)), db_uuid (nd_tables (fst w)), snd w)"
  shows "engineInv rt (db_engine (nd_tables (fst w')), db_uuid (nd_tables (fst w')), snd w')"
  using assms notifications.inv_steps [of rt zf] engineInv_later unfolding engineRun_def by metis

lemma valid_after:
  assumes "repositoryStep rt zf w e w'"
    and "storedConfigurationOk (db_configuration (nd_tables (fst w)))" "runtimeSchema zf (storedRuntime (fst w))"
  shows "storedConfigurationOk (db_configuration (nd_tables (fst w'))) \<and> runtimeSchema zf (storedRuntime (fst w'))"
  using assms
proof (induction rule: repositoryStep.induct)
  case (collection_claimed env c now before nd r nd')
  then show ?case
    by (auto simp: claimNotificationCollection_def andThen_Inr_iff rows_Inr Let_def envOf_def
        split: if_splits option.splits)
next
  case (collection_committed env c t1 t2 batch claim nd changed nd')
  then show ?case
    by (auto simp: commitNotificationCollection_def andThen_Inr_iff rows_Inr Let_def envOf_def
        split: if_splits prod.splits)
next
  case (delivery_claimed env c t1 t2 before nd r nd')
  then show ?case
    by (auto simp: claimNextNotificationDelivery_def andThen_Inr_iff rows_Inr Let_def envOf_def
        split: if_splits prod.splits option.splits)
next
  case (acknowledged env c now token res nd nd')
  then show ?case
    by (auto simp: acknowledgeNotificationDelivery_def andThen_Inr_iff rows_Inr Let_def envOf_def
        split: if_splits prod.splits)
next
  case (shared_updated env c now seal valid owners rate actor input before nd v nd')
  from shared_updated(3) show ?case
    by (rule shared_Inr, elim persist_Inr) (use shared_updated(1) in \<open>simp add: envOf_def\<close>)
next
  case (personal_updated env c now seal opn valid owners env1 rate smtp actor pinput before nd v nd')
  from personal_updated(3) show ?case
  proof (cases rule: personal_Inr)
    case untouched
    then show ?thesis using personal_updated by simp
  next
    case stored
    from stored(10) show ?thesis
      by (rule persist_Inr) (use personal_updated(1) in \<open>simp add: envOf_def\<close>)
  qed
next
  case (tested env c now owners rate actor expected channelId nd claim' nd')
  then show ?case
    by (auto simp: claimPersonalTest_def andThen_Inr_iff rows_Inr Let_def envOf_def
        split: if_splits option.splits)
next
  case (backups env c now events nd r nd')
  then show ?case
    by (auto simp: enqueueBackupOutcomesInTransaction_def andThen_Inr_iff rows_Inr Let_def envOf_def
        split: if_splits prod.splits)
next
  case (monitoring nd c es s n c' db)
  then show ?case by (auto simp: runtimeSchema_def storedRuntime_def)
qed

lemma created_valid: "runtimeSchema zf createRuntime"
  by (simp add: runtimeSchema_def createRuntime_def createNotificationState_def notificationStateSchema_def
      shapeOk_def refinementOk_def semanticsOk_def bytesOk_def) code_simp

lemma repositoryInv_init: "repositoryInit w \<Longrightarrow> repositoryInv rt zf w"
proof -
  assume "repositoryInit w"
  then have w: "storedRuntime (fst w) = createRuntime" "0 \<le> snd w"
    "db_configuration (nd_tables (fst w)) = DEFAULT_NOTIFICATION_CONFIGURATION"
    by (simp_all add: repositoryInit_def)
  have "engineInv rt (createNotificationState, 0, 0)"
    by (rule engineInv_init) (simp add: engineInit_def)
  moreover have "db_engine (nd_tables (fst w)) = createNotificationState"
    using w(1) by (simp add: storedRuntime_def createRuntime_def)
  ultimately show ?thesis
    using w engineInv_later [of rt createNotificationState 0 0] created_valid
    by (simp add: repositoryInv_def storedConfigurationOk_def DEFAULT_NOTIFICATION_CONFIGURATION_def MAX_REVISION_def)
qed

interpretation repository: invariant_system repositoryInit "repositoryStep rt zf" "repositoryInv rt zf" for rt zf
proof unfold_locales
  show "repositoryInv rt zf t" if "repositoryInv rt zf s" "repositoryStep rt zf s e t" for s t e
    using that valid_after [OF that(2)] engineInv_run [OF step_runs_engine [OF that(2)]]
    by (auto simp: repositoryInv_def)
qed (rule repositoryInv_init)

section \<open>The collection fence\<close>

lemma uuid_mono:
  assumes "engineRun rt zf (nd, c) (nd', c')"
  shows "db_uuid (nd_tables nd) \<le> db_uuid (nd_tables nd')"
proof -
  from assms obtain es n t where "steps (engineStep rt zf) (db_engine (nd_tables nd), db_uuid (nd_tables nd), c) es
      (db_engine (nd_tables nd'), n, t)" and n: "n \<le> db_uuid (nd_tables nd')"
    by (auto simp: engineRun_def)
  then have "descendsBy evolves newborn rt (db_engine (nd_tables nd), db_uuid (nd_tables nd))
      (db_engine (nd_tables nd'), n)"
    by (intro life_writers.by_steps [of rt zf _ es]) (auto simp: eventOk_def split: engine_event.splits)
  with n show ?thesis by (simp add: descendsBy_def)
qed

text \<open>Where a lease after a step comes from: it was there, or its token is new.\<close>

definition leaseFromStep :: "runtime \<Rightarrow> notification_db \<Rightarrow> notification_db \<Rightarrow> bool" where
  "leaseFromStep rt nd nd' \<longleftrightarrow> db_uuid (nd_tables nd) \<le> db_uuid (nd_tables nd') \<and>
     (nd_collectionLease nd' = None \<or> nd_collectionLease nd' = nd_collectionLease nd \<or>
      (\<exists>k \<ge> db_uuid (nd_tables nd). map_option cl_token (nd_collectionLease nd') = Some (rt_makeId rt k)))"

lemma batch_lease:
  "commitNotificationCollectedBatch rt r cfg claim batch now n = ((r', m), ch) \<Longrightarrow>
   nr_collectionLease r' = None \<or>
     (r' = r \<and> map_option cl_token (nr_collectionLease r) \<noteq> Some (cc_token claim))"
  by (auto simp: commitNotificationCollectedBatch_def split: option.splits if_splits prod.splits)

lemma commit_Inr:
  assumes "commitNotificationCollection env claim batch t1 t2 nd = Inr (changed, nd')"
  obtains r' m ch where
    "commitNotificationCollectedBatch (de_runtime env) ((storedRuntime nd)\<lparr>nr_engine :=
       reconcileHostAvailability (nd_tables nd) (db_engine (nd_tables nd)) t1\<rparr>) (ownerView env nd) claim batch t2
       (db_uuid (nd_tables nd)) = ((r', m), ch)"
    "storedRuntime nd' = r'" "db_uuid (nd_tables nd') = m \<or> nd' = nd"
    "changed \<longleftrightarrow> ch \<or> staleHostIncidents (nd_tables nd) (db_engine (nd_tables nd)) \<noteq> []"
    "storedConfigurationOk (db_configuration (nd_tables nd))"
  using assms
  by (auto simp: commitNotificationCollection_def andThen_Inr_iff rows_Inr Let_def split: if_splits prod.splits)

lemma commit_lease:
  assumes "commitNotificationCollection env claim batch t1 t2 nd = Inr (changed, nd')"
  shows "nd_collectionLease nd' = None \<or> nd_collectionLease nd' = nd_collectionLease nd \<and>
     map_option cl_token (nd_collectionLease nd) \<noteq> Some (cc_token claim)"
  using assms
proof (cases rule: commit_Inr)
  case (1 r' m ch)
  have "nd_collectionLease nd' = nr_collectionLease r'" using 1(2) by (auto simp: storedRuntime_def)
  with batch_lease [OF 1(1)] show ?thesis by auto
qed

lemma claim_lease:
  "claimNotificationCollection env before now nd = Inr (r, nd') \<Longrightarrow>
   (r = None \<and> nd' = nd) \<or> (\<exists>claim. r = Some claim \<and>
     map_option cl_token (nd_collectionLease nd') = Some (cc_token claim) \<and>
     cc_token claim = rt_makeId (de_runtime env) (db_uuid (nd_tables nd)) \<and>
     db_uuid (nd_tables nd') = Suc (db_uuid (nd_tables nd)))"
  by (auto simp: claimNotificationCollection_def leaseNotificationCollection_def andThen_Inr_iff rows_Inr Let_def
      split: if_splits option.splits)

lemma step_lease:
  assumes "repositoryStep rt zf (nd, c) e (nd', c')"
  shows "leaseFromStep rt nd nd'"
proof -
  have "nd_collectionLease nd' = None \<or> nd_collectionLease nd' = nd_collectionLease nd \<or>
      (\<exists>k \<ge> db_uuid (nd_tables nd). map_option cl_token (nd_collectionLease nd') = Some (rt_makeId rt k))"
    using assms
  proof (cases rule: repositoryStep.cases)
    case (collection_claimed env before r)
    then show ?thesis using claim_lease [OF collection_claimed(4)] by (auto simp: envOf_def)
  next
    case (collection_committed env t1 batch claim changed)
    then show ?thesis using commit_lease [OF collection_committed(6)] by auto
  next
    case (delivery_claimed env t1 before r)
    then show ?thesis
      by (auto simp: claimNextNotificationDelivery_def andThen_Inr_iff rows_Inr Let_def
        split: if_splits prod.splits option.splits)
  next
    case (acknowledged env token res)
    then show ?thesis
      by (auto simp: acknowledgeNotificationDelivery_def andThen_Inr_iff rows_Inr Let_def split: if_splits)
  next
    case (shared_updated env seal valid owners rate actor input before v)
    from shared_updated(4) show ?thesis by (rule shared_Inr, elim persist_Inr) simp
  next
    case (personal_updated env seal opn valid owners env1 rate smtp actor pinput before v)
    from personal_updated(4) show ?thesis
    proof (cases rule: personal_Inr)
      case stored
      from stored(10) show ?thesis by (rule persist_Inr) simp
    qed simp
  next
    case (tested env owners rate actor expected channelId claim')
    then show ?thesis
      by (auto simp: claimPersonalTest_def andThen_Inr_iff rows_Inr Let_def split: if_splits option.splits)
  next
    case (backups env events r)
    then show ?thesis
      by (auto simp: enqueueBackupOutcomesInTransaction_def andThen_Inr_iff rows_Inr Let_def
        split: if_splits prod.splits)
  next
    case monitoring
    then show ?thesis by simp
  qed
  with uuid_mono [OF step_runs_engine [OF assms]] show ?thesis by (simp add: leaseFromStep_def)
qed

text \<open>A token that was drawn and is not the one in the lease never comes back.\<close>

lemma token_gone:
  assumes "steps (repositoryStep rt zf) w es w'" "inj (rt_makeId rt)"
    and "k < db_uuid (nd_tables (fst w))" "map_option cl_token (nd_collectionLease (fst w)) \<noteq> Some (rt_makeId rt k)"
  shows "map_option cl_token (nd_collectionLease (fst w')) \<noteq> Some (rt_makeId rt k)"
  using assms
proof (induction rule: steps.induct)
  case (steps_cons w1 e w2 es w3)
  have "leaseFromStep rt (fst w1) (fst w2)"
    using step_lease [of rt zf "fst w1" "snd w1" e "fst w2" "snd w2"] steps_cons.hyps(1) by simp
  with steps_cons.prems have "k < db_uuid (nd_tables (fst w2))"
    "map_option cl_token (nd_collectionLease (fst w2)) \<noteq> Some (rt_makeId rt k)"
    by (auto simp: leaseFromStep_def inj_eq)
  then show ?case using steps_cons by simp
qed simp

lemma token_kept_drawn:
  assumes "steps (repositoryStep rt zf) w es w'" "k < db_uuid (nd_tables (fst w))"
  shows "k < db_uuid (nd_tables (fst w'))"
  using assms
proof (induction rule: steps.induct)
  case (steps_cons w1 e w2 es w3)
  have "leaseFromStep rt (fst w1) (fst w2)"
    using step_lease [of rt zf "fst w1" "snd w1" e "fst w2" "snd w2"] steps_cons.hyps(1) by simp
  then show ?case using steps_cons by (simp add: leaseFromStep_def)
qed simp

text \<open>What a commit without the lease leaves behind.\<close>

lemma commit_without_lease:
  assumes "commitNotificationCollection env claim batch t1 t2 nd = Inr (changed, nd')"
    and "map_option cl_token (nd_collectionLease nd) \<noteq> Some (cc_token claim)"
  shows "nd_certificateCursor nd' = nd_certificateCursor nd \<and> nd_collectionLease nd' = nd_collectionLease nd \<and>
    db_engine (nd_tables nd') = reconcileHostAvailability (nd_tables nd) (db_engine (nd_tables nd)) t1 \<and>
    (changed \<longleftrightarrow> staleHostIncidents (nd_tables nd) (db_engine (nd_tables nd)) \<noteq> [])"
proof -
  let ?e = "reconcileHostAvailability (nd_tables nd) (db_engine (nd_tables nd)) t1"
  have com: "commitNotificationCollectedBatch (de_runtime env) ((storedRuntime nd)\<lparr>nr_engine := ?e\<rparr>) cfg claim batch t2 n
      = (((storedRuntime nd)\<lparr>nr_engine := ?e\<rparr>, n), False)" for cfg n
    using assms(2) by (auto simp: commitNotificationCollectedBatch_def split: option.splits)
  show ?thesis using assms(1)
  proof (cases rule: commit_Inr)
    case (1 r' m ch)
    with com have r': "storedRuntime nd' = (storedRuntime nd)\<lparr>nr_engine := ?e\<rparr>" "\<not> ch" by auto
    from arg_cong [OF r'(1), of nr_engine] arg_cong [OF r'(1), of nr_certificateCursor]
      arg_cong [OF r'(1), of nr_collectionLease] 1(4) r'(2) show ?thesis by simp
  qed
qed

end
