(* ===== verification/NotificationProperties.thy ===== *)
theory NotificationProperties
  imports NotificationRepository
begin

text \<open>
  Properties of the stored notifications as a whole: the transactions against the engine, the collection
  fence, and what administrators and users can change and see.
\<close>

section \<open>Revisions\<close>

text \<open>An accepted update is based on the stored revision and leads to the next one.\<close>

lemma shared_revision:
  assumes "updateNotificationConfigurationService seal valid owners env rate actor input before now nd = Inr (v, nd')"
  shows "nc_revision (db_configuration (nd_tables before)) = nu_expectedRevision input \<and>
    nc_revision (db_configuration (nd_tables nd)) = nu_expectedRevision input \<and>
    nc_revision (db_configuration (nd_tables nd')) = nu_expectedRevision input + 1"
  using assms
proof (rule shared_Inr)
  fix built
  assume b: "nc_revision (db_configuration (nd_tables nd)) = nu_expectedRevision input"
    "buildNotificationConfiguration seal valid (sharedConfiguration (db_configuration (nd_tables before))) input = Inr built"
    "persistNotificationConfiguration env
      (built\<lparr>nc_channels := nc_channels built @ filter isPersonal (nc_channels (db_configuration (nd_tables before)))\<rparr>)
      (engineConfiguration (built\<lparr>nc_channels := nc_channels built @
        filter isPersonal (nc_channels (db_configuration (nd_tables before)))\<rparr>))
      (newChannelIds (\<lambda>ch. \<not> isPersonal ch) (db_configuration (nd_tables nd)) (nu_channels input)) now nd = Inr nd'"
  from b(3) show ?thesis
    by (rule persist_Inr) (use b(1) build_Inr(1,3) [OF b(2)] in \<open>simp add: sharedConfiguration_def\<close>)
qed

lemma personal_revision:
  assumes "updatePersonalNotificationConfigurationService seal opn valid owners env1 env rate smtp actor input
      before now nd = Inr (v, nd')" "nd' \<noteq> nd"
  shows "nc_revision (db_configuration (nd_tables before)) = pu_expectedRevision input \<and>
    nc_revision (db_configuration (nd_tables nd)) = pu_expectedRevision input \<and>
    nc_revision (db_configuration (nd_tables nd')) = pu_expectedRevision input + 1"
  using assms(1)
proof (cases rule: personal_Inr)
  case untouched
  then show ?thesis using assms(2) by simp
next
  case (stored built enabled ps destinations)
  from stored(10) show ?thesis
    by (rule persist_Inr) (use stored(2) build_Inr(1,3) [OF stored(5)] in
      \<open>simp add: personalConfiguration_def ownConfiguration_def\<close>)
qed

lemma step_configuration:
  assumes "repositoryStep rt zf (nd, c) e (nd', c')"
  shows "db_configuration (nd_tables nd') = db_configuration (nd_tables nd) \<or>
    nc_revision (db_configuration (nd_tables nd)) < nc_revision (db_configuration (nd_tables nd'))"
  using assms
proof (cases rule: repositoryStep.cases)
  case (shared_updated env seal valid owners rate actor input before v)
  then show ?thesis using shared_revision [OF shared_updated(4)] by simp
next
  case (personal_updated env seal opn valid owners env1 rate smtp actor pinput before v)
  then show ?thesis using personal_revision [OF personal_updated(4)] by (cases "nd' = nd") auto
next
  case collection_claimed
  then show ?thesis
    by (auto simp: claimNotificationCollection_def andThen_Inr_iff rows_Inr Let_def split: if_splits prod.splits option.splits)
next
  case collection_committed
  then show ?thesis
    by (auto simp: commitNotificationCollection_def andThen_Inr_iff rows_Inr Let_def split: if_splits prod.splits option.splits)
next
  case delivery_claimed
  then show ?thesis
    by (auto simp: claimNextNotificationDelivery_def andThen_Inr_iff rows_Inr Let_def split: if_splits prod.splits option.splits)
next
  case acknowledged
  then show ?thesis
    by (auto simp: acknowledgeNotificationDelivery_def andThen_Inr_iff rows_Inr Let_def split: if_splits prod.splits option.splits)
next
  case tested
  then show ?thesis
    by (auto simp: claimPersonalTest_def andThen_Inr_iff rows_Inr Let_def split: if_splits prod.splits option.splits)
next
  case backups
  then show ?thesis
    by (auto simp: enqueueBackupOutcomesInTransaction_def andThen_Inr_iff rows_Inr Let_def split: if_splits prod.splits option.splits)
next
  case monitoring
  then show ?thesis by simp
qed

lemma same_revision_same_configuration:
  assumes "steps (repositoryStep rt zf) w es w'"
  shows "nc_revision (db_configuration (nd_tables (fst w))) \<le> nc_revision (db_configuration (nd_tables (fst w'))) \<and>
    (nc_revision (db_configuration (nd_tables (fst w))) = nc_revision (db_configuration (nd_tables (fst w'))) \<longrightarrow>
     db_configuration (nd_tables (fst w)) = db_configuration (nd_tables (fst w')))"
  using assms
proof (induction rule: steps.induct)
  case (steps_cons w1 e w2 es w3)
  have "db_configuration (nd_tables (fst w2)) = db_configuration (nd_tables (fst w1)) \<or>
      nc_revision (db_configuration (nd_tables (fst w1))) < nc_revision (db_configuration (nd_tables (fst w2)))"
    by (rule step_configuration [of rt zf "fst w1" "snd w1" e "fst w2" "snd w2"]) (simp add: steps_cons.hyps(1))
  then show ?case
  proof
    assume "db_configuration (nd_tables (fst w2)) = db_configuration (nd_tables (fst w1))"
    from steps_cons.IH [unfolded this] show ?thesis .
  next
    assume "nc_revision (db_configuration (nd_tables (fst w1))) < nc_revision (db_configuration (nd_tables (fst w2)))"
    moreover note conjunct1 [OF steps_cons.IH]
    ultimately show ?thesis by linarith
  qed
qed simp

section \<open>Permissions\<close>

lemma checkChannels_Inr:
  "checkChannels ps destinations cis = Inr () \<longleftrightarrow> list_all (\<lambda>ci.
     set (ci_events ci) \<subseteq> set (getAllowedNotificationCategories ps) \<and>
     (case destinations (ci_id ci) of None \<Rightarrow> True | Some d \<Rightarrow>
        hasPrivateCidrs d \<longrightarrow> canUsePrivateNotificationDestinations ps)) cis"
  by (induction cis) (auto split: option.splits)

lemma checkPolicy_Inr:
  "checkPolicy ps input destinations = Inr () \<longleftrightarrow>
     (pu_resumeDelivery input = None \<or> canUsePrivateNotificationDestinations ps) \<and>
     checkChannels ps destinations (pu_channels input) = Inr ()"
  by (auto simp: checkPolicy_def)

lemma built_shared:
  assumes "buildNotificationConfiguration seal valid (sharedConfiguration c) input = Inr built"
    and "ch \<in> set (nc_channels built)"
  shows "\<not> isPersonal ch"
proof -
  from list_all2_right [OF build_Inr(6) [OF assms(1)] assms(2)] obtain ci where
    "buildChannel seal valid (sharedConfiguration c) ci = Inr ch" by blast
  from buildChannel_Inr(5) [OF this] show ?thesis by (auto simp: isPersonal_def sharedConfiguration_def)
qed

section \<open>Properties\<close>



text \<open>
  Claim C24: a collection claim commits at most once. After a claim was committed, whatever happens in
  between, committing it again stores nothing of its batch: cursor and lease stay as they are, and the
  engine only loses the host incidents whose policy changed.
\<close>

theorem collection_commits_once:
  assumes inj: "inj (rt_makeId rt)"
    and "repositoryStep rt zf (nd0, c0) (CollectionClaimed (Some claim)) w1"
    and "steps (repositoryStep rt zf) w1 es w2"
    and "repositoryStep rt zf w2 (CollectionCommitted claim) w3"
    and "steps (repositoryStep rt zf) w3 fs (nd4, c4)"
    and again: "commitNotificationCollection env claim batch t1 t2 nd4 = Inr (changed, nd5)"
  shows "nd_certificateCursor nd5 = nd_certificateCursor nd4 \<and> nd_collectionLease nd5 = nd_collectionLease nd4 \<and>
    db_engine (nd_tables nd5) = reconcileHostAvailability (nd_tables nd4) (db_engine (nd_tables nd4)) t1"
proof -
  let ?k = "db_uuid (nd_tables nd0)"
  have token: "cc_token claim = rt_makeId rt ?k" and k1: "?k < db_uuid (nd_tables (fst w1))"
    using assms(2) by (auto elim!: repositoryStepE dest!: claim_lease simp: envOf_def)
  have "map_option cl_token (nd_collectionLease (fst w3)) \<noteq> Some (cc_token claim)"
    using assms(4) by (auto elim!: repositoryStepE dest!: commit_lease)
  moreover have k3: "?k < db_uuid (nd_tables (fst w3))"
    using token_kept_drawn [OF assms(3) k1] token_kept_drawn [of rt zf w2 _ w3 ?k] assms(4)
    by (blast intro: steps_cons steps_nil)
  ultimately have "map_option cl_token (nd_collectionLease nd4) \<noteq> Some (cc_token claim)"
    using token_gone [OF assms(5) inj k3] token by simp
  then show ?thesis using commit_without_lease [OF again] by blast
qed

text \<open>
  Claim C25: users only change their own channels. When a user's update succeeds on a snapshot taken
  earlier in the run, all other channels are stored exactly as they were just before the write, even when
  others wrote in between.
\<close>

theorem personal_update_keeps_foreign_channels:
  assumes "steps (repositoryStep rt zf) (before, c0) es (nd, c)"
    and "updatePersonalNotificationConfigurationService seal opn valid owners env1 env rate smtp actor input
      before now nd = Inr (v, nd')"
  shows "filter (\<lambda>ch. \<not> ownedBy actor ch) (nc_channels (db_configuration (nd_tables nd'))) =
    filter (\<lambda>ch. \<not> ownedBy actor ch) (nc_channels (db_configuration (nd_tables nd)))"
  using assms(2)
proof (cases rule: personal_Inr)
  case (stored built enabled ps destinations)
  have same: "db_configuration (nd_tables before) = db_configuration (nd_tables nd)"
    using same_revision_same_configuration [OF assms(1)] stored(2) build_Inr(1) [OF stored(5)]
    by (simp add: ownConfiguration_def)
  have "filter (\<lambda>ch. \<not> ownedBy actor ch)
      (nc_channels (personalConfiguration actor input (db_configuration (nd_tables before)) built)) =
    filter (\<lambda>ch. \<not> ownedBy actor ch) (nc_channels (db_configuration (nd_tables before)))"
    by (simp add: personalConfiguration_def filter_map comp_def ownedBy_def)
  with same stored(10) show ?thesis by (elim persist_Inr) simp
qed simp

text \<open>
  Administrators only change the shared channels. When an administrator's update succeeds on a
  snapshot taken earlier in the run, every personal channel is stored exactly as it was just before the write.
\<close>

theorem shared_update_keeps_personal_channels:
  assumes "steps (repositoryStep rt zf) (before, c0) es (nd, c)"
    and "updateNotificationConfigurationService seal valid owners env rate actor input before now nd = Inr (v, nd')"
  shows "filter isPersonal (nc_channels (db_configuration (nd_tables nd'))) =
    filter isPersonal (nc_channels (db_configuration (nd_tables nd)))"
  using assms(2)
proof (rule shared_Inr)
  fix built
  let ?c = "db_configuration (nd_tables before)"
  assume b: "buildNotificationConfiguration seal valid (sharedConfiguration ?c) input = Inr built"
    "persistNotificationConfiguration env
      (built\<lparr>nc_channels := nc_channels built @ filter isPersonal (nc_channels ?c)\<rparr>)
      (engineConfiguration (built\<lparr>nc_channels := nc_channels built @ filter isPersonal (nc_channels ?c)\<rparr>))
      (newChannelIds (\<lambda>ch. \<not> isPersonal ch) (db_configuration (nd_tables nd)) (nu_channels input)) now nd = Inr nd'"
  have same: "?c = db_configuration (nd_tables nd)"
    using same_revision_same_configuration [OF assms(1)] shared_revision [OF assms(2)] by simp
  have "filter isPersonal (nc_channels built) = []"
    using built_shared [OF b(1)] by (simp add: filter_empty_conv)
  then show ?thesis using b(2) same by (elim persist_Inr) simp
qed

text \<open>
  Claim C27: a user's update stays within the user's permissions at the time of the write. Every channel
  listens only to categories the user may see, a new destination in a private network needs the permission
  to manage notifications, and without that permission a pause after a restore stays in place.
\<close>

theorem personal_update_respects_permissions:
  assumes "updatePersonalNotificationConfigurationService seal opn valid owners env1 env rate smtp actor input
      before now nd = Inr (v, nd')" "nd' \<noteq> nd"
  shows "\<exists>ps. de_owners env actor = Some ps \<and> APP_ACCESS \<in> set ps \<and>
    list_all (\<lambda>ci. set (ci_events ci) \<subseteq> set (getAllowedNotificationCategories ps)) (pu_channels input) \<and>
    (NOTIFICATIONS_MANAGE \<in> set ps \<or>
      list_all (\<lambda>ci. \<forall>d. ci_destination ci = Some d \<longrightarrow> \<not> hasPrivateCidrs d) (pu_channels input) \<and>
      nc_pausedAfterRestore (db_configuration (nd_tables nd')) =
        nc_pausedAfterRestore (db_configuration (nd_tables before)))"
  using assms(1)
proof (cases rule: personal_Inr)
  case untouched
  then show ?thesis using assms(2) by simp
next
  case (stored built enabled ps destinations)
  have "nc_pausedAfterRestore (db_configuration (nd_tables nd')) =
      nc_pausedAfterRestore (personalConfiguration actor input (db_configuration (nd_tables before)) built)"
    using stored(10) by (elim persist_Inr) simp
  with stored(6-9) show ?thesis
    by (intro exI [of _ ps])
      (fastforce simp: checkPolicy_Inr checkChannels_Inr canUsePrivateNotificationDestinations_def
        personalConfiguration_def list_all_iff split: option.splits)
qed


section \<open>A run\<close>

text \<open>
  An installation whose administrator adds a shared channel; a worker then claims the collection, commits
  it, and a user adds a channel of its own.
\<close>

definition storeEnv :: db_env where
  "storeEnv = \<lparr>de_runtime = sampleRuntime, de_rowId = (\<lambda>n. dec (int n)), de_formats = sampleFormats,
     de_owners = (\<lambda>u. if u = ''admin'' then Some PERMISSION_REGISTRY
       else if u = ''user'' then Some [APP_ACCESS, DDNS_VIEW] else None)\<rparr>"

definition store0 :: notification_db where
  "store0 = \<lparr>nd_tables = \<lparr>db_policies = [], db_observations = [], db_incidents = [], db_hosts = [],
       db_domains = [], db_rowId = 0, db_uuid = 0, db_configuration = DEFAULT_NOTIFICATION_CONFIGURATION,
       db_engine = createNotificationState\<rparr>, nd_certificateCursor = None, nd_collectionLease = None\<rparr>"

definition storeSeal :: "string \<Rightarrow> destination \<Rightarrow> encrypted_destination" where
  "storeSeal cid d = \<lparr>ed_ciphertext = cid, ed_iv = ''i''\<rparr>"

definition storeChannel :: "string \<Rightarrow> channel_input" where
  "storeChannel cid = \<lparr>ci_id = cid, ci_name = ''Ops'', ci_kind = Webhook, ci_enabled = True, ci_events = [Ddns],
     ci_minimumSeverity = Warning, ci_thresholdSeconds = 0, ci_recovery = True,
     ci_destination = Some (WebhookDestination ''https://hooks.example'' None [])\<rparr>"

definition storeInput :: configuration_input where
  "storeInput = \<lparr>nu_expectedRevision = 0, nu_enabled = True, nu_channels = [storeChannel ''a'']\<rparr>"

definition storePersonal :: personal_input where
  "storePersonal = \<lparr>pu_expectedRevision = 1, pu_channels = [storeChannel ''b''], pu_resumeDelivery = None\<rparr>"

definition storeConfiguration :: stored_configuration where
  "storeConfiguration = \<lparr>nc_revision = 1, nc_enabled = True, nc_pausedAfterRestore = False,
     nc_channels = [\<lparr>ch_id = ''a'', ch_name = ''Ops'', ch_kind = Webhook, ch_revision = 1, ch_enabled = True,
       ch_events = [Ddns], ch_minimumSeverity = Warning, ch_thresholdSeconds = 0, ch_recovery = True,
       sc_ownerUserId = None, sc_destination = \<lparr>ed_ciphertext = ''a'', ed_iv = ''i''\<rparr>,
       sc_hasAuthorization = False\<rparr>]\<rparr>"

definition store1 :: notification_db where
  "store1 = store0\<lparr>nd_tables := (nd_tables store0)\<lparr>db_configuration := storeConfiguration\<rparr>\<rparr>"

definition storeClaim :: collection_claim where
  "storeClaim = \<lparr>cc_token = ''0'', cc_configurationRevision = 1, cc_certificateCursor = None\<rparr>"

definition store2 :: notification_db where
  "store2 = store1\<lparr>nd_tables := (nd_tables store1)\<lparr>db_uuid := 1\<rparr>,
     nd_collectionLease := Some \<lparr>cl_token = ''0'', cl_expiresAt = 92000\<rparr>\<rparr>"

definition storeBatch :: "observation list \<times> string option" where
  "storeBatch = ([], None)"

definition store3 :: notification_db where
  "store3 = store2\<lparr>nd_collectionLease := None, nd_certificateCursor := snd storeBatch\<rparr>"

definition storeView :: configuration_summary where
  "storeView = summarizeNotificationConfiguration storeConfiguration"

definition storeOwn :: "request_error + personal_settings \<times> notification_db" where
  "storeOwn = updatePersonalNotificationConfigurationService storeSeal (\<lambda>_. Inl ConfigurationUnavailableError)
     (\<lambda>_. True) (de_owners storeEnv) storeEnv storeEnv True False ''user'' storePersonal store3 5000 store3"

lemma store_env: "envOf sampleRuntime sampleFormats storeEnv"
  by (simp add: envOf_def storeEnv_def)

lemma store_init: "repositoryInit (store0, 0)"
  by (simp add: repositoryInit_def store0_def storedRuntime_def createRuntime_def)

lemma store_shared:
  "updateNotificationConfigurationService storeSeal (\<lambda>_. True) (de_owners storeEnv) storeEnv True
     ''admin'' storeInput store0 1000 store0 = Inr (storeView, store1)"
  by code_simp

lemma store_claimed: "claimNotificationCollection storeEnv store1 2000 store1 = Inr (Some storeClaim, store2)"
  by code_simp

lemma store_committed:
  "commitNotificationCollection storeEnv storeClaim storeBatch 3000 3000 store2 = Inr (False, store3)"
  by code_simp

lemma store_again:
  "commitNotificationCollection storeEnv storeClaim ([], None) 4000 4000 store3 = Inr (False, store3)"
  by code_simp

lemma store_own: "storeOwn = Inr (fst (projr storeOwn), snd (projr storeOwn))"
proof -
  have "\<not> isl storeOwn" by code_simp
  then show ?thesis by (cases storeOwn) auto
qed

lemma store_own_saved: "nc_revision (db_configuration (nd_tables (snd (projr storeOwn)))) = 2"
  by code_simp

lemma store_step1:
  "repositoryStep sampleRuntime sampleFormats (store0, 0) (SharedChannelsUpdated ''admin'' storeInput) (store1, 1000)"
  by (rule shared_updated [OF store_env _ store_shared]) simp

lemma store_step2:
  "repositoryStep sampleRuntime sampleFormats (store1, 1000) (CollectionClaimed (Some storeClaim)) (store2, 2000)"
  by (rule collection_claimed [OF store_env _ store_claimed]) simp

lemma store_step3:
  "repositoryStep sampleRuntime sampleFormats (store2, 2000) (CollectionCommitted storeClaim) (store3, 3000)"
  by (rule collection_committed [OF store_env _ _ _ store_committed])
    (simp_all add: storeBatch_def collectable_def)

lemma store_reach: "reach repositoryInit (repositoryStep sampleRuntime sampleFormats) (store3, 3000)"
  using store_init store_step1 store_step2 store_step3 by (meson reach_init reach_step)



theorem collection_commits_once_witness:
  "nd_certificateCursor store3 = snd storeBatch \<and>
   (\<exists>nd5. commitNotificationCollection storeEnv storeClaim ([], None) 4000 4000 store3 = Inr (False, nd5) \<and>
     nd_certificateCursor nd5 = snd storeBatch)"
  using collection_commits_once [OF inj_sample store_step2 steps_nil store_step3 steps_nil store_again]
  by (simp add: store_again) (simp add: store3_def)

theorem personal_update_keeps_foreign_channels_witness:
  "filter (\<lambda>ch. \<not> ownedBy ''user'' ch) (nc_channels (db_configuration (nd_tables (snd (projr storeOwn))))) =
   nc_channels storeConfiguration"
proof -
  have "filter (\<lambda>ch. \<not> ownedBy ''user'' ch) (nc_channels (db_configuration (nd_tables store3))) =
      nc_channels storeConfiguration"
    by (simp add: store3_def store2_def store1_def storeConfiguration_def ownedBy_def)
  then show ?thesis
    using personal_update_keeps_foreign_channels [OF steps_nil store_own [unfolded storeOwn_def]]
    by (simp only: storeOwn_def)
qed

theorem shared_update_keeps_personal_channels_witness:
  "filter isPersonal (nc_channels (db_configuration (nd_tables store1))) =
   filter isPersonal (nc_channels (db_configuration (nd_tables store0)))"
  by (rule shared_update_keeps_personal_channels [OF steps_nil store_shared])

theorem personal_update_respects_permissions_witness:
  "\<exists>ps. de_owners storeEnv ''user'' = Some ps \<and> APP_ACCESS \<in> set ps \<and>
    list_all (\<lambda>ci. set (ci_events ci) \<subseteq> set (getAllowedNotificationCategories ps)) (pu_channels storePersonal)"
proof -
  have "nc_revision (db_configuration (nd_tables store3)) = 1"
    by (simp add: store3_def store2_def store1_def storeConfiguration_def)
  with store_own_saved have "snd (projr storeOwn) \<noteq> store3" by auto
  then show ?thesis
    using personal_update_respects_permissions [OF store_own [unfolded storeOwn_def]]
    unfolding storeOwn_def by blast
qed


end
