(* ===== verification/NotificationWorker.thy ===== *)
theory NotificationWorker
  imports NotificationProperties
begin

text \<open>
  The worker that collects signals and sends deliveries: \<^verbatim>\<open>notification-worker.ts\<close>, the authorization in
  front of the transports (\<^verbatim>\<open>notification-delivery.server.ts\<close>) and the transport boundary
  (\<^verbatim>\<open>delivery.service.ts\<close>), all under \<^verbatim>\<open>web/src/server/Notifications\<close>.
\<close>

section \<open>Sending one delivery\<close>

text \<open>What a call may throw: an error of the notification domain, or anything else.\<close>

datatype thrown = DomainThrown | OtherThrown

text \<open>
  The decision before a transport runs: a result without sending, or the destination to send to.
  \<open>authorized\<close> is the outcome of the authorization, \<open>openDestination\<close> decrypts.
\<close>

definition authorizedDestination :: "thrown + delivery_authorization option \<Rightarrow>
    (stored_channel \<Rightarrow> thrown + destination) \<Rightarrow> bool \<Rightarrow> delivery_result + thrown + destination" where
  "authorizedDestination authorized openDestination aborted =
     (case authorized of
        Inl e \<Rightarrow> Inr (Inl e)
      | Inr None \<Rightarrow> Inl (DeliveryFailure CancelledError False None)
      | Inr (Some auth) \<Rightarrow>
          (case openDestination (da_channel auth) of
             Inl e \<Rightarrow> Inr (Inl e)
           | Inr destination \<Rightarrow>
               if hasPrivateCidrs destination \<and> \<not> da_allowPrivateDestinations auth
               then Inl (DeliveryFailure DestinationBlocked False None)
               else if aborted then Inl (DeliveryFailure CancelledError True None)
               else Inr (Inr destination)))"

definition thrownResult :: "thrown \<Rightarrow> delivery_result" where
  "thrownResult e = (case e of DomainThrown \<Rightarrow> DeliveryFailure ConfigurationUnavailable False None
     | OtherThrown \<Rightarrow> DeliveryFailure DestinationUnavailable True None)"

definition deliverAuthorizedNotificationClaim :: "thrown + delivery_authorization option \<Rightarrow>
    (stored_channel \<Rightarrow> thrown + destination) \<Rightarrow> bool \<Rightarrow> (destination \<Rightarrow> payload \<Rightarrow> thrown + delivery_result) \<Rightarrow>
    delivery_claim \<Rightarrow> delivery_result" where
  "deliverAuthorizedNotificationClaim authorized openDestination aborted deliver claim =
     (case authorizedDestination authorized openDestination aborted of
        Inl r \<Rightarrow> r
      | Inr (Inl e) \<Rightarrow> thrownResult e
      | Inr (Inr destination) \<Rightarrow>
          (case deliver destination (cd_payload claim) of Inl e \<Rightarrow> thrownResult e | Inr r \<Rightarrow> r))"

text \<open>
  The payload that crosses the transport boundary. \<open>managementUrl\<close> is the address of the host page under
  the public origin, if one is configured.
\<close>

definition safePayload :: "string option \<Rightarrow> payload \<Rightarrow> payload" where
  "safePayload managementUrl p =
     \<lparr>pl_id = pl_id p, pl_incidentId = pl_incidentId p, pl_type = pl_type p, pl_category = pl_category p,
      pl_severity = pl_severity p, pl_resourceId = pl_resourceId p, pl_code = pl_code p,
      pl_occurredAt = pl_occurredAt p, pl_startedAt = pl_startedAt p, pl_failures = pl_failures p,
      pl_host = map_option (\<lambda>h. \<lparr>hn_domain = hn_domain h, hn_failureCode = hn_failureCode h,
        hn_detectedAt = hn_detectedAt h, hn_recoveryStartedAt = hn_recoveryStartedAt h,
        hn_managementPath = ''/proxy-hosts'', hn_managementUrl = managementUrl\<rparr>) (pl_host p)\<rparr>"

text \<open>\<open>transport\<close> is the mail or webhook transport; \<open>None\<close> when it throws.\<close>

definition deliverNotification :: "(destination \<Rightarrow> bool) \<Rightarrow> string option \<Rightarrow>
    (destination \<Rightarrow> payload \<Rightarrow> delivery_result option) \<Rightarrow> destination \<Rightarrow> payload \<Rightarrow> delivery_result" where
  "deliverNotification validDestination managementUrl transport destination p =
     (if \<not> validDestination destination then DeliveryFailure DestinationBlocked False None
      else (case transport destination (safePayload managementUrl p) of
          None \<Rightarrow> DeliveryFailure DestinationUnavailable True None
        | Some r \<Rightarrow> r))"

section \<open>One tick\<close>

definition collectedBatch :: "bool \<Rightarrow> collection_claim \<Rightarrow> (observation list \<times> string option) option \<Rightarrow>
    observation list \<times> string option" where
  "collectedBatch aborted claim collected =
     (let empty = ([], cc_certificateCursor claim) in
      if aborted then empty else (case collected of None \<Rightarrow> empty | Some batch \<Rightarrow> batch))"

definition acknowledgedResult :: "bool \<Rightarrow> delivery_result \<Rightarrow> delivery_result" where
  "acknowledgedResult aborted r =
     (case r of
        DeliveryFailure CancelledError _ _ \<Rightarrow> if aborted then DeliveryFailure CancelledError True None else r
      | _ \<Rightarrow> r)"

text \<open>
  The two halves of a tick run beside every other writer: between their own transactions any number of
  others may commit. The delivery loop ends when the signal is aborted, when there is nothing to claim or
  after four deliveries; its trace has, for each claim, the database right after the acknowledgement.
\<close>

inductive collectTick :: "runtime \<Rightarrow> formats \<Rightarrow> notification_db \<times> int \<Rightarrow> collection_claim option \<Rightarrow>
    notification_db \<times> int \<Rightarrow> bool"
  for rt :: runtime and zf :: formats where
  nothing: "repositoryStep rt zf w (CollectionClaimed None) w' \<Longrightarrow> collectTick rt zf w None w'"
| collected: "repositoryStep rt zf w (CollectionClaimed (Some claim)) w1 \<Longrightarrow>
    steps (repositoryStep rt zf) w1 es (nd, c) \<Longrightarrow> envOf rt zf env \<Longrightarrow> c \<le> t1 \<Longrightarrow> t1 \<le> t2 \<Longrightarrow>
    collectable (fst (collectedBatch aborted claim found)) \<Longrightarrow>
    commitNotificationCollection env claim (collectedBatch aborted claim found) t1 t2 nd = Inr (changed, nd') \<Longrightarrow>
    collectTick rt zf w (Some claim) (nd', t2)"

inductive deliverTick :: "runtime \<Rightarrow> formats \<Rightarrow> nat \<Rightarrow> notification_db \<times> int \<Rightarrow>
    (delivery_claim \<times> delivery_result \<times> notification_db) list \<Rightarrow> notification_db \<times> int \<Rightarrow> bool"
  for rt :: runtime and zf :: formats where
  full: "deliverTick rt zf 0 w [] w"
| aborted: "deliverTick rt zf (Suc n) w [] w"
| idle: "repositoryStep rt zf w (DeliveryClaimed None) w' \<Longrightarrow> deliverTick rt zf (Suc n) w [] w'"
| delivered: "repositoryStep rt zf w (DeliveryClaimed (Some claim)) w1 \<Longrightarrow>
    steps (repositoryStep rt zf) w1 es w2 \<Longrightarrow>
    repositoryStep rt zf w2 (DeliveryAcknowledged (cd_leaseToken claim) (acknowledgedResult stopped res)) (nd, c) \<Longrightarrow>
    steps (repositoryStep rt zf) (nd, c) fs w3 \<Longrightarrow> deliverTick rt zf n w3 trace w4 \<Longrightarrow>
    deliverTick rt zf (Suc n) w ((claim, acknowledgedResult stopped res, nd) # trace) w4"

section \<open>Acknowledged leases are gone\<close>

lemma reconcile_tokens:
  assumes "\<And>d. d \<in> set (st_deliveries s) \<Longrightarrow> leaseShapeOk d" "token \<in> set (tokens (st_deliveries (reconcile cfg now s)))"
  shows "\<exists>d \<in> set (st_deliveries s). leasedTo token now d"
proof -
  obtain ds incs where sw: "sweep (reconcileDelivery cfg now) (st_deliveries s) (st_incidents s) = (ds, incs)" by force
  from assms(2) obtain d' where d': "d' \<in> set ds" "dl_leaseToken d' = Some token"
    by (auto simp: reconcile_def sw Let_def set_tokens)
  then obtain d js where d: "d \<in> set (st_deliveries s)" "d' = fst (reconcileDelivery cfg now d js)"
    using sweep_fst [of d' "reconcileDelivery cfg now" "st_deliveries s" "st_incidents s"] sw by auto
  with d' assms(1) [OF d(1)] have "leasedTo token now d"
    by (auto simp: reconcileDelivery_def terminate_def Let_def leasedTo_def leaseShapeOk_def isActive_def
        split: if_splits)
  with d(1) show ?thesis ..
qed

lemma settle_token [simp]: "dl_leaseToken (fst (settleDelivery cfg r now d incs)) = None"
  by (cases r) (auto simp: settleDelivery_def Let_def terminate_def)

lemma settle_shape: "leaseShapeOk d \<Longrightarrow> leaseShapeOk (fst (settleDelivery cfg r now d incs))"
  by (cases r) (auto simp: settleDelivery_def Let_def terminate_def leaseShapeOk_def split: if_splits)

lemma tokens_update_none:
  assumes "k < length ds" "dl_leaseToken (ds ! k) = Some token" "dl_leaseToken e = None" "distinct (tokens ds)"
  shows "token \<notin> set (tokens (ds[k := e]))"
proof -
  have ds: "ds = take k ds @ ds ! k # drop (Suc k) ds" by (rule id_take_nth_drop [OF assms(1)])
  have "distinct (tokens (take k ds @ ds ! k # drop (Suc k) ds))" using assms(4) ds by simp
  then have "token \<notin> set (tokens (take k ds))" "token \<notin> set (tokens (drop (Suc k) ds))"
    using assms(2) by auto
  then show ?thesis using assms(1,3) by (simp add: upd_conv_take_nth_drop)
qed

lemma finish_releases:
  assumes ok: "stateOk s" "distinct (tokens (st_deliveries s))"
  shows "token \<notin> set (tokens (st_deliveries (finishNotificationDelivery cfg token r now s)))"
proof
  assume bad: "token \<in> set (tokens (st_deliveries (finishNotificationDelivery cfg token r now s)))"
  have shape: "leaseShapeOk d" if "d \<in> set (st_deliveries s)" for d
    using ok(1) that by (simp add: stateOk_def deliveryOk_def)
  show False
  proof (cases "find_index (leasedTo token now) (st_deliveries s)")
    case None
    with bad have "\<exists>d \<in> set (st_deliveries s). leasedTo token now d"
      by (intro reconcile_tokens [OF shape]) (simp_all add: finishNotificationDelivery_def)
    with None show False by (auto simp: find_index_None)
  next
    case (Some k)
    have k: "k < length (st_deliveries s)" "leasedTo token now (st_deliveries s ! k)"
      using find_index_Some [OF Some] by auto
    obtain e incs where e: "settleDelivery cfg r now (st_deliveries s ! k) (st_incidents s) = (e, incs)" by force
    let ?t = "s\<lparr>st_deliveries := (st_deliveries s)[k := e], st_incidents := incs\<rparr>"
    have none: "dl_leaseToken e = None" using settle_token [of cfg r now "st_deliveries s ! k" "st_incidents s"] e by simp
    have "leaseShapeOk e"
      using settle_shape [OF shape [OF nth_mem [OF k(1)]], of cfg r now "st_incidents s"] e by simp
    then have "leaseShapeOk d" if "d \<in> set (st_deliveries ?t)" for d
      using that shape set_update_subset_insert [of "st_deliveries s" k e] by auto
    moreover have "token \<in> set (tokens (st_deliveries (reconcile cfg now ?t)))"
      using bad Some e by (simp add: finishNotificationDelivery_def)
    ultimately obtain d where "d \<in> set (st_deliveries ?t)" "leasedTo token now d"
      using reconcile_tokens [of ?t token cfg now] by blast
    then have "token \<in> set (tokens ((st_deliveries s)[k := e]))" by (auto simp: set_tokens leasedTo_def)
    moreover have "token \<notin> set (tokens ((st_deliveries s)[k := e]))"
      using tokens_update_none [OF k(1) _ none ok(2)] k(2) by (simp add: leasedTo_def)
    ultimately show False by simp
  qed
qed

lemma acknowledge_releases:
  assumes "repositoryInv rt zf (nd, c)" "inj (rt_makeId rt)"
    and "acknowledgeNotificationDelivery env token res now nd = Inr nd'"
  shows "token \<notin> set (tokens (st_deliveries (db_engine (nd_tables nd'))))"
proof -
  let ?s = "db_engine (nd_tables nd)"
  have "stateOk ?s" "distinct (tokens (st_deliveries ?s))"
    using assms(1,2) by (simp_all add: repositoryInv_def engineInv_def worldOk_def queueOk_def)
  note this finish_releases [OF this, of token "engineConfiguration (ownerView env nd)" res now]
  moreover have "db_engine (nd_tables nd') =
      finishNotificationDelivery (engineConfiguration (ownerView env nd)) token res now ?s"
    using assms(3)
    by (auto simp: acknowledgeNotificationDelivery_def andThen_Inr_iff rows_Inr Let_def split: if_splits)
  ultimately show ?thesis by simp
qed

lemma inv_after:
  assumes "repositoryInv rt zf w" "repositoryStep rt zf w e w1" "steps (repositoryStep rt zf) w1 es w2"
  shows "repositoryInv rt zf w2"
  using repository.inv_steps [OF assms(3) repository.inv_step [OF assms(1,2)]] .

section \<open>Properties\<close>


text \<open>
  Claim C30: a transport only runs for a delivery its owner may still receive. When the authorization of a
  claim leads to a destination, notifications are on, the claimed channel is still stored with the claimed
  revision, enabled and subscribed to the category, and the destination is that channel's. A personal
  channel's owner is active, may use the application and see the category, and a destination in a private
  network needs the permission to manage notifications.
\<close>

theorem transmissions_are_authorized:
  assumes "authorizeNotificationDelivery env context claim now nd = Inr auth"
    and "authorizedDestination (Inr auth) openDestination aborted = Inr (Inr destination)"
  shows "nc_enabled (db_configuration (nd_tables nd)) \<and> \<not> nc_pausedAfterRestore (db_configuration (nd_tables nd)) \<and>
    (\<exists>ch \<in> set (nc_channels (db_configuration (nd_tables nd))).
      ch_id ch = cd_channelId claim \<and> ch_revision ch = cd_channelRevision claim \<and> ch_enabled ch \<and>
      pl_category (cd_payload claim) \<in> set (ch_events ch) \<and> openDestination ch = Inr destination \<and>
      (isPersonal ch \<longrightarrow> (\<exists>ps. de_owners env (the (sc_ownerUserId ch)) = Some ps \<and> APP_ACCESS \<in> set ps \<and>
        pl_category (cd_payload claim) \<in> set (getAllowedNotificationCategories ps) \<and>
        (hasPrivateCidrs destination \<longrightarrow> NOTIFICATIONS_MANAGE \<in> set ps))))"
proof -
  let ?c = "db_configuration (nd_tables nd)"
  from assms(2) obtain da where da: "auth = Some da" "openDestination (da_channel da) = Inr destination"
    "hasPrivateCidrs destination \<Longrightarrow> da_allowPrivateDestinations da"
    by (auto simp: authorizedDestination_def split: option.splits sum.splits if_splits)
  from assms(1) da(1) have on: "nc_enabled ?c" "\<not> nc_pausedAfterRestore ?c"
    by (auto simp: authorizeNotificationDelivery_def andThen_Inr_iff rows_Inr acceptsNotifications_def
        split: if_splits)
  from assms(1) da(1) on obtain ch where ch: "find (authorizedChannel claim) (nc_channels ?c) = Some ch"
    by (auto simp: authorizeNotificationDelivery_def andThen_Inr_iff rows_Inr acceptsNotifications_def
        split: option.splits if_splits)
  then have mem: "ch \<in> set (nc_channels ?c)" "authorizedChannel claim ch" by (auto simp: find_Some_iff)
  from assms(1) da(1) on ch have "da_channel da = ch \<and> (isPersonal ch \<longrightarrow>
      (\<exists>ps. de_owners env (the (sc_ownerUserId ch)) = Some ps \<and> APP_ACCESS \<in> set ps \<and>
        pl_category (cd_payload claim) \<in> set (getAllowedNotificationCategories ps) \<and>
        (da_allowPrivateDestinations da \<longrightarrow> NOTIFICATIONS_MANAGE \<in> set ps)))"
    by (auto simp: authorizeNotificationDelivery_def andThen_Inr_iff rows_Inr acceptsNotifications_def isPersonal_def
        canUsePrivateNotificationDestinations_def split: option.splits if_splits)
  with da mem on show ?thesis
    by (intro conjI bexI [of _ ch]) (auto simp: authorizedChannel_def)
qed


definition workerClaim :: delivery_claim where
  "workerClaim = \<lparr>cd_id = ''2'', cd_channelId = ''a'', cd_channelRevision = 1, cd_payload = samplePayload,
     cd_leaseToken = ''3'', cd_channel = hd (nc_channels storeConfiguration)\<rparr>"

definition workerOpen :: "stored_channel \<Rightarrow> thrown + destination" where
  "workerOpen ch = Inr (WebhookDestination ''https://hooks.example'' None [])"

lemma worker_authorized:
  "authorizeNotificationDelivery storeEnv (\<lambda>_ _. None) workerClaim 4000 store3 =
     Inr (Some \<lparr>da_channel = hd (nc_channels storeConfiguration), da_allowPrivateDestinations = True\<rparr>)"
  by code_simp

theorem transmissions_are_authorized_witness:
  "\<exists>ch \<in> set (nc_channels (db_configuration (nd_tables store3))).
     ch_id ch = ''a'' \<and> ch_revision ch = 1 \<and> ch_enabled ch \<and>
     workerOpen ch = Inr (WebhookDestination ''https://hooks.example'' None [])"
proof -
  have "authorizedDestination (Inr (Some \<lparr>da_channel = hd (nc_channels storeConfiguration),
      da_allowPrivateDestinations = True\<rparr>)) workerOpen False = Inr (Inr (WebhookDestination ''https://hooks.example'' None []))"
    by (simp add: authorizedDestination_def workerOpen_def)
  from transmissions_are_authorized [OF worker_authorized this] show ?thesis
    by (auto simp: workerClaim_def)
qed

end
