(* ===== verification/EngineTermination.thy ===== *)
theory EngineTermination
  imports EngineProperties
begin

text \<open>
  Retrying ends: over any run of the engine one delivery is handed out at most eight times, however often it fails and
  whatever else happens to the queue.
\<close>

section \<open>Runs with the claims of one delivery\<close>

inductive sends :: "runtime \<Rightarrow> formats \<Rightarrow> string \<Rightarrow> world \<Rightarrow> nat \<Rightarrow> world \<Rightarrow> bool"
  for rt :: runtime and zf :: formats and i :: string where
  finished: "sends rt zf i w 0 w"
| sent: "c \<le> now \<Longrightarrow> distinctChannels cfg \<Longrightarrow> claimNotificationDelivery rt cfg now (s, n) = ((t, m), Some cd) \<Longrightarrow> cd_id cd = i \<Longrightarrow>
    sends rt zf i (t, m, now) k w \<Longrightarrow> sends rt zf i (s, n, c) (Suc k) w"
| other: "engineStep rt zf v e u \<Longrightarrow> sends rt zf i u k w \<Longrightarrow> sends rt zf i v k w"

section \<open>Attempts are counted up\<close>

definition attemptsFrom :: "runtime \<Rightarrow> string \<Rightarrow> nat \<Rightarrow> world \<Rightarrow> bool" where
  "attemptsFrom rt i a w = (case w of (s, n, c) \<Rightarrow> 
     a = 0 \<or> made rt n i \<and> (\<forall>d \<in> set (st_deliveries s). dl_id d = i \<longrightarrow> int a \<le> dl_attempts d))"

lemma attemptsFrom_descends:
  assumes "inj (rt_makeId rt)" "descendsBy evolves newborn rt (s, n) (t, m)" "attemptsFrom rt i a (s, n, c)"
  shows "attemptsFrom rt i a (t, m, c')"
proof (cases "a = 0")
  case False
  have made: "made rt n i" using assms(3) False by (simp add: attemptsFrom_def)
  have "int a \<le> dl_attempts d" if "d \<in> set (st_deliveries t)" "dl_id d = i" for d
  proof -
    from assms(2) that(1) consider e where "e \<in> set (st_deliveries s)" "evolves e d"
      | k where "n \<le> k" "dl_id d = rt_makeId rt k" by (auto simp: descendsBy_def)
    then show ?thesis
    proof cases
      case 1
      then have "dl_id e = i" "dl_attempts e \<le> dl_attempts d" using that(2) by (auto simp: evolves_def)
      with 1(1) assms(3) False show ?thesis by (force simp: attemptsFrom_def)
    next
      case 2
      with not_made [OF assms(1) 2(1)] made that(2) show ?thesis by simp
    qed
  qed
  moreover have "made rt m i" using made assms(2) by (auto simp: descendsBy_def intro: made_mono)
  ultimately show ?thesis by (simp add: attemptsFrom_def)
qed (simp add: attemptsFrom_def)

lemma attemptsFrom_claim:
  assumes "inj (rt_makeId rt)" "claimNotificationDelivery rt cfg now (s, n) = ((t, m), Some cd)" "cd_id cd = i"
    "queueOk rt m now (st_deliveries t)" "stateOk s" "attemptsFrom rt i a (s, n, c)"
  shows "attemptsFrom rt i (Suc a) (t, m, now) \<and> Suc a \<le> 8"
  using assms(2)
proof (cases rule: claim_Some)
  case (1 v k d)
  let ?e = "leaseDelivery now (rt_makeId rt k) d"
  have d: "d \<in> set (st_deliveries v)" "dl_id d = i" using find_SomeD [OF 1(5)] 1(7) assms(3) by auto
  have "descendsBy evolves newborn rt (s, n) (v, k)"
    using life.by_trans [OF life.by_reconcile life.by_admit] 1(1) by metis
  then have "attemptsFrom rt i a (v, k, now)" using attemptsFrom_descends [OF assms(1) _ assms(6)] by blast
  moreover have "stateOk v"
    using stateOk_admit [of "(reconcile cfg now s, n)" rt cfg now None] stateOk_reconcile [OF assms(5), of cfg now] 1(1) by simp
  then have "deliveryOk d" using d(1) by (simp add: stateOk_def)
  then have "0 \<le> dl_attempts d" by (simp add: deliveryOk_def)
  ultimately have many: "int (Suc a) \<le> dl_attempts ?e"
    using d by (auto simp: attemptsFrom_def leaseDelivery_def)
  have few: "dl_attempts ?e \<le> 8"
    using claim_allSendable [OF 1(1)] find_SomeD [OF 1(5)]
    by (auto simp: allSendable_def dueAt_def sendable_def leaseDelivery_def notification_limits)
  have "?e \<in> set (st_deliveries t)" using leased_member [OF 1(5)] 1(6) by simp
  moreover have "dl_id ?e = i" using d(2) by (simp add: leaseDelivery_def)
  ultimately have e: "?e \<in> set (st_deliveries t)" "dl_id ?e = i" by simp_all
  have "int (Suc a) \<le> dl_attempts f" if "f \<in> set (st_deliveries t)" "dl_id f = i" for f
    using queueOk_same_id [OF assms(4) that(1) e(1)] that(2) e(2) many by simp
  moreover have "made rt m i" using assms(4) e by (auto simp: queueOk_def queuedOk_def)
  ultimately show ?thesis using many few by (simp add: attemptsFrom_def)
qed

lemma sends_bounded:
  assumes "sends rt zf i w k u" "inj (rt_makeId rt)" "engineInv rt w" "attemptsFrom rt i a w" "a \<le> 8"
  shows "k + a \<le> 8"
  using assms
proof (induction arbitrary: a rule: sends.induct)
  case (finished w)
  then show ?case by simp
next
  case (sent c now cfg s n t m cd k w)
  have "engineStep rt zf (s, n, c) (Claim cfg, now) (t, m, now)" by (rule claim) fact+
  then have inv: "engineInv rt (t, m, now)" using engineInv_step sent.prems(2) by blast
  have "queueOk rt m now (st_deliveries t)" "stateOk s"
    using engineInv_queue [OF inv sent.prems(1)] engineInv_queue [OF sent.prems(2,1)] by simp_all
  from attemptsFrom_claim [OF sent.prems(1) sent.hyps(3,4) this sent.prems(3)] sent.IH [OF sent.prems(1) inv, of "Suc a"]
  show ?case by simp
next
  case (other v e u k w)
  obtain s n c t m c' where vu: "v = (s, n, c)" "u = (t, m, c')" by (metis prod.exhaust)
  have inv: "engineInv rt u" using engineInv_step other.hyps(1) other.prems(2) by blast
  have "descendsBy evolves newborn rt (s, n) (t, m)"
    using life_writers.by_step other.hyps(1) by (simp add: vu eventOk_def split: engine_event.split)
  then have "attemptsFrom rt i a u" using attemptsFrom_descends other.prems(1,3) vu by blast
  then show ?case using other.IH [OF other.prems(1) inv] other.prems(4) by blast
qed

section \<open>The property\<close>

text \<open>
  Claim C6: retrying ends. In every run from a reachable state one delivery is handed out for sending at most eight
  times, whatever the results were and whatever else the engine did in between.
\<close>

theorem delivery_attempts_end:
  assumes "inj (rt_makeId rt)" "reach engineInit (engineStep rt zf) w" "sends rt zf i w k u"
  shows "k \<le> 8"
  using sends_bounded [OF assms(3,1) reach_inv [OF assms(2)], of 0] by (simp add: attemptsFrom_def)

theorem delivery_attempts_end_witness:
  "\<exists>k u. sends sampleRuntime sampleFormats (cd_id (the (snd sampleClaim))) (fst sampleObserved, snd sampleObserved, 1000) k u \<and> 1 \<le> k \<and> k \<le> 8"
proof -
  have "sends sampleRuntime sampleFormats (cd_id (the (snd sampleClaim))) (fst sampleObserved, snd sampleObserved, 1000) (Suc 0)
    (fst (fst sampleClaim), snd (fst sampleClaim), 1000)"
    by (rule sends.sent [OF _ sample_channels sample_claim _ sends.finished]) simp_all
  with delivery_attempts_end [OF inj_sample sample_reach this] show ?thesis by (intro exI conjI) auto
qed

end
