(* ===== verification/MonitoringInvariant.thy ===== *)
theory MonitoringInvariant
  imports MonitoringService
begin

text \<open>
  The rules of the monitoring tables, \<^verbatim>\<open>web/src/db/Schema/hostMonitoring.ts\<close>, and that every
  operation of the repository keeps them: row checks, unique keys, and the link between the state
  of a policy and its open incident.
\<close>

section \<open>Row rules\<close>

definition policyRowOk :: "int \<Rightarrow> check_policy \<Rightarrow> bool" where
  "policyRowOk clock p \<longleftrightarrow>
     30 \<le> cp_intervalSeconds p \<and> cp_intervalSeconds p \<le> 86400 \<and>
     1000 \<le> cp_timeoutMs p \<and> cp_timeoutMs p \<le> 10000 \<and>
     100 \<le> cp_expectedStatus p \<and> cp_expectedStatus p \<le> 599 \<and>
     thresholdsOk (thresholdsOf p) \<and>
     1 \<le> cp_retentionDays p \<and> cp_retentionDays p \<le> 30 \<and>
     10 \<le> cp_sampleLimit p \<and> cp_sampleLimit p \<le> 10000 \<and>
     1 \<le> cp_incidentLimit p \<and> cp_incidentLimit p \<le> 1000 \<and>
     streaksOpen (thresholdsOf p) (cp_snapshot p) \<and>
     (cp_leaseToken p = None \<longleftrightarrow> cp_leaseExpiresAt p = None) \<and>
     (cp_contextProof p = None \<longleftrightarrow> cp_contextRevision p = None) \<and>
     (case cp_lastDurationMs p of None \<Rightarrow> True | Some d \<Rightarrow> 0 \<le> d \<and> d \<le> 12000) \<and>
     (case cp_lastHttpStatus p of None \<Rightarrow> True | Some h \<Rightarrow> 100 \<le> h \<and> h \<le> 599) \<and>
     (case sn_failureStartedAt (cp_snapshot p) of None \<Rightarrow> True | Some t \<Rightarrow> t \<le> clock) \<and>
     (case sn_recoveryStartedAt (cp_snapshot p) of None \<Rightarrow> True | Some t \<Rightarrow> t \<le> clock)"

definition FAILURE_CODES :: "outcome_code list" where
  "FAILURE_CODES = [OcUnexpectedStatus, OcUpstreamUnreachable, OcUpstreamTimeout,
     OcUpstreamDnsFailed, OcTlsFailed]"

definition incidentRowOk :: "int \<Rightarrow> check_incident \<Rightarrow> bool" where
  "incidentRowOk clock i \<longleftrightarrow>
     (ic_closedReason i = None \<longleftrightarrow> ic_closedAt i = None) \<and>
     (case ic_closedAt i of None \<Rightarrow> True | Some t \<Rightarrow> ic_detectedAt i \<le> t) \<and>
     ic_startedAt i \<le> ic_detectedAt i \<and> ic_detectedAt i \<le> clock \<and>
     (case ic_recoveryStartedAt i of None \<Rightarrow> True | Some t \<Rightarrow> ic_startedAt i \<le> t) \<and>
     (case ic_recoveredAt i of None \<Rightarrow> True | Some t \<Rightarrow> ic_detectedAt i \<le> t) \<and>
     (if ic_closedReason i = Some ClosedRecovered
      then ic_recoveryStartedAt i \<noteq> None \<and> ic_recoveredAt i \<noteq> None \<and> ic_recoveryCode i \<noteq> None
      else ic_recoveredAt i = None \<and> ic_recoveryCode i = None) \<and>
     contains FAILURE_CODES (ic_failureCode i) \<and>
     (case ic_recoveryCode i of None \<Rightarrow> True | Some c \<Rightarrow> c = OcExpectedStatus)"

definition observationRowOk :: "check_observation \<Rightarrow> bool" where
  "observationRowOk ob \<longleftrightarrow>
     (case co_durationMs ob of None \<Rightarrow> True | Some d \<Rightarrow> 0 \<le> d \<and> d \<le> 12000) \<and>
     (case co_httpStatus ob of None \<Rightarrow> True | Some h \<Rightarrow> 100 \<le> h \<and> h \<le> 599)"

section \<open>Policies and their open incidents\<close>

definition openOf :: "string \<Rightarrow> check_incident list \<Rightarrow> check_incident list" where
  "openOf pid rows = filter (\<lambda>i. ic_policyId i = pid \<and> isOpenIncident i) rows"

text \<open>An unhealthy policy has exactly one open incident, which its recovery streak follows.\<close>

fun matched :: "snapshot \<Rightarrow> check_incident list \<Rightarrow> bool" where
  "matched sn [] = (sn_state sn \<noteq> MUnhealthy)"
| "matched sn [i] = (sn_state sn = MUnhealthy \<and>
     (case sn_recoveryStartedAt sn of None \<Rightarrow> True | Some t \<Rightarrow> ic_detectedAt i \<le> t))"
| "matched sn (i # j # is) = False"

definition linked :: "check_policy list \<Rightarrow> check_incident list \<Rightarrow> bool" where
  "linked ps is \<longleftrightarrow> list_all (\<lambda>p. matched (cp_snapshot p) (openOf (cp_id p) is)) ps \<and>
     list_all (\<lambda>i. contains (map cp_id ps) (ic_policyId i)) is"

definition idsUsed :: "proxy_db \<Rightarrow> string list" where
  "idsUsed db = map cp_id (db_policies db) @ map ic_id (db_incidents db) @ map co_id (db_observations db)"

definition monitoringOk :: "int \<Rightarrow> proxy_db \<Rightarrow> bool" where
  "monitoringOk clock db \<longleftrightarrow>
     list_all (policyRowOk clock) (db_policies db) \<and> list_all (incidentRowOk clock) (db_incidents db) \<and>
     list_all observationRowOk (db_observations db) \<and>
     distinct (idsUsed db) \<and> distinct (map cp_proxyHostId (db_policies db)) \<and>
     length (db_policies db) \<le> LIMIT_maxPolicies \<and>
     length (filter (leaseActive clock) (db_policies db)) \<le> LIMIT_maxActiveClaims \<and>
     linked (db_policies db) (db_incidents db)"

text \<open>Row identifiers in use come from the part of the generator already consumed.\<close>

definition idsFrom :: "(nat \<Rightarrow> string) \<Rightarrow> proxy_db \<Rightarrow> bool" where
  "idsFrom rowId db \<longleftrightarrow> set (idsUsed db) \<subseteq> rowId ` {..<db_rowId db}"

section \<open>Time passes\<close>

lemma policyRowOk_later: "policyRowOk c p \<Longrightarrow> c \<le> c' \<Longrightarrow> policyRowOk c' p"
  by (auto simp: policyRowOk_def split: option.splits)

lemma incidentRowOk_later: "incidentRowOk c i \<Longrightarrow> c \<le> c' \<Longrightarrow> incidentRowOk c' i"
  by (auto simp: incidentRowOk_def)

lemma leaseActive_earlier: "leaseActive c' p \<Longrightarrow> c \<le> c' \<Longrightarrow> leaseActive c p"
  by (auto simp: leaseActive_def split: option.splits)

lemma length_filter_le: "(\<And>x. x \<in> set xs \<Longrightarrow> P x \<Longrightarrow> Q x) \<Longrightarrow> length (filter P xs) \<le> length (filter Q xs)"
  by (induction xs) auto

lemma active_later:
  "c \<le> c' \<Longrightarrow> length (filter (leaseActive c') ps) \<le> length (filter (leaseActive c) ps)"
  by (rule length_filter_le) (rule leaseActive_earlier)

lemma monitoringOk_later:
  assumes "monitoringOk c db" "c \<le> c'"
  shows "monitoringOk c' db"
  using assms active_later [OF assms(2), of "db_policies db"]
  by (auto simp: monitoringOk_def list_all_iff intro: policyRowOk_later incidentRowOk_later)

section \<open>Parts of the tables\<close>

lemma openOf_append: "openOf q (xs @ ys) = openOf q xs @ openOf q ys"
  by (simp add: openOf_def)

lemma openOf_filter: "(\<And>i. i \<in> set is \<Longrightarrow> isOpenIncident i \<Longrightarrow> P i) \<Longrightarrow> openOf q (filter P is) = openOf q is"
  by (auto simp: openOf_def intro: filter_cong)

lemma openOf_mem: "i \<in> set (openOf q is) \<longleftrightarrow> i \<in> set is \<and> ic_policyId i = q \<and> isOpenIncident i"
  by (auto simp: openOf_def)

definition changeOpen :: "string list \<Rightarrow> (check_incident \<Rightarrow> check_incident) \<Rightarrow> check_incident list \<Rightarrow>
    check_incident list" where
  "changeOpen pids f is = map (\<lambda>i. if contains pids (ic_policyId i) \<and> isOpenIncident i then f i else i) is"

lemma updateOpenIncidents_alt:
  "updateOpenIncidents pids f db = db\<lparr>db_incidents := changeOpen pids f (db_incidents db)\<rparr>"
  by (simp add: updateOpenIncidents_def changeOpen_def)

lemma changeOpen_closing:
  assumes "\<And>i. \<not> isOpenIncident (f i)"
  shows "openOf q (changeOpen pids f is) = (if q \<in> set pids then [] else openOf q is)"
  using assms by (induction "is") (auto simp: openOf_def changeOpen_def)

lemma changeOpen_keeping:
  assumes "\<And>i. isOpenIncident i \<Longrightarrow> isOpenIncident (f i)" "\<And>i. ic_policyId (f i) = ic_policyId i"
  shows "openOf q (changeOpen pids f is) = (if q \<in> set pids then map f (openOf q is) else openOf q is)"
  using assms by (induction "is") (auto simp: openOf_def changeOpen_def)

lemma changeOpen_map:
  "(\<And>i. g (f i) = g i) \<Longrightarrow> map g (changeOpen pids f is) = map g is"
  by (simp add: changeOpen_def)

lemma changeOpen_rows:
  assumes "list_all P is" "\<And>i. i \<in> set is \<Longrightarrow> ic_policyId i \<in> set pids \<Longrightarrow> isOpenIncident i \<Longrightarrow> P i \<Longrightarrow> P (f i)"
  shows "list_all P (changeOpen pids f is)"
  using assms by (auto simp: changeOpen_def list_all_iff)

definition changePolicy :: "string \<Rightarrow> (check_policy \<Rightarrow> check_policy) \<Rightarrow> check_policy list \<Rightarrow>
    check_policy list" where
  "changePolicy pid f ps = map (\<lambda>p. if cp_id p = pid then f p else p) ps"

lemma updatePolicy_alt: "updatePolicy pid f db = db\<lparr>db_policies := changePolicy pid f (db_policies db)\<rparr>"
  by (simp add: updatePolicy_def changePolicy_def)

lemma changePolicy_map: "(\<And>p. g (f p) = g p) \<Longrightarrow> map g (changePolicy pid f ps) = map g ps"
  by (simp add: changePolicy_def)

lemma changePolicy_rows:
  assumes "list_all P ps" "\<And>p. p \<in> set ps \<Longrightarrow> cp_id p = pid \<Longrightarrow> P p \<Longrightarrow> P (f p)"
  shows "list_all P (changePolicy pid f ps)"
  using assms by (auto simp: changePolicy_def list_all_iff)

lemma linkedI:
  assumes "\<And>p. p \<in> set ps \<Longrightarrow> matched (cp_snapshot p) (openOf (cp_id p) is)"
    and "ic_policyId ` set is \<subseteq> cp_id ` set ps"
  shows "linked ps is"
  using assms by (auto simp: linked_def list_all_iff)

lemma linkedD:
  assumes "linked ps is"
  shows "p \<in> set ps \<Longrightarrow> matched (cp_snapshot p) (openOf (cp_id p) is)"
    and "ic_policyId ` set is \<subseteq> cp_id ` set ps"
  using assms by (auto simp: linked_def list_all_iff)

lemma matched_none: "matched sn [] \<longleftrightarrow> sn_state sn \<noteq> MUnhealthy"
  by simp

lemma monitoringOkD:
  assumes "monitoringOk c db"
  shows "p \<in> set (db_policies db) \<Longrightarrow> policyRowOk c p"
    and "i \<in> set (db_incidents db) \<Longrightarrow> incidentRowOk c i"
    and "distinct (map cp_id (db_policies db))"
    and "linked (db_policies db) (db_incidents db)"
  using assms by (auto simp: monitoringOk_def list_all_iff idsUsed_def)

lemma same_policy:
  "monitoringOk c db \<Longrightarrow> p \<in> set (db_policies db) \<Longrightarrow> q \<in> set (db_policies db) \<Longrightarrow> cp_id p = cp_id q \<Longrightarrow> p = q"
  using monitoringOkD(3) by (metis distinct_map inj_onD)

section \<open>Only the tables matter\<close>

definition sameTables :: "proxy_db \<Rightarrow> proxy_db \<Rightarrow> bool" where
  "sameTables db db' \<longleftrightarrow> db_policies db' = db_policies db \<and> db_incidents db' = db_incidents db \<and>
     db_observations db' = db_observations db \<and> db_rowId db' = db_rowId db"

lemma monitoringOk_same: "sameTables db db' \<Longrightarrow> monitoringOk c db' \<longleftrightarrow> monitoringOk c db"
  by (simp add: sameTables_def monitoringOk_def idsUsed_def)

lemma idsFrom_same: "sameTables db db' \<Longrightarrow> idsFrom rowId db' \<longleftrightarrow> idsFrom rowId db"
  by (simp add: sameTables_def idsFrom_def idsUsed_def)

lemma sameTables_refl [simp]: "sameTables db db"
  by (simp add: sameTables_def)

lemma writeEngine_tables: "writeEngine env s n db = Inr db' \<Longrightarrow> sameTables db db'"
  by (auto simp: writeEngine_def sameTables_def split: if_splits)

lemma cancelHostAvailability_tables:
  "cancelHostAvailabilityForHosts env hosts now db = Inr db' \<Longrightarrow> sameTables db db'"
  by (auto simp: cancelHostAvailabilityForHosts_def split: if_splits dest: writeEngine_tables)

lemma recordTransition_tables:
  "recordHostAvailabilityTransition env p pf rv i k now db = Inr db' \<Longrightarrow> sameTables db db'"
  by (auto simp: recordHostAvailabilityTransition_def Let_def andThen_Inr_iff
      split: if_splits option.splits dest: writeEngine_tables)

section \<open>Retention keeps open incidents\<close>

lemma monitoringOk_filter:
  assumes ok: "monitoringOk c db"
    and keeps: "\<And>i. i \<in> set (db_incidents db) \<Longrightarrow> isOpenIncident i \<Longrightarrow> P i"
  shows "monitoringOk c (db\<lparr>db_observations := filter Q (db_observations db),
    db_incidents := filter P (db_incidents db)\<rparr>)"
proof -
  have "linked (db_policies db) (filter P (db_incidents db))"
  proof (rule linkedI)
    show "matched (cp_snapshot p) (openOf (cp_id p) (filter P (db_incidents db)))"
      if "p \<in> set (db_policies db)" for p
      using linkedD(1) [OF monitoringOkD(4) [OF ok] that] by (simp add: openOf_filter keeps)
  qed (use linkedD(2) [OF monitoringOkD(4) [OF ok]] in auto)
  moreover have "distinct (idsUsed (db\<lparr>db_observations := filter Q (db_observations db),
      db_incidents := filter P (db_incidents db)\<rparr>))"
    using ok by (auto simp: monitoringOk_def idsUsed_def distinct_map_filter)
  ultimately show ?thesis using ok by (auto simp: monitoringOk_def list_all_iff)
qed

lemma expiredIncident_closed: "expiredIncident p now rows i \<Longrightarrow> \<not> isOpenIncident i"
  by (simp add: expiredIncident_def)

lemma sweptIncident_closed: "sweptIncident now db i \<Longrightarrow> \<not> isOpenIncident i"
  by (auto simp: sweptIncident_def split: option.splits)

lemma prunePolicyHistory_ok: "monitoringOk c db \<Longrightarrow> monitoringOk c (prunePolicyHistory p now db)"
  unfolding prunePolicyHistory_def by (rule monitoringOk_filter) (auto dest: expiredIncident_closed)

lemma pruneHistory_ok: "monitoringOk c db \<Longrightarrow> monitoringOk c (pruneHistory now db)"
  unfolding pruneHistory_def Let_def
  by (auto dest: sweptIncident_closed intro!: monitoringOk_filter
      [where P = "\<lambda>i. \<not> sweptIncident now (db\<lparr>db_observations := filter (\<lambda>ob. \<not> sweptObservation now db ob)
        (db_observations db)\<rparr>) i" and Q = "\<lambda>ob. \<not> sweptObservation now db ob", simplified])

lemma prune_frames [simp]:
  "db_policies (prunePolicyHistory p now db) = db_policies db"
  "db_policies (pruneHistory now db) = db_policies db"
  "db_rowId (prunePolicyHistory p now db) = db_rowId db"
  "db_rowId (pruneHistory now db) = db_rowId db"
  "db_uuid (prunePolicyHistory p now db) = db_uuid db"
  "db_uuid (pruneHistory now db) = db_uuid db"
  by (simp_all add: prunePolicyHistory_def pruneHistory_def Let_def)

lemma prune_ids:
  "set (idsUsed (prunePolicyHistory p now db)) \<subseteq> set (idsUsed db)"
  "set (idsUsed (pruneHistory now db)) \<subseteq> set (idsUsed db)"
  by (auto simp: prunePolicyHistory_def pruneHistory_def idsUsed_def Let_def)

lemma prune_idsFrom:
  "idsFrom rowId db \<Longrightarrow> idsFrom rowId (prunePolicyHistory p now db)"
  "idsFrom rowId db \<Longrightarrow> idsFrom rowId (pruneHistory now db)"
  using prune_ids by (fastforce simp: idsFrom_def)+

section \<open>Closing and resetting\<close>

lemma closeAs_row:
  "incidentRowOk c i \<Longrightarrow> isOpenIncident i \<Longrightarrow> c \<le> at \<Longrightarrow> reason \<noteq> ClosedRecovered \<Longrightarrow>
   incidentRowOk c (closeAs reason at i)"
  by (auto simp: incidentRowOk_def closeAs_def isOpenIncident_def)

lemma closeAs_closed [simp]: "\<not> isOpenIncident (closeAs reason at i)"
  by (simp add: closeAs_def isOpenIncident_def)

lemma closeAs_frames [simp]:
  "ic_id (closeAs reason at i) = ic_id i" "ic_policyId (closeAs reason at i) = ic_policyId i"
  by (simp_all add: closeAs_def)

lemma cleared_open: "thresholdsOk th \<Longrightarrow> st \<noteq> MUnhealthy \<Longrightarrow> streaksOpen th (cleared st)"
  by (auto simp: streaksOpen_def streaksOk_def cleared_def thresholdsOk_def)

lemma cleared_simps [simp]:
  "sn_state (cleared st) = st" "sn_failureStartedAt (cleared st) = None"
  "sn_recoveryStartedAt (cleared st) = None"
  by (simp_all add: cleared_def)

lemma resetPolicy_frames [simp]:
  "cp_id (resetPolicy v now p) = cp_id p" "cp_proxyHostId (resetPolicy v now p) = cp_proxyHostId p"
  "cp_snapshot (resetPolicy v now p) = cleared MUnknown"
  "leaseActive c (resetPolicy v now p) = False" "cp_version (resetPolicy v now p) = v"
  "cp_leaseToken (resetPolicy v now p) = None"
  by (simp_all add: resetPolicy_def leaseActive_def)

lemma thresholdsOf_reset [simp]: "thresholdsOf (resetPolicy v now p) = thresholdsOf p"
  by (simp add: thresholdsOf_def resetPolicy_def)

lemma resetPolicy_row: "policyRowOk c p \<Longrightarrow> policyRowOk c (resetPolicy v now p)"
  by (auto simp: policyRowOk_def cleared_open resetPolicy_def thresholdsOf_def)

end
