(* ===== verification/MonitoringKeeps.thy ===== *)
theory MonitoringKeeps
  imports MonitoringInvariant
begin

text \<open>
  The writes of the monitoring repository keep the rules of \<open>MonitoringInvariant\<close>. Two generic
  facts carry them: policies that are reset while their open incidents are closed, and one policy
  that changes in place with the incidents following its new state.
\<close>

section \<open>Resetting policies\<close>

definition resetTo :: "int \<Rightarrow> string list \<Rightarrow> check_policy \<Rightarrow> check_policy \<Rightarrow> bool" where
  "resetTo c touched p p' \<longleftrightarrow> cp_id p' = cp_id p \<and> cp_proxyHostId p' = cp_proxyHostId p \<and>
     (if cp_id p \<in> set touched
      then policyRowOk c p' \<and> sn_state (cp_snapshot p') \<noteq> MUnhealthy \<and> \<not> leaseActive c p'
      else p' = p)"

lemma list_all2_map_eq: "list_all2 R xs ys \<Longrightarrow> (\<And>x y. R x y \<Longrightarrow> g y = g x) \<Longrightarrow> map g ys = map g xs"
  by (induction rule: list_all2_induct) auto

lemma list_all2_filter_le:
  "list_all2 R xs ys \<Longrightarrow> (\<And>x y. R x y \<Longrightarrow> P y \<Longrightarrow> P x) \<Longrightarrow> length (filter P ys) \<le> length (filter P xs)"
  by (induction rule: list_all2_induct) auto

lemma resetting_ok:
  assumes ok: "monitoringOk c db" and rel: "list_all2 (resetTo c touched) (db_policies db) ps'"
    and at: "c \<le> at" and reason: "reason \<noteq> ClosedRecovered"
  shows "monitoringOk c (db\<lparr>db_policies := ps',
    db_incidents := changeOpen touched (closeAs reason at) (db_incidents db)\<rparr>)"
proof -
  let ?ps = "db_policies db" and ?is = "db_incidents db"
  let ?is' = "changeOpen touched (closeAs reason at) ?is"
  have ids: "map cp_id ps' = map cp_id ?ps" and hosts: "map cp_proxyHostId ps' = map cp_proxyHostId ?ps"
    using list_all2_map_eq [OF rel] by (auto simp: resetTo_def)
  have iids: "map ic_id ?is' = map ic_id ?is" and pids: "map ic_policyId ?is' = map ic_policyId ?is"
    by (simp_all add: changeOpen_map)
  have src: "\<exists>p \<in> set ?ps. resetTo c touched p p'" if "p' \<in> set ps'" for p'
    by (rule list_all2_right [OF rel that])
  have "list_all (policyRowOk c) ps'"
    using src monitoringOkD(1) [OF ok] by (fastforce simp: list_all_iff resetTo_def split: if_splits)
  moreover have "list_all (incidentRowOk c) ?is'"
    by (rule changeOpen_rows) (use ok at reason in \<open>auto simp: monitoringOk_def intro: closeAs_row\<close>)
  moreover have "linked ps' ?is'"
  proof (rule linkedI)
    show "matched (cp_snapshot p') (openOf (cp_id p') ?is')" if p': "p' \<in> set ps'" for p'
    proof -
      from src [OF p'] obtain p where p: "p \<in> set ?ps" "resetTo c touched p p'" by blast
      show ?thesis
        using p(2) linkedD(1) [OF monitoringOkD(4) [OF ok] p(1)]
        by (auto simp: resetTo_def changeOpen_closing split: if_splits)
    qed
    show "ic_policyId ` set ?is' \<subseteq> cp_id ` set ps'"
      using linkedD(2) [OF monitoringOkD(4) [OF ok]] arg_cong [OF ids, of set] arg_cong [OF pids, of set]
      by simp
  qed
  moreover have "length (filter (leaseActive c) ps') \<le> length (filter (leaseActive c) ?ps)"
    by (rule list_all2_filter_le [OF rel]) (auto simp: resetTo_def split: if_splits)
  moreover have "length ps' = length ?ps" using rel by (simp add: list_all2_lengthD)
  ultimately show ?thesis using ok ids hosts iids by (simp add: monitoringOk_def idsUsed_def)
qed

lemma changePolicy_rel:
  "(\<And>p. p \<in> set ps \<Longrightarrow> R p (if cp_id p = pid then f p else p)) \<Longrightarrow> list_all2 R ps (changePolicy pid f ps)"
  by (simp add: changePolicy_def list_all2_map2 list.rel_refl_strong)

lemma resetTo_reset: "policyRowOk c p \<Longrightarrow> cp_id p \<in> set touched \<Longrightarrow> resetTo c touched p (resetPolicy v now p)"
  by (simp add: resetTo_def resetPolicy_row)

lemma resetTo_other: "cp_id p \<notin> set touched \<Longrightarrow> resetTo c touched p p"
  by (simp add: resetTo_def)

lemma invalidatePolicies_rel:
  assumes "invalidatePolicies rowId hosts now n ps = (ps', m)"
    and "\<And>p. p \<in> set ps \<Longrightarrow> policyRowOk c p"
    and "\<And>p. p \<in> set ps \<Longrightarrow> cp_id p \<in> set touched \<longleftrightarrow> cp_proxyHostId p \<in> set hosts"
  shows "list_all2 (resetTo c touched) ps ps'"
  using assms
proof (induction rowId hosts now n ps arbitrary: ps' m rule: invalidatePolicies.induct)
  case (2 rowId hosts now n p ps)
  then show ?case
    by (auto simp: resetTo_reset resetTo_other split: if_splits prod.splits)
qed simp

lemma invalidatePolicies_count: "invalidatePolicies rowId hosts now n ps = (ps', m) \<Longrightarrow> n \<le> m"
proof (induction rowId hosts now n ps arbitrary: ps' m rule: invalidatePolicies.induct)
  case (2 rowId hosts now n p ps)
  then show ?case by (fastforce split: if_splits prod.splits)
qed simp

lemma invalidate_ok:
  assumes ok: "monitoringOk c db" and ids: "idsFrom rowId db" and now: "c \<le> now"
    and reason: "reason \<noteq> ClosedRecovered"
    and inv: "invalidateHostMonitoringForHosts env hosts reason now db = Inr db'"
  shows "monitoringOk now db' \<and> idsFrom rowId db'"
proof (cases "hosts = []")
  case False
  let ?touched = "map cp_id (filter (\<lambda>p. contains hosts (cp_proxyHostId p)) (db_policies db))"
  obtain ps n where res: "invalidatePolicies (de_rowId env) hosts now (db_rowId db) (db_policies db) = (ps, n)"
    by force
  let ?db = "db\<lparr>db_policies := ps, db_rowId := n,
    db_incidents := changeOpen ?touched (closeAs reason now) (db_incidents db)\<rparr>"
  have none: "changeOpen [] f is = is" for f "is" by (simp add: changeOpen_def)
  from inv False res have "cancelHostAvailabilityForHosts env hosts now ?db = Inr db'"
    by (auto simp: invalidateHostMonitoringForHosts_def Let_def updateOpenIncidents_alt none split: if_splits)
  then have same: "sameTables ?db db'" by (rule cancelHostAvailability_tables)
  have rel: "list_all2 (resetTo c ?touched) (db_policies db) ps"
    by (rule invalidatePolicies_rel [OF res])
      (use monitoringOkD(1) [OF ok] same_policy [OF ok] in \<open>auto\<close>)
  have "monitoringOk c ?db"
    using resetting_ok [OF ok rel now reason] by (simp add: monitoringOk_def idsUsed_def)
  then have "monitoringOk now db'" using same now monitoringOk_same monitoringOk_later by blast
  moreover have "idsFrom rowId ?db"
    using ids invalidatePolicies_count [OF res] list_all2_map_eq [OF rel, of cp_id]
    by (fastforce simp: idsFrom_def idsUsed_def resetTo_def changeOpen_map
        simp flip: set_map)
  ultimately show ?thesis using same idsFrom_same by blast
qed (use assms monitoringOk_later in \<open>auto simp: invalidateHostMonitoringForHosts_def\<close>)

section \<open>Changing one policy\<close>

lemma changePolicy_Cons:
  "changePolicy pid f (p # ps) = (if cp_id p = pid then f p else p) # changePolicy pid f ps"
  by (simp add: changePolicy_def)

lemma changePolicy_count:
  "distinct (map cp_id ps) \<Longrightarrow> length (filter P (changePolicy pid f ps)) \<le> length (filter P ps) + 1"
proof (induction ps)
  case (Cons p ps)
  have "changePolicy pid f ps = ps" if "cp_id p = pid"
    unfolding changePolicy_def by (rule map_idI) (use Cons.prems that in \<open>auto simp: image_iff\<close>)
  with Cons show ?case by (auto simp: changePolicy_Cons)
qed (simp add: changePolicy_def)

lemma changePolicy_fewer:
  "(\<And>p. p \<in> set ps \<Longrightarrow> cp_id p = pid \<Longrightarrow> P (f p) \<Longrightarrow> P p) \<Longrightarrow>
   length (filter P (changePolicy pid f ps)) \<le> length (filter P ps)"
  by (induction ps) (auto simp: changePolicy_def)

lemma policy_write_ok:
  assumes ok: "monitoringOk c db" and later: "c \<le> c'" and p: "p \<in> set (db_policies db)"
    and ps: "db_policies d = db_policies db"
    and rows: "list_all (incidentRowOk c') (db_incidents d)" "list_all observationRowOk (db_observations d)"
    and ids: "distinct (idsUsed d)"
    and fk: "ic_policyId ` set (db_incidents d) \<subseteq> cp_id ` set (db_policies db)"
    and others: "\<And>q. q \<noteq> cp_id p \<Longrightarrow> openOf q (db_incidents d) = openOf q (db_incidents db)"
    and new: "matched (cp_snapshot (f p)) (openOf (cp_id p) (db_incidents d))"
    and row: "policyRowOk c' (f p)"
    and keeps: "\<And>q. cp_id (f q) = cp_id q" "\<And>q. cp_proxyHostId (f q) = cp_proxyHostId q"
    and active: "leaseActive c' (f p) \<Longrightarrow> length (filter (leaseActive c') (db_policies db)) < LIMIT_maxActiveClaims"
  shows "monitoringOk c' (updatePolicy (cp_id p) f d)"
proof -
  let ?ps = "db_policies db" and ?ps' = "changePolicy (cp_id p) f (db_policies db)"
  have only: "q = p" if "q \<in> set ?ps" "cp_id q = cp_id p" for q
    using same_policy [OF ok that(1) p that(2)] .
  have cp: "map cp_id ?ps' = map cp_id ?ps" and ch: "map cp_proxyHostId ?ps' = map cp_proxyHostId ?ps"
    by (simp_all add: changePolicy_map keeps)
  have "list_all (policyRowOk c') ?ps'"
    by (rule changePolicy_rows) (use monitoringOkD(1) [OF ok] later row only in
      \<open>auto simp: list_all_iff intro: policyRowOk_later\<close>)
  moreover have "linked ?ps' (db_incidents d)"
  proof (rule linkedI)
    show "matched (cp_snapshot q') (openOf (cp_id q') (db_incidents d))" if "q' \<in> set ?ps'" for q'
    proof -
      from that obtain q where q: "q \<in> set ?ps" "q' = (if cp_id q = cp_id p then f q else q)"
        by (auto simp: changePolicy_def)
      show ?thesis
      proof (cases "cp_id q = cp_id p")
        case True
        then have "q' = f p" using q only [OF q(1)] by simp
        then show ?thesis using new keeps by simp
      next
        case False
        with q others linkedD(1) [OF monitoringOkD(4) [OF ok] q(1)] show ?thesis by simp
      qed
    qed
    show "ic_policyId ` set (db_incidents d) \<subseteq> cp_id ` set ?ps'"
      using fk arg_cong [OF cp, of set] by simp
  qed
  moreover have "length (filter (leaseActive c') ?ps') \<le> LIMIT_maxActiveClaims"
  proof (cases "leaseActive c' (f p)")
    case True
    then show ?thesis
      using active changePolicy_count [OF monitoringOkD(3) [OF ok], of "leaseActive c'" "cp_id p" f] by simp
  next
    case False
    then have "length (filter (leaseActive c') ?ps') \<le> length (filter (leaseActive c') ?ps)"
      using only by (intro changePolicy_fewer) auto
    also have "\<dots> \<le> length (filter (leaseActive c) ?ps)" by (rule active_later [OF later])
    also have "\<dots> \<le> LIMIT_maxActiveClaims" using ok by (simp add: monitoringOk_def)
    finally show ?thesis .
  qed
  moreover have "length ?ps' = length ?ps" by (simp add: changePolicy_def)
  ultimately show ?thesis
    using ok ids rows cp ch ps by (simp add: updatePolicy_alt monitoringOk_def idsUsed_def)
qed

lemma lease_write_ok:
  assumes ok: "monitoringOk c db" and later: "c \<le> c'" and p: "p \<in> set (db_policies db)"
    and row: "policyRowOk c' (f p)" and same: "cp_snapshot (f p) = cp_snapshot p"
    and keeps: "\<And>q. cp_id (f q) = cp_id q" "\<And>q. cp_proxyHostId (f q) = cp_proxyHostId q"
    and active: "leaseActive c' (f p) \<Longrightarrow> length (filter (leaseActive c') (db_policies db)) < LIMIT_maxActiveClaims"
  shows "monitoringOk c' (updatePolicy (cp_id p) f db)"
  using monitoringOk_later [OF ok later] linkedD [OF monitoringOkD(4) [OF ok]] p
  by (intro policy_write_ok [OF ok later p] row keeps active) (auto simp: monitoringOk_def same)

lemma updatePolicy_idsFrom:
  "(\<And>q. cp_id (f q) = cp_id q) \<Longrightarrow> idsFrom rowId (updatePolicy pid f db) = idsFrom rowId db"
  by (simp add: updatePolicy_alt idsFrom_def idsUsed_def changePolicy_map flip: set_map)

section \<open>Claiming and releasing\<close>

lemma find_mem: "find P xs = Some x \<Longrightarrow> x \<in> set xs \<and> P x"
  by (auto simp: find_Some_iff)

lemma claim_ok:
  assumes ok: "monitoringOk c db" and now: "c \<le> now"
    and cl: "claimDueHostMonitoringPolicy env now db = (r, db')"
  shows "monitoringOk now db' \<and> (idsFrom rowId db \<longrightarrow> idsFrom rowId db')"
proof (cases r)
  case None
  with cl have "db' = db" by (auto simp: claimDueHostMonitoringPolicy_def Let_def split: if_splits option.splits)
  then show ?thesis using monitoringOk_later [OF ok now] by simp
next
  case (Some rv)
  let ?lease = "\<lambda>q. q\<lparr>cp_leaseToken := Some (rt_makeId (de_runtime env) (db_uuid db)),
    cp_leaseExpiresAt := Some (now + LIMIT_monitoringLeaseMs)\<rparr>"
  from cl Some obtain p where p: "p \<in> set (db_policies db)"
      and few: "length (filter (leaseActive now) (db_policies db)) < LIMIT_maxActiveClaims"
      and db': "db' = (updatePolicy (cp_id p) ?lease db)\<lparr>db_uuid := Suc (db_uuid db)\<rparr>"
    by (auto simp: claimDueHostMonitoringPolicy_def Let_def not_le split: if_splits option.splits
        dest!: find_mem)
  have "policyRowOk now (?lease p)"
    using policyRowOk_later [OF monitoringOkD(1) [OF ok p] now] by (auto simp: policyRowOk_def thresholdsOf_def)
  then have "monitoringOk now (updatePolicy (cp_id p) ?lease db)"
    by (intro lease_write_ok [OF ok now p]) (use few in auto)
  then show ?thesis
    using db' updatePolicy_idsFrom [of ?lease rowId "cp_id p" db]
    by (simp add: monitoringOk_def idsUsed_def idsFrom_def)
qed

lemma currentClaim_Some:
  "currentClaim claim now db = Some p \<Longrightarrow> p \<in> set (db_policies db) \<and> holdsClaim claim now p"
  by (auto simp: currentClaim_def dest: find_mem)

lemma clearLease_ok:
  assumes ok: "monitoringOk c db" and now: "c \<le> now" and p: "p \<in> set (db_policies db)"
  shows "monitoringOk now (clearLease p now db)"
  unfolding clearLease_def
  by (rule lease_write_ok [OF ok now p])
    (use policyRowOk_later [OF monitoringOkD(1) [OF ok p] now] in
      \<open>auto simp: policyRowOk_def thresholdsOf_def leaseActive_def\<close>)

lemma clearLease_idsFrom: "idsFrom rowId (clearLease p now db) = idsFrom rowId db"
  by (simp add: clearLease_def updatePolicy_idsFrom)

lemma release_ok:
  assumes "monitoringOk c db" "c \<le> now" "releaseHostMonitoringClaim claim now db = (r, db')"
  shows "monitoringOk now db' \<and> (idsFrom rowId db \<longrightarrow> idsFrom rowId db')"
  using assms clearLease_ok monitoringOk_later
  by (auto simp: releaseHostMonitoringClaim_def clearLease_idsFrom split: option.splits dest!: currentClaim_Some)

end
