(* ===== verification/MonitoringComplete.thy ===== *)
theory MonitoringComplete
  imports MonitoringKeeps
begin

text \<open>
  Recording the result of a probe keeps the monitoring tables consistent: the new state of the
  policy and the incident rows written for it agree, and every row satisfies the checks of its table.
\<close>

section \<open>Outcomes of a probe\<close>

definition outcomeOk :: "outcome \<Rightarrow> bool" where
  "outcomeOk oc \<longleftrightarrow>
     (case oc_status oc of MHealthy \<Rightarrow> oc_code oc = OcExpectedStatus
        | MUnhealthy \<Rightarrow> contains FAILURE_CODES (oc_code oc) | MUnknown \<Rightarrow> True) \<and>
     (case oc_durationMs oc of None \<Rightarrow> True | Some d \<Rightarrow> 0 \<le> d \<and> d \<le> 12000) \<and>
     (case oc_httpStatus oc of None \<Rightarrow> True | Some h \<Rightarrow> 100 \<le> h \<and> h \<le> 599)"

lemma unknown_ok [simp]: "outcomeOk (unknownHostMonitoringOutcome code)"
  by (simp add: outcomeOk_def unknownHostMonitoringOutcome_def)

lemma classify_ok: "outcomeOk (classifyHostMonitoringOutcome raw expected)"
proof (cases raw)
  case (Some g)
  show ?thesis
  proof (cases "diagnosticsOk g")
    case True
    then have "stageFieldsOk (dg_upstream g)" by (simp add: diagnosticsOk_def)
    then show ?thesis
      by (simp add: classifyHostMonitoringOutcome_def Some Let_def split: stage_code.split option.split)
        (auto simp: outcomeOk_def FAILURE_CODES_def stageFieldsOk_def split: option.splits)
  qed (simp add: classifyHostMonitoringOutcome_def Some)
qed (simp add: classifyHostMonitoringOutcome_def)

lemma probeOutcome_ok: "outcomeOk (probeOutcome p ctx inspected)"
  by (auto simp: probeOutcome_def classify_ok split: inspection.split option.split)

section \<open>The state machine\<close>

definition startedBy :: "int \<Rightarrow> snapshot \<Rightarrow> bool" where
  "startedBy clock sn \<longleftrightarrow>
     (case sn_failureStartedAt sn of None \<Rightarrow> True | Some t \<Rightarrow> t \<le> clock) \<and>
     (case sn_recoveryStartedAt sn of None \<Rightarrow> True | Some t \<Rightarrow> t \<le> clock)"

lemma startedBy_cleared [simp]: "startedBy clock (cleared st)"
  by (simp add: startedBy_def)

lemma startedBy_advance:
  assumes "startedBy c sn" "c \<le> now"
  shows "startedBy now (fst (advanceHostMonitoringState sn oc th now))"
  using assms
  by (auto simp: advanceHostMonitoringState_def startedBy_def Let_def split: mon_state.splits option.splits)

section \<open>Incident rows\<close>

lemma recoverAs_row:
  assumes "incidentRowOk c i" "isOpenIncident i" "ic_detectedAt i \<le> mt_firstObservedAt tr"
    and "mt_firstObservedAt tr \<le> mt_confirmedAt tr" "mt_code tr = OcExpectedStatus"
  shows "incidentRowOk c (recoverAs tr i)"
  using assms by (auto simp: incidentRowOk_def recoverAs_def isOpenIncident_def)

lemma openIncident_row:
  assumes "mt_firstObservedAt tr \<le> mt_confirmedAt tr" "mt_confirmedAt tr \<le> c"
    and "contains FAILURE_CODES (mt_code tr)"
  shows "incidentRowOk c (openIncident iid pid tr)"
  using assms by (simp add: incidentRowOk_def openIncident_def)

lemma follow_row:
  assumes "incidentRowOk c i" "isOpenIncident i"
    and "case at of None \<Rightarrow> True | Some t \<Rightarrow> ic_detectedAt i \<le> t"
  shows "incidentRowOk c (i\<lparr>ic_recoveryStartedAt := at\<rparr>)"
  using assms by (auto simp: incidentRowOk_def isOpenIncident_def split: option.splits)

lemma recoverAs_simps [simp]:
  "\<not> isOpenIncident (recoverAs tr i)" "ic_id (recoverAs tr i) = ic_id i"
  "ic_policyId (recoverAs tr i) = ic_policyId i"
  by (simp_all add: recoverAs_def isOpenIncident_def)

lemma openIncident_simps [simp]:
  "isOpenIncident (openIncident iid pid tr)" "ic_id (openIncident iid pid tr) = iid"
  "ic_policyId (openIncident iid pid tr) = pid" "ic_detectedAt (openIncident iid pid tr) = mt_confirmedAt tr"
  by (simp_all add: openIncident_def isOpenIncident_def)

lemma matched_unhealthy:
  "matched sn is \<Longrightarrow> sn_state sn = MUnhealthy \<Longrightarrow> \<exists>i. is = [i] \<and>
     (case sn_recoveryStartedAt sn of None \<Rightarrow> True | Some t \<Rightarrow> ic_detectedAt i \<le> t)"
  by (cases "(sn, is)" rule: matched.cases) auto

lemma matched_other: "matched sn is \<Longrightarrow> sn_state sn \<noteq> MUnhealthy \<Longrightarrow> is = []"
  by (cases "(sn, is)" rule: matched.cases) auto

text \<open>What the incidents of a policy are after the write for its transition.\<close>

lemma writeTransition_frames:
  assumes "writeTransition env p previous change db = (db', report)"
  shows "db_policies db' = db_policies db" "db_observations db' = db_observations db"
    "db_uuid db' = db_uuid db" "db_rowId db \<le> db_rowId db'"
    "map ic_id (db_incidents db') = map ic_id (db_incidents db) @
       map (de_rowId env) [db_rowId db..<db_rowId db']"
    "ic_policyId ` set (db_incidents db') \<subseteq> insert (cp_id p) (ic_policyId ` set (db_incidents db))"
    "db_rowId db' \<le> Suc (db_rowId db)"
  using assms
  by (auto simp: writeTransition_def updateOpenIncidents_def Let_def
      split: option.splits mon_transition_kind.splits if_splits)

lemma changeOpen_other:
  "q \<notin> set pids \<Longrightarrow> (\<And>i. ic_policyId (f i) = ic_policyId i) \<Longrightarrow>
   openOf q (changeOpen pids f is) = openOf q is"
  by (induction "is") (auto simp: openOf_def changeOpen_def)

lemma openOf_single: "openOf q [i] = (if ic_policyId i = q \<and> isOpenIncident i then [i] else [])"
  by (simp add: openOf_def)

lemma writeTransition_others:
  assumes "writeTransition env p previous change db = (db', report)" "q \<noteq> cp_id p"
  shows "openOf q (db_incidents db') = openOf q (db_incidents db)"
  using assms
  by (auto simp: writeTransition_def updateOpenIncidents_alt openOf_append openOf_single Let_def
      changeOpen_other split: option.splits mon_transition_kind.splits if_splits)

text \<open>
  The three cases of the write: the recovery streak of an open incident moves on, an outage opens an
  incident, a recovery closes the open one.
\<close>

definition incidentsFit :: "int \<Rightarrow> string \<Rightarrow> snapshot \<Rightarrow> check_incident list \<Rightarrow> bool" where
  "incidentsFit clock pid sn is \<longleftrightarrow> list_all (incidentRowOk clock) is \<and> matched sn (openOf pid is)"

lemma incidentsFit_later: "incidentsFit c pid sn is \<Longrightarrow> c \<le> c' \<Longrightarrow> incidentsFit c' pid sn is"
  by (auto simp: incidentsFit_def list_all_iff intro: incidentRowOk_later)

lemma incidentsFit_unhealthy:
  assumes "incidentsFit c pid sn is" "sn_state sn = MUnhealthy"
  obtains i where "openOf pid is = [i]" "i \<in> set is" "incidentRowOk c i" "isOpenIncident i"
    "ic_detectedAt i \<le> c" "case sn_recoveryStartedAt sn of None \<Rightarrow> True | Some t \<Rightarrow> ic_detectedAt i \<le> t"
proof -
  from matched_unhealthy [of sn "openOf pid is"] assms obtain i where i: "openOf pid is = [i]"
    "case sn_recoveryStartedAt sn of None \<Rightarrow> True | Some t \<Rightarrow> ic_detectedAt i \<le> t"
    by (auto simp: incidentsFit_def)
  then have "i \<in> set is" "isOpenIncident i" by (metis list.set_intros(1) openOf_mem)+
  with assms(1) i show ?thesis by (intro that) (auto simp: incidentsFit_def list_all_iff incidentRowOk_def)
qed

lemma changeOpen_fit:
  assumes fit: "incidentsFit c pid sn is" and i: "openOf pid is = [i]" and row: "incidentRowOk c (f i)"
  shows "list_all (incidentRowOk c) (changeOpen [pid] f is)"
proof (rule changeOpen_rows)
  show "incidentRowOk c (f j)" if "j \<in> set is" "ic_policyId j \<in> set [pid]" "isOpenIncident j" for j
  proof -
    from that have "j \<in> set (openOf pid is)" by (simp add: openOf_mem)
    with i row show ?thesis by simp
  qed
qed (use fit in \<open>simp add: incidentsFit_def\<close>)

lemma follow_fit:
  assumes fit: "incidentsFit c pid sn is" and st: "sn_state sn = MUnhealthy" and c: "c \<le> now"
    and none: "advanceHostMonitoringState sn oc th now = (sn', None)"
  shows "incidentsFit now pid sn' (changeOpen [pid] (\<lambda>i. i\<lparr>ic_recoveryStartedAt := sn_recoveryStartedAt sn'\<rparr>) is)"
proof -
  from incidentsFit_unhealthy [OF fit st] obtain i where i: "openOf pid is = [i]" "incidentRowOk c i"
    "isOpenIncident i" "ic_detectedAt i \<le> c"
    "case sn_recoveryStartedAt sn of None \<Rightarrow> True | Some t \<Rightarrow> ic_detectedAt i \<le> t" by blast
  let ?f = "\<lambda>i. i\<lparr>ic_recoveryStartedAt := sn_recoveryStartedAt sn'\<rparr>"
  have rec: "case sn_recoveryStartedAt sn' of None \<Rightarrow> True | Some t \<Rightarrow> ic_detectedAt i \<le> t"
    and st': "sn_state sn' = MUnhealthy"
    using none st i(4,5) c
    by (auto simp: advanceHostMonitoringState_def Let_def split: mon_state.splits if_splits option.splits)
  have "incidentRowOk now (?f i)"
    using i rec c by (intro follow_row) (auto intro: incidentRowOk_later)
  then have "list_all (incidentRowOk now) (changeOpen [pid] ?f is)"
    by (intro changeOpen_fit [OF incidentsFit_later [OF fit c] i(1)]) simp
  moreover have "openOf pid (changeOpen [pid] ?f is) = [?f i]"
    using changeOpen_keeping [of ?f pid "[pid]" "is"] i(1) by (simp add: isOpenIncident_def)
  ultimately show ?thesis using rec st' by (simp add: incidentsFit_def split: option.splits)
qed

lemma outage_fit:
  assumes fit: "incidentsFit c pid sn is" and c: "c \<le> now" and started: "startedBy c sn"
    and oc: "outcomeOk oc" and kind: "mt_kind tr = OutageTransition"
    and tr: "advanceHostMonitoringState sn oc th now = (sn', Some tr)"
  shows "incidentsFit now pid sn' (is @ [openIncident iid pid tr])"
proof -
  have "sn_state sn \<noteq> MUnhealthy" "sn' = cleared MUnhealthy" "contains FAILURE_CODES (mt_code tr)"
    "mt_firstObservedAt tr \<le> mt_confirmedAt tr" "mt_confirmedAt tr = now"
    using tr kind started c oc
    by (auto simp: advanceHostMonitoringState_def Let_def startedBy_def outcomeOk_def
        split: mon_state.splits if_splits option.splits)
  moreover from this(1) fit have "openOf pid is = []"
    using matched_other by (auto simp: incidentsFit_def)
  ultimately show ?thesis
    using incidentsFit_later [OF fit c]
    by (simp add: incidentsFit_def openIncident_row openOf_append openOf_single)
qed

lemma recovery_fit:
  assumes fit: "incidentsFit c pid sn is" and c: "c \<le> now" and started: "startedBy c sn"
    and oc: "outcomeOk oc" and kind: "mt_kind tr = RecoveryTransition"
    and tr: "advanceHostMonitoringState sn oc th now = (sn', Some tr)"
  shows "incidentsFit now pid sn' (changeOpen [pid] (recoverAs tr) is)"
proof -
  have st: "sn_state sn = MUnhealthy" and new: "sn' = cleared MHealthy"
    and code: "mt_code tr = OcExpectedStatus" and order: "mt_firstObservedAt tr \<le> mt_confirmedAt tr"
    and first: "mt_firstObservedAt tr = (case sn_recoveryStartedAt sn of Some t \<Rightarrow> t | None \<Rightarrow> now)"
    using tr kind started c oc
    by (auto simp: advanceHostMonitoringState_def Let_def startedBy_def outcomeOk_def
        split: mon_state.splits if_splits option.splits)
  from incidentsFit_unhealthy [OF fit st] obtain i where i: "openOf pid is = [i]" "incidentRowOk c i"
    "isOpenIncident i" "ic_detectedAt i \<le> c"
    "case sn_recoveryStartedAt sn of None \<Rightarrow> True | Some t \<Rightarrow> ic_detectedAt i \<le> t" by blast
  then have "ic_detectedAt i \<le> mt_firstObservedAt tr" using first c by (auto split: option.splits)
  then have "incidentRowOk now (recoverAs tr i)"
    using i order code c by (intro recoverAs_row) (auto intro: incidentRowOk_later)
  then have "list_all (incidentRowOk now) (changeOpen [pid] (recoverAs tr) is)"
    by (rule changeOpen_fit [OF incidentsFit_later [OF fit c] i(1)])
  then show ?thesis using new by (simp add: incidentsFit_def changeOpen_closing)
qed

lemma writeTransition_fit:
  assumes w: "writeTransition env p previous (advanceHostMonitoringState previous oc th now) db = (db', report)"
    and fit: "incidentsFit c (cp_id p) previous (db_incidents db)" and c: "c \<le> now"
    and started: "startedBy c previous" and oc: "outcomeOk oc"
  shows "incidentsFit now (cp_id p) (fst (advanceHostMonitoringState previous oc th now)) (db_incidents db')"
proof -
  obtain sn' tr where a: "advanceHostMonitoringState previous oc th now = (sn', tr)" by force
  show ?thesis
  proof (cases tr)
    case None
    show ?thesis
    proof (cases "sn_state previous = MUnhealthy")
      case True
      with follow_fit [OF fit True c] w a None show ?thesis
        by (auto simp: writeTransition_def updateOpenIncidents_alt)
    next
      case False
      with w a None have "db' = db" by (simp add: writeTransition_def)
      moreover have "sn_state sn' \<noteq> MUnhealthy"
        using a None False
        by (auto simp: advanceHostMonitoringState_def Let_def split: mon_state.splits if_splits)
      moreover have "openOf (cp_id p) (db_incidents db) = []"
        using fit False matched_other by (auto simp: incidentsFit_def)
      ultimately show ?thesis using incidentsFit_later [OF fit c] a by (simp add: incidentsFit_def)
    qed
  next
    case (Some t)
    with w a outage_fit [OF fit c started oc] recovery_fit [OF fit c started oc] show ?thesis
      by (auto simp: writeTransition_def updateOpenIncidents_alt Let_def split: mon_transition_kind.splits)
  qed
qed

section \<open>Completing a claim\<close>

lemma incidentsFit_of:
  assumes "monitoringOk c db" "p \<in> set (db_policies db)"
  shows "incidentsFit c (cp_id p) (cp_snapshot p) (db_incidents db)"
  using assms linkedD(1) [OF monitoringOkD(4)] by (auto simp: incidentsFit_def monitoringOk_def)

lemma closed_fit:
  assumes "list_all (incidentRowOk c) is" "c \<le> at"
  shows "incidentsFit c pid (cleared MUnknown) (changeOpen [pid] (closeAs PolicyChanged at) is)"
  using assms by (auto simp: incidentsFit_def changeOpen_closing intro!: changeOpen_rows closeAs_row)

lemma insertObservation_frames [simp]:
  "db_policies (insertObservation env p oc now db) = db_policies db"
  "db_incidents (insertObservation env p oc now db) = db_incidents db"
  "db_uuid (insertObservation env p oc now db) = db_uuid db"
  "db_rowId (insertObservation env p oc now db) = Suc (db_rowId db)"
  "map co_id (db_observations (insertObservation env p oc now db)) =
     map co_id (db_observations db) @ [de_rowId env (db_rowId db)]"
  by (simp_all add: insertObservation_def)

lemma insertObservation_rows:
  "list_all observationRowOk (db_observations db) \<Longrightarrow> outcomeOk oc \<Longrightarrow>
   list_all observationRowOk (db_observations (insertObservation env p oc now db))"
  by (simp add: insertObservation_def observationRowOk_def outcomeOk_def)

text \<open>New rows get unused identifiers.\<close>

lemma distinct_extended:
  assumes "distinct (as @ bs @ cs)" "distinct ns" "n \<notin> set ns"
    and "\<And>x. x \<in> set (n # ns) \<Longrightarrow> x \<notin> set (as @ bs @ cs)"
  shows "distinct (as @ (bs @ ns) @ cs @ [n])"
  using assms by auto

lemma fresh_ids:
  assumes "distinct (idsUsed db)" "idsFrom rowId db" "inj rowId"
    and "map cp_id (db_policies d) = map cp_id (db_policies db)"
    and "map ic_id (db_incidents d) = map ic_id (db_incidents db) @ map rowId [Suc (db_rowId db)..<m]"
    and "map co_id (db_observations d) = map co_id (db_observations db) @ [rowId (db_rowId db)]"
    and "Suc (db_rowId db) \<le> m"
  shows "distinct (idsUsed d)" "set (idsUsed d) \<subseteq> rowId ` {..<m}"
proof -
  have used: "set (idsUsed db) \<subseteq> rowId ` {..<db_rowId db}" using assms(2) by (simp add: idsFrom_def)
  have new: "rowId k \<notin> set (idsUsed db)" if "db_rowId db \<le> k" for k
  proof
    assume "rowId k \<in> set (idsUsed db)"
    then obtain j where "j < db_rowId db" "rowId k = rowId j" using used by fastforce
    with \<open>inj rowId\<close> that show False by (auto dest: injD)
  qed
  have own: "distinct (map rowId [Suc (db_rowId db)..<m])" "rowId (db_rowId db) \<notin> set (map rowId [Suc (db_rowId db)..<m])"
    using inj_eq [OF \<open>inj rowId\<close>] by (auto simp: distinct_map inj_on_def)
  have split: "{db_rowId db..<m} = insert (db_rowId db) {Suc (db_rowId db)..<m}" using assms(7) by auto
  have perm: "set (idsUsed d) = set (idsUsed db) \<union> rowId ` {db_rowId db..<m}"
    using arg_cong [OF assms(4), of set] arg_cong [OF assms(5), of set] arg_cong [OF assms(6), of set]
    unfolding split by (auto simp: idsUsed_def)
  show "set (idsUsed d) \<subseteq> rowId ` {..<m}" using perm used assms(7) by fastforce
  show "distinct (idsUsed d)"
    unfolding idsUsed_def [of d] assms(4-6)
  proof (rule distinct_extended)
    show "x \<notin> set (map cp_id (db_policies db) @ map ic_id (db_incidents db) @ map co_id (db_observations db))"
      if "x \<in> set (rowId (db_rowId db) # map rowId [Suc (db_rowId db)..<m])" for x
    proof -
      from that obtain k where k: "x = rowId k" "db_rowId db \<le> k" by auto
      show ?thesis using new [OF k(2)] unfolding k(1) idsUsed_def .
    qed
  qed (use assms(1) own in \<open>auto simp: idsUsed_def\<close>)
qed

lemma prune_openOf: "openOf q (db_incidents (prunePolicyHistory p now db)) = openOf q (db_incidents db)"
  by (auto simp: prunePolicyHistory_def intro!: openOf_filter dest: expiredIncident_closed)

lemma prune_distinct: "distinct (idsUsed db) \<Longrightarrow> distinct (idsUsed (prunePolicyHistory p now db))"
  by (auto simp: prunePolicyHistory_def idsUsed_def distinct_map_filter)

lemma prune_rows:
  "list_all P (db_incidents db) \<Longrightarrow> list_all P (db_incidents (prunePolicyHistory p now db))"
  "list_all Q (db_observations db) \<Longrightarrow> list_all Q (db_observations (prunePolicyHistory p now db))"
  by (auto simp: prunePolicyHistory_def list_all_iff)

lemma recordOutcome_row:
  assumes "policyRowOk c p" "c \<le> t2" "t2 \<le> t3" "outcomeOk oc"
    and "streaksOpen (thresholdsOf p) sn" "startedBy t2 sn"
  shows "policyRowOk t3 (recordOutcome p oc sn pf rv t2 t3 p)"
  using assms
  by (auto simp: policyRowOk_def recordOutcome_def outcomeOk_def startedBy_def thresholdsOf_def split: option.splits)

text \<open>The tables after the result is written, from any agreed state \<open>prev\<close> of the policy.\<close>

lemma record_ok:
  assumes ok: "monitoringOk c db" and ids: "idsFrom (de_rowId env) db" and inj: "inj (de_rowId env)"
    and p: "p \<in> set (db_policies db)" and times: "c \<le> t2" "t2 \<le> t3" and oc: "outcomeOk oc"
    and db1: "db_policies db1 = db_policies db" "db_observations db1 = db_observations db"
      "db_rowId db1 = db_rowId db" "map ic_id (db_incidents db1) = map ic_id (db_incidents db)"
      "map ic_policyId (db_incidents db1) = map ic_policyId (db_incidents db)"
      "\<And>q. q \<noteq> cp_id p \<Longrightarrow> openOf q (db_incidents db1) = openOf q (db_incidents db)"
    and prev: "incidentsFit c (cp_id p) prev (db_incidents db1)" "startedBy c prev" "streaksOpen (thresholdsOf p) prev"
    and w: "writeTransition env p prev (advanceHostMonitoringState prev oc (thresholdsOf p) t2)
      (insertObservation env p oc t2 db1) = (db3, report)"
  shows "monitoringOk t3 (updatePolicy (cp_id p) (recordOutcome p oc
      (fst (advanceHostMonitoringState prev oc (thresholdsOf p) t2)) pf rv t2 t3) (prunePolicyHistory p t3 db3)) \<and>
    idsFrom (de_rowId env) (updatePolicy (cp_id p) (recordOutcome p oc
      (fst (advanceHostMonitoringState prev oc (thresholdsOf p) t2)) pf rv t2 t3) (prunePolicyHistory p t3 db3))"
proof -
  let ?sn = "fst (advanceHostMonitoringState prev oc (thresholdsOf p) t2)"
  let ?f = "recordOutcome p oc ?sn pf rv t2 t3" and ?d = "prunePolicyHistory p t3 db3"
  have keeps: "cp_id (?f q) = cp_id q" "cp_proxyHostId (?f q) = cp_proxyHostId q"
    "cp_snapshot (?f q) = ?sn" "\<not> leaseActive t3 (?f q)" for q
    by (simp_all add: recordOutcome_def leaseActive_def)
  note frames = writeTransition_frames [OF w, unfolded insertObservation_frames db1(1-4)]
  have row: "policyRowOk c p" and th: "thresholdsOk (thresholdsOf p)"
    using monitoringOkD(1) [OF ok p] by (auto simp: policyRowOk_def)
  have fit: "incidentsFit t3 (cp_id p) ?sn (db_incidents db3)"
    using writeTransition_fit [OF w _ times(1) prev(2) oc] prev(1) times(2) incidentsFit_later by simp
  have "policyRowOk t3 (?f p)"
    by (rule recordOutcome_row [OF row times oc streaksOpen_advance [OF th prev(3)]
          startedBy_advance [OF prev(2) times(1)]])
  moreover have obs: "map co_id (db_observations db3) = map co_id (db_observations db) @ [de_rowId env (db_rowId db)]"
    using frames(2) by (simp add: insertObservation_def db1)
  note new = fresh_ids [OF _ ids inj, of db3 "db_rowId db3", OF _ _ frames(5) obs frames(4)]
  have "distinct (idsUsed db3)" "set (idsUsed db3) \<subseteq> de_rowId env ` {..<db_rowId db3}"
    using new ok frames(1) by (simp_all add: monitoringOk_def)
  moreover have "list_all observationRowOk (db_observations db3)"
    using frames(2) insertObservation_rows [of db1 oc env p t2] ok oc by (simp add: db1 monitoringOk_def)
  moreover have "ic_policyId ` set (db_incidents ?d) \<subseteq> cp_id ` set (db_policies db)"
  proof -
    have "ic_policyId ` set (db_incidents db1) = ic_policyId ` set (db_incidents db)"
      using arg_cong [OF db1(5), of set] by simp
    with frames(6) p linkedD(2) [OF monitoringOkD(4) [OF ok]] show ?thesis
      by (auto simp: prunePolicyHistory_def)
  qed
  moreover have "openOf q (db_incidents ?d) = openOf q (db_incidents db)" if "q \<noteq> cp_id p" for q
    using writeTransition_others [OF w that] db1(6) [OF that] by (simp add: prune_openOf)
  ultimately have "monitoringOk t3 (updatePolicy (cp_id p) ?f ?d)"
    using fit frames(1) times
    by (intro policy_write_ok [OF ok _ p])
      (auto simp: keeps incidentsFit_def prune_rows prune_distinct prune_openOf)
  moreover have "idsFrom (de_rowId env) (updatePolicy (cp_id p) ?f ?d)"
    unfolding updatePolicy_idsFrom [OF keeps(1)]
    by (rule prune_idsFrom) (use \<open>set (idsUsed db3) \<subseteq> _\<close> in \<open>simp add: idsFrom_def\<close>)
  ultimately show ?thesis by blast
qed


lemma complete_ok:
  assumes ok: "monitoringOk c db" and ids: "idsFrom (de_rowId env) db" and inj: "inj (de_rowId env)"
    and times: "c \<le> t1" "t1 \<le> t2" "t2 \<le> t3" and oc: "outcomeOk oc"
    and res: "completeHostMonitoringClaim env claim oc matches pf rv t1 t2 t3 db = Inr (r, db')"
  shows "monitoringOk t3 db' \<and> idsFrom (de_rowId env) db'"
proof (cases "currentClaim claim t1 db")
  case None
  with res monitoringOk_later [OF ok] times ids show ?thesis
    by (simp add: completeHostMonitoringClaim_def)
next
  case (Some p)
  then have p: "p \<in> set (db_policies db)" by (simp add: currentClaim_Some)
  have t2: "c \<le> t2" and t3: "c \<le> t3" using times by simp_all
  let ?changed = "cp_contextProof p \<noteq> Some pf \<or> cp_contextRevision p \<noteq> Some rv"
  let ?db1 = "if ?changed then updateOpenIncidents [cp_id p] (closeAs PolicyChanged t2) db else db"
  let ?prev = "if ?changed then cleared MUnknown else cp_snapshot p"
  let ?db2 = "insertObservation env p oc t2 ?db1"
  let ?change = "advanceHostMonitoringState ?prev oc (thresholdsOf p) t2"
  obtain db3 report where w: "writeTransition env p ?prev ?change ?db2 = (db3, report)" by force
  let ?db4 = "prunePolicyHistory p t3 db3"
  let ?f = "recordOutcome p oc (fst ?change) pf rv t2 t3"
  consider (same) "db' = db" | (cleared) "db' = clearLease p t2 db"
    | (recorded) "sameTables (updatePolicy (cp_id p) ?f ?db4) db'"
    using res Some w
    by (auto simp: completeHostMonitoringClaim_def Let_def andThen_Inr_iff recordTransition_tables
        split: if_splits option.splits prod.splits)
  then show ?thesis
  proof cases
    case same
    then show ?thesis using monitoringOk_later [OF ok t3] ids by simp
  next
    case cleared
    then show ?thesis
      using monitoringOk_later [OF clearLease_ok [OF ok t2 p] times(3)] ids by (simp add: clearLease_idsFrom)
  next
    case recorded
    have row: "policyRowOk c p" using monitoringOkD(1) [OF ok p] .
    have fit: "incidentsFit c (cp_id p) ?prev (db_incidents ?db1)"
      using incidentsFit_of [OF ok p] closed_fit [of c "db_incidents db" t2 "cp_id p"] ok t2
      by (auto simp: updateOpenIncidents_alt monitoringOk_def)
    have st: "startedBy c ?prev" "streaksOpen (thresholdsOf p) ?prev"
      using row by (auto simp: policyRowOk_def startedBy_def streaksOpen_cleared)
    have "monitoringOk t3 (updatePolicy (cp_id p) ?f ?db4) \<and>
        idsFrom (de_rowId env) (updatePolicy (cp_id p) ?f ?db4)"
      by (rule record_ok [OF ok ids inj p t2 times(3) oc _ _ _ _ _ _ fit st w])
        (auto simp: updateOpenIncidents_alt changeOpen_map changeOpen_other)
    with recorded show ?thesis using monitoringOk_same idsFrom_same by blast
  qed
qed

end
