(* ===== verification/MonitoringSystem.thy ===== *)
theory MonitoringSystem
  imports MonitoringComplete QueueWriters
begin

text \<open>
  Host monitoring as a system: every transaction of the repository as a step, in any order, with the
  writes of the other components that touch the same tables (hosts are edited and deleted, the
  notification state changes). The clock does not run backwards from one step to the next.
\<close>

section \<open>Saving a policy\<close>

lemma applySettings_row:
  assumes "settingsOk domainOk st"
  shows "policyRowOk c (resetPolicy v now (applySettings st actor p))"
  using assms
  by (auto simp: settingsOk_def policyRowOk_def resetPolicy_def applySettings_def thresholdsOf_def
      thresholdsOk_def cleared_def streaksOpen_def streaksOk_def)

lemma applySettings_frames [simp]:
  "cp_id (applySettings st actor p) = cp_id p" "cp_proxyHostId (applySettings st actor p) = cp_proxyHostId p"
  by (simp_all add: applySettings_def)

lemma newPolicy_ok:
  assumes ok: "monitoringOk c db" and ids: "idsFrom rowId db" and inj: "inj rowId"
    and st: "settingsOk domainOk settings" and few: "length (db_policies db) < LIMIT_maxPolicies"
    and none: "\<forall>q \<in> set (db_policies db). cp_proxyHostId q \<noteq> hostId"
    and p: "p = resetPolicy v now (applySettings settings actor (newPolicy (rowId (db_rowId db)) hostId))"
  shows "monitoringOk c (db\<lparr>db_policies := db_policies db @ [p], db_rowId := Suc (db_rowId db)\<rparr>) \<and>
    idsFrom rowId (db\<lparr>db_policies := db_policies db @ [p], db_rowId := Suc (db_rowId db)\<rparr>)"
proof -
  have fields: "cp_id p = rowId (db_rowId db)" "cp_proxyHostId p = hostId" "\<not> leaseActive c p"
      "cp_snapshot p = cleared MUnknown"
    by (simp_all add: p newPolicy_def)
  have new: "rowId (db_rowId db) \<notin> set (idsUsed db)"
  proof
    assume "rowId (db_rowId db) \<in> set (idsUsed db)"
    then obtain j where "j < db_rowId db" "rowId (db_rowId db) = rowId j"
      using ids by (fastforce simp: idsFrom_def)
    with inj show False by (auto dest: injD)
  qed
  have "ic_policyId i \<noteq> rowId (db_rowId db)" if "i \<in> set (db_incidents db)" for i
  proof -
    from linkedD(2) [OF monitoringOkD(4) [OF ok]] that have "ic_policyId i \<in> set (idsUsed db)"
      by (auto simp: idsUsed_def image_subset_iff)
    with new show ?thesis by metis
  qed
  then have "openOf (rowId (db_rowId db)) (db_incidents db) = []"
    by (auto simp: openOf_def filter_empty_conv)
  then have "linked (db_policies db @ [p]) (db_incidents db)"
    using monitoringOkD(4) [OF ok] by (auto simp: linked_def list_all_iff fields)
  moreover have "policyRowOk c p" unfolding p by (rule applySettings_row [OF st])
  ultimately have "monitoringOk c (db\<lparr>db_policies := db_policies db @ [p], db_rowId := Suc (db_rowId db)\<rparr>)"
    using ok few none new fields by (auto simp: monitoringOk_def idsUsed_def)
  moreover have "idsFrom rowId (db\<lparr>db_policies := db_policies db @ [p], db_rowId := Suc (db_rowId db)\<rparr>)"
    using ids fields by (auto simp: idsFrom_def idsUsed_def less_Suc_eq)
  ultimately show ?thesis ..
qed

lemma save_ok:
  assumes ok: "monitoringOk c db" and ids: "idsFrom (de_rowId env) db" and inj: "inj (de_rowId env)"
    and now: "c \<le> now" and st: "settingsOk domainOk settings"
    and existing: "existing = readHostMonitoringPolicy hostId db"
    and res: "saveHostMonitoringPolicy env hostId settings actor existing now db = Inr (p, db')"
  shows "monitoringOk now db' \<and> idsFrom (de_rowId env) db'"
proof -
  let ?db1 = "db\<lparr>db_uuid := Suc (db_uuid db)\<rparr>"
  have ok1: "monitoringOk c ?db1" and ids1: "idsFrom (de_rowId env) ?db1"
    using ok ids by (simp_all add: monitoringOk_def idsFrom_def idsUsed_def)
  have "\<exists>d. db' = pruneHistory now d \<and> monitoringOk c d \<and> idsFrom (de_rowId env) d"
  proof (cases existing)
    case None
    then have "\<forall>q \<in> set (db_policies ?db1). cp_proxyHostId q \<noteq> hostId"
      using existing by (auto simp: readHostMonitoringPolicy_def find_None_iff)
    with newPolicy_ok [OF ok1 ids1 inj st] None res show ?thesis
      by (auto simp: saveHostMonitoringPolicy_def Let_def split: if_splits)
  next
    case (Some old)
    let ?reason = "if hs_enabled settings then PolicyChanged else MonitoringDisabled"
    let ?change = "\<lambda>p. resetPolicy (rt_makeId (de_runtime env) (db_uuid db)) now (applySettings settings actor p)"
    let ?d = "?db1\<lparr>db_incidents := changeOpen [cp_id old] (closeAs ?reason now) (db_incidents db),
      db_policies := changePolicy (cp_id old) ?change (db_policies db)\<rparr>"
    have "list_all2 (resetTo c [cp_id old]) (db_policies ?db1) (changePolicy (cp_id old) ?change (db_policies db))"
      by (auto intro!: changePolicy_rel simp: resetTo_def applySettings_row [OF st])
    then have "monitoringOk c ?d"
      using resetting_ok [OF ok1 _ now, of "[cp_id old]" _ ?reason]
      by (simp add: monitoringOk_def idsUsed_def)
    moreover have "idsUsed ?d = idsUsed db" by (simp add: idsUsed_def changeOpen_map changePolicy_map)
    then have "idsFrom (de_rowId env) ?d" using ids by (simp add: idsFrom_def)
    moreover have "db' = pruneHistory now ?d"
      using res Some
      by (auto simp: saveHostMonitoringPolicy_def Let_def updateOpenIncidents_alt updatePolicy_alt
          split: option.splits)
    ultimately show ?thesis by blast
  qed
  then show ?thesis using pruneHistory_ok prune_idsFrom monitoringOk_later [OF _ now] by blast
qed

lemma savePolicy_ok:
  assumes ok: "monitoringOk c db" and ids: "idsFrom (de_rowId env) db" and inj: "inj (de_rowId env)"
    and now: "c \<le> now" and res: "savePolicy env domainOk actor perms rate input now db = Inr (v, db')"
  shows "monitoringOk now db' \<and> idsFrom (de_rowId env) db'"
proof -
  from res consider "db' = db"
    | p where "settingsOk domainOk (si_settings input)"
      "saveHostMonitoringPolicy env (si_proxyHostId input) (si_settings input) actor
        (readHostMonitoringPolicy (si_proxyHostId input) db) now db = Inr (p, db')"
    by (auto simp: savePolicy_def andThen_Inr_iff Let_def split: if_splits sum.splits)
  then show ?thesis
    using monitoringOk_later [OF ok now] ids save_ok [OF ok ids inj now] by cases auto
qed

section \<open>Deleting a host\<close>

text \<open>The foreign keys cascade from the host to its policy and from there to the history.\<close>

definition deleteHost :: "string \<Rightarrow> proxy_db \<Rightarrow> proxy_db" where
  "deleteHost hostId db =
     (let gone = map cp_id (filter (\<lambda>p. cp_proxyHostId p = hostId) (db_policies db)) in
      db\<lparr>db_hosts := filter (\<lambda>h. fst h \<noteq> hostId) (db_hosts db),
         db_domains := filter (\<lambda>d. fst d \<noteq> hostId) (db_domains db),
         db_policies := filter (\<lambda>p. cp_proxyHostId p \<noteq> hostId) (db_policies db),
         db_observations := filter (\<lambda>ob. \<not> contains gone (co_policyId ob)) (db_observations db),
         db_incidents := filter (\<lambda>i. \<not> contains gone (ic_policyId i)) (db_incidents db)\<rparr>)"

lemma openOf_without:
  "q \<notin> set gone \<Longrightarrow> openOf q (filter (\<lambda>i. \<not> contains gone (ic_policyId i)) is) = openOf q is"
  by (induction "is") (auto simp: openOf_def)

lemma deleteHost_ok:
  assumes ok: "monitoringOk c db" and ids: "idsFrom rowId db"
  shows "monitoringOk c (deleteHost hostId db) \<and> idsFrom rowId (deleteHost hostId db)"
proof -
  let ?ps = "filter (\<lambda>p. cp_proxyHostId p \<noteq> hostId) (db_policies db)"
  let ?is = "db_incidents (deleteHost hostId db)"
  have mine: "cp_proxyHostId p = cp_proxyHostId q" if "p \<in> set (db_policies db)" "q \<in> set (db_policies db)"
    "cp_id p = cp_id q" for p q using same_policy [OF ok that(1,2,3)] by simp
  have "linked ?ps ?is"
  proof (rule linkedI)
    show "matched (cp_snapshot p) (openOf (cp_id p) ?is)" if p: "p \<in> set ?ps" for p
    proof -
      have "cp_id p \<notin> set (map cp_id (filter (\<lambda>p. cp_proxyHostId p = hostId) (db_policies db)))"
      proof
        assume "cp_id p \<in> set (map cp_id (filter (\<lambda>p. cp_proxyHostId p = hostId) (db_policies db)))"
        then obtain q where "q \<in> set (db_policies db)" "cp_id p = cp_id q" "cp_proxyHostId q = hostId" by auto
        with mine [of p q] p show False by simp
      qed
      then have "openOf (cp_id p) ?is = openOf (cp_id p) (db_incidents db)"
        using openOf_without [of "cp_id p" "map cp_id (filter (\<lambda>p. cp_proxyHostId p = hostId) (db_policies db))"]
        by (simp add: deleteHost_def Let_def)
      with p linkedD(1) [OF monitoringOkD(4) [OF ok]] show ?thesis by simp
    qed
    show "ic_policyId ` set ?is \<subseteq> cp_id ` set ?ps"
    proof (rule image_subsetI)
      fix i assume i: "i \<in> set ?is"
      then have "i \<in> set (db_incidents db)" by (simp add: deleteHost_def Let_def)
      then obtain p where "p \<in> set (db_policies db)" "ic_policyId i = cp_id p"
        using linkedD(2) [OF monitoringOkD(4) [OF ok]] by blast
      then show "ic_policyId i \<in> cp_id ` set ?ps" using i by (auto simp: deleteHost_def Let_def)
    qed
  qed
  moreover have "length (filter (leaseActive c) ?ps) \<le> length (filter (leaseActive c) (db_policies db))"
    unfolding filter_filter by (rule length_filter_le) simp
  moreover have "length ?ps \<le> LIMIT_maxPolicies"
    using ok order.trans [OF List.length_filter_le] by (auto simp: monitoringOk_def)
  ultimately have "monitoringOk c (deleteHost hostId db)"
    using ok unfolding monitoringOk_def idsUsed_def
    by (auto simp: deleteHost_def Let_def list_all_iff distinct_map_filter)
  moreover have "idsFrom rowId (deleteHost hostId db)"
    using ids by (auto simp: idsFrom_def idsUsed_def deleteHost_def Let_def)
  ultimately show ?thesis ..
qed

section \<open>Steps\<close>

datatype monitoring_event =
    PolicySaved string save_input
  | PolicyClaimed "(check_policy \<times> string) option"
  | ClaimReleased "check_policy \<times> string"
  | ClaimCompleted "check_policy \<times> string" outcome
  | HostsInvalidated "string list" closed_reason
  | HistoryPruned
  | HostDeleted string
  | OthersWrote

text \<open>
  \<open>OthersWrote\<close> stands for the writes of other components: host rows and domains, the notification
  configuration and its state. Identifiers handed out in the meantime only move the counter on.
\<close>

inductive monitoringStep :: "db_env \<Rightarrow> (string \<Rightarrow> bool) \<Rightarrow> proxy_db \<times> int \<Rightarrow> monitoring_event \<Rightarrow>
    proxy_db \<times> int \<Rightarrow> bool"
  for env :: db_env and domainOk :: "string \<Rightarrow> bool" where
  saved: "c \<le> now \<Longrightarrow> savePolicy env domainOk actor perms rate input now db = Inr (v, db') \<Longrightarrow>
    monitoringStep env domainOk (db, c) (PolicySaved actor input) (db', now)"
| claimed: "c \<le> now \<Longrightarrow> claimDueHostMonitoringPolicy env now db = (r, db') \<Longrightarrow>
    monitoringStep env domainOk (db, c) (PolicyClaimed r) (db', now)"
| released: "c \<le> now \<Longrightarrow> releaseHostMonitoringClaim claim now db = (r, db') \<Longrightarrow>
    monitoringStep env domainOk (db, c) (ClaimReleased claim) (db', now)"
| completed: "c \<le> t1 \<Longrightarrow> t1 \<le> t2 \<Longrightarrow> t2 \<le> t3 \<Longrightarrow> outcomeOk oc \<Longrightarrow>
    completeHostMonitoringClaim env claim oc matches pf rv t1 t2 t3 db = Inr (r, db') \<Longrightarrow>
    monitoringStep env domainOk (db, c) (ClaimCompleted claim oc) (db', t3)"
| invalidated: "c \<le> now \<Longrightarrow> reason \<noteq> ClosedRecovered \<Longrightarrow>
    invalidateHostMonitoringForHosts env hosts reason now db = Inr db' \<Longrightarrow>
    monitoringStep env domainOk (db, c) (HostsInvalidated hosts reason) (db', now)"
| pruned: "c \<le> now \<Longrightarrow>
    monitoringStep env domainOk (db, c) HistoryPruned (pruneHistory now db, now)"
| deleted: "monitoringStep env domainOk (db, c) (HostDeleted hostId) (deleteHost hostId db, c)"
| others: "sameTables db db' \<Longrightarrow> db_uuid db \<le> db_uuid db' \<Longrightarrow>
    monitoringStep env domainOk (db, c) OthersWrote (db', c)"

definition monitoringInit :: "proxy_db \<times> int \<Rightarrow> bool" where
  "monitoringInit w \<longleftrightarrow> db_policies (fst w) = [] \<and> db_incidents (fst w) = [] \<and> db_observations (fst w) = []"

definition monitoringInv :: "db_env \<Rightarrow> proxy_db \<times> int \<Rightarrow> bool" where
  "monitoringInv env w \<longleftrightarrow> (inj (de_rowId env) \<longrightarrow>
     monitoringOk (snd w) (fst w) \<and> idsFrom (de_rowId env) (fst w))"

lemma monitoringInv_init: "monitoringInit w \<Longrightarrow> monitoringInv env w"
  by (simp add: monitoringInit_def monitoringInv_def monitoringOk_def idsFrom_def idsUsed_def linked_def
      LIMIT_maxPolicies_def LIMIT_maxActiveClaims_def)

lemma monitoringInv_step:
  assumes "monitoringInv env w" "monitoringStep env domainOk w e w'"
  shows "monitoringInv env w'"
  unfolding monitoringInv_def
proof
  assume inj: "inj (de_rowId env)"
  with assms(1) have ok: "monitoringOk (snd w) (fst w)" "idsFrom (de_rowId env) (fst w)"
    by (simp_all add: monitoringInv_def)
  from assms(2) ok show "monitoringOk (snd w') (fst w') \<and> idsFrom (de_rowId env) (fst w')"
  proof (induction rule: monitoringStep.induct)
    case (saved c now actor perms rate input db v db')
    then show ?case using savePolicy_ok [of c db env now domainOk actor perms rate input v db'] inj by simp
  next
    case (claimed c now db r db')
    then show ?case using claim_ok [of c db now env r db' "de_rowId env"] by simp
  next
    case (released c now claim db r db')
    then show ?case using release_ok [of c db now claim r db' "de_rowId env"] by simp
  next
    case (completed c t1 t2 t3 oc claim matches pf rv db r db')
    then show ?case using complete_ok [of c db env t1 t2 t3 oc claim matches pf rv r db'] inj by simp
  next
    case (invalidated c now reason hosts db db')
    then show ?case using invalidate_ok [of c db "de_rowId env" now reason env hosts db'] by simp
  next
    case (pruned c now db)
    then show ?case using monitoringOk_later [of c "pruneHistory now db" now] by (simp add: pruneHistory_ok prune_idsFrom)
  next
    case (deleted db c hostId)
    then show ?case using deleteHost_ok [of c db "de_rowId env" hostId] by simp
  next
    case (others db db' c)
    then show ?case using monitoringOk_same [of db db' c] idsFrom_same [of db db'] by simp
  qed
qed

interpretation monitoring: invariant_system monitoringInit "monitoringStep env domainOk" "monitoringInv env"
  for env domainOk
  by unfold_locales (auto intro: monitoringInv_init monitoringInv_step)

end
