(* ===== verification/MonitoringProperties.thy ===== *)
theory MonitoringProperties
  imports MonitoringSystem
begin

text \<open>
  What host monitoring promises: consistent tables in every reachable state, leases that fence out
  late results, probes that give their lease back, and saves that cannot overwrite each other.
\<close>

section \<open>Leases over time\<close>

definition leaseFrom :: "db_env \<Rightarrow> nat \<Rightarrow> check_policy list \<Rightarrow> check_policy \<Rightarrow> bool" where
  "leaseFrom env n ps p' \<longleftrightarrow> cp_leaseToken p' = None \<or>
     (\<exists>p \<in> set ps. cp_id p' = cp_id p \<and> cp_version p' = cp_version p \<and>
        cp_leaseToken p' = cp_leaseToken p \<and> cp_leaseExpiresAt p' = cp_leaseExpiresAt p) \<or>
     (\<exists>k \<ge> n. cp_leaseToken p' = Some (rt_makeId (de_runtime env) k))"

definition leasesKept :: "db_env \<Rightarrow> proxy_db \<Rightarrow> proxy_db \<Rightarrow> bool" where
  "leasesKept env db db' \<longleftrightarrow> db_uuid db \<le> db_uuid db' \<and>
     (\<forall>p' \<in> set (db_policies db'). leaseFrom env (db_uuid db) (db_policies db) p')"

lemma leaseFrom_same: "p \<in> set ps \<Longrightarrow> leaseFrom env n ps p"
  by (auto simp: leaseFrom_def)

lemma leaseFrom_none: "cp_leaseToken p = None \<Longrightarrow> leaseFrom env n ps p"
  by (simp add: leaseFrom_def)

lemma leasesKept_subset:
  "set (db_policies db') \<subseteq> set (db_policies db) \<Longrightarrow> db_uuid db \<le> db_uuid db' \<Longrightarrow> leasesKept env db db'"
  by (auto simp: leasesKept_def intro: leaseFrom_same)

lemma leasesKept_update:
  assumes "db_policies d = db_policies db" "db_uuid db \<le> db_uuid d"
    and "\<And>p. p \<in> set (db_policies db) \<Longrightarrow> cp_id p = pid \<Longrightarrow> leaseFrom env (db_uuid db) (db_policies db) (f p)"
  shows "leasesKept env db (updatePolicy pid f d)"
  using assms by (auto simp: leasesKept_def updatePolicy_alt changePolicy_def intro: leaseFrom_same)

lemma leasesKept_right:
  "leasesKept env db d \<Longrightarrow> db_policies d' = db_policies d \<Longrightarrow> db_uuid d \<le> db_uuid d' \<Longrightarrow> leasesKept env db d'"
  by (auto simp: leasesKept_def)

lemma writeEngine_frames:
  "writeEngine env s n db = Inr db' \<Longrightarrow> db_policies db' = db_policies db \<and> db_uuid db' = n"
  by (auto simp: writeEngine_def split: if_splits)

lemma cancelHost_frames:
  "cancelHostAvailabilityForHosts env hosts now db = Inr db' \<Longrightarrow>
   db_policies db' = db_policies db \<and> db_uuid db' = db_uuid db"
  by (auto simp: cancelHostAvailabilityForHosts_def split: if_splits dest: writeEngine_frames)

lemma recordTransition_frames:
  assumes "recordHostAvailabilityTransition env p pf rv i k now db = Inr db'"
  shows "db_policies db' = db_policies db \<and> db_uuid db \<le> db_uuid db'"
  using assms
  by (auto simp: recordHostAvailabilityTransition_def Let_def andThen_Inr_iff descendsBy_def
      split: if_splits option.splits dest!: writeEngine_frames life_writers.by_transition [OF TrueI])

lemma invalidatePolicies_tokens:
  "invalidatePolicies rowId hosts now n ps = (ps', m) \<Longrightarrow> p' \<in> set ps' \<Longrightarrow>
   cp_leaseToken p' = None \<or> p' \<in> set ps"
proof (induction rowId hosts now n ps arbitrary: ps' m rule: invalidatePolicies.induct)
  case (2 rowId hosts now n p ps)
  then show ?case by (auto split: if_splits prod.splits)
qed simp

lemma complete_leases:
  assumes "completeHostMonitoringClaim env claim oc matches pf rv t1 t2 t3 db = Inr (r, db')"
  shows "leasesKept env db db'"
proof (cases "currentClaim claim t1 db")
  case (Some p)
  let ?db1 = "if cp_contextProof p \<noteq> Some pf \<or> cp_contextRevision p \<noteq> Some rv
    then updateOpenIncidents [cp_id p] (closeAs PolicyChanged t2) db else db"
  let ?prev = "if cp_contextProof p \<noteq> Some pf \<or> cp_contextRevision p \<noteq> Some rv
    then cleared MUnknown else cp_snapshot p"
  let ?change = "advanceHostMonitoringState ?prev oc (thresholdsOf p) t2"
  obtain db3 report where w: "writeTransition env p ?prev ?change (insertObservation env p oc t2 ?db1) = (db3, report)"
    by force
  have "leasesKept env db (updatePolicy (cp_id p) (recordOutcome p oc (fst ?change) pf rv t2 t3) (prunePolicyHistory p t3 db3))"
    using writeTransition_frames(1,3) [OF w]
    by (intro leasesKept_update leaseFrom_none) (auto simp: updateOpenIncidents_alt recordOutcome_def)
  moreover have "leasesKept env db (clearLease p t2 db)"
    unfolding clearLease_def by (intro leasesKept_update leaseFrom_none) auto
  moreover have "leasesKept env db db" by (intro leasesKept_subset) auto
  ultimately show ?thesis
    using assms Some w leasesKept_right
    by (auto simp: completeHostMonitoringClaim_def Let_def andThen_Inr_iff
        split: if_splits option.splits prod.splits dest!: recordTransition_frames)
qed (use assms in \<open>simp add: completeHostMonitoringClaim_def leasesKept_subset\<close>)

lemma save_leases:
  assumes "saveHostMonitoringPolicy env hostId settings actor existing now db = Inr (p, db')"
  shows "leasesKept env db db'"
proof (cases existing)
  case None
  with assms show ?thesis
    by (auto simp: saveHostMonitoringPolicy_def Let_def leasesKept_def leaseFrom_same leaseFrom_none
        split: if_splits)
next
  case (Some old)
  with assms obtain d where "db' = pruneHistory now (updatePolicy (cp_id old)
      (\<lambda>p. resetPolicy (rt_makeId (de_runtime env) (db_uuid db)) now (applySettings settings actor p)) d)"
    "db_policies d = db_policies db" "db_uuid d = Suc (db_uuid db)"
    by (auto simp: saveHostMonitoringPolicy_def Let_def updateOpenIncidents_alt split: option.splits)
  then show ?thesis
    by (intro leasesKept_right [OF leasesKept_update [of d db "cp_id old" env]] leaseFrom_none) auto
qed

lemma step_leases:
  assumes "monitoringStep env domainOk w e w'"
  shows "leasesKept env (fst w) (fst w') \<and> snd w \<le> snd w'"
  using assms
proof (induction rule: monitoringStep.induct)
  case (saved c now actor perms rate input db v db')
  then show ?case
    using save_leases leasesKept_subset [of db db env]
    by (auto simp: savePolicy_def andThen_Inr_iff Let_def split: if_splits sum.splits)
next
  case (claimed c now db r db')
  have "leasesKept env db (updatePolicy pid (\<lambda>q. q\<lparr>cp_leaseToken := Some (rt_makeId (de_runtime env) (db_uuid db)),
      cp_leaseExpiresAt := e\<rparr>) db)" for pid e
    by (rule leasesKept_update) (auto simp: leaseFrom_def)
  from leasesKept_right [OF this] claimed show ?case
    by (auto simp: claimDueHostMonitoringPolicy_def Let_def leasesKept_subset updatePolicy_alt
        split: if_splits option.splits)
next
  case (released c now claim db r db')
  have "leasesKept env db (clearLease p now db)" for p
    unfolding clearLease_def by (intro leasesKept_update leaseFrom_none) auto
  with released show ?case
    by (auto simp: releaseHostMonitoringClaim_def leasesKept_subset split: option.splits)
next
  case (completed c t1 t2 t3 oc claim matches pf rv db r db')
  then show ?case using complete_leases by auto
next
  case (invalidated c now reason hosts db db')
  obtain ps n where res: "invalidatePolicies (de_rowId env) hosts now (db_rowId db) (db_policies db) = (ps, n)"
    by force
  have "leaseFrom env (db_uuid db) (db_policies db) p'" if "p' \<in> set ps" for p'
    using invalidatePolicies_tokens [OF res that] leaseFrom_none leaseFrom_same by blast
  with invalidated res show ?case
    by (auto simp: invalidateHostMonitoringForHosts_def Let_def updateOpenIncidents_alt leasesKept_def
        leaseFrom_same split: if_splits dest!: cancelHost_frames)
next
  case (deleted db c hostId)
  then show ?case by (auto simp: deleteHost_def Let_def intro!: leasesKept_subset)
next
  case (others db db' c)
  then show ?case by (auto simp: sameTables_def intro!: leasesKept_subset)
qed (auto intro!: leasesKept_subset)

lemma leaseFrom_trans:
  assumes "leaseFrom env m ps1 p2" "\<forall>p1 \<in> set ps1. leaseFrom env n ps p1" "n \<le> m"
  shows "leaseFrom env n ps p2"
  using assms(1) unfolding leaseFrom_def [of _ m]
proof (elim disjE bexE exE conjE)
  fix p1 assume p1: "p1 \<in> set ps1" and eq: "cp_id p2 = cp_id p1" "cp_version p2 = cp_version p1"
    "cp_leaseToken p2 = cp_leaseToken p1" "cp_leaseExpiresAt p2 = cp_leaseExpiresAt p1"
  from assms(2) p1 have "leaseFrom env n ps p1" by blast
  then show ?thesis unfolding leaseFrom_def eq .
next
  fix k assume "m \<le> k" "cp_leaseToken p2 = Some (rt_makeId (de_runtime env) k)"
  with assms(3) show ?thesis unfolding leaseFrom_def by (meson order.trans)
qed (rule leaseFrom_none)

lemma leases_over_steps:
  assumes "steps (monitoringStep env domainOk) w es w'"
  shows "leasesKept env (fst w) (fst w') \<and> snd w \<le> snd w'"
  using assms
proof (induction rule: steps.induct)
  case (steps_nil w)
  then show ?case by (simp add: leasesKept_subset)
next
  case (steps_cons w e w1 es w')
  from step_leases [OF steps_cons(1)] steps_cons.IH show ?case
    by (auto simp: leasesKept_def intro: leaseFrom_trans)
qed

lemma not_held_later:
  assumes kept: "leasesKept env db db'" and free: "currentClaim claim c db = None" and later: "c \<le> t"
    and inj: "inj (rt_makeId (de_runtime env))"
    and token: "snd claim = rt_makeId (de_runtime env) k" "k < db_uuid db"
  shows "currentClaim claim t db' = None"
proof -
  have "\<not> holdsClaim claim t p'" if "p' \<in> set (db_policies db')" for p'
  proof
    assume held: "holdsClaim claim t p'"
    from kept that have "leaseFrom env (db_uuid db) (db_policies db) p'" by (simp add: leasesKept_def)
    moreover have "\<not> (\<exists>j \<ge> db_uuid db. cp_leaseToken p' = Some (rt_makeId (de_runtime env) j))"
      using held token inj_eq [OF inj] by (auto simp: holdsClaim_def)
    moreover have "cp_leaseToken p' \<noteq> None" using held by (simp add: holdsClaim_def)
    ultimately obtain p where p: "p \<in> set (db_policies db)" "cp_id p' = cp_id p" "cp_version p' = cp_version p"
      "cp_leaseToken p' = cp_leaseToken p" "cp_leaseExpiresAt p' = cp_leaseExpiresAt p"
      unfolding leaseFrom_def by blast
    then have "leaseActive t p" using held by (simp add: holdsClaim_def leaseActive_def)
    then have "holdsClaim claim c p"
      using p held leaseActive_earlier [OF _ later] by (simp add: holdsClaim_def)
    with p free show False by (auto simp: currentClaim_def find_None_iff)
  qed
  then show ?thesis by (auto simp: currentClaim_def find_None_iff)
qed

section \<open>Versions\<close>

lemma save_frames:
  assumes "saveHostMonitoringPolicy env hostId settings actor existing now db = Inr (p, db')"
  shows "db_hosts db' = db_hosts db" "db_domains db' = db_domains db"
  using assms
  by (auto simp: saveHostMonitoringPolicy_def Let_def pruneHistory_def updateOpenIncidents_def updatePolicy_def
      split: if_splits option.splits)

lemma find_append: "find P (xs @ ys) = (case find P xs of None \<Rightarrow> find P ys | Some x \<Rightarrow> Some x)"
  by (induction xs) auto

lemma find_map_update:
  assumes "find P xs = Some x" "\<And>y. y \<in> set xs \<Longrightarrow> P (if Q y then f y else y) = P y" "Q x"
  shows "find P (map (\<lambda>y. if Q y then f y else y) xs) = Some (f x)"
  using assms by (induction xs) (auto split: if_splits)

lemma saved_version:
  assumes "saveHostMonitoringPolicy env hostId settings actor (readHostMonitoringPolicy hostId db) now db = Inr (p, db')"
  shows "map_option cp_version (readHostMonitoringPolicy hostId db') = Some (rt_makeId (de_runtime env) (db_uuid db))"
proof (cases "readHostMonitoringPolicy hostId db")
  case None
  with assms show ?thesis
    by (auto simp: saveHostMonitoringPolicy_def Let_def readHostMonitoringPolicy_def find_append newPolicy_def
        split: if_splits)
next
  case (Some old)
  let ?f = "\<lambda>p. resetPolicy (rt_makeId (de_runtime env) (db_uuid db)) now (applySettings settings actor p)"
  have "db_policies db' = map (\<lambda>p. if cp_id p = cp_id old then ?f p else p) (db_policies db)"
    using assms Some
    by (auto simp: saveHostMonitoringPolicy_def Let_def updateOpenIncidents_def updatePolicy_def split: option.splits)
  with find_map_update [of "\<lambda>p. cp_proxyHostId p = hostId" "db_policies db" old "\<lambda>p. cp_id p = cp_id old" ?f] Some
  show ?thesis by (simp add: readHostMonitoringPolicy_def)
qed

section \<open>A run\<close>

definition monRuntime :: runtime where
  "monRuntime = \<lparr>rt_sha256 = (\<lambda>s. s), rt_dateParse = (\<lambda>s. None),
     rt_makeId = (\<lambda>n. CHR ''u'' # replicate n CHR ''x'')\<rparr>"

definition monEnv :: db_env where
  "monEnv = \<lparr>de_runtime = monRuntime, de_rowId = (\<lambda>n. CHR ''r'' # replicate n CHR ''x''),
     de_formats = \<lparr>zf_uuid = (\<lambda>s. True), zf_datetime = (\<lambda>s. True), zf_url = (\<lambda>s. True)\<rparr>,
     de_owners = (\<lambda>_. None)\<rparr>"

definition monDb :: proxy_db where
  "monDb = \<lparr>db_policies = [], db_observations = [], db_incidents = [],
     db_hosts = [(''h'', True)], db_domains = [(''h'', ''a.example'')], db_rowId = 0, db_uuid = 0,
     db_configuration = \<lparr>nc_revision = 0, nc_enabled = False, nc_pausedAfterRestore = False, nc_channels = []\<rparr>,
     db_engine = createNotificationState\<rparr>"

definition monInput :: save_input where
  "monInput = \<lparr>si_proxyHostId = ''h'', si_expectedVersion = None,
     si_settings = \<lparr>hs_domain = ''a.example'', hs_enabled = True, hs_intervalSeconds = 60,
       hs_timeoutMs = 3000, hs_expectedStatus = 200, hs_failureThreshold = 1, hs_recoveryThreshold = 1,
       hs_retentionDays = 7, hs_sampleLimit = 100, hs_incidentLimit = 10\<rparr>\<rparr>"

definition monPermissions :: "permission_key list" where
  "monPermissions = [PROXY_HOSTS_VIEW, PROXY_HOSTS_UPDATE]"

definition monSaved :: "service_error + policy_view \<times> proxy_db" where
  "monSaved = savePolicy monEnv (\<lambda>_. True) ''a'' monPermissions True monInput 1000 monDb"

definition monSavedDb :: proxy_db where
  "monSavedDb = (case monSaved of Inr (v, db) \<Rightarrow> db | Inl _ \<Rightarrow> monDb)"

definition monClaimed :: "(check_policy \<times> string) option \<times> proxy_db" where
  "monClaimed = claimDueHostMonitoringPolicy monEnv 1000 monSavedDb"

definition monClaim :: "check_policy \<times> string" where "monClaim = the (fst monClaimed)"

definition monOutcome :: outcome where
  "monOutcome = \<lparr>oc_status = MUnhealthy, oc_code = OcUpstreamTimeout, oc_durationMs = Some 3000, oc_httpStatus = None\<rparr>"

definition monCompleted :: "domain_error + bool \<times> proxy_db" where
  "monCompleted = completeHostMonitoringClaim monEnv monClaim monOutcome (\<lambda>_. True) ''p'' ''v'' 1100 1200 1300 (snd monClaimed)"

definition monDownDb :: proxy_db where
  "monDownDb = (case monCompleted of Inr (b, db) \<Rightarrow> db | Inl _ \<Rightarrow> monDb)"

lemma mon_values:
  "case monSaved of Inr (v, db) \<Rightarrow> pv_availability v = AvNotChecked | Inl e \<Rightarrow> False"
  "fst monClaimed \<noteq> None"
  "case monCompleted of Inr (b, db) \<Rightarrow> b | Inl e \<Rightarrow> False"
  by code_simp+

lemma inj_mon [simp]: "inj (de_rowId monEnv)" "inj (rt_makeId (de_runtime monEnv))"
  by (auto simp: inj_on_def monEnv_def monRuntime_def replicate_eq_replicate)

lemma mon_save: "savePolicy monEnv (\<lambda>_. True) ''a'' monPermissions True monInput 1000 monDb =
    Inr (fst (projr monSaved), monSavedDb)"
  using mon_values(1) by (auto simp: monSavedDb_def monSaved_def split: sum.splits prod.splits)

lemma mon_complete: "completeHostMonitoringClaim monEnv monClaim monOutcome (\<lambda>_. True) ''p'' ''v'' 1100 1200 1300
    (snd monClaimed) = Inr (True, monDownDb)"
  using mon_values(3) by (auto simp: monDownDb_def monCompleted_def split: sum.splits prod.splits)

lemma mon_steps:
  "monitoringStep monEnv (\<lambda>_. True) (monDb, 0) (PolicySaved ''a'' monInput) (monSavedDb, 1000)"
  "monitoringStep monEnv (\<lambda>_. True) (monSavedDb, 1000) (PolicyClaimed (fst monClaimed)) (snd monClaimed, 1000)"
  "monitoringStep monEnv (\<lambda>_. True) (snd monClaimed, 1000) (ClaimCompleted monClaim monOutcome) (monDownDb, 1300)"
proof -
  show "monitoringStep monEnv (\<lambda>_. True) (monDb, 0) (PolicySaved ''a'' monInput) (monSavedDb, 1000)"
    by (rule monitoringStep.saved [OF _ mon_save]) simp
  show "monitoringStep monEnv (\<lambda>_. True) (monSavedDb, 1000) (PolicyClaimed (fst monClaimed)) (snd monClaimed, 1000)"
    by (rule monitoringStep.claimed) (simp_all add: monClaimed_def)
  show "monitoringStep monEnv (\<lambda>_. True) (snd monClaimed, 1000) (ClaimCompleted monClaim monOutcome) (monDownDb, 1300)"
    by (rule monitoringStep.completed [OF _ _ _ _ mon_complete])
      (simp_all add: outcomeOk_def monOutcome_def FAILURE_CODES_def)
qed

lemma mon_reach:
  "reach monitoringInit (monitoringStep monEnv (\<lambda>_. True)) (monDownDb, 1300)"
proof -
  have "reach monitoringInit (monitoringStep monEnv (\<lambda>_. True)) (monDb, 0)"
    by (rule reach_init) (simp add: monitoringInit_def monDb_def)
  from reach_step [OF reach_step [OF reach_step [OF this mon_steps(1)] mon_steps(2)] mon_steps(3)]
  show ?thesis .
qed

section \<open>Properties\<close>



text \<open>
  Claim C16: a claim that was lost stays lost. Once a policy was saved, invalidated, released,
  completed or its lease ran out, no later step revives the claim: a late result and a late release
  find nothing to write and leave the tables as they are.
\<close>

theorem lost_claims_write_nothing:
  assumes "inj (rt_makeId (de_runtime env))" "steps (monitoringStep env domainOk) (db, clock) es (db', clock')"
    and "currentClaim claim clock db = None"
    and "snd claim = rt_makeId (de_runtime env) k" "k < db_uuid db" "clock' \<le> t1"
  shows "completeHostMonitoringClaim env claim oc matches pf rv t1 t2 t3 db' = Inr (False, db') \<and>
    releaseHostMonitoringClaim claim t1 db' = (False, db')"
proof -
  from leases_over_steps [OF assms(2)] have "leasesKept env db db'" "clock \<le> t1" using assms(6) by simp_all
  from not_held_later [OF this(1) assms(3) this(2) assms(1,4,5)] show ?thesis
    by (simp add: completeHostMonitoringClaim_def releaseHostMonitoringClaim_def)
qed

lemma mon_lost:
  "currentClaim monClaim 1300 monDownDb = None" "snd monClaim = rt_makeId (de_runtime monEnv) 1"
  "1 < db_uuid monDownDb"
  by code_simp+

theorem lost_claims_write_nothing_witness:
  "completeHostMonitoringClaim monEnv monClaim monOutcome (\<lambda>_. True) ''p'' ''v'' 1400 1500 1600 monDownDb =
     Inr (False, monDownDb) \<and> releaseHostMonitoringClaim monClaim 1400 monDownDb = (False, monDownDb)"
  by (rule lost_claims_write_nothing [OF inj_mon(2) steps_nil mon_lost]) simp


lemma monitored_state:
  assumes "monitoringOk clock db" "p \<in> set (db_policies db)"
  shows "length (openOf (cp_id p) (db_incidents db)) = (if sn_state (cp_snapshot p) = MUnhealthy then 1 else 0)"
  using linkedD(1) [OF monitoringOkD(4) [OF assms(1)] assms(2)] matched_unhealthy matched_other by fastforce

text \<open>
  Claim C18: what the service shows is backed by the history. A host shown as down has exactly one
  open incident, and one shown as up has none.
\<close>

theorem shown_state_matches_incidents:
  assumes "inj (de_rowId env)" "reach monitoringInit (monitoringStep env domainOk) (db, clock)"
    and "getPolicy permissions hostId now db = Inr (Some v)"
  shows "length (openOf (pv_id v) (db_incidents db)) = (if pv_state v = MUnhealthy then 1 else 0) \<and>
    (pv_availability v = AvState MUnhealthy \<longrightarrow> pv_state v = MUnhealthy)"
proof -
  from assms(3) obtain p enabled where p: "p \<in> set (db_policies db)"
      and v: "v = policyView p enabled (hostDomainsOf hostId db) now"
    by (auto simp: getPolicy_def andThen_Inr_iff readHostMonitoringPolicy_def dest: find_mem)
  have "monitoringOk clock db"
    using monitoring.inv_reach [OF assms(2)] assms(1) by (simp add: monitoringInv_def)
  from monitored_state [OF this p] show ?thesis
    by (auto simp: v policyView_def Let_def policyAvailability_def split: option.splits)
qed

lemma mon_view: "\<exists>v. getPolicy monPermissions ''h'' 1400 monDownDb = Inr (Some v) \<and> pv_id v = ''r'' \<and>
    pv_state v = MUnhealthy"
proof -
  have "case getPolicy monPermissions ''h'' 1400 monDownDb of Inr (Some v) \<Rightarrow> pv_id v = ''r'' \<and> pv_state v = MUnhealthy
    | _ \<Rightarrow> False" by code_simp
  then show ?thesis by (auto split: sum.splits option.splits)
qed

theorem shown_state_matches_incidents_witness: "length (openOf ''r'' (db_incidents monDownDb)) = 1"
proof -
  from mon_view obtain v where v: "getPolicy monPermissions ''h'' 1400 monDownDb = Inr (Some v)"
    "pv_id v = ''r''" "pv_state v = MUnhealthy" by blast
  from shown_state_matches_incidents [OF inj_mon(1) mon_reach v(1)] v show ?thesis by simp
qed

text \<open>
  Two saves cannot overwrite each other. After a save that changed the policy, another
  save based on the same version is refused as a conflict.
\<close>

theorem second_save_conflicts:
  assumes "savePolicy env domainOk actor permissions True input now db = Inr (v, db')" "db' \<noteq> db"
    and "si_expectedVersion input \<noteq> Some (rt_makeId (de_runtime env) (db_uuid db))"
    and "si_proxyHostId other = si_proxyHostId input" "si_expectedVersion other = si_expectedVersion input"
    and "settingsOk domainOk (si_settings other)"
    and "contains (hostDomainsOf (si_proxyHostId other) db) (hs_domain (si_settings other))"
  shows "savePolicy env domainOk actor permissions True other later db' = Inl VersionConflict"
proof -
  let ?host = "si_proxyHostId input" and ?version = "rt_makeId (de_runtime env) (db_uuid db)"
  obtain p enabled where saved: "saveHostMonitoringPolicy env ?host (si_settings input) actor
      (readHostMonitoringPolicy ?host db) now db = Inr (p, db')"
    and perms: "contains permissions PROXY_HOSTS_UPDATE" "readHost permissions ?host db = Inr enabled"
    using assms(1,2) by (auto simp: savePolicy_def andThen_Inr_iff Let_def split: if_splits sum.splits)
  have frames: "db_hosts db' = db_hosts db" "db_domains db' = db_domains db"
    and version: "map_option cp_version (readHostMonitoringPolicy ?host db') = Some ?version"
    using saved saved_version [OF saved] by (auto simp: save_frames [OF saved])
  have same: "readHost permissions ?host db' = Inr enabled" "hostDomainsOf ?host db' = hostDomainsOf ?host db"
    using perms(2) frames by (simp_all add: readHost_def hostDomainsOf_def split: if_splits)
  from version obtain q where "readHostMonitoringPolicy ?host db' = Some q" "cp_version q = ?version" by auto
  with assms(3-7) perms(1) same show ?thesis
    by (auto simp: savePolicy_def Let_def guardR_def)
qed

lemma mon_changed: "monSavedDb \<noteq> monDb"
proof -
  have "db_policies monSavedDb \<noteq> []" by code_simp
  moreover have "db_policies monDb = []" by (simp add: monDb_def)
  ultimately show ?thesis by metis
qed

theorem second_save_conflicts_witness:
  "savePolicy monEnv (\<lambda>_. True) ''a'' monPermissions True monInput 2000 monSavedDb = Inl VersionConflict"
proof (rule second_save_conflicts [OF mon_save mon_changed])
  show "settingsOk (\<lambda>_. True) (si_settings monInput)" by (simp add: settingsOk_def monInput_def)
  show "contains (hostDomainsOf (si_proxyHostId monInput) monDb) (hs_domain (si_settings monInput))"
    by (simp add: hostDomainsOf_def monInput_def monDb_def)
  show "si_expectedVersion monInput \<noteq> Some (rt_makeId (de_runtime monEnv) (db_uuid monDb))"
    by (simp add: monInput_def)
qed simp_all

end
