(* ===== verification/IpRules.thy ===== *)
theory IpRules
  imports JsLib
begin

unbundle bit_operations_syntax

text \<open>
  The IP networks of access policies, \<^verbatim>\<open>web/src/lib/AccessPolicies/ipAccessRules.ts\<close>: addresses and
  prefixes are parsed from text, masked and printed in one canonical form, which is what the policy
  stores and compares.
\<close>

section \<open>Parsing\<close>

record parsed_network =
  pn_bytes :: "nat list"
  pn_bits :: nat
  pn_prefix :: nat

definition parsePrefix :: "string \<Rightarrow> nat \<Rightarrow> nat option" where
  "parsePrefix value maximum =
     (if 1 \<le> length value \<and> length value \<le> 3 \<and> list_all isDigit value \<and> number value \<le> maximum
      then Some (number value) else None)"

definition octetText :: "string \<Rightarrow> bool" where
  "octetText s \<longleftrightarrow> s = ''0'' \<or>
     (s \<noteq> [] \<and> length s \<le> 3 \<and> list_all isDigit s \<and> hd s \<noteq> CHR ''0'')"

definition parseIpv4 :: "string \<Rightarrow> parsed_network option" where
  "parseIpv4 value =
     (let parts = splitOn (CHR ''.'') value in
      if length parts \<noteq> 4 \<or> \<not> list_all octetText parts then None
      else let bytes = map number parts in
        if \<not> list_all (\<lambda>b. b \<le> 255) bytes then None
        else Some \<lparr>pn_bytes = bytes, pn_bits = 32, pn_prefix = 32\<rparr>)"

text \<open>\<^verbatim>\<open>value.split('::')\<close>, matching from the left.\<close>

fun splitDouble :: "string \<Rightarrow> string list" where
  "splitDouble [] = [[]]"
| "splitDouble [c] = [[c]]"
| "splitDouble (c # d # s) =
     (if c = CHR '':'' \<and> d = CHR '':'' then [] # splitDouble s
      else (case splitDouble (d # s) of [] \<Rightarrow> [[c]] | w # ws \<Rightarrow> (c # w) # ws))"

definition groupText :: "string \<Rightarrow> bool" where
  "groupText s \<longleftrightarrow> 1 \<le> length s \<and> length s \<le> 4 \<and> list_all isHex s"

text \<open>\<^verbatim>\<open>value.slice(0, lastIndexOf(':') + 1)\<close> and the rest.\<close>

definition lastPiece :: "string \<Rightarrow> string" where
  "lastPiece s = last (splitOn (CHR '':'') s)"

definition embedIpv4 :: "string \<Rightarrow> string option" where
  "embedIpv4 value =
     (if \<not> contains value (CHR ''.'') then Some value
      else (case parseIpv4 (lastPiece value) of
          None \<Rightarrow> None
        | Some v4 \<Rightarrow>
            let b = pn_bytes v4;
                high = push_bit 8 (b ! 0) OR b ! 1;
                low = push_bit 8 (b ! 2) OR b ! 3
            in Some (take (length value - length (lastPiece value)) value @
                 radix 16 high @ '':'' @ radix 16 low)))"

definition groupsOf :: "string \<Rightarrow> string list" where
  "groupsOf s = (if s = [] then [] else splitOn (CHR '':'') s)"

definition isMapped :: "nat list \<Rightarrow> bool" where
  "isMapped groups \<longleftrightarrow> list_all (\<lambda>g. g = 0) (take 5 groups) \<and> groups ! 5 = 65535"

definition parseIpv6 :: "string \<Rightarrow> nat list option" where
  "parseIpv6 text =
     (if contains text (CHR ''%'') \<or> \<not> contains text (CHR '':'') then None
      else (case embedIpv4 text of
          None \<Rightarrow> None
        | Some value \<Rightarrow>
            let pieces = splitDouble value in
            if length pieces > 2 then None
            else
              let compressed = (length pieces = 2);
                  leftGroups = groupsOf (hd pieces);
                  rightGroups = (if compressed then groupsOf (pieces ! 1) else []);
                  groups = leftGroups @ rightGroups
              in if (groups = [] \<and> \<not> compressed) \<or> \<not> list_all groupText groups \<or>
                    (\<not> compressed \<and> length groups \<noteq> 8) \<or> (compressed \<and> length groups \<ge> 8)
                 then None
                 else
                   let parsed = (if compressed
                         then map hexNumber leftGroups @ replicate (8 - length groups) 0 @ map hexNumber rightGroups
                         else map hexNumber groups)
                   in if length parsed \<noteq> 8 \<or> isMapped parsed then None else Some parsed))"

definition groupBytes :: "nat \<Rightarrow> nat list" where
  "groupBytes g = [drop_bit 8 g, g AND 255]"

definition parseNetwork :: "string \<Rightarrow> parsed_network option" where
  "parseNetwork value =
     (let pieces = splitOn (CHR ''/'') value; address = hd pieces in
      if length pieces > 2 \<or> address = [] then None
      else if contains address (CHR '':'')
      then (case parseIpv6 address of
          None \<Rightarrow> None
        | Some groups \<Rightarrow>
            (case (if length pieces = 2 then parsePrefix (pieces ! 1) 128 else Some 128) of
               None \<Rightarrow> None
             | Some len \<Rightarrow>
                 Some \<lparr>pn_bytes = concat (map groupBytes groups), pn_bits = 128, pn_prefix = len\<rparr>))
      else (case parseIpv4 address of
          None \<Rightarrow> None
        | Some parsed \<Rightarrow>
            map_option (\<lambda>len. parsed\<lparr>pn_prefix := len\<rparr>)
              (if length pieces = 2 then parsePrefix (pieces ! 1) 32 else Some 32)))"

section \<open>The canonical form\<close>

definition maskByte :: "nat \<Rightarrow> nat \<times> nat \<Rightarrow> nat" where
  "maskByte len ib =
     (let (index, value) = ib; remaining = int len - int index * 8 in
      if remaining \<ge> 8 then value
      else if remaining \<le> 0 then 0
      else value AND push_bit (8 - nat remaining) 255)"

definition maskBytes :: "nat list \<Rightarrow> nat \<Rightarrow> nat list" where
  "maskBytes bytes len = map (maskByte len) (enumerate 0 bytes)"

definition formatIpv4 :: "nat list \<Rightarrow> nat \<Rightarrow> string" where
  "formatIpv4 bytes len = joinWith ''.'' (map (radix 10) bytes) @ ''/'' @ radix 10 len"

text \<open>The first longest run of at least two zero groups, as start and length.\<close>

function longestZeros :: "nat \<Rightarrow> (nat \<times> nat) option \<Rightarrow> nat list \<Rightarrow> (nat \<times> nat) option" where
  "longestZeros start best [] = best"
| "longestZeros start best (g # gs) =
     (if g \<noteq> 0 then longestZeros (Suc start) best gs
      else
        let run = length (takeWhile (\<lambda>x. x = 0) (g # gs));
            best' = (if run > (case best of None \<Rightarrow> 1 | Some (_, n) \<Rightarrow> n) then Some (start, run) else best)
        in longestZeros (start + run) best' (dropWhile (\<lambda>x. x = 0) gs))"
  by pat_completeness auto
termination
  by (relation "measure (\<lambda>(_, _, gs). length gs)") (auto simp: le_imp_less_Suc length_dropWhile_le)

definition pairGroups :: "nat list \<Rightarrow> nat list" where
  "pairGroups bytes = map (\<lambda>index. push_bit 8 (bytes ! (index * 2)) OR bytes ! (index * 2 + 1)) [0..<8]"

definition formatIpv6 :: "nat list \<Rightarrow> nat \<Rightarrow> string" where
  "formatIpv6 bytes len =
     (let groups = pairGroups bytes; formatted = map (radix 16) groups in
      (case longestZeros 0 None groups of
         None \<Rightarrow> joinWith '':'' formatted
       | Some (start, run) \<Rightarrow>
           joinWith '':'' (take start formatted) @ ''::'' @ joinWith '':'' (drop (start + run) formatted)) @
      ''/'' @ radix 10 len)"

definition canonicalIpNetwork :: "string \<Rightarrow> string option" where
  "canonicalIpNetwork value =
     map_option (\<lambda>parsed.
       let masked = maskBytes (pn_bytes parsed) (pn_prefix parsed) in
       if pn_bits parsed = 32 then formatIpv4 masked (pn_prefix parsed) else formatIpv6 masked (pn_prefix parsed))
     (parseNetwork value)"

section \<open>Rules of a policy\<close>

datatype rule_action = Allow | Deny

record ip_rules =
  ir_defaultAction :: rule_action
  ir_allow :: "string list"
  ir_deny :: "string list"

definition MAX_ACCESS_POLICY_IP_RULES :: nat where "MAX_ACCESS_POLICY_IP_RULES = 128"

fun lessText :: "string \<Rightarrow> string \<Rightarrow> bool" where
  "lessText s [] = False"
| "lessText [] (d # t) = True"
| "lessText (c # s) (d # t) = ((of_char c :: nat) < of_char d \<or> (c = d \<and> lessText s t))"

fun insertText :: "string \<Rightarrow> string list \<Rightarrow> string list" where
  "insertText s [] = [s]"
| "insertText s (t # ts) = (if lessText t s then t # insertText s ts else s # t # ts)"

text \<open>\<^verbatim>\<open>[...new Set(values)].toSorted(compareAscii)\<close>.\<close>

definition canonicalizeIpNetworks :: "string list \<Rightarrow> string list" where
  "canonicalizeIpNetworks values = foldr insertText (rev (remdups (rev values))) []"

definition parseIpNetworks :: "string list \<Rightarrow> string list option" where
  "parseIpNetworks values =
     (if length values > MAX_ACCESS_POLICY_IP_RULES \<or> \<not> list_all (\<lambda>v. length v \<le> 64) values then None
      else those (map canonicalIpNetwork values))"

definition accessPolicyIpRulesInput :: "ip_rules \<Rightarrow> ip_rules option" where
  "accessPolicyIpRulesInput rules =
     (case (parseIpNetworks (ir_allow rules), parseIpNetworks (ir_deny rules)) of
        (Some allow, Some deny) \<Rightarrow> Some \<lparr>ir_defaultAction = ir_defaultAction rules,
          ir_allow = canonicalizeIpNetworks allow, ir_deny = canonicalizeIpNetworks deny\<rparr>
      | _ \<Rightarrow> None)"

section \<open>Bytes and groups\<close>

lemma and_255: "(g::nat) AND 255 = g mod 256"
proof -
  have "g AND mask 8 = take_bit 8 g" by (simp add: take_bit_eq_mask)
  then show ?thesis by (simp add: mask_eq_exp_minus_1 take_bit_eq_mod)
qed

lemma pair_or:
  assumes "b < 256"
  shows "push_bit 8 (a::nat) OR b = a * 256 + b"
proof -
  have "int (push_bit 8 a OR b) = concat_bit 8 (int b) (int a)"
    using assms by (simp add: concat_bit_def of_nat_or_eq of_nat_push_bit take_bit_eq_mod or.commute)
  also have "\<dots> = int (a * 256 + b)"
    using assms by (simp add: concat_bit_eq take_bit_eq_mod push_bit_eq_mult)
  finally show ?thesis by simp
qed

lemma and_le: "(v::nat) AND m \<le> v"
proof -
  have "int (v AND m) \<le> int v" by (simp add: of_nat_and_eq AND_upper1)
  then show ?thesis by simp
qed

lemma groupBytes_alt: "groupBytes g = [g div 256, g mod 256]"
  by (simp add: groupBytes_def and_255 drop_bit_eq_div)

lemma pairGroups_alt:
  assumes "list_all (\<lambda>b. b < 256) bytes" "length bytes = 16"
  shows "pairGroups bytes = map (\<lambda>i. bytes ! (i * 2) * 256 + bytes ! (i * 2 + 1)) [0..<8]"
  using assms by (auto simp: pairGroups_def list_all_length intro!: pair_or)

lemma group_pairs:
  "length bytes = 2 * n \<Longrightarrow> list_all (\<lambda>b. b < 256) bytes \<Longrightarrow>
   concat (map (\<lambda>i. groupBytes (bytes ! (i * 2) * 256 + bytes ! (i * 2 + 1))) [0..<n]) = bytes"
proof (induction n arbitrary: bytes)
  case (Suc n)
  then obtain a b rest where bytes: "bytes = a # b # rest" "length rest = 2 * n"
    by (cases bytes; cases "tl bytes") auto
  have "concat (map (\<lambda>i. groupBytes (bytes ! (i * 2) * 256 + bytes ! (i * 2 + 1))) (map Suc [0..<n])) = rest"
    using Suc.IH [of rest] Suc.prems(2) bytes by (simp add: comp_def)
  then show ?case
    using Suc.prems(2) bytes by (simp add: upt_conv_Cons map_Suc_upt [symmetric] groupBytes_alt del: upt_Suc)
qed simp

lemma groups_bytes:
  assumes "list_all (\<lambda>b. b < 256) bytes" "length bytes = 16"
  shows "concat (map groupBytes (pairGroups bytes)) = bytes"
  using group_pairs [of bytes 8] assms by (simp add: pairGroups_alt comp_def)

lemma bytes_of_groups:
  assumes "list_all (\<lambda>g. g < 65536) gs"
  shows "list_all (\<lambda>b. b < 256) (concat (map groupBytes gs))" "length (concat (map groupBytes gs)) = 2 * length gs"
  using assms by (induction gs) (auto simp: groupBytes_alt)

lemma nth_groupBytes:
  "i < length gs \<Longrightarrow> concat (map groupBytes gs) ! (i * 2) = gs ! i div 256 \<and>
     concat (map groupBytes gs) ! (i * 2 + 1) = gs ! i mod 256"
proof (induction gs arbitrary: i)
  case (Cons g gs)
  then show ?case by (cases i) (auto simp: groupBytes_alt)
qed simp

lemma bytes_groups:
  assumes "list_all (\<lambda>g. g < 65536) gs" "length gs = 8"
  shows "pairGroups (concat (map groupBytes gs)) = gs"
proof (rule nth_equalityI)
  have b: "list_all (\<lambda>b. b < 256) (concat (map groupBytes gs))" "length (concat (map groupBytes gs)) = 16"
    using bytes_of_groups [OF assms(1)] assms(2) by auto
  show "length (pairGroups (concat (map groupBytes gs))) = length gs" by (simp add: pairGroups_def assms(2))
  show "pairGroups (concat (map groupBytes gs)) ! i = gs ! i"
    if "i < length (pairGroups (concat (map groupBytes gs)))" for i
    using that nth_groupBytes [of i gs] assms(2)
    by (simp add: pairGroups_alt [OF b])
qed

lemma pairGroups_bound:
  assumes "list_all (\<lambda>b. b < 256) bytes" "length bytes = 16"
  shows "list_all (\<lambda>g. g < 65536) (pairGroups bytes)" "length (pairGroups bytes) = 8"
proof -
  have "bytes ! (i * 2) * 256 + bytes ! (i * 2 + 1) < 65536" if "i < 8" for i
  proof -
    have "bytes ! (i * 2) < 256" "bytes ! (i * 2 + 1) < 256" using assms that by (auto simp: list_all_length)
    then show ?thesis by linarith
  qed
  then show "list_all (\<lambda>g. g < 65536) (pairGroups bytes)"
    by (auto simp: pairGroups_alt [OF assms] list_all_iff)
qed (simp add: pairGroups_def)

section \<open>Masks\<close>

lemma maskByte_le: "maskByte len (i, v) \<le> v"
  by (simp add: maskByte_def Let_def and_le)

lemma maskByte_idem: "maskByte len (i, maskByte len (i, v)) = maskByte len (i, v)"
  by (simp add: maskByte_def Let_def and.assoc)

lemma length_maskBytes [simp]: "length (maskBytes bytes len) = length bytes"
  by (simp add: maskBytes_def)

lemma nth_maskBytes: "i < length bytes \<Longrightarrow> maskBytes bytes len ! i = maskByte len (i, bytes ! i)"
  by (simp add: maskBytes_def nth_enumerate_eq)

lemma maskBytes_idem: "maskBytes (maskBytes bytes len) len = maskBytes bytes len"
  by (rule nth_equalityI) (simp_all add: nth_maskBytes maskByte_idem)

lemma maskBytes_bound: "list_all (\<lambda>b. b < n) bytes \<Longrightarrow> list_all (\<lambda>b. b < n) (maskBytes bytes len)"
  by (auto simp: list_all_length nth_maskBytes intro: le_less_trans [OF maskByte_le])

lemma maskByte_full:
  assumes "maskByte len (i, v) = 255" "v < 256"
  shows "8 * i + 8 \<le> len"
proof (rule ccontr)
  let ?k = "8 - nat (int len - int i * 8)"
  assume "\<not> 8 * i + 8 \<le> len"
  then have k: "0 < ?k" and m: "maskByte len (i, v) = v AND push_bit ?k 255 \<or> maskByte len (i, v) = 0"
    by (auto simp: maskByte_def Let_def)
  have "even (v AND push_bit ?k 255)" using k by (simp add: even_and_iff push_bit_eq_mult)
  with m assms(1) show False by auto
qed

lemma maskByte_keeps: "8 * i + 8 \<le> len \<Longrightarrow> maskByte len (i, v) = v"
  by (simp add: maskByte_def Let_def)

lemma full_pair: "(a::nat) < 256 \<Longrightarrow> b < 256 \<Longrightarrow> a * 256 + b = 65535 \<longleftrightarrow> a = 255 \<and> b = 255"
  by presburger

lemma isMapped_bytes:
  assumes "list_all (\<lambda>b. b < 256) bytes" "length bytes = 16"
  shows "isMapped (pairGroups bytes) \<longleftrightarrow> (\<forall>i < 10. bytes ! i = 0) \<and> bytes ! 10 = 255 \<and> bytes ! 11 = 255"
proof -
  have b: "bytes ! i < 256" if "i < 16" for i using assms that by (simp add: list_all_length)
  have five: "take 5 (pairGroups bytes) = map (\<lambda>i. bytes ! (i * 2) * 256 + bytes ! (i * 2 + 1)) [0..<5]"
    by (simp add: pairGroups_alt [OF assms] take_map)
  have "list_all (\<lambda>g. g = 0) (take 5 (pairGroups bytes)) \<longleftrightarrow> (\<forall>i < 5. bytes ! (i * 2) = 0 \<and> bytes ! (i * 2 + 1) = 0)"
    unfolding five by (auto simp: list_all_iff)
  also have "\<dots> \<longleftrightarrow> (\<forall>i < 10. bytes ! i = 0)"
  proof
    assume pairs: "\<forall>i < 5. bytes ! (i * 2) = 0 \<and> bytes ! (i * 2 + 1) = 0"
    show "\<forall>i < 10. bytes ! i = 0"
    proof (intro allI impI)
      fix i :: nat assume "i < 10"
      then have "i div 2 < 5" by simp
      with pairs have "bytes ! (i div 2 * 2) = 0" "bytes ! (i div 2 * 2 + 1) = 0" by blast+
      then show "bytes ! i = 0" by (cases "even i") (simp_all add: mult.commute [of "i div 2"])
    qed
  qed simp
  finally have zeros: "list_all (\<lambda>g. g = 0) (take 5 (pairGroups bytes)) \<longleftrightarrow> (\<forall>i < 10. bytes ! i = 0)" .
  have "bytes ! 10 * 256 + bytes ! 11 = 65535 \<longleftrightarrow> bytes ! 10 = 255 \<and> bytes ! 11 = 255"
    by (rule full_pair) (simp_all add: b)
  moreover have "pairGroups bytes ! 5 = bytes ! 10 * 256 + bytes ! 11" by (simp add: pairGroups_alt [OF assms])
  ultimately show ?thesis by (simp add: isMapped_def zeros)
qed

lemma masked_not_mapped:
  assumes "list_all (\<lambda>b. b < 256) bytes" "length bytes = 16" "\<not> isMapped (pairGroups bytes)"
  shows "\<not> isMapped (pairGroups (maskBytes bytes len))"
proof
  note m = maskBytes_bound [OF assms(1), of len]
  assume "isMapped (pairGroups (maskBytes bytes len))"
  then have z: "\<forall>i < 10. maskByte len (i, bytes ! i) = 0" and
    f: "maskByte len (10, bytes ! 10) = 255" "maskByte len (11, bytes ! 11) = 255"
    using isMapped_bytes [OF m] assms(2) by (simp_all add: nth_maskBytes)
  have "96 \<le> len" using maskByte_full [OF f(2)] assms(1,2) by (simp add: list_all_length)
  then have "maskByte len (i, v) = v" if "i < 12" for i v using that by (intro maskByte_keeps) simp
  with z f isMapped_bytes [OF assms(1,2)] assms(3) show False by simp
qed

section \<open>Text\<close>

lemma hexVal_digit: "n < 16 \<Longrightarrow> hexVal (digit n) = n"
  by (auto simp: hexVal_def digit_def Let_def)

lemma isHex_digit: "n < 16 \<Longrightarrow> isHex (digit n)"
  by (auto simp: isHex_def isDigit_def digit_def)

lemma radix_induct [case_names digit step]:
  assumes "2 \<le> b" "\<And>n. n < b \<Longrightarrow> P n [digit n]"
    and "\<And>n s. b \<le> n \<Longrightarrow> P (n div b) s \<Longrightarrow> P n (s @ [digit (n mod b)])"
  shows "P n (radix b n)"
proof (induction n rule: less_induct)
  case (less n)
  show ?case
  proof (cases "n < b")
    case True
    then show ?thesis using assms(2) by (simp add: radix.simps [of b n])
  next
    case False
    then have "n div b < n" using assms(1) by simp
    from assms(3) [OF _ less [OF this]] False assms(1) show ?thesis by (simp add: radix.simps [of b n])
  qed
qed

lemma hexNumber_snoc: "hexNumber (s @ [c]) = 16 * hexNumber s + hexVal c"
  by (simp add: hexNumber_def)

lemma hexNumber_radix [simp]: "hexNumber (radix 16 n) = n"
proof -
  have "hexNumber s = n" if "s = radix 16 n" for s
    unfolding that
    by (rule radix_induct [where P = "\<lambda>n s. hexNumber s = n"])
      (simp_all add: hexNumber_snoc hexVal_digit, simp add: hexNumber_def hexVal_digit)
  then show ?thesis by simp
qed

lemma radix16_hex: "list_all isHex (radix 16 n)"
  by (rule radix_induct [where P = "\<lambda>n s. list_all isHex s"]) (simp_all add: isHex_digit)

lemma radix_length:
  assumes "2 \<le> b"
  shows "n < b ^ k \<Longrightarrow> 0 < k \<Longrightarrow> length (radix b n) \<le> k"
proof (induction k arbitrary: n)
  case (Suc k)
  show ?case
  proof (cases "n < b")
    case False
    then have "n div b < b ^ k" using Suc.prems(1) assms by (simp add: div_less_iff_less_mult mult.commute)
    moreover from this False assms have "0 < k" by (cases k) (simp_all add: div_eq_0_iff)
    ultimately show ?thesis using Suc.IH False assms by (simp add: radix.simps [of b n])
  qed (simp add: radix.simps [of b n])
qed simp

lemma radix10_hd: "0 < n \<Longrightarrow> hd (radix 10 n) \<noteq> CHR ''0''"
proof -
  have "0 < n \<longrightarrow> s \<noteq> [] \<and> hd s \<noteq> CHR ''0''" if "s = radix 10 n" for s
    unfolding that
  proof (rule radix_induct [where P = "\<lambda>n s. 0 < n \<longrightarrow> s \<noteq> [] \<and> hd s \<noteq> CHR ''0''"])
    fix n :: nat assume "n < 10"
    then show "0 < n \<longrightarrow> [digit n] \<noteq> [] \<and> hd [digit n] \<noteq> CHR ''0''"
      by (auto simp: digit_def dest!: arg_cong [of _ _ "of_char :: char \<Rightarrow> nat"])
  qed (auto simp: hd_append)
  then show "0 < n \<Longrightarrow> ?thesis" by simp
qed

lemma not_separator: "isHex c \<Longrightarrow> c \<notin> {CHR '':'', CHR ''.'', CHR ''/'', CHR ''%''}"
  by (auto simp: isHex_def isDigit_def)

lemma radix16_no: "c \<in> {CHR '':'', CHR ''.'', CHR ''/'', CHR ''%''} \<Longrightarrow> c \<notin> set (radix 16 n)"
  using radix16_hex [of n] not_separator by (auto simp: list_all_iff)

lemma radix10_no: "c \<in> {CHR '':'', CHR ''.'', CHR ''/'', CHR ''%''} \<Longrightarrow> c \<notin> set (radix 10 n)"
  using radix10_digits [of n] not_separator by (auto simp: isHex_def)

lemma octet_radix: "b < 256 \<Longrightarrow> octetText (radix 10 b)"
  using radix10_digits [of b] radix_length [of 10 b 3] radix10_hd [of b]
  by (cases "b = 0") (auto simp: octetText_def list_all_iff radix.simps [of 10 0] digit_def)

lemma group_radix: "g < 65536 \<Longrightarrow> groupText (radix 16 g)"
  using radix16_hex [of g] radix_length [of 16 g 4] by (auto simp: groupText_def Suc_le_eq)

lemma prefix_radix: "n \<le> m \<Longrightarrow> m < 1000 \<Longrightarrow> parsePrefix (radix 10 n) m = Some n"
  using radix10_digits [of n] radix_length [of 10 n 3]
  by (auto simp: parsePrefix_def number_radix10 list_all_iff Suc_le_eq)

section \<open>Reading back what was printed\<close>

lemma joinWith_chars: "set (joinWith sep ws) \<subseteq> set sep \<union> \<Union> (set ` set ws)"
  by (induction sep ws rule: joinWith.induct) auto

lemma joinWith_no: "c \<notin> set sep \<Longrightarrow> \<forall>w \<in> set ws. c \<notin> set w \<Longrightarrow> c \<notin> set (joinWith sep ws)"
  using joinWith_chars [of sep ws] by auto

lemma ipv4_roundtrip:
  assumes "length bytes = 4" "list_all (\<lambda>b. b < 256) bytes"
  shows "parseIpv4 (joinWith ''.'' (map (radix 10) bytes)) = Some \<lparr>pn_bytes = bytes, pn_bits = 32, pn_prefix = 32\<rparr>"
proof -
  have "splitOn (CHR ''.'') (joinWith ''.'' (map (radix 10) bytes)) = map (radix 10) bytes"
    by (rule splitOn_joinWith) (use assms(1) in \<open>auto simp: radix10_no\<close>)
  moreover have "list_all octetText (map (radix 10) bytes)"
    using assms(2) octet_radix by (auto simp: list_all_iff)
  moreover have "map number (map (radix 10) bytes) = bytes" by (simp add: comp_def number_radix10)
  moreover have "list_all (\<lambda>b. b \<le> 255) bytes" using assms(2) by (auto simp: list_all_iff)
  ultimately show ?thesis using assms(1) by (simp only: parseIpv4_def Let_def length_map) simp
qed

lemma splitDouble_not_Nil [simp]: "splitDouble s \<noteq> []"
  by (induction s rule: splitDouble.induct) (auto split: list.splits)

lemma splitDouble_other: "c \<noteq> CHR '':'' \<Longrightarrow> splitDouble (c # s) = (c # hd (splitDouble s)) # tl (splitDouble s)"
  by (cases s) (auto split: list.splits)

lemma splitDouble_single:
  "d \<noteq> CHR '':'' \<Longrightarrow> splitDouble (CHR '':'' # d # s) = (CHR '':'' # hd (splitDouble (d # s))) # tl (splitDouble (d # s))"
  by (auto split: list.splits)

lemma splitDouble_word:
  "CHR '':'' \<notin> set w \<Longrightarrow> splitDouble (w @ s) = (w @ hd (splitDouble s)) # tl (splitDouble s)"
  by (induction w) (auto simp: splitDouble_other [OF not_sym] simp del: splitDouble.simps(3))

lemma splitDouble_join:
  assumes "\<forall>w \<in> set ws. w \<noteq> [] \<and> CHR '':'' \<notin> set w" "ws \<noteq> []"
  shows "splitDouble (joinWith '':'' ws @ s) = (joinWith '':'' ws @ hd (splitDouble s)) # tl (splitDouble s)"
  using assms
proof (induction "'':''" ws rule: joinWith.induct)
  case (3 w v ws)
  obtain d v' where v: "v = d # v'" "d \<noteq> CHR '':''" using 3(2) by (cases v) auto
  then obtain t where t: "joinWith '':'' (v # ws) @ s = d # t" by (cases ws) auto
  have "splitDouble (joinWith '':'' (w # v # ws) @ s) = splitDouble (w @ CHR '':'' # d # t)"
    using t by simp
  also have "\<dots> = (w @ CHR '':'' # hd (splitDouble (d # t))) # tl (splitDouble (d # t))"
    using 3(2) v(2) by (simp add: splitDouble_word splitDouble_single del: splitDouble.simps)
  finally show ?case using 3 t by simp
qed (simp_all add: splitDouble_word)

lemma groupsOf_join:
  assumes "\<forall>w \<in> set ws. w \<noteq> [] \<and> CHR '':'' \<notin> set w"
  shows "groupsOf (joinWith '':'' ws) = ws"
proof (cases ws)
  case (Cons w vs)
  then have "joinWith '':'' ws \<noteq> []" using assms by (cases vs) auto
  then show ?thesis using assms Cons by (simp add: groupsOf_def splitOn_joinWith)
qed (simp add: groupsOf_def)

lemma longestZeros_spec:
  assumes "gs = drop start groups"
    and "\<And>s n. best = Some (s, n) \<Longrightarrow> 2 \<le> n \<and> s + n \<le> length groups \<and> take n (drop s groups) = replicate n 0"
    and "longestZeros start best gs = Some (s, n)"
  shows "2 \<le> n \<and> s + n \<le> length groups \<and> take n (drop s groups) = replicate n 0"
  using assms
proof (induction start best gs rule: longestZeros.induct)
  case (1 start best)
  then show ?case by simp
next
  case (2 start best g gs)
  have tl: "gs = drop (Suc start) groups" by (metis 2(3) drop_Suc list.sel(3) tl_drop)
  show ?case
  proof (cases "g = 0")
    case False
    then show ?thesis using 2(1) [OF False tl 2(4)] 2(5) by simp
  next
    case True
    let ?run = "length (takeWhile (\<lambda>x. x = 0) (g # gs))"
    let ?best = "if ?run > (case best of None \<Rightarrow> 1 | Some (_, n) \<Rightarrow> n) then Some (start, ?run) else best"
    have len: "length groups - start = Suc (length gs)" using arg_cong [OF 2(3), of length] by simp
    have zeros: "takeWhile (\<lambda>x. x = 0) (g # gs) = replicate ?run 0"
      by (rule replicate_eqI) (auto dest: set_takeWhileD)
    have "take ?run (drop start groups) = replicate ?run 0"
      unfolding 2(3) [symmetric] using zeros takeWhile_eq_take [of "\<lambda>x. x = 0" "g # gs"] by metis
    moreover have "start + ?run \<le> length groups"
      using length_takeWhile_le [of "\<lambda>x. x = 0" "g # gs"] len by simp
    moreover have "1 \<le> (case best of None \<Rightarrow> 1 | Some (_, n) \<Rightarrow> n)"
      using 2(4) by (force split: option.splits)
    ultimately have best: "2 \<le> n' \<and> s' + n' \<le> length groups \<and> take n' (drop s' groups) = replicate n' 0"
      if "?best = Some (s', n')" for s' n'
      using that 2(4) by (auto split: if_splits)
    have rest: "dropWhile (\<lambda>x. x = 0) gs = drop (start + ?run) groups"
      using True dropWhile_eq_drop [of "\<lambda>x. x = 0" "g # gs"] 2(3) drop_drop [of ?run start groups]
      by (simp only: dropWhile.simps if_True simp_thms add.commute)
    have "longestZeros (start + ?run) ?best (dropWhile (\<lambda>x. x = 0) gs) = Some (s, n)"
      using 2(5) True by (simp add: Let_def split: if_splits)
    from 2(2) [OF _ refl refl rest best this] True show ?thesis by simp
  qed
qed

definition groupsText :: "nat list \<Rightarrow> string" where
  "groupsText groups =
     (case longestZeros 0 None groups of
        None \<Rightarrow> joinWith '':'' (map (radix 16) groups)
      | Some (start, run) \<Rightarrow> joinWith '':'' (take start (map (radix 16) groups)) @ ''::'' @
          joinWith '':'' (drop (start + run) (map (radix 16) groups)))"

lemma formatIpv6_alt: "formatIpv6 bytes len = groupsText (pairGroups bytes) @ ''/'' @ radix 10 len"
  by (simp add: formatIpv6_def groupsText_def Let_def)

lemma words_ok: "\<forall>w \<in> set (map (radix 16) groups). w \<noteq> [] \<and> CHR '':'' \<notin> set w"
  by (auto simp: radix16_no)

lemma words_part: "\<forall>w \<in> set (take n (map (radix 16) groups)). w \<noteq> [] \<and> CHR '':'' \<notin> set w"
  "\<forall>w \<in> set (drop n (map (radix 16) groups)). w \<noteq> [] \<and> CHR '':'' \<notin> set w"
  using words_ok [of groups] by (meson in_set_takeD, meson in_set_dropD)

lemma groupsText_no:
  assumes "c \<in> {CHR ''.'', CHR ''/'', CHR ''%''}"
  shows "c \<notin> set (groupsText groups)"
proof -
  have "c \<notin> set w" if "w \<in> set (map (radix 16) groups)" for w
    using that assms by (auto simp: radix16_no)
  then have all: "c \<notin> set (joinWith '':'' ws)" if "set ws \<subseteq> set (map (radix 16) groups)" for ws
    using that assms by (intro joinWith_no) auto
  have "c \<notin> set (joinWith '':'' (take n (map (radix 16) groups)))"
    "c \<notin> set (joinWith '':'' (drop n (map (radix 16) groups)))" for n
    by (intro all set_take_subset set_drop_subset)+
  then show ?thesis
    using all [OF order.refl] assms by (auto simp: groupsText_def split: option.splits)
qed

lemma splitDouble_plain:
  assumes "\<forall>w \<in> set ws. w \<noteq> [] \<and> CHR '':'' \<notin> set w"
  shows "splitDouble (joinWith '':'' ws) = [joinWith '':'' ws]"
  using splitDouble_join [OF assms, of "[]"] by (cases "ws = []") auto

lemma splitDouble_compressed:
  assumes "\<forall>w \<in> set ws. w \<noteq> [] \<and> CHR '':'' \<notin> set w" "\<forall>w \<in> set vs. w \<noteq> [] \<and> CHR '':'' \<notin> set w"
  shows "splitDouble (joinWith '':'' ws @ ''::'' @ joinWith '':'' vs) = [joinWith '':'' ws, joinWith '':'' vs]"
  using splitDouble_join [OF assms(1), of "''::'' @ joinWith '':'' vs"] splitDouble_plain [OF assms(2)]
  by (cases "ws = []") auto

lemma ipv6_roundtrip:
  assumes "list_all (\<lambda>g. g < 65536) groups" "length groups = 8" "\<not> isMapped groups"
  shows "parseIpv6 (groupsText groups) = Some groups" "CHR '':'' \<in> set (groupsText groups)"
proof -
  let ?ws = "map (radix 16) groups"
  have texts: "list_all groupText ?ws" using assms(1) group_radix by (auto simp: list_all_iff)
  have colon: "CHR '':'' \<in> set (groupsText groups)"
  proof (cases "longestZeros 0 None groups")
    case None
    obtain a b cs where "groups = a # b # cs" using assms(2) by (cases groups; cases "tl groups") auto
    with None show ?thesis by (simp add: groupsText_def)
  qed (auto simp: groupsText_def)
  then show "CHR '':'' \<in> set (groupsText groups)" .
  have embed: "embedIpv4 (groupsText groups) = Some (groupsText groups)"
    using groupsText_no [of "CHR ''.''" groups] by (simp add: embedIpv4_def)
  have percent: "CHR ''%'' \<notin> set (groupsText groups)" using groupsText_no [of "CHR ''%''" groups] by simp
  show "parseIpv6 (groupsText groups) = Some groups"
  proof (cases "longestZeros 0 None groups")
    case None
    then have printed: "groupsText groups = joinWith '':'' ?ws" by (simp add: groupsText_def)
    have "splitDouble (groupsText groups) = [joinWith '':'' ?ws]" "groupsOf (joinWith '':'' ?ws) = ?ws"
      using splitDouble_plain [OF words_ok] groupsOf_join [OF words_ok] printed by simp_all
    moreover have "map hexNumber ?ws = groups" by (simp add: comp_def)
    moreover have "groups \<noteq> []" using assms(2) by auto
    ultimately show ?thesis
      using colon percent embed texts assms(2,3) by (simp add: parseIpv6_def Let_def del: map_map)
  next
    case (Some sr)
    then obtain start run where sr: "longestZeros 0 None groups = Some (start, run)" by (cases sr) auto
    let ?l = "take start ?ws" and ?r = "drop (start + run) ?ws"
    have spec: "2 \<le> run \<and> start + run \<le> length groups \<and> take run (drop start groups) = replicate run 0"
      by (rule longestZeros_spec [of groups 0 groups None, OF _ _ sr]) simp_all
    have printed: "groupsText groups = joinWith '':'' ?l @ ''::'' @ joinWith '':'' ?r" by (simp add: groupsText_def sr)
    have split: "splitDouble (groupsText groups) = [joinWith '':'' ?l, joinWith '':'' ?r]"
      unfolding printed by (rule splitDouble_compressed [OF words_part])
    have parts: "groupsOf (joinWith '':'' ?l) = ?l" "groupsOf (joinWith '':'' ?r) = ?r"
      using groupsOf_join [OF words_part(1)] groupsOf_join [OF words_part(2)] by simp_all
    have len: "length (?l @ ?r) = 8 - run" using spec assms(2) by simp
    have "list_all groupText (?l @ ?r)"
      using texts set_take_subset [of start ?ws] set_drop_subset [of "start + run" ?ws]
      unfolding list_all_iff set_append by blast
    moreover have "map hexNumber ?l @ replicate (8 - length (?l @ ?r)) 0 @ map hexNumber ?r = groups"
    proof -
      have "map hexNumber ?l = take start groups" "map hexNumber ?r = drop (start + run) groups"
        by (simp_all add: take_map [symmetric] drop_map [symmetric] comp_def)
      moreover have "groups = take start groups @ take run (drop start groups) @ drop (start + run) groups"
        by (metis append_take_drop_id drop_drop add.commute)
      moreover have "8 - length (?l @ ?r) = run" using len spec assms(2) by simp
      ultimately show ?thesis using spec by simp
    qed
    moreover have "8 - run < (8::nat)" using spec by simp
    ultimately show ?thesis
      using colon percent embed split parts len assms(2,3)
      by (simp add: parseIpv6_def Let_def del: map_map length_append append_assoc)
  qed
qed

section \<open>Networks\<close>

definition networkOk :: "parsed_network \<Rightarrow> bool" where
  "networkOk n \<longleftrightarrow> list_all (\<lambda>b. b < 256) (pn_bytes n) \<and>
     (pn_bits n = 32 \<and> length (pn_bytes n) = 4 \<and> pn_prefix n \<le> 32 \<or>
      pn_bits n = 128 \<and> length (pn_bytes n) = 16 \<and> pn_prefix n \<le> 128 \<and> \<not> isMapped (pairGroups (pn_bytes n)))"

lemma hexVal_bound: "isHex c \<Longrightarrow> hexVal c < 16"
  by (auto simp: isHex_def isDigit_def hexVal_def Let_def)

lemma hexNumber_bound: "list_all isHex s \<Longrightarrow> hexNumber s < 16 ^ length s"
proof (induction s rule: rev_induct)
  case (snoc c s)
  then have "hexNumber s < 16 ^ length s" "hexVal c < 16" by (simp_all add: hexVal_bound)
  then have "16 * hexNumber s + hexVal c < 16 * 16 ^ length s" by linarith
  then show ?case by (simp add: hexNumber_snoc)
qed (simp add: hexNumber_def)

lemma group_bound: "groupText s \<Longrightarrow> hexNumber s < 65536"
  using hexNumber_bound [of s] power_increasing [of "length s" 4 "16::nat"]
  by (auto simp: groupText_def)

lemma parseIpv6_Some:
  assumes "parseIpv6 s = Some groups"
  shows "length groups = 8 \<and> list_all (\<lambda>g. g < 65536) groups \<and> \<not> isMapped groups"
proof -
  from assms obtain l r z where g: "groups = map hexNumber l @ replicate z 0 @ map hexNumber r"
    "list_all groupText l" "list_all groupText r" "length groups = 8" "\<not> isMapped groups"
  proof (cases "embedIpv4 s")
    case (Some v)
    show ?thesis
    proof (cases "length (splitDouble v) = 2")
      case True
      with assms Some show ?thesis
        by (intro that [of "groupsOf (hd (splitDouble v))" _ "groupsOf (splitDouble v ! 1)"])
          (auto simp: parseIpv6_def Let_def split: if_splits)
    next
      case False
      with assms Some show ?thesis
        by (intro that [of "groupsOf (hd (splitDouble v))" 0 "[]"])
          (auto simp: parseIpv6_def Let_def split: if_splits)
    qed
  qed (simp add: parseIpv6_def split: if_splits)
  then show ?thesis using group_bound by (auto simp: list_all_iff)
qed

lemma parseIpv4_Some:
  "parseIpv4 s = Some n \<Longrightarrow> list_all (\<lambda>b. b < 256) (pn_bytes n) \<and> length (pn_bytes n) = 4 \<and>
     n = \<lparr>pn_bytes = pn_bytes n, pn_bits = 32, pn_prefix = 32\<rparr>"
  by (auto simp: parseIpv4_def Let_def list_all_iff le_imp_less_Suc [of _ 255, simplified] split: if_splits)

lemma parsePrefix_Some: "parsePrefix s m = Some n \<Longrightarrow> n \<le> m"
  by (auto simp: parsePrefix_def split: if_splits)

lemma parseNetwork_ok:
  assumes "parseNetwork s = Some n"
  shows "networkOk n"
proof (cases "CHR '':'' \<in> set (hd (splitOn (CHR ''/'') s))")
  case True
  with assms obtain groups len where g: "parseIpv6 (hd (splitOn (CHR ''/'') s)) = Some groups"
    "n = \<lparr>pn_bytes = concat (map groupBytes groups), pn_bits = 128, pn_prefix = len\<rparr>" "len \<le> 128"
    by (auto simp: parseNetwork_def Let_def split: if_splits option.splits dest: parsePrefix_Some)
  note p = parseIpv6_Some [OF g(1)]
  then show ?thesis using g(2,3) bytes_of_groups [of groups] bytes_groups [of groups] by (simp add: networkOk_def)
next
  case False
  with assms obtain v len where g: "parseIpv4 (hd (splitOn (CHR ''/'') s)) = Some v" "n = v\<lparr>pn_prefix := len\<rparr>" "len \<le> 32"
    by (auto simp: parseNetwork_def Let_def split: if_splits option.splits dest: parsePrefix_Some)
  with parseIpv4_Some [OF g(1)] show ?thesis by (cases v) (simp add: networkOk_def)
qed

lemma split_suffix:
  assumes "CHR ''/'' \<notin> set a"
  shows "splitOn (CHR ''/'') (a @ ''/'' @ radix 10 len) = [a, radix 10 len]"
  using splitOn_append [OF assms, of "radix 10 len"] splitOn_absent [of "CHR ''/''" "radix 10 len"] radix10_no
  by simp

definition masked :: "parsed_network \<Rightarrow> parsed_network" where
  "masked n = n\<lparr>pn_bytes := maskBytes (pn_bytes n) (pn_prefix n)\<rparr>"

definition printed :: "parsed_network \<Rightarrow> string" where
  "printed n = (if pn_bits n = 32 then formatIpv4 (pn_bytes n) (pn_prefix n) else formatIpv6 (pn_bytes n) (pn_prefix n))"

lemma canonical_alt: "canonicalIpNetwork s = map_option (printed \<circ> masked) (parseNetwork s)"
  by (cases "parseNetwork s") (simp_all add: canonicalIpNetwork_def printed_def masked_def Let_def)

lemma masked_ok: "networkOk n \<Longrightarrow> networkOk (masked n)"
  using masked_not_mapped maskBytes_bound by (auto simp: networkOk_def masked_def)

lemma masked_idem: "masked (masked n) = masked n"
  by (simp add: masked_def maskBytes_idem)

lemma parse_printed:
  assumes "networkOk n"
  shows "parseNetwork (printed n) = Some n"
proof (cases "pn_bits n = 32")
  case True
  let ?a = "joinWith ''.'' (map (radix 10) (pn_bytes n))"
  have n: "length (pn_bytes n) = 4" "list_all (\<lambda>b. b < 256) (pn_bytes n)" "pn_prefix n \<le> 32"
    using assms True by (auto simp: networkOk_def)
  have no: "c \<notin> set ?a" if "c \<in> {CHR ''/'', CHR '':''}" for c
    by (rule joinWith_no) (use that in \<open>auto simp: radix10_no\<close>)
  have "splitOn (CHR ''/'') (printed n) = [?a, radix 10 (pn_prefix n)]"
    using split_suffix [OF no, of "pn_prefix n"] True by (simp add: printed_def formatIpv4_def)
  moreover have "?a \<noteq> []"
  proof -
    obtain b bs where "pn_bytes n = b # bs" using n(1) by (cases "pn_bytes n") auto
    then show ?thesis by (cases bs) auto
  qed
  ultimately show ?thesis
    using no [of "CHR '':''"] ipv4_roundtrip [OF n(1,2)] prefix_radix [OF n(3)] True
    by (cases n) (simp add: parseNetwork_def Let_def)
next
  case False
  let ?gs = "pairGroups (pn_bytes n)"
  have n: "length (pn_bytes n) = 16" "list_all (\<lambda>b. b < 256) (pn_bytes n)" "pn_prefix n \<le> 128" "\<not> isMapped ?gs"
    "pn_bits n = 128" using assms False by (auto simp: networkOk_def)
  have g: "list_all (\<lambda>g. g < 65536) ?gs" "length ?gs = 8" using pairGroups_bound [OF n(2,1)] by auto
  note r = ipv6_roundtrip [OF g n(4)]
  have "splitOn (CHR ''/'') (printed n) = [groupsText ?gs, radix 10 (pn_prefix n)]"
    using split_suffix [of "groupsText ?gs" "pn_prefix n"] groupsText_no [of "CHR ''/''" ?gs] False
    by (simp add: printed_def formatIpv6_alt)
  moreover have "groupsText ?gs \<noteq> []" using r(2) by auto
  ultimately show ?thesis
    using r prefix_radix [OF n(3)] groups_bytes [OF n(2,1)] n(5)
    by (cases n) (simp add: parseNetwork_def Let_def)
qed

section \<open>The addresses of a network\<close>

text \<open>
  The reference reading of a network, bit by bit: bit number \<open>i\<close> of an address counts from the most
  significant bit of its first byte, and a network covers the addresses that agree with it on the first
  \<open>pn_prefix\<close> bits.
\<close>

definition addressBit :: "nat list \<Rightarrow> nat \<Rightarrow> bool" where
  "addressBit bytes i \<longleftrightarrow> bit (bytes ! (i div 8)) (7 - i mod 8)"

definition addressesOf :: "parsed_network \<Rightarrow> nat list set" where
  "addressesOf n = {a. length a = length (pn_bytes n) \<and> list_all (\<lambda>b. b < 256) a \<and>
     (\<forall>i < pn_prefix n. addressBit a i = addressBit (pn_bytes n) i)}"

lemma bit_byte: "(v::nat) < 256 \<Longrightarrow> bit v j \<Longrightarrow> j < 8"
  using take_bit_nat_eq_self [of v 8] bit_take_bit_iff [of 8 v j] by simp

lemma bit_maskByte:
  assumes "v < 256"
  shows "bit (maskByte len (i, v)) j \<longleftrightarrow> bit v j \<and> 8 * i + (7 - j) < len"
proof -
  have "mask 8 = (255::nat)" by (simp add: mask_eq_exp_minus_1)
  then have full: "bit (255::nat) k \<longleftrightarrow> k < 8" for k using bit_mask_iff [of 8 k, where 'a = nat] by (simp only: possible_bit_nat simp_thms)
  have ones: "bit (push_bit k (255::nat)) j \<longleftrightarrow> k \<le> j" if "bit v j" for k
    unfolding bit_push_bit_iff_nat full using bit_byte [OF assms that] by arith
  consider "8 * i + 8 \<le> len" | "len \<le> 8 * i" | "8 * i < len" "len < 8 * i + 8" by linarith
  then show ?thesis
  proof cases
    case 1
    then show ?thesis by (auto simp: maskByte_def)
  next
    case 2
    then show ?thesis by (auto simp: maskByte_def)
  next
    case inside: 3
    define r where "r = len - 8 * i"
    then have 3: "len = 8 * i + r" "0 < r" "r < 8" using inside by simp_all
    then have "maskByte len (i, v) = v AND push_bit (8 - r) 255" by (simp add: maskByte_def)
    then show ?thesis using 3 ones [of "8 - r"] bit_byte [OF assms, of j] by (auto simp: bit_and_iff)
  qed
qed

lemma byte_eqI:
  assumes "v < 256" "w < 256" "\<And>j. j < 8 \<Longrightarrow> bit v j = bit w j"
  shows "v = (w::nat)"
  by (rule bit_eqI) (metis assms bit_byte)

lemma addressBit_at: "j < 8 \<Longrightarrow> addressBit bytes (8 * k + (7 - j)) = bit (bytes ! k) j"
proof -
  assume "j < 8"
  then obtain r where r: "7 - j = r" "r < 8" "7 - r = j" by simp
  then have "(8 * k + (7 - j)) div 8 = k" "(8 * k + (7 - j)) mod 8 = 7 - j" by simp_all
  then show ?thesis using \<open>j < 8\<close> by (simp only: addressBit_def) simp
qed

lemma maskBytes_eq_iff:
  assumes "list_all (\<lambda>b. b < 256) a" "list_all (\<lambda>b. b < 256) b" "length a = length b" "len \<le> 8 * length b"
  shows "maskBytes a len = maskBytes b len \<longleftrightarrow> (\<forall>i < len. addressBit a i = addressBit b i)"
proof -
  have small: "a ! k < 256" "b ! k < 256" if "k < length b" for k
    using assms that by (auto simp: list_all_length)
  have masked_small: "maskByte len (k, a ! k) < 256" "maskByte len (k, b ! k) < 256" if "k < length b" for k
    using small [OF that] by (auto intro: le_less_trans [OF maskByte_le])
  show ?thesis
  proof
    assume eq: "maskBytes a len = maskBytes b len"
    show "\<forall>i < len. addressBit a i = addressBit b i"
    proof (intro allI impI)
      fix i assume i: "i < len"
      then have k: "i div 8 < length b" using assms(4) by auto
      have "maskByte len (i div 8, a ! (i div 8)) = maskByte len (i div 8, b ! (i div 8))"
        using arg_cong [OF eq, of "\<lambda>xs. xs ! (i div 8)"] k assms(3) by (simp add: nth_maskBytes)
      then have "bit (a ! (i div 8)) (7 - i mod 8) \<and> i < len \<longleftrightarrow> bit (b ! (i div 8)) (7 - i mod 8) \<and> i < len"
        using bit_maskByte [OF small(1) [OF k], of len "i div 8" "7 - i mod 8"]
          bit_maskByte [OF small(2) [OF k], of len "i div 8" "7 - i mod 8"] by simp
      then show "addressBit a i = addressBit b i" using i by (simp add: addressBit_def)
    qed
  next
    assume bits: "\<forall>i < len. addressBit a i = addressBit b i"
    show "maskBytes a len = maskBytes b len"
    proof (rule nth_equalityI)
      fix k assume "k < length (maskBytes a len)"
      then have k: "k < length b" using assms(3) by simp
      have "maskByte len (k, a ! k) = maskByte len (k, b ! k)"
      proof (rule byte_eqI [OF masked_small [OF k]])
        fix j :: nat assume "j < 8"
        then show "bit (maskByte len (k, a ! k)) j = bit (maskByte len (k, b ! k)) j"
          using bits addressBit_at [of j] by (auto simp: bit_maskByte small [OF k])
      qed
      then show "maskBytes a len ! k = maskBytes b len ! k" using k assms(3) by (simp add: nth_maskBytes)
    qed (simp add: assms(3))
  qed
qed

lemma addressesOf_masked:
  assumes "networkOk n"
  shows "addressesOf n = {a. length a = length (pn_bytes n) \<and> list_all (\<lambda>b. b < 256) a \<and>
     maskBytes a (pn_prefix n) = maskBytes (pn_bytes n) (pn_prefix n)}"
  using assms maskBytes_eq_iff [of _ "pn_bytes n" "pn_prefix n"]
  by (auto simp: addressesOf_def networkOk_def)

lemma own_address: "networkOk n \<Longrightarrow> pn_bytes n \<in> addressesOf n"
  by (simp add: addressesOf_def networkOk_def)

definition flipAddress :: "nat \<Rightarrow> nat list \<Rightarrow> nat list" where
  "flipAddress i bytes = bytes[i div 8 := flip_bit (7 - i mod 8) (bytes ! (i div 8))]"

lemma flip_byte: "(v::nat) < 256 \<Longrightarrow> j < 8 \<Longrightarrow> flip_bit j v < 256"
  using take_bit_flip_bit_eq [of 8 j v] take_bit_nat_eq_self_iff [of 8 v] take_bit_nat_eq_self_iff [of 8 "flip_bit j v"]
  by simp

lemma flipAddress_bit:
  assumes "i < 8 * length bytes"
  shows "addressBit (flipAddress i bytes) i' = (if i' = i then \<not> addressBit bytes i else addressBit bytes i')"
proof -
  have "i div 8 < length bytes" using assms by auto
  moreover have "i' = i" if "i' div 8 = i div 8" "7 - i' mod 8 = 7 - i mod 8"
  proof -
    have "i' mod 8 < 8" "i mod 8 < 8" by simp_all
    then have "i' mod 8 = i mod 8" using that(2) by linarith
    then show ?thesis using that(1) by (metis div_mult_mod_eq)
  qed
  ultimately show ?thesis
    by (auto simp: flipAddress_def addressBit_def nth_list_update bit_flip_bit_iff)
qed

lemma addressesOf_prefix:
  assumes "networkOk n" "networkOk m" "addressesOf n = addressesOf m" "pn_prefix n < pn_prefix m"
  shows False
proof -
  let ?b = "pn_bytes m" and ?i = "pn_prefix n"
  have same: "length (pn_bytes n) = length ?b"
    using own_address [OF assms(1)] unfolding assms(3) by (simp add: addressesOf_def)
  have i: "?i < 8 * length ?b" "list_all (\<lambda>b. b < 256) ?b" using assms(2,4) by (auto simp: networkOk_def)
  have "list_all (\<lambda>b. b < 256) (flipAddress ?i ?b)"
    using i flip_byte by (auto simp: flipAddress_def list_all_length nth_list_update)
  moreover have "?b \<in> addressesOf n" using own_address [OF assms(2)] assms(3) by simp
  moreover have "length (flipAddress ?i ?b) = length ?b" by (simp add: flipAddress_def)
  ultimately have "flipAddress ?i ?b \<in> addressesOf n"
    using same by (simp add: addressesOf_def flipAddress_bit [OF i(1)])
  then have "addressBit (flipAddress ?i ?b) ?i = addressBit ?b ?i"
    using assms(3,4) by (auto simp: addressesOf_def)
  then show False by (simp add: flipAddress_bit [OF i(1)])
qed

lemma addressesOf_eq_iff:
  assumes "networkOk n" "networkOk m"
  shows "addressesOf n = addressesOf m \<longleftrightarrow> masked n = masked m"
proof
  assume eq: "addressesOf n = addressesOf m"
  then have len: "pn_prefix n = pn_prefix m"
    using addressesOf_prefix [OF assms eq] addressesOf_prefix [OF assms(2,1) eq [symmetric]] by (metis linorder_neqE_nat)
  have "pn_bytes n \<in> addressesOf m" using own_address [OF assms(1)] eq by simp
  then have "length (pn_bytes n) = length (pn_bytes m)"
    "maskBytes (pn_bytes n) (pn_prefix m) = maskBytes (pn_bytes m) (pn_prefix m)"
    by (simp_all add: addressesOf_masked [OF assms(2)])
  moreover from this(1) have "pn_bits n = pn_bits m" using assms by (auto simp: networkOk_def)
  ultimately show "masked n = masked m" using len by (cases n; cases m) (simp add: masked_def)
next
  assume eq: "masked n = masked m"
  have "pn_prefix n = pn_prefix m" using arg_cong [OF eq, of pn_prefix] by (simp add: masked_def)
  moreover have "maskBytes (pn_bytes n) (pn_prefix n) = maskBytes (pn_bytes m) (pn_prefix m)"
    using arg_cong [OF eq, of pn_bytes] by (simp add: masked_def)
  moreover from this have "length (pn_bytes n) = length (pn_bytes m)"
    by (metis length_maskBytes)
  ultimately show "addressesOf n = addressesOf m"
    by (simp add: addressesOf_masked [OF assms(1)] addressesOf_masked [OF assms(2)])
qed

lemma canonical_parses:
  assumes "canonicalIpNetwork s = Some t"
  obtains n where "parseNetwork s = Some n" "networkOk n" "t = printed (masked n)" "parseNetwork t = Some (masked n)"
proof -
  from assms obtain n where n: "parseNetwork s = Some n" "t = printed (masked n)" by (auto simp: canonical_alt)
  from parseNetwork_ok [OF n(1)] show ?thesis
    using that [OF n(1) _ n(2)] parse_printed [OF masked_ok] n(2) by simp
qed

lemma canonical_fixed: "canonicalIpNetwork s = Some t \<Longrightarrow> canonicalIpNetwork t = Some t"
  by (erule canonical_parses) (simp add: canonical_alt masked_idem)

section \<open>Sorted rule lists\<close>

lemma lessText_irrefl [simp]: "\<not> lessText s s"
  by (induction s) auto

lemma lessText_trans: "lessText s t \<Longrightarrow> lessText t u \<Longrightarrow> lessText s u"
proof (induction s u arbitrary: t rule: lessText.induct)
  case (3 c s d u)
  from 3(2) obtain e t' where "t = e # t'" by (cases t) auto
  with 3 show ?case by auto
next
  case (1 s)
  then show ?case by simp
qed simp

lemma lessText_total: "s \<noteq> t \<Longrightarrow> lessText s t \<or> lessText t s"
proof (induction s t rule: lessText.induct)
  case (3 c s d t)
  then show ?case by (cases "c = d") (auto simp: linorder_neq_iff dest: of_char_eq_iff [THEN iffD1, rotated])
qed (auto simp: neq_Nil_conv)

lemma set_insertText [simp]: "set (insertText s ts) = insert s (set ts)"
  by (induction ts) auto

lemma sorted_insertText:
  "sorted_wrt lessText ts \<Longrightarrow> s \<notin> set ts \<Longrightarrow> sorted_wrt lessText (insertText s ts)"
  by (induction ts) (auto dest: lessText_total intro: lessText_trans)

lemma sorted_foldr_insertText:
  "distinct ts \<Longrightarrow> sorted_wrt lessText (foldr insertText ts []) \<and> set (foldr insertText ts []) = set ts"
  by (induction ts) (auto intro: sorted_insertText)

lemma canonicalizeIpNetworks_sorted:
  "sorted_wrt lessText (canonicalizeIpNetworks values) \<and> set (canonicalizeIpNetworks values) = set values"
  using sorted_foldr_insertText [of "rev (remdups (rev values))"] by (simp add: canonicalizeIpNetworks_def)

lemma insertText_least: "\<forall>t \<in> set ts. lessText s t \<Longrightarrow> insertText s ts = s # ts"
  by (cases ts) (auto dest: lessText_trans)

lemma sorted_lessText_distinct: "sorted_wrt lessText ts \<Longrightarrow> distinct ts"
  by (induction ts) auto

lemma canonicalizeIpNetworks_fixed:
  assumes "sorted_wrt lessText ts"
  shows "canonicalizeIpNetworks ts = ts"
proof -
  have "foldr insertText ts [] = ts" using assms by (induction ts) (auto simp: insertText_least)
  then show ?thesis using sorted_lessText_distinct [OF assms] by (simp add: canonicalizeIpNetworks_def distinct_remdups_id)
qed

lemma length_joinWith: "\<forall>w \<in> set ws. length w \<le> k \<Longrightarrow> length sep = 1 \<Longrightarrow> length (joinWith sep ws) \<le> Suc k * length ws"
  by (induction sep ws rule: joinWith.induct) auto

lemma length_groupsText:
  assumes "list_all (\<lambda>g. g < 65536) groups" "length groups = 8"
  shows "length (groupsText groups) \<le> 42"
proof -
  let ?ws = "map (radix 16) groups"
  have words: "\<forall>w \<in> set ?ws. length w \<le> 4"
    using assms(1) group_radix by (auto simp: list_all_iff groupText_def)
  have part: "length (joinWith '':'' vs) \<le> 5 * length vs" if "set vs \<subseteq> set ?ws" for vs
    using length_joinWith [of vs 4 "'':''"] words that by auto
  show ?thesis
  proof (cases "longestZeros 0 None groups")
    case None
    then show ?thesis using part [of ?ws] assms(2) by (simp add: groupsText_def)
  next
    case (Some sr)
    then obtain start run where sr: "longestZeros 0 None groups = Some (start, run)" by (cases sr) auto
    have spec: "start + run \<le> 8"
      using longestZeros_spec [of groups 0 groups None, OF _ _ sr] assms(2) by simp
    have "length (joinWith '':'' (take start ?ws)) \<le> 5 * start"
      "length (joinWith '':'' (drop (start + run) ?ws)) \<le> 5 * (8 - (start + run))"
      using part [OF set_take_subset [of start ?ws]] part [OF set_drop_subset [of "start + run" ?ws]] spec assms(2) by simp_all
    then show ?thesis using spec by (simp add: groupsText_def sr)
  qed
qed

lemma length_prefix: "n \<le> 128 \<Longrightarrow> length (radix 10 n) \<le> 3"
  using prefix_radix [of n 128] by (simp add: parsePrefix_def split: if_splits)

lemma octet_length: "b < 256 \<Longrightarrow> length (radix 10 b) \<le> 3"
  by (drule octet_radix) (auto simp: octetText_def)

lemma length_printed:
  assumes "networkOk n"
  shows "length (printed n) \<le> 64"
proof (cases "pn_bits n = 32")
  case True
  have n: "length (pn_bytes n) = 4" "list_all (\<lambda>b. b < 256) (pn_bytes n)" "pn_prefix n \<le> 128"
    using assms True by (auto simp: networkOk_def)
  have "\<forall>w \<in> set (map (radix 10) (pn_bytes n)). length w \<le> 3"
    using n(2) by (auto simp: list_all_iff octet_length)
  from length_joinWith [OF this, of "''.''"] show ?thesis
    using length_prefix [OF n(3)] n(1) True by (simp add: printed_def formatIpv4_def)
next
  case False
  have n: "length (pn_bytes n) = 16" "list_all (\<lambda>b. b < 256) (pn_bytes n)" "pn_prefix n \<le> 128"
    using assms False by (auto simp: networkOk_def)
  have "list_all (\<lambda>g. g < 65536) (pairGroups (pn_bytes n))" "length (pairGroups (pn_bytes n)) = 8"
    using pairGroups_bound [OF n(2,1)] by auto
  from length_groupsText [OF this] show ?thesis
    using length_prefix [OF n(3)] False by (simp add: printed_def formatIpv6_alt)
qed

lemma canonical_length: "canonicalIpNetwork s = Some t \<Longrightarrow> length t \<le> 64"
  by (erule canonical_parses) (simp add: length_printed masked_ok)

lemma those_Some_iff: "those xs = Some ys \<longleftrightarrow> xs = map Some ys"
proof (induction xs arbitrary: ys)
  case (Cons x xs)
  then show ?case by (cases x; cases ys) (auto split: option.splits)
qed auto

lemma parseIpNetworks_canonical:
  assumes "parseIpNetworks values = Some networks"
  shows "\<forall>t \<in> set networks. canonicalIpNetwork t = Some t \<and> length t \<le> 64" "length networks \<le> MAX_ACCESS_POLICY_IP_RULES"
    "set networks = {t. \<exists>v \<in> set values. canonicalIpNetwork v = Some t}"
proof -
  have m: "map canonicalIpNetwork values = map Some networks" "length values \<le> MAX_ACCESS_POLICY_IP_RULES"
    using assms by (simp_all add: parseIpNetworks_def those_Some_iff split: if_splits)
  show "length networks \<le> MAX_ACCESS_POLICY_IP_RULES" using m(2) arg_cong [OF m(1), of length] by simp
  have image: "canonicalIpNetwork ` set values = Some ` set networks" using arg_cong [OF m(1), of set] by simp
  then show "set networks = {t. \<exists>v \<in> set values. canonicalIpNetwork v = Some t}" by force
  then show "\<forall>t \<in> set networks. canonicalIpNetwork t = Some t \<and> length t \<le> 64"
    by (auto intro: canonical_fixed dest: canonical_length)
qed

lemma parseIpNetworks_fixed:
  assumes "\<forall>t \<in> set ts. canonicalIpNetwork t = Some t \<and> length t \<le> 64" "length ts \<le> MAX_ACCESS_POLICY_IP_RULES"
  shows "parseIpNetworks ts = Some ts"
  using assms by (auto simp: parseIpNetworks_def those_Some_iff list_all_iff)

lemma length_canonicalize: "length (canonicalizeIpNetworks ts) \<le> length ts"
proof -
  have "length (foldr insertText us []) = length us" for us
  proof (induction us)
    case (Cons u us)
    have "length (insertText u vs) = Suc (length vs)" for vs by (induction vs) auto
    then show ?case using Cons by simp
  qed simp
  then show ?thesis using length_remdups_leq [of "rev ts"] by (simp add: canonicalizeIpNetworks_def)
qed

lemma accepted_networks:
  assumes "parseIpNetworks values = Some networks"
  shows "parseIpNetworks (canonicalizeIpNetworks networks) = Some (canonicalizeIpNetworks networks)"
    and "canonicalizeIpNetworks (canonicalizeIpNetworks networks) = canonicalizeIpNetworks networks"
    and "set (canonicalizeIpNetworks networks) = {t. \<exists>v \<in> set values. canonicalIpNetwork v = Some t}"
  using parseIpNetworks_canonical [OF assms] canonicalizeIpNetworks_sorted [of networks] length_canonicalize [of networks]
  by (auto intro!: parseIpNetworks_fixed canonicalizeIpNetworks_fixed)

section \<open>Properties\<close>

text \<open>
  Claim C31. Printing and parsing networks round trip: the text that canonicalization gives for a network parses
  back, to a network of the same prefix length that covers exactly the same addresses, and it is its own
  canonical form.
\<close>

theorem canonical_network_roundtrip:
  assumes "canonicalIpNetwork s = Some t"
  shows "canonicalIpNetwork t = Some t \<and>
    (\<exists>n m. parseNetwork s = Some n \<and> parseNetwork t = Some m \<and> pn_prefix m = pn_prefix n \<and> pn_bits m = pn_bits n \<and>
       addressesOf m = addressesOf n)"
proof -
  from assms obtain n where n: "parseNetwork s = Some n" "networkOk n" "parseNetwork t = Some (masked n)"
    by (rule canonical_parses)
  moreover have "addressesOf (masked n) = addressesOf n"
    by (simp add: addressesOf_eq_iff n(2) masked_ok masked_idem)
  moreover have "pn_prefix (masked n) = pn_prefix n" "pn_bits (masked n) = pn_bits n" by (simp_all add: masked_def)
  ultimately show ?thesis using canonical_fixed [OF assms] by blast
qed

theorem canonical_network_roundtrip_witness:
  "canonicalIpNetwork ''10.1.2.3/8'' = Some ''10.0.0.0/8'' \<and> canonicalIpNetwork ''10.0.0.0/8'' = Some ''10.0.0.0/8''"
proof -
  have "canonicalIpNetwork ''10.1.2.3/8'' = Some ''10.0.0.0/8''" by code_simp
  with canonical_network_roundtrip [OF this] show ?thesis by blast
qed

text \<open>
  Claim C32. The canonical text decides whether two texts name the same network: two texts that parse have the
  same canonical form exactly when the addresses they cover, read bit by bit from the prefix, are the same.
\<close>

theorem canonical_network_decides:
  assumes "parseNetwork s = Some n" "parseNetwork s' = Some n'"
  shows "canonicalIpNetwork s = canonicalIpNetwork s' \<longleftrightarrow> addressesOf n = addressesOf n'"
proof -
  note ok = parseNetwork_ok [OF assms(1)] parseNetwork_ok [OF assms(2)]
  have "printed (masked n) = printed (masked n') \<longleftrightarrow> masked n = masked n'"
    by (metis ok masked_ok parse_printed option.inject)
  then show ?thesis by (simp add: canonical_alt assms addressesOf_eq_iff [OF ok])
qed

theorem canonical_network_decides_witness:
  "canonicalIpNetwork ''10.1.2.3/8'' = canonicalIpNetwork ''10.9.9.9/8'' \<and>
   addressesOf \<lparr>pn_bytes = [10, 1, 2, 3], pn_bits = 32, pn_prefix = 8\<rparr> =
   addressesOf \<lparr>pn_bytes = [10, 9, 9, 9], pn_bits = 32, pn_prefix = 8\<rparr>"
proof -
  have "parseNetwork ''10.1.2.3/8'' = Some \<lparr>pn_bytes = [10, 1, 2, 3], pn_bits = 32, pn_prefix = 8\<rparr>"
    "parseNetwork ''10.9.9.9/8'' = Some \<lparr>pn_bytes = [10, 9, 9, 9], pn_bits = 32, pn_prefix = 8\<rparr>" by code_simp+
  note decides = canonical_network_decides [OF this]
  have "canonicalIpNetwork ''10.1.2.3/8'' = canonicalIpNetwork ''10.9.9.9/8''" by code_simp
  with decides show ?thesis by blast
qed

text \<open>
  Claim C33. The rules an access policy stores are canonical: when an input is accepted, each list of the result is
  strictly sorted (so free of duplicates), holds exactly the canonical forms of the networks given, keeps the
  default action, and is accepted again unchanged.
\<close>

theorem ip_rules_canonical:
  assumes "accessPolicyIpRulesInput rules = Some out"
  shows "accessPolicyIpRulesInput out = Some out \<and> ir_defaultAction out = ir_defaultAction rules \<and>
    sorted_wrt lessText (ir_allow out) \<and> sorted_wrt lessText (ir_deny out) \<and>
    set (ir_allow out) = {t. \<exists>v \<in> set (ir_allow rules). canonicalIpNetwork v = Some t} \<and>
    set (ir_deny out) = {t. \<exists>v \<in> set (ir_deny rules). canonicalIpNetwork v = Some t}"
proof -
  from assms obtain a d where p: "parseIpNetworks (ir_allow rules) = Some a" "parseIpNetworks (ir_deny rules) = Some d"
    "out = \<lparr>ir_defaultAction = ir_defaultAction rules, ir_allow = canonicalizeIpNetworks a, ir_deny = canonicalizeIpNetworks d\<rparr>"
    by (auto simp: accessPolicyIpRulesInput_def split: option.splits)
  show ?thesis
    using accepted_networks [OF p(1)] accepted_networks [OF p(2)] canonicalizeIpNetworks_sorted
    by (simp add: accessPolicyIpRulesInput_def p(3))
qed

theorem ip_rules_canonical_witness:
  "accessPolicyIpRulesInput \<lparr>ir_defaultAction = Deny, ir_allow = [''192.168.1.7/16'', ''10.1.2.3/8'', ''10.0.0.0/8''], ir_deny = []\<rparr> =
     Some \<lparr>ir_defaultAction = Deny, ir_allow = [''10.0.0.0/8'', ''192.168.0.0/16''], ir_deny = []\<rparr> \<and>
   sorted_wrt lessText [''10.0.0.0/8'', ''192.168.0.0/16'']"
proof -
  have run: "accessPolicyIpRulesInput \<lparr>ir_defaultAction = Deny, ir_allow = [''192.168.1.7/16'', ''10.1.2.3/8'', ''10.0.0.0/8''], ir_deny = []\<rparr> =
     Some \<lparr>ir_defaultAction = Deny, ir_allow = [''10.0.0.0/8'', ''192.168.0.0/16''], ir_deny = []\<rparr>" by code_simp
  from ip_rules_canonical [OF run] have "sorted_wrt lessText [''10.0.0.0/8'', ''192.168.0.0/16'']"
    by (simp only: ip_rules.simps simp_thms)
  with run show ?thesis by (rule conjI)
qed

end
