(* ===== verification/IdentityStore.thy ===== *)
theory IdentityStore
  imports Permissions JsLib
begin

text \<open>
  The tables of accounts and access, \<^verbatim>\<open>web/src/db/Schema/users.ts\<close>, \<^verbatim>\<open>permissions.ts\<close> and
  \<^verbatim>\<open>auth.ts\<close>, and the access checks over them, \<^verbatim>\<open>web/src/server/Auth/Access/rbac.service.ts\<close>.
  A transaction is a function from the tables to an error or the new tables: the code serializes the
  transactions that conflict by advisory and row locks, and an error rolls the tables back. Tables are kept
  in the order of their identifiers, which the database generates in ascending order.
\<close>

section \<open>Rows\<close>

datatype user_status = PendingUser | ActiveUser | DisabledUser

record user_row =
  us_id :: string
  us_displayName :: string
  us_email :: string
  us_emailVerifiedAt :: "int option"
  us_passwordHash :: "string option"
  us_oidcProviderId :: "string option"
  us_profileImageVersion :: int
  us_status :: user_status
  us_createdAt :: int
  us_updatedAt :: int

record role_row =
  ro_id :: string
  ro_key :: string
  ro_name :: string
  ro_description :: string
  ro_isSystem :: bool
  ro_createdAt :: int
  ro_updatedAt :: int

record permission_row =
  pe_id :: string
  pe_key :: permission_key

text \<open>Where an external login got its identity from; the session keeps it to check it again.\<close>

record oidc_proof =
  op_providerId :: string
  op_providerRevision :: int
  op_bindingGeneration :: int
  op_issuer :: string
  op_subject :: string
  op_userId :: string
  op_expiresAt :: int

record session_row =
  se_id :: string
  se_userId :: string
  se_tokenHash :: string
  se_oidcProof :: "oidc_proof option"
  se_lastSeenAt :: int
  se_reauthenticatedAt :: int
  se_expiresAt :: int

record reset_row =
  re_id :: string
  re_userId :: string
  re_tokenHash :: string
  re_consumedAt :: "int option"
  re_expiresAt :: int

record invite_row =
  iv_id :: string
  iv_userId :: string
  iv_invitedByUserId :: string
  iv_tokenHash :: string
  iv_acceptedAt :: "int option"
  iv_expiresAt :: int

text \<open>
  Second factors: the encrypted secret of a code generator with the counter last used, recovery codes and passkeys.
\<close>

record encrypted_secret =
  es_ciphertext :: string
  es_iv :: string

record totp_row =
  tf_id :: string
  tf_userId :: string
  tf_secret :: encrypted_secret
  tf_lastUsedCounter :: int
  tf_enabledAt :: int
  tf_updatedAt :: int

record recovery_row =
  rc_id :: string
  rc_userId :: string
  rc_codeHash :: string
  rc_usedAt :: "int option"

record passkey_row =
  pk_id :: string
  pk_userId :: string
  pk_name :: string
  pk_credentialId :: string
  pk_publicKey :: string
  pk_counter :: int
  pk_transports :: "string list"
  pk_deviceType :: string
  pk_backedUp :: bool
  pk_lastUsedAt :: "int option"

text \<open>The stored settings of the identity providers, as far as accounts depend on them.\<close>

record oidc_binding =
  ob_subject :: string
  ob_userId :: string
  ob_providerManaged :: bool
  ob_generation :: int

record account_policy =
  ap_provisioning :: bool
  ap_defaultRoleKeys :: "string list"
  ap_groupRoleMappings :: "(string \<times> string list) list"

record oidc_provider =
  pr_id :: string
  pr_enabled :: bool
  pr_revision :: int
  pr_issuer :: string
  pr_bindings :: "oidc_binding list"
  pr_accountPolicy :: "account_policy option"

record oidc_settings =
  os_revision :: int
  os_providers :: "oidc_provider list"

record identity_db =
  id_users :: "user_row list"
  id_roles :: "role_row list"
  id_permissions :: "permission_row list"
  id_userRoles :: "(string \<times> string) list"
  id_rolePermissions :: "(string \<times> string) list"
  id_sessions :: "session_row list"
  id_resetTokens :: "reset_row list"
  id_invites :: "invite_row list"
  id_totpFactors :: "totp_row list"
  id_recoveryCodes :: "recovery_row list"
  id_passkeys :: "passkey_row list"
  id_oidc :: oidc_settings
  id_rows :: nat

text \<open>
  What the code takes from outside: the identifiers the database generates, the digest of tokens, the
  password hash (with its salt) and its verification, and the mail address syntax of the schema library.
\<close>

record identity_env =
  ie_rowId :: "nat \<Rightarrow> string"
  ie_digest :: "string \<Rightarrow> string"
  ie_passwordHash :: "string \<Rightarrow> string \<Rightarrow> string"
  ie_passwordVerify :: "string \<Rightarrow> string \<Rightarrow> bool"
  ie_isEmail :: "string \<Rightarrow> bool"
  ie_isUuid :: "string \<Rightarrow> bool"

datatype auth_error = AuthenticationRequired | EmailConflict | InvalidEmail | InvalidAuthInput | LastActiveOwner
  | OwnerRequired | PasswordPolicy | PermissionDenied | RoleInUse | RoleNotFound | ServiceUnavailable
  | SystemRoleImmutable | UnknownPermission | UnknownRole | UserNotActive | UserNotFound
  | IdentityNotAllowed | ConfigurationUnavailable | UniqueViolation

section \<open>Keys and permissions\<close>

text \<open>\<^verbatim>\<open>[...new Set(xs)]\<close>.\<close>

definition uniq :: "'a list \<Rightarrow> 'a list" where
  "uniq xs = rev (remdups (rev xs))"

lemma set_uniq [simp]: "set (uniq xs) = set xs"
  by (simp add: uniq_def)

lemma distinct_uniq [simp]: "distinct (uniq xs)"
  by (simp add: uniq_def)

definition isRegisteredPermissionKey :: "string \<Rightarrow> bool" where
  "isRegisteredPermissionKey k = contains PERMISSION_REGISTRY k"

definition normalizeKeys :: "string list \<Rightarrow> string list" where
  "normalizeKeys keys = uniq (filter (\<lambda>k. k \<noteq> []) (map trim keys))"

definition hasOwnerRole :: "string list \<Rightarrow> bool" where
  "hasOwnerRole roleKeys = contains roleKeys OWNER"

text \<open>The joins of the queries: keys of the roles with an identifier, and permission keys of a role.\<close>

definition roleKeysOf :: "identity_db \<Rightarrow> string \<Rightarrow> string list" where
  "roleKeysOf db roleId = map ro_key (filter (\<lambda>r. ro_id r = roleId) (id_roles db))"

definition permissionKeysOf :: "identity_db \<Rightarrow> string \<Rightarrow> string list" where
  "permissionKeysOf db permissionId = map pe_key (filter (\<lambda>p. pe_id p = permissionId) (id_permissions db))"

definition rolePermissionKeys :: "identity_db \<Rightarrow> string \<Rightarrow> string list" where
  "rolePermissionKeys db roleId =
     concat (map (\<lambda>rp. permissionKeysOf db (snd rp)) (filter (\<lambda>rp. fst rp = roleId) (id_rolePermissions db)))"

definition userRoleIds :: "identity_db \<Rightarrow> string \<Rightarrow> string list" where
  "userRoleIds db userId = map snd (filter (\<lambda>ur. fst ur = userId) (id_userRoles db))"

definition getUserRoleKeysInTransaction :: "identity_db \<Rightarrow> string \<Rightarrow> string list" where
  "getUserRoleKeysInTransaction db userId = concat (map (roleKeysOf db) (userRoleIds db userId))"

definition getUserPermissionKeysInTransaction :: "identity_db \<Rightarrow> string \<Rightarrow> permission_key list" where
  "getUserPermissionKeysInTransaction db userId =
     (if contains (getUserRoleKeysInTransaction db userId) OWNER then PERMISSION_REGISTRY
      else filter isRegisteredPermissionKey
        (normalizeKeys (concat (map (rolePermissionKeys db) (userRoleIds db userId)))))"

record authenticated_user =
  au_id :: string
  au_displayName :: string
  au_email :: string
  au_profileImageVersion :: "int option"
  au_roles :: "string list"
  au_permissions :: "permission_key list"

definition findUser :: "identity_db \<Rightarrow> string \<Rightarrow> user_row option" where
  "findUser db userId = find (\<lambda>u. us_id u = userId) (id_users db)"

definition resolveActiveUserAccessInTransaction :: "identity_db \<Rightarrow> string \<Rightarrow> authenticated_user option" where
  "resolveActiveUserAccessInTransaction db userId =
     (case findUser db userId of
        None \<Rightarrow> None
      | Some u \<Rightarrow>
          if us_status u \<noteq> ActiveUser then None
          else Some \<lparr>au_id = us_id u, au_displayName = us_displayName u, au_email = us_email u,
            au_profileImageVersion = (if us_profileImageVersion u > 0 then Some (us_profileImageVersion u) else None),
            au_roles = getUserRoleKeysInTransaction db (us_id u),
            au_permissions = getUserPermissionKeysInTransaction db (us_id u)\<rparr>)"

definition requirePermissionInTransaction :: "identity_db \<Rightarrow> string \<Rightarrow> permission_key \<Rightarrow>
    auth_error + authenticated_user" where
  "requirePermissionInTransaction db userId permission =
     (case resolveActiveUserAccessInTransaction db userId of
        None \<Rightarrow> Inl AuthenticationRequired
      | Some user \<Rightarrow>
          if contains (au_permissions user) permission then Inr user else Inl PermissionDenied)"

definition loadRolesByKeysInTransaction :: "identity_db \<Rightarrow> string list \<Rightarrow> auth_error + role_row list" where
  "loadRolesByKeysInTransaction db requested =
     (let roleKeys = normalizeKeys requested in
      if roleKeys = [] then Inr []
      else
        let selected = filter (\<lambda>r. contains roleKeys (ro_key r)) (id_roles db) in
        if length selected \<noteq> length roleKeys then Inl UnknownRole else Inr selected)"

definition replaceUserRolesInTransaction :: "string \<Rightarrow> role_row list \<Rightarrow> identity_db \<Rightarrow> identity_db" where
  "replaceUserRolesInTransaction userId selected db =
     db\<lparr>id_userRoles := filter (\<lambda>ur. fst ur \<noteq> userId) (id_userRoles db) @ map (\<lambda>r. (userId, ro_id r)) selected\<rparr>"

definition assertRoleAssignmentAllowedInTransaction :: "identity_db \<Rightarrow> authenticated_user \<Rightarrow> role_row list \<Rightarrow>
    auth_error + unit" where
  "assertRoleAssignmentAllowedInTransaction db actor selected =
     (if hasOwnerRole (au_roles actor) then Inr ()
      else if some_elem (\<lambda>r. ro_key r = OWNER) selected then Inl OwnerRequired
      else if selected = [] then Inr ()
      else if some_elem (\<lambda>k. isRegisteredPermissionKey k \<and> \<not> contains (au_permissions actor) k)
          (concat (map (\<lambda>r. rolePermissionKeys db (ro_id r)) selected))
      then Inl PermissionDenied else Inr ())"

definition assertRecoveryEmailChangeAllowedInTransaction :: "identity_db \<Rightarrow> authenticated_user \<Rightarrow> string \<Rightarrow>
    role_row list \<Rightarrow> auth_error + unit" where
  "assertRecoveryEmailChangeAllowedInTransaction db actor targetUserId retained =
     (if au_id actor = targetUserId then Inr () else assertRoleAssignmentAllowedInTransaction db actor retained)"

definition countActiveOwnersInTransaction :: "identity_db \<Rightarrow> nat" where
  "countActiveOwnersInTransaction db =
     length (concat (map (\<lambda>ur. concat (map (\<lambda>k. if k = OWNER
         then filter (\<lambda>u. us_id u = fst ur \<and> us_status u = ActiveUser) (id_users db) else [])
       (roleKeysOf db (snd ur)))) (id_userRoles db)))"

end
