(* ===== verification/IdentityServices.thy ===== *)
theory IdentityServices
  imports IdentityStore
begin

text \<open>
  The operations that write accounts, roles and sessions: \<^verbatim>\<open>web/src/server/Auth/Access/sessions.service.ts\<close>
  and \<^verbatim>\<open>registry.service.ts\<close>, \<^verbatim>\<open>web/src/server/Admin/RoleManagement/roles.service.ts\<close>,
  \<^verbatim>\<open>web/src/server/Admin/UserManagement/users.service.ts\<close>, \<^verbatim>\<open>web/src/server/Auth/Setup\<close>,
  \<^verbatim>\<open>PasswordReset\<close>, \<^verbatim>\<open>Account\<close>, \<^verbatim>\<open>Login\<close> and the provisioning of external accounts in
  \<^verbatim>\<open>Oidc/oidc-accounts.service.ts\<close>. A service first checks the session the request came with, which was read
  earlier, and then runs its transaction on the current tables. Random tokens and password salts are
  arguments. Audit entries, mails and display preferences are not modelled, and neither are the rate limits, which
  refuse a request before any of this runs.
\<close>

section \<open>Identities, passwords and tokens\<close>

definition PENDING_DISPLAY_NAME :: string where "PENDING_DISPLAY_NAME = ''Pending invitation''"
definition PASSWORD_MIN_LENGTH :: nat where "PASSWORD_MIN_LENGTH = 2"
definition PASSWORD_MAX_LENGTH :: nat where "PASSWORD_MAX_LENGTH = 256"
definition SESSION_DURATION_MS :: int where "SESSION_DURATION_MS = 7 * 24 * 60 * 60 * 1000"
definition SESSION_LAST_SEEN_INTERVAL_MS :: int where "SESSION_LAST_SEEN_INTERVAL_MS = 15 * 60 * 1000"
definition PASSWORD_RESET_DURATION_MS :: int where "PASSWORD_RESET_DURATION_MS = 30 * 60 * 1000"
definition USER_INVITE_DURATION_MS :: int where "USER_INVITE_DURATION_MS = 24 * 60 * 60 * 1000"
definition OIDC_SESSION_DURATION_MS :: int where "OIDC_SESSION_DURATION_MS = 15 * 60 * 1000"
definition OIDC_MAX_BINDINGS :: nat where "OIDC_MAX_BINDINGS = 128"
definition OIDC_MAX_GROUPS :: nat where "OIDC_MAX_GROUPS = 128"
definition OIDC_MAX_GROUP_LENGTH :: nat where "OIDC_MAX_GROUP_LENGTH = 255"
definition OIDC_MAX_URL_LENGTH :: nat where "OIDC_MAX_URL_LENGTH = 2048"

definition normalizeEmail :: "identity_env \<Rightarrow> string \<Rightarrow> auth_error + string" where
  "normalizeEmail env email =
     (let normalized = toLowerCase (trim email) in
      if ie_isEmail env normalized \<and> length normalized \<le> 254 then Inr normalized else Inl InvalidEmail)"

definition normalizeDisplayName :: "string \<Rightarrow> auth_error + string" where
  "normalizeDisplayName displayName =
     (let normalized = trim displayName in
      if length normalized < 2 \<or> length normalized > 100 then Inl InvalidAuthInput else Inr normalized)"

definition normalizePendingDisplayName :: "string option \<Rightarrow> auth_error + string" where
  "normalizePendingDisplayName displayName =
     (case displayName of
        None \<Rightarrow> Inr PENDING_DISPLAY_NAME
      | Some n \<Rightarrow> if trim n = [] then Inr PENDING_DISPLAY_NAME else normalizeDisplayName n)"

definition isValidPassword :: "string \<Rightarrow> bool" where
  "isValidPassword password \<longleftrightarrow> length password > 0 \<and> length password \<le> PASSWORD_MAX_LENGTH"

definition isValidNewPassword :: "string \<Rightarrow> bool" where
  "isValidNewPassword password \<longleftrightarrow> length password \<le> PASSWORD_MAX_LENGTH \<and> length password \<ge> PASSWORD_MIN_LENGTH"

definition hashPassword :: "identity_env \<Rightarrow> string \<Rightarrow> string \<Rightarrow> auth_error + string" where
  "hashPassword env salt password =
     (if isValidNewPassword password then Inr (ie_passwordHash env salt password) else Inl PasswordPolicy)"

definition isTokenChar :: "char \<Rightarrow> bool" where
  "isTokenChar c \<longleftrightarrow> (let n = (of_char c :: nat) in
     (48 \<le> n \<and> n \<le> 57) \<or> (65 \<le> n \<and> n \<le> 90) \<or> (97 \<le> n \<and> n \<le> 122) \<or> n = 95 \<or> n = 45)"

definition isValidOpaqueToken :: "string \<Rightarrow> bool" where
  "isValidOpaqueToken token \<longleftrightarrow> length token = 43 \<and> list_all isTokenChar token"

definition hashOpaqueToken :: "identity_env \<Rightarrow> string \<Rightarrow> auth_error + string" where
  "hashOpaqueToken env token = (if isValidOpaqueToken token then Inr (ie_digest env token) else Inl InvalidAuthInput)"

section \<open>Rows\<close>

text \<open>An insert takes the next identifier of the database.\<close>

definition newId :: "identity_env \<Rightarrow> identity_db \<Rightarrow> string" where
  "newId env db = ie_rowId env (id_rows db)"

definition usedId :: "identity_db \<Rightarrow> identity_db" where
  "usedId db = db\<lparr>id_rows := Suc (id_rows db)\<rparr>"

definition updateUser :: "string \<Rightarrow> (user_row \<Rightarrow> user_row) \<Rightarrow> identity_db \<Rightarrow> identity_db" where
  "updateUser userId f db = db\<lparr>id_users := map (\<lambda>u. if us_id u = userId then f u else u) (id_users db)\<rparr>"

text \<open>The unique index on \<^verbatim>\<open>lower(email)\<close>.\<close>

definition emailTaken :: "identity_db \<Rightarrow> string \<Rightarrow> string \<Rightarrow> bool" where
  "emailTaken db userId email =
     some_elem (\<lambda>u. us_id u \<noteq> userId \<and> toLowerCase (us_email u) = toLowerCase email) (id_users db)"

definition deleteUserTokens :: "string \<Rightarrow> identity_db \<Rightarrow> identity_db" where
  "deleteUserTokens userId db =
     db\<lparr>id_resetTokens := filter (\<lambda>t. re_userId t \<noteq> userId) (id_resetTokens db),
        id_invites := filter (\<lambda>i. iv_userId i \<noteq> userId) (id_invites db)\<rparr>"

section \<open>Sessions\<close>

record current_session =
  cs_id :: string
  cs_expiresAt :: int
  cs_reauthenticatedAt :: int
  cs_user :: authenticated_user

definition requirePermissionService :: "current_session option \<Rightarrow> permission_key \<Rightarrow>
    auth_error + authenticated_user" where
  "requirePermissionService session permission =
     (case session of
        None \<Rightarrow> Inl AuthenticationRequired
      | Some s \<Rightarrow>
          if contains (au_permissions (cs_user s)) permission then Inr (cs_user s) else Inl PermissionDenied)"

definition revokeAllUserSessionsInTransaction :: "string \<Rightarrow> identity_db \<Rightarrow> identity_db" where
  "revokeAllUserSessionsInTransaction userId db =
     db\<lparr>id_sessions := filter (\<lambda>s. se_userId s \<noteq> userId) (id_sessions db)\<rparr>"

definition revokeOtherUserSessionsInTransaction :: "string \<Rightarrow> string \<Rightarrow> identity_db \<Rightarrow> identity_db" where
  "revokeOtherUserSessionsInTransaction userId currentSessionId db =
     db\<lparr>id_sessions := filter (\<lambda>s. \<not> (se_userId s = userId \<and> se_id s \<noteq> currentSessionId)) (id_sessions db)\<rparr>"

definition proofSchema :: "identity_env \<Rightarrow> oidc_proof \<Rightarrow> bool" where
  "proofSchema env p \<longleftrightarrow> ie_isUuid env (op_providerId p) \<and>
     0 < op_providerRevision p \<and> op_providerRevision p \<le> MAX_SAFE_INTEGER \<and>
     0 \<le> op_bindingGeneration p \<and> op_bindingGeneration p \<le> MAX_SAFE_INTEGER \<and>
     1 \<le> length (op_issuer p) \<and> length (op_issuer p) \<le> OIDC_MAX_URL_LENGTH \<and>
     1 \<le> length (op_subject p) \<and> length (op_subject p) \<le> 255 \<and>
     list_all (\<lambda>c. 33 \<le> (of_char c :: nat) \<and> (of_char c :: nat) \<le> 126) (op_subject p) \<and>
     ie_isUuid env (op_userId p) \<and> 0 < op_expiresAt p \<and> op_expiresAt p \<le> 8640000000000000"

definition prepareOidcSessionProof :: "identity_env \<Rightarrow> oidc_proof \<Rightarrow> string \<Rightarrow> int \<Rightarrow> auth_error + oidc_proof" where
  "prepareOidcSessionProof env p userId now =
     (if \<not> proofSchema env p \<or> op_userId p \<noteq> userId \<or> op_expiresAt p \<le> now then Inl UserNotActive
      else Inr (p\<lparr>op_expiresAt := min (op_expiresAt p) (now + OIDC_SESSION_DURATION_MS)\<rparr>))"

definition isOidcSessionValidInTransaction :: "identity_env \<Rightarrow> identity_db \<Rightarrow> oidc_proof \<Rightarrow> string \<Rightarrow>
    string option \<Rightarrow> string list \<Rightarrow> int \<Rightarrow> bool" where
  "isOidcSessionValidInTransaction env db p userId managedProviderId roleKeys now =
     (if \<not> proofSchema env p \<or> op_userId p \<noteq> userId \<or> op_expiresAt p \<le> now \<or>
         (managedProviderId \<noteq> None \<and> managedProviderId \<noteq> Some (op_providerId p)) then False
      else (case find (\<lambda>pr. pr_id pr = op_providerId p) (os_providers (id_oidc db)) of
          None \<Rightarrow> False
        | Some pr \<Rightarrow>
            (case find (\<lambda>b. ob_subject b = op_subject p \<and> ob_userId b = userId) (pr_bindings pr) of
               None \<Rightarrow> False
             | Some b \<Rightarrow> pr_enabled pr \<and> pr_revision pr = op_providerRevision p \<and> pr_issuer pr = op_issuer p \<and>
                 ob_generation b = op_bindingGeneration p \<and>
                 \<not> ((ob_providerManaged b \<or> managedProviderId \<noteq> None) \<and> contains roleKeys OWNER))))"

text \<open>The external proof a session needs: none for a local account, a valid one otherwise.\<close>

definition proofHolds :: "identity_env \<Rightarrow> identity_db \<Rightarrow> oidc_proof option \<Rightarrow> string \<Rightarrow> string option \<Rightarrow>
    string list \<Rightarrow> int \<Rightarrow> bool" where
  "proofHolds env db p userId managedProviderId roleKeys now =
     (case p of
        None \<Rightarrow> managedProviderId = None
      | Some q \<Rightarrow> isOidcSessionValidInTransaction env db q userId managedProviderId roleKeys now)"

text \<open>At most a hundred expired sessions leave with each login; which ones is up to the row locks held elsewhere.\<close>

definition pruneExpiredSessionsInTransaction :: "string list \<Rightarrow> int \<Rightarrow> identity_db \<Rightarrow> identity_db" where
  "pruneExpiredSessionsInTransaction chosen now db =
     db\<lparr>id_sessions := filter (\<lambda>s. \<not> (contains (take 100 chosen) (se_id s) \<and> se_expiresAt s \<le> now)) (id_sessions db)\<rparr>"

datatype authentication_method = ByPassword | ByTotp | ByRecoveryCode | ByPasskey | ByInvite | BySetup | ByOidc

record session_request =
  sq_userId :: string
  sq_method :: authentication_method
  sq_reauthenticatedAt :: int
  sq_proof :: "oidc_proof option"
  sq_token :: string
  sq_expired :: "string list"

definition preparedProof :: "identity_env \<Rightarrow> session_request \<Rightarrow> int \<Rightarrow> auth_error + oidc_proof option" where
  "preparedProof env sq now =
     (case sq_proof sq of
        None \<Rightarrow> Inr None
      | Some p \<Rightarrow> andThen (prepareOidcSessionProof env p (sq_userId sq) now) (\<lambda>q. Inr (Some q)))"

definition sessionExpiry :: "oidc_proof option \<Rightarrow> int \<Rightarrow> int" where
  "sessionExpiry p now =
     (case p of None \<Rightarrow> now + SESSION_DURATION_MS | Some q \<Rightarrow> min (now + SESSION_DURATION_MS) (op_expiresAt q))"

definition insertSession :: "identity_env \<Rightarrow> session_row \<Rightarrow> identity_db \<Rightarrow> auth_error + identity_db" where
  "insertSession env s db =
     (if some_elem (\<lambda>t. se_tokenHash t = se_tokenHash s) (id_sessions db) then Inl UniqueViolation
      else Inr (usedId (db\<lparr>id_sessions := id_sessions db @ [s]\<rparr>)))"

definition createSessionInTransaction :: "identity_env \<Rightarrow> session_request \<Rightarrow> int \<Rightarrow> identity_db \<Rightarrow>
    auth_error + current_session \<times> identity_db" where
  "createSessionInTransaction env sq now db =
     (if sq_method sq = ByOidc \<and> sq_proof sq = None then Inl UserNotActive
      else andThen (hashOpaqueToken env (sq_token sq)) (\<lambda>tokenHash.
        andThen (preparedProof env sq now) (\<lambda>proof.
          (case findUser db (sq_userId sq) of
             None \<Rightarrow> Inl UserNotActive
           | Some u \<Rightarrow>
               if us_status u \<noteq> ActiveUser then Inl UserNotActive
               else (case resolveActiveUserAccessInTransaction db (sq_userId sq) of
                   None \<Rightarrow> Inl UserNotActive
                 | Some access \<Rightarrow>
                     if \<not> contains (au_permissions access) APP_ACCESS \<or>
                        \<not> proofHolds env db proof (sq_userId sq) (us_oidcProviderId u) (au_roles access) now
                     then Inl UserNotActive
                     else
                       let expiresAt = sessionExpiry proof now;
                           s = \<lparr>se_id = newId env db, se_userId = sq_userId sq, se_tokenHash = tokenHash,
                                se_oidcProof = proof, se_lastSeenAt = now,
                                se_reauthenticatedAt = sq_reauthenticatedAt sq, se_expiresAt = expiresAt\<rparr>
                       in andThen (insertSession env s db) (\<lambda>db'.
                            Inr (\<lparr>cs_id = se_id s, cs_expiresAt = expiresAt,
                                  cs_reauthenticatedAt = sq_reauthenticatedAt sq, cs_user = access\<rparr>,
                              pruneExpiredSessionsInTransaction (sq_expired sq) now db')))))))"

definition touchSession :: "string \<Rightarrow> int \<Rightarrow> identity_db \<Rightarrow> identity_db" where
  "touchSession sessionId now db =
     db\<lparr>id_sessions := map (\<lambda>s. if se_id s = sessionId \<and> se_lastSeenAt s \<le> now - SESSION_LAST_SEEN_INTERVAL_MS
       then s\<lparr>se_lastSeenAt := now\<rparr> else s) (id_sessions db)\<rparr>"

definition getSessionByTokenService :: "identity_env \<Rightarrow> string \<Rightarrow> int \<Rightarrow> identity_db \<Rightarrow>
    current_session option \<times> identity_db" where
  "getSessionByTokenService env token now db =
     (case hashOpaqueToken env token of
        Inl e \<Rightarrow> (None, db)
      | Inr tokenHash \<Rightarrow>
          (case find (\<lambda>s. se_tokenHash s = tokenHash \<and> se_expiresAt s > now \<and>
              some_elem (\<lambda>u. us_id u = se_userId s \<and> us_status u = ActiveUser) (id_users db)) (id_sessions db) of
             None \<Rightarrow> (None, db)
           | Some s \<Rightarrow>
               (case (findUser db (se_userId s), resolveActiveUserAccessInTransaction db (se_userId s)) of
                  (Some u, Some user) \<Rightarrow>
                    if \<not> contains (au_permissions user) APP_ACCESS \<or>
                       \<not> proofHolds env db (se_oidcProof s) (se_userId s) (us_oidcProviderId u) (au_roles user) now
                    then (None, db)
                    else (Some \<lparr>cs_id = se_id s, cs_expiresAt = se_expiresAt s,
                            cs_reauthenticatedAt = se_reauthenticatedAt s, cs_user = user\<rparr>,
                          if se_lastSeenAt s \<le> now - SESSION_LAST_SEEN_INTERVAL_MS
                          then touchSession (se_id s) now db else db)
                | _ \<Rightarrow> (None, db))))"

definition revokeSessionByTokenService :: "identity_env \<Rightarrow> string \<Rightarrow> identity_db \<Rightarrow> bool \<times> identity_db" where
  "revokeSessionByTokenService env token db =
     (case hashOpaqueToken env token of
        Inl e \<Rightarrow> (False, db)
      | Inr tokenHash \<Rightarrow>
          (some_elem (\<lambda>s. se_tokenHash s = tokenHash) (id_sessions db),
           db\<lparr>id_sessions := filter (\<lambda>s. se_tokenHash s \<noteq> tokenHash) (id_sessions db)\<rparr>))"

section \<open>The authorization registry\<close>

text \<open>Upserts: a row with the key keeps its identifier.\<close>

definition upsertPermission :: "identity_env \<Rightarrow> permission_key \<Rightarrow> identity_db \<Rightarrow> identity_db" where
  "upsertPermission env k db =
     (if some_elem (\<lambda>p. pe_key p = k) (id_permissions db) then db
      else usedId (db\<lparr>id_permissions := id_permissions db @ [\<lparr>pe_id = newId env db, pe_key = k\<rparr>]\<rparr>))"

definition upsertRole :: "identity_env \<Rightarrow> int \<Rightarrow> system_role \<Rightarrow> identity_db \<Rightarrow> identity_db" where
  "upsertRole env now d db =
     (if some_elem (\<lambda>r. ro_key r = sr_key d) (id_roles db)
      then db\<lparr>id_roles := map (\<lambda>r. if ro_key r = sr_key d
        then r\<lparr>ro_name := sr_name d, ro_description := sr_description d, ro_isSystem := True, ro_updatedAt := now\<rparr>
        else r) (id_roles db)\<rparr>
      else usedId (db\<lparr>id_roles := id_roles db @ [\<lparr>ro_id = newId env db, ro_key = sr_key d, ro_name = sr_name d,
        ro_description = sr_description d, ro_isSystem = True, ro_createdAt = now, ro_updatedAt = now\<rparr>]\<rparr>))"

definition systemAssignments :: "identity_db \<Rightarrow> (string \<times> string) list" where
  "systemAssignments db = concat (map (\<lambda>d. concat (map (\<lambda>r. concat (map (\<lambda>k. map (\<lambda>p. (ro_id r, pe_id p))
       (filter (\<lambda>p. pe_key p = k) (id_permissions db))) (sr_permissionKeys d)))
     (filter (\<lambda>r. ro_key r = sr_key d) (id_roles db)))) SYSTEM_ROLE_REGISTRY)"

definition isSystemKey :: "string \<Rightarrow> bool" where
  "isSystemKey key = some_elem (\<lambda>d. sr_key d = key) SYSTEM_ROLE_REGISTRY"

definition ensureAuthorizationRegistryInTransaction :: "identity_env \<Rightarrow> int \<Rightarrow> identity_db \<Rightarrow> identity_db" where
  "ensureAuthorizationRegistryInTransaction env now db =
     (let db1 = fold (upsertPermission env) PERMISSION_REGISTRY db;
          db2 = fold (upsertRole env now) SYSTEM_ROLE_REGISTRY db1;
          systemIds = map ro_id (filter (\<lambda>r. isSystemKey (ro_key r)) (id_roles db2))
      in db2\<lparr>id_rolePermissions := filter (\<lambda>rp. \<not> contains systemIds (fst rp)) (id_rolePermissions db2) @
           systemAssignments db2\<rparr>)"

end
