(* ===== verification/AccountServices.thy ===== *)
theory AccountServices
  imports IdentityServices "HOL-Library.Char_ord" "HOL-Library.List_Lexorder"
begin

text \<open>
  The services that change roles and accounts: \<^verbatim>\<open>web/src/server/Admin/RoleManagement/roles.service.ts\<close> and
  \<^verbatim>\<open>web/src/server/Admin/UserManagement/users.service.ts\<close>.
\<close>

section \<open>Roles\<close>

definition roleKeyPattern :: "string \<Rightarrow> bool" where
  "roleKeyPattern k = (case k of
     [] \<Rightarrow> False
   | c # cs \<Rightarrow> CHR ''a'' \<le> c \<and> c \<le> CHR ''z'' \<and> 1 \<le> length cs \<and> length cs \<le> 99 \<and>
       list_all (\<lambda>d. (CHR ''a'' \<le> d \<and> d \<le> CHR ''z'') \<or> isDigit d \<or> contains ''_.-'' d) cs)"

definition normalizeRoleKey :: "string \<Rightarrow> auth_error + string" where
  "normalizeRoleKey key =
     (let k = toLowerCase (trim key) in if roleKeyPattern k then Inr k else Inl InvalidAuthInput)"

definition normalizeRoleName :: "string \<Rightarrow> auth_error + string" where
  "normalizeRoleName name =
     (let n = trim name in if length n < 1 \<or> length n > 100 then Inl InvalidAuthInput else Inr n)"

definition normalizeRoleDescription :: "string \<Rightarrow> auth_error + string" where
  "normalizeRoleDescription description =
     (let d = trim description in if length d > 1000 then Inl InvalidAuthInput else Inr d)"

definition loadPermissionsByKeysInTransaction :: "identity_db \<Rightarrow> string list \<Rightarrow> auth_error + permission_row list" where
  "loadPermissionsByKeysInTransaction db requested =
     (let keys = normalizeKeys requested in
      if \<not> list_all isRegisteredPermissionKey keys then Inl UnknownPermission
      else if keys = [] then Inr []
      else
        let selected = filter (\<lambda>p. contains keys (pe_key p)) (id_permissions db) in
        if length selected \<noteq> length keys then Inl UnknownPermission
        else Inr (filter (\<lambda>p. isRegisteredPermissionKey (pe_key p)) selected))"

definition replaceRolePermissionsInTransaction :: "string \<Rightarrow> permission_row list \<Rightarrow> identity_db \<Rightarrow> identity_db" where
  "replaceRolePermissionsInTransaction roleId selected db =
     db\<lparr>id_rolePermissions := filter (\<lambda>rp. fst rp \<noteq> roleId) (id_rolePermissions db) @
       map (\<lambda>p. (roleId, pe_id p)) selected\<rparr>"

definition assertPermissionAssignmentAllowed :: "authenticated_user \<Rightarrow> permission_row list \<Rightarrow> auth_error + unit" where
  "assertPermissionAssignmentAllowed actor selected =
     (if hasOwnerRole (au_roles actor) then Inr ()
      else guardR (\<not> some_elem (\<lambda>p. \<not> contains (au_permissions actor) (pe_key p)) selected) PermissionDenied)"

record role_input =
  ri_key :: string
  ri_name :: string
  ri_description :: string
  ri_permissionKeys :: "string list"

definition insertRole :: "identity_env \<Rightarrow> string \<Rightarrow> string \<Rightarrow> string \<Rightarrow> int \<Rightarrow> identity_db \<Rightarrow>
    auth_error + role_row \<times> identity_db" where
  "insertRole env key name description now db =
     (if some_elem (\<lambda>r. ro_key r = key) (id_roles db) then Inl InvalidAuthInput
      else
        let r = \<lparr>ro_id = newId env db, ro_key = key, ro_name = name, ro_description = description,
                 ro_isSystem = False, ro_createdAt = now, ro_updatedAt = now\<rparr>
        in Inr (r, usedId (db\<lparr>id_roles := id_roles db @ [r]\<rparr>)))"

definition createRoleService :: "identity_env \<Rightarrow> current_session option \<Rightarrow> role_input \<Rightarrow> int \<Rightarrow> identity_db \<Rightarrow>
    auth_error + role_row \<times> identity_db" where
  "createRoleService env session input now db =
     andThen (requirePermissionService session ROLES_CREATE) (\<lambda>actor.
     andThen (normalizeRoleKey (ri_key input)) (\<lambda>key.
     andThen (normalizeRoleName (ri_name input)) (\<lambda>name.
     andThen (normalizeRoleDescription (ri_description input)) (\<lambda>description.
       if isSystemKey key then Inl SystemRoleImmutable
       else
         andThen (requirePermissionInTransaction db (au_id actor) ROLES_CREATE) (\<lambda>transactionActor.
         andThen (requirePermissionInTransaction db (au_id actor) ROLES_ASSIGN_PERMISSIONS) (\<lambda>_.
         andThen (loadPermissionsByKeysInTransaction db (ri_permissionKeys input)) (\<lambda>selected.
         andThen (assertPermissionAssignmentAllowed transactionActor selected) (\<lambda>_.
         andThen (insertRole env key name description now db) (\<lambda>(r, db').
           Inr (r, replaceRolePermissionsInTransaction (ro_id r) selected db'))))))))))"

record role_update =
  rp_roleId :: string
  rp_name :: "string option"
  rp_description :: "string option"
  rp_permissionKeys :: "string list option"

definition optionally :: "('a \<Rightarrow> 'e + 'b) \<Rightarrow> 'a option \<Rightarrow> 'e + 'b option" where
  "optionally f x = (case x of None \<Rightarrow> Inr None | Some v \<Rightarrow> andThen (f v) (\<lambda>y. Inr (Some y)))"

text \<open>The permissions a role update selects, with the check that the actor may grant them.\<close>

definition selectRolePermissions :: "identity_db \<Rightarrow> authenticated_user \<Rightarrow> string list \<Rightarrow>
    auth_error + permission_row list" where
  "selectRolePermissions db transactionActor keys =
     andThen (requirePermissionInTransaction db (au_id transactionActor) ROLES_ASSIGN_PERMISSIONS) (\<lambda>_.
     andThen (loadPermissionsByKeysInTransaction db keys) (\<lambda>selected.
     andThen (assertPermissionAssignmentAllowed transactionActor selected) (\<lambda>_. Inr selected)))"

definition updateRole :: "string \<Rightarrow> string option \<Rightarrow> string option \<Rightarrow> int \<Rightarrow> identity_db \<Rightarrow> identity_db" where
  "updateRole roleId name description now db =
     db\<lparr>id_roles := map (\<lambda>r. if ro_id r = roleId
       then r\<lparr>ro_name := (case name of None \<Rightarrow> ro_name r | Some n \<Rightarrow> n),
             ro_description := (case description of None \<Rightarrow> ro_description r | Some d \<Rightarrow> d), ro_updatedAt := now\<rparr>
       else r) (id_roles db)\<rparr>"

definition findRole :: "identity_db \<Rightarrow> string \<Rightarrow> role_row option" where
  "findRole db roleId = find (\<lambda>r. ro_id r = roleId) (id_roles db)"

definition updateRoleService :: "current_session option \<Rightarrow> role_update \<Rightarrow> int \<Rightarrow> identity_db \<Rightarrow>
    auth_error + identity_db" where
  "updateRoleService session input now db =
     (if rp_name input = None \<and> rp_description input = None \<and> rp_permissionKeys input = None
      then Inl InvalidAuthInput
      else
        andThen (requirePermissionService session ROLES_UPDATE) (\<lambda>actor.
        andThen (optionally normalizeRoleName (rp_name input)) (\<lambda>name.
        andThen (optionally normalizeRoleDescription (rp_description input)) (\<lambda>description.
        andThen (requirePermissionInTransaction db (au_id actor) ROLES_UPDATE) (\<lambda>transactionActor.
          (case findRole db (rp_roleId input) of
             None \<Rightarrow> Inl RoleNotFound
           | Some r \<Rightarrow>
               if ro_isSystem r then Inl SystemRoleImmutable
               else andThen (optionally (selectRolePermissions db transactionActor) (rp_permissionKeys input)) (\<lambda>selected.
                 let db' = updateRole (ro_id r) name description now db in
                 Inr (case selected of
                        None \<Rightarrow> db'
                      | Some ps \<Rightarrow> replaceRolePermissionsInTransaction (ro_id r) ps db'))))))))"

text \<open>The references of \<^verbatim>\<open>role_permissions\<close> and \<^verbatim>\<open>user_roles\<close> to a role cascade when it is deleted.\<close>

definition deleteRole :: "string \<Rightarrow> identity_db \<Rightarrow> identity_db" where
  "deleteRole roleId db =
     db\<lparr>id_roles := filter (\<lambda>r. ro_id r \<noteq> roleId) (id_roles db),
        id_rolePermissions := filter (\<lambda>rp. fst rp \<noteq> roleId) (id_rolePermissions db),
        id_userRoles := filter (\<lambda>ur. snd ur \<noteq> roleId) (id_userRoles db)\<rparr>"

definition deleteRoleService :: "current_session option \<Rightarrow> string \<Rightarrow> identity_db \<Rightarrow> auth_error + identity_db" where
  "deleteRoleService session roleId db =
     andThen (requirePermissionService session ROLES_DELETE) (\<lambda>actor.
     andThen (requirePermissionInTransaction db (au_id actor) ROLES_DELETE) (\<lambda>_.
       (case findRole db roleId of
          None \<Rightarrow> Inl RoleNotFound
        | Some r \<Rightarrow>
            if ro_isSystem r then Inl SystemRoleImmutable
            else if some_elem (\<lambda>ur. snd ur = ro_id r) (id_userRoles db) then Inl RoleInUse
            else Inr (deleteRole (ro_id r) db))))"

section \<open>Users\<close>

definition assertOwnerManagementAllowed :: "string list \<Rightarrow> string list \<Rightarrow> string list \<Rightarrow> auth_error + unit" where
  "assertOwnerManagementAllowed actorRoleKeys currentRoleKeys nextRoleKeys =
     guardR (\<not> ((hasOwnerRole currentRoleKeys \<or> hasOwnerRole nextRoleKeys) \<and> \<not> hasOwnerRole actorRoleKeys)) OwnerRequired"

definition assertActiveOwnerRemains :: "identity_db \<Rightarrow> string list \<Rightarrow> user_status \<Rightarrow> string list \<Rightarrow> user_status \<Rightarrow>
    auth_error + unit" where
  "assertActiveOwnerRemains db currentRoleKeys currentStatus nextRoleKeys nextStatus =
     (let removesActiveOwner = currentStatus = ActiveUser \<and> hasOwnerRole currentRoleKeys \<and>
        \<not> (nextStatus = ActiveUser \<and> hasOwnerRole nextRoleKeys)
      in guardR (\<not> (removesActiveOwner \<and> countActiveOwnersInTransaction db \<le> 1)) LastActiveOwner)"

record user_update =
  uu_userId :: string
  uu_displayName :: "string option"
  uu_email :: "string option"
  uu_roleKeys :: "string list option"

text \<open>The roles held while the recovery address of another user changes, with the actor read again under them.\<close>

definition loadRecoveryRoles :: "identity_db \<Rightarrow> authenticated_user \<Rightarrow> string list \<Rightarrow> string list option \<Rightarrow>
    auth_error + role_row list \<times> authenticated_user" where
  "loadRecoveryRoles db transactionActor currentRoleKeys roleKeys =
     andThen (loadRolesByKeysInTransaction db
         (au_roles transactionActor @ currentRoleKeys @ (case roleKeys of None \<Rightarrow> [] | Some ks \<Rightarrow> ks))) (\<lambda>roles.
     andThen (requirePermissionInTransaction db (au_id transactionActor) USERS_UPDATE) (\<lambda>again. Inr (roles, again)))"

definition selectUserRoles :: "identity_db \<Rightarrow> authenticated_user \<Rightarrow> user_row \<Rightarrow> string list \<Rightarrow>
    auth_error + role_row list" where
  "selectUserRoles db transactionActor user roleKeys =
     andThen (requirePermissionInTransaction db (au_id transactionActor) USERS_ASSIGN_ROLES) (\<lambda>_.
     andThen (loadRolesByKeysInTransaction db roleKeys) (\<lambda>selected.
     andThen (assertRoleAssignmentAllowedInTransaction db transactionActor selected) (\<lambda>_.
       if us_oidcProviderId user \<noteq> None \<and> hasOwnerRole (map ro_key selected) then Inl PermissionDenied
       else Inr selected)))"

definition writeUser :: "string \<Rightarrow> string option \<Rightarrow> string option \<Rightarrow> bool \<Rightarrow> int \<Rightarrow> identity_db \<Rightarrow>
    auth_error + identity_db" where
  "writeUser userId displayName email emailChanged now db =
     (if (case email of None \<Rightarrow> False | Some e \<Rightarrow> emailTaken db userId e) then Inl EmailConflict
      else Inr (updateUser userId (\<lambda>u. u\<lparr>us_displayName := (case displayName of None \<Rightarrow> us_displayName u | Some n \<Rightarrow> n),
        us_email := (case email of None \<Rightarrow> us_email u | Some e \<Rightarrow> e),
        us_emailVerifiedAt := (if emailChanged then None else us_emailVerifiedAt u), us_updatedAt := now\<rparr>) db))"

text \<open>What the transaction decides before it writes: the roles to store and whether the address changes.\<close>

definition checkUserUpdate :: "identity_db \<Rightarrow> string \<Rightarrow> user_update \<Rightarrow> string option \<Rightarrow>
    auth_error + role_row list option \<times> bool" where
  "checkUserUpdate db actorId input email =
     andThen (requirePermissionInTransaction db actorId USERS_UPDATE) (\<lambda>firstActor.
       (case findUser db (uu_userId input) of
          None \<Rightarrow> Inl UserNotFound
        | Some user \<Rightarrow>
            let currentRoleKeys = getUserRoleKeysInTransaction db (us_id user);
                emailChanged = (case email of None \<Rightarrow> False | Some e \<Rightarrow> e \<noteq> us_email user)
            in andThen (if emailChanged \<and> us_id user \<noteq> actorId
                 then andThen (loadRecoveryRoles db firstActor currentRoleKeys (uu_roleKeys input))
                   (\<lambda>(roles, again). Inr (Some roles, again))
                 else Inr (None, firstActor)) (\<lambda>(recoveryRoles, transactionActor).
               andThen (optionally (selectUserRoles db transactionActor user) (uu_roleKeys input)) (\<lambda>selectedRoles.
                 let nextRoleKeys = (case selectedRoles of None \<Rightarrow> currentRoleKeys | Some rs \<Rightarrow> map ro_key rs)
                 in andThen (assertOwnerManagementAllowed (au_roles transactionActor) currentRoleKeys nextRoleKeys) (\<lambda>_.
                    andThen (case recoveryRoles of
                        None \<Rightarrow> Inr ()
                      | Some roles \<Rightarrow> assertRecoveryEmailChangeAllowedInTransaction db transactionActor (us_id user)
                          (filter (\<lambda>r. contains nextRoleKeys (ro_key r)) roles)) (\<lambda>_.
                    andThen (assertActiveOwnerRemains db currentRoleKeys (us_status user) nextRoleKeys (us_status user)) (\<lambda>_.
                      Inr (selectedRoles, emailChanged))))))))"

definition updateUserService :: "identity_env \<Rightarrow> current_session option \<Rightarrow> user_update \<Rightarrow> int \<Rightarrow> identity_db \<Rightarrow>
    auth_error + identity_db" where
  "updateUserService env session input now db =
     (if uu_displayName input = None \<and> uu_email input = None \<and> uu_roleKeys input = None then Inl InvalidAuthInput
      else
        andThen (requirePermissionService session USERS_UPDATE) (\<lambda>actor.
        andThen (optionally normalizeDisplayName (uu_displayName input)) (\<lambda>displayName.
        andThen (optionally (normalizeEmail env) (uu_email input)) (\<lambda>email.
        andThen (checkUserUpdate db (au_id actor) input email) (\<lambda>(selectedRoles, emailChanged).
        andThen (writeUser (uu_userId input) displayName email emailChanged now db) (\<lambda>db1.
          let db2 = (case selectedRoles of
                None \<Rightarrow> db1
              | Some rs \<Rightarrow> replaceUserRolesInTransaction (uu_userId input) rs db1)
          in Inr (if emailChanged
               then deleteUserTokens (uu_userId input) (revokeAllUserSessionsInTransaction (uu_userId input) db2)
               else db2)))))))"

definition disableUserService :: "current_session option \<Rightarrow> string \<Rightarrow> int \<Rightarrow> identity_db \<Rightarrow>
    auth_error + identity_db" where
  "disableUserService session userId now db =
     andThen (requirePermissionService session USERS_DISABLE) (\<lambda>actor.
     andThen (requirePermissionInTransaction db (au_id actor) USERS_DISABLE) (\<lambda>transactionActor.
       (case findUser db userId of
          None \<Rightarrow> Inl UserNotFound
        | Some user \<Rightarrow>
            if us_id user = au_id actor then Inl PermissionDenied
            else
              let roleKeys = getUserRoleKeysInTransaction db (us_id user) in
              andThen (assertOwnerManagementAllowed (au_roles transactionActor) roleKeys roleKeys) (\<lambda>_.
              andThen (assertActiveOwnerRemains db roleKeys (us_status user) roleKeys DisabledUser) (\<lambda>_.
                Inr (deleteUserTokens (us_id user) (revokeAllUserSessionsInTransaction (us_id user)
                  (updateUser (us_id user) (\<lambda>u. if us_status u = DisabledUser then u
                    else u\<lparr>us_status := DisabledUser, us_updatedAt := now\<rparr>) db))))))))"

definition enableUserService :: "current_session option \<Rightarrow> string \<Rightarrow> int \<Rightarrow> identity_db \<Rightarrow>
    auth_error + identity_db" where
  "enableUserService session userId now db =
     andThen (requirePermissionService session USERS_ENABLE) (\<lambda>actor.
     andThen (requirePermissionInTransaction db (au_id actor) USERS_ENABLE) (\<lambda>transactionActor.
       (case findUser db userId of
          None \<Rightarrow> Inl UserNotFound
        | Some user \<Rightarrow>
            if us_status user \<noteq> DisabledUser then Inl InvalidAuthInput
            else
              let roleKeys = getUserRoleKeysInTransaction db (us_id user) in
              andThen (assertOwnerManagementAllowed (au_roles transactionActor) roleKeys roleKeys) (\<lambda>_.
                Inr (updateUser (us_id user) (\<lambda>u. u\<lparr>us_status :=
                  (if us_passwordHash u = None \<and> us_oidcProviderId u = None then PendingUser else ActiveUser),
                  us_updatedAt := now\<rparr>) db)))))"

end
