(* ===== verification/CredentialServices.thy ===== *)
theory CredentialServices
  imports AccountServices
begin

text \<open>
  The services that give and take credentials: the first owner and invitations
  (\<^verbatim>\<open>web/src/server/Auth/Setup\<close>), password resets, the password change and the profile image, the login
  with a password, and the accounts of identity providers (\<^verbatim>\<open>web/src/server/Auth/Oidc/oidc-accounts.service.ts\<close>).
\<close>

section \<open>The first owner\<close>

definition insertUser :: "identity_env \<Rightarrow> user_row \<Rightarrow> identity_db \<Rightarrow> auth_error + identity_db" where
  "insertUser env u db =
     (if emailTaken db (us_id u) (us_email u) then Inl EmailConflict
      else Inr (usedId (db\<lparr>id_users := id_users db @ [u]\<rparr>)))"

datatype setup_result = AlreadyInitialized | FirstOwner string

record setup_input =
  si_displayName :: string
  si_email :: string
  si_password :: string
  si_salt :: string

definition setupFirstOwnerService :: "identity_env \<Rightarrow> setup_input \<Rightarrow> int \<Rightarrow> identity_db \<Rightarrow>
    auth_error + setup_result \<times> identity_db" where
  "setupFirstOwnerService env input now db =
     andThen (normalizeEmail env (si_email input)) (\<lambda>email.
     andThen (normalizeDisplayName (si_displayName input)) (\<lambda>displayName.
     andThen (hashPassword env (si_salt input) (si_password input)) (\<lambda>passwordHash.
       if id_users db \<noteq> [] then Inr (AlreadyInitialized, db)
       else
         let db1 = ensureAuthorizationRegistryInTransaction env now db in
         (case find (\<lambda>r. ro_key r = OWNER) (id_roles db1) of
            None \<Rightarrow> Inl ServiceUnavailable
          | Some ownerRole \<Rightarrow>
              let u = \<lparr>us_id = newId env db1, us_displayName = displayName, us_email = email,
                       us_emailVerifiedAt = Some now, us_passwordHash = Some passwordHash,
                       us_oidcProviderId = None, us_profileImageVersion = 0, us_status = ActiveUser,
                       us_createdAt = now, us_updatedAt = now\<rparr>
              in andThen (insertUser env u db1) (\<lambda>db2.
                   Inr (FirstOwner (us_id u), db2\<lparr>id_userRoles := id_userRoles db2 @ [(us_id u, ro_id ownerRole)]\<rparr>))))))"

section \<open>Invitations\<close>

record invite_input =
  ii_displayName :: "string option"
  ii_email :: string
  ii_roleKeys :: "string list"
  ii_token :: string

text \<open>The pending account of an invitation: a known pending one, or a new one.\<close>

definition invitedUser :: "identity_env \<Rightarrow> invite_input \<Rightarrow> string \<Rightarrow> string \<Rightarrow> int \<Rightarrow> identity_db \<Rightarrow>
    auth_error + string \<times> string list \<times> identity_db" where
  "invitedUser env input email pendingDisplayName now db =
     (case find (\<lambda>u. toLowerCase (us_email u) = email) (id_users db) of
        Some u \<Rightarrow>
          if us_status u \<noteq> PendingUser \<or> us_oidcProviderId u \<noteq> None then Inl EmailConflict
          else Inr (us_id u, getUserRoleKeysInTransaction db (us_id u),
            if ii_displayName input = None then db
            else updateUser (us_id u) (\<lambda>v. v\<lparr>us_displayName := pendingDisplayName, us_updatedAt := now\<rparr>) db)
      | None \<Rightarrow>
          let u = \<lparr>us_id = newId env db, us_displayName = pendingDisplayName, us_email = email,
                   us_emailVerifiedAt = None, us_passwordHash = None, us_oidcProviderId = None,
                   us_profileImageVersion = 0, us_status = PendingUser, us_createdAt = now, us_updatedAt = now\<rparr>
          in andThen (insertUser env u db) (\<lambda>db'. Inr (us_id u, [], db')))"

definition insertInvite :: "identity_env \<Rightarrow> string \<Rightarrow> string \<Rightarrow> string \<Rightarrow> int \<Rightarrow> identity_db \<Rightarrow>
    auth_error + identity_db" where
  "insertInvite env userId invitedBy tokenHash expiresAt db =
     (let kept = filter (\<lambda>i. iv_userId i \<noteq> userId) (id_invites db) in
      if some_elem (\<lambda>i. iv_tokenHash i = tokenHash) kept then Inl EmailConflict
      else Inr (usedId (db\<lparr>id_invites := kept @ [\<lparr>iv_id = newId env db, iv_userId = userId,
        iv_invitedByUserId = invitedBy, iv_tokenHash = tokenHash, iv_acceptedAt = None, iv_expiresAt = expiresAt\<rparr>]\<rparr>)))"

definition issueInviteService :: "identity_env \<Rightarrow> current_session option \<Rightarrow> invite_input \<Rightarrow> int \<Rightarrow> identity_db \<Rightarrow>
    auth_error + string \<times> identity_db" where
  "issueInviteService env session input now db =
     andThen (requirePermissionService session USERS_CREATE) (\<lambda>actor.
     andThen (normalizeEmail env (ii_email input)) (\<lambda>email.
     andThen (normalizePendingDisplayName (ii_displayName input)) (\<lambda>pendingDisplayName.
     andThen (hashOpaqueToken env (ii_token input)) (\<lambda>tokenHash.
     andThen (requirePermissionInTransaction db (au_id actor) USERS_CREATE) (\<lambda>transactionActor.
     andThen (requirePermissionInTransaction db (au_id actor) USERS_ASSIGN_ROLES) (\<lambda>_.
     andThen (loadRolesByKeysInTransaction db (ii_roleKeys input)) (\<lambda>selectedRoles.
     andThen (assertRoleAssignmentAllowedInTransaction db transactionActor selectedRoles) (\<lambda>_.
     andThen (invitedUser env input email pendingDisplayName now db) (\<lambda>(userId, currentRoleKeys, db1).
       if (hasOwnerRole currentRoleKeys \<or> hasOwnerRole (map ro_key selectedRoles)) \<and>
          \<not> hasOwnerRole (au_roles transactionActor) then Inl OwnerRequired
       else
         andThen (insertInvite env userId (au_id actor) tokenHash (now + USER_INVITE_DURATION_MS)
             (replaceUserRolesInTransaction userId selectedRoles db1)) (\<lambda>db2.
           Inr (userId, db2)))))))))))"

datatype consumption = InvalidOrExpiredToken | Consumed string

definition openInvite :: "string \<Rightarrow> int \<Rightarrow> invite_row \<Rightarrow> bool" where
  "openInvite tokenHash now i \<longleftrightarrow> iv_tokenHash i = tokenHash \<and> iv_expiresAt i > now \<and> iv_acceptedAt i = None"

record accept_input =
  ai_displayName :: string
  ai_token :: string
  ai_password :: string
  ai_salt :: string

text \<open>The second look at the row happens in the same transaction, under the lock of the user.\<close>

definition acceptInviteService :: "identity_env \<Rightarrow> accept_input \<Rightarrow> int \<Rightarrow> identity_db \<Rightarrow>
    auth_error + consumption \<times> identity_db" where
  "acceptInviteService env input now db =
     andThen (normalizeDisplayName (ai_displayName input)) (\<lambda>displayName.
       (case hashOpaqueToken env (ai_token input) of
          Inl e \<Rightarrow> Inr (InvalidOrExpiredToken, db)
        | Inr tokenHash \<Rightarrow>
            (case find (openInvite tokenHash now) (id_invites db) of
               None \<Rightarrow> Inr (InvalidOrExpiredToken, db)
             | Some invite \<Rightarrow>
                 (case findUser db (iv_userId invite) of
                    None \<Rightarrow> Inr (InvalidOrExpiredToken, db)
                  | Some user \<Rightarrow>
                      if us_status user \<noteq> PendingUser \<or> us_oidcProviderId user \<noteq> None
                      then Inr (InvalidOrExpiredToken, db)
                      else andThen (hashPassword env (ai_salt input) (ai_password input)) (\<lambda>passwordHash.
                        Inr (Consumed (us_id user),
                          updateUser (us_id user) (\<lambda>u. u\<lparr>us_displayName := displayName,
                              us_emailVerifiedAt := Some now, us_passwordHash := Some passwordHash,
                              us_status := ActiveUser, us_updatedAt := now\<rparr>)
                            (db\<lparr>id_invites := map (\<lambda>i. if iv_id i = iv_id invite then i\<lparr>iv_acceptedAt := Some now\<rparr> else i)
                              (id_invites db)\<rparr>)))))))"

section \<open>Passwords\<close>

definition insertReset :: "identity_env \<Rightarrow> string \<Rightarrow> string \<Rightarrow> int \<Rightarrow> identity_db \<Rightarrow> auth_error + identity_db" where
  "insertReset env userId tokenHash now db =
     (let kept = filter (\<lambda>t. \<not> (re_userId t = userId \<and> (re_expiresAt t \<le> now \<or> re_consumedAt t \<noteq> None))) (id_resetTokens db) in
      if some_elem (\<lambda>t. re_tokenHash t = tokenHash) kept then Inl UniqueViolation
      else Inr (usedId (db\<lparr>id_resetTokens := kept @ [\<lparr>re_id = newId env db, re_userId = userId,
        re_tokenHash = tokenHash, re_consumedAt = None, re_expiresAt = now + PASSWORD_RESET_DURATION_MS\<rparr>]\<rparr>)))"

text \<open>\<open>None\<close>: no token is issued, and the request looks the same from outside.\<close>

definition issuePasswordResetService :: "identity_env \<Rightarrow> string \<Rightarrow> string \<Rightarrow> int \<Rightarrow> identity_db \<Rightarrow>
    auth_error + string option \<times> identity_db" where
  "issuePasswordResetService env emailInput token now db =
     (case normalizeEmail env emailInput of
        Inl e \<Rightarrow> Inr (None, db)
      | Inr email \<Rightarrow>
          andThen (hashOpaqueToken env token) (\<lambda>tokenHash.
            (case find (\<lambda>u. toLowerCase (us_email u) = email \<and> us_status u = ActiveUser \<and> us_oidcProviderId u = None)
               (id_users db) of
               None \<Rightarrow> Inr (None, db)
             | Some u \<Rightarrow>
                 andThen (insertReset env (us_id u) tokenHash now db) (\<lambda>db'. Inr (Some (us_id u), db')))))"

definition openReset :: "string \<Rightarrow> int \<Rightarrow> reset_row \<Rightarrow> bool" where
  "openReset tokenHash now t \<longleftrightarrow> re_tokenHash t = tokenHash \<and> re_expiresAt t > now \<and> re_consumedAt t = None"

definition consumePasswordResetService :: "identity_env \<Rightarrow> string \<Rightarrow> string \<Rightarrow> string \<Rightarrow> int \<Rightarrow> identity_db \<Rightarrow>
    auth_error + consumption \<times> identity_db" where
  "consumePasswordResetService env token password salt now db =
     (case hashOpaqueToken env token of
        Inl e \<Rightarrow> Inr (InvalidOrExpiredToken, db)
      | Inr tokenHash \<Rightarrow>
          (case find (openReset tokenHash now) (id_resetTokens db) of
             None \<Rightarrow> Inr (InvalidOrExpiredToken, db)
           | Some resetToken \<Rightarrow>
               (case findUser db (re_userId resetToken) of
                  None \<Rightarrow> Inr (InvalidOrExpiredToken, db)
                | Some user \<Rightarrow>
                    if us_status user \<noteq> ActiveUser \<or> us_oidcProviderId user \<noteq> None
                    then Inr (InvalidOrExpiredToken, db)
                    else andThen (hashPassword env salt password) (\<lambda>passwordHash.
                      Inr (Consumed (us_id user),
                        revokeAllUserSessionsInTransaction (us_id user)
                          (updateUser (us_id user) (\<lambda>u. u\<lparr>us_passwordHash := Some passwordHash, us_updatedAt := now\<rparr>)
                            (db\<lparr>id_resetTokens := map (\<lambda>t. if re_userId t = us_id user \<and> re_consumedAt t = None
                              then t\<lparr>re_consumedAt := Some now\<rparr> else t) (id_resetTokens db)\<rparr>)))))))"

definition changeCurrentPasswordService :: "identity_env \<Rightarrow> current_session option \<Rightarrow> string \<Rightarrow> string \<Rightarrow> int \<Rightarrow>
    identity_db \<Rightarrow> auth_error + identity_db" where
  "changeCurrentPasswordService env session password salt now db =
     andThen (requirePermissionService session ACCOUNT_UPDATE) (\<lambda>actor.
     andThen (hashPassword env salt password) (\<lambda>passwordHash.
       (case findUser db (au_id actor) of
          None \<Rightarrow> Inl AuthenticationRequired
        | Some user \<Rightarrow>
            if us_status user \<noteq> ActiveUser \<or> us_passwordHash user = None \<or> us_passwordHash user = Some []
            then Inl AuthenticationRequired
            else
              andThen (requirePermissionInTransaction db (au_id actor) ACCOUNT_UPDATE) (\<lambda>_.
                let sessionId = (case session of Some s \<Rightarrow> cs_id s | None \<Rightarrow> []) in
                if \<not> some_elem (\<lambda>s. se_id s = sessionId \<and> se_userId s = au_id actor \<and> se_expiresAt s > now) (id_sessions db)
                then Inl AuthenticationRequired
                else Inr (revokeOtherUserSessionsInTransaction (au_id actor) sessionId
                  ((updateUser (au_id actor) (\<lambda>u. u\<lparr>us_passwordHash := Some passwordHash, us_updatedAt := now\<rparr>) db)
                    \<lparr>id_resetTokens := filter (\<lambda>t. re_userId t \<noteq> au_id actor) (id_resetTokens db)\<rparr>))))))"

definition updateCurrentProfileImageService :: "current_session option \<Rightarrow> int \<Rightarrow> identity_db \<Rightarrow>
    auth_error + identity_db" where
  "updateCurrentProfileImageService session now db =
     andThen (requirePermissionService session ACCOUNT_UPDATE) (\<lambda>actor.
     andThen (requirePermissionInTransaction db (au_id actor) ACCOUNT_UPDATE) (\<lambda>_.
       Inr (updateUser (au_id actor) (\<lambda>u. if us_status u = ActiveUser
         then u\<lparr>us_profileImageVersion := us_profileImageVersion u + 1, us_updatedAt := now\<rparr> else u) db)))"

section \<open>Login\<close>

definition lockActiveUserForAuthenticationInTransaction :: "identity_db \<Rightarrow> string \<Rightarrow> auth_error + user_row" where
  "lockActiveUserForAuthenticationInTransaction db userId =
     (case findUser db userId of
        None \<Rightarrow> Inl UserNotActive
      | Some u \<Rightarrow> if us_status u \<noteq> ActiveUser then Inl UserNotActive else Inr u)"

definition getPasswordAuthenticationFingerprint :: "identity_env \<Rightarrow> string \<Rightarrow> string" where
  "getPasswordAuthenticationFingerprint env passwordHash = ie_digest env passwordHash"

definition requirePasswordAuthenticationInTransaction :: "identity_env \<Rightarrow> identity_db \<Rightarrow> string \<Rightarrow> string \<Rightarrow>
    auth_error + unit" where
  "requirePasswordAuthenticationInTransaction env db userId fingerprint =
     andThen (lockActiveUserForAuthenticationInTransaction db userId) (\<lambda>u.
       (case us_passwordHash u of
          None \<Rightarrow> Inl UserNotActive
        | Some h \<Rightarrow> guardR (h \<noteq> [] \<and> getPasswordAuthenticationFingerprint env h = fingerprint) UserNotActive))"

datatype login_result = InvalidCredentials | TwoFactorRequired string string | LoggedIn current_session

record login_input =
  li_email :: string
  li_password :: string
  li_token :: string
  li_dummyPassword :: string
  li_dummyHash :: string
  li_expired :: "string list"

definition getNormalizedLoginEmail :: "identity_env \<Rightarrow> string \<Rightarrow> string" where
  "getNormalizedLoginEmail env email =
     (case normalizeEmail env email of
        Inl e \<Rightarrow> ''invalid-login-identifier@invalid.invalid'' | Inr normalized \<Rightarrow> normalized)"

text \<open>
  The password is verified against the tables as they were when the request looked the user up; the
  transaction that issues the session runs later, on other tables.
\<close>

definition verifiedLogin :: "identity_env \<Rightarrow> login_input \<Rightarrow> identity_db \<Rightarrow> (string \<times> string) option" where
  "verifiedLogin env input earlier =
     (let email = getNormalizedLoginEmail env (li_email input);
          user = find (\<lambda>u. toLowerCase (us_email u) = email) (id_users earlier);
          passwordToVerify = (if isValidPassword (li_password input) then li_password input else li_dummyPassword input);
          stored = (case user of None \<Rightarrow> None | Some u \<Rightarrow> us_passwordHash u);
          passwordMatches = ie_passwordVerify env passwordToVerify (case stored of None \<Rightarrow> li_dummyHash input | Some h \<Rightarrow> h)
      in (case (user, stored) of
            (Some u, Some h) \<Rightarrow>
              if us_status u = ActiveUser \<and> h \<noteq> [] \<and> passwordMatches then Some (us_id u, h) else None
          | _ \<Rightarrow> None))"

definition getLoginMfaFactorInTransaction :: "identity_db \<Rightarrow> string \<Rightarrow> totp_row option" where
  "getLoginMfaFactorInTransaction db userId = find (\<lambda>f. tf_userId f = userId) (id_totpFactors db)"

definition loginTransaction :: "identity_env \<Rightarrow> login_input \<Rightarrow> string \<Rightarrow> string \<Rightarrow> int \<Rightarrow> identity_db \<Rightarrow>
    auth_error + login_result \<times> identity_db" where
  "loginTransaction env input userId fingerprint now db =
     andThen (requirePasswordAuthenticationInTransaction env db userId fingerprint) (\<lambda>_.
       (case resolveActiveUserAccessInTransaction db userId of
          None \<Rightarrow> Inr (InvalidCredentials, db)
        | Some access \<Rightarrow>
            if \<not> contains (au_permissions access) APP_ACCESS then Inr (InvalidCredentials, db)
            else (case getLoginMfaFactorInTransaction db userId of
                Some factor \<Rightarrow> Inr (TwoFactorRequired (tf_id factor) fingerprint, db)
              | None \<Rightarrow>
                  andThen (createSessionInTransaction env \<lparr>sq_userId = userId, sq_method = ByPassword,
                      sq_reauthenticatedAt = now, sq_proof = None, sq_token = li_token input,
                      sq_expired = li_expired input\<rparr> now db) (\<lambda>(s, db'). Inr (LoggedIn s, db')))))"

definition loginService :: "identity_env \<Rightarrow> login_input \<Rightarrow> identity_db \<Rightarrow> int \<Rightarrow> identity_db \<Rightarrow>
    auth_error + login_result \<times> identity_db" where
  "loginService env input earlier now db =
     (case verifiedLogin env input earlier of
        None \<Rightarrow> Inr (InvalidCredentials, db)
      | Some (userId, passwordHash) \<Rightarrow>
          (case loginTransaction env input userId (getPasswordAuthenticationFingerprint env passwordHash) now db of
             Inl UserNotActive \<Rightarrow> Inr (InvalidCredentials, db)
           | result \<Rightarrow> result))"

section \<open>Accounts of identity providers\<close>

record oidc_identity =
  oi_providerId :: string
  oi_revision :: int
  oi_issuer :: string
  oi_subject :: string
  oi_expiresAt :: int
  oi_groups :: "string list option"
  oi_email :: "string option"
  oi_emailVerified :: bool
  oi_displayName :: "string option"

definition resolveOidcRoleKeys :: "oidc_provider \<Rightarrow> string list option \<Rightarrow> auth_error + string list" where
  "resolveOidcRoleKeys provider groups =
     (case groups of
        Some gs \<Rightarrow> if length gs > OIDC_MAX_GROUPS \<or> some_elem (\<lambda>g. g = [] \<or> length g > OIDC_MAX_GROUP_LENGTH) gs
          then Inl IdentityNotAllowed
          else Inr (case pr_accountPolicy provider of
              None \<Rightarrow> []
            | Some p \<Rightarrow> uniq (ap_defaultRoleKeys p @
                concat (map snd (filter (\<lambda>m. contains gs (fst m)) (ap_groupRoleMappings p)))))
      | None \<Rightarrow> Inr (case pr_accountPolicy provider of None \<Rightarrow> [] | Some p \<Rightarrow> uniq (ap_defaultRoleKeys p)))"

definition loadExternalRoles :: "identity_db \<Rightarrow> string list \<Rightarrow> bool \<Rightarrow> auth_error + role_row list" where
  "loadExternalRoles db keys requireAccess =
     andThen (loadRolesByKeysInTransaction db keys) (\<lambda>roles.
       if hasOwnerRole (map ro_key roles) then Inl IdentityNotAllowed
       else if requireAccess \<and> \<not> contains (concat (map (\<lambda>r. rolePermissionKeys db (ro_id r)) roles)) APP_ACCESS
       then Inl IdentityNotAllowed else Inr roles)"

text \<open>
  The rules for stored provider settings that concern accounts; the formats of addresses and secrets are
  the rest of \<^verbatim>\<open>parseStoredOidcSettings\<close> and do not change here.
\<close>

definition storableOidcSettings :: "oidc_settings \<Rightarrow> bool" where
  "storableOidcSettings s \<longleftrightarrow> 0 \<le> os_revision s \<and> os_revision s < MAX_SAFE_INTEGER \<and>
     length (os_providers s) \<le> 16 \<and> distinct (map pr_id (os_providers s)) \<and>
     distinct (concat (map (\<lambda>p. map (\<lambda>b. (pr_issuer p, ob_subject b)) (pr_bindings p)) (os_providers s))) \<and>
     list_all (\<lambda>p. 0 < pr_revision p \<and> pr_revision p \<le> os_revision s \<and> length (pr_bindings p) \<le> OIDC_MAX_BINDINGS \<and>
       distinct (map ob_subject (pr_bindings p)) \<and>
       list_all (\<lambda>b. 0 \<le> ob_generation b \<and> ob_generation b \<le> os_revision s) (pr_bindings p)) (os_providers s)"

definition sameKeys :: "string list \<Rightarrow> string list \<Rightarrow> bool" where
  "sameKeys xs ys = (joinWith [char_of (0::nat)] (sort xs) = joinWith [char_of (0::nat)] (sort ys))"

definition synchronizeOidcAccountInTransaction :: "oidc_provider \<Rightarrow> oidc_proof \<Rightarrow> string list option \<Rightarrow>
    identity_db \<Rightarrow> auth_error + identity_db" where
  "synchronizeOidcAccountInTransaction provider p groups db =
     (let binding = find (\<lambda>b. ob_subject b = op_subject p \<and> ob_userId b = op_userId p) (pr_bindings provider);
          user = findUser db (op_userId p)
      in if \<not> (case binding of None \<Rightarrow> False | Some b \<Rightarrow> ob_providerManaged b)
         then (case user of
             Some u \<Rightarrow> if us_oidcProviderId u \<noteq> None then Inl IdentityNotAllowed else Inr db
           | None \<Rightarrow> Inr db)
         else
           let previous = getUserRoleKeysInTransaction db (op_userId p) in
           (case user of
              None \<Rightarrow> Inl IdentityNotAllowed
            | Some u \<Rightarrow>
                if us_status u \<noteq> ActiveUser \<or> us_oidcProviderId u \<noteq> Some (pr_id provider) \<or> hasOwnerRole previous
                then Inl IdentityNotAllowed
                else andThen (resolveOidcRoleKeys provider groups) (\<lambda>keys.
                  andThen (loadExternalRoles db keys False) (\<lambda>selected.
                    if sameKeys previous (map ro_key selected) then Inr db
                    else Inr (revokeAllUserSessionsInTransaction (op_userId p)
                      (replaceUserRolesInTransaction (op_userId p) selected db))))))"

definition oidcDisplayName :: "string option \<Rightarrow> string \<Rightarrow> string" where
  "oidcDisplayName name email =
     (case name of
        None \<Rightarrow> take 100 email
      | Some n \<Rightarrow> if 2 \<le> length (trim n) \<and> length (trim n) \<le> 100 then trim n else take 100 email)"

text \<open>The account and its binding, written to the settings with the next revision.\<close>

definition provisionOidcAccount :: "identity_env \<Rightarrow> oidc_provider \<Rightarrow> oidc_identity \<Rightarrow> int \<Rightarrow> identity_db \<Rightarrow>
    auth_error + oidc_binding \<times> identity_db" where
  "provisionOidcAccount env provider identity now db =
     (let settings = id_oidc db in
      if \<not> (case pr_accountPolicy provider of None \<Rightarrow> False | Some p \<Rightarrow> ap_provisioning p) \<or>
         length (pr_bindings provider) \<ge> OIDC_MAX_BINDINGS \<or> \<not> oi_emailVerified identity \<or>
         (case oi_email identity of None \<Rightarrow> True | Some e \<Rightarrow> e = []) \<or>
         some_elem (\<lambda>e. pr_issuer e = oi_issuer identity \<and> some_elem (\<lambda>b. ob_subject b = oi_subject identity) (pr_bindings e))
           (os_providers settings)
      then Inl IdentityNotAllowed
      else
        andThen (normalizeEmail env (case oi_email identity of None \<Rightarrow> [] | Some e \<Rightarrow> e)) (\<lambda>email.
          if some_elem (\<lambda>u. toLowerCase (us_email u) = email) (id_users db) then Inl IdentityNotAllowed
          else
            andThen (resolveOidcRoleKeys provider (oi_groups identity)) (\<lambda>keys.
            andThen (loadExternalRoles db keys True) (\<lambda>selected.
              let u = \<lparr>us_id = newId env db, us_displayName = oidcDisplayName (oi_displayName identity) email,
                       us_email = email, us_emailVerifiedAt = Some now, us_passwordHash = None,
                       us_oidcProviderId = Some (pr_id provider), us_profileImageVersion = 0,
                       us_status = ActiveUser, us_createdAt = now, us_updatedAt = now\<rparr>;
                  revision = os_revision settings + 1;
                  binding = \<lparr>ob_subject = oi_subject identity, ob_userId = us_id u, ob_providerManaged = True,
                             ob_generation = revision\<rparr>;
                  updated = settings\<lparr>os_revision := revision, os_providers := map (\<lambda>e. if pr_id e = pr_id provider
                    then e\<lparr>pr_bindings := pr_bindings e @ [binding]\<rparr> else e) (os_providers settings)\<rparr>
              in andThen (insertUser env u db) (\<lambda>db1.
                 andThen (guardR (storableOidcSettings updated) ConfigurationUnavailable) (\<lambda>_.
                   Inr (binding, (replaceUserRolesInTransaction (us_id u) selected db1)\<lparr>id_oidc := updated\<rparr>)))))))"

definition resolveOidcAccountInTransaction :: "identity_env \<Rightarrow> oidc_identity \<Rightarrow> int \<Rightarrow> identity_db \<Rightarrow>
    auth_error + oidc_proof \<times> identity_db" where
  "resolveOidcAccountInTransaction env identity now db =
     (case find (\<lambda>e. pr_id e = oi_providerId identity) (os_providers (id_oidc db)) of
        None \<Rightarrow> Inl IdentityNotAllowed
      | Some provider \<Rightarrow>
          if \<not> pr_enabled provider \<or> pr_revision provider \<noteq> oi_revision identity \<or>
             pr_issuer provider \<noteq> oi_issuer identity \<or> \<not> isSafeInteger (oi_expiresAt identity) \<or>
             oi_expiresAt identity \<le> now
          then Inl IdentityNotAllowed
          else andThen (case find (\<lambda>b. ob_subject b = oi_subject identity) (pr_bindings provider) of
              Some b \<Rightarrow> Inr (b, db)
            | None \<Rightarrow> provisionOidcAccount env provider identity now db) (\<lambda>(binding, db').
              Inr (\<lparr>op_providerId = pr_id provider, op_providerRevision = pr_revision provider,
                    op_bindingGeneration = ob_generation binding, op_issuer = oi_issuer identity,
                    op_subject = oi_subject identity, op_userId = ob_userId binding,
                    op_expiresAt = oi_expiresAt identity\<rparr>, db')))"

end
