(* ===== verification/ValkeyStore.thy ===== *)
theory ValkeyStore
  imports Prelude
begin

text \<open>
  The commands of the key-value store the services send: keys hold a value and the moment they expire, an expired
  key is absent, \<^verbatim>\<open>SET NX PX\<close> writes only an absent key, and scripts run alone.
\<close>

type_synonym ('k, 'v) keyspace = "'k \<Rightarrow> ('v \<times> int) option"

definition getKey :: "int \<Rightarrow> ('k, 'v) keyspace \<Rightarrow> 'k \<Rightarrow> 'v option" where
  "getKey now m k = (case m k of None \<Rightarrow> None | Some (v, until) \<Rightarrow> if now < until then Some v else None)"

definition setNx :: "int \<Rightarrow> int \<Rightarrow> 'k \<Rightarrow> 'v \<Rightarrow> ('k, 'v) keyspace \<Rightarrow> bool \<times> ('k, 'v) keyspace" where
  "setNx now duration k v m =
     (if getKey now m k = None then (True, m(k \<mapsto> (v, now + duration))) else (False, m))"

definition delKey :: "'k \<Rightarrow> ('k, 'v) keyspace \<Rightarrow> ('k, 'v) keyspace" where
  "delKey k m = m(k := None)"

text \<open>\<^verbatim>\<open>PTTL\<close>: the time a key has left, \<open>-2\<close> for an absent one.\<close>

definition pttl :: "int \<Rightarrow> ('k, 'v) keyspace \<Rightarrow> 'k \<Rightarrow> int" where
  "pttl now m k = (case m k of None \<Rightarrow> - 2 | Some (v, until) \<Rightarrow> if now < until then until - now else - 2)"

lemma getKey_del [simp]: "getKey now (delKey k m) k = None" "k' \<noteq> k \<Longrightarrow> getKey now (delKey k m) k' = getKey now m k'"
  by (simp_all add: getKey_def delKey_def)

lemma delKey_other [simp]: "k' \<noteq> k \<Longrightarrow> delKey k m k' = m k'" "delKey k m k = None"
  by (simp_all add: delKey_def)

lemma getKey_Some: "getKey now m k = Some v \<longleftrightarrow> (\<exists>until. m k = Some (v, until) \<and> now < until)"
  by (auto simp: getKey_def split: option.splits)

lemma setNx_other: "setNx now duration k v m = (b, m') \<Longrightarrow> k' \<noteq> k \<Longrightarrow> m' k' = m k'"
  by (auto simp: setNx_def split: if_splits)

section \<open>The interface of a lock\<close>

text \<open>
  What the users of a lock rely on: the write of an absent key succeeds and is read back until it expires, a present key is
  not overwritten, and a deleted key is absent.
\<close>

locale expiring_lock =
  fixes look :: "int \<Rightarrow> 'm \<Rightarrow> 'k \<Rightarrow> 'v option" and acquire :: "int \<Rightarrow> int \<Rightarrow> 'k \<Rightarrow> 'v \<Rightarrow> 'm \<Rightarrow> bool \<times> 'm" and release :: "'k \<Rightarrow> 'm \<Rightarrow> 'm"
  assumes taken: "acquire now duration k v m = (True, m') \<Longrightarrow> look t m' k = (if t < now + duration then Some v else None)"
    and free: "fst (acquire now duration k v m) \<longleftrightarrow> look now m k = None"
    and dropped: "look now (release k m) k = None"
begin

lemma exclusive:
  assumes "acquire now duration k v m = (True, m')" "t < now + duration"
  shows "\<not> fst (acquire t d k w m')"
  using assms taken free by simp

lemma retaken: "fst (acquire t d k w (release k m))" "acquire now duration k v m = (True, m') \<Longrightarrow> now + duration \<le> t \<Longrightarrow> fst (acquire t d k w m')"
  using taken free dropped by simp_all

lemma expired: "acquire now duration k v m = (True, m') \<Longrightarrow> now + duration \<le> t \<Longrightarrow> look t m' k \<noteq> Some w"
  using taken by simp

end

interpretation valkey: expiring_lock getKey setNx delKey
  by unfold_locales (auto simp: setNx_def getKey_def split: if_splits)

end
