(* ===== verification/AuthChallenges.thy ===== *)
theory AuthChallenges
  imports IdentityServices ValkeyStore
begin

text \<open>
  The challenges of interactive logins, \<^verbatim>\<open>web/src/server/Valkey/auth-challenges.service.ts\<close>: a challenge is a JSON
  text under a random key, and a code is checked while a short lock on the challenge is held. The Lua scripts
  decode and encode the text again when they count a wrong code; what that library does to a challenge is an argument.
  Every command runs alone and takes the moment it runs at; requests interleave between commands. When the store does
  not answer, the code raises an error and goes no further.
\<close>

section \<open>Challenges\<close>

definition CHALLENGE_VERIFICATION_LOCK_DURATION_MS :: int where "CHALLENGE_VERIFICATION_LOCK_DURATION_MS = 15 * 1000"
definition MFA_CHALLENGE_MAX_ATTEMPTS :: int where "MFA_CHALLENGE_MAX_ATTEMPTS = 5"
definition LOGIN_MFA_CHALLENGE_DURATION_MS :: int where "LOGIN_MFA_CHALLENGE_DURATION_MS = 5 * 60 * 1000"
definition TOTP_SETUP_CHALLENGE_DURATION_MS :: int where "TOTP_SETUP_CHALLENGE_DURATION_MS = 10 * 60 * 1000"
definition WEBAUTHN_CHALLENGE_DURATION_MS :: int where "WEBAUTHN_CHALLENGE_DURATION_MS = 5 * 60 * 1000"

datatype challenge_kind = LoginMfa | TotpSetup | WebauthnAuthentication | WebauthnRegistration

record oidc_factor =
  of_providerId :: string
  of_providerRevision :: int
  of_bindingGeneration :: "int option"
  of_issuer :: string
  of_subject :: string
  of_expiresAt :: int
  of_groups :: "string list option"

datatype first_factor = PasswordFactor string | OidcFactor oidc_factor

record login_mfa =
  lm_createdAt :: string
  lm_attempts :: int
  lm_factorId :: string
  lm_userId :: string
  lm_firstFactor :: first_factor

record totp_setup =
  ts_createdAt :: string
  ts_attempts :: int
  ts_ciphertext :: string
  ts_iv :: string
  ts_sessionId :: string
  ts_userId :: string

record webauthn_registration =
  wr_createdAt :: string
  wr_challenge :: string
  wr_sessionId :: string
  wr_userId :: string

datatype auth_challenge = LoginMfaChallenge login_mfa | TotpSetupChallenge totp_setup
  | RegistrationChallenge webauthn_registration | AuthenticationChallenge string string

definition kindOf :: "auth_challenge \<Rightarrow> challenge_kind" where
  "kindOf c = (case c of LoginMfaChallenge m \<Rightarrow> LoginMfa | TotpSetupChallenge t \<Rightarrow> TotpSetup
     | RegistrationChallenge r \<Rightarrow> WebauthnRegistration | AuthenticationChallenge createdAt challenge \<Rightarrow> WebauthnAuthentication)"

definition attemptsOf :: "auth_challenge \<Rightarrow> int" where
  "attemptsOf c = (case c of LoginMfaChallenge m \<Rightarrow> lm_attempts m | TotpSetupChallenge t \<Rightarrow> ts_attempts t | _ \<Rightarrow> 0)"

definition withAttempts :: "int \<Rightarrow> auth_challenge \<Rightarrow> auth_challenge" where
  "withAttempts n c = (case c of LoginMfaChallenge m \<Rightarrow> LoginMfaChallenge (m\<lparr>lm_attempts := n\<rparr>)
     | TotpSetupChallenge t \<Rightarrow> TotpSetupChallenge (t\<lparr>ts_attempts := n\<rparr>) | _ \<Rightarrow> c)"

text \<open>A stored text is the JSON of a challenge, or JSON with a number of attempts that is no challenge.\<close>

datatype stored = Json auth_challenge | OtherJson int

definition storedAttempts :: "stored \<Rightarrow> int" where
  "storedAttempts v = (case v of Json c \<Rightarrow> attemptsOf c | OtherJson n \<Rightarrow> n)"

section \<open>Parsing\<close>

definition isFingerprint :: "string \<Rightarrow> bool" where
  "isFingerprint s \<longleftrightarrow> length s = 64 \<and> list_all (\<lambda>c. isDigit c \<or> (97 \<le> (of_char c :: nat) \<and> (of_char c :: nat) \<le> 102)) s"

definition isLoginFirstFactor :: "int \<Rightarrow> first_factor \<Rightarrow> bool" where
  "isLoginFirstFactor now f = (case f of
     PasswordFactor fingerprint \<Rightarrow> isFingerprint fingerprint
   | OidcFactor p \<Rightarrow>
       of_providerId p \<noteq> [] \<and> length (of_providerId p) \<le> 100 \<and>
       isSafeInteger (of_providerRevision p) \<and> 1 \<le> of_providerRevision p \<and>
       (case of_bindingGeneration p of None \<Rightarrow> True | Some g \<Rightarrow> isSafeInteger g \<and> 0 \<le> g) \<and>
       of_issuer p \<noteq> [] \<and> length (of_issuer p) \<le> 2048 \<and>
       of_subject p \<noteq> [] \<and> length (of_subject p) \<le> 255 \<and>
       list_all (\<lambda>c. 33 \<le> (of_char c :: nat) \<and> (of_char c :: nat) \<le> 126) (of_subject p) \<and>
       isSafeInteger (of_expiresAt p) \<and> now < of_expiresAt p \<and> of_expiresAt p \<le> 8640000000000000 \<and>
       (case of_groups p of None \<Rightarrow> True
        | Some gs \<Rightarrow> length gs \<le> OIDC_MAX_GROUPS \<and> list_all (\<lambda>g. g \<noteq> [] \<and> length g \<le> OIDC_MAX_GROUP_LENGTH) gs))"

definition parseChallenge :: "int \<Rightarrow> challenge_kind \<Rightarrow> stored \<Rightarrow> auth_challenge option" where
  "parseChallenge now expected v = (case v of
     OtherJson n \<Rightarrow> None
   | Json c \<Rightarrow>
       if kindOf c \<noteq> expected then None
       else (case c of
           LoginMfaChallenge m \<Rightarrow>
             if isLoginFirstFactor now (lm_firstFactor m) \<and> isSafeInteger (lm_attempts m) \<and> 0 \<le> lm_attempts m
             then Some c else None
         | _ \<Rightarrow> Some c))"

section \<open>Operations\<close>

type_synonym challenge_key = "challenge_kind \<times> string"

record challenge_store =
  vk_challenges :: "(challenge_key, stored) keyspace"
  vk_locks :: "(challenge_key, string) keyspace"

datatype challenge_error = ChallengeUnavailable | ChallengeState

definition createAuthChallenge :: "auth_challenge \<Rightarrow> int \<Rightarrow> string \<Rightarrow> int \<Rightarrow> challenge_store \<Rightarrow>
    challenge_error + (int \<times> string) \<times> challenge_store" where
  "createAuthChallenge c duration token now vk =
     (if parseChallenge now (kindOf c) (Json c) = None then Inl ChallengeState
      else if \<not> isSafeInteger duration \<or> duration < 1 then Inl ChallengeState
      else
        let (written, challenges) = setNx now duration (kindOf c, token) (Json c) (vk_challenges vk) in
        if written then Inr ((now + duration, token), vk\<lparr>vk_challenges := challenges\<rparr>) else Inl ChallengeUnavailable)"

text \<open>\<^verbatim>\<open>GETDEL\<close>: the text is gone even when it turns out not to be a challenge.\<close>

definition consumeAuthChallenge :: "challenge_kind \<Rightarrow> string \<Rightarrow> int \<Rightarrow> challenge_store \<Rightarrow>
    (challenge_error + auth_challenge option) \<times> challenge_store" where
  "consumeAuthChallenge kind i now vk =
     (if \<not> isValidOpaqueToken i then (Inr None, vk)
      else (case getKey now (vk_challenges vk) (kind, i) of
          None \<Rightarrow> (Inr None, vk)
        | Some v \<Rightarrow> (case parseChallenge now kind v of None \<Rightarrow> Inl ChallengeState | Some c \<Rightarrow> Inr (Some c),
            vk\<lparr>vk_challenges := delKey (kind, i) (vk_challenges vk)\<rparr>)))"

definition getAuthChallenge :: "challenge_kind \<Rightarrow> string \<Rightarrow> int \<Rightarrow> challenge_store \<Rightarrow>
    challenge_error + auth_challenge option" where
  "getAuthChallenge kind i now vk =
     (if \<not> isValidOpaqueToken i then Inr None
      else (case getKey now (vk_challenges vk) (kind, i) of
          None \<Rightarrow> Inr None
        | Some v \<Rightarrow> (case parseChallenge now kind v of None \<Rightarrow> Inl ChallengeState | Some c \<Rightarrow> Inr (Some c))))"

definition lockVerification :: "challenge_key \<Rightarrow> string \<Rightarrow> int \<Rightarrow> challenge_store \<Rightarrow> bool \<times> challenge_store" where
  "lockVerification k lockToken now vk =
     (let (locked, locks) = setNx now CHALLENGE_VERIFICATION_LOCK_DURATION_MS k lockToken (vk_locks vk)
      in (locked, vk\<lparr>vk_locks := locks\<rparr>))"

definition releaseCodeChallengeVerification :: "challenge_key \<Rightarrow> string \<Rightarrow> int \<Rightarrow> challenge_store \<Rightarrow> challenge_store" where
  "releaseCodeChallengeVerification k lockToken now vk =
     (if getKey now (vk_locks vk) k = Some lockToken then vk\<lparr>vk_locks := delKey k (vk_locks vk)\<rparr> else vk)"

text \<open>The second half of \<^verbatim>\<open>acquireCodeChallengeVerification\<close>, after the lock was taken.\<close>

definition readLocked :: "challenge_key \<Rightarrow> int \<Rightarrow> challenge_store \<Rightarrow> auth_challenge option" where
  "readLocked k now vk =
     (case getKey now (vk_challenges vk) k of
        None \<Rightarrow> None
      | Some v \<Rightarrow> (case parseChallenge now (fst k) v of
          None \<Rightarrow> None
        | Some c \<Rightarrow> if attemptsOf c \<ge> MFA_CHALLENGE_MAX_ATTEMPTS then None else Some c))"

definition acquireCodeChallengeVerification :: "challenge_key \<Rightarrow> string \<Rightarrow> int \<Rightarrow> challenge_store \<Rightarrow>
    auth_challenge option \<times> challenge_store" where
  "acquireCodeChallengeVerification k lockToken now vk =
     (if \<not> isValidOpaqueToken (snd k) then (None, vk)
      else
        let (locked, vk') = lockVerification k lockToken now vk in
        if \<not> locked then (None, vk)
        else (case readLocked k now vk' of
            None \<Rightarrow> (None, releaseCodeChallengeVerification k lockToken now vk')
          | Some c \<Rightarrow> (Some c, vk')))"

datatype script_reply = NotLocked | NoChallenge | Counted int | TooMany int | Taken stored

definition consumeScript :: "challenge_key \<Rightarrow> string \<Rightarrow> int \<Rightarrow> challenge_store \<Rightarrow> script_reply \<times> challenge_store" where
  "consumeScript k lockToken now vk =
     (if getKey now (vk_locks vk) k \<noteq> Some lockToken then (NotLocked, vk)
      else (case getKey now (vk_challenges vk) k of
          None \<Rightarrow> (NoChallenge, vk\<lparr>vk_locks := delKey k (vk_locks vk)\<rparr>)
        | Some v \<Rightarrow> (Taken v, vk\<lparr>vk_challenges := delKey k (vk_challenges vk), vk_locks := delKey k (vk_locks vk)\<rparr>)))"

definition consumeCodeChallengeVerification :: "challenge_key \<Rightarrow> string \<Rightarrow> int \<Rightarrow> challenge_store \<Rightarrow>
    (challenge_error + auth_challenge option) \<times> challenge_store" where
  "consumeCodeChallengeVerification k lockToken now vk =
     (case consumeScript k lockToken now vk of
        (Taken v, vk') \<Rightarrow> (case parseChallenge now (fst k) v of None \<Rightarrow> Inl ChallengeState | Some c \<Rightarrow> Inr (Some c), vk')
      | (_, vk') \<Rightarrow> (Inr None, vk'))"

text \<open>
  The script that counts a wrong code. \<open>recode\<close> is what decoding and encoding a challenge with Lua's JSON library
  makes of its text.
\<close>

definition countAttempt :: "(auth_challenge \<Rightarrow> stored) \<Rightarrow> stored \<Rightarrow> stored" where
  "countAttempt recode v = (case v of Json c \<Rightarrow> recode (withAttempts (attemptsOf c + 1) c) | OtherJson n \<Rightarrow> OtherJson (n + 1))"

definition failScript :: "(auth_challenge \<Rightarrow> stored) \<Rightarrow> challenge_key \<Rightarrow> string \<Rightarrow> int \<Rightarrow> challenge_store \<Rightarrow>
    script_reply \<times> challenge_store" where
  "failScript recode k lockToken now vk =
     (if getKey now (vk_locks vk) k \<noteq> Some lockToken then (NotLocked, vk)
      else (case getKey now (vk_challenges vk) k of
          None \<Rightarrow> (NoChallenge, vk\<lparr>vk_locks := delKey k (vk_locks vk)\<rparr>)
        | Some v \<Rightarrow>
            let ttl = pttl now (vk_challenges vk) k;
                gone = vk\<lparr>vk_challenges := delKey k (vk_challenges vk), vk_locks := delKey k (vk_locks vk)\<rparr>;
                attempts = storedAttempts v + 1
            in if ttl \<le> 0 then (NoChallenge, gone)
               else if attempts \<ge> MFA_CHALLENGE_MAX_ATTEMPTS then (TooMany attempts, gone)
               else (Counted attempts, vk\<lparr>vk_challenges := (vk_challenges vk)(k \<mapsto> (countAttempt recode v, now + ttl)),
                      vk_locks := delKey k (vk_locks vk)\<rparr>)))"

datatype code_failure = CodeExpired | CodeInvalid | CodeLocked

definition failCodeChallengeVerification :: "(auth_challenge \<Rightarrow> stored) \<Rightarrow> challenge_key \<Rightarrow> string \<Rightarrow> int \<Rightarrow>
    challenge_store \<Rightarrow> code_failure \<times> challenge_store" where
  "failCodeChallengeVerification recode k lockToken now vk =
     (case failScript recode k lockToken now vk of
        (Counted n, vk') \<Rightarrow> (CodeInvalid, vk')
      | (TooMany n, vk') \<Rightarrow> (CodeLocked, vk')
      | (_, vk') \<Rightarrow> (CodeExpired, vk'))"

end
