(* ===== verification/FactorServices.thy ===== *)
theory FactorServices
  imports CredentialServices AuthChallenges
begin

text \<open>
  The transactions of second factors and external logins: \<^verbatim>\<open>web/src/server/Auth/TwoFactor\<close>,
  \<^verbatim>\<open>web/src/server/Auth/Passkey/passkey.service.ts\<close> and, in \<^verbatim>\<open>web/src/server/Auth/Oidc\<close>, the recheck of an
  external identity and the login with one. The libraries for one-time codes and passkeys have verified their input
  before: the counter a code matched and the data of a verified passkey are arguments here. What a request checks
  before its transaction and again in it is read from the same tables.
\<close>

section \<open>The session of a request\<close>

definition requireActiveSessionInTransaction :: "current_session \<Rightarrow> int \<Rightarrow> identity_db \<Rightarrow> auth_error + unit" where
  "requireActiveSessionInTransaction session now db =
     (case find (\<lambda>s. se_id s = cs_id session \<and> se_userId s = au_id (cs_user session)) (id_sessions db) of
        None \<Rightarrow> Inl AuthenticationRequired
      | Some s \<Rightarrow> guardR (\<not> se_expiresAt s \<le> now) AuthenticationRequired)"

definition requireSessionPermission :: "current_session \<Rightarrow> permission_key \<Rightarrow> auth_error + unit" where
  "requireSessionPermission session permission = guardR (contains (au_permissions (cs_user session)) permission) PermissionDenied"

text \<open>The three checks every change of a user's own factors starts with.\<close>

definition requireOwnAccount :: "current_session \<Rightarrow> int \<Rightarrow> identity_db \<Rightarrow> auth_error + unit" where
  "requireOwnAccount session now db =
     andThen (lockActiveUserForAuthenticationInTransaction db (au_id (cs_user session))) (\<lambda>_.
     andThen (requireActiveSessionInTransaction session now db) (\<lambda>_.
     andThen (requirePermissionInTransaction db (au_id (cs_user session)) ACCOUNT_UPDATE) (\<lambda>_. Inr ())))"

section \<open>Codes\<close>

definition insertTotpFactor :: "identity_env \<Rightarrow> string \<Rightarrow> encrypted_secret \<Rightarrow> int \<Rightarrow> int \<Rightarrow> identity_db \<Rightarrow>
    bool \<times> identity_db" where
  "insertTotpFactor env userId secret counter now db =
     (if some_elem (\<lambda>f. tf_userId f = userId) (id_totpFactors db) then (False, db)
      else (True, usedId (db\<lparr>id_totpFactors := id_totpFactors db @ [\<lparr>tf_id = newId env db, tf_userId = userId,
        tf_secret = secret, tf_lastUsedCounter = counter, tf_enabledAt = now, tf_updatedAt = now\<rparr>]\<rparr>)))"

text \<open>The unique index of recovery codes is on the user and the hash.\<close>

definition insertRecoveryCode :: "identity_env \<Rightarrow> string \<Rightarrow> string \<Rightarrow> identity_db \<Rightarrow> auth_error + identity_db" where
  "insertRecoveryCode env userId codeHash db =
     (if some_elem (\<lambda>r. rc_userId r = userId \<and> rc_codeHash r = codeHash) (id_recoveryCodes db) then Inl UniqueViolation
      else Inr (usedId (db\<lparr>id_recoveryCodes := id_recoveryCodes db @
        [\<lparr>rc_id = newId env db, rc_userId = userId, rc_codeHash = codeHash, rc_usedAt = None\<rparr>]\<rparr>)))"

fun insertRecoveryCodeBatch :: "identity_env \<Rightarrow> string \<Rightarrow> string list \<Rightarrow> identity_db \<Rightarrow> auth_error + identity_db" where
  "insertRecoveryCodeBatch env userId [] db = Inr db"
| "insertRecoveryCodeBatch env userId (h # hs) db =
     andThen (insertRecoveryCode env userId h db) (insertRecoveryCodeBatch env userId hs)"

definition deleteRecoveryCodes :: "string \<Rightarrow> identity_db \<Rightarrow> identity_db" where
  "deleteRecoveryCodes userId db = db\<lparr>id_recoveryCodes := filter (\<lambda>r. rc_userId r \<noteq> userId) (id_recoveryCodes db)\<rparr>"

definition confirmTotpTransaction :: "identity_env \<Rightarrow> current_session \<Rightarrow> encrypted_secret \<Rightarrow> int \<Rightarrow> string list \<Rightarrow>
    int \<Rightarrow> identity_db \<Rightarrow> auth_error + bool \<times> identity_db" where
  "confirmTotpTransaction env session secret matchedCounter codeHashes now db =
     andThen (requireOwnAccount session now db) (\<lambda>_.
       let userId = au_id (cs_user session);
           (created, db1) = insertTotpFactor env userId secret matchedCounter now db
       in if \<not> created then Inr (False, db1)
          else andThen (insertRecoveryCodeBatch env userId codeHashes db1) (\<lambda>db2.
            Inr (True, revokeOtherUserSessionsInTransaction userId (cs_id session) db2)))"

definition regenerateRecoveryCodesService :: "identity_env \<Rightarrow> current_session \<Rightarrow> string list \<Rightarrow> int \<Rightarrow> identity_db \<Rightarrow>
    auth_error + bool \<times> identity_db" where
  "regenerateRecoveryCodesService env session codeHashes now db =
     andThen (requireActiveSessionInTransaction session now db) (\<lambda>_.
     andThen (requireSessionPermission session ACCOUNT_UPDATE) (\<lambda>_.
     andThen (requireOwnAccount session now db) (\<lambda>_.
       let userId = au_id (cs_user session) in
       if getLoginMfaFactorInTransaction db userId = None then Inr (False, db)
       else andThen (insertRecoveryCodeBatch env userId codeHashes (deleteRecoveryCodes userId db)) (\<lambda>db'.
         Inr (True, revokeOtherUserSessionsInTransaction userId (cs_id session) db')))))"

definition disableTotpService :: "current_session \<Rightarrow> int \<Rightarrow> identity_db \<Rightarrow> auth_error + bool \<times> identity_db" where
  "disableTotpService session now db =
     andThen (requireActiveSessionInTransaction session now db) (\<lambda>_.
     andThen (requireSessionPermission session ACCOUNT_UPDATE) (\<lambda>_.
     andThen (requireOwnAccount session now db) (\<lambda>_.
       let userId = au_id (cs_user session) in
       if length (filter (\<lambda>f. tf_userId f = userId) (id_totpFactors db)) \<noteq> 1 then
         Inr (False, db\<lparr>id_totpFactors := filter (\<lambda>f. tf_userId f \<noteq> userId) (id_totpFactors db)\<rparr>)
       else Inr (True, revokeOtherUserSessionsInTransaction userId (cs_id session) (deleteRecoveryCodes userId
         (db\<lparr>id_totpFactors := filter (\<lambda>f. tf_userId f \<noteq> userId) (id_totpFactors db)\<rparr>))))))"

section \<open>External identities\<close>

text \<open>
  An error other than \<^verbatim>\<open>user_not_active\<close> rolls back. That one is caught by the callers inside the transaction, so
  the roles synchronized before stay: the result says whether the identity may go on, with the tables so far.
\<close>

definition requireOidcAuthenticationInTransaction :: "identity_db \<Rightarrow> oidc_proof \<Rightarrow> string list option \<Rightarrow> int \<Rightarrow>
    auth_error + bool \<times> identity_db" where
  "requireOidcAuthenticationInTransaction db p groups now =
     (case find (\<lambda>e. pr_id e = op_providerId p) (os_providers (id_oidc db)) of
        None \<Rightarrow> Inr (False, db)
      | Some provider \<Rightarrow>
          if \<not> pr_enabled provider \<or> pr_revision provider \<noteq> op_providerRevision p \<or> pr_issuer provider \<noteq> op_issuer p \<or>
             \<not> isSafeInteger (op_expiresAt p) \<or> op_expiresAt p \<le> now \<or>
             \<not> some_elem (\<lambda>b. ob_subject b = op_subject p \<and> ob_userId b = op_userId p \<and>
                 ob_generation b = op_bindingGeneration p) (pr_bindings provider)
          then Inr (False, db)
          else (case lockActiveUserForAuthenticationInTransaction db (op_userId p) of
              Inl e \<Rightarrow> Inr (False, db)
            | Inr u \<Rightarrow>
                andThen (synchronizeOidcAccountInTransaction provider p groups db) (\<lambda>db'.
                  (case resolveActiveUserAccessInTransaction db' (op_userId p) of
                     None \<Rightarrow> Inr (False, db')
                   | Some access \<Rightarrow> Inr (contains (au_permissions access) APP_ACCESS, db')))))"

datatype oidc_login_result = OidcRejected | OidcSecondFactor string oidc_proof "string list option"
  | OidcLoggedIn current_session

definition authenticateOidcIdentityService :: "identity_env \<Rightarrow> oidc_identity \<Rightarrow> string \<Rightarrow> string list \<Rightarrow> int \<Rightarrow>
    identity_db \<Rightarrow> auth_error + oidc_login_result \<times> identity_db" where
  "authenticateOidcIdentityService env identity token expired now db =
     andThen (resolveOidcAccountInTransaction env identity now db) (\<lambda>(p, db1).
     andThen (requireOidcAuthenticationInTransaction db1 p (oi_groups identity) now) (\<lambda>(allowed, db2).
       if \<not> allowed then Inr (OidcRejected, db2)
       else (case getLoginMfaFactorInTransaction db2 (op_userId p) of
           Some factor \<Rightarrow> Inr (OidcSecondFactor (tf_id factor) p (oi_groups identity), db2)
         | None \<Rightarrow>
             andThen (createSessionInTransaction env \<lparr>sq_userId = op_userId p, sq_method = ByOidc,
                 sq_reauthenticatedAt = 0, sq_proof = Some p, sq_token = token, sq_expired = expired\<rparr> now db2)
               (\<lambda>(s, db3). Inr (OidcLoggedIn s, db3)))))"

section \<open>Completing a login with a second factor\<close>

datatype mfa_proof = TotpProof int | RecoveryProof string

datatype mfa_result = MfaChallengeExpired | MfaAuthenticationFailed | MfaLoggedIn current_session

definition factorProof :: "login_mfa \<Rightarrow> oidc_factor \<Rightarrow> oidc_proof" where
  "factorProof consumed f = \<lparr>op_providerId = of_providerId f, op_providerRevision = of_providerRevision f,
     op_bindingGeneration = (case of_bindingGeneration f of None \<Rightarrow> 0 | Some g \<Rightarrow> g), op_issuer = of_issuer f,
     op_subject = of_subject f, op_userId = lm_userId consumed, op_expiresAt = of_expiresAt f\<rparr>"

definition requireFirstFactor :: "identity_env \<Rightarrow> login_mfa \<Rightarrow> int \<Rightarrow> identity_db \<Rightarrow> auth_error + bool \<times> identity_db" where
  "requireFirstFactor env consumed now db =
     (case lm_firstFactor consumed of
        PasswordFactor fingerprint \<Rightarrow>
          andThen (requirePasswordAuthenticationInTransaction env db (lm_userId consumed) fingerprint) (\<lambda>_. Inr (True, db))
      | OidcFactor f \<Rightarrow> requireOidcAuthenticationInTransaction db (factorProof consumed f) (of_groups f) now)"

text \<open>
  The code is spent by an update that only matches an unused one: a counter above the last used, a recovery code
  without a time of use. The result says whether exactly one row was updated.
\<close>

definition spendCode :: "login_mfa \<Rightarrow> mfa_proof \<Rightarrow> int \<Rightarrow> identity_db \<Rightarrow> bool \<times> identity_db" where
  "spendCode consumed proof now db = (case proof of
     TotpProof counter \<Rightarrow>
       let hit = (\<lambda>f. tf_userId f = lm_userId consumed \<and> tf_id f = lm_factorId consumed \<and> tf_lastUsedCounter f < counter)
       in (length (filter hit (id_totpFactors db)) = 1,
           db\<lparr>id_totpFactors := map (\<lambda>f. if hit f then f\<lparr>tf_lastUsedCounter := counter, tf_updatedAt := now\<rparr> else f)
             (id_totpFactors db)\<rparr>)
   | RecoveryProof codeHash \<Rightarrow>
       let hit = (\<lambda>r. rc_userId r = lm_userId consumed \<and> rc_codeHash r = codeHash \<and> rc_usedAt r = None)
       in (length (filter hit (id_recoveryCodes db)) = 1,
           db\<lparr>id_recoveryCodes := map (\<lambda>r. if hit r then r\<lparr>rc_usedAt := Some now\<rparr> else r) (id_recoveryCodes db)\<rparr>))"

definition mfaTransaction :: "identity_env \<Rightarrow> login_mfa \<Rightarrow> mfa_proof \<Rightarrow> string \<Rightarrow> string list \<Rightarrow> int \<Rightarrow> identity_db \<Rightarrow>
    auth_error + mfa_result \<times> identity_db" where
  "mfaTransaction env consumed proof token expired now db =
     andThen (requireFirstFactor env consumed now db) (\<lambda>(allowed, db1).
       if \<not> allowed then Inr (MfaAuthenticationFailed, db1)
       else if map_option tf_id (getLoginMfaFactorInTransaction db1 (lm_userId consumed)) \<noteq> Some (lm_factorId consumed)
       then Inr (MfaAuthenticationFailed, db1)
       else
         let (spent, db2) = spendCode consumed proof now db1 in
         if \<not> spent then Inr (MfaAuthenticationFailed, db2)
         else andThen (createSessionInTransaction env \<lparr>sq_userId = lm_userId consumed,
             sq_method = (case proof of TotpProof c \<Rightarrow> ByTotp | RecoveryProof h \<Rightarrow> ByRecoveryCode),
             sq_reauthenticatedAt = now,
             sq_proof = (case lm_firstFactor consumed of PasswordFactor f \<Rightarrow> None | OidcFactor f \<Rightarrow> Some (factorProof consumed f)),
             sq_token = token, sq_expired = expired\<rparr> now db2) (\<lambda>(s, db3). Inr (MfaLoggedIn s, db3)))"

definition completeLoginMfaTransaction :: "identity_env \<Rightarrow> login_mfa \<Rightarrow> mfa_proof \<Rightarrow> string \<Rightarrow> string list \<Rightarrow> int \<Rightarrow>
    identity_db \<Rightarrow> auth_error + mfa_result \<times> identity_db" where
  "completeLoginMfaTransaction env consumed proof token expired now db =
     (case mfaTransaction env consumed proof token expired now db of
        Inl UserNotActive \<Rightarrow> Inr (MfaAuthenticationFailed, db)
      | result \<Rightarrow> result)"

section \<open>Passkeys\<close>

definition PASSKEY_NAME_MAX_LENGTH :: nat where "PASSKEY_NAME_MAX_LENGTH = 100"

definition normalizePasskeyName :: "string option \<Rightarrow> auth_error + string" where
  "normalizePasskeyName name =
     (let normalized = (case name of None \<Rightarrow> [] | Some n \<Rightarrow> trim n) in
      if normalized = [] then Inr ''Passkey''
      else if length normalized > PASSKEY_NAME_MAX_LENGTH then Inl InvalidAuthInput else Inr normalized)"

definition toStoredTransports :: "string list \<Rightarrow> string list" where
  "toStoredTransports value =
     filter (contains [''ble'', ''cable'', ''hybrid'', ''internal'', ''nfc'', ''smart-card'', ''usb'']) value"

definition requireLocalPasskeyAccountInTransaction :: "identity_db \<Rightarrow> string \<Rightarrow> auth_error + unit" where
  "requireLocalPasskeyAccountInTransaction db userId =
     (case findUser db userId of
        None \<Rightarrow> Inl AuthenticationRequired
      | Some u \<Rightarrow>
          if us_status u \<noteq> ActiveUser then Inl AuthenticationRequired
          else guardR (us_oidcProviderId u = None) PermissionDenied)"

text \<open>What the library found in a verified registration or authentication.\<close>

record registration_info =
  rg_credentialId :: string
  rg_publicKey :: string
  rg_counter :: int
  rg_backedUp :: bool
  rg_deviceType :: string
  rg_transports :: "string list"

record authentication_info =
  an_newCounter :: int
  an_backedUp :: bool
  an_deviceType :: string

definition requirePasskeyAccount :: "current_session \<Rightarrow> int \<Rightarrow> identity_db \<Rightarrow> auth_error + unit" where
  "requirePasskeyAccount session now db =
     andThen (requireLocalPasskeyAccountInTransaction db (au_id (cs_user session))) (\<lambda>_.
     andThen (requireActiveSessionInTransaction session now db) (\<lambda>_.
     andThen (requirePermissionInTransaction db (au_id (cs_user session)) ACCOUNT_UPDATE) (\<lambda>_. Inr ())))"

definition registerPasskeyTransaction :: "identity_env \<Rightarrow> current_session \<Rightarrow> string option \<Rightarrow> registration_info \<Rightarrow> int \<Rightarrow>
    identity_db \<Rightarrow> auth_error + bool \<times> identity_db" where
  "registerPasskeyTransaction env session name info now db =
     andThen (requirePasskeyAccount session now db) (\<lambda>_.
     andThen (normalizePasskeyName name) (\<lambda>passkeyName.
       if some_elem (\<lambda>k. pk_credentialId k = rg_credentialId info) (id_passkeys db) then Inr (False, db)
       else Inr (True, revokeOtherUserSessionsInTransaction (au_id (cs_user session)) (cs_id session)
         (usedId (db\<lparr>id_passkeys := id_passkeys db @ [\<lparr>pk_id = newId env db, pk_userId = au_id (cs_user session),
           pk_name = passkeyName, pk_credentialId = rg_credentialId info, pk_publicKey = rg_publicKey info,
           pk_counter = rg_counter info, pk_transports = toStoredTransports (rg_transports info),
           pk_deviceType = rg_deviceType info, pk_backedUp = rg_backedUp info, pk_lastUsedAt = None\<rparr>]\<rparr>)))))"

text \<open>The counter must still be the one the library verified against.\<close>

definition updateVerifiedPasskeyInTransaction :: "passkey_row \<Rightarrow> authentication_info \<Rightarrow> int \<Rightarrow> identity_db \<Rightarrow>
    bool \<times> identity_db" where
  "updateVerifiedPasskeyInTransaction passkey info now db =
     (let hit = (\<lambda>k. pk_id k = pk_id passkey \<and> pk_counter k = pk_counter passkey) in
      (length (filter hit (id_passkeys db)) = 1,
       db\<lparr>id_passkeys := map (\<lambda>k. if hit k then k\<lparr>pk_backedUp := an_backedUp info, pk_counter := an_newCounter info,
         pk_deviceType := an_deviceType info, pk_lastUsedAt := Some now\<rparr> else k) (id_passkeys db)\<rparr>))"

definition passkeyLoginTransaction :: "identity_env \<Rightarrow> passkey_row \<Rightarrow> authentication_info \<Rightarrow> string \<Rightarrow> string list \<Rightarrow> int \<Rightarrow>
    identity_db \<Rightarrow> auth_error + mfa_result \<times> identity_db" where
  "passkeyLoginTransaction env passkey info token expired now db =
     (let (updated, db1) = updateVerifiedPasskeyInTransaction passkey info now db in
      if \<not> updated then Inr (MfaAuthenticationFailed, db1)
      else (case createSessionInTransaction env \<lparr>sq_userId = pk_userId passkey, sq_method = ByPasskey,
            sq_reauthenticatedAt = now, sq_proof = None, sq_token = token, sq_expired = expired\<rparr> now db1 of
          Inl UserNotActive \<Rightarrow> Inr (MfaAuthenticationFailed, db)
        | Inl e \<Rightarrow> Inl e
        | Inr (s, db2) \<Rightarrow> Inr (MfaLoggedIn s, db2)))"

definition renamePasskeyService :: "current_session \<Rightarrow> string \<Rightarrow> string \<Rightarrow> int \<Rightarrow> identity_db \<Rightarrow>
    auth_error + bool \<times> identity_db" where
  "renamePasskeyService session name passkeyId now db =
     andThen (requireActiveSessionInTransaction session now db) (\<lambda>_.
     andThen (requirePermissionInTransaction db (au_id (cs_user session)) ACCOUNT_UPDATE) (\<lambda>_.
     andThen (normalizePasskeyName (Some name)) (\<lambda>passkeyName.
       let hit = (\<lambda>k. pk_id k = passkeyId \<and> pk_userId k = au_id (cs_user session)) in
       Inr (length (filter hit (id_passkeys db)) = 1,
         db\<lparr>id_passkeys := map (\<lambda>k. if hit k then k\<lparr>pk_name := passkeyName\<rparr> else k) (id_passkeys db)\<rparr>))))"

definition deletePasskeyService :: "current_session \<Rightarrow> string \<Rightarrow> int \<Rightarrow> identity_db \<Rightarrow> auth_error + bool \<times> identity_db" where
  "deletePasskeyService session passkeyId now db =
     andThen (requireActiveSessionInTransaction session now db) (\<lambda>_.
     andThen (requireSessionPermission session ACCOUNT_UPDATE) (\<lambda>_.
     andThen (requireActiveSessionInTransaction session now db) (\<lambda>_.
     andThen (requirePermissionInTransaction db (au_id (cs_user session)) ACCOUNT_UPDATE) (\<lambda>_.
       let hit = (\<lambda>k. pk_id k = passkeyId \<and> pk_userId k = au_id (cs_user session)) in
       Inr (length (filter hit (id_passkeys db)) = 1, db\<lparr>id_passkeys := filter (\<lambda>k. \<not> hit k) (id_passkeys db)\<rparr>)))))"

end
