(* ===== verification/IdentitySystem.thy ===== *)
theory IdentitySystem
  imports FactorServices
begin

text \<open>
  The account tables as a state machine: one step per transaction of the services, in any order and by any
  actor, with any session read earlier. The settings of identity providers change in any way an active user
  could store. The invariant relates the tables (keys, references, the flag of built-in
  roles) and says that an initialized installation has an active owner and that external accounts are no owners.
\<close>

section \<open>Steps\<close>

datatype identity_event = RegistryEnsured | OwnerSetUp | Administered string | InviteAccepted | ResetIssued
  | ResetConsumed | SelfService string | FactorsReplaced string | PasskeyChanged string | SessionChanged | ProviderDecided
  | SettingsChanged

inductive identityStep :: "identity_env \<Rightarrow> identity_db \<Rightarrow> identity_event \<Rightarrow> identity_db \<Rightarrow> bool"
  for env :: identity_env where
  registry: "identityStep env db RegistryEnsured (ensureAuthorizationRegistryInTransaction env now db)"
| setUp: "setupFirstOwnerService env input now db = Inr (result, db') \<Longrightarrow> identityStep env db OwnerSetUp db'"
| createRole: "createRoleService env (Some s) roleInput now db = Inr (r, db') \<Longrightarrow>
    identityStep env db (Administered (au_id (cs_user s))) db'"
| updateRole: "updateRoleService (Some s) roleUpdate now db = Inr db' \<Longrightarrow>
    identityStep env db (Administered (au_id (cs_user s))) db'"
| deleteRole: "deleteRoleService (Some s) roleId db = Inr db' \<Longrightarrow>
    identityStep env db (Administered (au_id (cs_user s))) db'"
| updateUser: "updateUserService env (Some s) userUpdate now db = Inr db' \<Longrightarrow>
    identityStep env db (Administered (au_id (cs_user s))) db'"
| disableUser: "disableUserService (Some s) userId now db = Inr db' \<Longrightarrow>
    identityStep env db (Administered (au_id (cs_user s))) db'"
| enableUser: "enableUserService (Some s) userId now db = Inr db' \<Longrightarrow>
    identityStep env db (Administered (au_id (cs_user s))) db'"
| invite: "issueInviteService env (Some s) inviteInput now db = Inr (userId, db') \<Longrightarrow>
    identityStep env db (Administered (au_id (cs_user s))) db'"
| acceptInvite: "acceptInviteService env acceptInput now db = Inr (consumed, db') \<Longrightarrow>
    identityStep env db InviteAccepted db'"
| issueReset: "issuePasswordResetService env email token now db = Inr (issued, db') \<Longrightarrow>
    identityStep env db ResetIssued db'"
| consumeReset: "consumePasswordResetService env token password salt now db = Inr (consumed, db') \<Longrightarrow>
    identityStep env db ResetConsumed db'"
| changePassword: "changeCurrentPasswordService env (Some s) password salt now db = Inr db' \<Longrightarrow>
    identityStep env db (SelfService (au_id (cs_user s))) db'"
| profileImage: "updateCurrentProfileImageService (Some s) now db = Inr db' \<Longrightarrow>
    identityStep env db (SelfService (au_id (cs_user s))) db'"
| login: "loginService env loginInput earlier now db = Inr (loginResult, db') \<Longrightarrow> identityStep env db SessionChanged db'"
| createSession: "createSessionInTransaction env sq now db = Inr (created, db') \<Longrightarrow> identityStep env db SessionChanged db'"
| readSession: "identityStep env db SessionChanged (snd (getSessionByTokenService env token now db))"
| revokeSession: "identityStep env db SessionChanged (snd (revokeSessionByTokenService env token db))"
| revokeOthers: "identityStep env db SessionChanged (revokeOtherUserSessionsInTransaction userId sessionId db)"
| synchronize: "provider \<in> set (os_providers (id_oidc db)) \<Longrightarrow>
    synchronizeOidcAccountInTransaction provider p groups db = Inr db' \<Longrightarrow> identityStep env db ProviderDecided db'"
| resolveAccount: "resolveOidcAccountInTransaction env identity now db = Inr (p, db') \<Longrightarrow>
    identityStep env db ProviderDecided db'"
| oidcSettings: "resolveActiveUserAccessInTransaction db actor = Some access \<Longrightarrow> storableOidcSettings settings \<Longrightarrow>
    identityStep env db SettingsChanged (db\<lparr>id_oidc := settings\<rparr>)"
| confirmTotp: "confirmTotpTransaction env own secret counter codeHashes now db = Inr (created, db') \<Longrightarrow>
    identityStep env db (FactorsReplaced (au_id (cs_user own))) db'"
| regenerateCodes: "regenerateRecoveryCodesService env own codeHashes now db = Inr (changed, db') \<Longrightarrow>
    identityStep env db (FactorsReplaced (au_id (cs_user own))) db'"
| disableTotp: "disableTotpService own now db = Inr (changed, db') \<Longrightarrow>
    identityStep env db (FactorsReplaced (au_id (cs_user own))) db'"
| completeMfa: "completeLoginMfaTransaction env consumedChallenge mfaProof token expired now db = Inr (mfaResult, db') \<Longrightarrow>
    identityStep env db SessionChanged db'"
| oidcLogin: "authenticateOidcIdentityService env identity token expired now db = Inr (oidcResult, db') \<Longrightarrow>
    identityStep env db ProviderDecided db'"
| registerPasskey: "registerPasskeyTransaction env own name registration now db = Inr (created, db') \<Longrightarrow>
    identityStep env db (PasskeyChanged (au_id (cs_user own))) db'"
| passkeyLogin: "passkeyLoginTransaction env passkey authentication token expired now db = Inr (mfaResult, db') \<Longrightarrow>
    identityStep env db SessionChanged db'"
| renamePasskey: "renamePasskeyService own passkeyName passkeyId now db = Inr (changed, db') \<Longrightarrow>
    identityStep env db (PasskeyChanged (au_id (cs_user own))) db'"
| deletePasskey: "deletePasskeyService own passkeyId now db = Inr (changed, db') \<Longrightarrow>
    identityStep env db (PasskeyChanged (au_id (cs_user own))) db'"

definition freshInstallation :: "identity_db \<Rightarrow> bool" where
  "freshInstallation db \<longleftrightarrow> id_users db = [] \<and> id_roles db = [] \<and> id_permissions db = [] \<and> id_userRoles db = [] \<and>
     id_rolePermissions db = [] \<and> id_sessions db = [] \<and> id_resetTokens db = [] \<and> id_invites db = [] \<and> id_totpFactors db = [] \<and> id_recoveryCodes db = [] \<and> id_passkeys db = [] \<and>
     os_providers (id_oidc db) = []"

section \<open>The invariant\<close>

text \<open>The columns the access rules depend on.\<close>

definition accounts :: "identity_db \<Rightarrow> (string \<times> user_status \<times> string option) list" where
  "accounts db = map (\<lambda>u. (us_id u, us_status u, us_oidcProviderId u)) (id_users db)"

definition roleTable :: "identity_db \<Rightarrow> (string \<times> string \<times> bool) list" where
  "roleTable db = map (\<lambda>r. (ro_id r, ro_key r, ro_isSystem r)) (id_roles db)"

definition ownerId :: "identity_db \<Rightarrow> string \<Rightarrow> bool" where
  "ownerId db userId \<longleftrightarrow> (\<exists>roleId flag. (userId, roleId) \<in> set (id_userRoles db) \<and> (roleId, OWNER, flag) \<in> set (roleTable db))"

definition activeOwnerIds :: "identity_db \<Rightarrow> string set" where
  "activeOwnerIds db = {userId. ownerId db userId \<and> (\<exists>provider. (userId, ActiveUser, provider) \<in> set (accounts db))}"

definition idsBelow :: "identity_env \<Rightarrow> nat \<Rightarrow> string list \<Rightarrow> bool" where
  "idsBelow env n ids \<longleftrightarrow> set ids \<subseteq> ie_rowId env ` {..<n}"

definition cleanKey :: "string \<Rightarrow> bool" where
  "cleanKey k \<longleftrightarrow> trim k = k \<and> k \<noteq> []"

definition keysInv :: "identity_env \<Rightarrow> identity_db \<Rightarrow> bool" where
  "keysInv env db \<longleftrightarrow>
     idsBelow env (id_rows db) (map fst (accounts db)) \<and> distinct (map fst (accounts db)) \<and>
     idsBelow env (id_rows db) (map fst (roleTable db)) \<and> distinct (map fst (roleTable db)) \<and>
     distinct (map (fst \<circ> snd) (roleTable db)) \<and>
     (\<forall>(i, k, flag) \<in> set (roleTable db). cleanKey k \<and> (isSystemKey k \<longrightarrow> flag)) \<and>
     idsBelow env (id_rows db) (map pe_id (id_permissions db)) \<and> distinct (map pe_id (id_permissions db)) \<and>
     (\<forall>p \<in> set (id_permissions db). pe_key p \<in> set PERMISSION_REGISTRY) \<and>
     distinct (id_userRoles db) \<and>
     (\<forall>(u, r) \<in> set (id_userRoles db). u \<in> fst ` set (accounts db) \<and> r \<in> fst ` set (roleTable db))"

definition ownersInv :: "identity_db \<Rightarrow> bool" where
  "ownersInv db \<longleftrightarrow> (accounts db \<noteq> [] \<longrightarrow> activeOwnerIds db \<noteq> {}) \<and>
     (accounts db = [] \<longrightarrow> os_providers (id_oidc db) = []) \<and>
     (\<forall>(u, status, provider) \<in> set (accounts db). provider \<noteq> None \<longrightarrow> \<not> ownerId db u)"

definition identityInv :: "identity_env \<Rightarrow> identity_db \<Rightarrow> bool" where
  "identityInv env db \<longleftrightarrow> keysInv env db \<and> ownersInv db"

lemmas inv_defs = identityInv_def keysInv_def ownersInv_def activeOwnerIds_def ownerId_def

text \<open>Steps that leave these columns alone keep the invariant.\<close>

definition sameAccess :: "identity_db \<Rightarrow> identity_db \<Rightarrow> bool" where
  "sameAccess db db' \<longleftrightarrow> accounts db' = accounts db \<and> roleTable db' = roleTable db \<and>
     id_permissions db' = id_permissions db \<and> id_userRoles db' = id_userRoles db \<and>
     id_rolePermissions db' = id_rolePermissions db \<and> id_rows db \<le> id_rows db' \<and>
     (accounts db = [] \<longrightarrow> id_oidc db' = id_oidc db)"

lemma sameAccess_refl [simp]: "sameAccess db db"
  by (simp add: sameAccess_def)

lemma idsBelow_mono: "idsBelow env n ids \<Longrightarrow> n \<le> m \<Longrightarrow> idsBelow env m ids"
  by (fastforce simp: idsBelow_def)

lemma sameAccess_inv: "sameAccess db db' \<Longrightarrow> identityInv env db \<Longrightarrow> identityInv env db'"
  by (auto simp: sameAccess_def inv_defs intro: idsBelow_mono)

section \<open>Reading the tables\<close>

lemma set_getUserRoleKeys:
  "set (getUserRoleKeysInTransaction db u) =
     {k. \<exists>r flag. (u, r) \<in> set (id_userRoles db) \<and> (r, k, flag) \<in> set (roleTable db)}"
  by (force simp: getUserRoleKeysInTransaction_def userRoleIds_def roleKeysOf_def roleTable_def)

lemma owner_iff: "OWNER \<in> set (getUserRoleKeysInTransaction db u) \<longleftrightarrow> ownerId db u"
  by (auto simp: set_getUserRoleKeys ownerId_def)

lemma hasOwnerRole_iff [simp]: "hasOwnerRole ks \<longleftrightarrow> OWNER \<in> set ks"
  by (simp add: hasOwnerRole_def)

lemma set_userRoleIds: "set (userRoleIds db u) = {r. (u, r) \<in> set (id_userRoles db)}"
  by (force simp: userRoleIds_def)

lemma set_rolePermissionKeys:
  "set (rolePermissionKeys db r) = {pe_key p | p. p \<in> set (id_permissions db) \<and> (r, pe_id p) \<in> set (id_rolePermissions db)}"
  by (force simp: rolePermissionKeys_def permissionKeysOf_def)

lemma trim_registered: "k \<in> set PERMISSION_REGISTRY \<Longrightarrow> trim k = k \<and> k \<noteq> []"
  by (simp add: PERMISSION_REGISTRY_def) (elim disjE; simp add: trim_def isSpace_def)

lemma set_normalizeKeys: "set (normalizeKeys ks) = {trim k | k. k \<in> set ks \<and> trim k \<noteq> []}"
  by (auto simp: normalizeKeys_def)

lemma registered_iff [simp]: "isRegisteredPermissionKey k \<longleftrightarrow> k \<in> set PERMISSION_REGISTRY"
  by (simp add: isRegisteredPermissionKey_def)

text \<open>The permissions of a user through the roles held.\<close>

definition grants :: "identity_db \<Rightarrow> string \<Rightarrow> permission_key set" where
  "grants db u = {pe_key p | p r. (u, r) \<in> set (id_userRoles db) \<and> (r, pe_id p) \<in> set (id_rolePermissions db) \<and>
     p \<in> set (id_permissions db)}"

definition powers :: "identity_db \<Rightarrow> string \<Rightarrow> permission_key set" where
  "powers db u = (if ownerId db u then set PERMISSION_REGISTRY else grants db u)"

lemma grants_registered: "keysInv env db \<Longrightarrow> grants db u \<subseteq> set PERMISSION_REGISTRY"
  by (auto simp: keysInv_def grants_def)

lemma set_getUserPermissionKeys:
  assumes "keysInv env db"
  shows "set (getUserPermissionKeysInTransaction db u) = powers db u"
proof (cases "ownerId db u")
  case True
  then show ?thesis by (simp add: getUserPermissionKeysInTransaction_def owner_iff powers_def)
next
  case False
  have keys: "set (concat (map (rolePermissionKeys db) (userRoleIds db u))) = grants db u"
    by (auto simp: set_rolePermissionKeys set_userRoleIds grants_def)
  have "trim k = k \<and> k \<noteq> []" if "k \<in> grants db u" for k
    using that grants_registered [OF assms] trim_registered by blast
  then have "set (normalizeKeys (concat (map (rolePermissionKeys db) (userRoleIds db u)))) = grants db u"
    unfolding set_normalizeKeys keys by force
  with False grants_registered [OF assms, of u] show ?thesis
    by (auto simp: getUserPermissionKeysInTransaction_def owner_iff powers_def)
qed

lemma findUser_Some: "findUser db i = Some u \<Longrightarrow> u \<in> set (id_users db) \<and> us_id u = i"
  by (auto simp: findUser_def find_Some_iff)

lemma findUser_account: "findUser db i = Some u \<Longrightarrow> (i, us_status u, us_oidcProviderId u) \<in> set (accounts db)"
  using findUser_Some [of db i u] by (auto simp: accounts_def)

lemma requirePermission_Inr:
  assumes "requirePermissionInTransaction db i k = Inr a"
  shows "au_id a = i \<and> au_roles a = getUserRoleKeysInTransaction db i \<and>
    au_permissions a = getUserPermissionKeysInTransaction db i \<and> k \<in> set (au_permissions a)"
  using assms findUser_Some [of db i]
  by (auto simp: requirePermissionInTransaction_def resolveActiveUserAccessInTransaction_def split: option.splits if_splits)

lemma requirePermissionService_Inr:
  "requirePermissionService (Some s) k = Inr a \<longleftrightarrow> a = cs_user s \<and> k \<in> set (au_permissions (cs_user s))"
  by (auto simp: requirePermissionService_def)

end
