(* ===== verification/IdentityKeeps.thy ===== *)
theory IdentityKeeps
  imports IdentitySystem
begin

text \<open>What each transaction does to the columns of access, and that the invariant survives it.\<close>

section \<open>Writes that leave access alone\<close>

lemma accounts_updateUser:
  "(\<And>u. us_id (f u) = us_id u \<and> us_status (f u) = us_status u \<and> us_oidcProviderId (f u) = us_oidcProviderId u) \<Longrightarrow>
    accounts (updateUser i f db) = accounts db"
  by (simp add: accounts_def updateUser_def comp_def cong: map_cong)

lemma updateUser_tables [simp]:
  "id_roles (updateUser i f db) = id_roles db" "id_permissions (updateUser i f db) = id_permissions db"
  "id_userRoles (updateUser i f db) = id_userRoles db" "id_rolePermissions (updateUser i f db) = id_rolePermissions db"
  "id_rows (updateUser i f db) = id_rows db" "id_sessions (updateUser i f db) = id_sessions db"
  "id_oidc (updateUser i f db) = id_oidc db" "id_resetTokens (updateUser i f db) = id_resetTokens db"
  "id_totpFactors (updateUser i f db) = id_totpFactors db" "id_recoveryCodes (updateUser i f db) = id_recoveryCodes db"
  by (simp_all add: updateUser_def)

lemma sameAccess_updateUser:
  assumes "\<And>u. us_id (f u) = us_id u \<and> us_status (f u) = us_status u \<and> us_oidcProviderId (f u) = us_oidcProviderId u"
  shows "sameAccess db (updateUser i f db)"
  using accounts_updateUser [of f i db] assms by (simp add: sameAccess_def roleTable_def)

lemma sameAccess_trans: "sameAccess a b \<Longrightarrow> sameAccess b c \<Longrightarrow> sameAccess a c"
  by (simp add: sameAccess_def)

lemma sameAccess_sessions [simp]:
  "sameAccess db (revokeAllUserSessionsInTransaction u db)"
  "sameAccess db (revokeOtherUserSessionsInTransaction u i db)"
  "sameAccess db (pruneExpiredSessionsInTransaction chosen now db)"
  "sameAccess db (touchSession i now db)"
  "sameAccess db (deleteUserTokens u db)"
  "sameAccess db (usedId db)"
  "sameAccess db (db\<lparr>id_sessions := ss\<rparr>)" "sameAccess db (db\<lparr>id_resetTokens := rs\<rparr>)" "sameAccess db (db\<lparr>id_invites := is\<rparr>)"
  "sameAccess db (db\<lparr>id_totpFactors := fs\<rparr>)" "accounts db \<noteq> [] \<Longrightarrow> sameAccess db (db\<lparr>id_oidc := settings\<rparr>)"
  by (simp_all add: sameAccess_def accounts_def roleTable_def revokeAllUserSessionsInTransaction_def
    revokeOtherUserSessionsInTransaction_def pruneExpiredSessionsInTransaction_def touchSession_def deleteUserTokens_def usedId_def)

lemma sameAccess_sessions_trans [intro]:
  "sameAccess a b \<Longrightarrow> sameAccess a (revokeAllUserSessionsInTransaction u b)"
  "sameAccess a b \<Longrightarrow> sameAccess a (revokeOtherUserSessionsInTransaction u i b)"
  "sameAccess a b \<Longrightarrow> sameAccess a (pruneExpiredSessionsInTransaction chosen now b)"
  "sameAccess a b \<Longrightarrow> sameAccess a (deleteUserTokens u b)"
  "sameAccess a b \<Longrightarrow> sameAccess a (usedId b)"
  "sameAccess a b \<Longrightarrow> sameAccess a (b\<lparr>id_invites := is\<rparr>)"
  by (blast intro: sameAccess_trans sameAccess_sessions)+

lemma sameAccess_insert:
  "insertSession env s db = Inr db' \<Longrightarrow> sameAccess db db'"
  "insertInvite env u a h t db = Inr db' \<Longrightarrow> sameAccess db db'"
  "insertReset env u h t db = Inr db' \<Longrightarrow> sameAccess db db'"
  by (auto simp: insertSession_def insertInvite_def insertReset_def Let_def usedId_def sameAccess_def accounts_def roleTable_def
    split: if_splits)

lemma createSession_Inr:
  assumes "createSessionInTransaction env sq now db = Inr (s, db')"
  obtains u access p h db1 where
    "hashOpaqueToken env (sq_token sq) = Inr h" "preparedProof env sq now = Inr p"
    "findUser db (sq_userId sq) = Some u" "us_status u = ActiveUser"
    "resolveActiveUserAccessInTransaction db (sq_userId sq) = Some access" "APP_ACCESS \<in> set (au_permissions access)"
    "proofHolds env db p (sq_userId sq) (us_oidcProviderId u) (au_roles access) now"
    "insertSession env \<lparr>se_id = newId env db, se_userId = sq_userId sq, se_tokenHash = h, se_oidcProof = p, se_lastSeenAt = now,
       se_reauthenticatedAt = sq_reauthenticatedAt sq, se_expiresAt = sessionExpiry p now\<rparr> db = Inr db1"
    "db' = pruneExpiredSessionsInTransaction (sq_expired sq) now db1"
    "s = \<lparr>cs_id = newId env db, cs_expiresAt = sessionExpiry p now, cs_reauthenticatedAt = sq_reauthenticatedAt sq, cs_user = access\<rparr>"
  using assms that
  by (cases "findUser db (sq_userId sq)"; cases "resolveActiveUserAccessInTransaction db (sq_userId sq)")
    (auto simp: createSessionInTransaction_def andThen_Inr_iff Let_def split: if_splits)

lemma sameAccess_createSession:
  "createSessionInTransaction env sq now db = Inr (s, db') \<Longrightarrow> sameAccess db db'"
  by (erule createSession_Inr) (auto dest: sameAccess_insert(1))

lemma sameAccess_login:
  "loginService env input earlier now db = Inr (result, db') \<Longrightarrow> sameAccess db db'"
  by (auto simp: loginService_def loginTransaction_def andThen_Inr_iff split: option.splits if_splits prod.splits sum.splits auth_error.splits
    dest: sameAccess_createSession)

lemma consumeReset_cases:
  assumes "consumePasswordResetService env token password salt now db = Inr (consumed, db')"
  obtains (refused) "consumed = InvalidOrExpiredToken" "db' = db"
  | (consumed) h t u hash where "hashOpaqueToken env token = Inr h" "find (openReset h now) (id_resetTokens db) = Some t"
      "findUser db (re_userId t) = Some u" "us_status u = ActiveUser" "us_oidcProviderId u = None" "consumed = Consumed (us_id u)"
      "db' = revokeAllUserSessionsInTransaction (us_id u)
         (updateUser (us_id u) (\<lambda>u. u\<lparr>us_passwordHash := Some hash, us_updatedAt := now\<rparr>)
           (db\<lparr>id_resetTokens := map (\<lambda>t. if re_userId t = us_id u \<and> re_consumedAt t = None
             then t\<lparr>re_consumedAt := Some now\<rparr> else t) (id_resetTokens db)\<rparr>))"
proof (cases "hashOpaqueToken env token")
  case (Inl e)
  with assms that(1) show thesis by (simp add: consumePasswordResetService_def)
next
  case (Inr h)
  show thesis
  proof (cases "find (openReset h now) (id_resetTokens db)")
    case None
    with Inr assms that(1) show thesis by (simp add: consumePasswordResetService_def)
  next
    case (Some t)
    note t = Some
    show thesis
    proof (cases "findUser db (re_userId t)")
      case None
      with Inr t assms that(1) show thesis by (simp add: consumePasswordResetService_def)
    next
      case (Some u)
      show thesis
      proof (cases "us_status u = ActiveUser \<and> us_oidcProviderId u = None")
        case False
        with Inr t Some assms that(1) show thesis by (simp add: consumePasswordResetService_def)
      next
        case True
        from assms obtain hash where "consumed = Consumed (us_id u) \<and>
          db' = revokeAllUserSessionsInTransaction (us_id u)
            (updateUser (us_id u) (\<lambda>u. u\<lparr>us_passwordHash := Some hash, us_updatedAt := now\<rparr>)
              (db\<lparr>id_resetTokens := map (\<lambda>t. if re_userId t = us_id u \<and> re_consumedAt t = None
                then t\<lparr>re_consumedAt := Some now\<rparr> else t) (id_resetTokens db)\<rparr>))"
          by (simp add: consumePasswordResetService_def Inr t Some True andThen_Inr_iff) blast
        with that(2) [OF Inr t Some] True show thesis by blast
      qed
    qed
  qed
qed

lemma issueReset_cases:
  assumes "issuePasswordResetService env email token now db = Inr (issued, db')"
  obtains (silent) "issued = None" "db' = db"
  | (issued) h u where "hashOpaqueToken env token = Inr h" "u \<in> set (id_users db)" "issued = Some (us_id u)"
      "insertReset env (us_id u) h now db = Inr db'"
proof (cases "normalizeEmail env email")
  case (Inl e)
  with assms that(1) show thesis by (simp add: issuePasswordResetService_def)
next
  case (Inr e)
  show thesis
  proof (cases "find (\<lambda>u. toLowerCase (us_email u) = e \<and> us_status u = ActiveUser \<and> us_oidcProviderId u = None) (id_users db)")
    case None
    with Inr assms that(1) show thesis by (auto simp: issuePasswordResetService_def andThen_Inr_iff)
  next
    case (Some u)
    then have "u \<in> set (id_users db)" by (auto simp: find_Some_iff)
    with Inr Some assms that(2) show thesis by (auto simp: issuePasswordResetService_def andThen_Inr_iff)
  qed
qed

lemma sameAccess_reset:
  "issuePasswordResetService env email token now db = Inr (issued, db') \<Longrightarrow> sameAccess db db'"
  "consumePasswordResetService env token password salt now db = Inr (consumed, db') \<Longrightarrow> sameAccess db db'"
  subgoal by (erule issueReset_cases) (auto dest: sameAccess_insert(3))
  subgoal by (erule consumeReset_cases)
    (auto simp: sameAccess_def revokeAllUserSessionsInTransaction_def accounts_def roleTable_def updateUser_def)
  done

lemma sameAccess_self:
  "changeCurrentPasswordService env session password salt now db = Inr db' \<Longrightarrow> sameAccess db db'"
  "updateCurrentProfileImageService session now db = Inr db' \<Longrightarrow> sameAccess db db'"
  by (auto simp: changeCurrentPasswordService_def updateCurrentProfileImageService_def andThen_Inr_iff Let_def
    sameAccess_def accounts_def roleTable_def updateUser_def revokeOtherUserSessionsInTransaction_def split: option.splits if_splits)

lemma sameAccess_readSession: "sameAccess db (snd (getSessionByTokenService env token now db))"
  by (auto simp: getSessionByTokenService_def split: sum.splits option.splits)

lemma sameAccess_revokeSession: "sameAccess db (snd (revokeSessionByTokenService env token db))"
  by (auto simp: revokeSessionByTokenService_def split: sum.splits)

section \<open>Role assignments\<close>

lemma loadRoles_Inr:
  assumes "loadRolesByKeysInTransaction db keys = Inr rs" "keysInv env db"
  shows "set rs = {r \<in> set (id_roles db). ro_key r \<in> set (normalizeKeys keys)}" "distinct (map ro_id rs)"
proof -
  have "distinct (map ro_id (id_roles db))" using assms(2) by (simp add: keysInv_def roleTable_def comp_def)
  then have d: "distinct (map ro_id (filter p (id_roles db)))" for p by (rule distinct_map_filter)
  with assms(1) show "set rs = {r \<in> set (id_roles db). ro_key r \<in> set (normalizeKeys keys)}" "distinct (map ro_id rs)"
    by (auto simp: loadRolesByKeysInTransaction_def Let_def split: if_splits)
qed

lemma assertRoleAssignment_Inr:
  assumes "assertRoleAssignmentAllowedInTransaction db actor rs = Inr x" "keysInv env db"
    "OWNER \<notin> set (au_roles actor)"
  shows "\<forall>r \<in> set rs. ro_key r \<noteq> OWNER \<and> set (rolePermissionKeys db (ro_id r)) \<subseteq> set (au_permissions actor)"
proof -
  have "set (rolePermissionKeys db i) \<subseteq> set PERMISSION_REGISTRY" for i
    using assms(2) by (auto simp: set_rolePermissionKeys keysInv_def)
  with assms(1,3) show ?thesis
    by (fastforce simp: assertRoleAssignmentAllowedInTransaction_def split: if_splits)
qed

lemma replaceUserRoles_tables [simp]:
  "accounts (replaceUserRolesInTransaction u rs db) = accounts db"
  "roleTable (replaceUserRolesInTransaction u rs db) = roleTable db"
  "id_roles (replaceUserRolesInTransaction u rs db) = id_roles db"
  "id_permissions (replaceUserRolesInTransaction u rs db) = id_permissions db"
  "id_rolePermissions (replaceUserRolesInTransaction u rs db) = id_rolePermissions db"
  "id_rows (replaceUserRolesInTransaction u rs db) = id_rows db"
  "id_users (replaceUserRolesInTransaction u rs db) = id_users db"
  "id_sessions (replaceUserRolesInTransaction u rs db) = id_sessions db"
  "id_oidc (replaceUserRolesInTransaction u rs db) = id_oidc db"
  "id_totpFactors (replaceUserRolesInTransaction u rs db) = id_totpFactors db"
  "id_recoveryCodes (replaceUserRolesInTransaction u rs db) = id_recoveryCodes db"
  by (simp_all add: replaceUserRolesInTransaction_def accounts_def roleTable_def)

lemma set_replaceUserRoles:
  "set (id_userRoles (replaceUserRolesInTransaction u rs db)) =
     {ur \<in> set (id_userRoles db). fst ur \<noteq> u} \<union> (\<lambda>r. (u, ro_id r)) ` set rs"
  by (auto simp: replaceUserRolesInTransaction_def)

lemma sameAccess_replace:
  "sameAccess a b \<Longrightarrow> sameAccess (replaceUserRolesInTransaction u rs a) (replaceUserRolesInTransaction u rs b)"
  by (simp add: sameAccess_def replaceUserRolesInTransaction_def accounts_def roleTable_def)

lemma role_in_table: "r \<in> set (id_roles db) \<Longrightarrow> (ro_id r, ro_key r, ro_isSystem r) \<in> set (roleTable db)"
  by (force simp: roleTable_def)

lemma roleTable_unique:
  assumes "keysInv env db" "(i, k, f) \<in> set (roleTable db)" "(i, k', f') \<in> set (roleTable db)"
  shows "k' = k \<and> f' = f"
  using eq_key_imp_eq_value [of "roleTable db" i "(k, f)" "(k', f')"] assms by (simp add: keysInv_def)

lemma ownerId_replace:
  assumes "keysInv env db" "set rs \<subseteq> set (id_roles db)"
  shows "ownerId (replaceUserRolesInTransaction u rs db) v \<longleftrightarrow>
    (if v = u then OWNER \<in> ro_key ` set rs else ownerId db v)"
proof (cases "v = u")
  case True
  have "(\<exists>r flag. r \<in> ro_id ` set rs \<and> (r, OWNER, flag) \<in> set (roleTable db)) \<longleftrightarrow> OWNER \<in> ro_key ` set rs"
  proof
    assume "\<exists>r flag. r \<in> ro_id ` set rs \<and> (r, OWNER, flag) \<in> set (roleTable db)"
    then obtain r flag where r: "r \<in> set rs" "(ro_id r, OWNER, flag) \<in> set (roleTable db)" by auto
    then have "(ro_id r, ro_key r, ro_isSystem r) \<in> set (roleTable db)" using assms(2) role_in_table by blast
    then have "ro_key r = OWNER" using roleTable_unique [OF assms(1) r(2)] by simp
    with r(1) show "OWNER \<in> ro_key ` set rs" by force
  next
    assume "OWNER \<in> ro_key ` set rs"
    then obtain r where r: "r \<in> set rs" "ro_key r = OWNER" by auto
    then have "(ro_id r, OWNER, ro_isSystem r) \<in> set (roleTable db)" using assms(2) role_in_table [of r db] by auto
    with r(1) show "\<exists>r flag. r \<in> ro_id ` set rs \<and> (r, OWNER, flag) \<in> set (roleTable db)" by blast
  qed
  with True show ?thesis by (auto simp: ownerId_def set_replaceUserRoles)
qed (auto simp: ownerId_def set_replaceUserRoles)

lemma grants_replace:
  "grants (replaceUserRolesInTransaction u rs db) v =
    (if v = u then (\<Union>r \<in> set rs. set (rolePermissionKeys db (ro_id r))) else grants db v)"
  by (auto simp: grants_def set_replaceUserRoles set_rolePermissionKeys)

lemma keysInv_replace:
  assumes "keysInv env db" "set rs \<subseteq> set (id_roles db)" "distinct (map ro_id rs)" "u \<in> fst ` set (accounts db)"
  shows "keysInv env (replaceUserRolesInTransaction u rs db)"
proof -
  have "distinct (map (\<lambda>r. (u, ro_id r)) rs)" using assms(3) by (simp add: distinct_map inj_on_def)
  then have "distinct (id_userRoles (replaceUserRolesInTransaction u rs db))"
    using assms(1) by (auto simp: replaceUserRolesInTransaction_def keysInv_def)
  moreover have "ro_id r \<in> fst ` set (roleTable db)" if "r \<in> set rs" for r
    using that assms(2) role_in_table by (metis fst_conv image_eqI subsetD)
  ultimately show ?thesis using assms(1,4) by (auto simp: keysInv_def set_replaceUserRoles)
qed

section \<open>The last active owner\<close>

lemma user_in_accounts: "u \<in> set (id_users db) \<Longrightarrow> (us_id u, us_status u, us_oidcProviderId u) \<in> set (accounts db)"
  by (auto simp: accounts_def)

lemma length_concat_le_filter:
  "(\<And>x. x \<in> set xs \<Longrightarrow> length (f x) \<le> (if p x then 1 else 0)) \<Longrightarrow> length (concat (map f xs)) \<le> length (filter p xs)"
  by (induction xs) (auto split: if_splits, fastforce+)

lemma length_filter_key_le:
  "distinct (map f xs) \<Longrightarrow> length (filter (\<lambda>x. f x = i) xs) \<le> 1"
  by (induction xs) (auto simp: filter_empty_conv image_iff)

lemma another_active_owner:
  assumes inv: "keysInv env db" and count: "countActiveOwnersInTransaction db > 1"
  shows "\<exists>v \<in> activeOwnerIds db. v \<noteq> u"
proof -
  define owners where "owners ur \<longleftrightarrow> OWNER \<in> set (roleKeysOf db (snd ur)) \<and> (\<exists>v \<in> set (id_users db). us_id v = fst ur \<and> us_status v = ActiveUser)"
    for ur :: "string \<times> string"
  have ids: "distinct (map us_id (id_users db))" "distinct (map ro_id (id_roles db))" "distinct (map ro_key (id_roles db))"
    "distinct (id_userRoles db)"
    using inv by (simp_all add: keysInv_def accounts_def roleTable_def comp_def)
  have role: "length (roleKeysOf db i) \<le> 1" for i
    using length_filter_key_le [OF ids(2)] by (simp add: roleKeysOf_def)
  have user: "length (filter (\<lambda>u. us_id u = i \<and> us_status u = ActiveUser) (id_users db)) \<le> 1" for i
    using length_filter_key_le [OF ids(1), of i] length_filter_le [of "\<lambda>u. us_status u = ActiveUser" "filter (\<lambda>u. us_id u = i) (id_users db)"]
    by (simp add: conj_commute)
  have "length (filter owners (id_userRoles db)) > 1"
  proof (rule less_le_trans [OF count], unfold countActiveOwnersInTransaction_def, rule length_concat_le_filter)
    fix ur
    show "length (concat (map (\<lambda>k. if k = OWNER then filter (\<lambda>u. us_id u = fst ur \<and> us_status u = ActiveUser) (id_users db) else [])
      (roleKeysOf db (snd ur)))) \<le> (if owners ur then 1 else 0)"
      using role [of "snd ur"] user [of "fst ur"]
      by (cases "roleKeysOf db (snd ur)") (auto simp: owners_def filter_empty_conv)
  qed
  then obtain x y zs where xy: "filter owners (id_userRoles db) = x # y # zs"
    by (cases "filter owners (id_userRoles db)"; cases "tl (filter owners (id_userRoles db))") auto
  then have "{x, y} \<subseteq> set (filter owners (id_userRoles db))" "x \<noteq> y"
    using distinct_filter [OF ids(4), of owners] by auto
  then have members: "{x, y} \<subseteq> {ur \<in> set (id_userRoles db). owners ur}" "x \<noteq> y" by auto
  have owner: "fst ur \<in> activeOwnerIds db" if "ur \<in> {x, y}" for ur
  proof -
    have ur: "ur \<in> set (id_userRoles db)" "owners ur" using that members(1) by auto
    then obtain r v where "r \<in> set (id_roles db)" "ro_id r = snd ur" "ro_key r = OWNER"
      "v \<in> set (id_users db)" "us_id v = fst ur" "us_status v = ActiveUser"
      by (auto simp: owners_def roleKeysOf_def)
    then have "(snd ur, OWNER, ro_isSystem r) \<in> set (roleTable db)" "(fst ur, ActiveUser, us_oidcProviderId v) \<in> set (accounts db)"
      using role_in_table [of r db] user_in_accounts [of v db] by simp_all
    moreover have "(fst ur, snd ur) \<in> set (id_userRoles db)" using ur(1) by simp
    ultimately show ?thesis unfolding activeOwnerIds_def ownerId_def by blast
  qed
  have "snd x = snd y"
  proof -
    have "owners x" "owners y" using members(1) by auto
    then obtain r q where "r \<in> set (id_roles db)" "ro_id r = snd x" "ro_key r = OWNER"
      "q \<in> set (id_roles db)" "ro_id q = snd y" "ro_key q = OWNER"
      by (auto simp: owners_def roleKeysOf_def)
    moreover from this have "r = q" using ids(3) by (metis distinct_map inj_onD)
    ultimately show ?thesis by simp
  qed
  then have "fst x \<noteq> fst y" using members(2) by (simp add: prod_eq_iff)
  then show ?thesis using owner [of x] owner [of y] by (cases "fst x = u") (metis insertI1 insertI2, metis insertI1)
qed

section \<open>A changed status\<close>

text \<open>Only the status of one user changes.\<close>

definition onlyStatus :: "string \<Rightarrow> identity_db \<Rightarrow> identity_db \<Rightarrow> bool" where
  "onlyStatus i db db' \<longleftrightarrow> map fst (accounts db') = map fst (accounts db) \<and>
     (\<forall>v s p. (v, s, p) \<in> set (accounts db') \<longrightarrow> (\<exists>s0. (v, s0, p) \<in> set (accounts db))) \<and>
     (\<forall>v s p. v \<noteq> i \<longrightarrow> (v, s, p) \<in> set (accounts db) \<longrightarrow> (v, s, p) \<in> set (accounts db')) \<and>
     roleTable db' = roleTable db \<and> id_permissions db' = id_permissions db \<and> id_userRoles db' = id_userRoles db \<and>
     id_rolePermissions db' = id_rolePermissions db \<and> id_rows db \<le> id_rows db' \<and> id_oidc db' = id_oidc db"

lemma onlyStatus_updateUser:
  assumes "\<And>u. us_id (f u) = us_id u \<and> us_oidcProviderId (f u) = us_oidcProviderId u"
  shows "onlyStatus i db (updateUser i f db)"
proof -
  have "map fst (accounts (updateUser i f db)) = map fst (accounts db)"
    using assms by (simp add: accounts_def updateUser_def)
  moreover have "\<exists>s0. (v, s0, p) \<in> set (accounts db)" if "(v, s, p) \<in> set (accounts (updateUser i f db))" for v s p
    using that assms by (force simp: accounts_def updateUser_def)
  moreover have "(v, s, p) \<in> set (accounts (updateUser i f db))" if "v \<noteq> i" "(v, s, p) \<in> set (accounts db)" for v s p
    using that by (force simp: accounts_def updateUser_def)
  ultimately show ?thesis by (simp add: onlyStatus_def roleTable_def)
qed

lemma onlyStatus_sameAccess: "onlyStatus i a b \<Longrightarrow> sameAccess b c \<Longrightarrow> id_oidc c = id_oidc b \<Longrightarrow> onlyStatus i a c"
  by (simp add: onlyStatus_def sameAccess_def)

lemma onlyStatus_inv:
  assumes inv: "identityInv env db" and only: "onlyStatus i db db'" and other: "accounts db \<noteq> [] \<Longrightarrow> \<exists>v \<in> activeOwnerIds db. v \<noteq> i"
  shows "identityInv env db'"
proof -
  note o = only [unfolded onlyStatus_def]
  have ids: "fst ` set (accounts db') = fst ` set (accounts db)" using o by (metis list.set_map)
  have "keysInv env db'" using inv o ids by (auto simp: identityInv_def keysInv_def intro: idsBelow_mono)
  moreover have owner: "ownerId db' v = ownerId db v" for v using o by (simp add: ownerId_def)
  moreover have "activeOwnerIds db' \<noteq> {}" if "accounts db' \<noteq> []"
  proof -
    have "accounts db \<noteq> []" using that o by auto
    then obtain v where "v \<in> activeOwnerIds db" "v \<noteq> i" using other by auto
    then obtain p where "(v, ActiveUser, p) \<in> set (accounts db)" "ownerId db v" by (auto simp: activeOwnerIds_def)
    moreover from this(1) have "(v, ActiveUser, p) \<in> set (accounts db')" using o \<open>v \<noteq> i\<close> by blast
    ultimately have "v \<in> activeOwnerIds db'" using owner by (auto simp: activeOwnerIds_def)
    then show ?thesis by auto
  qed
  moreover have "\<not> ownerId db' v" if "(v, s, p) \<in> set (accounts db')" "p \<noteq> None" for v s p
    using that o owner inv by (fastforce simp: identityInv_def ownersInv_def)
  moreover have "os_providers (id_oidc db') = []" if "accounts db' = []"
    using that o inv by (auto simp: identityInv_def ownersInv_def)
  ultimately show ?thesis by (auto simp: identityInv_def ownersInv_def)
qed

lemma account_unique:
  assumes "keysInv env db" "(i, s, p) \<in> set (accounts db)" "(i, s', p') \<in> set (accounts db)"
  shows "s' = s \<and> p' = p"
  using eq_key_imp_eq_value [of "accounts db" i "(s, p)" "(s', p')"] assms by (simp add: keysInv_def)

lemma inactive_other_owner:
  assumes "identityInv env db" "(i, s, p) \<in> set (accounts db)" "s \<noteq> ActiveUser"
  shows "\<exists>v \<in> activeOwnerIds db. v \<noteq> i"
proof -
  have "accounts db \<noteq> []" using assms(2) by auto
  then obtain v where "v \<in> activeOwnerIds db" using assms(1) by (auto simp: identityInv_def ownersInv_def)
  moreover have "i \<notin> activeOwnerIds db"
    using assms account_unique [of env db i s p ActiveUser] by (auto simp: activeOwnerIds_def identityInv_def)
  ultimately show ?thesis by auto
qed

section \<open>Fresh identifiers\<close>

lemma fresh_id: "inj (ie_rowId env) \<Longrightarrow> idsBelow env n ids \<Longrightarrow> ie_rowId env n \<notin> set ids"
  by (auto simp: idsBelow_def dest: injD)

lemma idsBelow_new: "idsBelow env n ids \<Longrightarrow> idsBelow env (Suc n) (ids @ [ie_rowId env n])"
  by (fastforce simp: idsBelow_def)

lemma newUser_inv:
  assumes "inj (ie_rowId env)" "keysInv env db" "accounts db' = accounts db @ [(newId env db, s, p)]"
    "roleTable db' = roleTable db" "id_permissions db' = id_permissions db" "id_userRoles db' = id_userRoles db"
    "id_rows db' = Suc (id_rows db)"
  shows "keysInv env db'" "newId env db \<notin> fst ` set (accounts db)" "\<And>v. ownerId db' v = ownerId db v"
    "\<not> ownerId db (newId env db)"
proof -
  have fresh: "newId env db \<notin> set (map fst (accounts db))"
    unfolding newId_def using assms(1,2) by (intro fresh_id) (auto simp: keysInv_def)
  then show "newId env db \<notin> fst ` set (accounts db)" by simp
  show "\<And>v. ownerId db' v = ownerId db v" using assms by (simp add: ownerId_def)
  show "\<not> ownerId db (newId env db)" using fresh assms(2) by (auto simp: ownerId_def keysInv_def)
  show "keysInv env db'"
    using assms fresh idsBelow_new [of env "id_rows db" "map fst (accounts db)"]
    by (auto simp: keysInv_def newId_def intro: idsBelow_mono)
qed

lemma insertUser_Inr:
  "insertUser env u db = Inr db' \<Longrightarrow> db' = usedId (db\<lparr>id_users := id_users db @ [u]\<rparr>)"
  by (simp add: insertUser_def split: if_splits)

lemma insertUser_tables:
  assumes "insertUser env u db = Inr db'"
  shows "accounts db' = accounts db @ [(us_id u, us_status u, us_oidcProviderId u)]" "roleTable db' = roleTable db"
    "id_permissions db' = id_permissions db" "id_userRoles db' = id_userRoles db" "id_rolePermissions db' = id_rolePermissions db"
    "id_rows db' = Suc (id_rows db)" "id_oidc db' = id_oidc db" "id_roles db' = id_roles db" "id_sessions db' = id_sessions db"
  using insertUser_Inr [OF assms] by (simp_all add: accounts_def roleTable_def usedId_def)

end
