(* ===== verification/IdentityEffects.thy ===== *)
theory IdentityEffects
  imports IdentityKeeps
begin

text \<open>The effect of each service on access, and that it keeps the invariant.\<close>

section \<open>Updating users\<close>

lemma optionally_Inr:
  "optionally f x = Inr y \<longleftrightarrow> (case x of None \<Rightarrow> y = None | Some v \<Rightarrow> \<exists>w. f v = Inr w \<and> y = Some w)"
  by (auto simp: optionally_def andThen_Inr_iff split: option.splits)

text \<open>What an accepted update was checked for; \<open>next\<close> roles are those stored afterwards.\<close>

lemma checkUserUpdate_Inr:
  assumes "checkUserUpdate db actor input email = Inr (selected, emailChanged)"
  obtains user a where
    "findUser db (uu_userId input) = Some user"
    "au_id a = actor" "au_roles a = getUserRoleKeysInTransaction db actor"
    "au_permissions a = getUserPermissionKeysInTransaction db actor"
    "case selected of None \<Rightarrow> True | Some rs \<Rightarrow> (\<exists>keys. uu_roleKeys input = Some keys \<and> loadRolesByKeysInTransaction db keys = Inr rs) \<and>
       assertRoleAssignmentAllowedInTransaction db a rs = Inr () \<and>
       (us_oidcProviderId user \<noteq> None \<longrightarrow> OWNER \<notin> ro_key ` set rs)"
    "let nextKeys = (case selected of None \<Rightarrow> getUserRoleKeysInTransaction db (us_id user) | Some rs \<Rightarrow> map ro_key rs) in
       (OWNER \<in> set (getUserRoleKeysInTransaction db (us_id user)) \<or> OWNER \<in> set nextKeys \<longrightarrow> OWNER \<in> set (au_roles a)) \<and>
       (us_status user = ActiveUser \<and> OWNER \<in> set (getUserRoleKeysInTransaction db (us_id user)) \<and> OWNER \<notin> set nextKeys \<longrightarrow>
          countActiveOwnersInTransaction db > 1) \<and>
       (emailChanged \<and> us_id user \<noteq> actor \<longrightarrow>
          (\<exists>roles. loadRolesByKeysInTransaction db (au_roles a @ getUserRoleKeysInTransaction db (us_id user) @
               (case uu_roleKeys input of None \<Rightarrow> [] | Some ks \<Rightarrow> ks)) = Inr roles \<and>
             assertRoleAssignmentAllowedInTransaction db a (filter (\<lambda>r. contains nextKeys (ro_key r)) roles) = Inr ()))"
    "selected = None \<longleftrightarrow> uu_roleKeys input = None"
    "emailChanged \<longleftrightarrow> (case email of None \<Rightarrow> False | Some e \<Rightarrow> e \<noteq> us_email user)"
proof -
  from assms obtain a0 where a0: "requirePermissionInTransaction db actor USERS_UPDATE = Inr a0"
    by (auto simp: checkUserUpdate_def andThen_Inr_iff)
  note actor = requirePermission_Inr [OF a0]
  from assms a0 obtain user where user: "findUser db (uu_userId input) = Some user"
    by (auto simp: checkUserUpdate_def split: option.splits)
  let ?current = "getUserRoleKeysInTransaction db (us_id user)"
  let ?changed = "case email of None \<Rightarrow> False | Some e \<Rightarrow> e \<noteq> us_email user"
  let ?keys = "au_roles a0 @ ?current @ (case uu_roleKeys input of None \<Rightarrow> [] | Some ks \<Rightarrow> ks)"
  let ?nextKeys = "case selected of None \<Rightarrow> ?current | Some rs \<Rightarrow> map ro_key rs"
  let ?start = "if ?changed \<and> us_id user \<noteq> actor
     then andThen (loadRecoveryRoles db a0 ?current (uu_roleKeys input)) (\<lambda>(roles, again). Inr (Some roles, again)) else Inr (None, a0)"
  obtain recovery a1 where start: "?start = Inr (recovery, a1)"
    using assms by (cases ?start) (auto simp: checkUserUpdate_def a0 user Let_def)
  have a1: "a1 = a0" and recovery: "?changed \<and> us_id user \<noteq> actor \<Longrightarrow>
      \<exists>roles. loadRolesByKeysInTransaction db ?keys = Inr roles \<and> recovery = Some roles"
    using start a0 actor by (auto simp: loadRecoveryRoles_def andThen_Inr_iff split: if_splits)
  have rest: "optionally (selectUserRoles db a0 user) (uu_roleKeys input) = Inr selected"
    "assertOwnerManagementAllowed (au_roles a0) ?current ?nextKeys = Inr ()"
    "(case recovery of None \<Rightarrow> Inr () | Some roles \<Rightarrow> assertRecoveryEmailChangeAllowedInTransaction db a0 (us_id user)
        (filter (\<lambda>r. contains ?nextKeys (ro_key r)) roles)) = Inr ()"
    "assertActiveOwnerRemains db ?current (us_status user) ?nextKeys (us_status user) = Inr ()"
    "emailChanged = ?changed"
    using assms unfolding checkUserUpdate_def a0 user andThen.simps option.case Let_def start a1
    by (auto simp only: andThen_Inr_iff prod.case sum.inject prod.inject, simp_all)
  show thesis
  proof (rule that [OF user])
    show "au_id a0 = actor" "au_roles a0 = getUserRoleKeysInTransaction db actor"
      "au_permissions a0 = getUserPermissionKeysInTransaction db actor" using actor by simp_all
    show "emailChanged \<longleftrightarrow> ?changed" by (rule rest(5))
    show "selected = None \<longleftrightarrow> uu_roleKeys input = None" using rest(1) by (auto simp: optionally_Inr split: option.splits)
    show "case selected of None \<Rightarrow> True | Some rs \<Rightarrow> (\<exists>keys. uu_roleKeys input = Some keys \<and> loadRolesByKeysInTransaction db keys = Inr rs) \<and>
       assertRoleAssignmentAllowedInTransaction db a0 rs = Inr () \<and>
       (us_oidcProviderId user \<noteq> None \<longrightarrow> OWNER \<notin> ro_key ` set rs)"
      using rest(1) by (auto simp: optionally_Inr selectUserRoles_def andThen_Inr_iff split: option.splits if_splits)
    have "OWNER \<in> set ?current \<or> OWNER \<in> set ?nextKeys \<longrightarrow> OWNER \<in> set (au_roles a0)"
      using rest(2) by (auto simp: assertOwnerManagementAllowed_def)
    moreover have "us_status user = ActiveUser \<and> OWNER \<in> set ?current \<and> OWNER \<notin> set ?nextKeys \<longrightarrow>
          countActiveOwnersInTransaction db > 1"
      using rest(4) by (auto simp: assertActiveOwnerRemains_def Let_def)
    moreover have "\<exists>roles. loadRolesByKeysInTransaction db ?keys = Inr roles \<and>
        assertRoleAssignmentAllowedInTransaction db a0 (filter (\<lambda>r. contains ?nextKeys (ro_key r)) roles) = Inr ()"
      if "emailChanged \<and> us_id user \<noteq> actor"
      using recovery rest(3,5) that actor by (auto simp: assertRecoveryEmailChangeAllowedInTransaction_def)
    ultimately show "let nextKeys = ?nextKeys in
       (OWNER \<in> set ?current \<or> OWNER \<in> set nextKeys \<longrightarrow> OWNER \<in> set (au_roles a0)) \<and>
       (us_status user = ActiveUser \<and> OWNER \<in> set ?current \<and> OWNER \<notin> set nextKeys \<longrightarrow>
          countActiveOwnersInTransaction db > 1) \<and>
       (emailChanged \<and> us_id user \<noteq> actor \<longrightarrow>
          (\<exists>roles. loadRolesByKeysInTransaction db ?keys = Inr roles \<and>
             assertRoleAssignmentAllowedInTransaction db a0 (filter (\<lambda>r. contains nextKeys (ro_key r)) roles) = Inr ()))"
      unfolding Let_def by blast
  qed
qed

definition assigned :: "string \<Rightarrow> role_row list option \<Rightarrow> identity_db \<Rightarrow> identity_db" where
  "assigned u selected db = (case selected of None \<Rightarrow> db | Some rs \<Rightarrow> replaceUserRolesInTransaction u rs db)"

lemma findUser_updateUser:
  assumes "\<And>u. us_id (f u) = us_id u"
  shows "findUser (updateUser i f db) j = map_option (if j = i then f else id) (findUser db j)"
proof -
  have "find (\<lambda>u. us_id u = j) (map (\<lambda>u. if us_id u = i then f u else u) us) =
      map_option (if j = i then f else id) (find (\<lambda>u. us_id u = j) us)" for us
    using assms by (induction us) auto
  then show ?thesis by (simp add: findUser_def updateUser_def)
qed

lemma updateUser_effect:
  assumes "updateUserService env (Some s) input now db = Inr db'"
  obtains selected emailChanged email where
    "checkUserUpdate db (au_id (cs_user s)) input email = Inr (selected, emailChanged)"
    "sameAccess (assigned (uu_userId input) selected db) db'"
    "emailChanged \<Longrightarrow> \<forall>r \<in> set (id_sessions db'). se_userId r \<noteq> uu_userId input"
    "set (id_sessions db') \<subseteq> set (id_sessions db)"
    "emailChanged \<Longrightarrow> uu_userId input \<notin> re_userId ` set (id_resetTokens db') \<union> iv_userId ` set (id_invites db')"
    "\<And>u u'. findUser db (uu_userId input) = Some u \<Longrightarrow> findUser db' (uu_userId input) = Some u' \<Longrightarrow>
       us_email u' = (case email of None \<Rightarrow> us_email u | Some e \<Rightarrow> e)"
proof -
  from assms obtain n email selected emailChanged db1 where
    check: "checkUserUpdate db (au_id (cs_user s)) input email = Inr (selected, emailChanged)" and
    written: "writeUser (uu_userId input) n email emailChanged now db = Inr db1" and
    db': "db' = (if emailChanged
       then deleteUserTokens (uu_userId input) (revokeAllUserSessionsInTransaction (uu_userId input) (assigned (uu_userId input) selected db1))
       else assigned (uu_userId input) selected db1)"
    by (auto simp: updateUserService_def andThen_Inr_iff requirePermissionService_Inr assigned_def Let_def split: if_splits)
  have same: "sameAccess db db1" "id_sessions db1 = id_sessions db"
    using written sameAccess_updateUser by (auto simp: writeUser_def split: if_splits option.splits)
  then have "sameAccess (assigned (uu_userId input) selected db) (assigned (uu_userId input) selected db1)"
    by (auto simp: assigned_def sameAccess_replace split: option.splits)
  then have access: "sameAccess (assigned (uu_userId input) selected db) db'" unfolding db' by auto
  have sessions: "id_sessions (assigned (uu_userId input) selected db1) = id_sessions db"
    using same(2) by (simp add: assigned_def split: option.splits)
  have email: "us_email u' = (case email of None \<Rightarrow> us_email u | Some e \<Rightarrow> e)"
    if "findUser db (uu_userId input) = Some u" "findUser db' (uu_userId input) = Some u'" for u u'
  proof -
    obtain f where f: "db1 = updateUser (uu_userId input) f db" "\<And>u. us_id (f u) = us_id u"
      "\<And>u. us_email (f u) = (case email of None \<Rightarrow> us_email u | Some e \<Rightarrow> e)"
      using written by (auto simp: writeUser_def split: if_splits)
    have "id_users db' = id_users db1"
      by (simp add: db' assigned_def deleteUserTokens_def revokeAllUserSessionsInTransaction_def split: option.splits)
    then have "findUser db' (uu_userId input) = findUser db1 (uu_userId input)" by (simp add: findUser_def)
    then show ?thesis using that findUser_updateUser [of f "uu_userId input" db "uu_userId input"] f by simp
  qed
  show thesis
    by (rule that [OF check access _ _ _ email])
      (auto simp: db' deleteUserTokens_def revokeAllUserSessionsInTransaction_def sessions)
qed

lemma assigned_inv:
  assumes inv: "identityInv env db" and roles: "\<And>rs. selected = Some rs \<Longrightarrow> set rs \<subseteq> set (id_roles db) \<and> distinct (map ro_id rs)"
    and user: "(u, status, provider) \<in> set (accounts db)"
    and external: "\<And>rs. selected = Some rs \<Longrightarrow> provider \<noteq> None \<Longrightarrow> OWNER \<notin> ro_key ` set rs"
    and remains: "\<And>rs. selected = Some rs \<Longrightarrow> status = ActiveUser \<Longrightarrow> ownerId db u \<Longrightarrow> OWNER \<notin> ro_key ` set rs \<Longrightarrow>
      \<exists>v \<in> activeOwnerIds db. v \<noteq> u"
  shows "identityInv env (assigned u selected db)"
proof (cases selected)
  case None
  with inv show ?thesis by (simp add: assigned_def)
next
  case (Some rs)
  let ?db = "replaceUserRolesInTransaction u rs db"
  have keys: "keysInv env db" using inv by (simp add: identityInv_def)
  have owner: "ownerId ?db v \<longleftrightarrow> (if v = u then OWNER \<in> ro_key ` set rs else ownerId db v)" for v
    using ownerId_replace [OF keys, of rs u v] roles Some by simp
  have "keysInv env ?db" using keysInv_replace [OF keys, of rs u] roles Some user by force
  moreover have "\<exists>v. v \<in> activeOwnerIds ?db"
  proof -
    have "accounts db \<noteq> []" using user by auto
    then obtain v where v: "v \<in> activeOwnerIds db" using inv by (auto simp: identityInv_def ownersInv_def)
    have active: "w \<in> activeOwnerIds ?db" if "w \<in> activeOwnerIds db" "w \<noteq> u" for w
      using that owner by (simp add: activeOwnerIds_def)
    show ?thesis
    proof (cases "v = u")
      case False
      with v active show ?thesis by blast
    next
      case True
      then obtain p where "ownerId db u" "(u, ActiveUser, p) \<in> set (accounts db)" using v by (auto simp: activeOwnerIds_def)
      moreover from this have "status = ActiveUser" using account_unique [OF keys user] by auto
      ultimately show ?thesis
        using remains [OF Some] active owner by (cases "OWNER \<in> ro_key ` set rs") (auto simp: activeOwnerIds_def)
    qed
  qed
  moreover have "\<not> ownerId ?db v" if "(v, s, p) \<in> set (accounts db)" "p \<noteq> None" for v s p
  proof (cases "v = u")
    case True
    then have "p = provider" using account_unique [OF keys user] that by auto
    then show ?thesis using external [OF Some] owner that(2) True by simp
  next
    case False
    then show ?thesis using owner that inv by (fastforce simp: identityInv_def ownersInv_def)
  qed
  ultimately show ?thesis using Some user by (auto simp: assigned_def identityInv_def ownersInv_def)
qed

lemma loaded_roles:
  assumes "loadRolesByKeysInTransaction db keys = Inr rs" "keysInv env db"
  shows "set rs \<subseteq> set (id_roles db) \<and> distinct (map ro_id rs)"
  using loadRoles_Inr [OF assms] by auto

lemma updateUser_inv:
  assumes "identityInv env db" "updateUserService env (Some s) input now db = Inr db'"
  shows "identityInv env db'"
  using assms(2)
proof (rule updateUser_effect)
  fix selected emailChanged email
  assume check: "checkUserUpdate db (au_id (cs_user s)) input email = Inr (selected, emailChanged)"
    and same: "sameAccess (assigned (uu_userId input) selected db) db'"
  have keys: "keysInv env db" using assms(1) by (simp add: identityInv_def)
  from check obtain user where user: "findUser db (uu_userId input) = Some user"
    and sel: "case selected of None \<Rightarrow> True | Some rs \<Rightarrow> (\<exists>keys. loadRolesByKeysInTransaction db keys = Inr rs) \<and>
       (us_oidcProviderId user \<noteq> None \<longrightarrow> OWNER \<notin> ro_key ` set rs)"
    and remains: "us_status user = ActiveUser \<Longrightarrow> OWNER \<in> set (getUserRoleKeysInTransaction db (us_id user)) \<Longrightarrow>
       OWNER \<notin> set (case selected of None \<Rightarrow> getUserRoleKeysInTransaction db (us_id user) | Some rs \<Rightarrow> map ro_key rs) \<Longrightarrow>
       countActiveOwnersInTransaction db > 1"
    by (rule checkUserUpdate_Inr) (auto simp: Let_def split: option.splits)
  have id: "us_id user = uu_userId input" using findUser_Some [OF user] by simp
  have "identityInv env (assigned (uu_userId input) selected db)"
  proof (rule assigned_inv [OF assms(1) _ findUser_account [OF user]])
    fix rs assume rs: "selected = Some rs"
    then show "set rs \<subseteq> set (id_roles db) \<and> distinct (map ro_id rs)" using sel loaded_roles [OF _ keys] by auto
    show "OWNER \<notin> ro_key ` set rs" if "us_oidcProviderId user \<noteq> None" using that sel rs by simp
    show "\<exists>v \<in> activeOwnerIds db. v \<noteq> uu_userId input"
      if "us_status user = ActiveUser" "ownerId db (uu_userId input)" "OWNER \<notin> ro_key ` set rs"
      using that remains rs id by (intro another_active_owner [OF keys]) (simp add: owner_iff)
  qed
  with same show ?thesis by (rule sameAccess_inv)
qed

section \<open>Disabling and enabling users\<close>

lemma activeOwner_account:
  assumes "keysInv env db" "(i, s, p) \<in> set (accounts db)" "i \<in> activeOwnerIds db"
  shows "s = ActiveUser \<and> ownerId db i"
proof -
  obtain q where "(i, ActiveUser, q) \<in> set (accounts db)" "ownerId db i" using assms(3) by (auto simp: activeOwnerIds_def)
  then show ?thesis using account_unique [OF assms(1,2)] by blast
qed

lemma disableUser_Inr:
  assumes "disableUserService (Some s) userId now db = Inr db'"
  obtains user a where "findUser db userId = Some user" "userId \<noteq> au_id (cs_user s)"
    "requirePermissionInTransaction db (au_id (cs_user s)) USERS_DISABLE = Inr a"
    "ownerId db userId \<Longrightarrow> OWNER \<in> set (au_roles a)"
    "us_status user = ActiveUser \<Longrightarrow> ownerId db userId \<Longrightarrow> countActiveOwnersInTransaction db > 1"
    "db' = deleteUserTokens userId (revokeAllUserSessionsInTransaction userId
       (updateUser userId (\<lambda>u. if us_status u = DisabledUser then u else u\<lparr>us_status := DisabledUser, us_updatedAt := now\<rparr>) db))"
proof -
  from assms obtain a where a: "requirePermissionInTransaction db (au_id (cs_user s)) USERS_DISABLE = Inr a"
    by (auto simp: disableUserService_def andThen_Inr_iff requirePermissionService_Inr)
  with assms obtain user where user: "findUser db userId = Some user"
    by (auto simp: disableUserService_def andThen_Inr_iff requirePermissionService_Inr split: option.splits)
  have id: "us_id user = userId" using findUser_Some [OF user] by simp
  show thesis
    by (rule that [OF user _ a])
      (use assms in \<open>auto simp: disableUserService_def andThen_Inr_iff requirePermissionService_Inr a user id owner_iff
        assertOwnerManagementAllowed_def assertActiveOwnerRemains_def Let_def split: if_splits\<close>)
qed

lemma disableUser_inv:
  assumes "identityInv env db" "disableUserService (Some s) userId now db = Inr db'"
  shows "identityInv env db'"
  using assms(2)
proof (rule disableUser_Inr)
  fix user a
  assume user: "findUser db userId = Some user"
    and remains: "us_status user = ActiveUser \<Longrightarrow> ownerId db userId \<Longrightarrow> countActiveOwnersInTransaction db > 1"
    and db': "db' = deleteUserTokens userId (revokeAllUserSessionsInTransaction userId
       (updateUser userId (\<lambda>u. if us_status u = DisabledUser then u else u\<lparr>us_status := DisabledUser, us_updatedAt := now\<rparr>) db))"
  have keys: "keysInv env db" using assms(1) by (simp add: identityInv_def)
  note account = findUser_account [OF user]
  have only: "onlyStatus userId db db'"
  proof -
    let ?f = "\<lambda>u. if us_status u = DisabledUser then u else u\<lparr>us_status := DisabledUser, us_updatedAt := now\<rparr>"
    have "onlyStatus userId db (updateUser userId ?f db)" by (rule onlyStatus_updateUser) simp
    then show ?thesis unfolding db'
      by (rule onlyStatus_sameAccess)
        (blast intro: sameAccess_sessions_trans sameAccess_refl, simp add: deleteUserTokens_def revokeAllUserSessionsInTransaction_def)
  qed
  have "\<exists>v \<in> activeOwnerIds db. v \<noteq> userId"
  proof (cases "us_status user = ActiveUser \<and> ownerId db userId")
    case True
    then show ?thesis using remains another_active_owner [OF keys] by blast
  next
    case False
    have "accounts db \<noteq> []" using account by auto
    then obtain v where "v \<in> activeOwnerIds db" using assms(1) by (auto simp: identityInv_def ownersInv_def)
    moreover have "userId \<notin> activeOwnerIds db"
      using False activeOwner_account [OF keys account] by blast
    ultimately show ?thesis by auto
  qed
  then show ?thesis by (rule onlyStatus_inv [OF assms(1) only])
qed

lemma enableUser_Inr:
  assumes "enableUserService (Some s) userId now db = Inr db'"
  obtains user a where "findUser db userId = Some user" "us_status user = DisabledUser"
    "requirePermissionInTransaction db (au_id (cs_user s)) USERS_ENABLE = Inr a"
    "ownerId db userId \<Longrightarrow> OWNER \<in> set (au_roles a)"
    "onlyStatus userId db db'" "id_sessions db' = id_sessions db"
proof -
  from assms obtain a where a: "requirePermissionInTransaction db (au_id (cs_user s)) USERS_ENABLE = Inr a"
    by (auto simp: enableUserService_def andThen_Inr_iff requirePermissionService_Inr)
  with assms obtain user where user: "findUser db userId = Some user"
    by (auto simp: enableUserService_def andThen_Inr_iff requirePermissionService_Inr split: option.splits)
  have id: "us_id user = userId" using findUser_Some [OF user] by simp
  show thesis
    by (rule that [OF user _ a])
      (use assms in \<open>auto simp: enableUserService_def andThen_Inr_iff requirePermissionService_Inr a user id owner_iff
        assertOwnerManagementAllowed_def Let_def split: if_splits intro!: onlyStatus_updateUser\<close>)
qed

lemma statusChange_inv:
  assumes "identityInv env db" "findUser db i = Some u" "us_status u \<noteq> ActiveUser" "onlyStatus i db db'"
  shows "identityInv env db'"
  by (rule onlyStatus_inv [OF assms(1,4)]) (rule inactive_other_owner [OF assms(1) findUser_account [OF assms(2)] assms(3)])

lemma enableUser_inv:
  assumes "identityInv env db" "enableUserService (Some s) userId now db = Inr db'"
  shows "identityInv env db'"
  using assms(2) by (rule enableUser_Inr) (auto intro: statusChange_inv [OF assms(1)])

section \<open>Invitations\<close>

lemma acceptInvite_cases:
  assumes "acceptInviteService env input now db = Inr (consumed, db')"
  obtains (refused) "consumed = InvalidOrExpiredToken" "db' = db"
  | (accepted) h i u hash name where "hashOpaqueToken env (ai_token input) = Inr h"
      "find (openInvite h now) (id_invites db) = Some i"
      "findUser db (iv_userId i) = Some u" "us_status u = PendingUser" "us_oidcProviderId u = None" "consumed = Consumed (us_id u)"
      "db' = updateUser (us_id u) (\<lambda>u. u\<lparr>us_displayName := name, us_emailVerifiedAt := Some now, us_passwordHash := Some hash,
            us_status := ActiveUser, us_updatedAt := now\<rparr>)
          (db\<lparr>id_invites := map (\<lambda>j. if iv_id j = iv_id i then j\<lparr>iv_acceptedAt := Some now\<rparr> else j) (id_invites db)\<rparr>)"
proof (cases "hashOpaqueToken env (ai_token input)")
  case (Inl e)
  with assms that(1) show thesis by (auto simp: acceptInviteService_def andThen_Inr_iff)
next
  case (Inr h)
  show thesis
  proof (cases "find (openInvite h now) (id_invites db)")
    case None
    with Inr assms that(1) show thesis by (auto simp: acceptInviteService_def andThen_Inr_iff)
  next
    case (Some i)
    note i = Some
    show thesis
    proof (cases "findUser db (iv_userId i)")
      case None
      with Inr i assms that(1) show thesis by (auto simp: acceptInviteService_def andThen_Inr_iff)
    next
      case (Some u)
      show thesis
      proof (cases "us_status u = PendingUser \<and> us_oidcProviderId u = None")
        case False
        with Inr i Some assms that(1) show thesis by (auto simp: acceptInviteService_def andThen_Inr_iff)
      next
        case True
        from assms obtain name hash where "consumed = Consumed (us_id u) \<and>
          db' = updateUser (us_id u) (\<lambda>u. u\<lparr>us_displayName := name, us_emailVerifiedAt := Some now, us_passwordHash := Some hash,
            us_status := ActiveUser, us_updatedAt := now\<rparr>)
          (db\<lparr>id_invites := map (\<lambda>j. if iv_id j = iv_id i then j\<lparr>iv_acceptedAt := Some now\<rparr> else j) (id_invites db)\<rparr>)"
          by (simp add: acceptInviteService_def Inr i Some True andThen_Inr_iff) blast
        with that(2) [OF Inr i Some] True show thesis by blast
      qed
    qed
  qed
qed

lemma acceptInvite_onlyStatus:
  assumes "acceptInviteService env input now db = Inr (consumed, db')"
  shows "db' = db \<or> (\<exists>u. findUser db (us_id u) = Some u \<and> us_status u = PendingUser \<and> onlyStatus (us_id u) db db' \<and> id_sessions db' = id_sessions db)"
  using assms
proof (cases rule: acceptInvite_cases)
  case (accepted h i u hash name)
  let ?f = "\<lambda>u. u\<lparr>us_displayName := name, us_emailVerifiedAt := Some now, us_passwordHash := Some hash,
            us_status := ActiveUser, us_updatedAt := now\<rparr>"
  let ?invites = "map (\<lambda>j. if iv_id j = iv_id i then j\<lparr>iv_acceptedAt := Some now\<rparr> else j) (id_invites db)"
  have "db' = (updateUser (us_id u) ?f db)\<lparr>id_invites := ?invites\<rparr>" using accepted(7) by (simp add: updateUser_def)
  moreover have "onlyStatus (us_id u) db ((updateUser (us_id u) ?f db)\<lparr>id_invites := ?invites\<rparr>)"
  proof -
    have "onlyStatus (us_id u) db (updateUser (us_id u) ?f db)" by (rule onlyStatus_updateUser) simp
    then show ?thesis by (rule onlyStatus_sameAccess) simp_all
  qed
  moreover have "findUser db (us_id u) = Some u" using accepted(3) findUser_Some [OF accepted(3)] by simp
  ultimately show ?thesis using accepted(4) by (intro disjI2 exI [of _ u]) simp
qed simp

lemma acceptInvite_inv:
  assumes "identityInv env db" "acceptInviteService env input now db = Inr (consumed, db')"
  shows "identityInv env db'"
  using acceptInvite_onlyStatus [OF assms(2)] assms(1)
  by (auto intro: statusChange_inv [OF assms(1)])

lemma invitedUser_cases:
  assumes "invitedUser env input email name now db = Inr (userId, currentKeys, db1)"
  obtains (known) u where "u \<in> set (id_users db)" "us_status u = PendingUser" "us_oidcProviderId u = None" "userId = us_id u"
      "currentKeys = getUserRoleKeysInTransaction db userId" "sameAccess db db1" "id_sessions db1 = id_sessions db"
  | (created) "userId = newId env db" "currentKeys = []" "accounts db1 = accounts db @ [(newId env db, PendingUser, None)]"
      "roleTable db1 = roleTable db" "id_roles db1 = id_roles db" "id_permissions db1 = id_permissions db"
      "id_userRoles db1 = id_userRoles db" "id_rolePermissions db1 = id_rolePermissions db"
      "id_rows db1 = Suc (id_rows db)" "id_oidc db1 = id_oidc db" "id_sessions db1 = id_sessions db"
proof (cases "find (\<lambda>u. toLowerCase (us_email u) = email) (id_users db)")
  case (Some u)
  then have "u \<in> set (id_users db)" by (auto simp: find_Some_iff)
  moreover have "sameAccess db db1" "id_sessions db1 = id_sessions db"
    using assms Some sameAccess_updateUser by (auto simp: invitedUser_def split: if_splits)
  ultimately show thesis using that(1) assms Some by (auto simp: invitedUser_def split: if_splits)
next
  case None
  define u where "u = \<lparr>us_id = newId env db, us_displayName = name, us_email = email, us_emailVerifiedAt = None,
    us_passwordHash = None, us_oidcProviderId = None, us_profileImageVersion = 0, us_status = PendingUser,
    us_createdAt = now, us_updatedAt = now\<rparr>"
  have "insertUser env u db = Inr db1" "userId = newId env db" "currentKeys = []"
    using assms None by (auto simp: invitedUser_def Let_def andThen_Inr_iff u_def)
  from that(2) [OF this(2,3)] insertUser_tables [OF this(1)] show thesis by (simp add: u_def)
qed

lemma issueInvite_Inr:
  assumes "issueInviteService env (Some s) input now db = Inr (userId, db')"
  obtains a rs currentKeys db1 email name where
    "requirePermissionInTransaction db (au_id (cs_user s)) USERS_CREATE = Inr a"
    "loadRolesByKeysInTransaction db (ii_roleKeys input) = Inr rs"
    "assertRoleAssignmentAllowedInTransaction db a rs = Inr ()"
    "invitedUser env input email name now db = Inr (userId, currentKeys, db1)"
    "OWNER \<in> set currentKeys \<or> OWNER \<in> ro_key ` set rs \<Longrightarrow> OWNER \<in> set (au_roles a)"
    "sameAccess (replaceUserRolesInTransaction userId rs db1) db'" "id_sessions db' = id_sessions db1"
proof -
  from assms obtain email name h a b rs z x where
    1: "requirePermissionInTransaction db (au_id (cs_user s)) USERS_CREATE = Inr a"
    "loadRolesByKeysInTransaction db (ii_roleKeys input) = Inr rs"
    "assertRoleAssignmentAllowedInTransaction db a rs = Inr z"
    "invitedUser env input email name now db = Inr x" and
    last: "(case x of (userId, currentRoleKeys, db1) \<Rightarrow>
       if (hasOwnerRole currentRoleKeys \<or> hasOwnerRole (map ro_key rs)) \<and> \<not> hasOwnerRole (au_roles a) then Inl OwnerRequired
       else andThen (insertInvite env userId (au_id (cs_user s)) h (now + USER_INVITE_DURATION_MS)
             (replaceUserRolesInTransaction userId rs db1)) (\<lambda>db2. Inr (userId, db2))) = Inr (userId, db')"
    by (auto simp only: issueInviteService_def andThen_Inr_iff requirePermissionService_Inr)
  obtain i currentKeys db1 where x: "x = (i, currentKeys, db1)" by (cases x)
  have z: "z = ()" and 3: "i = userId" "OWNER \<in> set currentKeys \<or> OWNER \<in> ro_key ` set rs \<Longrightarrow> OWNER \<in> set (au_roles a)"
    and 2: "insertInvite env userId (au_id (cs_user s)) h (now + USER_INVITE_DURATION_MS)
      (replaceUserRolesInTransaction userId rs db1) = Inr db'"
    using last by (auto simp: x andThen_Inr_iff split: if_splits)
  have "id_sessions db' = id_sessions db1"
    using 2 by (auto simp: insertInvite_def Let_def usedId_def split: if_splits)
  with that [OF 1(1,2) _ 1(4) [unfolded x 3(1)] 3(2) sameAccess_insert(2) [OF 2]] 1(3) z show thesis by simp
qed

text \<open>A new account without owner role keeps the invariant of an initialized installation.\<close>

lemma newAccount_inv:
  assumes inj: "inj (ie_rowId env)" and inv: "identityInv env db" and init: "accounts db \<noteq> []"
    and tables: "accounts db1 = accounts db @ [(newId env db, status, provider)]" "roleTable db1 = roleTable db"
      "id_permissions db1 = id_permissions db" "id_userRoles db1 = id_userRoles db" "id_rows db1 = Suc (id_rows db)"
  shows "identityInv env db1"
proof -
  have keys: "keysInv env db" using inv by (simp add: identityInv_def)
  note new = newUser_inv [OF inj keys tables]
  have "activeOwnerIds db \<subseteq> activeOwnerIds db1" using new(3) tables(1) by (auto simp: activeOwnerIds_def)
  then have "activeOwnerIds db1 \<noteq> {}" using inv init by (auto simp: identityInv_def ownersInv_def)
  moreover have "\<not> ownerId db1 v" if "(v, s, p) \<in> set (accounts db1)" "p \<noteq> None" for v s p
    using that tables(1) new(3,4) inv by (auto simp: identityInv_def ownersInv_def)
  ultimately show ?thesis using new(1) tables(1) by (auto simp: identityInv_def ownersInv_def)
qed

lemma actor_exists: "requirePermissionInTransaction db i k = Inr a \<Longrightarrow> accounts db \<noteq> []"
  by (auto simp: requirePermissionInTransaction_def resolveActiveUserAccessInTransaction_def accounts_def findUser_def
    split: option.splits)

lemma issueInvite_inv:
  assumes "inj (ie_rowId env)" "identityInv env db" "issueInviteService env (Some s) input now db = Inr (userId, db')"
  shows "identityInv env db'"
  using assms(3)
proof (rule issueInvite_Inr)
  fix a rs currentKeys db1 email name
  assume actor: "requirePermissionInTransaction db (au_id (cs_user s)) USERS_CREATE = Inr a"
    and roles: "loadRolesByKeysInTransaction db (ii_roleKeys input) = Inr rs"
    and invited: "invitedUser env input email name now db = Inr (userId, currentKeys, db1)"
    and same: "sameAccess (replaceUserRolesInTransaction userId rs db1) db'"
  have keys: "keysInv env db" using assms(2) by (simp add: identityInv_def)
  note rs = loaded_roles [OF roles keys]
  have "identityInv env (assigned userId (Some rs) db1)"
    using invited
  proof (cases rule: invitedUser_cases)
    case (known u)
    have account: "(userId, PendingUser, None) \<in> set (accounts db)" using user_in_accounts [OF known(1)] known(2,3,4) by simp
    have "identityInv env (assigned userId (Some rs) db)"
      by (rule assigned_inv [OF assms(2) _ account]) (use rs in auto)
    moreover have "sameAccess (assigned userId (Some rs) db) (assigned userId (Some rs) db1)"
      using known(6) by (simp add: assigned_def sameAccess_replace)
    ultimately show ?thesis using sameAccess_inv by blast
  next
    case created
    have inv1: "identityInv env db1"
      using newAccount_inv [OF assms(1,2) actor_exists [OF actor] created(3,4,6,7,9)] .
    show ?thesis
      by (rule assigned_inv [OF inv1, where status = PendingUser and provider = None]) (use rs created in auto)
  qed
  with same show ?thesis by (simp add: assigned_def sameAccess_inv)
qed

section \<open>Roles\<close>

lemma ownerId_cong:
  assumes "id_userRoles db' = id_userRoles db"
    "\<And>u r k. (u, r) \<in> set (id_userRoles db) \<Longrightarrow>
       (\<exists>f. (r, OWNER, f) \<in> set (roleTable db')) \<longleftrightarrow> (\<exists>f. (r, OWNER, f) \<in> set (roleTable db))"
  shows "ownerId db' u = ownerId db u"
  unfolding ownerId_def assms(1) using assms(2) by blast

lemma ownersInv_cong:
  assumes "ownersInv db" "accounts db' = accounts db" "id_oidc db' = id_oidc db" "\<And>u. ownerId db' u = ownerId db u"
  shows "ownersInv db'"
  using assms by (simp add: ownersInv_def activeOwnerIds_def)

lemma trim_no_space: "list_all (\<lambda>c. \<not> isSpace c) k \<Longrightarrow> trim k = k"
proof -
  have "dropWhile isSpace xs = xs" if "list_all (\<lambda>c. \<not> isSpace c) xs" for xs using that by (cases xs) auto
  then show "list_all (\<lambda>c. \<not> isSpace c) k \<Longrightarrow> trim k = k" by (simp add: trim_def)
qed

lemma clean_pattern: "roleKeyPattern k \<Longrightarrow> cleanKey k"
proof -
  assume k: "roleKeyPattern k"
  have lower: "\<not> isSpace c" if "CHR ''a'' \<le> c" "c \<le> CHR ''z''" for c
    using that by (auto simp: isSpace_def less_eq_char_def)
  have "\<not> isSpace c" if "(CHR ''a'' \<le> c \<and> c \<le> CHR ''z'') \<or> isDigit c \<or> contains ''_.-'' c" for c
    using that lower by (auto simp: isSpace_def isDigit_def)
  with k lower have "list_all (\<lambda>c. \<not> isSpace c) k"
    by (auto simp: roleKeyPattern_def list_all_iff split: list.splits)
  with k show ?thesis by (auto simp: cleanKey_def trim_no_space roleKeyPattern_def split: list.splits)
qed

lemma loadPermissions_Inr:
  assumes "loadPermissionsByKeysInTransaction db keys = Inr ps"
  shows "set ps \<subseteq> set (id_permissions db)"
  using assms by (auto simp: loadPermissionsByKeysInTransaction_def Let_def split: if_splits)

lemma createRole_Inr:
  assumes "createRoleService env (Some s) input now db = Inr (r, db')"
  obtains a ps where "requirePermissionInTransaction db (au_id (cs_user s)) ROLES_CREATE = Inr a"
    "assertPermissionAssignmentAllowed a ps = Inr ()" "set ps \<subseteq> set (id_permissions db)"
    "cleanKey (ro_key r)" "\<not> isSystemKey (ro_key r)" "\<forall>q \<in> set (id_roles db). ro_key q \<noteq> ro_key r" "ro_id r = newId env db" "\<not> ro_isSystem r"
    "db' = replaceRolePermissionsInTransaction (newId env db) ps (usedId (db\<lparr>id_roles := id_roles db @ [r]\<rparr>))"
proof -
  from assms obtain key name description a b ps z x where
    1: "normalizeRoleKey (ri_key input) = Inr key"
    "requirePermissionInTransaction db (au_id (cs_user s)) ROLES_CREATE = Inr a"
    "loadPermissionsByKeysInTransaction db (ri_permissionKeys input) = Inr ps" "assertPermissionAssignmentAllowed a ps = Inr z"
    and system: "\<not> isSystemKey key" and insert: "insertRole env key name description now db = Inr x"
    and last: "(case x of (r, db') \<Rightarrow> Inr (r, replaceRolePermissionsInTransaction (ro_id r) ps db')) = Inr (r, db')"
    by (auto simp: createRoleService_def andThen_Inr_iff requirePermissionService_Inr split: if_splits)
  have "cleanKey key" using 1(1) clean_pattern by (auto simp: normalizeRoleKey_def Let_def split: if_splits)
  with that [OF 1(2) _ loadPermissions_Inr [OF 1(3)]] 1(4) system insert last show thesis
    by (auto simp: insertRole_def Let_def split: if_splits prod.splits)
qed

lemma replaceRolePermissions_tables [simp]:
  "accounts (replaceRolePermissionsInTransaction i ps db) = accounts db"
  "roleTable (replaceRolePermissionsInTransaction i ps db) = roleTable db"
  "id_roles (replaceRolePermissionsInTransaction i ps db) = id_roles db"
  "id_users (replaceRolePermissionsInTransaction i ps db) = id_users db"
  "id_permissions (replaceRolePermissionsInTransaction i ps db) = id_permissions db"
  "id_userRoles (replaceRolePermissionsInTransaction i ps db) = id_userRoles db"
  "id_rows (replaceRolePermissionsInTransaction i ps db) = id_rows db"
  "id_oidc (replaceRolePermissionsInTransaction i ps db) = id_oidc db"
  "id_sessions (replaceRolePermissionsInTransaction i ps db) = id_sessions db"
  by (simp_all add: replaceRolePermissionsInTransaction_def accounts_def roleTable_def)

lemma newRole_inv:
  assumes inj: "inj (ie_rowId env)" and inv: "identityInv env db"
    and tables: "accounts db' = accounts db" "roleTable db' = roleTable db @ [(newId env db, k, f)]"
      "id_permissions db' = id_permissions db" "id_userRoles db' = id_userRoles db" "id_rows db' = Suc (id_rows db)"
      "id_oidc db' = id_oidc db"
    and key: "cleanKey k" "isSystemKey k \<longrightarrow> f" "k \<notin> (fst \<circ> snd) ` set (roleTable db)"
  shows "identityInv env db'" "newId env db \<notin> fst ` set (roleTable db)" "\<And>u. ownerId db' u = ownerId db u"
proof -
  have keys: "keysInv env db" using inv by (simp add: identityInv_def)
  have "newId env db \<notin> set (map fst (roleTable db))"
    unfolding newId_def using inj keys by (intro fresh_id) (auto simp: keysInv_def)
  then show fresh: "newId env db \<notin> fst ` set (roleTable db)" by simp
  have ref: "r \<noteq> newId env db" if "(u, r) \<in> set (id_userRoles db)" for u r
    using that fresh keys by (auto simp: keysInv_def)
  show owner: "\<And>u. ownerId db' u = ownerId db u"
    by (rule ownerId_cong [OF tables(4)]) (use tables(2) ref in auto)
  have "keysInv env db'"
    using keys tables key fresh idsBelow_new [of env "id_rows db" "map fst (roleTable db)"]
    by (auto simp: keysInv_def newId_def intro: idsBelow_mono)
  moreover have "ownersInv db'"
    by (rule ownersInv_cong [OF _ tables(1,6) owner]) (use inv in \<open>simp add: identityInv_def\<close>)
  ultimately show "identityInv env db'" by (simp add: identityInv_def)
qed

lemma createRole_inv:
  assumes "inj (ie_rowId env)" "identityInv env db" "createRoleService env (Some s) input now db = Inr (r, db')"
  shows "identityInv env db'"
  using assms(3)
proof (rule createRole_Inr)
  fix a ps
  assume r: "cleanKey (ro_key r)" "\<not> isSystemKey (ro_key r)" "\<forall>q \<in> set (id_roles db). ro_key q \<noteq> ro_key r" "ro_id r = newId env db"
    and db': "db' = replaceRolePermissionsInTransaction (newId env db) ps (usedId (db\<lparr>id_roles := id_roles db @ [r]\<rparr>))"
  show ?thesis
    by (rule newRole_inv(1) [OF assms(1,2), where k = "ro_key r" and f = "ro_isSystem r"])
      (use r in \<open>auto simp: db' usedId_def accounts_def roleTable_def\<close>)
qed

lemma updateRole_Inr:
  assumes "updateRoleService (Some s) input now db = Inr db'"
  obtains a r ps where "requirePermissionInTransaction db (au_id (cs_user s)) ROLES_UPDATE = Inr a"
    "r \<in> set (id_roles db)" "ro_id r = rp_roleId input" "\<not> ro_isSystem r"
    "case ps of None \<Rightarrow> True | Some qs \<Rightarrow> set qs \<subseteq> set (id_permissions db) \<and> assertPermissionAssignmentAllowed a qs = Inr ()"
    "\<exists>name description. db' = (case ps of None \<Rightarrow> updateRole (ro_id r) name description now db
       | Some qs \<Rightarrow> replaceRolePermissionsInTransaction (ro_id r) qs (updateRole (ro_id r) name description now db))"
proof -
  from assms obtain a name description where a: "requirePermissionInTransaction db (au_id (cs_user s)) ROLES_UPDATE = Inr a"
    and rest: "(case findRole db (rp_roleId input) of None \<Rightarrow> Inl RoleNotFound
       | Some r \<Rightarrow> if ro_isSystem r then Inl SystemRoleImmutable
           else andThen (optionally (selectRolePermissions db a) (rp_permissionKeys input)) (\<lambda>selected.
             let db' = updateRole (ro_id r) name description now db in
             Inr (case selected of None \<Rightarrow> db' | Some ps \<Rightarrow> replaceRolePermissionsInTransaction (ro_id r) ps db'))) = Inr db'"
    by (auto simp only: updateRoleService_def andThen_Inr_iff requirePermissionService_Inr split: if_splits)
  from rest obtain r where found: "findRole db (rp_roleId input) = Some r" by (auto split: option.splits)
  then have r: "r \<in> set (id_roles db)" "ro_id r = rp_roleId input" by (auto simp: findRole_def find_Some_iff)
  from rest found obtain ps where ps: "optionally (selectRolePermissions db a) (rp_permissionKeys input) = Inr ps" "\<not> ro_isSystem r"
    "db' = (case ps of None \<Rightarrow> updateRole (ro_id r) name description now db
       | Some qs \<Rightarrow> replaceRolePermissionsInTransaction (ro_id r) qs (updateRole (ro_id r) name description now db))"
    by (auto simp: andThen_Inr_iff Let_def split: if_splits)
  have "case ps of None \<Rightarrow> True | Some qs \<Rightarrow> set qs \<subseteq> set (id_permissions db) \<and> assertPermissionAssignmentAllowed a qs = Inr ()"
    using ps(1) by (auto simp: optionally_Inr selectRolePermissions_def andThen_Inr_iff split: option.splits dest: loadPermissions_Inr)
  with that [OF a r ps(2)] ps(3) show thesis by blast
qed

lemma updateRole_tables [simp]:
  "accounts (updateRole i name description now db) = accounts db"
  "roleTable (updateRole i name description now db) = roleTable db"
  "id_permissions (updateRole i name description now db) = id_permissions db"
  "id_userRoles (updateRole i name description now db) = id_userRoles db"
  "id_rolePermissions (updateRole i name description now db) = id_rolePermissions db"
  "id_rows (updateRole i name description now db) = id_rows db" "id_oidc (updateRole i name description now db) = id_oidc db"
  "id_sessions (updateRole i name description now db) = id_sessions db"
  by (simp_all add: updateRole_def accounts_def roleTable_def comp_def cong: map_cong)

lemma inv_cong:
  assumes "identityInv env db" "accounts db' = accounts db" "roleTable db' = roleTable db" "id_permissions db' = id_permissions db"
    "id_userRoles db' = id_userRoles db" "id_rows db' = id_rows db" "id_oidc db' = id_oidc db"
  shows "identityInv env db'"
  using assms by (simp add: inv_defs)

lemma updateRole_inv:
  assumes "identityInv env db" "updateRoleService (Some s) input now db = Inr db'"
  shows "identityInv env db'"
  using assms(2) by (rule updateRole_Inr) (auto intro!: inv_cong [OF assms(1)] split: option.splits)

lemma deleteRole_Inr:
  assumes "deleteRoleService (Some s) roleId db = Inr db'"
  obtains a r where "requirePermissionInTransaction db (au_id (cs_user s)) ROLES_DELETE = Inr a"
    "r \<in> set (id_roles db)" "ro_id r = roleId" "\<not> ro_isSystem r" "\<And>u. (u, roleId) \<notin> set (id_userRoles db)"
    "db' = deleteRole roleId db"
proof -
  from assms obtain a r where a: "requirePermissionInTransaction db (au_id (cs_user s)) ROLES_DELETE = Inr a"
    and r: "findRole db roleId = Some r" "\<not> ro_isSystem r" "\<not> some_elem (\<lambda>ur. snd ur = ro_id r) (id_userRoles db)"
      "db' = deleteRole (ro_id r) db"
    by (auto simp: deleteRoleService_def andThen_Inr_iff requirePermissionService_Inr split: option.splits if_splits)
  then have "r \<in> set (id_roles db)" "ro_id r = roleId" by (auto simp: findRole_def find_Some_iff)
  with that [OF a this] r(2-4) show thesis by fastforce
qed

lemma deleteRole_tables:
  "accounts (deleteRole i db) = accounts db" "roleTable (deleteRole i db) = filter (\<lambda>r. fst r \<noteq> i) (roleTable db)"
  "id_permissions (deleteRole i db) = id_permissions db" "id_rows (deleteRole i db) = id_rows db"
  "id_oidc (deleteRole i db) = id_oidc db" "id_sessions (deleteRole i db) = id_sessions db"
  by (simp_all add: deleteRole_def accounts_def roleTable_def filter_map comp_def)

lemma deleteRole_inv:
  assumes "identityInv env db" "deleteRoleService (Some s) roleId db = Inr db'"
  shows "identityInv env db'"
  using assms(2)
proof (rule deleteRole_Inr)
  assume unused: "\<And>u. (u, roleId) \<notin> set (id_userRoles db)" and db': "db' = deleteRole roleId db"
  have keys: "keysInv env db" using assms(1) by (simp add: identityInv_def)
  have same: "id_userRoles db' = id_userRoles db"
    unfolding db' deleteRole_def using unused by (simp add: filter_id_conv) (metis prod.collapse)
  have owner: "ownerId db' u = ownerId db u" for u
    by (rule ownerId_cong [OF same]) (use unused in \<open>auto simp: db' deleteRole_tables\<close>)
  have "ownersInv db" using assms(1) by (simp add: identityInv_def)
  from ownersInv_cong [OF this _ _ owner] have "ownersInv db'" by (simp add: db' deleteRole_tables)
  moreover have "keysInv env db'"
  proof -
    let ?roles = "filter (\<lambda>r. fst r \<noteq> roleId) (roleTable db)"
    have "u \<in> fst ` set (accounts db) \<and> r \<in> fst ` set ?roles" if "(u, r) \<in> set (id_userRoles db)" for u r
    proof -
      have "r \<noteq> roleId" "u \<in> fst ` set (accounts db)" "r \<in> fst ` set (roleTable db)" using that unused keys by (auto simp: keysInv_def)
      then show ?thesis by force
    qed
    moreover have "idsBelow env (id_rows db) (map fst ?roles)" using keys by (auto simp: keysInv_def idsBelow_def)
    moreover have "distinct (map fst ?roles)" "distinct (map (fst \<circ> snd) ?roles)"
      using keys by (simp_all add: keysInv_def distinct_map_filter)
    moreover have "\<forall>(i, k, flag) \<in> set ?roles. cleanKey k \<and> (isSystemKey k \<longrightarrow> flag)" using keys by (auto simp: keysInv_def)
    ultimately show ?thesis
      using keys unfolding keysInv_def db' deleteRole_tables same [unfolded db'] by blast
  qed
  ultimately show ?thesis by (simp add: identityInv_def)
qed

end
