(* ===== verification/FactorKeeps.thy ===== *)
theory FactorKeeps
  imports IdentityKeeps
begin

text \<open>What the transactions of second factors and external logins do to the columns of access.\<close>

section \<open>Own factors\<close>

lemma sameAccess_factors [simp]:
  "sameAccess db (db\<lparr>id_recoveryCodes := cs\<rparr>)" "sameAccess db (db\<lparr>id_passkeys := ks\<rparr>)" "sameAccess db (deleteRecoveryCodes u db)"
  by (simp_all add: sameAccess_def accounts_def roleTable_def deleteRecoveryCodes_def)

lemma sameAccess_insertBatch: "insertRecoveryCodeBatch env u hs db = Inr db' \<Longrightarrow> sameAccess db db' \<and> id_sessions db' = id_sessions db"
proof (induction env u hs db rule: insertRecoveryCodeBatch.induct)
  case (2 env u h hs db)
  then obtain db1 where one: "insertRecoveryCode env u h db = Inr db1" and rest: "insertRecoveryCodeBatch env u hs db1 = Inr db'"
    by (auto simp: andThen_Inr_iff)
  have "sameAccess db db1 \<and> id_sessions db1 = id_sessions db"
    using one by (auto simp: insertRecoveryCode_def usedId_def sameAccess_def accounts_def roleTable_def split: if_splits)
  then show ?case using 2(1) [OF rest] sameAccess_trans by fastforce
qed simp

lemma insertTotpFactor_sameAccess:
  "insertTotpFactor env u secret c now db = (created, db') \<Longrightarrow> sameAccess db db' \<and> id_sessions db' = id_sessions db"
  by (auto simp: insertTotpFactor_def usedId_def sameAccess_def accounts_def roleTable_def split: if_splits)

lemma revokeOthers_sessions: "set (id_sessions (revokeOtherUserSessionsInTransaction u i db)) \<subseteq> set (id_sessions db)"
  by (auto simp: revokeOtherUserSessionsInTransaction_def)

text \<open>A change of factors keeps access, and removes sessions at most.\<close>

definition onlyFactors :: "identity_db \<Rightarrow> identity_db \<Rightarrow> bool" where
  "onlyFactors db db' \<longleftrightarrow> sameAccess db db' \<and> set (id_sessions db') \<subseteq> set (id_sessions db)"

lemma onlyFactors_trans: "onlyFactors a b \<Longrightarrow> onlyFactors b c \<Longrightarrow> onlyFactors a c"
  by (auto simp: onlyFactors_def intro: sameAccess_trans)

lemma onlyFactors_basic [simp]:
  "onlyFactors db db" "onlyFactors db (revokeOtherUserSessionsInTransaction u i db)" "onlyFactors db (deleteRecoveryCodes u db)"
  "onlyFactors db (db\<lparr>id_totpFactors := fs\<rparr>)" "onlyFactors db (db\<lparr>id_recoveryCodes := cs\<rparr>)" "onlyFactors db (db\<lparr>id_passkeys := ks\<rparr>)"
  "onlyFactors db (usedId db)"
  by (auto simp: onlyFactors_def deleteRecoveryCodes_def usedId_def revokeOtherUserSessionsInTransaction_def sameAccess_def
    accounts_def roleTable_def)

lemma onlyFactors_inserts:
  "insertRecoveryCodeBatch env u hs db = Inr db' \<Longrightarrow> onlyFactors db db'"
  "insertTotpFactor env u secret c now db = (created, db') \<Longrightarrow> onlyFactors db db'"
  by (auto simp: onlyFactors_def dest: sameAccess_insertBatch insertTotpFactor_sameAccess)

lemma confirmTotp_only:
  assumes "confirmTotpTransaction env own secret c hs now db = Inr (created, db')"
  shows "onlyFactors db db'"
proof -
  obtain new db1 where one: "insertTotpFactor env (au_id (cs_user own)) secret c now db = (new, db1)" by force
  with assms consider "db' = db1"
    | db2 where "insertRecoveryCodeBatch env (au_id (cs_user own)) hs db1 = Inr db2"
        "db' = revokeOtherUserSessionsInTransaction (au_id (cs_user own)) (cs_id own) db2"
    by (auto simp: confirmTotpTransaction_def andThen_Inr_iff Let_def split: if_splits)
  then show ?thesis
    using onlyFactors_inserts(2) [OF one] by cases (auto intro: onlyFactors_trans dest!: onlyFactors_inserts(1))
qed

lemma regenerateCodes_only:
  assumes "regenerateRecoveryCodesService env own hs now db = Inr (changed, db')"
  shows "onlyFactors db db'"
proof -
  from assms consider "db' = db"
    | db2 where "insertRecoveryCodeBatch env (au_id (cs_user own)) hs (deleteRecoveryCodes (au_id (cs_user own)) db) = Inr db2"
        "db' = revokeOtherUserSessionsInTransaction (au_id (cs_user own)) (cs_id own) db2"
    by (auto simp: regenerateRecoveryCodesService_def andThen_Inr_iff Let_def split: if_splits)
  then show ?thesis
    by cases (auto intro: onlyFactors_trans onlyFactors_trans [OF onlyFactors_basic(3)] dest!: onlyFactors_inserts(1))
qed

lemma disableTotp_only: "disableTotpService own now db = Inr (changed, db') \<Longrightarrow> onlyFactors db db'"
  by (auto simp: disableTotpService_def andThen_Inr_iff Let_def split: if_splits
    intro: onlyFactors_trans [OF onlyFactors_trans [OF onlyFactors_basic(4) onlyFactors_basic(3)] onlyFactors_basic(2)])

lemma passkeys_only:
  "registerPasskeyTransaction env own name registration now db = Inr (created, db') \<Longrightarrow> onlyFactors db db'"
  "renamePasskeyService own passkeyName passkeyId now db = Inr (changed, db') \<Longrightarrow> onlyFactors db db'"
  "deletePasskeyService own passkeyId now db = Inr (changed, db') \<Longrightarrow> onlyFactors db db'"
  by (auto simp: registerPasskeyTransaction_def renamePasskeyService_def deletePasskeyService_def andThen_Inr_iff Let_def
    split: if_splits intro: onlyFactors_trans [OF onlyFactors_trans [OF onlyFactors_basic(6) onlyFactors_basic(7)] onlyFactors_basic(2)])

section \<open>Logins\<close>

lemma spendCode_only: "spendCode consumed p now db = (spent, db') \<Longrightarrow> onlyFactors db db'"
  by (auto simp: spendCode_def Let_def split: mfa_proof.splits)

lemma oidcAuthentication_cases:
  assumes "requireOidcAuthenticationInTransaction db p groups now = Inr (allowed, db')"
  obtains (same) "db' = db" "\<not> allowed"
  | (synchronized) provider where "provider \<in> set (os_providers (id_oidc db))" "synchronizeOidcAccountInTransaction provider p groups db = Inr db'"
proof (cases "find (\<lambda>e. pr_id e = op_providerId p) (os_providers (id_oidc db))")
  case None
  with assms that(1) show thesis by (simp add: requireOidcAuthenticationInTransaction_def)
next
  case (Some provider)
  then have "provider \<in> set (os_providers (id_oidc db))" by (auto simp: find_Some_iff)
  with assms Some that show thesis
    by (auto simp: requireOidcAuthenticationInTransaction_def andThen_Inr_iff split: option.splits if_splits sum.splits)
qed

lemma firstFactor_cases:
  assumes "requireFirstFactor env consumed now db = Inr (allowed, db')"
  obtains (same) "db' = db"
  | (synchronized) provider p groups where "provider \<in> set (os_providers (id_oidc db))"
      "synchronizeOidcAccountInTransaction provider p groups db = Inr db'"
  using assms that
  by (auto simp: requireFirstFactor_def andThen_Inr_iff split: first_factor.splits elim!: oidcAuthentication_cases)

lemma completeMfa_cases:
  assumes "completeLoginMfaTransaction env consumed p token expired now db = Inr (result, db')"
  obtains (rolledBack) "db' = db" "result = MfaAuthenticationFailed"
  | (refused) allowed where "requireFirstFactor env consumed now db = Inr (allowed, db')" "result = MfaAuthenticationFailed"
  | (unspent) db1 where "requireFirstFactor env consumed now db = Inr (True, db1)" "spendCode consumed p now db1 = (False, db')"
      "result = MfaAuthenticationFailed"
  | (loggedIn) db1 db2 sq s where "requireFirstFactor env consumed now db = Inr (True, db1)"
      "map_option tf_id (getLoginMfaFactorInTransaction db1 (lm_userId consumed)) = Some (lm_factorId consumed)"
      "spendCode consumed p now db1 = (True, db2)" "createSessionInTransaction env sq now db2 = Inr (s, db')"
      "sq_userId sq = lm_userId consumed" "result = MfaLoggedIn s"
proof (cases "mfaTransaction env consumed p token expired now db")
  case (Inl e)
  with assms that(1) show thesis by (cases e) (simp_all add: completeLoginMfaTransaction_def)
next
  case (Inr r)
  with assms have run: "mfaTransaction env consumed p token expired now db = Inr (result, db')"
    by (simp add: completeLoginMfaTransaction_def)
  then obtain allowed db1 where first: "requireFirstFactor env consumed now db = Inr (allowed, db1)"
    by (auto simp: mfaTransaction_def andThen_Inr_iff)
  obtain spent db2 where spend: "spendCode consumed p now db1 = (spent, db2)" by force
  show thesis
  proof (cases "allowed \<and> map_option tf_id (getLoginMfaFactorInTransaction db1 (lm_userId consumed)) = Some (lm_factorId consumed)")
    case False
    with run first that(2) show thesis by (auto simp: mfaTransaction_def andThen_Inr_iff split: if_splits)
  next
    case True
    with run first spend that(3,4) show thesis
      by (auto simp: mfaTransaction_def andThen_Inr_iff split: if_splits)
  qed
qed

lemma passkeyLogin_cases:
  assumes "passkeyLoginTransaction env passkey info token expired now db = Inr (result, db')"
  obtains (refused) "onlyFactors db db'" "result = MfaAuthenticationFailed"
  | (loggedIn) db1 sq s where "updateVerifiedPasskeyInTransaction passkey info now db = (True, db1)" "onlyFactors db db1"
      "createSessionInTransaction env sq now db1 = Inr (s, db')" "sq_userId sq = pk_userId passkey" "result = MfaLoggedIn s"
proof -
  obtain updated db1 where one: "updateVerifiedPasskeyInTransaction passkey info now db = (updated, db1)" by force
  then have only: "onlyFactors db db1" by (auto simp: updateVerifiedPasskeyInTransaction_def Let_def)
  show thesis
    using assms one only that(1) that(2) [OF _ only]
    by (auto simp: passkeyLoginTransaction_def split: if_splits sum.splits auth_error.splits prod.splits)
qed

lemma oidcLogin_cases:
  assumes "authenticateOidcIdentityService env identity token expired now db = Inr (result, db')"
  obtains p db1 allowed db2 where "resolveOidcAccountInTransaction env identity now db = Inr (p, db1)"
    "requireOidcAuthenticationInTransaction db1 p (oi_groups identity) now = Inr (allowed, db2)"
    "db' = db2 \<or> (\<exists>sq s. createSessionInTransaction env sq now db2 = Inr (s, db'))"
proof -
  from assms obtain p db1 allowed db2 where run: "resolveOidcAccountInTransaction env identity now db = Inr (p, db1)"
    "requireOidcAuthenticationInTransaction db1 p (oi_groups identity) now = Inr (allowed, db2)"
    by (auto simp: authenticateOidcIdentityService_def andThen_Inr_iff)
  with assms have "db' = db2 \<or> (\<exists>sq s. createSessionInTransaction env sq now db2 = Inr (s, db'))"
    by (auto simp: authenticateOidcIdentityService_def andThen_Inr_iff split: if_splits option.splits)
  with that [OF run] show thesis .
qed

end
