(* ===== verification/IdentityReach.thy ===== *)
theory IdentityReach
  imports IdentityEffects FactorKeeps
begin

text \<open>The registry, the first owner and external accounts, and the invariant of every reachable state.\<close>

section \<open>The registry\<close>

definition registryFrame :: "identity_db \<Rightarrow> identity_db \<Rightarrow> bool" where
  "registryFrame db db' \<longleftrightarrow> id_users db' = id_users db \<and> id_userRoles db' = id_userRoles db \<and> id_oidc db' = id_oidc db \<and>
     id_sessions db' = id_sessions db \<and> id_resetTokens db' = id_resetTokens db \<and> id_rows db \<le> id_rows db'"

lemma registryFrame_trans: "registryFrame a b \<Longrightarrow> registryFrame b c \<Longrightarrow> registryFrame a c"
  by (simp add: registryFrame_def)

lemma upsertPermission_inv:
  assumes "inj (ie_rowId env)" "identityInv env db" "k \<in> set PERMISSION_REGISTRY"
  shows "identityInv env (upsertPermission env k db) \<and> registryFrame db (upsertPermission env k db)"
proof (cases "some_elem (\<lambda>p. pe_key p = k) (id_permissions db)")
  case True
  with assms(2) show ?thesis by (simp add: upsertPermission_def registryFrame_def)
next
  case False
  let ?db = "usedId (db\<lparr>id_permissions := id_permissions db @ [\<lparr>pe_id = newId env db, pe_key = k\<rparr>]\<rparr>)"
  have up: "upsertPermission env k db = ?db" using False by (simp add: upsertPermission_def)
  have keys: "keysInv env db" "ownersInv db" using assms(2) by (simp_all add: identityInv_def)
  have "newId env db \<notin> set (map pe_id (id_permissions db))"
    unfolding newId_def using assms(1) keys(1) by (intro fresh_id) (auto simp: keysInv_def)
  moreover have "accounts ?db = accounts db" "roleTable ?db = roleTable db" by (simp_all add: accounts_def roleTable_def usedId_def)
  ultimately have "keysInv env ?db"
    using keys(1) assms(3) idsBelow_new [of env "id_rows db" "map pe_id (id_permissions db)"]
    by (auto simp: keysInv_def newId_def usedId_def intro: idsBelow_mono)
  moreover have "ownersInv ?db"
    by (rule ownersInv_cong [OF keys(2)]) (simp_all add: accounts_def roleTable_def usedId_def ownerId_def)
  ultimately show ?thesis by (simp add: up identityInv_def registryFrame_def usedId_def)
qed

lemma system_key: "d \<in> set SYSTEM_ROLE_REGISTRY \<Longrightarrow> cleanKey (sr_key d) \<and> isSystemKey (sr_key d)"
  by (auto simp: SYSTEM_ROLE_REGISTRY_def isSystemKey_def cleanKey_def OWNER_def ADMIN_def VIEWER_def trim_def isSpace_def)

lemma flagged_image: "(\<exists>f. (r, k, f) \<in> (\<lambda>(i, k, f). (i, k, g k f)) ` S) \<longleftrightarrow> (\<exists>f. (r, k, f) \<in> S)"
proof
  assume "\<exists>f. (r, k, f) \<in> S"
  then obtain f where "(r, k, f) \<in> S" by blast
  then have "(r, k, g k f) \<in> (\<lambda>(i, k, f). (i, k, g k f)) ` S" by (intro image_eqI [of _ _ "(r, k, f)"]) simp_all
  then show "\<exists>f. (r, k, f) \<in> (\<lambda>(i, k, f). (i, k, g k f)) ` S" by blast
qed auto

lemma upsertRole_inv:
  assumes "inj (ie_rowId env)" "identityInv env db" "d \<in> set SYSTEM_ROLE_REGISTRY"
  shows "identityInv env (upsertRole env now d db) \<and> registryFrame db (upsertRole env now d db)"
proof (cases "some_elem (\<lambda>r. ro_key r = sr_key d) (id_roles db)")
  case False
  let ?r = "\<lparr>ro_id = newId env db, ro_key = sr_key d, ro_name = sr_name d, ro_description = sr_description d,
    ro_isSystem = True, ro_createdAt = now, ro_updatedAt = now\<rparr>"
  let ?db = "usedId (db\<lparr>id_roles := id_roles db @ [?r]\<rparr>)"
  have up: "upsertRole env now d db = ?db" using False by (simp add: upsertRole_def)
  have "identityInv env ?db"
    by (rule newRole_inv(1) [OF assms(1,2), where k = "sr_key d" and f = True])
      (use False system_key [OF assms(3)] in \<open>auto simp: usedId_def accounts_def roleTable_def\<close>)
  then show ?thesis by (simp add: up registryFrame_def usedId_def)
next
  case True
  let ?f = "\<lambda>r. if ro_key r = sr_key d
    then r\<lparr>ro_name := sr_name d, ro_description := sr_description d, ro_isSystem := True, ro_updatedAt := now\<rparr> else r"
  let ?db = "db\<lparr>id_roles := map ?f (id_roles db)\<rparr>"
  have up: "upsertRole env now d db = ?db" using True by (simp add: upsertRole_def)
  have keys: "keysInv env db" "ownersInv db" using assms(2) by (simp_all add: identityInv_def)
  have table: "roleTable ?db = map (\<lambda>(i, k, f). (i, k, k = sr_key d \<or> f)) (roleTable db)"
    by (simp add: roleTable_def)
  have cols: "map fst (roleTable ?db) = map fst (roleTable db)" "map (fst \<circ> snd) (roleTable ?db) = map (fst \<circ> snd) (roleTable db)"
    by (simp_all add: table comp_def case_prod_beta)
  have "(\<exists>f. (r, OWNER, f) \<in> set (roleTable ?db)) \<longleftrightarrow> (\<exists>f. (r, OWNER, f) \<in> set (roleTable db))" for r
    unfolding table set_map by (rule flagged_image)
  then have owner: "ownerId ?db u = ownerId db u" for u by (intro ownerId_cong) simp_all
  have "keysInv env ?db"
  proof -
    have "fst ` set (roleTable ?db) = fst ` set (roleTable db)" using cols(1) by (metis list.set_map)
    moreover have "\<forall>(i, k, flag) \<in> set (roleTable ?db). cleanKey k \<and> (isSystemKey k \<longrightarrow> flag)"
      using keys(1) by (auto simp: keysInv_def table)
    moreover have "accounts ?db = accounts db" by (simp add: accounts_def)
    ultimately show ?thesis using keys(1) cols by (simp add: keysInv_def)
  qed
  moreover have "ownersInv ?db" by (rule ownersInv_cong [OF keys(2) _ _ owner]) (simp_all add: accounts_def)
  ultimately show ?thesis by (simp add: up identityInv_def registryFrame_def)
qed

lemma fold_frame:
  assumes "\<And>x s. x \<in> set xs \<Longrightarrow> P s \<Longrightarrow> P (f x s) \<and> registryFrame s (f x s)" "P db"
  shows "P (fold f xs db) \<and> registryFrame db (fold f xs db)"
  using assms
proof (induction xs arbitrary: db)
  case (Cons x xs)
  have step: "P (f x db)" "registryFrame db (f x db)" using Cons.prems by auto
  have "P (fold f xs (f x db)) \<and> registryFrame (f x db) (fold f xs (f x db))"
    by (rule Cons.IH) (use Cons.prems(1) step(1) in auto)
  then show ?case using step(2) registryFrame_trans by auto
qed (simp add: registryFrame_def)

lemma registry_inv:
  assumes "inj (ie_rowId env)" "identityInv env db"
  shows "identityInv env (ensureAuthorizationRegistryInTransaction env now db) \<and>
    registryFrame db (ensureAuthorizationRegistryInTransaction env now db)"
proof -
  define db1 where "db1 = fold (upsertPermission env) PERMISSION_REGISTRY db"
  define db2 where "db2 = fold (upsertRole env now) SYSTEM_ROLE_REGISTRY db1"
  have 1: "identityInv env db1 \<and> registryFrame db db1"
    unfolding db1_def by (rule fold_frame) (use assms upsertPermission_inv in auto)
  have 2: "identityInv env db2 \<and> registryFrame db1 db2"
    unfolding db2_def by (rule fold_frame) (use assms 1 upsertRole_inv in auto)
  have "ensureAuthorizationRegistryInTransaction env now db = db2\<lparr>id_rolePermissions :=
      id_rolePermissions (ensureAuthorizationRegistryInTransaction env now db)\<rparr>"
    by (simp add: ensureAuthorizationRegistryInTransaction_def Let_def db1_def db2_def)
  then obtain rps where e: "ensureAuthorizationRegistryInTransaction env now db = db2\<lparr>id_rolePermissions := rps\<rparr>" by blast
  have "identityInv env (db2\<lparr>id_rolePermissions := rps\<rparr>)"
    by (rule inv_cong [of env db2]) (use 2 in \<open>simp_all add: accounts_def roleTable_def\<close>)
  moreover have "registryFrame db (db2\<lparr>id_rolePermissions := rps\<rparr>)"
    using 1 2 by (simp add: registryFrame_def)
  ultimately show ?thesis by (simp add: e)
qed

section \<open>The first owner\<close>

lemma setup_inv:
  assumes "inj (ie_rowId env)" "identityInv env db" "setupFirstOwnerService env input now db = Inr (result, db')"
  shows "identityInv env db'"
proof (cases "id_users db = []")
  case False
  with assms show ?thesis by (auto simp: setupFirstOwnerService_def andThen_Inr_iff)
next
  case True
  define db1 where "db1 = ensureAuthorizationRegistryInTransaction env now db"
  have 1: "identityInv env db1" "registryFrame db db1" using registry_inv [OF assms(1,2)] by (simp_all add: db1_def)
  from assms(3) True obtain name email hash r db2 where r: "find (\<lambda>r. ro_key r = OWNER) (id_roles db1) = Some r"
    and first: "insertUser env \<lparr>us_id = newId env db1, us_displayName = name, us_email = email, us_emailVerifiedAt = Some now,
      us_passwordHash = Some hash, us_oidcProviderId = None, us_profileImageVersion = 0, us_status = ActiveUser,
      us_createdAt = now, us_updatedAt = now\<rparr> db1 = Inr db2"
      "db' = db2\<lparr>id_userRoles := id_userRoles db2 @ [(newId env db1, ro_id r)]\<rparr>"
    by (auto simp: setupFirstOwnerService_def andThen_Inr_iff Let_def db1_def [symmetric] split: option.splits)
  define u where "u = \<lparr>us_id = newId env db1, us_displayName = name, us_email = email, us_emailVerifiedAt = Some now,
      us_passwordHash = Some hash, us_oidcProviderId = None, us_profileImageVersion = 0, us_status = ActiveUser,
      us_createdAt = now, us_updatedAt = now\<rparr>"
  have u: "us_id u = newId env db1" "us_status u = ActiveUser" "us_oidcProviderId u = None"
    and ins: "insertUser env u db1 = Inr db2" and db': "db' = db2\<lparr>id_userRoles := id_userRoles db2 @ [(us_id u, ro_id r)]\<rparr>"
    using first by (simp_all add: u_def)
  note tables = insertUser_tables [OF ins]
  have keys1: "keysInv env db1" using 1(1) by (simp add: identityInv_def)
  have empty: "accounts db1 = []" using 1(2) True by (simp add: registryFrame_def accounts_def)
  then have none: "id_userRoles db1 = []" using keys1 by (cases "id_userRoles db1") (auto simp: keysInv_def)
  have "keysInv env db2"
    by (rule newUser_inv(1) [OF assms(1) keys1, where s = ActiveUser and p = None]) (use tables u in simp_all)
  have role: "(ro_id r, OWNER, ro_isSystem r) \<in> set (roleTable db1)"
    using r role_in_table [of r db1] by (auto simp: find_Some_iff)
  have t: "accounts db' = [(us_id u, ActiveUser, None)]" "roleTable db' = roleTable db1" "id_userRoles db' = [(us_id u, ro_id r)]"
    using tables u empty none by (simp_all add: db' accounts_def roleTable_def)
  have "keysInv env db'"
  proof -
    have "accounts db' = accounts db2" "roleTable db' = roleTable db2" "id_permissions db' = id_permissions db2" "id_rows db' = id_rows db2"
      by (simp_all add: db' accounts_def roleTable_def)
    moreover have "us_id u \<in> fst ` set (accounts db')" "ro_id r \<in> fst ` set (roleTable db')" using t role by force+
    ultimately show ?thesis using \<open>keysInv env db2\<close> t(3) by (simp add: keysInv_def)
  qed
  moreover have "us_id u \<in> activeOwnerIds db'" using role by (auto simp: activeOwnerIds_def ownerId_def t)
  ultimately show ?thesis by (auto simp: identityInv_def ownersInv_def t)
qed

section \<open>External accounts\<close>

lemma loadExternalRoles_Inr:
  assumes "loadExternalRoles db keys required = Inr rs" "keysInv env db"
  shows "set rs \<subseteq> set (id_roles db) \<and> distinct (map ro_id rs) \<and> OWNER \<notin> ro_key ` set rs"
proof -
  from assms(1) have "loadRolesByKeysInTransaction db keys = Inr rs" "OWNER \<notin> ro_key ` set rs"
    by (auto simp: loadExternalRoles_def andThen_Inr_iff split: if_splits)
  with loaded_roles [OF this(1) assms(2)] show ?thesis by simp
qed

lemma synchronize_cases:
  assumes "synchronizeOidcAccountInTransaction provider p groups db = Inr db'"
  obtains (unchanged) "db' = db"
  | (replaced) u rs keys where "findUser db (op_userId p) = Some u" "us_oidcProviderId u \<noteq> None" "\<not> ownerId db (op_userId p)"
      "loadExternalRoles db keys False = Inr rs"
      "db' = revokeAllUserSessionsInTransaction (op_userId p) (replaceUserRolesInTransaction (op_userId p) rs db)"
proof (cases "case find (\<lambda>b. ob_subject b = op_subject p \<and> ob_userId b = op_userId p) (pr_bindings provider) of None \<Rightarrow> False | Some b \<Rightarrow> ob_providerManaged b")
  case False
  with assms that(1) show thesis by (auto simp: synchronizeOidcAccountInTransaction_def Let_def split: option.splits if_splits)
next
  case True
  show thesis
  proof (cases "findUser db (op_userId p)")
    case None
    with assms True show thesis by (simp add: synchronizeOidcAccountInTransaction_def)
  next
    case (Some u)
    with assms True obtain keys rs where
      "us_oidcProviderId u = Some (pr_id provider)" "\<not> ownerId db (op_userId p)" "loadExternalRoles db keys False = Inr rs"
      "db' = db \<or> db' = revokeAllUserSessionsInTransaction (op_userId p) (replaceUserRolesInTransaction (op_userId p) rs db)"
      by (auto simp: synchronizeOidcAccountInTransaction_def andThen_Inr_iff owner_iff split: if_splits)
    with that(1) that(2) [OF Some] show thesis by auto
  qed
qed

lemma synchronize_inv:
  assumes "identityInv env db" "synchronizeOidcAccountInTransaction provider p groups db = Inr db'"
  shows "identityInv env db'"
  using assms(2)
proof (cases rule: synchronize_cases)
  case (replaced u rs keys)
  have "keysInv env db" using assms(1) by (simp add: identityInv_def)
  note rs = loadExternalRoles_Inr [OF replaced(4) this]
  have "identityInv env (assigned (op_userId p) (Some rs) db)"
    by (rule assigned_inv [OF assms(1) _ findUser_account [OF replaced(1)]]) (use rs replaced(3) in auto)
  then show ?thesis using sameAccess_inv [OF sameAccess_sessions(1)] by (simp add: assigned_def replaced(5))
qed (use assms(1) in simp)

lemma resolveAccount_cases:
  assumes "resolveOidcAccountInTransaction env identity now db = Inr (p, db')"
  obtains (bound) "db' = db"
  | (provisioned) pr u rs keys db1 settings where "pr \<in> set (os_providers (id_oidc db))"
      "us_id u = newId env db" "us_status u = ActiveUser" "us_oidcProviderId u = Some (pr_id pr)"
      "insertUser env u db = Inr db1" "loadExternalRoles db keys True = Inr rs"
      "db' = (replaceUserRolesInTransaction (us_id u) rs db1)\<lparr>id_oidc := settings\<rparr>" "storableOidcSettings settings"
proof (cases "find (\<lambda>e. pr_id e = oi_providerId identity) (os_providers (id_oidc db))")
  case None
  with assms show thesis by (simp add: resolveOidcAccountInTransaction_def)
next
  case (Some pr)
  then have pr: "pr \<in> set (os_providers (id_oidc db))" by (auto simp: find_Some_iff)
  show thesis
  proof (cases "find (\<lambda>b. ob_subject b = oi_subject identity) (pr_bindings pr)")
    case (Some b)
    with assms \<open>find _ _ = Some pr\<close> that(1) show thesis
      by (auto simp: resolveOidcAccountInTransaction_def split: if_splits)
  next
    case None
    from assms \<open>find _ _ = Some pr\<close> None obtain b where "provisionOidcAccount env pr identity now db = Inr (b, db')"
      by (auto simp: resolveOidcAccountInTransaction_def andThen_Inr_iff split: if_splits)
    then obtain email keys rs db1 settings where
      "loadExternalRoles db keys True = Inr rs" "storableOidcSettings settings"
      "insertUser env \<lparr>us_id = newId env db, us_displayName = oidcDisplayName (oi_displayName identity) email,
         us_email = email, us_emailVerifiedAt = Some now, us_passwordHash = None, us_oidcProviderId = Some (pr_id pr),
         us_profileImageVersion = 0, us_status = ActiveUser, us_createdAt = now, us_updatedAt = now\<rparr> db = Inr db1"
      "db' = (replaceUserRolesInTransaction (newId env db) rs db1)\<lparr>id_oidc := settings\<rparr>"
      unfolding provisionOidcAccount_def Let_def by (auto simp: andThen_Inr_iff split: if_splits)
    from that(2) [OF pr _ _ _ this(3,1) _ this(2)] this(4) show thesis by simp
  qed
qed

lemma resolveAccount_inv:
  assumes "inj (ie_rowId env)" "identityInv env db" "resolveOidcAccountInTransaction env identity now db = Inr (p, db')"
  shows "identityInv env db'"
  using assms(3)
proof (cases rule: resolveAccount_cases)
  case (provisioned pr u rs keys db1 settings)
  have keys: "keysInv env db" using assms(2) by (simp add: identityInv_def)
  have init: "accounts db \<noteq> []" using assms(2) provisioned(1) by (auto simp: identityInv_def ownersInv_def)
  note rs = loadExternalRoles_Inr [OF provisioned(6) keys] and tables = insertUser_tables [OF provisioned(5)]
  have inv1: "identityInv env db1"
    by (rule newAccount_inv [OF assms(1,2) init, where status = ActiveUser and provider = "Some (pr_id pr)"])
      (use tables provisioned(2-4) in simp_all)
  have "\<not> ownerId db1 (us_id u)"
    using newUser_inv(3,4) [OF assms(1) keys, of db1 ActiveUser "Some (pr_id pr)"] tables provisioned(2-4) by simp
  then have "identityInv env (assigned (us_id u) (Some rs) db1)"
    by (intro assigned_inv [OF inv1, where status = ActiveUser and provider = "Some (pr_id pr)"])
      (use rs tables provisioned(3,4) in auto)
  moreover have "accounts (assigned (us_id u) (Some rs) db1) \<noteq> []" using tables by (simp add: assigned_def)
  ultimately show ?thesis
    using sameAccess_inv [OF sameAccess_sessions(11)] by (auto simp: assigned_def provisioned(7))
qed (use assms(2) in simp)

section \<open>Logins\<close>

lemmas onlyFactors_inv = sameAccess_inv [OF onlyFactors_def [THEN iffD1, THEN conjunct1]]

lemma firstFactor_inv: "requireFirstFactor env consumed now db = Inr (allowed, db') \<Longrightarrow> identityInv env db \<Longrightarrow> identityInv env db'"
  by (erule firstFactor_cases) (auto intro: synchronize_inv)

lemma completeMfa_inv:
  assumes "completeLoginMfaTransaction env consumed p token expired now db = Inr (result, db')" "identityInv env db"
  shows "identityInv env db'"
  using assms(1)
  by (cases rule: completeMfa_cases)
    (use assms(2) in \<open>blast intro: firstFactor_inv onlyFactors_inv [OF spendCode_only] sameAccess_inv [OF sameAccess_createSession]\<close>)+

lemma passkeyLogin_inv:
  assumes "passkeyLoginTransaction env passkey info token expired now db = Inr (result, db')" "identityInv env db"
  shows "identityInv env db'"
  using assms(1)
  by (cases rule: passkeyLogin_cases)
    (use assms(2) in \<open>blast intro: onlyFactors_inv sameAccess_inv [OF sameAccess_createSession]\<close>)+

lemma oidcLogin_inv:
  assumes "inj (ie_rowId env)" "authenticateOidcIdentityService env identity token expired now db = Inr (result, db')" "identityInv env db"
  shows "identityInv env db'"
  using assms(2)
proof (rule oidcLogin_cases)
  fix p db1 allowed db2
  assume steps: "resolveOidcAccountInTransaction env identity now db = Inr (p, db1)"
    "requireOidcAuthenticationInTransaction db1 p (oi_groups identity) now = Inr (allowed, db2)"
    and last: "db' = db2 \<or> (\<exists>sq s. createSessionInTransaction env sq now db2 = Inr (s, db'))"
  have "identityInv env db1" by (rule resolveAccount_inv [OF assms(1,3) steps(1)])
  with steps(2) have "identityInv env db2" by (cases rule: oidcAuthentication_cases) (auto intro: synchronize_inv)
  with last show ?thesis by (auto intro: sameAccess_inv [OF sameAccess_createSession])
qed

section \<open>Reachable states\<close>

lemma fresh_inv: "freshInstallation db \<Longrightarrow> identityInv env db"
  by (simp add: freshInstallation_def inv_defs accounts_def roleTable_def idsBelow_def)

lemma identityStep_inv:
  assumes "inj (ie_rowId env)" "identityStep env db e db'" "identityInv env db"
  shows "identityInv env db'"
  using assms(2,3)
proof (cases rule: identityStep.cases)
  case (oidcSettings actor access settings)
  have "accounts db \<noteq> []"
    using oidcSettings(3) by (auto simp: resolveActiveUserAccessInTransaction_def accounts_def findUser_def split: option.splits)
  from sameAccess_inv [OF sameAccess_sessions(11) [OF this] assms(3)] show ?thesis by (simp add: oidcSettings(2))
qed (use assms(1) in \<open>auto intro: registry_inv [THEN conjunct1] setup_inv createRole_inv updateRole_inv deleteRole_inv updateUser_inv
    disableUser_inv enableUser_inv issueInvite_inv acceptInvite_inv synchronize_inv resolveAccount_inv
    sameAccess_inv [OF sameAccess_reset(1)] sameAccess_inv [OF sameAccess_reset(2)] sameAccess_inv [OF sameAccess_self(1)]
    sameAccess_inv [OF sameAccess_self(2)] sameAccess_inv [OF sameAccess_login] sameAccess_inv [OF sameAccess_createSession]
    sameAccess_inv [OF sameAccess_readSession] sameAccess_inv [OF sameAccess_revokeSession]
    sameAccess_inv [OF sameAccess_sessions(2)] completeMfa_inv passkeyLogin_inv oidcLogin_inv onlyFactors_inv [OF confirmTotp_only]
    onlyFactors_inv [OF regenerateCodes_only] onlyFactors_inv [OF disableTotp_only] onlyFactors_inv [OF passkeys_only(1)]
    onlyFactors_inv [OF passkeys_only(2)] onlyFactors_inv [OF passkeys_only(3)]\<close>)

end
