(* ===== verification/IdentityPowers.thy ===== *)
theory IdentityPowers
  imports IdentityReach
begin

text \<open>Who can gain which permission, and which sessions can exist later.\<close>

interpretation identity: invariant_system freshInstallation
  "\<lambda>db e db'. inj (ie_rowId env) \<and> identityStep env db e db'" "identityInv env" for env
  by unfold_locales (auto intro: fresh_inv identityStep_inv)

lemma reachable_inv:
  assumes "inj (ie_rowId env)" "reach freshInstallation (identityStep env) db"
  shows "identityInv env db"
  using identity.inv_reach [of env db] assms by simp

section \<open>Permissions gained\<close>

definition noGain :: "string \<Rightarrow> identity_db \<Rightarrow> identity_db \<Rightarrow> bool" where
  "noGain actor db db' \<longleftrightarrow> (\<forall>u. (ownerId db' u \<longrightarrow> ownerId db u) \<and> grants db' u \<subseteq> grants db u \<union> powers db actor)"

lemma noGain_powers:
  assumes "noGain actor db db'" "keysInv env db" "keysInv env db'"
  shows "powers db' u \<subseteq> powers db u \<union> powers db actor"
  using assms(1) grants_registered [OF assms(2), of u] grants_registered [OF assms(3), of u]
  unfolding noGain_def powers_def by (cases "ownerId db' u"; cases "ownerId db u") auto

lemma sameAccess_access:
  assumes "sameAccess db db'" shows "ownerId db' u = ownerId db u" "grants db' u = grants db u"
  using assms by (simp_all add: sameAccess_def ownerId_def grants_def)

lemma noGain_sameAccess: "noGain a db db1 \<Longrightarrow> sameAccess db1 db' \<Longrightarrow> noGain a db db'"
  by (simp add: noGain_def sameAccess_access)

lemma noGain_refl [simp]: "noGain a db db"
  by (simp add: noGain_def)

lemma onlyStatus_noGain: "onlyStatus i db db' \<Longrightarrow> noGain a db db'"
  by (simp add: noGain_def onlyStatus_def ownerId_def grants_def)

lemma actor_powers:
  assumes "requirePermissionInTransaction db i k = Inr a" "keysInv env db" "\<not> ownerId db i"
  shows "set (au_permissions a) = powers db i" "OWNER \<notin> set (au_roles a)"
  using requirePermission_Inr [OF assms(1)] set_getUserPermissionKeys [OF assms(2), of i] assms(3) by (simp_all add: owner_iff)

lemma noGain_assigned:
  assumes "keysInv env db" "set rs \<subseteq> set (id_roles db)" "OWNER \<in> ro_key ` set rs \<longrightarrow> ownerId db u"
    "\<And>r. r \<in> set rs \<Longrightarrow> set (rolePermissionKeys db (ro_id r)) \<subseteq> powers db actor"
  shows "noGain actor db (replaceUserRolesInTransaction u rs db)"
  using assms ownerId_replace [OF assms(1,2)] grants_replace by (auto simp: noGain_def)

lemma granted_roles:
  assumes "assertRoleAssignmentAllowedInTransaction db a rs = Inr x" "keysInv env db" "OWNER \<notin> set (au_roles a)"
    "set (au_permissions a) = powers db actor"
  shows "OWNER \<notin> ro_key ` set rs" "\<And>r. r \<in> set rs \<Longrightarrow> set (rolePermissionKeys db (ro_id r)) \<subseteq> powers db actor"
  using assertRoleAssignment_Inr [OF assms(1-3)] assms(4) by force+

lemma updateUser_noGain:
  assumes inv: "identityInv env db" and run: "updateUserService env (Some s) input now db = Inr db'"
    and plain: "\<not> ownerId db (au_id (cs_user s))"
  shows "noGain (au_id (cs_user s)) db db'"
  using run
proof (rule updateUser_effect)
  fix selected emailChanged email
  assume check: "checkUserUpdate db (au_id (cs_user s)) input email = Inr (selected, emailChanged)"
    and same: "sameAccess (assigned (uu_userId input) selected db) db'"
  have keys: "keysInv env db" using inv by (simp add: identityInv_def)
  from check obtain a where a: "au_roles a = getUserRoleKeysInTransaction db (au_id (cs_user s))"
      "au_permissions a = getUserPermissionKeysInTransaction db (au_id (cs_user s))"
    and sel: "case selected of None \<Rightarrow> True | Some rs \<Rightarrow> (\<exists>keys. loadRolesByKeysInTransaction db keys = Inr rs) \<and>
       assertRoleAssignmentAllowedInTransaction db a rs = Inr ()"
    by (rule checkUserUpdate_Inr) (auto split: option.splits)
  have actor: "OWNER \<notin> set (au_roles a)" "set (au_permissions a) = powers db (au_id (cs_user s))"
    using a plain set_getUserPermissionKeys [OF keys] by (simp_all add: owner_iff)
  have "noGain (au_id (cs_user s)) db (assigned (uu_userId input) selected db)"
  proof (cases selected)
    case (Some rs)
    then obtain ks where ks: "loadRolesByKeysInTransaction db ks = Inr rs" "assertRoleAssignmentAllowedInTransaction db a rs = Inr ()"
      using sel by auto
    note g = granted_roles [OF ks(2) keys actor]
    show ?thesis unfolding Some assigned_def option.case
      by (rule noGain_assigned [OF keys]) (use g loaded_roles [OF ks(1) keys] in auto)
  qed (simp add: assigned_def)
  then show ?thesis using same by (rule noGain_sameAccess)
qed

lemma current_roles_loaded:
  assumes "keysInv env db" "(u, i) \<in> set (id_userRoles db)" "loadRolesByKeysInTransaction db (xs @ getUserRoleKeysInTransaction db u @ ys) = Inr roles"
  shows "\<exists>r \<in> set roles. ro_id r = i \<and> ro_key r \<in> set (getUserRoleKeysInTransaction db u)"
proof -
  have "i \<in> fst ` set (roleTable db)" using assms(1,2) by (auto simp: keysInv_def)
  then obtain r where r: "r \<in> set (id_roles db)" "ro_id r = i" by (auto simp: roleTable_def)
  then have key: "ro_key r \<in> set (getUserRoleKeysInTransaction db u)"
    using assms(2) role_in_table [OF r(1)] by (auto simp: set_getUserRoleKeys)
  have "cleanKey (ro_key r)" using assms(1) role_in_table [OF r(1)] by (auto simp: keysInv_def)
  then have "ro_key r \<in> set (normalizeKeys (xs @ getUserRoleKeysInTransaction db u @ ys))"
    unfolding set_normalizeKeys using key by (force simp: cleanKey_def)
  then have "r \<in> set roles" using loadRoles_Inr(1) [OF assms(3,1)] r(1) by simp
  with r(2) key show ?thesis by blast
qed

lemma retained_powers:
  assumes keys: "keysInv env db" and check: "checkUserUpdate db actor input email = Inr (selected, emailChanged)"
    and user: "findUser db (uu_userId input) = Some u" and changed: "emailChanged" and other: "us_id u \<noteq> actor"
    and plain: "\<not> ownerId db actor"
  shows "\<not> ownerId (assigned (us_id u) selected db) (us_id u) \<and> grants (assigned (us_id u) selected db) (us_id u) \<subseteq> powers db actor"
  using check
proof (rule checkUserUpdate_Inr)
  fix user' :: user_row and a
  let ?current = "getUserRoleKeysInTransaction db (us_id user')"
  let ?next = "case selected of None \<Rightarrow> ?current | Some rs \<Rightarrow> map ro_key rs"
  assume u': "findUser db (uu_userId input) = Some user'"
    and a: "au_roles a = getUserRoleKeysInTransaction db actor" "au_permissions a = getUserPermissionKeysInTransaction db actor"
    and sel: "case selected of None \<Rightarrow> True | Some rs \<Rightarrow> (\<exists>keys. uu_roleKeys input = Some keys \<and> loadRolesByKeysInTransaction db keys = Inr rs) \<and>
       assertRoleAssignmentAllowedInTransaction db a rs = Inr () \<and>
       (us_oidcProviderId user' \<noteq> None \<longrightarrow> OWNER \<notin> ro_key ` set rs)"
    and rest: "let nextKeys = ?next in
       (OWNER \<in> set ?current \<or> OWNER \<in> set nextKeys \<longrightarrow> OWNER \<in> set (au_roles a)) \<and>
       (us_status user' = ActiveUser \<and> OWNER \<in> set ?current \<and> OWNER \<notin> set nextKeys \<longrightarrow> countActiveOwnersInTransaction db > 1) \<and>
       (emailChanged \<and> us_id user' \<noteq> actor \<longrightarrow>
          (\<exists>roles. loadRolesByKeysInTransaction db (au_roles a @ ?current @
               (case uu_roleKeys input of None \<Rightarrow> [] | Some ks \<Rightarrow> ks)) = Inr roles \<and>
             assertRoleAssignmentAllowedInTransaction db a (filter (\<lambda>r. contains nextKeys (ro_key r)) roles) = Inr ()))"
  have eq: "user' = u" using u' user by simp
  have actor: "OWNER \<notin> set (au_roles a)" "set (au_permissions a) = powers db actor"
    using a plain set_getUserPermissionKeys [OF keys] by (simp_all add: owner_iff)
  have noOwner: "\<not> ownerId db (us_id u)" using rest actor(1) by (auto simp: Let_def eq owner_iff)
  show ?thesis
  proof (cases selected)
    case (Some rs)
    then obtain ks where ks: "loadRolesByKeysInTransaction db ks = Inr rs" "assertRoleAssignmentAllowedInTransaction db a rs = Inr ()"
      using sel by auto
    note g = granted_roles [OF ks(2) keys actor] and l = loaded_roles [OF ks(1) keys]
    show ?thesis using g ownerId_replace [OF keys, of rs "us_id u" "us_id u"] l
      by (auto simp: Some assigned_def grants_replace)
  next
    case None
    from rest changed other obtain roles where roles:
      "loadRolesByKeysInTransaction db (au_roles a @ ?current @ (case uu_roleKeys input of None \<Rightarrow> [] | Some ks \<Rightarrow> ks)) = Inr roles"
      "assertRoleAssignmentAllowedInTransaction db a (filter (\<lambda>r. contains ?current (ro_key r)) roles) = Inr ()"
      unfolding Let_def None option.case eq by blast
    note g = granted_roles(2) [OF roles(2) keys actor]
    have "set (rolePermissionKeys db i) \<subseteq> powers db actor" if "(us_id u, i) \<in> set (id_userRoles db)" for i
    proof -
      from current_roles_loaded [OF keys that roles(1) [unfolded eq]] obtain r where
        "r \<in> set roles" "ro_id r = i" "ro_key r \<in> set (getUserRoleKeysInTransaction db (us_id u))" by blast
      with g [of r] show ?thesis by (simp add: eq)
    qed
    then have "grants db (us_id u) \<subseteq> powers db actor" by (force simp: grants_def set_rolePermissionKeys)
    with noOwner show ?thesis by (simp add: None assigned_def)
  qed
qed

lemma issueInvite_noGain:
  assumes inj: "inj (ie_rowId env)" and inv: "identityInv env db"
    and run: "issueInviteService env (Some s) input now db = Inr (userId, db')" and plain: "\<not> ownerId db (au_id (cs_user s))"
  shows "noGain (au_id (cs_user s)) db db'"
  using run
proof (rule issueInvite_Inr)
  fix a rs currentKeys db1 email name
  assume actor: "requirePermissionInTransaction db (au_id (cs_user s)) USERS_CREATE = Inr a"
    and roles: "loadRolesByKeysInTransaction db (ii_roleKeys input) = Inr rs"
    and allowed: "assertRoleAssignmentAllowedInTransaction db a rs = Inr ()"
    and invited: "invitedUser env input email name now db = Inr (userId, currentKeys, db1)"
    and same: "sameAccess (replaceUserRolesInTransaction userId rs db1) db'"
  have keys: "keysInv env db" using inv by (simp add: identityInv_def)
  note g = granted_roles [OF allowed keys actor_powers(2,1) [OF actor keys plain]] and rs = loaded_roles [OF roles keys]
  have "noGain (au_id (cs_user s)) db (replaceUserRolesInTransaction userId rs db)"
    by (rule noGain_assigned [OF keys]) (use g rs in auto)
  moreover have "ownerId (replaceUserRolesInTransaction userId rs db1) v = ownerId (replaceUserRolesInTransaction userId rs db) v \<and>
      grants (replaceUserRolesInTransaction userId rs db1) v = grants (replaceUserRolesInTransaction userId rs db) v" for v
    using invited
  proof (cases rule: invitedUser_cases)
    case (known u)
    with sameAccess_access [OF sameAccess_replace [OF known(6)]] show ?thesis by simp
  next
    case created
    then show ?thesis by (simp add: ownerId_def grants_def set_replaceUserRoles)
  qed
  ultimately have "noGain (au_id (cs_user s)) db (replaceUserRolesInTransaction userId rs db1)" by (simp add: noGain_def)
  then show ?thesis using same by (rule noGain_sameAccess)
qed

lemma createRole_noGain:
  assumes inj: "inj (ie_rowId env)" and inv: "identityInv env db"
    and run: "createRoleService env (Some s) input now db = Inr (r, db')"
  shows "noGain actor db db'"
  using run
proof (rule createRole_Inr)
  fix a ps
  assume r: "cleanKey (ro_key r)" "\<not> isSystemKey (ro_key r)" "\<forall>q \<in> set (id_roles db). ro_key q \<noteq> ro_key r" "ro_id r = newId env db"
    and db': "db' = replaceRolePermissionsInTransaction (newId env db) ps (usedId (db\<lparr>id_roles := id_roles db @ [r]\<rparr>))"
  have fresh: "newId env db \<notin> fst ` set (roleTable db)" and owner: "\<And>u. ownerId db' u = ownerId db u"
    by (rule newRole_inv(2,3) [OF inj inv, of db' "ro_key r" "ro_isSystem r"];
        use r in \<open>auto simp: db' usedId_def accounts_def roleTable_def\<close>)+
  have "keysInv env db" using inv by (simp add: identityInv_def)
  then have "q \<noteq> newId env db" if "(u, q) \<in> set (id_userRoles db)" for u q
    using that fresh by (auto simp: keysInv_def)
  then have "grants db' u \<subseteq> grants db u" for u
    by (auto simp: grants_def db' usedId_def replaceRolePermissionsInTransaction_def)
  with owner show ?thesis by (auto simp: noGain_def)
qed

lemma updateRole_noGain:
  assumes inv: "identityInv env db" and run: "updateRoleService (Some s) input now db = Inr db'"
    and plain: "\<not> ownerId db (au_id (cs_user s))"
  shows "noGain (au_id (cs_user s)) db db'"
  using run
proof (rule updateRole_Inr)
  fix a r ps
  assume actor: "requirePermissionInTransaction db (au_id (cs_user s)) ROLES_UPDATE = Inr a"
    and ps: "case ps of None \<Rightarrow> True | Some qs \<Rightarrow> set qs \<subseteq> set (id_permissions db) \<and> assertPermissionAssignmentAllowed a qs = Inr ()"
    and "\<exists>name description. db' = (case ps of None \<Rightarrow> updateRole (ro_id r) name description now db
       | Some qs \<Rightarrow> replaceRolePermissionsInTransaction (ro_id r) qs (updateRole (ro_id r) name description now db))"
  then obtain name description where db': "db' = (case ps of None \<Rightarrow> updateRole (ro_id r) name description now db
       | Some qs \<Rightarrow> replaceRolePermissionsInTransaction (ro_id r) qs (updateRole (ro_id r) name description now db))" by blast
  have keys: "keysInv env db" using inv by (simp add: identityInv_def)
  note a = actor_powers [OF actor keys plain]
  have owner: "ownerId db' u = ownerId db u" for u by (simp add: db' ownerId_def split: option.splits)
  show ?thesis
  proof (cases ps)
    case None
    then show ?thesis by (simp add: noGain_def owner) (simp add: db' grants_def)
  next
    case (Some qs)
    have allowed: "pe_key q \<in> powers db (au_id (cs_user s))" if "q \<in> set qs" for q
      using that ps Some a by (auto simp: assertPermissionAssignmentAllowed_def)
    have unique: "p = q" if "p \<in> set (id_permissions db)" "q \<in> set qs" "pe_id p = pe_id q" for p q
    proof -
      have "inj_on pe_id (set (id_permissions db))" using keys by (simp add: keysInv_def distinct_map)
      moreover have "q \<in> set (id_permissions db)" using ps Some that(2) by auto
      ultimately show ?thesis using inj_onD that(1,3) by fastforce
    qed
    have "grants db' u \<subseteq> grants db u \<union> powers db (au_id (cs_user s))" for u
    proof
      fix k assume "k \<in> grants db' u"
      then obtain p i where p: "k = pe_key p" "(u, i) \<in> set (id_userRoles db)" "p \<in> set (id_permissions db)"
        "(i, pe_id p) \<in> set (id_rolePermissions db) \<or> (\<exists>q \<in> set qs. pe_id p = pe_id q)"
        by (auto simp: grants_def db' Some replaceRolePermissionsInTransaction_def)
      then show "k \<in> grants db u \<union> powers db (au_id (cs_user s))"
        using allowed unique [OF p(3)] by (auto simp: grants_def)
    qed
    with owner show ?thesis by (simp add: noGain_def)
  qed
qed

lemma deleteRole_noGain:
  assumes run: "deleteRoleService (Some s) roleId db = Inr db'"
  shows "noGain actor db db'"
  using run
  by (rule deleteRole_Inr) (auto simp: noGain_def ownerId_def grants_def deleteRole_tables, auto simp: deleteRole_def)

lemma administered_noGain:
  assumes "inj (ie_rowId env)" "identityInv env db" "identityStep env db (Administered actor) db'" "\<not> ownerId db actor"
  shows "noGain actor db db'"
  using assms(3)
proof (cases rule: identityStep.cases)
  case (disableUser s userId now)
  from disableUser(2) show ?thesis
  proof (rule disableUser_Inr)
    assume "db' = deleteUserTokens userId (revokeAllUserSessionsInTransaction userId
       (IdentityServices.updateUser userId (\<lambda>u. if us_status u = DisabledUser then u else u\<lparr>us_status := DisabledUser, us_updatedAt := now\<rparr>) db))"
    then show ?thesis
      by (auto simp: noGain_def ownerId_def grants_def roleTable_def deleteUserTokens_def revokeAllUserSessionsInTransaction_def)
  qed
next
  case (enableUser s userId now)
  from enableUser(2) show ?thesis by (rule enableUser_Inr) (rule onlyStatus_noGain)
qed (use assms in \<open>auto intro: createRole_noGain updateRole_noGain deleteRole_noGain updateUser_noGain issueInvite_noGain\<close>)

section \<open>Sessions over time\<close>

text \<open>A session of a later state is one of an earlier state, or has an identifier generated since.\<close>

definition sessionsFrom :: "identity_env \<Rightarrow> identity_db \<Rightarrow> identity_db \<Rightarrow> bool" where
  "sessionsFrom env db db' \<longleftrightarrow> id_rows db \<le> id_rows db' \<and>
     (\<forall>s \<in> set (id_sessions db'). (\<exists>t \<in> set (id_sessions db). se_id t = se_id s \<and> se_userId t = se_userId s) \<or>
        (\<exists>k. id_rows db \<le> k \<and> k < id_rows db' \<and> se_id s = ie_rowId env k))"

lemma sessionsFrom_trans: "sessionsFrom env a b \<Longrightarrow> sessionsFrom env b c \<Longrightarrow> sessionsFrom env a c"
proof -
  assume ab: "sessionsFrom env a b" and bc: "sessionsFrom env b c"
  have "(\<exists>t \<in> set (id_sessions a). se_id t = se_id s \<and> se_userId t = se_userId s) \<or>
      (\<exists>k. id_rows a \<le> k \<and> k < id_rows c \<and> se_id s = ie_rowId env k)" if s: "s \<in> set (id_sessions c)" for s
  proof -
    from bc s consider t where "t \<in> set (id_sessions b)" "se_id t = se_id s" "se_userId t = se_userId s"
      | k where "id_rows b \<le> k" "k < id_rows c" "se_id s = ie_rowId env k" by (auto simp: sessionsFrom_def)
    then show ?thesis
    proof cases
      case (1 t)
      with ab bc show ?thesis unfolding sessionsFrom_def by (metis less_le_trans)
    next
      case (2 k)
      with ab show ?thesis unfolding sessionsFrom_def by (metis le_trans)
    qed
  qed
  with ab bc show ?thesis by (simp add: sessionsFrom_def)
qed

lemma sessionsFrom_new:
  assumes "set (id_sessions db') \<subseteq> insert s (set (id_sessions db))" "se_id s = ie_rowId env (id_rows db)" "id_rows db < id_rows db'"
  shows "sessionsFrom env db db'"
proof -
  have "(\<exists>t \<in> set (id_sessions db). se_id t = se_id r \<and> se_userId t = se_userId r) \<or>
      (\<exists>k. id_rows db \<le> k \<and> k < id_rows db' \<and> se_id r = ie_rowId env k)" if "r \<in> set (id_sessions db')" for r
  proof (cases "r = s")
    case True
    then show ?thesis using assms(2,3) by (intro disjI2 exI [of _ "id_rows db"]) simp
  next
    case False
    then show ?thesis using that assms(1) by (intro disjI1 bexI [of _ r]) auto
  qed
  then show ?thesis using assms(3) by (simp add: sessionsFrom_def)
qed

lemma sessionsFrom_subset:
  "set (id_sessions db') \<subseteq> set (id_sessions db) \<Longrightarrow> id_rows db \<le> id_rows db' \<Longrightarrow> sessionsFrom env db db'"
  by (auto simp: sessionsFrom_def)

lemma sameAccess_rows: "sameAccess db db' \<Longrightarrow> id_rows db \<le> id_rows db'"
  by (simp add: sameAccess_def)

lemma createSession_from:
  assumes "createSessionInTransaction env sq now db = Inr (s, db')"
  shows "sessionsFrom env db db'"
  using assms
proof (rule createSession_Inr)
  fix u access p h db1
  let ?s = "\<lparr>se_id = newId env db, se_userId = sq_userId sq, se_tokenHash = h, se_oidcProof = p, se_lastSeenAt = now,
       se_reauthenticatedAt = sq_reauthenticatedAt sq, se_expiresAt = sessionExpiry p now\<rparr>"
  assume ins: "insertSession env ?s db = Inr db1" and db': "db' = pruneExpiredSessionsInTransaction (sq_expired sq) now db1"
  show ?thesis
    by (rule sessionsFrom_new [of _ ?s])
      (use ins in \<open>auto simp: db' insertSession_def usedId_def pruneExpiredSessionsInTransaction_def newId_def split: if_splits\<close>)
qed

lemma login_from:
  "loginService env input earlier now db = Inr (result, db') \<Longrightarrow> sessionsFrom env db db'"
  by (auto simp: loginService_def loginTransaction_def andThen_Inr_iff split: option.splits if_splits prod.splits sum.splits auth_error.splits
    intro: createSession_from sessionsFrom_subset)

lemma onlyFactors_from: "onlyFactors db db' \<Longrightarrow> sessionsFrom env db db'"
  by (auto simp: onlyFactors_def intro!: sessionsFrom_subset sameAccess_rows)

lemma synchronize_from:
  "synchronizeOidcAccountInTransaction provider p groups db = Inr db' \<Longrightarrow> sessionsFrom env db db'"
  by (erule synchronize_cases) (auto intro!: sessionsFrom_subset simp: revokeAllUserSessionsInTransaction_def)

lemma resolveAccount_from:
  assumes "resolveOidcAccountInTransaction env identity now db = Inr (p, db')"
  shows "sessionsFrom env db db'"
  using assms
proof (cases rule: resolveAccount_cases)
  case (provisioned pr u rs keys db1 settings)
  with insertUser_tables [OF provisioned(5)] show ?thesis by (auto intro!: sessionsFrom_subset)
qed (auto intro: sessionsFrom_subset)

lemma completeMfa_from:
  assumes "completeLoginMfaTransaction env consumed p token expired now db = Inr (result, db')"
  shows "sessionsFrom env db db'"
proof -
  have first: "sessionsFrom env db db1" if "requireFirstFactor env consumed now db = Inr (allowed, db1)" for allowed db1
    using that by (cases rule: firstFactor_cases) (auto intro: sessionsFrom_subset synchronize_from)
  show ?thesis
    using assms
    by (cases rule: completeMfa_cases)
      (auto dest!: first spendCode_only onlyFactors_from [where env = env] createSession_from intro: sessionsFrom_subset sessionsFrom_trans)
qed

lemma readSession_from: "sessionsFrom env db (snd (getSessionByTokenService env token now db))"
proof -
  have "sessionsFrom env db (touchSession i now db)" for i by (auto simp: sessionsFrom_def touchSession_def)
  moreover have "sessionsFrom env db db" by (simp add: sessionsFrom_subset)
  ultimately show ?thesis by (auto simp: getSessionByTokenService_def split: sum.splits option.splits)
qed

lemma identityStep_sessions:
  assumes inj: "inj (ie_rowId env)" and inv: "identityInv env db" and step: "identityStep env db e db'"
  shows "sessionsFrom env db db'"
  using step
proof (cases rule: identityStep.cases)
  case (registry now)
  then show ?thesis using registry_inv [OF inj inv] by (auto simp: registryFrame_def intro: sessionsFrom_subset)
next
  case (setUp input now result)
  then show ?thesis
    using registry_inv [OF inj inv, of now]
    by (auto simp: setupFirstOwnerService_def andThen_Inr_iff Let_def registryFrame_def split: if_splits option.splits
      dest!: insertUser_Inr intro!: sessionsFrom_subset simp: usedId_def intro: le_SucI)
next
  case (createRole s roleInput now r)
  from createRole(2) show ?thesis
    by (rule createRole_Inr) (auto simp: usedId_def intro: sessionsFrom_subset)
next
  case (updateRole s roleUpdate now)
  from updateRole(2) show ?thesis
    by (rule updateRole_Inr) (auto intro!: sessionsFrom_subset split: option.splits)
next
  case (deleteRole s roleId)
  from deleteRole(2) show ?thesis by (rule deleteRole_Inr) (simp add: sessionsFrom_subset deleteRole_tables)
next
  case (updateUser s userUpdate now)
  from updateUser(2) show ?thesis
  proof (rule updateUser_effect)
    fix selected emailChanged email
    assume "sameAccess (assigned (uu_userId userUpdate) selected db) db'" "set (id_sessions db') \<subseteq> set (id_sessions db)"
    then show ?thesis by (intro sessionsFrom_subset) (auto simp: assigned_def dest: sameAccess_rows split: option.splits)
  qed
next
  case (disableUser s userId now)
  from disableUser(2) show ?thesis
    by (rule disableUser_Inr)
      (auto intro!: sessionsFrom_subset simp: deleteUserTokens_def revokeAllUserSessionsInTransaction_def)
next
  case (enableUser s userId now)
  from enableUser(2) show ?thesis by (rule enableUser_Inr) (auto intro!: sessionsFrom_subset simp: onlyStatus_def)
next
  case (invite s inviteInput now userId)
  from invite(2) show ?thesis
  proof (rule issueInvite_Inr)
    fix a rs currentKeys db1 email name
    assume invited: "invitedUser env inviteInput email name now db = Inr (userId, currentKeys, db1)"
      and same: "sameAccess (replaceUserRolesInTransaction userId rs db1) db'" "id_sessions db' = id_sessions db1"
    have "id_sessions db1 = id_sessions db" "id_rows db \<le> id_rows db1"
      using invited by (cases rule: invitedUser_cases; auto dest: sameAccess_rows)+
    then show ?thesis using same by (intro sessionsFrom_subset) (auto dest: sameAccess_rows)
  qed
next
  case (acceptInvite acceptInput now consumed)
  from acceptInvite_onlyStatus [OF acceptInvite(2)] show ?thesis by (auto intro!: sessionsFrom_subset simp: onlyStatus_def)
next
  case (issueReset email token now issued)
  from issueReset(2) show ?thesis
    by (cases rule: issueReset_cases)
      (auto intro!: sessionsFrom_subset simp: insertReset_def Let_def usedId_def split: if_splits)
next
  case (consumeReset token password salt now consumed)
  from consumeReset(2) show ?thesis
    by (cases rule: consumeReset_cases) (auto intro!: sessionsFrom_subset simp: revokeAllUserSessionsInTransaction_def)
next
  case (changePassword s password salt now)
  then show ?thesis
    by (auto simp: changeCurrentPasswordService_def andThen_Inr_iff Let_def revokeOtherUserSessionsInTransaction_def
      split: option.splits if_splits intro!: sessionsFrom_subset)
next
  case (profileImage s now)
  then show ?thesis by (auto simp: updateCurrentProfileImageService_def andThen_Inr_iff intro!: sessionsFrom_subset)
next
  case (synchronize provider p groups)
  from synchronize(3) show ?thesis by (rule synchronize_from)
next
  case (resolveAccount identity now p)
  from resolveAccount(2) show ?thesis by (rule resolveAccount_from)
next
  case (revokeSession token)
  then show ?thesis by (auto simp: revokeSessionByTokenService_def split: sum.splits intro!: sessionsFrom_subset)
next
  case (revokeOthers userId sessionId)
  then show ?thesis by (auto simp: revokeOtherUserSessionsInTransaction_def intro!: sessionsFrom_subset)
next
  case (oidcSettings actor access settings)
  then show ?thesis by (simp add: sessionsFrom_subset)
next
  case (confirmTotp own secret counter codeHashes now created)
  from onlyFactors_from [OF confirmTotp_only [OF confirmTotp(2)]] show ?thesis .
next
  case (regenerateCodes own codeHashes now changed)
  from onlyFactors_from [OF regenerateCodes_only [OF regenerateCodes(2)]] show ?thesis .
next
  case (disableTotp own now changed)
  from onlyFactors_from [OF disableTotp_only [OF disableTotp(2)]] show ?thesis .
next
  case (registerPasskey own name registration now created)
  from onlyFactors_from [OF passkeys_only(1) [OF registerPasskey(2)]] show ?thesis .
next
  case (renamePasskey own passkeyName passkeyId now changed)
  from onlyFactors_from [OF passkeys_only(2) [OF renamePasskey(2)]] show ?thesis .
next
  case (deletePasskey own passkeyId now changed)
  from onlyFactors_from [OF passkeys_only(3) [OF deletePasskey(2)]] show ?thesis .
next
  case (completeMfa consumedChallenge mfaProof token expired now mfaResult)
  from completeMfa(2) show ?thesis by (rule completeMfa_from)
next
  case (passkeyLogin passkey authentication token expired now mfaResult)
  from passkeyLogin(2) show ?thesis
    by (cases rule: passkeyLogin_cases) (auto dest: onlyFactors_from createSession_from intro: sessionsFrom_trans)
next
  case (oidcLogin identity token expired now oidcResult)
  from oidcLogin(2) show ?thesis
  proof (rule oidcLogin_cases)
    fix p db1 allowed db2
    assume steps: "resolveOidcAccountInTransaction env identity now db = Inr (p, db1)"
      "requireOidcAuthenticationInTransaction db1 p (oi_groups identity) now = Inr (allowed, db2)"
      and last: "db' = db2 \<or> (\<exists>sq s. createSessionInTransaction env sq now db2 = Inr (s, db'))"
    have "sessionsFrom env db1 db2"
      using steps(2) by (cases rule: oidcAuthentication_cases) (auto intro: sessionsFrom_subset synchronize_from)
    then have "sessionsFrom env db db2" using resolveAccount_from [OF steps(1)] sessionsFrom_trans by blast
    with last show ?thesis by (auto dest: createSession_from intro: sessionsFrom_trans)
  qed
next
  case (login loginInput earlier now loginResult)
  from login(2) show ?thesis by (rule login_from)
next
  case (createSession sq now created)
  from createSession(2) show ?thesis by (rule createSession_from)
next
  case (readSession token now)
  then show ?thesis by (simp add: readSession_from)
qed

definition sessionIds :: "identity_env \<Rightarrow> identity_db \<Rightarrow> bool" where
  "sessionIds env db \<longleftrightarrow> idsBelow env (id_rows db) (map se_id (id_sessions db))"

lemma sessionIds_from:
  assumes "sessionsFrom env db db'" "sessionIds env db"
  shows "sessionIds env db'"
proof -
  have "se_id s \<in> ie_rowId env ` {..<id_rows db'}" if "s \<in> set (id_sessions db')" for s
  proof -
    from assms(1) that consider t where "t \<in> set (id_sessions db)" "se_id t = se_id s"
      | k where "k < id_rows db'" "se_id s = ie_rowId env k" by (auto simp: sessionsFrom_def)
    then show ?thesis
    proof cases
      case (1 t)
      then have "se_id s \<in> ie_rowId env ` {..<id_rows db}"
        using assms(2) imageI [OF 1(1), of se_id] by (auto simp: sessionIds_def idsBelow_def simp del: imageI)
      moreover have "id_rows db \<le> id_rows db'" using assms(1) by (simp add: sessionsFrom_def)
      ultimately show ?thesis by auto
    qed auto
  qed
  then show ?thesis by (auto simp: sessionIds_def idsBelow_def)
qed

lemma fresh_sessions: "freshInstallation db \<Longrightarrow> sessionIds env db"
  by (simp add: freshInstallation_def sessionIds_def idsBelow_def)

text \<open>Both invariants together, over every reachable state and every later one.\<close>

interpretation sessions: invariant_system freshInstallation
  "\<lambda>db e db'. inj (ie_rowId env) \<and> identityStep env db e db'" "\<lambda>db. identityInv env db \<and> sessionIds env db" for env
  by unfold_locales
    (auto intro: fresh_inv fresh_sessions identityStep_inv sessionIds_from identityStep_sessions)

lemma later_sessions:
  assumes "inj (ie_rowId env)" "steps (identityStep env) db es db'" "identityInv env db"
  shows "sessionsFrom env db db'"
  using assms(2,3)
proof (induction rule: steps.induct)
  case (steps_nil s)
  then show ?case by (simp add: sessionsFrom_subset)
next
  case (steps_cons s e t es u)
  have "identityInv env t" using identityStep_inv [OF assms(1) steps_cons(1) steps_cons.prems] .
  then show ?case using identityStep_sessions [OF assms(1) steps_cons.prems steps_cons(1)] steps_cons.IH sessionsFrom_trans by blast
qed

end
