(* ===== verification/IdentitySample.thy ===== *)
theory IdentitySample
  imports IdentityPowers
begin

text \<open>
  A small installation on which the properties of accounts are evaluated: an owner, a user who manages accounts
  and a user who may only sign in.
\<close>

section \<open>Tables and requests\<close>

definition sampleId :: "nat \<Rightarrow> string" where "sampleId n = replicate n (CHR ''i'')"

definition sampleEnv :: identity_env where
  "sampleEnv = \<lparr>ie_rowId = sampleId, ie_digest = (\<lambda>s. s), ie_passwordHash = (\<lambda>salt p. salt @ p),
     ie_passwordVerify = (\<lambda>p h. h = ''s'' @ p), ie_isEmail = (\<lambda>s. contains s (CHR ''@'')), ie_isUuid = (\<lambda>s. s \<noteq> [])\<rparr>"

definition sampleUser :: "nat \<Rightarrow> string \<Rightarrow> user_row" where
  "sampleUser n email = \<lparr>us_id = sampleId n, us_displayName = ''Sample'', us_email = email, us_emailVerifiedAt = Some 0,
     us_passwordHash = Some ''spass'', us_oidcProviderId = None, us_profileImageVersion = 0, us_status = ActiveUser,
     us_createdAt = 0, us_updatedAt = 0\<rparr>"

definition sampleRole :: "nat \<Rightarrow> string \<Rightarrow> bool \<Rightarrow> role_row" where
  "sampleRole n key flag = \<lparr>ro_id = sampleId n, ro_key = key, ro_name = key, ro_description = [], ro_isSystem = flag,
     ro_createdAt = 0, ro_updatedAt = 0\<rparr>"

definition sampleToken :: string where "sampleToken = replicate 43 (CHR ''t'')"

definition newToken :: string where "newToken = replicate 43 (CHR ''n'')"

text \<open>An owner, a user who manages accounts and a user who may only sign in, with a session and a reset token.\<close>

definition sampleDb :: identity_db where
  "sampleDb = \<lparr>id_users = [sampleUser 8 ''o@x'', sampleUser 9 ''s@x'', sampleUser 10 ''v@x''],
     id_roles = [sampleRole 5 OWNER True, sampleRole 6 ''support'' False, sampleRole 7 ''guest'' False],
     id_permissions = [\<lparr>pe_id = sampleId 1, pe_key = APP_ACCESS\<rparr>, \<lparr>pe_id = sampleId 2, pe_key = USERS_UPDATE\<rparr>,
       \<lparr>pe_id = sampleId 3, pe_key = USERS_ASSIGN_ROLES\<rparr>],
     id_userRoles = [(sampleId 8, sampleId 5), (sampleId 9, sampleId 6), (sampleId 10, sampleId 7)],
     id_rolePermissions = [(sampleId 6, sampleId 1), (sampleId 6, sampleId 2), (sampleId 6, sampleId 3), (sampleId 7, sampleId 1)],
     id_sessions = [\<lparr>se_id = sampleId 11, se_userId = sampleId 10, se_tokenHash = sampleToken, se_oidcProof = None,
       se_lastSeenAt = 0, se_reauthenticatedAt = 0, se_expiresAt = 1000\<rparr>],
     id_resetTokens = [\<lparr>re_id = sampleId 12, re_userId = sampleId 10, re_tokenHash = sampleToken, re_consumedAt = None, re_expiresAt = 1000\<rparr>],
     id_invites = [], id_totpFactors = [], id_recoveryCodes = [], id_passkeys = [], id_oidc = \<lparr>os_revision = 0, os_providers = []\<rparr>, id_rows = 13\<rparr>"

definition supportSession :: current_session where
  "supportSession = \<lparr>cs_id = sampleId 20, cs_expiresAt = 1000, cs_reauthenticatedAt = 0,
     cs_user = \<lparr>au_id = sampleId 9, au_displayName = ''Sample'', au_email = ''s@x'', au_profileImageVersion = None,
       au_roles = [''support''], au_permissions = [APP_ACCESS, USERS_UPDATE, USERS_ASSIGN_ROLES]\<rparr>\<rparr>"

text \<open>The manager gives the other user a new address and the role of a manager.\<close>

definition sampleUpdate :: user_update where
  "sampleUpdate = \<lparr>uu_userId = sampleId 10, uu_displayName = None, uu_email = Some ''w@x'', uu_roleKeys = Some [''support'']\<rparr>"

definition unwrap :: "'a \<Rightarrow> 'e + 'a \<Rightarrow> 'a" where
  "unwrap d r = (case r of Inl e \<Rightarrow> d | Inr x \<Rightarrow> x)"

definition updatedDb :: identity_db where
  "updatedDb = unwrap sampleDb (updateUserService sampleEnv (Some supportSession) sampleUpdate 5 sampleDb)"

definition resetDb :: identity_db where
  "resetDb = snd (unwrap (InvalidOrExpiredToken, sampleDb) (consumePasswordResetService sampleEnv sampleToken ''pass2'' ''s'' 5 sampleDb))"

definition sampleRequest :: session_request where
  "sampleRequest = \<lparr>sq_userId = sampleId 10, sq_method = ByPassword, sq_reauthenticatedAt = 5, sq_proof = None,
     sq_token = newToken, sq_expired = []\<rparr>"

definition sampleLogin :: login_input where
  "sampleLogin = \<lparr>li_email = ''V@x '', li_password = ''pass'', li_token = newToken, li_dummyPassword = ''d'', li_dummyHash = ''h'', li_expired = []\<rparr>"

definition sampleSession :: "int \<Rightarrow> current_session" where
  "sampleSession now = \<lparr>cs_id = sampleId 13, cs_expiresAt = now + SESSION_DURATION_MS, cs_reauthenticatedAt = 5,
     cs_user = \<lparr>au_id = sampleId 10, au_displayName = ''Sample'', au_email = ''v@x'', au_profileImageVersion = None,
       au_roles = [''guest''], au_permissions = [APP_ACCESS]\<rparr>\<rparr>"

definition sessionDb :: "identity_db \<Rightarrow> identity_db" where
  "sessionDb db = snd (unwrap (sampleSession 0, db) (createSessionInTransaction sampleEnv sampleRequest 6 db))"

lemma sample_inj: "sampleId m = sampleId n \<longleftrightarrow> m = n"
  by (auto simp: sampleId_def dest: arg_cong [of _ _ length])

lemma sample_env: "inj (ie_rowId sampleEnv)"
  by (simp add: sampleEnv_def inj_def sample_inj)

lemma sample_below: "k < n \<Longrightarrow> sampleId k \<in> sampleId ` {..<n}"
  by simp


definition emptyDb :: identity_db where
  "emptyDb = \<lparr>id_users = [], id_roles = [], id_permissions = [], id_userRoles = [], id_rolePermissions = [],
     id_sessions = [], id_resetTokens = [], id_invites = [], id_totpFactors = [], id_recoveryCodes = [], id_passkeys = [],
     id_oidc = \<lparr>os_revision = 0, os_providers = []\<rparr>, id_rows = 0\<rparr>"

definition sampleSetup :: setup_input where
  "sampleSetup = \<lparr>si_displayName = ''Owner'', si_email = ''o@x'', si_password = ''pass'', si_salt = ''s''\<rparr>"

section \<open>The invariant holds\<close>

lemma sample_tables:
  "accounts sampleDb = [(sampleId 8, ActiveUser, None), (sampleId 9, ActiveUser, None), (sampleId 10, ActiveUser, None)]"
  "roleTable sampleDb = [(sampleId 5, OWNER, True), (sampleId 6, ''support'', False), (sampleId 7, ''guest'', False)]"
  by (simp_all add: accounts_def roleTable_def sampleDb_def sampleUser_def sampleRole_def)

lemma sample_keys:
  "cleanKey OWNER" "cleanKey ''support''" "cleanKey ''guest''" "\<not> isSystemKey ''support''" "\<not> isSystemKey ''guest''"
  "OWNER \<noteq> ''support''" "OWNER \<noteq> ''guest''"
  by code_simp+

lemma sample_registered:
  "contains PERMISSION_REGISTRY APP_ACCESS" "contains PERMISSION_REGISTRY USERS_UPDATE" "contains PERMISSION_REGISTRY USERS_ASSIGN_ROLES"
  by code_simp+

lemma sample_inv: "identityInv sampleEnv sampleDb" "sessionIds sampleEnv sampleDb"
proof -
  have "keysInv sampleEnv sampleDb"
    using sample_keys sample_registered unfolding keysInv_def sample_tables
    by (simp add: idsBelow_def sampleEnv_def sample_inj) (simp add: sampleDb_def sample_inj)
  moreover have "ownersInv sampleDb"
    by (auto simp: ownersInv_def activeOwnerIds_def ownerId_def sample_tables) (auto simp: sampleDb_def sample_inj)
  ultimately show "identityInv sampleEnv sampleDb" by (simp add: identityInv_def)
  show "sessionIds sampleEnv sampleDb" by (simp add: sessionIds_def idsBelow_def sampleEnv_def sampleDb_def)
qed

section \<open>The requests succeed\<close>

lemma sample_updated: "updateUserService sampleEnv (Some supportSession) sampleUpdate 5 sampleDb = Inr updatedDb"
  by code_simp

lemma sample_reset:
  "consumePasswordResetService sampleEnv sampleToken ''pass2'' ''s'' 5 sampleDb = Inr (Consumed (sampleId 10), resetDb)"
  "createSessionInTransaction sampleEnv sampleRequest 6 resetDb = Inr (sampleSession 6, sessionDb resetDb)"
  by code_simp+

lemma sample_created: "createSessionInTransaction sampleEnv sampleRequest 6 sampleDb = Inr (sampleSession 6, sessionDb sampleDb)"
  by code_simp

section \<open>The first owner\<close>

lemma upsertRole_keys: "ro_key ` set (id_roles (upsertRole env now d db)) = insert (sr_key d) (ro_key ` set (id_roles db))"
proof (cases "some_elem (\<lambda>r. ro_key r = sr_key d) (id_roles db)")
  case True
  let ?f = "\<lambda>r. if ro_key r = sr_key d
    then r\<lparr>ro_name := sr_name d, ro_description := sr_description d, ro_isSystem := True, ro_updatedAt := now\<rparr> else r"
  have "map ro_key (map ?f (id_roles db)) = map ro_key (id_roles db)" by simp
  then have "ro_key ` set (map ?f (id_roles db)) = ro_key ` set (id_roles db)" by (metis set_map)
  moreover have "sr_key d \<in> ro_key ` set (id_roles db)" using True by force
  ultimately show ?thesis using True by (simp add: upsertRole_def insert_absorb)
qed (simp add: upsertRole_def usedId_def)

lemma fold_upsertRole_keys:
  "ro_key ` set (id_roles (fold (upsertRole env now) ds db)) = sr_key ` set ds \<union> ro_key ` set (id_roles db)"
  by (induction ds arbitrary: db) (simp_all add: upsertRole_keys)

lemma owner_role_ensured: "\<exists>r. find (\<lambda>r. ro_key r = OWNER) (id_roles (ensureAuthorizationRegistryInTransaction env now db)) = Some r"
proof -
  have "OWNER \<in> sr_key ` set SYSTEM_ROLE_REGISTRY" by (simp add: SYSTEM_ROLE_REGISTRY_def)
  then have "OWNER \<in> ro_key ` set (id_roles (ensureAuthorizationRegistryInTransaction env now db))"
    by (simp add: ensureAuthorizationRegistryInTransaction_def Let_def fold_upsertRole_keys)
  then show ?thesis by (auto simp: find_None_iff simp flip: not_None_eq)
qed

lemma sample_setup:
  "\<exists>owner db. setupFirstOwnerService sampleEnv sampleSetup 5 emptyDb = Inr (FirstOwner owner, db) \<and> id_users db \<noteq> []"
proof -
  let ?db = "ensureAuthorizationRegistryInTransaction sampleEnv 5 emptyDb"
  have inputs: "normalizeEmail sampleEnv (si_email sampleSetup) = Inr ''o@x''"
    "normalizeDisplayName (si_displayName sampleSetup) = Inr ''Owner''"
    "hashPassword sampleEnv (si_salt sampleSetup) (si_password sampleSetup) = Inr ''spass''"
    by code_simp+
  have empty: "id_users emptyDb = []" by (simp add: emptyDb_def)
  have "identityInv sampleEnv emptyDb" by (simp add: inv_defs emptyDb_def accounts_def roleTable_def idsBelow_def)
  then have "registryFrame emptyDb ?db" using registry_inv sample_env by blast
  then have users: "id_users ?db = []" by (simp add: registryFrame_def accounts_def emptyDb_def)
  obtain r where "find (\<lambda>r. ro_key r = OWNER) (id_roles ?db) = Some r" using owner_role_ensured by blast
  with users show ?thesis
    by (simp add: setupFirstOwnerService_def inputs insertUser_def emailTaken_def usedId_def Let_def empty)
qed

end
