(* ===== verification/IdentityProperties.thy ===== *)
theory IdentityProperties
  imports IdentitySample
begin

text \<open>The properties of accounts, permissions and sessions.\<close>

section \<open>Sessions and tables\<close>

lemma getSession_Some:
  assumes "fst (getSessionByTokenService env token t db) = Some cs"
  shows "\<exists>r \<in> set (id_sessions db). se_id r = cs_id cs \<and> se_userId r = au_id (cs_user cs)"
proof -
  from assms obtain h r where "find (\<lambda>s. se_tokenHash s = h \<and> se_expiresAt s > t \<and>
      some_elem (\<lambda>u. us_id u = se_userId s \<and> us_status u = ActiveUser) (id_users db)) (id_sessions db) = Some r"
    and r: "se_id r = cs_id cs" "resolveActiveUserAccessInTransaction db (se_userId r) = Some (cs_user cs)"
    by (auto simp: getSessionByTokenService_def split: sum.splits option.splits if_splits)
  then have "r \<in> set (id_sessions db)" by (auto simp: find_Some_iff)
  moreover have "au_id (cs_user cs) = se_userId r"
    using r(2) findUser_Some [of db "se_userId r"]
    by (auto simp: resolveActiveUserAccessInTransaction_def split: option.splits if_splits dest!: sym [of _ "cs_user cs"])
  ultimately show ?thesis using r(1) by force
qed

lemma find_last: "(\<And>x. x \<in> set xs \<Longrightarrow> \<not> P x) \<Longrightarrow> P y \<Longrightarrow> find P (xs @ [y]) = Some y"
  by (induction xs) auto

lemma resolve_tables:
  assumes "id_users db' = id_users db" "id_roles db' = id_roles db" "id_permissions db' = id_permissions db"
    "id_userRoles db' = id_userRoles db" "id_rolePermissions db' = id_rolePermissions db"
  shows "resolveActiveUserAccessInTransaction db' i = resolveActiveUserAccessInTransaction db i"
proof -
  have "roleKeysOf db' = roleKeysOf db" "rolePermissionKeys db' = rolePermissionKeys db" "userRoleIds db' = userRoleIds db"
    by (simp_all add: fun_eq_iff roleKeysOf_def rolePermissionKeys_def permissionKeysOf_def userRoleIds_def assms)
  then have "getUserRoleKeysInTransaction db' = getUserRoleKeysInTransaction db"
    "getUserPermissionKeysInTransaction db' = getUserPermissionKeysInTransaction db"
    by (intro ext; simp add: getUserRoleKeysInTransaction_def getUserPermissionKeysInTransaction_def)+
  then show ?thesis by (simp add: resolveActiveUserAccessInTransaction_def findUser_def assms split: option.split)
qed

lemma proofHolds_tables: "id_oidc db' = id_oidc db \<Longrightarrow> proofHolds env db' p i m ks t = proofHolds env db p i m ks t"
  by (cases p; cases m) (simp_all add: proofHolds_def isOidcSessionValidInTransaction_def split: option.split)

lemma proof_lasts:
  assumes "proofHolds env db p i m ks now" "t < sessionExpiry p now"
  shows "proofHolds env db p i m ks t"
  using assms by (auto simp: proofHolds_def isOidcSessionValidInTransaction_def sessionExpiry_def split: option.splits if_splits)

section \<open>Owners and permissions\<close>

text \<open>
  Claim C34. In every state reachable from a fresh installation the account tables are consistent, an installation
  with users has an active owner, who holds every registered permission, and no account managed by an identity
  provider holds the owner role.
\<close>

theorem an_active_owner_remains:
  assumes "inj (ie_rowId env)" "reach freshInstallation (identityStep env) db"
  shows "identityInv env db \<and>
    (id_users db \<noteq> [] \<longrightarrow> (\<exists>u \<in> set (id_users db). us_status u = ActiveUser \<and>
       hasOwnerRole (getUserRoleKeysInTransaction db (us_id u)) \<and>
       getUserPermissionKeysInTransaction db (us_id u) = PERMISSION_REGISTRY)) \<and>
    (\<forall>u \<in> set (id_users db). us_oidcProviderId u \<noteq> None \<longrightarrow> \<not> hasOwnerRole (getUserRoleKeysInTransaction db (us_id u)))"
proof -
  have inv: "identityInv env db" by (rule reachable_inv [OF assms])
  have "\<exists>u \<in> set (id_users db). us_status u = ActiveUser \<and> ownerId db (us_id u)" if "id_users db \<noteq> []"
  proof -
    from that inv obtain i where "i \<in> activeOwnerIds db" by (auto simp: identityInv_def ownersInv_def accounts_def)
    then obtain u where "u \<in> set (id_users db)" "us_status u = ActiveUser" "ownerId db (us_id u)"
      by (auto simp: activeOwnerIds_def accounts_def)
    then show ?thesis by blast
  qed
  moreover have "\<not> ownerId db (us_id u)" if "u \<in> set (id_users db)" "us_oidcProviderId u \<noteq> None" for u
    using inv user_in_accounts [OF that(1)] that(2) by (fastforce simp: identityInv_def ownersInv_def)
  ultimately show ?thesis
    using inv by (simp add: owner_iff getUserPermissionKeysInTransaction_def) blast
qed

theorem an_active_owner_remains_witness:
  "\<exists>db. reach freshInstallation (identityStep sampleEnv) db \<and> (\<exists>u \<in> set (id_users db). us_status u = ActiveUser \<and>
     getUserPermissionKeysInTransaction db (us_id u) = PERMISSION_REGISTRY)"
proof -
  obtain owner db where db: "setupFirstOwnerService sampleEnv sampleSetup 5 emptyDb = Inr (FirstOwner owner, db)" "id_users db \<noteq> []"
    using sample_setup by blast
  have "reach freshInstallation (identityStep sampleEnv) emptyDb"
    by (rule reach_init) (simp add: freshInstallation_def emptyDb_def)
  then have "reach freshInstallation (identityStep sampleEnv) db" by (rule reach_step) (rule identityStep.setUp [OF db(1)])
  then show ?thesis using an_active_owner_remains [OF sample_env, of db] db(2) by blast
qed

text \<open>
  Claim C35. No escalation: whatever a user without the owner role does through role, user and invitation
  management, no user holds a permission afterwards that neither that user held before nor the actor holds, and
  nobody becomes an owner.
\<close>

theorem no_permission_is_gained:
  assumes "inj (ie_rowId env)" "identityInv env db" "identityStep env db (Administered actor) db'"
    "\<not> hasOwnerRole (getUserRoleKeysInTransaction db actor)"
  shows "set (getUserPermissionKeysInTransaction db' u) \<subseteq>
      set (getUserPermissionKeysInTransaction db u) \<union> set (getUserPermissionKeysInTransaction db actor) \<and>
    {v. hasOwnerRole (getUserRoleKeysInTransaction db' v)} \<subseteq> {v. hasOwnerRole (getUserRoleKeysInTransaction db v)}"
proof -
  have keys: "keysInv env db" "keysInv env db'"
    using assms(2) identityStep_inv [OF assms(1,3,2)] by (simp_all add: identityInv_def)
  have gain: "noGain actor db db'"
    using administered_noGain [OF assms(1-3)] assms(4) by (simp add: owner_iff)
  then have "{v. ownerId db' v} \<subseteq> {v. ownerId db v}" by (auto simp: noGain_def)
  then show ?thesis
    using noGain_powers [OF gain keys, of u] keys by (simp add: set_getUserPermissionKeys owner_iff)
qed

theorem no_permission_is_gained_witness:
  "getUserPermissionKeysInTransaction updatedDb (sampleId 10) = [APP_ACCESS, USERS_UPDATE, USERS_ASSIGN_ROLES] \<and>
   set (getUserPermissionKeysInTransaction updatedDb (sampleId 10)) \<subseteq>
     set (getUserPermissionKeysInTransaction sampleDb (sampleId 10)) \<union> set (getUserPermissionKeysInTransaction sampleDb (sampleId 9))"
proof -
  have "au_id (cs_user supportSession) = sampleId 9" by (simp add: supportSession_def)
  with identityStep.updateUser [OF sample_updated] have step: "identityStep sampleEnv sampleDb (Administered (sampleId 9)) updatedDb"
    by simp
  have "\<not> hasOwnerRole (getUserRoleKeysInTransaction sampleDb (sampleId 9))" by code_simp
  from no_permission_is_gained [OF sample_env sample_inv(1) step this]
  have "set (getUserPermissionKeysInTransaction updatedDb (sampleId 10)) \<subseteq>
     set (getUserPermissionKeysInTransaction sampleDb (sampleId 10)) \<union> set (getUserPermissionKeysInTransaction sampleDb (sampleId 9))" by simp
  moreover have "getUserPermissionKeysInTransaction updatedDb (sampleId 10) = [APP_ACCESS, USERS_UPDATE, USERS_ASSIGN_ROLES]" by code_simp
  ultimately show ?thesis by blast
qed

text \<open>
  Claim C36. Changing another user's address, which password resets go to, needs all the power that user keeps:
  afterwards the permissions of that user are among those of the actor, and every session, reset token and
  invitation of that user is gone.
\<close>

theorem recovery_address_needs_power:
  assumes "identityInv env db" "updateUserService env (Some s) input now db = Inr db'"
    "findUser db (uu_userId input) = Some u" "findUser db' (uu_userId input) = Some u'" "us_email u' \<noteq> us_email u"
    "uu_userId input \<noteq> au_id (cs_user s)"
  shows "set (getUserPermissionKeysInTransaction db' (uu_userId input)) \<subseteq> set (getUserPermissionKeysInTransaction db (au_id (cs_user s))) \<and>
    uu_userId input \<notin> se_userId ` set (id_sessions db') \<union> re_userId ` set (id_resetTokens db') \<union> iv_userId ` set (id_invites db')"
  using assms(2)
proof (rule updateUser_effect)
  fix selected emailChanged email
  assume check: "checkUserUpdate db (au_id (cs_user s)) input email = Inr (selected, emailChanged)"
    and same: "sameAccess (assigned (uu_userId input) selected db) db'"
    and gone: "emailChanged \<Longrightarrow> \<forall>r \<in> set (id_sessions db'). se_userId r \<noteq> uu_userId input"
      "emailChanged \<Longrightarrow> uu_userId input \<notin> re_userId ` set (id_resetTokens db') \<union> iv_userId ` set (id_invites db')"
    and email: "\<And>u u'. findUser db (uu_userId input) = Some u \<Longrightarrow> findUser db' (uu_userId input) = Some u' \<Longrightarrow>
       us_email u' = (case email of None \<Rightarrow> us_email u | Some e \<Rightarrow> e)"
  have keys: "keysInv env db" "keysInv env db'"
    using assms(1) updateUser_inv [OF assms(1,2)] by (simp_all add: identityInv_def)
  have changed: "emailChanged" and other: "us_id u \<noteq> au_id (cs_user s)"
    using check assms(3-6) email [OF assms(3,4)] findUser_Some [OF assms(3)]
    by (auto elim!: checkUserUpdate_Inr split: option.splits)
  have "powers db' (uu_userId input) \<subseteq> powers db (au_id (cs_user s))"
  proof (cases "ownerId db (au_id (cs_user s))")
    case True
    then show ?thesis using grants_registered [OF keys(2)] by (simp add: powers_def)
  next
    case False
    from retained_powers [OF keys(1) check assms(3) changed other False]
    show ?thesis using sameAccess_access [OF same] findUser_Some [OF assms(3)] by (simp add: powers_def)
  qed
  then show ?thesis using gone [OF changed] keys by (auto simp: set_getUserPermissionKeys)
qed

lemma sample_address:
  "findUser sampleDb (uu_userId sampleUpdate) = Some (sampleUser 10 ''v@x'')"
  "\<exists>u. findUser updatedDb (uu_userId sampleUpdate) = Some u \<and> us_email u = ''w@x''"
  "us_email (sampleUser 10 ''v@x'') = ''v@x''" "uu_userId sampleUpdate \<noteq> au_id (cs_user supportSession)"
proof -
  have "map_option us_email (findUser updatedDb (uu_userId sampleUpdate)) = Some ''w@x''" by code_simp
  then show "\<exists>u. findUser updatedDb (uu_userId sampleUpdate) = Some u \<and> us_email u = ''w@x''" by auto
qed code_simp+

theorem recovery_address_needs_power_witness:
  "set (getUserPermissionKeysInTransaction updatedDb (uu_userId sampleUpdate)) \<subseteq>
     set (getUserPermissionKeysInTransaction sampleDb (au_id (cs_user supportSession)))"
proof -
  from sample_address(2) obtain u where "findUser updatedDb (uu_userId sampleUpdate) = Some u"
    "us_email u \<noteq> us_email (sampleUser 10 ''v@x'')" by (auto simp: sample_address(3))
  from recovery_address_needs_power [OF sample_inv(1) sample_updated sample_address(1) this sample_address(4)]
  show ?thesis by blast
qed

text \<open>
  Claim C37. Revocation is permanent: after a password reset, or after a user was disabled, no session that existed
  before resolves for that user again, in any later state.
\<close>

theorem revoked_sessions_stay_revoked:
  assumes "inj (ie_rowId env)" "identityInv env db" "sessionIds env db"
    "consumePasswordResetService env token password salt now db = Inr (Consumed userId, db') \<or>
     disableUserService (Some s) userId now db = Inr db'"
    "steps (identityStep env) db' es later"
    "fst (getSessionByTokenService env anyToken anyTime later) = Some cs" "au_id (cs_user cs) = userId"
  shows "cs_id cs \<notin> se_id ` set (id_sessions db)"
proof -
  have "\<exists>e. identityStep env db e db'"
    using assms(4) identityStep.consumeReset identityStep.disableUser by metis
  then obtain e where step: "identityStep env db e db'" ..
  note inv' = identityStep_inv [OF assms(1) step assms(2)] and since = identityStep_sessions [OF assms(1,2) step]
  have none: "se_userId r \<noteq> userId" if "r \<in> set (id_sessions db')" for r
    using assms(4) that
    by (auto elim!: consumeReset_cases disableUser_Inr simp: deleteUserTokens_def revokeAllUserSessionsInTransaction_def)
  from getSession_Some [OF assms(6)] obtain r where r: "r \<in> set (id_sessions later)" "se_id r = cs_id cs" "se_userId r = userId"
    using assms(7) by auto
  with later_sessions [OF assms(1,5) inv'] none obtain k where k: "id_rows db' \<le> k" "cs_id cs = ie_rowId env k"
    unfolding sessionsFrom_def by (metis (no_types, lifting))
  have "id_rows db \<le> k" using k(1) since by (simp add: sessionsFrom_def)
  then have "ie_rowId env k \<notin> ie_rowId env ` {..<id_rows db}" using assms(1) by (auto dest: injD)
  then show ?thesis using assms(3) k(2) by (auto simp: sessionIds_def idsBelow_def)
qed

theorem revoked_sessions_stay_revoked_witness:
  "fst (getSessionByTokenService sampleEnv newToken 7 (sessionDb resetDb)) = Some (sampleSession 6) \<and>
   cs_id (sampleSession 6) \<notin> se_id ` set (id_sessions sampleDb)"
proof -
  have "identityStep sampleEnv resetDb SessionChanged (sessionDb resetDb)"
    by (rule identityStep.createSession [OF sample_reset(2)])
  then have later: "steps (identityStep sampleEnv) resetDb [SessionChanged] (sessionDb resetDb)"
    by (rule steps_cons) (rule steps_nil)
  have resolved: "fst (getSessionByTokenService sampleEnv newToken 7 (sessionDb resetDb)) = Some (sampleSession 6)"
    "au_id (cs_user (sampleSession 6)) = sampleId 10" by code_simp+
  have "cs_id (sampleSession 6) \<notin> se_id ` set (id_sessions sampleDb)"
    by (rule revoked_sessions_stay_revoked [OF sample_env sample_inv disjI1 [OF sample_reset(1)] later resolved])
  with resolved(1) show ?thesis by blast
qed

section \<open>Sessions\<close>

text \<open>
  Claim C38. A session is what its token opens: the token of a session just created resolves to that session, with
  the user it was created for, at every moment until it expires.
\<close>

theorem created_session_resolves:
  assumes "createSessionInTransaction env sq now db = Inr (cs, db')" "now \<le> t" "t < cs_expiresAt cs"
  shows "fst (getSessionByTokenService env (sq_token sq) t db') = Some cs \<and> au_id (cs_user cs) = sq_userId sq"
  using assms(1)
proof (rule createSession_Inr)
  fix u access p h db1
  let ?s = "\<lparr>se_id = newId env db, se_userId = sq_userId sq, se_tokenHash = h, se_oidcProof = p, se_lastSeenAt = now,
       se_reauthenticatedAt = sq_reauthenticatedAt sq, se_expiresAt = sessionExpiry p now\<rparr>"
  assume h: "hashOpaqueToken env (sq_token sq) = Inr h" and p: "preparedProof env sq now = Inr p"
    and u: "findUser db (sq_userId sq) = Some u" "us_status u = ActiveUser"
    and access: "resolveActiveUserAccessInTransaction db (sq_userId sq) = Some access" "APP_ACCESS \<in> set (au_permissions access)"
    and valid: "proofHolds env db p (sq_userId sq) (us_oidcProviderId u) (au_roles access) now"
    and ins: "insertSession env ?s db = Inr db1" and db': "db' = pruneExpiredSessionsInTransaction (sq_expired sq) now db1"
    and cs: "cs = \<lparr>cs_id = newId env db, cs_expiresAt = sessionExpiry p now, cs_reauthenticatedAt = sq_reauthenticatedAt sq, cs_user = access\<rparr>"
  have expiry: "now < sessionExpiry p now" "t < sessionExpiry p now" using assms(2,3) cs by simp_all
  have unique: "\<forall>r \<in> set (id_sessions db). se_tokenHash r \<noteq> h" and db1: "db1 = usedId (db\<lparr>id_sessions := id_sessions db @ [?s]\<rparr>)"
    using ins by (auto simp: insertSession_def split: if_splits)
  obtain kept where kept: "id_sessions db' = kept @ [?s]" "set kept \<subseteq> set (id_sessions db)"
    using expiry(1) by (auto simp: db' db1 usedId_def pruneExpiredSessionsInTransaction_def)
  have tables: "id_users db' = id_users db" "id_roles db' = id_roles db" "id_permissions db' = id_permissions db"
    "id_userRoles db' = id_userRoles db" "id_rolePermissions db' = id_rolePermissions db" "id_oidc db' = id_oidc db"
    by (simp_all add: db' db1 usedId_def pruneExpiredSessionsInTransaction_def)
  have user: "u \<in> set (id_users db)" "us_id u = sq_userId sq" using findUser_Some [OF u(1)] by simp_all
  have found: "find (\<lambda>r. se_tokenHash r = h \<and> se_expiresAt r > t \<and>
      (\<exists>v \<in> set (id_users db'). us_id v = se_userId r \<and> us_status v = ActiveUser)) (id_sessions db') = Some ?s"
    unfolding kept(1) by (rule find_last) (use unique kept(2) expiry(2) user u(2) in \<open>auto simp: tables\<close>)
  have "findUser db' (sq_userId sq) = Some u" using u(1) by (simp add: findUser_def tables)
  moreover have "resolveActiveUserAccessInTransaction db' (sq_userId sq) = Some access"
    using access(1) by (simp add: resolve_tables [OF tables(1-5)])
  moreover have "proofHolds env db' p (sq_userId sq) (us_oidcProviderId u) (au_roles access) t"
    using proof_lasts [OF valid expiry(2)] by (simp add: proofHolds_tables [OF tables(6)])
  ultimately have "fst (getSessionByTokenService env (sq_token sq) t db') = Some cs"
    using access(2) by (simp add: getSessionByTokenService_def h found cs)
  moreover have "au_id access = sq_userId sq"
    using access(1) u(1) user(2) by (auto simp: resolveActiveUserAccessInTransaction_def split: if_splits)
  ultimately show ?thesis by (simp add: cs)
qed

theorem created_session_resolves_witness:
  "fst (getSessionByTokenService sampleEnv (sq_token sampleRequest) 7 (sessionDb sampleDb)) = Some (sampleSession 6)"
  using created_session_resolves [OF sample_created, of 7] by (simp add: sampleSession_def SESSION_DURATION_MS_def)


lemma sample_login: "isValidPassword (li_password sampleLogin)"
  "\<exists>cs db. loginService sampleEnv sampleLogin sampleDb 6 sampleDb = Inr (LoggedIn cs, db) \<and> au_id (cs_user cs) = sampleId 10"
proof -
  have "(case loginService sampleEnv sampleLogin sampleDb 6 sampleDb of
      Inr (LoggedIn cs, db) \<Rightarrow> au_id (cs_user cs) = sampleId 10 | _ \<Rightarrow> False)" by code_simp
  then show "\<exists>cs db. loginService sampleEnv sampleLogin sampleDb 6 sampleDb = Inr (LoggedIn cs, db) \<and> au_id (cs_user cs) = sampleId 10"
    by (auto split: sum.splits prod.splits login_result.splits)
qed code_simp


end
