(* ===== verification/FactorTables.thy ===== *)
theory FactorTables
  imports IdentityPowers
begin

text \<open>
  What every transaction does to the tables of one-time codes: the counter of a factor never goes back, a used recovery
  code stays used until the codes of its user are replaced, and identifiers of factors are not reused.
\<close>

section \<open>Transactions that leave codes alone\<close>

definition sameFactors :: "identity_db \<Rightarrow> identity_db \<Rightarrow> bool" where
  "sameFactors db db' \<longleftrightarrow> id_totpFactors db' = id_totpFactors db \<and> id_recoveryCodes db' = id_recoveryCodes db"

named_theorems factor_frames \<open>writes that leave the tables of codes alone\<close>

lemma frames_sessions [factor_frames]:
  "sameFactors db (usedId db')  = sameFactors db db'" "sameFactors db (deleteUserTokens u db') = sameFactors db db'"
  "sameFactors db (revokeAllUserSessionsInTransaction u db') = sameFactors db db'"
  "sameFactors db (revokeOtherUserSessionsInTransaction u i db') = sameFactors db db'"
  "sameFactors db (pruneExpiredSessionsInTransaction chosen now db') = sameFactors db db'"
  "sameFactors db (touchSession i now db') = sameFactors db db'"
  by (simp_all add: sameFactors_def usedId_def deleteUserTokens_def revokeAllUserSessionsInTransaction_def
    revokeOtherUserSessionsInTransaction_def pruneExpiredSessionsInTransaction_def touchSession_def)

lemma frames_accounts [factor_frames]:
  "sameFactors db (updateUser i f db') = sameFactors db db'" "sameFactors db (replaceUserRolesInTransaction u rs db') = sameFactors db db'"
  "sameFactors db (replaceRolePermissionsInTransaction r ps db') = sameFactors db db'"
  "sameFactors db (updateRole r n d now db') = sameFactors db db'" "sameFactors db (deleteRole r db') = sameFactors db db'"
  by (simp_all add: sameFactors_def replaceRolePermissionsInTransaction_def updateRole_def deleteRole_def)

lemma frames_fields [factor_frames]:
  "sameFactors db (db'\<lparr>id_users := a\<rparr>) = sameFactors db db'" "sameFactors db (db'\<lparr>id_roles := b\<rparr>) = sameFactors db db'"
  "sameFactors db (db'\<lparr>id_permissions := c\<rparr>) = sameFactors db db'" "sameFactors db (db'\<lparr>id_userRoles := d\<rparr>) = sameFactors db db'"
  "sameFactors db (db'\<lparr>id_rolePermissions := e\<rparr>) = sameFactors db db'" "sameFactors db (db'\<lparr>id_sessions := f\<rparr>) = sameFactors db db'"
  "sameFactors db (db'\<lparr>id_resetTokens := g\<rparr>) = sameFactors db db'" "sameFactors db (db'\<lparr>id_invites := h\<rparr>) = sameFactors db db'"
  "sameFactors db (db'\<lparr>id_oidc := i\<rparr>) = sameFactors db db'" "sameFactors db (db'\<lparr>id_passkeys := j\<rparr>) = sameFactors db db'"
  "sameFactors db db"
  by (simp_all add: sameFactors_def)

lemma sameFactors_trans: "sameFactors a b \<Longrightarrow> sameFactors b c \<Longrightarrow> sameFactors a c"
  by (simp add: sameFactors_def)

lemma sameFactors_inserts:
  "insertUser env row db = Inr db' \<Longrightarrow> sameFactors db db'" "insertSession env s db = Inr db' \<Longrightarrow> sameFactors db db'"
  "insertInvite env i a h t db = Inr db' \<Longrightarrow> sameFactors db db'" "insertReset env i h t db = Inr db' \<Longrightarrow> sameFactors db db'"
  "insertRole env key name description now db = Inr (role, db') \<Longrightarrow> sameFactors db db'"
  by (auto simp: insertUser_def insertSession_def insertInvite_def insertReset_def insertRole_def Let_def factor_frames split: if_splits)

lemma fold_sameFactors:
  assumes "\<And>x db. sameFactors db (f x db)"
  shows "sameFactors db (fold f xs db)"
proof (induction xs arbitrary: db)
  case (Cons x xs)
  from sameFactors_trans [OF assms Cons.IH] show ?case by simp
qed (simp add: factor_frames)

lemma registry_sameFactors: "sameFactors db (ensureAuthorizationRegistryInTransaction env now db)"
proof -
  have "sameFactors db (upsertPermission env k db)" "sameFactors db (upsertRole env now d db)" for k d db
    by (simp_all add: upsertPermission_def upsertRole_def factor_frames)
  then show ?thesis
    unfolding ensureAuthorizationRegistryInTransaction_def Let_def factor_frames
    by (intro sameFactors_trans [OF fold_sameFactors fold_sameFactors])
qed

lemma setup_sameFactors: "setupFirstOwnerService env input now db = Inr (result, db') \<Longrightarrow> sameFactors db db'"
  by (auto simp: setupFirstOwnerService_def andThen_Inr_iff Let_def factor_frames split: if_splits option.splits
    dest!: sameFactors_inserts(1) intro: sameFactors_trans [OF registry_sameFactors])

lemma roles_sameFactors:
  "createRoleService env (Some s) input now db = Inr (r, db') \<Longrightarrow> sameFactors db db'"
  "updateRoleService (Some s) update now db = Inr db' \<Longrightarrow> sameFactors db db'"
  "deleteRoleService (Some s) roleId db = Inr db' \<Longrightarrow> sameFactors db db'"
  subgoal by (auto simp: createRoleService_def andThen_Inr_iff factor_frames split: if_splits dest!: sameFactors_inserts(5))
  subgoal by (erule updateRole_Inr) (auto simp: factor_frames split: option.splits)
  subgoal by (erule deleteRole_Inr) (auto simp: factor_frames)
  done

lemma writeUser_sameFactors: "writeUser i n e c now db = Inr db' \<Longrightarrow> sameFactors db db'"
  by (auto simp: writeUser_def factor_frames split: if_splits)

lemma users_sameFactors:
  "updateUserService env (Some s) update now db = Inr db' \<Longrightarrow> sameFactors db db'"
  "disableUserService (Some s) userId now db = Inr db' \<Longrightarrow> sameFactors db db'"
  "enableUserService (Some s) userId now db = Inr db' \<Longrightarrow> sameFactors db db'"
  by (auto simp: updateUserService_def disableUserService_def enableUserService_def andThen_Inr_iff Let_def factor_frames
    split: if_splits option.splits dest!: writeUser_sameFactors)

lemma invites_sameFactors:
  "issueInviteService env (Some s) input now db = Inr (userId, db') \<Longrightarrow> sameFactors db db'"
  "acceptInviteService env acceptInput now db = Inr (consumed, db') \<Longrightarrow> sameFactors db db'"
proof -
  show "sameFactors db db'" if "acceptInviteService env acceptInput now db = Inr (consumed, db')"
    using that by (cases rule: acceptInvite_cases) (auto simp: factor_frames)
  assume "issueInviteService env (Some s) input now db = Inr (userId, db')"
  then obtain email name i ks db1 rs a h t where invited: "invitedUser env input email name now db = Inr (i, ks, db1)"
    and ins: "insertInvite env i a h t (replaceUserRolesInTransaction i rs db1) = Inr db'"
    by (auto simp: issueInviteService_def andThen_Inr_iff split: if_splits)
  have "sameFactors db db1"
    using invited by (auto simp: invitedUser_def Let_def andThen_Inr_iff factor_frames split: option.splits if_splits dest: sameFactors_inserts(1))
  then show "sameFactors db db'" using sameFactors_inserts(3) [OF ins] by (simp add: sameFactors_def)
qed

lemma own_sameFactors:
  "issuePasswordResetService env email token now db = Inr (issued, db') \<Longrightarrow> sameFactors db db'"
  "consumePasswordResetService env token password salt now db = Inr (consumed, db') \<Longrightarrow> sameFactors db db'"
  "changeCurrentPasswordService env (Some s) password salt now db = Inr db' \<Longrightarrow> sameFactors db db'"
  "updateCurrentProfileImageService (Some s) now db = Inr db' \<Longrightarrow> sameFactors db db'"
  by (auto simp: issuePasswordResetService_def consumePasswordResetService_def changeCurrentPasswordService_def
    updateCurrentProfileImageService_def andThen_Inr_iff Let_def factor_frames split: sum.splits option.splits if_splits
    dest: sameFactors_inserts(4))

lemma createSession_sameFactors: "createSessionInTransaction env sq now db = Inr (created, db') \<Longrightarrow> sameFactors db db'"
  by (erule createSession_Inr) (auto simp: factor_frames dest: sameFactors_inserts(2))

lemma login_sameFactors: "loginService env input earlier now db = Inr (result, db') \<Longrightarrow> sameFactors db db'"
  by (auto simp: loginService_def loginTransaction_def andThen_Inr_iff factor_frames
    split: option.splits if_splits prod.splits sum.splits auth_error.splits dest: createSession_sameFactors)

lemma sessions_sameFactors:
  "sameFactors db (snd (getSessionByTokenService env token now db))" "sameFactors db (snd (revokeSessionByTokenService env token db))"
  by (auto simp: getSessionByTokenService_def revokeSessionByTokenService_def factor_frames split: sum.splits option.splits)

lemma synchronize_sameFactors: "synchronizeOidcAccountInTransaction provider p groups db = Inr db' \<Longrightarrow> sameFactors db db'"
  by (auto simp: synchronizeOidcAccountInTransaction_def Let_def andThen_Inr_iff factor_frames split: option.splits if_splits)

lemma resolveAccount_sameFactors:
  assumes "resolveOidcAccountInTransaction env identity now db = Inr (p, db')"
  shows "sameFactors db db'"
  using assms by (cases rule: resolveAccount_cases) (auto simp: factor_frames dest: sameFactors_inserts(1))

lemma oidcAuthentication_sameFactors: "requireOidcAuthenticationInTransaction db p groups now = Inr (allowed, db') \<Longrightarrow> sameFactors db db'"
  by (erule oidcAuthentication_cases) (auto simp: factor_frames dest: synchronize_sameFactors)

lemma firstFactor_sameFactors: "requireFirstFactor env consumed now db = Inr (allowed, db') \<Longrightarrow> sameFactors db db'"
  by (erule firstFactor_cases) (auto simp: factor_frames dest: synchronize_sameFactors)

lemma oidcLogin_sameFactors:
  assumes "authenticateOidcIdentityService env identity token expired now db = Inr (result, db')"
  shows "sameFactors db db'"
  using assms
  by (rule oidcLogin_cases)
    (auto dest!: resolveAccount_sameFactors oidcAuthentication_sameFactors createSession_sameFactors intro: sameFactors_trans)

lemma passkeys_sameFactors:
  "registerPasskeyTransaction env own name registration now db = Inr (created, db') \<Longrightarrow> sameFactors db db'"
  "renamePasskeyService own passkeyName passkeyId now db = Inr (changed, db') \<Longrightarrow> sameFactors db db'"
  "deletePasskeyService own passkeyId now db = Inr (changed, db') \<Longrightarrow> sameFactors db db'"
  by (auto simp: registerPasskeyTransaction_def renamePasskeyService_def deletePasskeyService_def andThen_Inr_iff Let_def factor_frames
    split: if_splits)

lemma passkeyLogin_sameFactors:
  "passkeyLoginTransaction env passkey info token expired now db = Inr (result, db') \<Longrightarrow> sameFactors db db'"
  by (auto simp: passkeyLoginTransaction_def updateVerifiedPasskeyInTransaction_def Let_def sameFactors_def
    split: if_splits sum.splits auth_error.splits prod.splits dest!: createSession_sameFactors)

section \<open>Transactions that write codes\<close>

lemma identityStep_factors:
  assumes "identityStep env db e db'"
  obtains (same) "sameFactors db db'"
  | (confirmed) own secret c hs now created where "confirmTotpTransaction env own secret c hs now db = Inr (created, db')"
      "e = FactorsReplaced (au_id (cs_user own))"
  | (regenerated) own hs now changed where "regenerateRecoveryCodesService env own hs now db = Inr (changed, db')"
      "e = FactorsReplaced (au_id (cs_user own))"
  | (disabled) own now changed where "disableTotpService own now db = Inr (changed, db')" "e = FactorsReplaced (au_id (cs_user own))"
  | (completed) consumed p token expired now result where
      "completeLoginMfaTransaction env consumed p token expired now db = Inr (result, db')"
  using assms
proof (cases rule: identityStep.cases)
qed (auto intro: that registry_sameFactors setup_sameFactors roles_sameFactors users_sameFactors invites_sameFactors
    own_sameFactors login_sameFactors createSession_sameFactors sessions_sameFactors synchronize_sameFactors
    resolveAccount_sameFactors oidcLogin_sameFactors passkeys_sameFactors passkeyLogin_sameFactors simp: factor_frames)

text \<open>Factors of later tables: an old one with a counter that did not go back, or one with a new identifier.\<close>

definition factorsFrom :: "identity_env \<Rightarrow> identity_db \<Rightarrow> identity_db \<Rightarrow> bool" where
  "factorsFrom env db db' \<longleftrightarrow> id_rows db \<le> id_rows db' \<and> (\<forall>f' \<in> set (id_totpFactors db').
     (\<exists>f \<in> set (id_totpFactors db). tf_id f = tf_id f' \<and> tf_userId f = tf_userId f' \<and> tf_lastUsedCounter f \<le> tf_lastUsedCounter f') \<or>
     (\<exists>k. id_rows db \<le> k \<and> k < id_rows db' \<and> tf_id f' = ie_rowId env k))"

text \<open>Recovery codes of a user: no new ones, and used ones stay used.\<close>

definition codesKept :: "string \<Rightarrow> identity_db \<Rightarrow> identity_db \<Rightarrow> bool" where
  "codesKept u db db' \<longleftrightarrow> (\<forall>r' \<in> set (id_recoveryCodes db'). rc_userId r' = u \<longrightarrow>
     (\<exists>r \<in> set (id_recoveryCodes db). rc_userId r = u \<and> rc_codeHash r = rc_codeHash r' \<and> (rc_usedAt r' = None \<longrightarrow> rc_usedAt r = None)))"

lemma tables_refl [simp]: "factorsFrom env db db" "codesKept u db db"
  unfolding factorsFrom_def codesKept_def by blast+

lemma factorsFrom_map:
  "(\<And>f. tf_id (g f) = tf_id f \<and> tf_userId (g f) = tf_userId f \<and> tf_lastUsedCounter f \<le> tf_lastUsedCounter (g f)) \<Longrightarrow>
    factorsFrom env db (db\<lparr>id_totpFactors := map g (id_totpFactors db)\<rparr>)"
  by (fastforce simp: factorsFrom_def)

lemma codesKept_map:
  "(\<And>r. rc_userId (g r) = rc_userId r \<and> rc_codeHash (g r) = rc_codeHash r \<and> (rc_usedAt (g r) = None \<longrightarrow> rc_usedAt r = None)) \<Longrightarrow>
    codesKept u db (db\<lparr>id_recoveryCodes := map g (id_recoveryCodes db)\<rparr>)"
  by (fastforce simp: codesKept_def)

lemma tables_frame [simp]:
  "id_recoveryCodes db' = id_recoveryCodes db \<Longrightarrow> codesKept u db db'"
  "id_totpFactors db' = id_totpFactors db \<Longrightarrow> id_rows db \<le> id_rows db' \<Longrightarrow> factorsFrom env db db'"
  by (auto simp: factorsFrom_def codesKept_def)

lemma factorsFrom_new:
  assumes "set (id_totpFactors db') \<subseteq> insert f (set (id_totpFactors db))" "tf_id f = ie_rowId env (id_rows db)" "id_rows db < id_rows db'"
  shows "factorsFrom env db db'"
proof -
  have "(\<exists>g \<in> set (id_totpFactors db). tf_id g = tf_id h \<and> tf_userId g = tf_userId h \<and> tf_lastUsedCounter g \<le> tf_lastUsedCounter h) \<or>
      (\<exists>k. id_rows db \<le> k \<and> k < id_rows db' \<and> tf_id h = ie_rowId env k)" if "h \<in> set (id_totpFactors db')" for h
  proof (cases "h = f")
    case True
    then show ?thesis using assms(2,3) by (intro disjI2 exI [of _ "id_rows db"]) simp
  next
    case False
    then show ?thesis using that assms(1) by (intro disjI1 bexI [of _ h]) auto
  qed
  then show ?thesis using assms(3) by (simp add: factorsFrom_def)
qed

lemma sameFactors_tables: "sameFactors db db' \<Longrightarrow> id_rows db \<le> id_rows db' \<Longrightarrow> factorsFrom env db db' \<and> codesKept u db db'"
  by (auto simp: sameFactors_def factorsFrom_def codesKept_def)

lemma factorsFrom_trans:
  assumes "factorsFrom env a b" "factorsFrom env b c"
  shows "factorsFrom env a c"
proof -
  have rows: "id_rows a \<le> id_rows b" "id_rows b \<le> id_rows c" using assms by (simp_all add: factorsFrom_def)
  have "(\<exists>f \<in> set (id_totpFactors a). tf_id f = tf_id h \<and> tf_userId f = tf_userId h \<and> tf_lastUsedCounter f \<le> tf_lastUsedCounter h) \<or>
      (\<exists>k. id_rows a \<le> k \<and> k < id_rows c \<and> tf_id h = ie_rowId env k)" if h: "h \<in> set (id_totpFactors c)" for h
  proof -
    from assms(2) h consider g where "g \<in> set (id_totpFactors b)" "tf_id g = tf_id h" "tf_userId g = tf_userId h" "tf_lastUsedCounter g \<le> tf_lastUsedCounter h"
      | k where "id_rows b \<le> k" "k < id_rows c" "tf_id h = ie_rowId env k" by (auto simp: factorsFrom_def)
    then show ?thesis
    proof cases
      case (1 g)
      with assms(1) rows show ?thesis unfolding factorsFrom_def by (metis less_le_trans order_trans)
    next
      case (2 k)
      with rows show ?thesis by (metis le_trans)
    qed
  qed
  with rows show ?thesis by (simp add: factorsFrom_def)
qed

lemma codesKept_trans: "codesKept u a b \<Longrightarrow> codesKept u b c \<Longrightarrow> codesKept u a c"
  unfolding codesKept_def by (metis (no_types, lifting))

lemma insertBatch_tables:
  "insertRecoveryCodeBatch env i hs db = Inr db' \<Longrightarrow> id_totpFactors db' = id_totpFactors db \<and> (u \<noteq> i \<longrightarrow> codesKept u db db')"
proof (induction env i hs db rule: insertRecoveryCodeBatch.induct)
  case (2 env i h hs db)
  then obtain db1 where one: "insertRecoveryCode env i h db = Inr db1" and rest: "insertRecoveryCodeBatch env i hs db1 = Inr db'"
    by (auto simp: andThen_Inr_iff)
  have "id_totpFactors db1 = id_totpFactors db" "u \<noteq> i \<Longrightarrow> codesKept u db db1"
    using one by (auto simp: insertRecoveryCode_def usedId_def codesKept_def split: if_splits)
  then show ?case using 2(1) [OF rest] codesKept_trans by auto
qed simp

lemma deleteCodes_tables [simp]:
  "id_totpFactors (deleteRecoveryCodes i db) = id_totpFactors db" "codesKept u db (deleteRecoveryCodes i db)"
  by (auto simp: deleteRecoveryCodes_def codesKept_def)

lemma revokeOthers_tables [simp]:
  "id_totpFactors (revokeOtherUserSessionsInTransaction u i db) = id_totpFactors db"
  "id_recoveryCodes (revokeOtherUserSessionsInTransaction u i db) = id_recoveryCodes db"
  by (simp_all add: revokeOtherUserSessionsInTransaction_def)

lemma codesKept_same: "id_recoveryCodes db'' = id_recoveryCodes db' \<Longrightarrow> codesKept u db db'' \<longleftrightarrow> codesKept u db db'"
  by (simp add: codesKept_def)

lemma spendCode_tables:
  assumes "spendCode consumed p now db = (spent, db')"
  shows "factorsFrom env db db' \<and> codesKept u db db'"
proof (cases p)
  case (TotpProof c)
  then show ?thesis using assms by (auto simp: spendCode_def Let_def intro!: factorsFrom_map)
next
  case (RecoveryProof h)
  then show ?thesis using assms by (auto simp: spendCode_def Let_def intro!: codesKept_map split: if_splits)
qed

lemma firstFactor_tables:
  assumes "requireFirstFactor env consumed now db = Inr (allowed, db')"
  shows "factorsFrom env db db' \<and> codesKept u db db'"
proof -
  have "sessionsFrom env db db'"
    using assms by (cases rule: firstFactor_cases) (auto intro: sessionsFrom_subset synchronize_from)
  then show ?thesis using firstFactor_sameFactors [OF assms] by (simp add: sameFactors_tables sessionsFrom_def)
qed

lemma createSession_tables:
  "createSessionInTransaction env sq now db = Inr (s, db') \<Longrightarrow> factorsFrom env db db' \<and> codesKept u db db'"
  using createSession_from [of env sq now db s db'] createSession_sameFactors [of env sq now db s db']
  by (simp add: sameFactors_tables sessionsFrom_def)

lemma completeMfa_tables:
  assumes "completeLoginMfaTransaction env consumed p token expired now db = Inr (result, db')"
  shows "factorsFrom env db db' \<and> codesKept u db db'"
  using assms
proof (cases rule: completeMfa_cases)
  case (refused allowed)
  then show ?thesis using firstFactor_tables by blast
next
  case (unspent db1)
  then show ?thesis
    using firstFactor_tables [OF unspent(1), of u] spendCode_tables [OF unspent(2), of env u] factorsFrom_trans codesKept_trans by blast
next
  case (loggedIn db1 db2 sq s)
  note steps = firstFactor_tables [OF loggedIn(1), of u] spendCode_tables [OF loggedIn(3), of env u] createSession_tables [OF loggedIn(4), of u]
  then have "factorsFrom env db db2" "codesKept u db db2" using factorsFrom_trans codesKept_trans by blast+
  then show ?thesis using steps(3) factorsFrom_trans codesKept_trans by blast
qed simp

lemma identityStep_codes:
  assumes "inj (ie_rowId env)" "identityInv env db" "identityStep env db e db'"
  shows "factorsFrom env db db'" "e \<noteq> FactorsReplaced u \<Longrightarrow> codesKept u db db'"
proof -
  have rows: "id_rows db \<le> id_rows db'" using identityStep_sessions [OF assms] by (simp add: sessionsFrom_def)
  have "factorsFrom env db db' \<and> (e \<noteq> FactorsReplaced u \<longrightarrow> codesKept u db db')"
    using assms(3)
  proof (cases rule: identityStep_factors)
    case same
    then show ?thesis using rows by (simp add: sameFactors_tables)
  next
    case (confirmed own secret c hs now created)
    let ?i = "au_id (cs_user own)"
    obtain new db1 where one: "insertTotpFactor env ?i secret c now db = (new, db1)" by force
    then have ins: "id_recoveryCodes db1 = id_recoveryCodes db" "set (id_totpFactors db1) \<subseteq> insert
        \<lparr>tf_id = newId env db, tf_userId = ?i, tf_secret = secret, tf_lastUsedCounter = c, tf_enabledAt = now, tf_updatedAt = now\<rparr>
        (set (id_totpFactors db))" "id_rows db1 = (if new then Suc (id_rows db) else id_rows db)" "\<not> new \<Longrightarrow> db1 = db"
      by (auto simp: insertTotpFactor_def usedId_def split: if_splits)
    from one confirmed(1) consider "\<not> new" "db' = db1"
      | db2 where "new" "insertRecoveryCodeBatch env ?i hs db1 = Inr db2" "db' = revokeOtherUserSessionsInTransaction ?i (cs_id own) db2"
      by (auto simp: confirmTotpTransaction_def andThen_Inr_iff Let_def split: if_splits)
    then show ?thesis
    proof cases
      case 1
      then show ?thesis using ins(4) by simp
    next
      case (2 db2)
      have "id_rows db1 \<le> id_rows db'"
        using sameAccess_rows [of db1 db2] sameAccess_insertBatch [OF 2(2)] 2(3) by (simp add: revokeOtherUserSessionsInTransaction_def)
      moreover have "factorsFrom env db db1"
        using ins(2,3) 2(1) by (intro factorsFrom_new) (auto simp: newId_def)
      ultimately have "factorsFrom env db db'"
        using insertBatch_tables [OF 2(2)] 2(3) by (intro factorsFrom_trans [of env db db1 db']) auto
      moreover have "codesKept u db db'" if "u \<noteq> ?i"
        using that insertBatch_tables [OF 2(2), of u] ins(1) 2(3) by (simp add: codesKept_def)
      ultimately show ?thesis using confirmed(2) by auto
    qed
  next
    case (regenerated own hs now changed)
    from regenerated(1) consider "db' = db"
      | db2 where "insertRecoveryCodeBatch env (au_id (cs_user own)) hs (deleteRecoveryCodes (au_id (cs_user own)) db) = Inr db2"
          "db' = revokeOtherUserSessionsInTransaction (au_id (cs_user own)) (cs_id own) db2"
      by (auto simp: regenerateRecoveryCodesService_def andThen_Inr_iff Let_def split: if_splits)
    then show ?thesis
    proof cases
      case (2 db2)
      have "codesKept u db db'" if "u \<noteq> au_id (cs_user own)"
        using that insertBatch_tables [OF 2(1), of u] 2(2)
          codesKept_trans [OF deleteCodes_tables(2) [of u db "au_id (cs_user own)"], of db2] codesKept_same [of db' db2] by simp
      then show ?thesis using insertBatch_tables [OF 2(1)] 2(2) rows regenerated(2) by auto
    qed simp
  next
    case (disabled own now changed)
    then have "set (id_totpFactors db') \<subseteq> set (id_totpFactors db)" "set (id_recoveryCodes db') \<subseteq> set (id_recoveryCodes db)"
      by (auto simp: disableTotpService_def deleteRecoveryCodes_def andThen_Inr_iff Let_def split: if_splits)
    then show ?thesis using rows by (auto simp: factorsFrom_def codesKept_def)
  next
    case (completed consumed p token expired now result)
    then show ?thesis using completeMfa_tables [OF completed] by blast
  qed
  then show "factorsFrom env db db'" "e \<noteq> FactorsReplaced u \<Longrightarrow> codesKept u db db'" by auto
qed

lemma later_factors:
  assumes "inj (ie_rowId env)" "steps (identityStep env) db es db'" "identityInv env db"
  shows "factorsFrom env db db'" "FactorsReplaced u \<notin> set es \<Longrightarrow> codesKept u db db'"
proof -
  have "factorsFrom env db db' \<and> (FactorsReplaced u \<notin> set es \<longrightarrow> codesKept u db db')"
    using assms(2,3)
  proof (induction rule: steps.induct)
    case (steps_cons s e t es r)
    have "identityInv env t" by (rule identityStep_inv [OF assms(1) steps_cons(1) steps_cons.prems])
    from steps_cons.IH [OF this] show ?case
      using identityStep_codes(1) [OF assms(1) steps_cons.prems steps_cons(1)]
        identityStep_codes(2) [OF assms(1) steps_cons.prems steps_cons(1), of u]
      by (auto intro: factorsFrom_trans codesKept_trans)
  qed simp
  then show "factorsFrom env db db'" "FactorsReplaced u \<notin> set es \<Longrightarrow> codesKept u db db'" by auto
qed

definition factorIds :: "identity_env \<Rightarrow> identity_db \<Rightarrow> bool" where
  "factorIds env db \<longleftrightarrow> idsBelow env (id_rows db) (map tf_id (id_totpFactors db))"

lemma factorIds_from:
  assumes "factorsFrom env db db'" "factorIds env db"
  shows "factorIds env db'"
proof -
  have "tf_id f \<in> ie_rowId env ` {..<id_rows db'}" if "f \<in> set (id_totpFactors db')" for f
  proof -
    from assms(1) that consider g where "g \<in> set (id_totpFactors db)" "tf_id g = tf_id f"
      | k where "k < id_rows db'" "tf_id f = ie_rowId env k" by (auto simp: factorsFrom_def)
    then show ?thesis
    proof cases
      case (1 g)
      then have "tf_id f \<in> ie_rowId env ` {..<id_rows db}"
        using assms(2) imageI [OF 1(1), of tf_id] by (auto simp: factorIds_def idsBelow_def simp del: imageI)
      moreover have "id_rows db \<le> id_rows db'" using assms(1) by (simp add: factorsFrom_def)
      ultimately show ?thesis by auto
    qed auto
  qed
  then show ?thesis by (auto simp: factorIds_def idsBelow_def)
qed

end
