(* ===== verification/FactorProperties.thy ===== *)
theory FactorProperties
  imports FactorTables IdentitySample
begin

text \<open>
  One-time codes are good for one login: what a completed login leaves in the tables refuses the same code in every
  later state.
\<close>

section \<open>Spent codes\<close>

definition spentIn :: "login_mfa \<Rightarrow> mfa_proof \<Rightarrow> identity_db \<Rightarrow> bool" where
  "spentIn consumed p db = (case p of
     TotpProof c \<Rightarrow> \<forall>f \<in> set (id_totpFactors db).
       tf_userId f = lm_userId consumed \<and> tf_id f = lm_factorId consumed \<longrightarrow> c \<le> tf_lastUsedCounter f
   | RecoveryProof h \<Rightarrow> \<forall>r \<in> set (id_recoveryCodes db). rc_userId r = lm_userId consumed \<and> rc_codeHash r = h \<longrightarrow> rc_usedAt r \<noteq> None)"

lemma one_hit: "length (filter P xs) = 1 \<Longrightarrow> \<exists>x \<in> set xs. P x"
  by (metis filter_False length_0_conv zero_neq_one)

lemma spendCode_spent:
  assumes "spendCode consumed p now db = (True, db')"
  shows "spentIn consumed p db'"
    "p = TotpProof c \<Longrightarrow> \<exists>f \<in> set (id_totpFactors db'). tf_id f = lm_factorId consumed"
proof -
  show "spentIn consumed p db'"
  proof (cases p)
    case (TotpProof c)
    let ?hit = "\<lambda>f. tf_userId f = lm_userId consumed \<and> tf_id f = lm_factorId consumed \<and> tf_lastUsedCounter f < c"
    let ?set = "\<lambda>f. if ?hit f then f\<lparr>tf_lastUsedCounter := c, tf_updatedAt := now\<rparr> else f"
    from assms TotpProof have "id_totpFactors db' = map ?set (id_totpFactors db)" by (auto simp: spendCode_def Let_def)
    moreover have "tf_userId (?set f) = lm_userId consumed \<and> tf_id (?set f) = lm_factorId consumed \<longrightarrow> c \<le> tf_lastUsedCounter (?set f)" for f
      by (cases "?hit f") auto
    ultimately show ?thesis using TotpProof by (simp only: spentIn_def mfa_proof.case set_map ball_simps) blast
  next
    case (RecoveryProof h)
    let ?hit = "\<lambda>r. rc_userId r = lm_userId consumed \<and> rc_codeHash r = h \<and> rc_usedAt r = None"
    let ?set = "\<lambda>r. if ?hit r then r\<lparr>rc_usedAt := Some now\<rparr> else r"
    from assms RecoveryProof have "id_recoveryCodes db' = map ?set (id_recoveryCodes db)" by (auto simp: spendCode_def Let_def)
    moreover have "rc_userId (?set r) = lm_userId consumed \<and> rc_codeHash (?set r) = h \<longrightarrow> rc_usedAt (?set r) \<noteq> None" for r
      by simp
    ultimately show ?thesis using RecoveryProof by (simp only: spentIn_def mfa_proof.case set_map ball_simps) blast
  qed
  assume p: "p = TotpProof c"
  let ?hit = "\<lambda>f. tf_userId f = lm_userId consumed \<and> tf_id f = lm_factorId consumed \<and> tf_lastUsedCounter f < c"
  from assms p have one: "length (filter ?hit (id_totpFactors db)) = 1"
    and db': "db' = db\<lparr>id_totpFactors := map (\<lambda>f. if ?hit f then f\<lparr>tf_lastUsedCounter := c, tf_updatedAt := now\<rparr> else f) (id_totpFactors db)\<rparr>"
    by (simp_all add: spendCode_def Let_def)
  from one_hit [OF one] obtain f where "f \<in> set (id_totpFactors db)" "?hit f" by blast
  then show "\<exists>f \<in> set (id_totpFactors db'). tf_id f = lm_factorId consumed" 
    by (intro bexI [of _ "f\<lparr>tf_lastUsedCounter := c, tf_updatedAt := now\<rparr>"]) (simp_all add: db' image_iff bexI [of _ f])
qed

lemma spendCode_hit:
  assumes "spendCode consumed p now db = (True, db')"
  obtains c f where "p = TotpProof c" "f \<in> set (id_totpFactors db)" "tf_userId f = lm_userId consumed"
      "tf_id f = lm_factorId consumed" "tf_lastUsedCounter f < c"
  | h r where "p = RecoveryProof h" "r \<in> set (id_recoveryCodes db)" "rc_userId r = lm_userId consumed" "rc_codeHash r = h" "rc_usedAt r = None"
proof (cases p)
  case (TotpProof c)
  with assms have "length (filter (\<lambda>f. tf_userId f = lm_userId consumed \<and> tf_id f = lm_factorId consumed \<and> tf_lastUsedCounter f < c)
    (id_totpFactors db)) = 1" by (simp add: spendCode_def Let_def)
  from one_hit [OF this] that(1) [OF TotpProof] show thesis by blast
next
  case (RecoveryProof h)
  with assms have "length (filter (\<lambda>r. rc_userId r = lm_userId consumed \<and> rc_codeHash r = h \<and> rc_usedAt r = None)
    (id_recoveryCodes db)) = 1" by (simp add: spendCode_def Let_def)
  from one_hit [OF this] that(2) [OF RecoveryProof] show thesis by blast
qed

lemma spentIn_codes:
  "codesKept (lm_userId consumed) db db' \<Longrightarrow> spentIn consumed (RecoveryProof h) db \<Longrightarrow> spentIn consumed (RecoveryProof h) db'"
  by (fastforce simp: spentIn_def codesKept_def)

lemma spentIn_factors:
  assumes "inj (ie_rowId env)" "factorsFrom env db db'" "factorIds env db" "spentIn consumed (TotpProof c) db"
    "\<exists>f \<in> set (id_totpFactors db). tf_id f = lm_factorId consumed"
  shows "spentIn consumed (TotpProof c) db'"
proof -
  from assms(3,5) obtain n where n: "n < id_rows db" "lm_factorId consumed = ie_rowId env n" by (auto simp: factorIds_def idsBelow_def)
  have "c \<le> tf_lastUsedCounter f"
    if f: "f \<in> set (id_totpFactors db')" "tf_userId f = lm_userId consumed" "tf_id f = lm_factorId consumed" for f
  proof -
    have "tf_id f \<noteq> ie_rowId env k" if "id_rows db \<le> k" for k using that n f(3) injD [OF assms(1), of k n] by auto
    with assms(2) f(1) obtain g where g: "g \<in> set (id_totpFactors db)" "tf_id g = tf_id f" "tf_userId g = tf_userId f"
      "tf_lastUsedCounter g \<le> tf_lastUsedCounter f" unfolding factorsFrom_def by blast
    then have "c \<le> tf_lastUsedCounter g" using assms(4) f(2,3) by (simp add: spentIn_def)
    with g(4) show ?thesis by simp
  qed
  then show ?thesis by (simp add: spentIn_def)
qed

text \<open>Both kinds of code, over the rest of the transaction that spent it and any later ones.\<close>

lemma spentIn_later:
  assumes "inj (ie_rowId env)" "factorIds env db" "spendCode consumed p now db0 = (True, db)"
    "factorsFrom env db db'" "(\<forall>h. p \<noteq> RecoveryProof h) \<or> codesKept (lm_userId consumed) db db'"
  shows "spentIn consumed p db'"
proof (cases p)
  case (TotpProof c)
  show ?thesis
    using spentIn_factors [OF assms(1,4,2), of consumed c] spendCode_spent [OF assms(3)] TotpProof by blast
next
  case (RecoveryProof h)
  then show ?thesis using spentIn_codes [of consumed db db' h] spendCode_spent(1) [OF assms(3)] assms(5) by auto
qed

text \<open>Identifiers of factors are below the next one in every reachable state.\<close>

lemma fresh_factors: "freshInstallation db \<Longrightarrow> factorIds env db"
  by (simp add: freshInstallation_def factorIds_def idsBelow_def)

interpretation factors: invariant_system freshInstallation
  "\<lambda>db e db'. inj (ie_rowId env) \<and> identityStep env db e db'" "\<lambda>db. identityInv env db \<and> factorIds env db" for env
  by unfold_locales (auto intro: fresh_inv fresh_factors identityStep_inv factorIds_from identityStep_codes(1))

lemma completed_login:
  assumes "completeLoginMfaTransaction env consumed p token expired now db = Inr (MfaLoggedIn cs, db')"
  obtains db1 db2 where "factorsFrom env db db1" "\<And>u. codesKept u db db1" "spendCode consumed p now db1 = (True, db2)"
    "factorsFrom env db1 db2" "factorsFrom env db2 db'" "\<And>u. codesKept u db2 db'"
  using assms
proof (cases rule: completeMfa_cases)
  case (loggedIn db1 db2 sq s)
  show thesis
    using that [of db1 db2] firstFactor_tables [OF loggedIn(1)] spendCode_tables [OF loggedIn(3)] createSession_tables [OF loggedIn(4)]
      loggedIn(3) by blast
qed simp_all

section \<open>The property\<close>

text \<open>
  Claim C40. A one-time code completes one login: when a login with a second factor succeeded, then in every later
  state a login with the same authenticator needs a code of a later interval, and a login with the same recovery
  code of that user is only possible after the user's codes were replaced.
\<close>

theorem spent_codes_stay_spent:
  assumes "inj (ie_rowId env)" "identityInv env db" "factorIds env db"
    "completeLoginMfaTransaction env consumed p token expired now db = Inr (MfaLoggedIn cs, db')"
    "steps (identityStep env) db' es later"
    "completeLoginMfaTransaction env consumed' p' token' expired' now' later = Inr (MfaLoggedIn cs', db'')"
    "lm_userId consumed' = lm_userId consumed"
  shows "(\<forall>c c'. p = TotpProof c \<and> p' = TotpProof c' \<and> lm_factorId consumed' = lm_factorId consumed \<longrightarrow> c < c') \<and>
    (\<forall>h. p = RecoveryProof h \<and> p' = RecoveryProof h \<longrightarrow> FactorsReplaced (lm_userId consumed) \<in> set es)"
proof -
  let ?u = "lm_userId consumed"
  from assms(4) obtain db1 db2 where first: "factorsFrom env db db1" "spendCode consumed p now db1 = (True, db2)"
    "factorsFrom env db1 db2" "factorsFrom env db2 db'" "codesKept ?u db2 db'" by (rule completed_login) blast
  from assms(6) obtain db3 db4 where second: "factorsFrom env later db3" "codesKept ?u later db3" "spendCode consumed' p' now' db3 = (True, db4)"
    by (rule completed_login) blast
  have inv: "identityInv env db'" by (rule identityStep_inv [OF assms(1) identityStep.completeMfa [OF assms(4)] assms(2)])
  note rest = later_factors [OF assms(1,5) inv]
  have ids: "factorIds env db2" using assms(3) first(1,3) factorIds_from by blast
  have from2: "factorsFrom env db2 db3" using first(4) rest(1) second(1) factorsFrom_trans by blast
  have kept: "codesKept ?u db2 db3" if "FactorsReplaced ?u \<notin> set es"
    using first(5) rest(2) [OF that] second(2) codesKept_trans by blast
  have "spentIn consumed p db3" if "(\<forall>h. p \<noteq> RecoveryProof h) \<or> FactorsReplaced ?u \<notin> set es"
    using spentIn_later [OF assms(1) ids first(2) from2] that kept by blast
  note spent = this
  from second(3) show ?thesis
  proof (cases rule: spendCode_hit)
    case (1 c' f)
    have "c < c'" if "p = TotpProof c" "lm_factorId consumed' = lm_factorId consumed" for c
      using spent that 1 assms(7) by (fastforce simp: spentIn_def)
    with 1(1) show ?thesis by simp
  next
    case (2 h r)
    have "FactorsReplaced ?u \<in> set es" if "p = RecoveryProof h"
    proof (rule ccontr)
      assume "FactorsReplaced ?u \<notin> set es"
      then show False using spent that 2 assms(7) by (auto simp: spentIn_def)
    qed
    with 2(1) show ?thesis by simp
  qed
qed

text \<open>A user with an authenticator, last used in interval 6, signs in with the codes of intervals 7 and 8.\<close>

definition factorDb :: identity_db where
  "factorDb = sampleDb\<lparr>id_totpFactors := [\<lparr>tf_id = sampleId 4, tf_userId = sampleId 10,
     tf_secret = \<lparr>es_ciphertext = ''c'', es_iv = ''v''\<rparr>, tf_lastUsedCounter = 6, tf_enabledAt = 0, tf_updatedAt = 0\<rparr>]\<rparr>"

definition factorChallenge :: login_mfa where
  "factorChallenge = \<lparr>lm_createdAt = ''0'', lm_attempts = 0, lm_factorId = sampleId 4, lm_userId = sampleId 10,
     lm_firstFactor = PasswordFactor (getPasswordAuthenticationFingerprint sampleEnv ''spass'')\<rparr>"

definition laterToken :: string where "laterToken = replicate 43 (CHR ''l'')"

definition mfaRun :: "int \<Rightarrow> string \<Rightarrow> int \<Rightarrow> identity_db \<Rightarrow> mfa_result \<times> identity_db" where
  "mfaRun c token now db = unwrap (MfaChallengeExpired, db)
     (completeLoginMfaTransaction sampleEnv factorChallenge (TotpProof c) token [] now db)"

lemma factorDb_inv: "identityInv sampleEnv factorDb" "factorIds sampleEnv factorDb"
proof -
  show "identityInv sampleEnv factorDb"
    by (rule sameAccess_inv [OF _ sample_inv(1)]) (simp add: sameAccess_def factorDb_def accounts_def roleTable_def)
  show "factorIds sampleEnv factorDb" by (simp add: factorIds_def idsBelow_def factorDb_def sampleDb_def sampleEnv_def)
qed

definition signedIn :: "mfa_result \<Rightarrow> bool" where
  "signedIn r = (case r of MfaLoggedIn s \<Rightarrow> True | _ \<Rightarrow> False)"

lemma mfa_runs:
  "completeLoginMfaTransaction sampleEnv factorChallenge (TotpProof 7) newToken [] 5 factorDb = Inr (mfaRun 7 newToken 5 factorDb)"
  "completeLoginMfaTransaction sampleEnv factorChallenge (TotpProof 8) laterToken [] 6 (snd (mfaRun 7 newToken 5 factorDb)) =
     Inr (mfaRun 8 laterToken 6 (snd (mfaRun 7 newToken 5 factorDb)))"
  "signedIn (fst (mfaRun 7 newToken 5 factorDb))" "signedIn (fst (mfaRun 8 laterToken 6 (snd (mfaRun 7 newToken 5 factorDb))))"
  "fst (mfaRun 7 laterToken 6 (snd (mfaRun 7 newToken 5 factorDb))) = MfaAuthenticationFailed"
  by code_simp+

lemma signedIn_run:
  assumes "run = Inr r" "signedIn (fst r)"
  obtains cs where "run = Inr (MfaLoggedIn cs, snd r)"
  using assms by (cases r) (auto simp: signedIn_def split: mfa_result.splits)

theorem spent_codes_stay_spent_witness:
  "fst (mfaRun 7 laterToken 6 (snd (mfaRun 7 newToken 5 factorDb))) = MfaAuthenticationFailed \<and> (7::int) < 8"
proof -
  from mfa_runs(1,3) obtain cs where first: "completeLoginMfaTransaction sampleEnv factorChallenge (TotpProof 7) newToken [] 5 factorDb =
    Inr (MfaLoggedIn cs, snd (mfaRun 7 newToken 5 factorDb))" by (rule signedIn_run)
  from mfa_runs(2,4) obtain cs' where second: "completeLoginMfaTransaction sampleEnv factorChallenge (TotpProof 8) laterToken [] 6
    (snd (mfaRun 7 newToken 5 factorDb)) = Inr (MfaLoggedIn cs', snd (mfaRun 8 laterToken 6 (snd (mfaRun 7 newToken 5 factorDb))))"
    by (rule signedIn_run)
  from spent_codes_stay_spent [OF sample_env factorDb_inv first steps_nil second refl] mfa_runs(5)
  show ?thesis by simp
qed

end
