(* ===== verification/SecondFactor.thy ===== *)
theory SecondFactor
  imports FactorServices JsLib
begin

text \<open>
  The services of second factors and passkeys, \<^verbatim>\<open>web/src/server/Auth/TwoFactor\<close> and
  \<^verbatim>\<open>web/src/server/Auth/Passkey/passkey.service.ts\<close>: they use the challenge store and the account tables in turn.
  Between two of their calls other requests run; what those do to store and tables is the argument \<open>others\<close>, at the
  \<open>n\<close>-th point, and \<open>clock\<close> is the moment of the \<open>n\<close>-th call. Encryption, the one-time password library, the passkey
  library and Node's base64 codec are arguments. The audit log is not modelled.
\<close>

section \<open>Surroundings\<close>

record factor_world =
  fw_store :: challenge_store
  fw_db :: identity_db

record factor_crypto =
  fc_encrypt :: "string \<Rightarrow> string \<Rightarrow> encrypted_secret"
  fc_decrypt :: "encrypted_secret \<Rightarrow> string \<Rightarrow> string option"
  fc_validate :: "string \<Rightarrow> string \<Rightarrow> int \<Rightarrow> int \<Rightarrow> int option"
  fc_counter :: "int \<Rightarrow> int"
  fc_fromBase64 :: "string \<Rightarrow> string"
  fc_toBase64 :: "string \<Rightarrow> string"
  fc_hexToBase64 :: "string \<Rightarrow> string"
  fc_recode :: "auth_challenge \<Rightarrow> stored"

type_synonym interference = "nat \<Rightarrow> factor_world \<Rightarrow> factor_world"

datatype factor_error = AuthFailed auth_error | ChallengeFailed challenge_error | SecretUnreadable | TotpAlreadyEnabled | WebAuthnUnavailable

definition liftAuth :: "auth_error + 'a \<Rightarrow> factor_error + 'a" where
  "liftAuth r = (case r of Inl e \<Rightarrow> Inl (AuthFailed e) | Inr x \<Rightarrow> Inr x)"

section \<open>Codes\<close>

definition TOTP_DIGITS :: nat where "TOTP_DIGITS = 6"
definition TOTP_VALIDATION_WINDOW :: int where "TOTP_VALIDATION_WINDOW = 1"
definition RECOVERY_CODE_BYTES :: nat where "RECOVERY_CODE_BYTES = 16"

definition createTotpEncryptionContext :: "string \<Rightarrow> string" where
  "createTotpEncryptionContext userId = ''rentnerproxy:totp:'' @ userId"

definition normalizeTotpCode :: "string \<Rightarrow> string option" where
  "normalizeTotpCode value = (if length value = 6 \<and> list_all isDigit value then Some value else None)"

definition getMatchedTotpCounter :: "factor_crypto \<Rightarrow> string \<Rightarrow> string \<Rightarrow> int \<Rightarrow> int option" where
  "getMatchedTotpCounter crypto secret token timestamp =
     (if \<not> (length token = TOTP_DIGITS \<and> list_all isDigit token) then None
      else (case fc_validate crypto secret token TOTP_VALIDATION_WINDOW timestamp of
          None \<Rightarrow> None
        | Some delta \<Rightarrow> Some (fc_counter crypto timestamp + delta)))"

text \<open>Recovery codes are 32 upper case hexadecimal digits, shown in groups of four.\<close>

definition upperChar :: "char \<Rightarrow> char" where
  "upperChar c = (let n = (of_char c :: nat) in
     if (97 \<le> n \<and> n \<le> 122) \<or> (224 \<le> n \<and> n \<le> 254 \<and> n \<noteq> 247) then char_of (n - 32) else c)"

fun groupsOfFour :: "string \<Rightarrow> string list" where
  "groupsOfFour [] = []"
| "groupsOfFour (c # cs) = (c # take 3 cs) # groupsOfFour (drop 3 cs)"

definition formatRecoveryCode :: "string \<Rightarrow> string" where
  "formatRecoveryCode value = joinWith ''-'' (groupsOfFour value)"

definition isCodeDigit :: "char \<Rightarrow> bool" where
  "isCodeDigit c \<longleftrightarrow> isDigit c \<or> (65 \<le> (of_char c :: nat) \<and> (of_char c :: nat) \<le> 70)"

definition normalizeRecoveryCode :: "string \<Rightarrow> string option" where
  "normalizeRecoveryCode value =
     (let normalized = filter (\<lambda>c. \<not> (isSpace c \<or> c = CHR ''-'')) (map upperChar (trim value)) in
      if length normalized = 32 \<and> list_all isCodeDigit normalized then Some normalized else None)"

definition hashRecoveryCode :: "identity_env \<Rightarrow> string \<Rightarrow> string" where
  "hashRecoveryCode env value = ie_digest env value"

definition createRecoveryCodeBatch :: "identity_env \<Rightarrow> string list \<Rightarrow> (string \<times> string) list" where
  "createRecoveryCodeBatch env rawCodes = map (\<lambda>raw. (hashRecoveryCode env raw, formatRecoveryCode raw)) rawCodes"

definition isBase64Url :: "char \<Rightarrow> bool" where
  "isBase64Url c \<longleftrightarrow> isDigit c \<or> (65 \<le> (of_char c :: nat) \<and> (of_char c :: nat) \<le> 90) \<or>
     (97 \<le> (of_char c :: nat) \<and> (of_char c :: nat) \<le> 122) \<or> c = CHR ''_'' \<or> c = CHR ''-''"

definition decodeBase64Url :: "factor_crypto \<Rightarrow> string \<Rightarrow> string option" where
  "decodeBase64Url crypto value =
     (if value = [] \<or> \<not> list_all isBase64Url value then None
      else if fc_toBase64 crypto (fc_fromBase64 crypto value) = value then Some (fc_fromBase64 crypto value) else None)"

section \<open>Status and challenges\<close>

record two_factor_status =
  tw_recoveryCodesRemaining :: nat
  tw_totpEnabled :: bool

definition hasEnabledTotpFactorService :: "identity_db \<Rightarrow> string \<Rightarrow> bool" where
  "hasEnabledTotpFactorService db userId = some_elem (\<lambda>f. tf_userId f = userId) (id_totpFactors db)"

definition getTwoFactorStatusService :: "identity_db \<Rightarrow> string \<Rightarrow> two_factor_status" where
  "getTwoFactorStatusService db userId =
     (let enabled = some_elem (\<lambda>f. tf_userId f = userId) (id_totpFactors db);
          unused = length (filter (\<lambda>r. rc_userId r = userId \<and> rc_usedAt r = None) (id_recoveryCodes db))
      in \<lparr>tw_recoveryCodesRemaining = (if enabled then unused else 0), tw_totpEnabled = enabled\<rparr>)"

definition issueChallenge :: "auth_challenge \<Rightarrow> int \<Rightarrow> string \<Rightarrow> int \<Rightarrow> factor_world \<Rightarrow>
    (factor_error + int \<times> string) \<times> factor_world" where
  "issueChallenge c duration token now w =
     (case createAuthChallenge c duration token now (fw_store w) of
        Inl e \<Rightarrow> (Inl (ChallengeFailed e), w)
      | Inr (issued, vk) \<Rightarrow> (Inr issued, w\<lparr>fw_store := vk\<rparr>))"

definition createLoginMfaChallengeService :: "string \<Rightarrow> string \<Rightarrow> string \<Rightarrow> string \<Rightarrow> int \<Rightarrow> factor_world \<Rightarrow>
    (factor_error + int \<times> string) \<times> factor_world" where
  "createLoginMfaChallengeService factorId passwordFingerprint userId token now =
     issueChallenge (LoginMfaChallenge \<lparr>lm_createdAt = toISOString now, lm_attempts = 0, lm_factorId = factorId, lm_userId = userId,
       lm_firstFactor = PasswordFactor passwordFingerprint\<rparr>) LOGIN_MFA_CHALLENGE_DURATION_MS token now"

definition createOidcLoginMfaChallengeService :: "string \<Rightarrow> oidc_proof \<Rightarrow> string list option \<Rightarrow> string \<Rightarrow> int \<Rightarrow> factor_world \<Rightarrow>
    (factor_error + int \<times> string) \<times> factor_world" where
  "createOidcLoginMfaChallengeService factorId p groups token now =
     issueChallenge (LoginMfaChallenge \<lparr>lm_createdAt = toISOString now, lm_attempts = 0, lm_factorId = factorId, lm_userId = op_userId p,
       lm_firstFactor = OidcFactor \<lparr>of_providerId = op_providerId p, of_providerRevision = op_providerRevision p,
         of_bindingGeneration = Some (op_bindingGeneration p), of_issuer = op_issuer p, of_subject = op_subject p,
         of_expiresAt = op_expiresAt p, of_groups = groups\<rparr>\<rparr>) LOGIN_MFA_CHALLENGE_DURATION_MS token now"

definition beginTotpSetupService :: "factor_crypto \<Rightarrow> interference \<Rightarrow> current_session \<Rightarrow> string \<Rightarrow> string \<Rightarrow> (nat \<Rightarrow> int) \<Rightarrow> factor_world \<Rightarrow>
    (factor_error + int \<times> string) \<times> factor_world" where
  "beginTotpSetupService crypto others session secret token clock w =
     (case requireActiveSessionInTransaction session (clock 0) (fw_db w) of
        Inl e \<Rightarrow> (Inl (AuthFailed e), w)
      | Inr _ \<Rightarrow> (case requireSessionPermission session ACCOUNT_UPDATE of
          Inl e \<Rightarrow> (Inl (AuthFailed e), w)
        | Inr _ \<Rightarrow>
            let w1 = others 0 w in
            if hasEnabledTotpFactorService (fw_db w1) (au_id (cs_user session)) then (Inl TotpAlreadyEnabled, w1)
            else
              let encrypted = fc_encrypt crypto secret (createTotpEncryptionContext (au_id (cs_user session))) in
              issueChallenge (TotpSetupChallenge \<lparr>ts_createdAt = toISOString (clock 1), ts_attempts = 0,
                ts_ciphertext = fc_toBase64 crypto (es_ciphertext encrypted), ts_iv = fc_toBase64 crypto (es_iv encrypted),
                ts_sessionId = cs_id session, ts_userId = au_id (cs_user session)\<rparr>)
                TOTP_SETUP_CHALLENGE_DURATION_MS token (clock 1) (others 1 w1)))"

section \<open>Verifying a code under the lock\<close>

text \<open>The answer to a code that is no code or the wrong one.\<close>

definition refuseCode :: "factor_crypto \<Rightarrow> challenge_key \<Rightarrow> string \<Rightarrow> int \<Rightarrow> factor_world \<Rightarrow> mfa_result \<times> factor_world" where
  "refuseCode crypto k lockToken now w =
     (case failCodeChallengeVerification (fc_recode crypto) k lockToken now (fw_store w) of
        (failure, vk) \<Rightarrow> (if failure = CodeLocked then MfaChallengeExpired else MfaAuthenticationFailed, w\<lparr>fw_store := vk\<rparr>))"

definition releaseCode :: "challenge_key \<Rightarrow> string \<Rightarrow> int \<Rightarrow> factor_world \<Rightarrow> factor_world" where
  "releaseCode k lockToken now w = w\<lparr>fw_store := releaseCodeChallengeVerification k lockToken now (fw_store w)\<rparr>"

definition acquireCode :: "challenge_key \<Rightarrow> string \<Rightarrow> int \<Rightarrow> factor_world \<Rightarrow> auth_challenge option \<times> factor_world" where
  "acquireCode k lockToken now w =
     (case acquireCodeChallengeVerification k lockToken now (fw_store w) of (c, vk) \<Rightarrow> (c, w\<lparr>fw_store := vk\<rparr>))"

definition consumeCode :: "challenge_key \<Rightarrow> string \<Rightarrow> int \<Rightarrow> factor_world \<Rightarrow> (factor_error + auth_challenge option) \<times> factor_world" where
  "consumeCode k lockToken now w =
     (case consumeCodeChallengeVerification k lockToken now (fw_store w) of
        (Inl e, vk) \<Rightarrow> (Inl (ChallengeFailed e), w\<lparr>fw_store := vk\<rparr>)
      | (Inr c, vk) \<Rightarrow> (Inr c, w\<lparr>fw_store := vk\<rparr>))"

section \<open>Logging in with a second factor\<close>

record login_answer =
  la_challengeId :: string
  la_code :: string
  la_lockToken :: string
  la_sessionToken :: string
  la_expired :: "string list"

text \<open>The end of both services: the challenge is used, then the transaction runs.\<close>

definition useChallenge :: "identity_env \<Rightarrow> interference \<Rightarrow> login_answer \<Rightarrow> mfa_proof \<Rightarrow> (nat \<Rightarrow> int) \<Rightarrow> factor_world \<Rightarrow>
    (factor_error + mfa_result) \<times> factor_world" where
  "useChallenge env others answer proof clock w =
     (case consumeCode (LoginMfa, la_challengeId answer) (la_lockToken answer) (clock 2) w of
        (Inl e, w1) \<Rightarrow> (Inl e, w1)
      | (Inr (Some (LoginMfaChallenge consumed)), w1) \<Rightarrow>
          let w2 = others 2 w1 in
          (case completeLoginMfaTransaction env consumed proof (la_sessionToken answer) (la_expired answer) (clock 3) (fw_db w2) of
             Inl e \<Rightarrow> (Inl (AuthFailed e), w2)
           | Inr (result, db) \<Rightarrow> (Inr result, w2\<lparr>fw_db := db\<rparr>))
      | (Inr _, w1) \<Rightarrow> (Inr MfaChallengeExpired, w1))"

definition completeLoginMfaWithTotpService :: "identity_env \<Rightarrow> factor_crypto \<Rightarrow> interference \<Rightarrow> login_answer \<Rightarrow> (nat \<Rightarrow> int) \<Rightarrow>
    factor_world \<Rightarrow> (factor_error + mfa_result) \<times> factor_world" where
  "completeLoginMfaWithTotpService env crypto others answer clock w =
     (let k = (LoginMfa, la_challengeId answer); lockToken = la_lockToken answer;
          refuse = (\<lambda>w. case refuseCode crypto k lockToken (clock 2) w of (r, w') \<Rightarrow> (Inr r, w')) in
      case acquireCode k lockToken (clock 0) w of
        (Some (LoginMfaChallenge challenge), w0) \<Rightarrow>
          let w1 = others 0 w0 in
          (case (normalizeTotpCode (la_code answer), find (\<lambda>f. tf_userId f = lm_userId challenge) (id_totpFactors (fw_db w1))) of
             (Some code, Some factor) \<Rightarrow>
               if tf_id factor \<noteq> lm_factorId challenge then refuse (others 1 w1)
               else (case fc_decrypt crypto (tf_secret factor) (createTotpEncryptionContext (lm_userId challenge)) of
                   None \<Rightarrow> (Inl SecretUnreadable, releaseCode k lockToken (clock 2) (others 1 w1))
                 | Some secret \<Rightarrow> (case getMatchedTotpCounter crypto secret code (clock 1) of
                     None \<Rightarrow> refuse (others 1 w1)
                   | Some matchedCounter \<Rightarrow> useChallenge env others answer (TotpProof matchedCounter) clock (others 1 w1)))
           | _ \<Rightarrow> refuse (others 1 w1))
      | (_, w0) \<Rightarrow> (Inr MfaChallengeExpired, w0))"

definition completeLoginMfaWithRecoveryCodeService :: "identity_env \<Rightarrow> factor_crypto \<Rightarrow> interference \<Rightarrow> login_answer \<Rightarrow> (nat \<Rightarrow> int) \<Rightarrow>
    factor_world \<Rightarrow> (factor_error + mfa_result) \<times> factor_world" where
  "completeLoginMfaWithRecoveryCodeService env crypto others answer clock w =
     (let k = (LoginMfa, la_challengeId answer); lockToken = la_lockToken answer;
          refuse = (\<lambda>w. case refuseCode crypto k lockToken (clock 2) w of (r, w') \<Rightarrow> (Inr r, w')) in
      case acquireCode k lockToken (clock 0) w of
        (Some (LoginMfaChallenge challenge), w0) \<Rightarrow>
          let w1 = others 0 w0 in
          (case normalizeRecoveryCode (la_code answer) of
             None \<Rightarrow> refuse (others 1 w1)
           | Some normalized \<Rightarrow>
               let codeHash = hashRecoveryCode env normalized in
               if some_elem (\<lambda>r. rc_userId r = lm_userId challenge \<and> rc_codeHash r = codeHash \<and> rc_usedAt r = None)
                    (id_recoveryCodes (fw_db w1))
               then useChallenge env others answer (RecoveryProof codeHash) clock (others 1 w1)
               else refuse (others 1 w1))
      | (_, w0) \<Rightarrow> (Inr MfaChallengeExpired, w0))"

section \<open>Setting up a second factor\<close>

datatype totp_setup_result = SetupFailed mfa_result | SetupDone "string list"

definition confirmTotpSetupService :: "identity_env \<Rightarrow> factor_crypto \<Rightarrow> interference \<Rightarrow> current_session \<Rightarrow> string \<Rightarrow> string \<Rightarrow> string \<Rightarrow>
    string list \<Rightarrow> (nat \<Rightarrow> int) \<Rightarrow> factor_world \<Rightarrow> (factor_error + totp_setup_result) \<times> factor_world" where
  "confirmTotpSetupService env crypto others session flowId token lockToken rawCodes clock w =
     (let k = (TotpSetup, flowId); userId = au_id (cs_user session);
          refuse = (\<lambda>w. case refuseCode crypto k lockToken (clock 2) w of (r, w') \<Rightarrow> (Inr (SetupFailed r), w')) in
      case andThen (requireActiveSessionInTransaction session (clock 0) (fw_db w)) (\<lambda>_. requireSessionPermission session ACCOUNT_UPDATE) of
        Inl e \<Rightarrow> (Inl (AuthFailed e), w)
      | Inr _ \<Rightarrow>
          (case acquireCode k lockToken (clock 1) (others 0 w) of
             (Some (TotpSetupChallenge challenge), w1) \<Rightarrow>
               if ts_userId challenge \<noteq> userId \<or> ts_sessionId challenge \<noteq> cs_id session
               then (Inr (SetupFailed MfaChallengeExpired), w1)
               else (case (normalizeTotpCode token, decodeBase64Url crypto (ts_ciphertext challenge), decodeBase64Url crypto (ts_iv challenge)) of
                   (Some code, Some ciphertext, Some iv) \<Rightarrow>
                     let encrypted = \<lparr>es_ciphertext = ciphertext, es_iv = iv\<rparr> in
                     (case fc_decrypt crypto encrypted (createTotpEncryptionContext userId) of
                        None \<Rightarrow> (Inl SecretUnreadable, releaseCode k lockToken (clock 2) (others 1 w1))
                      | Some secret \<Rightarrow>
                          (case getMatchedTotpCounter crypto secret code (clock 2) of
                             None \<Rightarrow> refuse (others 1 w1)
                           | Some matchedCounter \<Rightarrow>
                               (case consumeCode k lockToken (clock 2) (others 1 w1) of
                                  (Inl e, w2) \<Rightarrow> (Inl e, w2)
                                | (Inr None, w2) \<Rightarrow> (Inr (SetupFailed MfaChallengeExpired), w2)
                                | (Inr (Some consumed), w2) \<Rightarrow>
                                    let batch = createRecoveryCodeBatch env rawCodes; w3 = others 2 w2 in
                                    (case confirmTotpTransaction env session encrypted matchedCounter (map fst batch) (clock 3) (fw_db w3) of
                                       Inl e \<Rightarrow> (Inl (AuthFailed e), w3)
                                     | Inr (created, db) \<Rightarrow>
                                         (Inr (if created then SetupDone (map snd batch) else SetupFailed MfaAuthenticationFailed),
                                          w3\<lparr>fw_db := db\<rparr>)))))
                 | _ \<Rightarrow> refuse (others 1 w1))
           | (_, w1) \<Rightarrow> (Inr (SetupFailed MfaChallengeExpired), w1)))"

section \<open>Passkeys\<close>

text \<open>
  The passkey library: whether the service is configured, and its verification of an answer against the challenge, for
  a login also against the stored key and counter. \<open>None\<close> stands for an error as well as for a refusal.
\<close>

record passkey_answer =
  pa_id :: string
  pa_userHandle :: "string option"
  pa_body :: string

record passkey_library =
  pl_configured :: bool
  pl_verifyRegistration :: "passkey_answer \<Rightarrow> string \<Rightarrow> registration_info option"
  pl_verifyAuthentication :: "passkey_answer \<Rightarrow> string \<Rightarrow> passkey_row \<Rightarrow> authentication_info option"

definition toWebAuthnUserId :: "string \<Rightarrow> factor_error + string" where
  "toWebAuthnUserId userId =
     (let hex = filter (\<lambda>c. c \<noteq> CHR ''-'') userId in
      if length hex = 32 \<and> list_all isHex hex then Inr hex else Inl WebAuthnUnavailable)"

definition beginPasskeyRegistrationService :: "passkey_library \<Rightarrow> interference \<Rightarrow> current_session \<Rightarrow> string \<Rightarrow> string \<Rightarrow> (nat \<Rightarrow> int) \<Rightarrow>
    factor_world \<Rightarrow> (factor_error + (int \<times> string) \<times> (string \<times> string list) list) \<times> factor_world" where
  "beginPasskeyRegistrationService library others session challenge token clock w =
     (let userId = au_id (cs_user session) in
      case andThen (requireSessionPermission session ACCOUNT_UPDATE) (\<lambda>_. requirePasskeyAccount session (clock 0) (fw_db w)) of
        Inl e \<Rightarrow> (Inl (AuthFailed e), w)
      | Inr _ \<Rightarrow>
          if \<not> pl_configured library then (Inl WebAuthnUnavailable, w)
          else
            let w1 = others 0 w;
                exclude = map (\<lambda>p. (pk_credentialId p, toStoredTransports (pk_transports p)))
                  (filter (\<lambda>p. pk_userId p = userId) (id_passkeys (fw_db w1))) in
            (case toWebAuthnUserId userId of
               Inl e \<Rightarrow> (Inl e, w1)
             | Inr _ \<Rightarrow>
                 (case issueChallenge (RegistrationChallenge \<lparr>wr_createdAt = toISOString (clock 1), wr_challenge = challenge,
                     wr_sessionId = cs_id session, wr_userId = userId\<rparr>) WEBAUTHN_CHALLENGE_DURATION_MS token (clock 1) (others 1 w1) of
                    (Inl e, w2) \<Rightarrow> (Inl e, w2)
                  | (Inr issued, w2) \<Rightarrow> (Inr (issued, exclude), w2))))"

definition takeChallenge :: "challenge_kind \<Rightarrow> string \<Rightarrow> int \<Rightarrow> factor_world \<Rightarrow> (factor_error + auth_challenge option) \<times> factor_world" where
  "takeChallenge kind flowId now w =
     (case consumeAuthChallenge kind flowId now (fw_store w) of
        (Inl e, vk) \<Rightarrow> (Inl (ChallengeFailed e), w\<lparr>fw_store := vk\<rparr>)
      | (Inr c, vk) \<Rightarrow> (Inr c, w\<lparr>fw_store := vk\<rparr>))"

datatype registration_result = RegistrationExpired | RegistrationFailed | Registered

definition finishPasskeyRegistrationService :: "identity_env \<Rightarrow> passkey_library \<Rightarrow> interference \<Rightarrow> current_session \<Rightarrow> string \<Rightarrow> string option \<Rightarrow>
    passkey_answer \<Rightarrow> (nat \<Rightarrow> int) \<Rightarrow> factor_world \<Rightarrow> (factor_error + registration_result) \<times> factor_world" where
  "finishPasskeyRegistrationService env library others session flowId name response clock w =
     (case andThen (requireActiveSessionInTransaction session (clock 0) (fw_db w)) (\<lambda>_. requireSessionPermission session ACCOUNT_UPDATE) of
        Inl e \<Rightarrow> (Inl (AuthFailed e), w)
      | Inr _ \<Rightarrow>
          if \<not> pl_configured library then (Inl WebAuthnUnavailable, w)
          else (case takeChallenge WebauthnRegistration flowId (clock 1) (others 0 w) of
              (Inl e, w1) \<Rightarrow> (Inl e, w1)
            | (Inr (Some (RegistrationChallenge challenge)), w1) \<Rightarrow>
                if wr_userId challenge \<noteq> au_id (cs_user session) \<or> wr_sessionId challenge \<noteq> cs_id session
                then (Inr RegistrationExpired, w1)
                else (case pl_verifyRegistration library response (wr_challenge challenge) of
                    None \<Rightarrow> (Inr RegistrationFailed, w1)
                  | Some info \<Rightarrow>
                      let w2 = others 1 w1 in
                      (case registerPasskeyTransaction env session name info (clock 2) (fw_db w2) of
                         Inl e \<Rightarrow> (Inl (AuthFailed e), w2)
                       | Inr (inserted, db) \<Rightarrow> (Inr (if inserted then Registered else RegistrationFailed), w2\<lparr>fw_db := db\<rparr>)))
            | (Inr _, w1) \<Rightarrow> (Inr RegistrationExpired, w1)))"

definition beginDiscoverablePasskeyAuthenticationService :: "passkey_library \<Rightarrow> string \<Rightarrow> string \<Rightarrow> int \<Rightarrow> factor_world \<Rightarrow>
    (factor_error + int \<times> string) \<times> factor_world" where
  "beginDiscoverablePasskeyAuthenticationService library challenge token now w =
     (if \<not> pl_configured library then (Inl WebAuthnUnavailable, w)
      else issueChallenge (AuthenticationChallenge (toISOString now) challenge) WEBAUTHN_CHALLENGE_DURATION_MS token now w)"

definition finishDiscoverablePasskeyAuthenticationService :: "identity_env \<Rightarrow> factor_crypto \<Rightarrow> passkey_library \<Rightarrow> interference \<Rightarrow> string \<Rightarrow>
    passkey_answer \<Rightarrow> string \<Rightarrow> string list \<Rightarrow> (nat \<Rightarrow> int) \<Rightarrow> factor_world \<Rightarrow> (factor_error + mfa_result) \<times> factor_world" where
  "finishDiscoverablePasskeyAuthenticationService env crypto library others flowId response token expired clock w =
     (if \<not> pl_configured library then (Inl WebAuthnUnavailable, w)
      else (case takeChallenge WebauthnAuthentication flowId (clock 0) w of
          (Inl e, w0) \<Rightarrow> (Inl e, w0)
        | (Inr (Some (AuthenticationChallenge createdAt challenge)), w0) \<Rightarrow>
            let w1 = others 0 w0; db = fw_db w1 in
            (case find (\<lambda>p. pk_credentialId p = pa_id response) (id_passkeys db) of
               None \<Rightarrow> (Inr MfaAuthenticationFailed, w1)
             | Some passkey \<Rightarrow>
                 (case findUser db (pk_userId passkey) of
                    None \<Rightarrow> (Inr MfaAuthenticationFailed, w1)
                  | Some u \<Rightarrow>
                      if us_status u \<noteq> ActiveUser then (Inr MfaAuthenticationFailed, w1)
                      else (case toWebAuthnUserId (us_id u) of
                          Inl e \<Rightarrow> (Inl e, w1)
                        | Inr hex \<Rightarrow>
                            if pa_userHandle response \<noteq> Some (fc_hexToBase64 crypto hex) then (Inr MfaAuthenticationFailed, w1)
                            else (case pl_verifyAuthentication library response challenge passkey of
                                None \<Rightarrow> (Inr MfaAuthenticationFailed, w1)
                              | Some info \<Rightarrow>
                                  let w2 = others 1 w1 in
                                  (case passkeyLoginTransaction env passkey info token expired (clock 1) (fw_db w2) of
                                     Inl e \<Rightarrow> (Inl (AuthFailed e), w2)
                                   | Inr (result, db') \<Rightarrow> (Inr result, w2\<lparr>fw_db := db'\<rparr>))))))
        | (Inr _, w0) \<Rightarrow> (Inr MfaChallengeExpired, w0)))"

section \<open>Recovery codes read back\<close>

lemma groupsOfFour_chars: "filter keep (joinWith ''-'' (groupsOfFour s)) = filter keep s" if "\<not> keep (CHR ''-'')"
proof (induction s rule: groupsOfFour.induct)
  case (2 c cs)
  have "filter keep (c # cs) = filter keep (c # take 3 cs) @ filter keep (drop 3 cs)"
    by (metis append_Cons append_take_drop_id filter_append)
  then show ?case using 2 that by (cases "groupsOfFour (drop 3 cs)") (auto simp flip: append_assoc)
qed simp

end
