(* ===== verification/ChallengeProperties.thy ===== *)
theory ChallengeProperties
  imports AuthChallenges
begin

text \<open>
  The challenge store as a sequence of commands of any requests: how many codes can be tried against one challenge, and
  how often it can be used.
\<close>

section \<open>Commands\<close>

datatype store_command = CreateCommand auth_challenge int string | LockCommand challenge_key string
  | ReleaseCommand challenge_key string | ConsumeCommand challenge_key string | FailCommand challenge_key string
  | TakeCommand challenge_key

definition runCommand :: "(auth_challenge \<Rightarrow> stored) \<Rightarrow> store_command \<Rightarrow> int \<Rightarrow> challenge_store \<Rightarrow>
    script_reply option \<times> challenge_store" where
  "runCommand recode cmd now vk = (case cmd of
     CreateCommand c duration i \<Rightarrow> (None, case createAuthChallenge c duration i now vk of Inl e \<Rightarrow> vk | Inr (r, vk') \<Rightarrow> vk')
   | LockCommand k t \<Rightarrow> (None, snd (lockVerification k t now vk))
   | ReleaseCommand k t \<Rightarrow> (None, releaseCodeChallengeVerification k t now vk)
   | ConsumeCommand k t \<Rightarrow> (case consumeScript k t now vk of (r, vk') \<Rightarrow> (Some r, vk'))
   | FailCommand k t \<Rightarrow> (case failScript recode k t now vk of (r, vk') \<Rightarrow> (Some r, vk'))
   | TakeCommand k \<Rightarrow> (None, snd (consumeAuthChallenge (fst k) (snd k) now vk)))"

inductive storeStep :: "(auth_challenge \<Rightarrow> stored) \<Rightarrow> challenge_store \<times> int \<Rightarrow> store_command \<times> script_reply option \<Rightarrow>
    challenge_store \<times> int \<Rightarrow> bool"
  for recode :: "auth_challenge \<Rightarrow> stored" where
  "clock \<le> now \<Longrightarrow> runCommand recode cmd now vk = (reply, vk') \<Longrightarrow> storeStep recode (vk, clock) (cmd, reply) (vk', now)"

inductive_cases storeStepE [elim!]: "storeStep recode (vk, clock) (cmd, reply) s"

text \<open>A wrong code that was counted, a challenge that was used, and a command that writes a challenge anew.\<close>

definition wrongCode :: "challenge_key \<Rightarrow> store_command \<times> script_reply option \<Rightarrow> bool" where
  "wrongCode k e = (case e of (FailCommand k' t, Some (Counted n)) \<Rightarrow> k' = k | (FailCommand k' t, Some (TooMany n)) \<Rightarrow> k' = k | _ \<Rightarrow> False)"

definition usedChallenge :: "challenge_key \<Rightarrow> store_command \<times> script_reply option \<Rightarrow> bool" where
  "usedChallenge k e = (case e of (ConsumeCommand k' t, Some (Taken v)) \<Rightarrow> k' = k | _ \<Rightarrow> False)"

definition createsKey :: "challenge_key \<Rightarrow> store_command \<times> script_reply option \<Rightarrow> bool" where
  "createsKey k e = (case e of (CreateCommand c d i, r) \<Rightarrow> (kindOf c, i) = k | _ \<Rightarrow> False)"

text \<open>
  What the Lua library may do to a challenge: the count of attempts survives, and what still reads as a challenge is a
  challenge of the same kind.
\<close>

definition keepsChallenges :: "(auth_challenge \<Rightarrow> stored) \<Rightarrow> bool" where
  "keepsChallenges recode \<longleftrightarrow> (\<forall>c. storedAttempts (recode c) = attemptsOf c) \<and> (\<forall>c c'. recode c = Json c' \<longrightarrow> kindOf c' = kindOf c)"

section \<open>Tries that are left\<close>

definition triesLeft :: "challenge_key \<Rightarrow> challenge_store \<Rightarrow> nat" where
  "triesLeft k vk = (case vk_challenges vk k of None \<Rightarrow> 0 | Some (v, until) \<Rightarrow> nat (max 1 (MFA_CHALLENGE_MAX_ATTEMPTS - storedAttempts v)))"

definition codeChallenge :: "challenge_key \<Rightarrow> challenge_store \<Rightarrow> bool" where
  "codeChallenge k vk \<longleftrightarrow> (\<forall>c until. vk_challenges vk k = Some (Json c, until) \<longrightarrow> kindOf c = fst k)"

lemma attempts_with: "kindOf c \<in> {LoginMfa, TotpSetup} \<Longrightarrow> attemptsOf (withAttempts n c) = n"
  "kindOf (withAttempts n c) = kindOf c"
  by (auto simp: kindOf_def attemptsOf_def withAttempts_def split: auth_challenge.splits)

lemma countAttempt_keeps:
  assumes "keepsChallenges recode" "\<And>c. v = Json c \<Longrightarrow> kindOf c \<in> {LoginMfa, TotpSetup}"
  shows "storedAttempts (countAttempt recode v) = storedAttempts v + 1"
    "countAttempt recode v = Json c' \<Longrightarrow> \<exists>c. v = Json c \<and> kindOf c' = kindOf c"
proof -
  have "storedAttempts (recode (withAttempts (attemptsOf c + 1) c)) = attemptsOf c + 1" if "v = Json c" for c
    using assms attempts_with(1) [of c] that by (simp add: keepsChallenges_def)
  then show "storedAttempts (countAttempt recode v) = storedAttempts v + 1"
    by (cases v) (simp_all add: countAttempt_def storedAttempts_def)
  show "\<exists>c. v = Json c \<and> kindOf c' = kindOf c" if "countAttempt recode v = Json c'"
    using that assms(1) attempts_with(2) by (cases v) (auto simp: countAttempt_def keepsChallenges_def)
qed

text \<open>Tries that are left and whether the challenge is there, together with the kind of challenge under the key.\<close>

definition budget :: "challenge_key \<Rightarrow> challenge_store \<Rightarrow> nat" where
  "budget k vk = (if vk_challenges vk k = None then 0 else 1)"

definition paid :: "challenge_key \<Rightarrow> store_command \<times> script_reply option \<Rightarrow> challenge_store \<Rightarrow> challenge_store \<Rightarrow> bool" where
  "paid k e vk vk' \<longleftrightarrow> codeChallenge k vk' \<and>
     triesLeft k vk' + (if wrongCode k e \<or> usedChallenge k e then 1 else 0) \<le> triesLeft k vk \<and>
     budget k vk' + (if usedChallenge k e then 1 else 0) \<le> budget k vk"

lemma paid_same:
  "vk_challenges vk' k = vk_challenges vk k \<Longrightarrow> codeChallenge k vk \<Longrightarrow> \<not> wrongCode k e \<Longrightarrow> \<not> usedChallenge k e \<Longrightarrow> paid k e vk vk'"
  by (simp add: paid_def codeChallenge_def triesLeft_def budget_def)

lemma paid_gone:
  "vk_challenges vk' k = None \<Longrightarrow> vk_challenges vk k \<noteq> None \<or> \<not> wrongCode k e \<and> \<not> usedChallenge k e \<Longrightarrow> paid k e vk vk'"
  by (auto simp: paid_def codeChallenge_def triesLeft_def budget_def)

lemma create_paid:
  assumes "codeChallenge k vk" "\<not> createsKey k (CreateCommand c d i, r)" "runCommand recode (CreateCommand c d i) now vk = (r, vk')"
  shows "paid k (CreateCommand c d i, r) vk vk'"
proof (rule paid_same [OF _ assms(1)])
  show "vk_challenges vk' k = vk_challenges vk k"
    using assms(2,3) by (auto simp: runCommand_def createsKey_def createAuthChallenge_def Let_def split: if_splits prod.splits sum.splits
      dest!: setNx_other [of now d "(kindOf c, i)" "Json c" "vk_challenges vk" _ _ k])
qed (simp_all add: wrongCode_def usedChallenge_def)

lemma consume_paid:
  assumes "codeChallenge k vk" "runCommand recode (ConsumeCommand k' t) now vk = (r, vk')"
  shows "paid k (ConsumeCommand k' t, r) vk vk'"
proof (cases "k' = k \<and> (\<exists>v. r = Some (Taken v))")
  case True
  then show ?thesis
    using assms by (intro paid_gone) (auto simp: runCommand_def consumeScript_def getKey_def split: if_splits option.splits)
next
  case False
  have "vk_challenges vk' k = vk_challenges vk k" using False assms(2)
    by (auto simp: runCommand_def consumeScript_def split: if_splits option.splits)
  then show ?thesis by (rule paid_same [OF _ assms(1)]) (use False in \<open>auto simp: wrongCode_def usedChallenge_def split: option.splits script_reply.splits\<close>)
qed

lemma fail_paid:
  assumes "keepsChallenges recode" "fst k \<in> {LoginMfa, TotpSetup}" "codeChallenge k vk"
    "runCommand recode (FailCommand k' t) now vk = (r, vk')"
  shows "paid k (FailCommand k' t, r) vk vk'"
proof -
  from assms(4) consider (same) "vk_challenges vk' k = vk_challenges vk k" "\<not> wrongCode k (FailCommand k' t, r)"
    | (gone) "k' = k" "vk_challenges vk' k = None" "vk_challenges vk k \<noteq> None"
    | (counted) v until until' where "k' = k" "vk_challenges vk k = Some (v, until)" "storedAttempts v + 1 < MFA_CHALLENGE_MAX_ATTEMPTS"
        "vk_challenges vk' k = Some (countAttempt recode v, until')"
    by (cases "k' = k")
      (auto simp: runCommand_def failScript_def getKey_def wrongCode_def Let_def split: if_splits option.splits prod.splits)
  then show ?thesis
  proof cases
    case same
    then show ?thesis by (intro paid_same [OF _ assms(3)]) (simp_all add: usedChallenge_def)
  next
    case gone
    then show ?thesis by (intro paid_gone) simp_all
  next
    case (counted v until until')
    have kind: "kindOf c \<in> {LoginMfa, TotpSetup}" if "v = Json c" for c
      using that counted(2) assms(2,3) by (auto simp: codeChallenge_def)
    note keeps = countAttempt_keeps [OF assms(1) kind]
    have "codeChallenge k vk'"
      using counted assms(3) keeps(2) by (fastforce simp: codeChallenge_def)
    then show ?thesis
      using counted keeps(1) by (auto simp: paid_def triesLeft_def budget_def usedChallenge_def)
  qed
qed

lemma storeStep_paid:
  assumes "keepsChallenges recode" "fst k \<in> {LoginMfa, TotpSetup}" "codeChallenge k vk" "storeStep recode (vk, clock) e (vk', clock')"
    "\<not> createsKey k e"
  shows "paid k e vk vk'"
proof -
  obtain cmd r where e: "e = (cmd, r)" by force
  with assms(4) have run: "runCommand recode cmd clock' vk = (r, vk')" by auto
  show ?thesis
  proof (cases cmd)
    case (CreateCommand c d i)
    then show ?thesis using create_paid [OF assms(3)] assms(5) e run by simp
  next
    case (LockCommand k' t)
    then show ?thesis using run e assms(3)
      by (intro paid_same) (auto simp: runCommand_def lockVerification_def wrongCode_def usedChallenge_def Let_def split: prod.splits)
  next
    case (ReleaseCommand k' t)
    then show ?thesis using run e assms(3)
      by (intro paid_same) (auto simp: runCommand_def releaseCodeChallengeVerification_def wrongCode_def usedChallenge_def)
  next
    case (ConsumeCommand k' t)
    then show ?thesis using consume_paid [OF assms(3)] e run by simp
  next
    case (FailCommand k' t)
    then show ?thesis using fail_paid [OF assms(1-3)] e run by simp
  next
    case (TakeCommand k')
    have "\<not> wrongCode k e" "\<not> usedChallenge k e" using TakeCommand e by (simp_all add: wrongCode_def usedChallenge_def)
    moreover have "vk_challenges vk' k = vk_challenges vk k \<or> vk_challenges vk' k = None"
      using run TakeCommand by (cases "k' = k") (auto simp: runCommand_def consumeAuthChallenge_def split: if_splits option.splits)
    ultimately show ?thesis using paid_same [OF _ assms(3)] paid_gone by blast
  qed
qed

lemma run_paid:
  assumes "keepsChallenges recode" "fst k \<in> {LoginMfa, TotpSetup}" "steps (storeStep recode) s es s'" "codeChallenge k (fst s)"
    "\<forall>e \<in> set es. \<not> createsKey k e"
  shows "length (filter (\<lambda>e. wrongCode k e \<or> usedChallenge k e) es) \<le> triesLeft k (fst s) \<and>
    length (filter (usedChallenge k) es) \<le> budget k (fst s)"
  using assms(3-5)
proof (induction rule: steps.induct)
  case (steps_cons s e t es r)
  have "paid k e (fst s) (fst t)"
    using storeStep_paid [OF assms(1,2), of "fst s" "snd s" e "fst t" "snd t"] steps_cons.hyps(1) steps_cons.prems by simp
  with steps_cons.IH steps_cons.prems(2) show ?case by (auto simp: paid_def)
qed simp

section \<open>The property\<close>

text \<open>
  Claim C26. Guessing is bounded: after a challenge for a second factor was written, whatever requests do at the same
  time, at most five verifications of it end with a counted wrong code or with its use, and it is used at most once.
\<close>

theorem wrong_codes_are_bounded:
  assumes "keepsChallenges recode" "kindOf c \<in> {LoginMfa, TotpSetup}" "attemptsOf c = 0"
    "createAuthChallenge c duration token now vk = Inr (issued, vk')"
    "steps (storeStep recode) (vk', now) es s" "\<forall>e \<in> set es. \<not> createsKey (kindOf c, token) e"
  shows "length (filter (\<lambda>e. wrongCode (kindOf c, token) e \<or> usedChallenge (kindOf c, token) e) es) \<le> 5 \<and>
    length (filter (usedChallenge (kindOf c, token)) es) \<le> 1"
proof -
  let ?k = "(kindOf c, token)"
  have entry: "vk_challenges vk' ?k = Some (Json c, now + duration)"
    using assms(4) by (auto simp: createAuthChallenge_def setNx_def Let_def split: if_splits)
  then have "codeChallenge ?k vk'" by (simp add: codeChallenge_def)
  with run_paid [OF assms(1) _ assms(5), of ?k] assms(2,6)
  have "length (filter (\<lambda>e. wrongCode ?k e \<or> usedChallenge ?k e) es) \<le> triesLeft ?k vk'"
    "length (filter (usedChallenge ?k) es) \<le> budget ?k vk'" by simp_all
  then show ?thesis
    using entry assms(3) by (simp add: triesLeft_def budget_def storedAttempts_def MFA_CHALLENGE_MAX_ATTEMPTS_def)
qed

text \<open>A challenge, a wrong code and then the right one.\<close>

definition sampleChallenge :: auth_challenge where
  "sampleChallenge = TotpSetupChallenge \<lparr>ts_createdAt = ''t'', ts_attempts = 0, ts_ciphertext = ''c'', ts_iv = ''v'',
     ts_sessionId = ''s'', ts_userId = ''u''\<rparr>"

definition sampleCommands :: "store_command list" where
  "sampleCommands = [LockCommand (TotpSetup, ''f'') ''a'', FailCommand (TotpSetup, ''f'') ''a'', LockCommand (TotpSetup, ''f'') ''b'',
     ConsumeCommand (TotpSetup, ''f'') ''b'', LockCommand (TotpSetup, ''f'') ''d'', ConsumeCommand (TotpSetup, ''f'') ''d'']"

definition emptyStore :: challenge_store where
  "emptyStore = \<lparr>vk_challenges = (\<lambda>_. None), vk_locks = (\<lambda>_. None)\<rparr>"

fun runAll :: "store_command list \<Rightarrow> int \<Rightarrow> challenge_store \<Rightarrow> (store_command \<times> script_reply option) list \<times> challenge_store" where
  "runAll [] now vk = ([], vk)"
| "runAll (cmd # cmds) now vk =
     (let (r, vk1) = runCommand Json cmd now vk; (es, vk2) = runAll cmds now vk1 in ((cmd, r) # es, vk2))"

lemma runAll_steps: "steps (storeStep Json) (vk, now) (fst (runAll cmds now vk)) (snd (runAll cmds now vk), now)"
proof (induction cmds arbitrary: vk)
  case Nil
  show ?case by (simp add: steps_nil)
next
  case (Cons cmd cmds)
  obtain r vk1 where "runCommand Json cmd now vk = (r, vk1)" by force
  then show ?case using steps_cons [OF storeStep.intros [of now now Json cmd vk r vk1] Cons [of vk1]] by (simp add: case_prod_beta Let_def)
qed

definition sampleStore :: challenge_store where
  "sampleStore = emptyStore\<lparr>vk_challenges := (\<lambda>_. None)((TotpSetup, ''f'') \<mapsto> (Json sampleChallenge, 600000))\<rparr>"

lemma sample_challenge:
  "createAuthChallenge sampleChallenge TOTP_SETUP_CHALLENGE_DURATION_MS ''f'' 0 emptyStore = Inr ((600000, ''f''), sampleStore)"
  "kindOf sampleChallenge = TotpSetup" "attemptsOf sampleChallenge = 0"
  by (simp_all add: createAuthChallenge_def sampleStore_def emptyStore_def setNx_def getKey_def sampleChallenge_def kindOf_def parseChallenge_def
    attemptsOf_def TOTP_SETUP_CHALLENGE_DURATION_MS_def isSafeInteger_def MAX_SAFE_INTEGER_def)

theorem wrong_codes_are_bounded_witness:
  "map (\<lambda>e. (wrongCode (TotpSetup, ''f'') e, usedChallenge (TotpSetup, ''f'') e)) (fst (runAll sampleCommands 0 sampleStore)) =
     [(False, False), (True, False), (False, False), (False, True), (False, False), (False, False)] \<and>
   length (filter (usedChallenge (TotpSetup, ''f'')) (fst (runAll sampleCommands 0 sampleStore))) \<le> 1"
proof -
  have events: "map (\<lambda>e. (wrongCode (TotpSetup, ''f'') e, usedChallenge (TotpSetup, ''f'') e)) (fst (runAll sampleCommands 0 sampleStore)) =
     [(False, False), (True, False), (False, False), (False, True), (False, False), (False, False)]"
    "list_all (\<lambda>e. \<not> createsKey (TotpSetup, ''f'') e) (fst (runAll sampleCommands 0 sampleStore))"
    by code_simp+
  have "keepsChallenges Json" by (simp add: keepsChallenges_def storedAttempts_def)
  from wrong_codes_are_bounded [OF this _ sample_challenge(3,1) runAll_steps, of sampleCommands] events
  show ?thesis by (simp add: sample_challenge(2) list_all_iff)
qed

end
