(* ===== verification/SecondFactorProperties.thy ===== *)
theory SecondFactorProperties
  imports SecondFactor IdentityEffects ChallengeProperties
begin

text \<open>
  What the services of second factors promise whatever other requests do in between: a shown recovery code reads back, a
  login needs a matching code and a challenge that was there. And three places where they do less than they mean to.
\<close>

section \<open>Recovery codes\<close>

lemma upper_code: "isCodeDigit c \<Longrightarrow> upperChar c = c \<and> upperChar (lowerChar c) = c \<and> \<not> isSpace c \<and> c \<noteq> CHR ''-'' \<and> \<not> isSpace (lowerChar c)"
proof -
  assume c: "isCodeDigit c"
  let ?P = "\<lambda>c. upperChar c = c \<and> upperChar (lowerChar c) = c \<and> \<not> isSpace c \<and> c \<noteq> CHR ''-'' \<and> \<not> isSpace (lowerChar c)"
  have all: "list_all ?P ''0123456789ABCDEF''" by code_simp
  have "of_char c \<in> set (map of_char ''0123456789ABCDEF'' :: nat list)"
    using c unfolding isCodeDigit_def isDigit_def by simp presburger
  then have "c \<in> set ''0123456789ABCDEF''" by (auto simp del: of_char_eq_iff simp: of_char_eq_iff [symmetric, where ?'a = nat])
  with all show ?thesis unfolding list_all_iff by (rule bspec)
qed

lemma set_joinWith: "set (joinWith sep ws) \<subseteq> set sep \<union> \<Union>(set ` set ws)"
  by (induction sep ws rule: joinWith.induct) auto

lemma set_groupsOfFour: "\<Union>(set ` set (groupsOfFour s)) \<subseteq> set s"
  by (induction s rule: groupsOfFour.induct) (auto dest: in_set_takeD in_set_dropD)

text \<open>A code reads back from the form it was shown in, in upper or lower case.\<close>

lemma recovery_code_roundtrip:
  assumes "length raw = 32" "list_all isCodeDigit raw"
  shows "normalizeRecoveryCode (formatRecoveryCode raw) = Some raw"
    "normalizeRecoveryCode (map lowerChar (formatRecoveryCode raw)) = Some raw"
proof -
  let ?keep = "\<lambda>c. \<not> (isSpace c \<or> c = CHR ''-'')" and ?shown = "formatRecoveryCode raw"
  have chars: "isCodeDigit c \<or> c = CHR ''-''" if "c \<in> set ?shown" for c
    using that assms(2) set_joinWith [of "''-''" "groupsOfFour raw"] set_groupsOfFour [of raw]
    by (auto simp: formatRecoveryCode_def list_all_iff)
  have dash: "upperChar (CHR ''-'') = CHR ''-''" "lowerChar (CHR ''-'') = CHR ''-''" "\<not> isSpace (CHR ''-'')" by code_simp+
  have upper: "upperChar c = c \<and> upperChar (lowerChar c) = c \<and> \<not> isSpace c \<and> \<not> isSpace (lowerChar c)" if "c \<in> set ?shown" for c
    using chars [OF that] upper_code dash by auto
  have "filter ?keep ?shown = filter ?keep raw" by (simp add: formatRecoveryCode_def groupsOfFour_chars)
  also have "\<dots> = raw" using assms(2) upper_code by (auto simp: list_all_iff intro!: filter_True)
  finally have kept: "filter ?keep ?shown = raw" .
  have "map upperChar ?shown = ?shown" "map upperChar (map lowerChar ?shown) = ?shown"
    using upper by (simp_all add: map_idI)
  moreover have "trim ?shown = ?shown" "trim (map lowerChar ?shown) = map lowerChar ?shown"
    using upper by (simp_all add: trim_no_space list_all_iff)
  ultimately show "normalizeRecoveryCode ?shown = Some raw" "normalizeRecoveryCode (map lowerChar ?shown) = Some raw"
    using assms kept by (simp_all add: normalizeRecoveryCode_def Let_def)
qed

section \<open>Logging in\<close>

lemma acquireCode_Some:
  assumes "acquireCode k lockToken now w = (Some c, w')"
  shows "getKey now (vk_challenges (fw_store w)) k = Some (Json c)" "kindOf c = fst k" "attemptsOf c < MFA_CHALLENGE_MAX_ATTEMPTS"
    "getKey now (vk_locks (fw_store w)) k = None" "isValidOpaqueToken (snd k)" "fw_db w' = fw_db w"
proof -
  from assms obtain vk where run: "acquireCodeChallengeVerification k lockToken now (fw_store w) = (Some c, vk)" and w': "w' = w\<lparr>fw_store := vk\<rparr>"
    by (auto simp: acquireCode_def split: prod.splits)
  then have locked: "lockVerification k lockToken now (fw_store w) = (True, vk)" "isValidOpaqueToken (snd k)" "readLocked k now vk = Some c"
    by (auto simp: acquireCodeChallengeVerification_def split: if_splits prod.splits option.splits)
  then have store: "vk_challenges vk = vk_challenges (fw_store w)" "getKey now (vk_locks (fw_store w)) k = None"
    by (auto simp: lockVerification_def setNx_def Let_def split: if_splits)
  from locked(3) obtain v where "getKey now (vk_challenges vk) k = Some v" "parseChallenge now (fst k) v = Some c" "attemptsOf c < MFA_CHALLENGE_MAX_ATTEMPTS"
    by (auto simp: readLocked_def split: option.splits if_splits)
  moreover from this(2) have "v = Json c" "kindOf c = fst k"
    by (auto simp: parseChallenge_def split: stored.splits if_splits auth_challenge.splits)
  ultimately show "getKey now (vk_challenges (fw_store w)) k = Some (Json c)" "kindOf c = fst k" "attemptsOf c < MFA_CHALLENGE_MAX_ATTEMPTS"
    "getKey now (vk_locks (fw_store w)) k = None" "isValidOpaqueToken (snd k)" "fw_db w' = fw_db w"
    using store locked(2) w' by simp_all
qed

lemma useChallenge_loggedIn:
  assumes "useChallenge env others answer p clock w = (Inr (MfaLoggedIn cs), w')"
  obtains consumed w1 where
    "getKey (clock 2) (vk_challenges (fw_store w)) (LoginMfa, la_challengeId answer) = Some (Json (LoginMfaChallenge consumed))"
    "vk_challenges (fw_store w1) (LoginMfa, la_challengeId answer) = None"
    "completeLoginMfaTransaction env consumed p (la_sessionToken answer) (la_expired answer) (clock 3) (fw_db (others 2 w1)) =
       Inr (MfaLoggedIn cs, fw_db w')"
proof -
  let ?k = "(LoginMfa, la_challengeId answer)"
  from assms obtain consumed w1 where consume: "consumeCode ?k (la_lockToken answer) (clock 2) w = (Inr (Some (LoginMfaChallenge consumed)), w1)"
    and run: "completeLoginMfaTransaction env consumed p (la_sessionToken answer) (la_expired answer) (clock 3) (fw_db (others 2 w1)) =
       Inr (MfaLoggedIn cs, fw_db w')"
    by (auto simp: useChallenge_def Let_def split: prod.splits sum.splits option.splits auth_challenge.splits)
  from consume obtain vk v where taken: "consumeScript ?k (la_lockToken answer) (clock 2) (fw_store w) = (Taken v, vk)"
      "parseChallenge (clock 2) LoginMfa v = Some (LoginMfaChallenge consumed)" "w1 = w\<lparr>fw_store := vk\<rparr>"
    by (auto simp: consumeCode_def consumeCodeChallengeVerification_def split: prod.splits sum.splits script_reply.splits option.splits)
  then have "v = Json (LoginMfaChallenge consumed)" by (auto simp: parseChallenge_def split: stored.splits if_splits auth_challenge.splits)
  moreover have "getKey (clock 2) (vk_challenges (fw_store w)) ?k = Some v" "vk_challenges vk ?k = None"
    using taken(1) by (auto simp: consumeScript_def split: if_splits option.splits)
  ultimately show thesis using run taken(3) by (intro that [of consumed w1]) simp_all
qed

text \<open>
  A login with a one-time password, whatever other requests do between its calls: the challenge was there with tries left,
  the code is the one the factor of the challenge gives at that time, and the transaction with its counter succeeded.
\<close>

lemma totp_login_needs_the_code:
  assumes "completeLoginMfaWithTotpService env crypto others answer clock w = (Inr (MfaLoggedIn cs), w')"
  obtains challenge and w0 :: factor_world and factor secret counter consumed and w2 :: factor_world where
    "getKey (clock 0) (vk_challenges (fw_store w)) (LoginMfa, la_challengeId answer) = Some (Json (LoginMfaChallenge challenge))"
    "lm_attempts challenge < MFA_CHALLENGE_MAX_ATTEMPTS" "factor \<in> set (id_totpFactors (fw_db w0))"
    "tf_userId factor = lm_userId challenge" "tf_id factor = lm_factorId challenge"
    "fc_decrypt crypto (tf_secret factor) (createTotpEncryptionContext (lm_userId challenge)) = Some secret"
    "getMatchedTotpCounter crypto secret (la_code answer) (clock 1) = Some counter"
    "completeLoginMfaTransaction env consumed (TotpProof counter) (la_sessionToken answer) (la_expired answer) (clock 3) (fw_db w2) =
       Inr (MfaLoggedIn cs, fw_db w')"
proof -
  let ?k = "(LoginMfa, la_challengeId answer)"
  have refused: "\<And>x. refuseCode crypto ?k (la_lockToken answer) (clock 2) x \<noteq> (MfaLoggedIn cs, w')"
    by (auto simp: refuseCode_def split: prod.splits if_splits)
  from assms obtain challenge w0 where acquired: "acquireCode ?k (la_lockToken answer) (clock 0) w = (Some (LoginMfaChallenge challenge), w0)"
    by (auto simp: completeLoginMfaWithTotpService_def Let_def split: prod.splits option.splits auth_challenge.splits)
  with assms refused obtain factor secret counter where
    found: "find (\<lambda>f. tf_userId f = lm_userId challenge) (id_totpFactors (fw_db (others 0 w0))) = Some factor" "tf_id factor = lm_factorId challenge"
    and code: "fc_decrypt crypto (tf_secret factor) (createTotpEncryptionContext (lm_userId challenge)) = Some secret"
      "getMatchedTotpCounter crypto secret (la_code answer) (clock 1) = Some counter"
    and used: "useChallenge env others answer (TotpProof counter) clock (others 1 (others 0 w0)) = (Inr (MfaLoggedIn cs), w')"
    by (auto simp: completeLoginMfaWithTotpService_def Let_def normalizeTotpCode_def split: prod.splits option.splits if_splits)
  from used obtain consumed w1 where "completeLoginMfaTransaction env consumed (TotpProof counter) (la_sessionToken answer) (la_expired answer)
      (clock 3) (fw_db (others 2 w1)) = Inr (MfaLoggedIn cs, fw_db w')" by (rule useChallenge_loggedIn)
  moreover have "factor \<in> set (id_totpFactors (fw_db (others 0 w0)))" "tf_userId factor = lm_userId challenge"
    using found(1) by (auto simp: find_Some_iff)
  ultimately show thesis
    using that [OF acquireCode_Some(1) [OF acquired] _ _ _ found(2) code] acquireCode_Some(3) [OF acquired]
    unfolding attemptsOf_def auth_challenge.case by blast
qed

text \<open>While one verification holds its lock, no other one starts.\<close>

lemma verifications_exclude_each_other:
  assumes "acquireCode k lockToken now w = (Some c, w1)" "t < now + CHALLENGE_VERIFICATION_LOCK_DURATION_MS"
    "vk_locks (fw_store w2) = vk_locks (fw_store w1)"
  shows "fst (acquireCode k other t w2) = None"
proof -
  from assms(1) obtain vk where "acquireCodeChallengeVerification k lockToken now (fw_store w) = (Some c, vk)" and w1: "w1 = w\<lparr>fw_store := vk\<rparr>"
    by (auto simp: acquireCode_def split: prod.splits)
  then have "lockVerification k lockToken now (fw_store w) = (True, vk)"
    by (auto simp: acquireCodeChallengeVerification_def split: if_splits prod.splits option.splits)
  then have "setNx now CHALLENGE_VERIFICATION_LOCK_DURATION_MS k lockToken (vk_locks (fw_store w)) = (True, vk_locks vk)"
    by (auto simp: lockVerification_def Let_def split: prod.splits)
  from valkey.exclusive [OF this assms(2)] obtain m where
    "setNx t CHALLENGE_VERIFICATION_LOCK_DURATION_MS k other (vk_locks vk) = (False, m)" by (metis (full_types) prod.collapse)
  then show ?thesis
    using assms(3) w1 by (auto simp: acquireCode_def acquireCodeChallengeVerification_def lockVerification_def Let_def split: prod.splits)
qed

section \<open>Where the services do less than they mean to\<close>

text \<open>
  A verification that lasts longer than the lock: the wrong code is answered like any wrong code, but not counted.
\<close>

lemma slow_wrong_code_is_not_counted:
  assumes "acquireCode k lockToken now w = (Some c, w1)" "now + CHALLENGE_VERIFICATION_LOCK_DURATION_MS \<le> later"
  shows "refuseCode crypto k lockToken later w1 = (MfaAuthenticationFailed, w1)"
proof -
  from assms(1) obtain vk where run: "acquireCodeChallengeVerification k lockToken now (fw_store w) = (Some c, vk)" and w1: "w1 = w\<lparr>fw_store := vk\<rparr>"
    by (auto simp: acquireCode_def split: prod.splits)
  then have "lockVerification k lockToken now (fw_store w) = (True, vk)"
    by (auto simp: acquireCodeChallengeVerification_def split: if_splits prod.splits option.splits)
  then have "setNx now CHALLENGE_VERIFICATION_LOCK_DURATION_MS k lockToken (vk_locks (fw_store w)) = (True, vk_locks vk)"
    by (auto simp: lockVerification_def Let_def split: prod.splits)
  from valkey.expired [OF this assms(2)] have "getKey later (vk_locks vk) k \<noteq> Some lockToken" .
  then show ?thesis by (simp add: refuseCode_def failCodeChallengeVerification_def failScript_def w1)
qed

text \<open>
  A challenge whose JSON the script cannot write back, such as one with an empty list of groups, which Lua writes as an
  empty object: after the first wrong code it can no longer be read.
\<close>

lemma recoded_challenge_is_lost:
  assumes "failScript recode k lockToken now vk = (Counted n, vk')" "getKey now (vk_challenges vk) k = Some (Json c)"
    "recode (withAttempts (attemptsOf c + 1) c) = OtherJson m"
  shows "readLocked k later vk' = None"
  using assms
  by (auto simp: failScript_def countAttempt_def readLocked_def getKey_def parseChallenge_def Let_def split: if_splits option.splits)

text \<open>A flow of another session: the answer is that it expired, and the lock on it stays.\<close>

lemma foreign_setup_keeps_the_lock:
  assumes "requireActiveSessionInTransaction session (clock 0) (fw_db w) = Inr ()" "requireSessionPermission session ACCOUNT_UPDATE = Inr ()"
    "acquireCode (TotpSetup, flowId) lockToken (clock 1) (others 0 w) = (Some (TotpSetupChallenge challenge), w1)"
    "ts_sessionId challenge \<noteq> cs_id session"
  shows "confirmTotpSetupService env crypto others session flowId token lockToken rawCodes clock w = (Inr (SetupFailed MfaChallengeExpired), w1)"
    "getKey (clock 1) (vk_locks (fw_store w1)) (TotpSetup, flowId) = Some lockToken"
proof -
  show "confirmTotpSetupService env crypto others session flowId token lockToken rawCodes clock w = (Inr (SetupFailed MfaChallengeExpired), w1)"
    using assms by (simp add: confirmTotpSetupService_def Let_def)
  from assms(3) show "getKey (clock 1) (vk_locks (fw_store w1)) (TotpSetup, flowId) = Some lockToken"
    by (auto simp: acquireCode_def acquireCodeChallengeVerification_def lockVerification_def setNx_def getKey_def Let_def
      CHALLENGE_VERIFICATION_LOCK_DURATION_MS_def split: if_splits prod.splits option.splits)
qed

end
