(* ===== verification/RateLimiter.thy ===== *)
theory RateLimiter
  imports IdentityStore ValkeyStore JsLib
begin

text \<open>
  The rate limits of \<^verbatim>\<open>web/src/server/Valkey/rate-limiter.service.ts\<close>: counters with an expiry, one per policy and
  hashed identifier, incremented by a script. The digest and the check of identifiers come from the environment of
  accounts; Node's check of addresses is an argument. When the store does not answer, the code raises an error
  and the request goes no further.
\<close>

section \<open>Policies\<close>

record rate_limit_policy =
  rl_limit :: int
  rl_scope :: string
  rl_windowMs :: int

definition TEN_MINUTES_MS :: int where "TEN_MINUTES_MS = 10 * 60 * 1000"
definition FIFTEEN_MINUTES_MS :: int where "FIFTEEN_MINUTES_MS = 15 * 60 * 1000"
definition ONE_HOUR_MS :: int where "ONE_HOUR_MS = 60 * 60 * 1000"

abbreviation policy :: "int \<Rightarrow> string \<Rightarrow> int \<Rightarrow> rate_limit_policy" where
  "policy limit scope window \<equiv> \<lparr>rl_limit = limit, rl_scope = scope, rl_windowMs = window\<rparr>"

datatype auth_rate_limit_action = LoginAction | SetupAction | ResetAction | InviteAction

record auth_policies =
  ap_ip :: rate_limit_policy
  ap_email :: rate_limit_policy

definition AUTH_RATE_LIMITS :: "auth_rate_limit_action \<Rightarrow> auth_policies" where
  "AUTH_RATE_LIMITS action = (case action of
     LoginAction \<Rightarrow> \<lparr>ap_ip = policy 20 ''login-ip'' TEN_MINUTES_MS, ap_email = policy 8 ''login-email'' TEN_MINUTES_MS\<rparr>
   | SetupAction \<Rightarrow> \<lparr>ap_ip = policy 10 ''setup-ip'' TEN_MINUTES_MS, ap_email = policy 5 ''setup-email'' TEN_MINUTES_MS\<rparr>
   | ResetAction \<Rightarrow> \<lparr>ap_ip = policy 10 ''reset-ip'' TEN_MINUTES_MS, ap_email = policy 5 ''reset-email'' TEN_MINUTES_MS\<rparr>
   | InviteAction \<Rightarrow> \<lparr>ap_ip = policy 20 ''invite-ip'' TEN_MINUTES_MS, ap_email = policy 8 ''invite-email'' TEN_MINUTES_MS\<rparr>)"

definition LOGIN_MFA_USER_RATE_LIMIT :: rate_limit_policy where
  "LOGIN_MFA_USER_RATE_LIMIT = policy 8 ''login-user'' TEN_MINUTES_MS"

record sensitive_policies =
  sp_passwordChange :: rate_limit_policy
  sp_inviteActor :: rate_limit_policy
  sp_inviteEmail :: rate_limit_policy

definition SENSITIVE_ACTION_RATE_LIMITS :: sensitive_policies where
  "SENSITIVE_ACTION_RATE_LIMITS = \<lparr>sp_passwordChange = policy 10 ''password-change-user'' FIFTEEN_MINUTES_MS,
     sp_inviteActor = policy 20 ''invite-actor'' FIFTEEN_MINUTES_MS,
     sp_inviteEmail = policy 5 ''invite-target-email'' ONE_HOUR_MS\<rparr>"

section \<open>Keys\<close>

datatype unavailable_reason = InvalidConfiguration | InvalidPolicy | InvalidResponse | RequestFailed

datatype rate_limit_error = RateLimited int int int string | RateLimitUnavailable unavailable_reason

definition RATE_LIMIT_KEY_PREFIX :: string where "RATE_LIMIT_KEY_PREFIX = ''rentnerproxy:auth-rate-limit''"

definition isScopeStart :: "char \<Rightarrow> bool" where
  "isScopeStart c \<longleftrightarrow> 97 \<le> (of_char c :: nat) \<and> (of_char c :: nat) \<le> 122"

definition RATE_LIMIT_SCOPE_PATTERN :: "string \<Rightarrow> bool" where
  "RATE_LIMIT_SCOPE_PATTERN s = (case s of [] \<Rightarrow> False
     | c # cs \<Rightarrow> isScopeStart c \<and> length cs \<le> 63 \<and> list_all (\<lambda>d. isScopeStart d \<or> isDigit d \<or> d = CHR ''-'') cs)"

definition hashRateLimitIdentifier :: "identity_env \<Rightarrow> string \<Rightarrow> string" where
  "hashRateLimitIdentifier env identifier = ie_digest env (toLowerCase (trim identifier))"

definition limitKey :: "string \<Rightarrow> string \<Rightarrow> string" where
  "limitKey scope name = RATE_LIMIT_KEY_PREFIX @ '':'' @ scope @ '':'' @ name"

definition createRateLimitKey :: "identity_env \<Rightarrow> string \<Rightarrow> string \<Rightarrow> rate_limit_error + string" where
  "createRateLimitKey env scope identifier =
     (if \<not> RATE_LIMIT_SCOPE_PATTERN scope \<or> trim identifier = [] then Inl (RateLimitUnavailable InvalidPolicy)
      else Inr (limitKey scope (hashRateLimitIdentifier env identifier)))"

definition createUserRateLimitKey :: "identity_env \<Rightarrow> string \<Rightarrow> string \<Rightarrow> rate_limit_error + string" where
  "createUserRateLimitKey env scope userId =
     (let normalizedUserId = toLowerCase (trim userId) in
      if \<not> RATE_LIMIT_SCOPE_PATTERN scope \<or> \<not> ie_isUuid env normalizedUserId then Inl (RateLimitUnavailable InvalidPolicy)
      else Inr (limitKey scope normalizedUserId))"

section \<open>Counting\<close>

type_synonym counters = "(string, int) keyspace"

definition FIXED_WINDOW_SCRIPT :: "string \<Rightarrow> int \<Rightarrow> int \<Rightarrow> counters \<Rightarrow> (int \<times> int) \<times> counters" where
  "FIXED_WINDOW_SCRIPT key windowMs now m =
     (let (count, m1) = (case getKey now m key of
            None \<Rightarrow> (1, m(key \<mapsto> (1, now + windowMs)))
          | Some n \<Rightarrow> (n + 1, m(key := map_option (\<lambda>(v, until). (n + 1, until)) (m key))))
      in ((count, pttl now m1 key), m1))"

definition parseRateLimitResponse :: "int \<times> int \<Rightarrow> (int \<times> int) option" where
  "parseRateLimitResponse value =
     (let (count, ttlMs) = value in
      if \<not> isSafeInteger count \<or> count < 1 \<or> \<not> isSafeInteger ttlMs \<or> ttlMs < 1 then None else Some (count, ttlMs))"

record rate_limit_result =
  rr_count :: int
  rr_limit :: int
  rr_remaining :: int
  rr_ttlMs :: int

definition consumeRateLimitKey :: "rate_limit_policy \<Rightarrow> string \<Rightarrow> int \<Rightarrow> counters \<Rightarrow>
    (rate_limit_error + rate_limit_result) \<times> counters" where
  "consumeRateLimitKey request key now m =
     (if \<not> isSafeInteger (rl_limit request) \<or> rl_limit request < 1 \<or>
         \<not> isSafeInteger (rl_windowMs request) \<or> rl_windowMs request < 1
      then (Inl (RateLimitUnavailable InvalidPolicy), m)
      else
        let (response, m') = FIXED_WINDOW_SCRIPT key (rl_windowMs request) now m in
        (case parseRateLimitResponse response of
           None \<Rightarrow> Inl (RateLimitUnavailable InvalidResponse)
         | Some (count, ttlMs) \<Rightarrow>
             if count > rl_limit request then Inl (RateLimited count (rl_limit request) ttlMs (rl_scope request))
             else Inr \<lparr>rr_count = count, rr_limit = rl_limit request, rr_remaining = rl_limit request - count, rr_ttlMs = ttlMs\<rparr>,
         m'))"

definition consumeRateLimit :: "identity_env \<Rightarrow> rate_limit_policy \<Rightarrow> string \<Rightarrow> int \<Rightarrow> counters \<Rightarrow>
    (rate_limit_error + rate_limit_result) \<times> counters" where
  "consumeRateLimit env request identifier now m =
     (case createRateLimitKey env (rl_scope request) identifier of
        Inl e \<Rightarrow> (Inl e, m)
      | Inr key \<Rightarrow> consumeRateLimitKey request key now m)"

section \<open>The limits of requests\<close>

definition UNKNOWN_CLIENT_IP :: string where "UNKNOWN_CLIENT_IP = ''unknown''"

definition resolveRateLimitClientIp :: "(string \<Rightarrow> bool) \<Rightarrow> string option \<Rightarrow> string" where
  "resolveRateLimitClientIp isIP resolved = (case resolved of
     None \<Rightarrow> UNKNOWN_CLIENT_IP
   | Some ip \<Rightarrow> if isIP (trim ip) then trim ip else UNKNOWN_CLIENT_IP)"

text \<open>
  Both counters of a request are incremented, whatever the first one answers; the commands are sent in this order, and
  the first error is the one that is reported. Each command runs at its own moment.
\<close>

definition bothLimits :: "(counters \<Rightarrow> (rate_limit_error + rate_limit_result) \<times> counters) \<Rightarrow>
    (counters \<Rightarrow> (rate_limit_error + rate_limit_result) \<times> counters) \<Rightarrow> counters \<Rightarrow>
    (rate_limit_error + rate_limit_result \<times> rate_limit_result) \<times> counters" where
  "bothLimits first second m =
     (let (a, m1) = first m; (b, m2) = second m1
      in (andThen a (\<lambda>ra. andThen b (\<lambda>rb. Inr (ra, rb))), m2))"

definition enforceAuthRateLimit :: "identity_env \<Rightarrow> (string \<Rightarrow> bool) \<Rightarrow> auth_rate_limit_action \<Rightarrow> string option \<Rightarrow> string \<Rightarrow>
    int \<Rightarrow> int \<Rightarrow> counters \<Rightarrow> (rate_limit_error + rate_limit_result \<times> rate_limit_result) \<times> counters" where
  "enforceAuthRateLimit env isIP action resolved email now now' =
     (let policies = AUTH_RATE_LIMITS action in
      bothLimits (consumeRateLimit env (ap_ip policies) (resolveRateLimitClientIp isIP resolved) now)
        (consumeRateLimit env (ap_email policies) email now'))"

definition enforceLoginMfaRateLimit :: "identity_env \<Rightarrow> (string \<Rightarrow> bool) \<Rightarrow> string option \<Rightarrow> string \<Rightarrow>
    int \<Rightarrow> int \<Rightarrow> counters \<Rightarrow> (rate_limit_error + rate_limit_result \<times> rate_limit_result) \<times> counters" where
  "enforceLoginMfaRateLimit env isIP resolved userId now now' m =
     (case createUserRateLimitKey env (rl_scope LOGIN_MFA_USER_RATE_LIMIT) userId of
        Inl e \<Rightarrow> (Inl e, m)
      | Inr userKey \<Rightarrow>
          bothLimits (consumeRateLimit env (ap_ip (AUTH_RATE_LIMITS LoginAction)) (resolveRateLimitClientIp isIP resolved) now)
            (consumeRateLimitKey LOGIN_MFA_USER_RATE_LIMIT userKey now') m)"

definition enforcePasswordChangeRateLimit :: "identity_env \<Rightarrow> string \<Rightarrow> int \<Rightarrow> counters \<Rightarrow>
    (rate_limit_error + rate_limit_result) \<times> counters" where
  "enforcePasswordChangeRateLimit env userId now m =
     (case createUserRateLimitKey env (rl_scope (sp_passwordChange SENSITIVE_ACTION_RATE_LIMITS)) userId of
        Inl e \<Rightarrow> (Inl e, m)
      | Inr userKey \<Rightarrow> consumeRateLimitKey (sp_passwordChange SENSITIVE_ACTION_RATE_LIMITS) userKey now m)"

definition enforceInviteRateLimit :: "identity_env \<Rightarrow> string \<Rightarrow> string \<Rightarrow> int \<Rightarrow> int \<Rightarrow> counters \<Rightarrow>
    (rate_limit_error + rate_limit_result \<times> rate_limit_result) \<times> counters" where
  "enforceInviteRateLimit env actorUserId email now now' m =
     (case createUserRateLimitKey env (rl_scope (sp_inviteActor SENSITIVE_ACTION_RATE_LIMITS)) actorUserId of
        Inl e \<Rightarrow> (Inl e, m)
      | Inr actorKey \<Rightarrow>
          bothLimits (consumeRateLimitKey (sp_inviteActor SENSITIVE_ACTION_RATE_LIMITS) actorKey now)
            (consumeRateLimit env (sp_inviteEmail SENSITIVE_ACTION_RATE_LIMITS) email now') m)"

section \<open>Any requests, one after the other\<close>

text \<open>
  Every command the limits send increments the counter of a policy and a name, a hashed identifier or a user. The
  commands of all requests are one sequence.
\<close>

definition POLICIES :: "rate_limit_policy list" where
  "POLICIES = concat (map (\<lambda>a. [ap_ip (AUTH_RATE_LIMITS a), ap_email (AUTH_RATE_LIMITS a)])
       [LoginAction, SetupAction, ResetAction, InviteAction]) @
     [LOGIN_MFA_USER_RATE_LIMIT, sp_passwordChange SENSITIVE_ACTION_RATE_LIMITS, sp_inviteActor SENSITIVE_ACTION_RATE_LIMITS,
      sp_inviteEmail SENSITIVE_ACTION_RATE_LIMITS]"

record limit_command =
  lc_policy :: rate_limit_policy
  lc_name :: string
  lc_now :: int

fun runLimits :: "limit_command list \<Rightarrow> counters \<Rightarrow> (limit_command \<times> (rate_limit_error + rate_limit_result)) list \<times> counters" where
  "runLimits [] m = ([], m)"
| "runLimits (c # cs) m =
     (let (r, m1) = consumeRateLimitKey (lc_policy c) (limitKey (rl_scope (lc_policy c)) (lc_name c)) (lc_now c) m;
          (rs, m2) = runLimits cs m1
      in ((c, r) # rs, m2))"

text \<open>The requests of one policy and name that were let through in a period.\<close>

definition letThrough :: "rate_limit_policy \<Rightarrow> string \<Rightarrow> int \<Rightarrow> int \<Rightarrow> limit_command \<times> (rate_limit_error + rate_limit_result) \<Rightarrow> bool" where
  "letThrough p name t t' e \<longleftrightarrow> lc_policy (fst e) = p \<and> lc_name (fst e) = name \<and> t \<le> lc_now (fst e) \<and> lc_now (fst e) < t' \<and> \<not> isl (snd e)"

lemma policies_valid: "p \<in> set POLICIES \<Longrightarrow> RATE_LIMIT_SCOPE_PATTERN (rl_scope p)"
  "p \<in> set POLICIES \<Longrightarrow> isSafeInteger (rl_limit p) \<and> 1 \<le> rl_limit p \<and> isSafeInteger (rl_windowMs p) \<and> 1 \<le> rl_windowMs p"
  "p \<in> set POLICIES \<Longrightarrow> q \<in> set POLICIES \<Longrightarrow> rl_scope p = rl_scope q \<Longrightarrow> p = q"
proof -
  have "list_all (\<lambda>p. RATE_LIMIT_SCOPE_PATTERN (rl_scope p)) POLICIES"
    "list_all (\<lambda>p. isSafeInteger (rl_limit p) \<and> 1 \<le> rl_limit p \<and> isSafeInteger (rl_windowMs p) \<and> 1 \<le> rl_windowMs p) POLICIES"
    "list_all (\<lambda>p. list_all (\<lambda>q. rl_scope p = rl_scope q \<longrightarrow> p = q) POLICIES) POLICIES"
    by code_simp+
  then show "p \<in> set POLICIES \<Longrightarrow> RATE_LIMIT_SCOPE_PATTERN (rl_scope p)"
    "p \<in> set POLICIES \<Longrightarrow> isSafeInteger (rl_limit p) \<and> 1 \<le> rl_limit p \<and> isSafeInteger (rl_windowMs p) \<and> 1 \<le> rl_windowMs p"
    "p \<in> set POLICIES \<Longrightarrow> q \<in> set POLICIES \<Longrightarrow> rl_scope p = rl_scope q \<Longrightarrow> p = q"
    by (auto simp: list_all_iff)
qed

lemma scope_no_colon: "RATE_LIMIT_SCOPE_PATTERN s \<Longrightarrow> CHR '':'' \<notin> set s"
  by (auto simp: RATE_LIMIT_SCOPE_PATTERN_def list_all_iff isScopeStart_def isDigit_def split: list.splits)

lemma limitKey_inject:
  assumes "limitKey s a = limitKey s' b" "RATE_LIMIT_SCOPE_PATTERN s" "RATE_LIMIT_SCOPE_PATTERN s'"
  shows "s = s' \<and> a = b"
proof -
  from assms(1) have eq: "s @ CHR '':'' # a = s' @ CHR '':'' # b" by (simp add: limitKey_def)
  have "takeWhile (\<lambda>c. c \<noteq> CHR '':'') (x @ CHR '':'' # y) = x" if "RATE_LIMIT_SCOPE_PATTERN x" for x y
    using scope_no_colon [OF that] by (subst takeWhile_append2) auto
  from this [OF assms(2)] this [OF assms(3)] eq have "s = s'" by metis
  with eq show ?thesis by simp
qed

section \<open>The counter of one key\<close>

lemma consume_other:
  assumes "consumeRateLimitKey p key now m = (r, m')" "key' \<noteq> key"
  shows "m' key' = m key'"
  using assms by (auto simp: consumeRateLimitKey_def FIXED_WINDOW_SCRIPT_def Let_def split: if_splits option.splits prod.splits)

text \<open>A new counter, or one more of the running one.\<close>

lemma consume_counts:
  assumes "consumeRateLimitKey p key now m = (r, m')" "isSafeInteger (rl_limit p)" "1 \<le> rl_limit p"
    "isSafeInteger (rl_windowMs p)" "1 \<le> rl_windowMs p"
  obtains (started) "getKey now m key = None" "m' key = Some (1, now + rl_windowMs p)" "\<not> isl r"
  | (counted) n until where "m key = Some (n, until)" "now < until" "m' key = Some (n + 1, until)" "isl r \<or> n + 1 \<le> rl_limit p"
proof (cases "m key")
  case None
  with assms show thesis
    by (intro started) (auto simp: consumeRateLimitKey_def FIXED_WINDOW_SCRIPT_def getKey_def parseRateLimitResponse_def pttl_def Let_def
      isSafeInteger_def MAX_SAFE_INTEGER_def)
next
  case (Some e)
  obtain n until where e: "e = (n, until)" by force
  show thesis
  proof (cases "now < until")
    case True
    with assms Some e show thesis
      by (intro counted [of n until]) (auto simp: consumeRateLimitKey_def FIXED_WINDOW_SCRIPT_def getKey_def parseRateLimitResponse_def
        pttl_def Let_def split: if_splits)
  next
    case False
    with assms Some e show thesis
      by (intro started) (auto simp: consumeRateLimitKey_def FIXED_WINDOW_SCRIPT_def getKey_def parseRateLimitResponse_def pttl_def Let_def
        isSafeInteger_def MAX_SAFE_INTEGER_def)
  qed
qed

text \<open>What can still be let through before the end of a period: the rest of the running counter, and all of one more when it ends in time.\<close>

definition allowance :: "rate_limit_policy \<Rightarrow> string \<Rightarrow> int \<Rightarrow> counters \<Rightarrow> int" where
  "allowance p key t' m = (case m key of
     None \<Rightarrow> rl_limit p
   | Some (n, until) \<Rightarrow> max 0 (rl_limit p - n) + (if until < t' then rl_limit p else 0))"

definition countersOk :: "counters \<Rightarrow> bool" where
  "countersOk m \<longleftrightarrow> (\<forall>key n until. m key = Some (n, until) \<longrightarrow> 0 \<le> n)"

lemma consume_ok:
  assumes "consumeRateLimitKey p key now m = (r, m')" "p \<in> set POLICIES" "countersOk m"
  shows "countersOk m'"
proof -
  have "0 \<le> n" if "m' key' = Some (n, until)" for key' n until
  proof (cases "key' = key")
    case False
    with consume_other [OF assms(1)] that assms(3) show ?thesis by (auto simp: countersOk_def)
  next
    case True
    from policies_valid(2) [OF assms(2)] have valid: "isSafeInteger (rl_limit p)" "1 \<le> rl_limit p" "isSafeInteger (rl_windowMs p)" "1 \<le> rl_windowMs p"
      by simp_all
    from consume_counts [OF assms(1) valid] show ?thesis using that True assms(3) by (cases) (fastforce simp: countersOk_def)+
  qed
  then show ?thesis by (simp add: countersOk_def)
qed

lemma consume_allowance:
  assumes "consumeRateLimitKey p key now m = (r, m')" "p \<in> set POLICIES" "t \<le> now" "now < t + rl_windowMs p"
  shows "allowance p key (t + rl_windowMs p) m' + (if isl r then 0 else 1) \<le> allowance p key (t + rl_windowMs p) m"
proof -
  from policies_valid(2) [OF assms(2)] have valid: "isSafeInteger (rl_limit p)" "1 \<le> rl_limit p" "isSafeInteger (rl_windowMs p)" "1 \<le> rl_windowMs p"
    by simp_all
  from consume_counts [OF assms(1) valid] show ?thesis
    using assms(3,4) valid(2) by cases (auto simp: allowance_def getKey_def split: option.splits if_splits)
qed

section \<open>Any sequence of requests\<close>

definition registered :: "limit_command list \<Rightarrow> bool" where
  "registered cs \<longleftrightarrow> (\<forall>c \<in> set cs. lc_policy c \<in> set POLICIES)"

lemma letThrough_none:
  "\<forall>c \<in> set cs. t' \<le> lc_now c \<Longrightarrow> filter (letThrough p name t t') (fst (runLimits cs m)) = []"
  by (induction cs arbitrary: m) (auto simp: letThrough_def case_prod_beta Let_def)

lemma allowance_pos: "p \<in> set POLICIES \<Longrightarrow> 0 \<le> allowance p key t' m"
  using policies_valid(2) [of p] by (auto simp: allowance_def split: option.splits)

lemma runLimits_allowance:
  assumes "p \<in> set POLICIES" "registered cs" "countersOk m" "sorted (map lc_now cs)" "\<forall>c \<in> set cs. t \<le> lc_now c"
  shows "int (length (filter (letThrough p name t (t + rl_windowMs p)) (fst (runLimits cs m)))) \<le>
    allowance p (limitKey (rl_scope p) name) (t + rl_windowMs p) m"
  using assms(2-5)
proof (induction cs arbitrary: m)
  case Nil
  then show ?case using allowance_pos [OF assms(1)] by simp
next
  case (Cons c cs)
  let ?key = "limitKey (rl_scope p) name" and ?t' = "t + rl_windowMs p"
  let ?key' = "limitKey (rl_scope (lc_policy c)) (lc_name c)"
  obtain r m1 where one: "consumeRateLimitKey (lc_policy c) ?key' (lc_now c) m = (r, m1)" by force
  have prems: "lc_policy c \<in> set POLICIES" "registered cs" "t \<le> lc_now c" using Cons.prems by (simp_all add: registered_def)
  show ?case
  proof (cases "lc_now c < ?t'")
    case False
    then have "\<forall>d \<in> set (c # cs). ?t' \<le> lc_now d" using Cons.prems(3) by auto
    from letThrough_none [OF this] show ?thesis using allowance_pos [OF assms(1)] by simp
  next
    case True
    have rest: "int (length (filter (letThrough p name t ?t') (fst (runLimits cs m1)))) \<le> allowance p ?key ?t' m1"
      using Cons.IH [OF prems(2) consume_ok [OF one prems(1) Cons.prems(2)]] Cons.prems(3,4) by simp
    have same: "lc_policy c = p \<and> lc_name c = name" if "?key' = ?key"
      using limitKey_inject [OF that] policies_valid(1,3) prems(1) assms(1) by auto
    have "allowance p ?key ?t' m1 + (if letThrough p name t ?t' (c, r) then 1 else 0) \<le> allowance p ?key ?t' m"
    proof (cases "?key' = ?key")
      case eq: True
      with same one have "consumeRateLimitKey p ?key (lc_now c) m = (r, m1)" by simp
      from consume_allowance [OF this assms(1) prems(3) True] show ?thesis by (auto simp: letThrough_def split: if_splits)
    next
      case False
      then have "m1 ?key = m ?key" using consume_other [OF one] by metis
      with False show ?thesis by (auto simp: letThrough_def allowance_def)
    qed
    with rest show ?thesis using one by (auto simp: case_prod_beta Let_def)
  qed
qed

lemma runLimits_twice:
  assumes "p \<in> set POLICIES" "registered cs" "countersOk m" "sorted (map lc_now cs)"
  shows "int (length (filter (letThrough p name t (t + rl_windowMs p)) (fst (runLimits cs m)))) \<le> 2 * rl_limit p"
  using assms(2-4)
proof (induction cs arbitrary: m)
  case Nil
  then show ?case using policies_valid(2) [OF assms(1)] by simp
next
  case (Cons c cs)
  show ?case
  proof (cases "lc_now c < t")
    case True
    obtain r m1 where one: "consumeRateLimitKey (lc_policy c) (limitKey (rl_scope (lc_policy c)) (lc_name c)) (lc_now c) m = (r, m1)" by force
    have "lc_policy c \<in> set POLICIES" "registered cs" using Cons.prems by (simp_all add: registered_def)
    with Cons.IH [OF this(2) consume_ok [OF one this(1) Cons.prems(2)]] Cons.prems(3) True one
    show ?thesis by (simp add: case_prod_beta Let_def letThrough_def)
  next
    case False
    then have "\<forall>d \<in> set (c # cs). t \<le> lc_now d" using Cons.prems(3) by auto
    note run = runLimits_allowance [OF assms(1) Cons.prems this, of name]
    have "allowance p (limitKey (rl_scope p) name) (t + rl_windowMs p) m \<le> 2 * rl_limit p"
      using Cons.prems(2) policies_valid(2) [OF assms(1)] by (fastforce simp: allowance_def countersOk_def split: option.splits)
    with run show ?thesis by linarith
  qed
qed

text \<open>A service that lets a request through sent two commands of the sequence, and both were let through.\<close>

lemma bothLimits_Inr:
  "bothLimits f g m = (Inr (x, y), m') \<longleftrightarrow> (\<exists>m1. f m = (Inr x, m1) \<and> g m1 = (Inr y, m'))"
  by (auto simp: bothLimits_def Let_def andThen_Inr_iff split: prod.splits)

lemma consumeRateLimit_Inr:
  assumes "consumeRateLimit env p identifier now m = (Inr x, m')"
  shows "consumeRateLimitKey p (limitKey (rl_scope p) (hashRateLimitIdentifier env identifier)) now m = (Inr x, m')"
  using assms by (auto simp: consumeRateLimit_def createRateLimitKey_def split: if_splits)

lemma enforceAuth_commands:
  assumes "enforceAuthRateLimit env isIP action resolved email now now' m = (Inr (x, y), m')"
  shows "\<exists>a b. runLimits [a, b] m = ([(a, Inr x), (b, Inr y)], m') \<and>
    a = \<lparr>lc_policy = ap_ip (AUTH_RATE_LIMITS action), lc_name = hashRateLimitIdentifier env (resolveRateLimitClientIp isIP resolved), lc_now = now\<rparr> \<and>
    b = \<lparr>lc_policy = ap_email (AUTH_RATE_LIMITS action), lc_name = hashRateLimitIdentifier env email, lc_now = now'\<rparr> \<and> registered [a, b]"
proof -
  have "ap_ip (AUTH_RATE_LIMITS action) \<in> set POLICIES" "ap_email (AUTH_RATE_LIMITS action) \<in> set POLICIES"
    by (cases action; simp add: POLICIES_def)+
  then show ?thesis
    using assms by (auto simp: enforceAuthRateLimit_def Let_def bothLimits_Inr registered_def dest!: consumeRateLimit_Inr)
qed

lemma enforceMfa_commands:
  assumes "enforceLoginMfaRateLimit env isIP resolved userId now now' m = (Inr (x, y), m')"
  shows "\<exists>a b. runLimits [a, b] m = ([(a, Inr x), (b, Inr y)], m') \<and>
    a = \<lparr>lc_policy = ap_ip (AUTH_RATE_LIMITS LoginAction), lc_name = hashRateLimitIdentifier env (resolveRateLimitClientIp isIP resolved),
      lc_now = now\<rparr> \<and>
    b = \<lparr>lc_policy = LOGIN_MFA_USER_RATE_LIMIT, lc_name = toLowerCase (trim userId), lc_now = now'\<rparr> \<and> registered [a, b]"
  using assms
  by (auto simp: enforceLoginMfaRateLimit_def createUserRateLimitKey_def Let_def bothLimits_Inr registered_def POLICIES_def
    split: if_splits sum.splits dest!: consumeRateLimit_Inr)

lemma enforceInvite_commands:
  assumes "enforceInviteRateLimit env actorUserId email now now' m = (Inr (x, y), m')"
  shows "\<exists>a b. runLimits [a, b] m = ([(a, Inr x), (b, Inr y)], m') \<and>
    a = \<lparr>lc_policy = sp_inviteActor SENSITIVE_ACTION_RATE_LIMITS, lc_name = toLowerCase (trim actorUserId), lc_now = now\<rparr> \<and>
    b = \<lparr>lc_policy = sp_inviteEmail SENSITIVE_ACTION_RATE_LIMITS, lc_name = hashRateLimitIdentifier env email, lc_now = now'\<rparr> \<and>
    registered [a, b]"
  using assms
  by (auto simp: enforceInviteRateLimit_def createUserRateLimitKey_def Let_def bothLimits_Inr registered_def POLICIES_def
    split: if_splits sum.splits dest!: consumeRateLimit_Inr)

lemma enforcePasswordChange_commands:
  assumes "enforcePasswordChangeRateLimit env userId now m = (Inr x, m')"
  shows "\<exists>a. runLimits [a] m = ([(a, Inr x)], m') \<and>
    a = \<lparr>lc_policy = sp_passwordChange SENSITIVE_ACTION_RATE_LIMITS, lc_name = toLowerCase (trim userId), lc_now = now\<rparr> \<and> registered [a]"
  using assms
  by (auto simp: enforcePasswordChangeRateLimit_def createUserRateLimitKey_def Let_def registered_def POLICIES_def split: if_splits sum.splits)

section \<open>The property\<close>

text \<open>
  Claim C21. The rate limits hold: whatever requests of all services are interleaved, in any period as long as the
  window of a policy at most twice its limit of requests are let through for one identifier, at most its limit for
  one counter, and a request without a running counter is let through.
\<close>

theorem rate_limits_hold:
  assumes "p \<in> set POLICIES" "registered cs" "sorted (map lc_now cs)"
  shows "int (length (filter (letThrough p name t (t + rl_windowMs p)) (fst (runLimits cs Map.empty)))) \<le> 2 * rl_limit p \<and>
    (\<forall>key now m r m'. consumeRateLimitKey p key now m = (r, m') \<longrightarrow>
      (getKey now m key = None \<longrightarrow> \<not> isl r \<and> getKey now m' key = Some 1) \<and>
      (\<forall>n. getKey now m key = Some n \<and> rl_limit p \<le> n \<longrightarrow> isl r))"
proof -
  have ok: "countersOk Map.empty" by (simp add: countersOk_def)
  have valid: "isSafeInteger (rl_limit p)" "1 \<le> rl_limit p" "isSafeInteger (rl_windowMs p)" "1 \<le> rl_windowMs p"
    using policies_valid(2) [OF assms(1)] by simp_all
  have "(getKey now m key = None \<longrightarrow> \<not> isl r \<and> getKey now m' key = Some 1) \<and> (\<forall>n. getKey now m key = Some n \<and> rl_limit p \<le> n \<longrightarrow> isl r)"
    if "consumeRateLimitKey p key now m = (r, m')" for key now m r m'
    using consume_counts [OF that valid] valid(4) by cases (auto simp: getKey_def)
  then show ?thesis using runLimits_twice [OF assms(1,2) ok assms(3)] by blast
qed

definition sampleGuesses :: "limit_command list" where
  "sampleGuesses = map (\<lambda>k. \<lparr>lc_policy = ap_email (AUTH_RATE_LIMITS LoginAction), lc_name = ''v@x'', lc_now = int k\<rparr>) [0..<12]"

theorem rate_limits_hold_witness:
  "length (filter (letThrough (ap_email (AUTH_RATE_LIMITS LoginAction)) ''v@x'' 0 (0 + TEN_MINUTES_MS)) (fst (runLimits sampleGuesses Map.empty))) = 8 \<and>
   int (length (filter (letThrough (ap_email (AUTH_RATE_LIMITS LoginAction)) ''v@x'' 0 (0 + TEN_MINUTES_MS)) (fst (runLimits sampleGuesses Map.empty)))) \<le> 16"
proof -
  have "ap_email (AUTH_RATE_LIMITS LoginAction) \<in> set POLICIES" by (simp add: POLICIES_def)
  moreover have "registered sampleGuesses" "sorted (map lc_now sampleGuesses)"
    by (auto simp: sampleGuesses_def registered_def POLICIES_def sorted_map comp_def intro: sorted_wrt_mono_rel [OF _ sorted_upt])
  moreover have "rl_windowMs (ap_email (AUTH_RATE_LIMITS LoginAction)) = TEN_MINUTES_MS" "rl_limit (ap_email (AUTH_RATE_LIMITS LoginAction)) = 8"
    by (simp_all add: AUTH_RATE_LIMITS_def)
  ultimately have "int (length (filter (letThrough (ap_email (AUTH_RATE_LIMITS LoginAction)) ''v@x'' 0 (0 + TEN_MINUTES_MS))
      (fst (runLimits sampleGuesses Map.empty)))) \<le> 16"
    using rate_limits_hold [of "ap_email (AUTH_RATE_LIMITS LoginAction)" sampleGuesses "''v@x''" 0] by simp
  moreover have "length (filter (letThrough (ap_email (AUTH_RATE_LIMITS LoginAction)) ''v@x'' 0 (0 + TEN_MINUTES_MS))
      (fst (runLimits sampleGuesses Map.empty))) = 8" by code_simp
  ultimately show ?thesis by blast
qed

end
