(* ===== verification/UpstreamPools.thy ===== *)
theory UpstreamPools
  imports JsLib
begin

text \<open>
  The values a proxy host is made of, checked when they come in: host names
  (\<^verbatim>\<open>web/src/lib/Admin/ProxyHostManagement/proxyHostValidation.ts\<close>), pools of targets with their failover settings
  (\<^verbatim>\<open>web/src/lib/ProxyRuntime/upstreamPool.ts\<close>), the caches (\<^verbatim>\<open>config-validation.ts\<close>, \<^verbatim>\<open>responseCache.ts\<close>), and the
  check constraint of the table on pools (\<^verbatim>\<open>web/src/db/Schema/proxyHosts.ts\<close>). The URL parser and the address
  formats of the validation library are arguments; a schema is a function to the parsed value, \<^term>\<open>None\<close> when it
  rejects.
\<close>

section \<open>Host names\<close>

text \<open>
  A parsed URL has the parts the code reads; \<^verbatim>\<open>ul_hostname\<close> is the host name of \<^verbatim>\<open>new URL('http://' + input)\<close>,
  \<^term>\<open>None\<close> when the constructor throws.
\<close>

record parsed_url =
  pu_protocol :: string
  pu_hostname :: string
  pu_username :: string
  pu_password :: string
  pu_search :: string
  pu_hash :: string
  pu_origin :: string
  pu_pathname :: string
  pu_href :: string

record url_lib =
  ul_hostname :: "string \<Rightarrow> string option"
  ul_parse :: "string \<Rightarrow> parsed_url option"
  ul_setHostname :: "parsed_url \<Rightarrow> string \<Rightarrow> parsed_url"
  ul_decode :: "string \<Rightarrow> string option"
  ul_isIpv4 :: "string \<Rightarrow> bool"
  ul_isIpv6 :: "string \<Rightarrow> bool"

definition isControl :: "char \<Rightarrow> bool" where
  "isControl c \<longleftrightarrow> (of_char c :: nat) < 32 \<or> (127 \<le> (of_char c :: nat) \<and> (of_char c :: nat) < 160)"

definition forbiddenHostnameCharacter :: "char \<Rightarrow> bool" where
  "forbiddenHostnameCharacter c \<longleftrightarrow> isSpace c \<or> isControl c \<or> contains (''/:?#@%[]'' @ [CHR 0x5C]) c"

definition lowerAlnum :: "char \<Rightarrow> bool" where
  "lowerAlnum c \<longleftrightarrow> isDigit c \<or> (97 \<le> (of_char c :: nat) \<and> (of_char c :: nat) \<le> 122)"

definition dnsLabel :: "string \<Rightarrow> bool" where
  "dnsLabel l \<longleftrightarrow> l \<noteq> [] \<and> length l \<le> 63 \<and> list_all (\<lambda>c. lowerAlnum c \<or> c = CHR ''-'') l \<and> lowerAlnum (hd l) \<and> lowerAlnum (last l)"

definition withoutFinalDot :: "string \<Rightarrow> string" where
  "withoutFinalDot s = (if s \<noteq> [] \<and> last s = CHR ''.'' then butlast s else s)"

definition normalizeProxyDomain :: "url_lib \<Rightarrow> string \<Rightarrow> string option" where
  "normalizeProxyDomain ul value =
     (let input = trim value in
      if input = [] \<or> length input > 1024 \<or> some_elem forbiddenHostnameCharacter input then None
      else (case ul_hostname ul input of
          None \<Rightarrow> None
        | Some h \<Rightarrow>
            let hostname = withoutFinalDot (toLowerCase h) in
            if length hostname > 253 \<or> \<not> list_all dnsLabel (splitOn (CHR ''.'') hostname) \<or> ul_isIpv4 ul hostname
            then None else Some hostname))"

definition inner :: "string \<Rightarrow> string" where
  "inner s = butlast (tl s)"

definition bracketed :: "string \<Rightarrow> bool" where
  "bracketed s \<longleftrightarrow> s \<noteq> [] \<and> hd s = CHR ''['' \<and> last s = CHR '']''"

definition normalizeForwardHost :: "url_lib \<Rightarrow> string \<Rightarrow> string option" where
  "normalizeForwardHost ul value =
     (let input = trim value; address = (if bracketed input then inner input else input) in
      if contains address (CHR '':'') then
        if length address > 45 \<or> \<not> list_all (\<lambda>c. isHex c \<or> c = CHR '':'' \<or> c = CHR ''.'') address then None
        else map_option inner (ul_hostname ul (''['' @ address @ '']''))
      else if ul_isIpv4 ul input then Some input
      else normalizeProxyDomain ul input)"

definition upstreamTlsRequiresServerName :: "url_lib \<Rightarrow> string list \<Rightarrow> bool" where
  "upstreamTlsRequiresServerName ul hosts = some_elem (\<lambda>h. ul_isIpv4 ul h \<or> ul_isIpv6 ul h) hosts"

text \<open>Text of a schema with a length limit, then a normal form.\<close>

definition proxyDomainSchema :: "url_lib \<Rightarrow> string \<Rightarrow> string option" where
  "proxyDomainSchema ul value = (if length value > 1024 then None else normalizeProxyDomain ul value)"

definition proxyForwardHostSchema :: "url_lib \<Rightarrow> string \<Rightarrow> string option" where
  "proxyForwardHostSchema ul value = (if length value > 1024 then None else normalizeForwardHost ul value)"

definition portOk :: "int \<Rightarrow> bool" where
  "portOk n \<longleftrightarrow> 1 \<le> n \<and> n \<le> 65535"

fun allSome :: "'a option list \<Rightarrow> 'a list option" where
  "allSome [] = Some []"
| "allSome (x # xs) = (case x of None \<Rightarrow> None | Some v \<Rightarrow> map_option (\<lambda>vs. v # vs) (allSome xs))"

definition MAX_PROXY_HOST_DOMAINS :: nat where "MAX_PROXY_HOST_DOMAINS = 50"

definition proxyHostDomainsSchema :: "url_lib \<Rightarrow> string list \<Rightarrow> string list option" where
  "proxyHostDomainsSchema ul input =
     (case allSome (map (proxyDomainSchema ul) input) of
        None \<Rightarrow> None
      | Some ds \<Rightarrow> if ds = [] \<or> length ds > MAX_PROXY_HOST_DOMAINS \<or> \<not> distinct ds then None else Some ds)"

definition proxyUpstreamTlsServerNameSchema :: "url_lib \<Rightarrow> string \<Rightarrow> string option option" where
  "proxyUpstreamTlsServerNameSchema ul value =
     (if length value > 1024 then None
      else if trim value = [] then Some None
      else map_option Some (normalizeProxyDomain ul value))"

section \<open>Pools\<close>

record active_health =
  ah_path :: string
  ah_intervalSeconds :: int
  ah_timeoutSeconds :: int
  ah_fails :: int
  ah_passes :: int
  ah_expectedStatus :: int

record passive_health =
  pv_failDurationSeconds :: int
  pv_maxFails :: int

record pool_retries =
  ry_maxRetries :: int
  ry_tryDurationSeconds :: int
  ry_tryIntervalMilliseconds :: int

record pool_failover =
  fo_active :: "active_health option"
  fo_passive :: "passive_health option"
  fo_retries :: "pool_retries option"

datatype pool_policy = RoundRobin | FirstMember

record upstream_member =
  um_host :: string
  um_port :: int

record upstream_pool =
  po_policy :: pool_policy
  po_members :: "upstream_member list"
  po_failover :: "pool_failover option"

definition MAX_PROXY_UPSTREAM_MEMBERS :: nat where "MAX_PROXY_UPSTREAM_MEMBERS = 16"

text \<open>A percent sign without two hexadecimal digits after it.\<close>

fun badEscape :: "string \<Rightarrow> bool" where
  "badEscape [] = False"
| "badEscape (c # cs) = ((c = CHR ''%'' \<and> \<not> (length (take 2 cs) = 2 \<and> list_all isHex (take 2 cs))) \<or> badEscape cs)"

definition proxyUpstreamHealthPathSchema :: "string \<Rightarrow> bool" where
  "proxyUpstreamHealthPathSchema path \<longleftrightarrow> 1 \<le> length path \<and> length path \<le> 2048 \<and>
     take 1 path = ''/'' \<and> take 2 path \<noteq> ''//'' \<and>
     \<not> some_elem (\<lambda>c. (of_char c :: nat) < 33 \<or> 126 < (of_char c :: nat) \<or> contains (''#{}'' @ [CHR 0x5C]) c) path \<and>
     \<not> badEscape path"

definition within :: "int \<Rightarrow> int \<Rightarrow> int \<Rightarrow> bool" where
  "within lo hi n \<longleftrightarrow> lo \<le> n \<and> n \<le> hi"

definition validateActiveHealth :: "active_health \<Rightarrow> bool" where
  "validateActiveHealth a \<longleftrightarrow> \<not> ah_timeoutSeconds a > ah_intervalSeconds a"

definition proxyUpstreamActiveHealthSchema :: "active_health \<Rightarrow> bool" where
  "proxyUpstreamActiveHealthSchema a \<longleftrightarrow> proxyUpstreamHealthPathSchema (ah_path a) \<and>
     within 5 300 (ah_intervalSeconds a) \<and> within 1 30 (ah_timeoutSeconds a) \<and> within 1 10 (ah_fails a) \<and>
     within 1 10 (ah_passes a) \<and> within 200 399 (ah_expectedStatus a) \<and> validateActiveHealth a"

definition proxyUpstreamPassiveHealthSchema :: "passive_health \<Rightarrow> bool" where
  "proxyUpstreamPassiveHealthSchema p \<longleftrightarrow> within 1 300 (pv_failDurationSeconds p) \<and> within 1 10 (pv_maxFails p)"

definition validateRetries :: "pool_retries \<Rightarrow> bool" where
  "validateRetries r \<longleftrightarrow> \<not> ry_tryIntervalMilliseconds r > ry_tryDurationSeconds r * 1000"

definition proxyUpstreamRetriesSchema :: "pool_retries \<Rightarrow> bool" where
  "proxyUpstreamRetriesSchema r \<longleftrightarrow> within 1 15 (ry_maxRetries r) \<and> within 1 30 (ry_tryDurationSeconds r) \<and>
     within 100 5000 (ry_tryIntervalMilliseconds r) \<and> validateRetries r"

definition validateFailover :: "pool_failover \<Rightarrow> bool" where
  "validateFailover f \<longleftrightarrow> \<not> (fo_active f = None \<and> fo_passive f = None \<and> fo_retries f = None) \<and>
     \<not> (fo_retries f \<noteq> None \<and> fo_passive f = None)"

definition whenPresent :: "('a \<Rightarrow> bool) \<Rightarrow> 'a option \<Rightarrow> bool" where
  "whenPresent p x = (case x of None \<Rightarrow> True | Some v \<Rightarrow> p v)"

definition proxyUpstreamFailoverSchema :: "pool_failover \<Rightarrow> bool" where
  "proxyUpstreamFailoverSchema f \<longleftrightarrow> whenPresent proxyUpstreamActiveHealthSchema (fo_active f) \<and>
     whenPresent proxyUpstreamPassiveHealthSchema (fo_passive f) \<and>
     whenPresent proxyUpstreamRetriesSchema (fo_retries f) \<and> validateFailover f"

definition validatePoolRetries :: "upstream_pool \<Rightarrow> bool" where
  "validatePoolRetries pool \<longleftrightarrow>
     \<not> (po_policy pool = FirstMember \<and>
       (case po_failover pool of
          None \<Rightarrow> False
        | Some f \<Rightarrow> (case (fo_retries f, fo_passive f) of
              (Some r, Some p) \<Rightarrow> ry_maxRetries r < pv_maxFails p
            | _ \<Rightarrow> False)))"

definition proxyUpstreamMemberSchema :: "url_lib \<Rightarrow> upstream_member \<Rightarrow> upstream_member option" where
  "proxyUpstreamMemberSchema ul m =
     (case proxyForwardHostSchema ul (um_host m) of
        None \<Rightarrow> None
      | Some host \<Rightarrow> if portOk (um_port m) then Some (m\<lparr>um_host := host\<rparr>) else None)"

definition validateUniqueUpstreamMembers :: "upstream_pool \<Rightarrow> bool" where
  "validateUniqueUpstreamMembers pool \<longleftrightarrow> distinct (map (\<lambda>m. (um_host m, um_port m)) (po_members pool))"

definition proxyUpstreamPoolSchema :: "url_lib \<Rightarrow> upstream_pool \<Rightarrow> upstream_pool option" where
  "proxyUpstreamPoolSchema ul pool =
     (case allSome (map (proxyUpstreamMemberSchema ul) (po_members pool)) of
        None \<Rightarrow> None
      | Some members \<Rightarrow>
          let parsed = pool\<lparr>po_members := members\<rparr> in
          if members = [] \<or> length members > MAX_PROXY_UPSTREAM_MEMBERS \<or>
             \<not> whenPresent proxyUpstreamFailoverSchema (po_failover pool) \<or>
             \<not> validateUniqueUpstreamMembers parsed \<or> \<not> validatePoolRetries parsed
          then None else Some parsed)"

text \<open>The first member is the target the older readers of a host see.\<close>

definition validateUpstreamPoolPrimary :: "upstream_pool option \<Rightarrow> string \<Rightarrow> int \<Rightarrow> bool" where
  "validateUpstreamPoolPrimary pool forwardHost forwardPort \<longleftrightarrow>
     (case pool of
        None \<Rightarrow> True
      | Some p \<Rightarrow> (case po_members p of
            [] \<Rightarrow> True
          | m # _ \<Rightarrow> um_host m = forwardHost \<and> um_port m = forwardPort))"

section \<open>Caches\<close>

record browser_rule =
  bc_path :: string
  bc_maxAgeSeconds :: int
  bc_immutable :: bool

record browser_cache =
  bc_enabled :: bool
  bc_rules :: "browser_rule list"

record response_cache =
  rc_pathPrefixes :: "string list"
  rc_ttlSeconds :: int

definition reservedSegments :: "string list" where
  "reservedSegments = [''api'', ''auth'', ''admin'', ''login'', ''logout'', ''oauth'', ''session'']"

definition cachedExtensions :: "string list" where
  "cachedExtensions = [''css'', ''js'', ''mjs'', ''png'', ''jpg'', ''jpeg'', ''gif'', ''webp'', ''avif'', ''svg'', ''ico'', ''woff'',
     ''woff2'', ''ttf'', ''otf'']"

definition wordChar :: "char \<Rightarrow> bool" where
  "wordChar c \<longleftrightarrow> lowerAlnum c \<or> (65 \<le> (of_char c :: nat) \<and> (of_char c :: nat) \<le> 90) \<or> c = CHR ''_'' \<or> c = CHR ''-''"

definition segmentOk :: "string \<Rightarrow> bool" where
  "segmentOk s \<longleftrightarrow> s \<noteq> [] \<and> list_all wordChar s"

definition directoryPath :: "string \<Rightarrow> bool" where
  "directoryPath path \<longleftrightarrow> take 1 path = ''/'' \<and>
     (let segments = splitOn (CHR ''/'') (tl path) in
      length segments \<ge> 2 \<and> last segments = [] \<and> list_all segmentOk (butlast segments))"

definition fileName :: "string \<Rightarrow> bool" where
  "fileName s \<longleftrightarrow> list_all (\<lambda>c. wordChar c \<or> c = CHR ''.'') s \<and>
     (let parts = splitOn (CHR ''.'') s in
      length parts \<ge> 2 \<and> contains cachedExtensions (last parts) \<and> length s > length (last parts) + 1)"

definition assetPath :: "string \<Rightarrow> bool" where
  "assetPath path \<longleftrightarrow> take 1 path = ''/'' \<and>
     (let segments = splitOn (CHR ''/'') (tl path) in
      list_all segmentOk (butlast segments) \<and> fileName (last segments))"

fun includesDots :: "string \<Rightarrow> bool" where
  "includesDots (c # d # cs) = ((c = CHR ''.'' \<and> d = CHR ''.'') \<or> includesDots (d # cs))"
| "includesDots _ = False"

definition browserRuleSchema :: "browser_rule \<Rightarrow> bool" where
  "browserRuleSchema r \<longleftrightarrow> 2 \<le> length (bc_path r) \<and> length (bc_path r) \<le> 512 \<and>
     (directoryPath (bc_path r) \<or> assetPath (bc_path r)) \<and> \<not> includesDots (bc_path r) \<and>
     \<not> contains reservedSegments (toLowerCase (hd (splitOn (CHR ''/'') (tl (bc_path r))))) \<and>
     within 1 31536000 (bc_maxAgeSeconds r)"

definition startsWith :: "string \<Rightarrow> string \<Rightarrow> bool" where
  "startsWith start s \<longleftrightarrow> take (length start) s = start"

definition endsWith :: "string \<Rightarrow> string \<Rightarrow> bool" where
  "endsWith ending s \<longleftrightarrow> length ending \<le> length s \<and> drop (length s - length ending) s = ending"

definition ruleShadows :: "browser_rule \<Rightarrow> browser_rule \<Rightarrow> bool" where
  "ruleShadows r other \<longleftrightarrow> endsWith ''/'' (bc_path r) \<and> startsWith (toLowerCase (bc_path r)) (toLowerCase (bc_path other))"

definition browserCacheSettingsSchema :: "browser_cache \<Rightarrow> bool" where
  "browserCacheSettingsSchema b \<longleftrightarrow> list_all browserRuleSchema (bc_rules b) \<and> length (bc_rules b) \<le> 20 \<and>
     (\<not> bc_enabled b \<or> length (bc_rules b) > 0) \<and>
     distinct (map (\<lambda>r. toLowerCase (bc_path r)) (bc_rules b)) \<and>
     \<not> some_elem (\<lambda>i. some_elem (\<lambda>j. i \<noteq> j \<and> ruleShadows (bc_rules b ! i) (bc_rules b ! j))
       [0..<length (bc_rules b)]) [0..<length (bc_rules b)]"

definition responseCacheSchema :: "response_cache \<Rightarrow> bool" where
  "responseCacheSchema r \<longleftrightarrow>
     list_all (\<lambda>p. 2 \<le> length p \<and> length p \<le> 256 \<and> directoryPath p \<and>
       \<not> contains reservedSegments (toLowerCase (hd (splitOn (CHR ''/'') (tl p))))) (rc_pathPrefixes r) \<and>
     1 \<le> length (rc_pathPrefixes r) \<and> length (rc_pathPrefixes r) \<le> 16 \<and> distinct (rc_pathPrefixes r) \<and>
     within 1 3600 (rc_ttlSeconds r)"

section \<open>The constraint of the table\<close>

text \<open>
  The database checks a stored pool again with its own rules (\<^verbatim>\<open>proxy_hosts_upstream_pool_check\<close>).
\<close>

definition healthPathCheck :: "string \<Rightarrow> bool" where
  "healthPathCheck path \<longleftrightarrow> 1 \<le> length path \<and> length path \<le> 2048 \<and> take 1 path = ''/'' \<and> take 2 path \<noteq> ''//'' \<and>
     \<not> some_elem (\<lambda>c. (of_char c :: nat) < 33 \<or> 126 < (of_char c :: nat)) path \<and>
     \<not> contains path (CHR ''#'') \<and> \<not> contains path (CHR 0x5C) \<and>
     \<not> contains path (CHR ''{'') \<and> \<not> contains path (CHR ''}'') \<and> \<not> badEscape path"

definition activeCheck :: "active_health \<Rightarrow> bool" where
  "activeCheck a \<longleftrightarrow> within 5 300 (ah_intervalSeconds a) \<and> within 1 30 (ah_timeoutSeconds a) \<and> within 1 10 (ah_fails a) \<and>
     within 1 10 (ah_passes a) \<and> within 200 399 (ah_expectedStatus a) \<and> healthPathCheck (ah_path a) \<and>
     ah_timeoutSeconds a \<le> ah_intervalSeconds a"

definition passiveCheck :: "passive_health \<Rightarrow> bool" where
  "passiveCheck p \<longleftrightarrow> within 1 300 (pv_failDurationSeconds p) \<and> within 1 10 (pv_maxFails p)"

definition retriesCheck :: "pool_policy \<Rightarrow> passive_health option \<Rightarrow> pool_retries \<Rightarrow> bool" where
  "retriesCheck policy passive r \<longleftrightarrow> within 1 15 (ry_maxRetries r) \<and> within 1 30 (ry_tryDurationSeconds r) \<and>
     within 100 5000 (ry_tryIntervalMilliseconds r) \<and>
     ry_tryIntervalMilliseconds r \<le> ry_tryDurationSeconds r * 1000 \<and>
     (case passive of
        None \<Rightarrow> False
      | Some p \<Rightarrow> policy \<noteq> FirstMember \<or> ry_maxRetries r \<ge> pv_maxFails p)"

definition failoverCheck :: "pool_policy \<Rightarrow> pool_failover \<Rightarrow> bool" where
  "failoverCheck policy f \<longleftrightarrow> (fo_active f \<noteq> None \<or> fo_passive f \<noteq> None \<or> fo_retries f \<noteq> None) \<and>
     whenPresent activeCheck (fo_active f) \<and> whenPresent passiveCheck (fo_passive f) \<and>
     whenPresent (retriesCheck policy (fo_passive f)) (fo_retries f)"

definition upstreamPoolCheck :: "string \<Rightarrow> int \<Rightarrow> upstream_pool \<Rightarrow> bool" where
  "upstreamPoolCheck forwardHost forwardPort pool \<longleftrightarrow>
     1 \<le> length (po_members pool) \<and> length (po_members pool) \<le> 16 \<and>
     list_all (\<lambda>m. um_host m \<noteq> [] \<and> portOk (um_port m)) (po_members pool) \<and>
     um_host (hd (po_members pool)) = forwardHost \<and> um_port (hd (po_members pool)) = forwardPort \<and>
     whenPresent (failoverCheck (po_policy pool)) (po_failover pool)"

section \<open>What the schemas give\<close>

lemma allSome_Some: "allSome xs = Some ys \<longleftrightarrow> xs = map Some ys"
proof (induction xs arbitrary: ys)
  case (Cons a xs)
  then show ?case by (cases ys) (auto split: option.splits)
qed auto

text \<open>
  What is known of the URL parser: the host name of an address in brackets is an address in brackets, and a host
  name of digits and dots alone is an IPv4 address. An IPv4 address is a short text of digits and dots.
\<close>

definition addressChar :: "char \<Rightarrow> bool" where
  "addressChar c \<longleftrightarrow> isHex c \<or> c = CHR '':'' \<or> c = CHR ''.''"

definition urlLaws :: "url_lib \<Rightarrow> bool" where
  "urlLaws ul \<longleftrightarrow>
     (\<forall>a h. ul_hostname ul (''['' @ a @ '']'') = Some h \<longrightarrow>
        bracketed h \<and> inner h \<noteq> [] \<and> length (inner h) \<le> 45 \<and> list_all addressChar (inner h)) \<and>
     (\<forall>x h. ul_hostname ul x = Some h \<longrightarrow> list_all (\<lambda>c. isDigit c \<or> c = CHR ''.'') (withoutFinalDot (toLowerCase h)) \<longrightarrow>
        ul_isIpv4 ul (withoutFinalDot (toLowerCase h))) \<and>
     (\<forall>h. ul_isIpv4 ul h \<longrightarrow> h \<noteq> [] \<and> length h \<le> 15 \<and> list_all addressChar h)"

text \<open>The pattern of the table on domains.\<close>

definition domainCanonicalCheck :: "string \<Rightarrow> bool" where
  "domainCanonicalCheck d \<longleftrightarrow> length d \<le> 253 \<and> list_all dnsLabel (splitOn (CHR ''.'') d) \<and>
     \<not> (d \<noteq> [] \<and> list_all (\<lambda>c. isDigit c \<or> c = CHR ''.'') d)"

lemma normalizeProxyDomain_canonical:
  assumes "urlLaws ul" "normalizeProxyDomain ul v = Some d"
  shows "domainCanonicalCheck d \<and> d \<noteq> []"
proof -
  from assms(2) obtain h where h: "ul_hostname ul (trim v) = Some h" and d: "d = withoutFinalDot (toLowerCase h)"
    "length d \<le> 253" "list_all dnsLabel (splitOn (CHR ''.'') d)" "\<not> ul_isIpv4 ul d"
    by (auto simp: normalizeProxyDomain_def Let_def split: if_splits option.splits)
  have "d \<noteq> []" using d(3) by (auto simp: dnsLabel_def)
  moreover from assms(1) h d(1,4) have "\<not> list_all (\<lambda>c. isDigit c \<or> c = CHR ''.'') d" unfolding urlLaws_def by blast
  ultimately show ?thesis using d by (simp add: domainCanonicalCheck_def)
qed

text \<open>A target's name fits its column and is not blank.\<close>

definition forwardHostCheck :: "string \<Rightarrow> bool" where
  "forwardHostCheck h \<longleftrightarrow> length h \<le> 253 \<and> some_elem (\<lambda>c. c \<noteq> CHR '' '') h"

lemma addresses_not_blank: "list_all addressChar h \<Longrightarrow> h \<noteq> [] \<Longrightarrow> some_elem (\<lambda>c. c \<noteq> CHR '' '') h"
proof -
  assume a: "list_all addressChar h" "h \<noteq> []"
  have "\<not> addressChar (CHR '' '')" by code_simp
  with a show ?thesis by (cases h) auto
qed

lemma normalizeForwardHost_check:
  assumes laws: "urlLaws ul" and res: "normalizeForwardHost ul v = Some h"
  shows "forwardHostCheck h"
proof -
  have dom: "forwardHostCheck d" if "normalizeProxyDomain ul w = Some d" for w d
  proof -
    have c: "domainCanonicalCheck d" "d \<noteq> []" using normalizeProxyDomain_canonical [OF laws that] by auto
    have blank: "\<not> lowerAlnum (CHR '' '')" by code_simp
    obtain l ls where l: "splitOn (CHR ''.'') d = l # ls" by (cases "splitOn (CHR ''.'') d") auto
    have alnum: "l \<noteq> []" "lowerAlnum (hd l)" using c(1) l by (simp_all add: domainCanonicalCheck_def dnsLabel_def)
    have "d = joinWith ''.'' (l # ls)" using joinWith_splitOn [of "CHR ''.''" d] l by simp
    then have "hd l \<in> set d" using alnum(1) by (cases ls) simp_all
    moreover have "hd l \<noteq> CHR '' ''" using alnum(2) blank by metis
    ultimately show ?thesis using c(1) unfolding forwardHostCheck_def domainCanonicalCheck_def some_elem_iff by blast
  qed
  have ip: "forwardHostCheck (trim v)" if "ul_isIpv4 ul (trim v)"
    using laws that addresses_not_blank [of "trim v"] unfolding urlLaws_def forwardHostCheck_def by fastforce
  have six: "forwardHostCheck (inner g)" if "ul_hostname ul (''['' @ a @ '']'') = Some g" for a g
    using laws that addresses_not_blank [of "inner g"] unfolding urlLaws_def forwardHostCheck_def by fastforce
  from res dom ip six show ?thesis
    by (auto simp: normalizeForwardHost_def Let_def split: if_splits)
qed

lemma memberSchema_ok:
  assumes "urlLaws ul" "proxyUpstreamMemberSchema ul m = Some m'"
  shows "forwardHostCheck (um_host m') \<and> portOk (um_port m')"
  using assms normalizeForwardHost_check [OF assms(1)]
  by (auto simp: proxyUpstreamMemberSchema_def proxyForwardHostSchema_def split: option.splits if_splits)

lemma healthPath_check: "proxyUpstreamHealthPathSchema path \<Longrightarrow> healthPathCheck path"
  unfolding proxyUpstreamHealthPathSchema_def healthPathCheck_def some_elem_iff contains_iff by auto

lemma activeSchema_check: "proxyUpstreamActiveHealthSchema a \<Longrightarrow> activeCheck a"
  by (simp add: proxyUpstreamActiveHealthSchema_def activeCheck_def healthPath_check validateActiveHealth_def)

lemma passiveSchema_check: "proxyUpstreamPassiveHealthSchema p \<Longrightarrow> passiveCheck p"
  by (simp add: proxyUpstreamPassiveHealthSchema_def passiveCheck_def)

lemma failoverSchema_check:
  assumes fo: "whenPresent proxyUpstreamFailoverSchema (po_failover pool)" and re: "validatePoolRetries pool"
  shows "whenPresent (failoverCheck (po_policy pool)) (po_failover pool)"
proof (cases "po_failover pool")
  case (Some f)
  with fo have f: "whenPresent proxyUpstreamActiveHealthSchema (fo_active f)" "whenPresent proxyUpstreamPassiveHealthSchema (fo_passive f)"
    "whenPresent proxyUpstreamRetriesSchema (fo_retries f)" "validateFailover f"
    by (simp_all add: whenPresent_def proxyUpstreamFailoverSchema_def)
  have "whenPresent activeCheck (fo_active f)" "whenPresent passiveCheck (fo_passive f)"
    using f(1,2) activeSchema_check passiveSchema_check by (auto simp: whenPresent_def split: option.splits)
  moreover have "retriesCheck (po_policy pool) (fo_passive f) r" if r: "fo_retries f = Some r" for r
  proof -
    from f(4) r obtain p where p: "fo_passive f = Some p" by (auto simp: validateFailover_def)
    with re Some r have "po_policy pool \<noteq> FirstMember \<or> ry_maxRetries r \<ge> pv_maxFails p" by (auto simp: validatePoolRetries_def)
    with f(3) r p show ?thesis by (simp add: whenPresent_def proxyUpstreamRetriesSchema_def retriesCheck_def validateRetries_def)
  qed
  ultimately show ?thesis using f(4) Some by (auto simp: whenPresent_def failoverCheck_def validateFailover_def split: option.splits)
qed (simp add: whenPresent_def)

lemma poolSchema_check:
  assumes laws: "urlLaws ul" and res: "proxyUpstreamPoolSchema ul pool = Some parsed"
    and first: "validateUpstreamPoolPrimary (Some parsed) forwardHost forwardPort"
  shows "upstreamPoolCheck forwardHost forwardPort parsed"
proof -
  from res obtain ms where ms: "allSome (map (proxyUpstreamMemberSchema ul) (po_members pool)) = Some ms"
    and parsed: "parsed = pool\<lparr>po_members := ms\<rparr>" and some: "ms \<noteq> []" "length ms \<le> MAX_PROXY_UPSTREAM_MEMBERS"
    and fo: "whenPresent proxyUpstreamFailoverSchema (po_failover pool)" "validatePoolRetries parsed"
    by (auto simp: proxyUpstreamPoolSchema_def Let_def split: option.splits if_splits)
  have "um_host m \<noteq> [] \<and> portOk (um_port m)" if "m \<in> set ms" for m
  proof -
    from that ms have "Some m \<in> set (map (proxyUpstreamMemberSchema ul) (po_members pool))" by (simp add: allSome_Some)
    then obtain m0 where "proxyUpstreamMemberSchema ul m0 = Some m" by auto
    from memberSchema_ok [OF laws this] show ?thesis by (auto simp: forwardHostCheck_def)
  qed
  moreover have "um_host (hd ms) = forwardHost" "um_port (hd ms) = forwardPort"
    using first some(1) by (cases ms; simp add: validateUpstreamPoolPrimary_def parsed)+
  ultimately show ?thesis using some fo failoverSchema_check [of parsed]
    by (cases ms) (auto simp: upstreamPoolCheck_def parsed list_all_iff MAX_PROXY_UPSTREAM_MEMBERS_def)
qed

lemma domainsSchema_ok:
  assumes "urlLaws ul" "proxyHostDomainsSchema ul input = Some ds"
  shows "ds \<noteq> [] \<and> distinct ds \<and> (\<forall>d \<in> set ds. domainCanonicalCheck d)"
proof -
  from assms(2) have ds: "map (proxyDomainSchema ul) input = map Some ds" "ds \<noteq> []" "distinct ds"
    by (auto simp: proxyHostDomainsSchema_def allSome_Some split: option.splits if_splits)
  have "domainCanonicalCheck d" if "d \<in> set ds" for d
  proof -
    from that ds(1) have "Some d \<in> set (map (proxyDomainSchema ul) input)" by simp
    then obtain v where "proxyDomainSchema ul v = Some d" by auto
    then show ?thesis using normalizeProxyDomain_canonical [OF assms(1)] by (auto simp: proxyDomainSchema_def split: if_splits)
  qed
  with ds show ?thesis by blast
qed

end
