(* ===== verification/Certificates.thy ===== *)
theory Certificates
  imports UpstreamPools
begin

text \<open>
  The use of a certificate by a host: the metadata the controller reports
  (\<^verbatim>\<open>web/src/server/Controller/certificates.server.ts\<close>), its copy in the database
  (\<^verbatim>\<open>certificate-metadata.persistence.ts\<close>), and the check made when a host is saved or enabled
  (\<^verbatim>\<open>certificates.service.ts\<close>, \<^verbatim>\<open>certificateValidation.ts\<close>). Times are milliseconds; an optional and nullable
  field of the controller's answer is an option of an option, the outer \<^term>\<open>None\<close> an absent field.
\<close>

datatype stored_source = ManualCertificate | AcmeCertificate
datatype stored_status = PendingCertificate | ValidCertificate | FailedCertificate
datatype certificate_error = CertificateInvalidInput | CertificateNotFound | ControllerUnavailable | CertificateExpired
  | DomainMismatch | OtherCertificateError string

record certificate_candidate =
  cc_fingerprint :: string
  cc_issuedAt :: int
  cc_expiresAt :: int
  cc_lastErrorCode :: "string option"
  cc_nextAttemptAt :: "int option"

record certificate_row =
  ce_id :: string
  ce_source :: stored_source
  ce_environment :: "string option"
  ce_status :: stored_status
  ce_operation :: string
  ce_currentOperation :: "json option"
  ce_challengeType :: "string option"
  ce_issuedAt :: "int option"
  ce_expiresAt :: "int option"
  ce_issuer :: "string option"
  ce_fingerprint :: "string option"
  ce_candidate :: "certificate_candidate option"
  ce_dnsCleanupPending :: bool
  ce_lastErrorCode :: "string option"
  ce_lastActivatedAt :: "int option"
  ce_lastErrorAt :: "int option"
  ce_nextAttemptAt :: "int option"
  ce_attemptCount :: int
  ce_lastAttemptAt :: "int option"
  ce_lastSuccessAt :: "int option"
  ce_nextRenewalAt :: "int option"
  ce_controllerUpdatedAt :: "int option"
  ce_updatedAt :: int
  ce_domains :: "string list"

record certificate_metadata =
  cm_id :: string
  cm_source :: stored_source
  cm_environment :: "string option"
  cm_domains :: "string list"
  cm_status :: stored_status
  cm_operation :: string
  cm_currentOperation :: "json option option"
  cm_challengeType :: "string option option"
  cm_issuedAt :: "int option"
  cm_expiresAt :: "int option"
  cm_issuer :: "string option"
  cm_fingerprint :: "string option"
  cm_candidate :: "certificate_candidate option option"
  cm_dnsCleanupPending :: "bool option"
  cm_lastErrorCode :: "string option"
  cm_updatedAt :: int
  cm_nextAttemptAt :: "int option option"
  cm_attemptCount :: "int option"
  cm_lastAttemptAt :: "int option option"
  cm_lastSuccessAt :: "int option option"
  cm_nextRenewalAt :: "int option option"
  cm_lastActivatedAt :: "int option option"
  cm_lastErrorAt :: "int option option"

section \<open>Domains of a certificate\<close>

definition certificateDomainCovers :: "string \<Rightarrow> string \<Rightarrow> bool" where
  "certificateDomainCovers canonical domain =
     (if \<not> startsWith ''*.'' domain then domain = canonical
      else
        let ending = tl domain in
        if \<not> endsWith ending canonical then False
        else
          let label = take (length canonical - length ending) canonical in
          label \<noteq> [] \<and> \<not> contains label (CHR ''.''))"

definition certificateCoversDomains :: "url_lib \<Rightarrow> string list \<Rightarrow> string list \<Rightarrow> bool" where
  "certificateCoversDomains ul certificateDomains hostDomains \<longleftrightarrow>
     length hostDomains > 0 \<and>
     list_all (\<lambda>host. case normalizeProxyDomain ul host of
         None \<Rightarrow> False
       | Some canonical \<Rightarrow> some_elem (certificateDomainCovers canonical) certificateDomains) hostDomains"

section \<open>Metadata of the controller\<close>

text \<open>
  The rules across fields of the answer; the argument \<^verbatim>\<open>controller\<close> is the request, its result an error code or the
  decoded metadata.
\<close>

type_synonym controller_answer = "string \<Rightarrow> certificate_error + certificate_metadata"

definition certificateMetadataSchema :: "certificate_metadata \<Rightarrow> bool" where
  "certificateMetadataSchema m \<longleftrightarrow>
     \<not> (cm_source m = ManualCertificate \<and> cm_environment m \<noteq> None) \<and> \<not> (cm_source m = AcmeCertificate \<and> cm_environment m = None) \<and>
     (cm_status m = ValidCertificate \<longrightarrow>
       cm_fingerprint m \<noteq> None \<and> cm_domains m \<noteq> [] \<and>
       (case (cm_issuedAt m, cm_expiresAt m) of (Some a, Some b) \<Rightarrow> a < b | _ \<Rightarrow> False)) \<and>
     (case cm_candidate m of Some (Some c) \<Rightarrow> cc_issuedAt c < cc_expiresAt c | _ \<Rightarrow> True)"

definition getControllerCertificate :: "controller_answer \<Rightarrow> string \<Rightarrow> certificate_error + certificate_metadata" where
  "getControllerCertificate controller certificateId =
     andThen (controller (toLowerCase certificateId)) (\<lambda>m.
       if certificateMetadataSchema m \<and> cm_id m = toLowerCase certificateId then Inr m else Inl ControllerUnavailable)"

section \<open>The copy in the database\<close>

definition getCertificateRow :: "certificate_row list \<Rightarrow> string \<Rightarrow> certificate_error + certificate_row" where
  "getCertificateRow rows certificateId =
     (case find (\<lambda>c. ce_id c = toLowerCase certificateId) rows of None \<Rightarrow> Inl CertificateNotFound | Some c \<Rightarrow> Inr c)"

definition sortedSet :: "string list \<Rightarrow> string list" where
  "sortedSet xs = sort (remdups xs)"

text \<open>An absent field keeps the stored value.\<close>

definition kept :: "'a \<Rightarrow> 'a option \<Rightarrow> 'a" where
  "kept old new = (case new of None \<Rightarrow> old | Some v \<Rightarrow> v)"

definition withMetadata :: "certificate_metadata \<Rightarrow> certificate_row \<Rightarrow> certificate_row" where
  "withMetadata m row = row\<lparr>
     ce_status := cm_status m, ce_operation := cm_operation m, ce_issuedAt := cm_issuedAt m, ce_expiresAt := cm_expiresAt m,
     ce_issuer := cm_issuer m, ce_fingerprint := cm_fingerprint m,
     ce_candidate := kept (ce_candidate row) (cm_candidate m),
     ce_currentOperation := kept (ce_currentOperation row) (cm_currentOperation m),
     ce_challengeType := kept (ce_challengeType row) (cm_challengeType m),
     ce_dnsCleanupPending := kept (ce_dnsCleanupPending row) (cm_dnsCleanupPending m),
     ce_lastErrorCode := cm_lastErrorCode m,
     ce_lastActivatedAt := kept (ce_lastActivatedAt row) (cm_lastActivatedAt m),
     ce_lastErrorAt := kept (ce_lastErrorAt row) (cm_lastErrorAt m),
     ce_nextAttemptAt := kept (ce_nextAttemptAt row) (cm_nextAttemptAt m),
     ce_attemptCount := kept (ce_attemptCount row) (cm_attemptCount m),
     ce_lastAttemptAt := kept (ce_lastAttemptAt row) (cm_lastAttemptAt m),
     ce_lastSuccessAt := kept (ce_lastSuccessAt row) (cm_lastSuccessAt m),
     ce_nextRenewalAt := kept (ce_nextRenewalAt row) (cm_nextRenewalAt m),
     ce_controllerUpdatedAt := Some (cm_updatedAt m),
     ce_domains := sortedSet (cm_domains m)\<rparr>"

definition persistControllerMetadata :: "certificate_metadata \<Rightarrow> bool \<Rightarrow> int \<Rightarrow> certificate_row list \<Rightarrow>
    certificate_error + certificate_row list" where
  "persistControllerMetadata m guardControllerTimestamp now rows =
     andThen (getCertificateRow rows (cm_id m)) (\<lambda>row.
       if ce_source row \<noteq> cm_source m \<or> ce_environment row \<noteq> cm_environment m then Inl ControllerUnavailable
       else if guardControllerTimestamp \<and>
         (case ce_controllerUpdatedAt row of None \<Rightarrow> False | Some t \<Rightarrow> cm_updatedAt m \<le> t) then Inr rows
       else if withMetadata m row = row then Inr rows
       else Inr (map (\<lambda>c. if ce_id c = ce_id row then withMetadata m row\<lparr>ce_updatedAt := now\<rparr> else c) rows))"

section \<open>Use by a host\<close>

definition validateCertificateAssignmentInTransaction :: "url_lib \<Rightarrow> controller_answer \<Rightarrow> string option \<Rightarrow> bool \<Rightarrow>
    string list \<Rightarrow> bool \<Rightarrow> int \<Rightarrow> certificate_row list \<Rightarrow> certificate_error + certificate_row list" where
  "validateCertificateAssignmentInTransaction ul controller certificateId forceHttps domains persistMetadata now rows =
     (case certificateId of
        None \<Rightarrow> if forceHttps then Inl CertificateInvalidInput else Inr rows
      | Some i \<Rightarrow>
          andThen (getCertificateRow rows i) (\<lambda>certificate.
          andThen (getControllerCertificate controller i) (\<lambda>m.
          if ce_source certificate \<noteq> cm_source m \<or> ce_environment certificate \<noteq> cm_environment m
          then Inl ControllerUnavailable
          else if cm_status m \<noteq> ValidCertificate \<or>
            \<not> (case (cm_issuedAt m, cm_expiresAt m) of (Some a, Some b) \<Rightarrow> a \<le> now \<and> now < b | _ \<Rightarrow> False)
          then Inl CertificateExpired
          else if \<not> certificateCoversDomains ul (cm_domains m) domains then Inl DomainMismatch
          else if persistMetadata then persistControllerMetadata m False now rows else Inr rows)))"

section \<open>What an accepted certificate is\<close>

lemma withMetadata_id [simp]: "ce_id (withMetadata m row) = ce_id row"
  by (simp add: withMetadata_def)

lemma getCertificateRow_found: "getCertificateRow rows i = Inr row \<Longrightarrow> row \<in> set rows \<and> ce_id row = toLowerCase i"
  by (auto simp: getCertificateRow_def find_Some_iff split: option.splits)

lemma persist_ids:
  assumes "persistControllerMetadata m g now rows = Inr rows'"
  shows "map ce_id rows' = map ce_id rows"
  using assms by (auto simp: persistControllerMetadata_def andThen_Inr_iff split: if_splits option.splits)

lemma validate_ids:
  assumes "validateCertificateAssignmentInTransaction ul controller certificateId forceHttps domains persist now rows = Inr rows'"
  shows "map ce_id rows' = map ce_id rows"
  using assms persist_ids
  by (auto simp: validateCertificateAssignmentInTransaction_def andThen_Inr_iff split: option.splits if_splits)

text \<open>
  A certificate a host was saved with is known, in its period of validity, and one of its names covers each domain of
  the host: the name itself, or a wildcard with exactly one label in front.
\<close>

definition certificateServes :: "url_lib \<Rightarrow> controller_answer \<Rightarrow> int \<Rightarrow> string \<Rightarrow> string list \<Rightarrow> bool" where
  "certificateServes ul controller now i domains \<longleftrightarrow>
     (\<exists>m a b. getControllerCertificate controller i = Inr m \<and> cm_status m = ValidCertificate \<and>
       cm_issuedAt m = Some a \<and> cm_expiresAt m = Some b \<and> a \<le> now \<and> now < b \<and>
       certificateCoversDomains ul (cm_domains m) domains)"

lemma validated_certificate:
  assumes "validateCertificateAssignmentInTransaction ul controller certificateId forceHttps domains persist now rows = Inr rows'"
  shows "(forceHttps \<longrightarrow> certificateId \<noteq> None) \<and>
    (\<forall>i. certificateId = Some i \<longrightarrow> toLowerCase i \<in> ce_id ` set rows \<and> certificateServes ul controller now i domains)"
proof (cases certificateId)
  case (Some i)
  with assms obtain row m where row: "getCertificateRow rows i = Inr row" and m: "getControllerCertificate controller i = Inr m"
    and valid: "cm_status m = ValidCertificate" "case (cm_issuedAt m, cm_expiresAt m) of (Some a, Some b) \<Rightarrow> a \<le> now \<and> now < b | _ \<Rightarrow> False"
    and covers: "certificateCoversDomains ul (cm_domains m) domains"
    by (auto simp: validateCertificateAssignmentInTransaction_def andThen_Inr_iff split: if_splits)
  from getCertificateRow_found [OF row] have "toLowerCase i \<in> ce_id ` set rows" by force
  moreover have "certificateServes ul controller now i domains"
    using m valid covers by (auto simp: certificateServes_def split: option.splits)
  ultimately show ?thesis using Some by simp
qed (use assms in \<open>auto simp: validateCertificateAssignmentInTransaction_def split: if_splits\<close>)

lemma covers_meaning:
  assumes "certificateDomainCovers d c"
  shows "d = c \<or> (\<exists>label ending. c = ''*.'' @ ending \<and> d = label @ ''.'' @ ending \<and> label \<noteq> [] \<and> CHR ''.'' \<notin> set label)"
proof (cases "startsWith ''*.'' c")
  case True
  then obtain e where c: "c = ''*.'' @ e" by (metis append_take_drop_id startsWith_def)
  from assms True c have suffix: "endsWith (''.'' @ e) d" and label: "take (length d - Suc (length e)) d \<noteq> []"
      "CHR ''.'' \<notin> set (take (length d - Suc (length e)) d)"
    by (auto simp: certificateDomainCovers_def Let_def split: if_splits)
  from suffix have "d = take (length d - Suc (length e)) d @ ''.'' @ e"
    by (simp add: endsWith_def) (metis append_take_drop_id)
  with c label show ?thesis by blast
qed (use assms in \<open>simp add: certificateDomainCovers_def\<close>)

end
