(* ===== verification/HostTags.thy ===== *)
theory HostTags
  imports JsLib "HOL-Library.AList"
begin

text \<open>
  The labels of hosts, \<^verbatim>\<open>web/src/lib/HostTags/hostTags.ts\<close>: one document per kind of host with the labels and their
  assignment, changed under a revision. The normal form of a label's name (Unicode normalization) and the uuid check of
  the schema library are arguments, as is the order of labels by their name in the language of the server.
\<close>

section \<open>Documents\<close>

definition DEFAULT_HOST_TAG_COLOR :: string where "DEFAULT_HOST_TAG_COLOR = ''#30ee61''"
definition LIMIT_tags :: nat where "LIMIT_tags = 200"
definition LIMIT_tagsPerHost :: nat where "LIMIT_tagsPerHost = 20"

record host_tag =
  tg_id :: string
  tg_name :: string
  tg_color :: "string option"

record host_tag_state =
  gs_revision :: int
  gs_tags :: "host_tag list"
  gs_assignments :: "(string \<times> string list) list"

record tag_formats =
  tn_isUuid :: "string \<Rightarrow> bool"
  tn_name :: "string \<Rightarrow> string option"
  tn_byName :: "host_tag list \<Rightarrow> host_tag list"

datatype host_tag_error = TagDuplicate | TagMissing | TagConflict | TagLimit | TagInvalid

definition hostTagColorSchema :: "string \<Rightarrow> string option" where
  "hostTagColorSchema value =
     (if length value = 7 \<and> hd value = CHR ''#'' \<and> list_all isHex (tl value) then Some (toLowerCase value) else None)"

definition hostTagIdsSchema :: "tag_formats \<Rightarrow> string list \<Rightarrow> string list option" where
  "hostTagIdsSchema tf ids =
     (if list_all (tn_isUuid tf) ids \<and> length ids \<le> LIMIT_tagsPerHost \<and> distinct (map toLowerCase ids)
      then Some (map toLowerCase ids) else None)"

text \<open>The check of a document when it is read and written.\<close>

definition hostTagSchema :: "tag_formats \<Rightarrow> host_tag \<Rightarrow> bool" where
  "hostTagSchema tf t \<longleftrightarrow> tn_isUuid tf (tg_id t) \<and> toLowerCase (tg_id t) = tg_id t \<and> tn_name tf (tg_name t) = Some (tg_name t) \<and>
     (case tg_color t of None \<Rightarrow> True | Some c \<Rightarrow> hostTagColorSchema c = Some c)"

definition assignedIds :: "host_tag_state \<Rightarrow> string \<Rightarrow> string list" where
  "assignedIds st hostId = (case map_of (gs_assignments st) hostId of None \<Rightarrow> [] | Some ids \<Rightarrow> ids)"

definition hostTagStateSchema :: "tag_formats \<Rightarrow> host_tag_state \<Rightarrow> bool" where
  "hostTagStateSchema tf st \<longleftrightarrow>
     0 \<le> gs_revision st \<and> isSafeInteger (gs_revision st) \<and> length (gs_tags st) \<le> LIMIT_tags \<and>
     list_all (hostTagSchema tf) (gs_tags st) \<and>
     list_all (\<lambda>(h, ids). tn_isUuid tf h \<and> hostTagIdsSchema tf ids = Some ids \<and>
       list_all (contains (map tg_id (gs_tags st))) ids) (gs_assignments st) \<and>
     distinct (map tg_id (gs_tags st)) \<and> distinct (map (\<lambda>t. toLowerCase (tg_name t)) (gs_tags st))"

definition emptyHostTagState :: host_tag_state where
  "emptyHostTagState = \<lparr>gs_revision = 0, gs_tags = [], gs_assignments = []\<rparr>"

definition tagsForHost :: "tag_formats \<Rightarrow> host_tag_state \<Rightarrow> string \<Rightarrow> host_tag list" where
  "tagsForHost tf st hostId = tn_byName tf (filter (\<lambda>t. contains (assignedIds st hostId) (tg_id t)) (gs_tags st))"

section \<open>Changes\<close>

definition assignHostTags :: "tag_formats \<Rightarrow> host_tag_state \<Rightarrow> string \<Rightarrow> string list \<Rightarrow> host_tag_error + host_tag_state" where
  "assignHostTags tf st hostId input =
     (case hostTagIdsSchema tf input of
        None \<Rightarrow> Inl TagInvalid
      | Some parsed \<Rightarrow>
          let tagIds = sort parsed in
          if some_elem (\<lambda>i. \<not> some_elem (\<lambda>t. tg_id t = i) (gs_tags st)) tagIds then Inl TagMissing
          else if tagIds = sort (assignedIds st hostId) then Inr st
          else Inr (st\<lparr>gs_assignments := (if tagIds \<noteq> [] then AList.update hostId tagIds (gs_assignments st)
              else filter (\<lambda>e. fst e \<noteq> hostId) (gs_assignments st)),
            gs_revision := gs_revision st + 1\<rparr>))"

datatype host_tag_action = CreateTag string "string option" | RenameTag string string "string option" | DeleteTag string
  | AssignTags string "string list" "string list"

definition nameTaken :: "host_tag_state \<Rightarrow> string \<Rightarrow> string option \<Rightarrow> bool" where
  "nameTaken st name except =
     some_elem (\<lambda>t. toLowerCase (tg_name t) = toLowerCase name \<and> Some (tg_id t) \<noteq> except) (gs_tags st)"

definition parsedColor :: "string option \<Rightarrow> host_tag_error + string option" where
  "parsedColor color = (case color of None \<Rightarrow> Inr None
     | Some c \<Rightarrow> (case hostTagColorSchema c of None \<Rightarrow> Inl TagInvalid | Some d \<Rightarrow> Inr (Some d)))"

definition mutateHostTags :: "tag_formats \<Rightarrow> host_tag_state \<Rightarrow> int \<Rightarrow> host_tag_action \<Rightarrow> string \<Rightarrow> host_tag_error + host_tag_state" where
  "mutateHostTags tf st expectedRevision action newId =
     (if gs_revision st \<noteq> expectedRevision then Inl TagConflict
      else (case action of
          AssignTags hostId tagIds expectedTagIds \<Rightarrow>
            if sort expectedTagIds \<noteq> sort (assignedIds st hostId) then Inl TagConflict
            else assignHostTags tf st hostId tagIds
        | CreateTag input color \<Rightarrow>
            (case tn_name tf input of
               None \<Rightarrow> Inl TagInvalid
             | Some name \<Rightarrow> andThen (parsedColor color) (\<lambda>c.
                 if nameTaken st name None then Inl TagDuplicate
                 else if length (gs_tags st) \<ge> LIMIT_tags then Inl TagLimit
                 else Inr (st\<lparr>gs_revision := gs_revision st + 1,
                   gs_tags := gs_tags st @ [\<lparr>tg_id = newId, tg_name = name,
                     tg_color = Some (case c of None \<Rightarrow> DEFAULT_HOST_TAG_COLOR | Some d \<Rightarrow> d)\<rparr>]\<rparr>)))
        | RenameTag tagId input color \<Rightarrow>
            (case tn_name tf input of
               None \<Rightarrow> Inl TagInvalid
             | Some name \<Rightarrow> andThen (parsedColor color) (\<lambda>c.
                 if nameTaken st name (Some tagId) then Inl TagDuplicate
                 else if \<not> some_elem (\<lambda>t. tg_id t = tagId) (gs_tags st) then Inl TagMissing
                 else Inr (st\<lparr>gs_revision := gs_revision st + 1,
                   gs_tags := map (\<lambda>t. if tg_id t = tagId
                     then t\<lparr>tg_name := name, tg_color := (case c of None \<Rightarrow> tg_color t | Some d \<Rightarrow> Some d)\<rparr> else t) (gs_tags st)\<rparr>)))
        | DeleteTag tagId \<Rightarrow>
            if \<not> some_elem (\<lambda>t. tg_id t = tagId) (gs_tags st) then Inl TagMissing
            else Inr (st\<lparr>gs_revision := gs_revision st + 1,
              gs_assignments := filter (\<lambda>e. snd e \<noteq> [])
                (map (\<lambda>(h, ids). (h, filter (\<lambda>i. i \<noteq> tagId) ids)) (gs_assignments st)),
              gs_tags := filter (\<lambda>t. tg_id t \<noteq> tagId) (gs_tags st)\<rparr>)))"

section \<open>Documents stay valid\<close>

text \<open>
  The rules of the schema over all hosts, apart from the bound of the revision, and what the code relies on: a name in
  normal form is its own normal form, and a new identifier is a lower case uuid no label has.
\<close>

definition assignmentOk :: "tag_formats \<Rightarrow> host_tag_state \<Rightarrow> string \<times> string list \<Rightarrow> bool" where
  "assignmentOk tf st e \<longleftrightarrow> tn_isUuid tf (fst e) \<and> distinct (snd e) \<and> length (snd e) \<le> LIMIT_tagsPerHost \<and>
     set (snd e) \<subseteq> tg_id ` set (gs_tags st)"

definition tagsOk :: "tag_formats \<Rightarrow> host_tag_state \<Rightarrow> bool" where
  "tagsOk tf st \<longleftrightarrow> 0 \<le> gs_revision st \<and> length (gs_tags st) \<le> LIMIT_tags \<and> (\<forall>t \<in> set (gs_tags st). hostTagSchema tf t) \<and>
     (\<forall>e \<in> set (gs_assignments st). assignmentOk tf st e) \<and> distinct (map fst (gs_assignments st)) \<and>
     distinct (map tg_id (gs_tags st)) \<and> distinct (map (\<lambda>t. toLowerCase (tg_name t)) (gs_tags st))"

lemma tagsOk_schema:
  assumes "tagsOk tf st" "isSafeInteger (gs_revision st)"
  shows "hostTagStateSchema tf st"
proof -
  have "hostTagIdsSchema tf (snd e) = Some (snd e) \<and> list_all (contains (map tg_id (gs_tags st))) (snd e)"
    if e: "e \<in> set (gs_assignments st)" for e
  proof -
    from e assms(1) have ok: "assignmentOk tf st e" by (simp add: tagsOk_def)
    then have ids: "tn_isUuid tf i \<and> toLowerCase i = i" if "i \<in> set (snd e)" for i
      using that assms(1) unfolding tagsOk_def hostTagSchema_def assignmentOk_def by blast
    from ok ids show ?thesis by (auto simp: hostTagIdsSchema_def assignmentOk_def list_all_iff map_idI)
  qed
  then show ?thesis using assms by (auto simp: hostTagStateSchema_def tagsOk_def list_all_iff assignmentOk_def)
qed

lemma lowerChar_idem [simp]: "lowerChar (lowerChar c) = lowerChar c"
proof (cases "(65 \<le> (of_char c :: nat) \<and> (of_char c :: nat) \<le> 90) \<or>
    (192 \<le> (of_char c :: nat) \<and> (of_char c :: nat) \<le> 222 \<and> (of_char c :: nat) \<noteq> 215)")
  case True
  then have "(of_char c :: nat) + 32 < 256" by linarith
  then have "(of_char (char_of ((of_char c :: nat) + 32) :: char) :: nat) = of_char c + 32" by (simp add: of_char_of)
  with True show ?thesis by (auto simp: lowerChar_def Let_def)
next
  case False
  then have "lowerChar c = c" unfolding lowerChar_def Let_def by (rule if_not_P)
  then show ?thesis by simp
qed

lemma lower_idem [simp]: "toLowerCase (toLowerCase s) = toLowerCase s"
  by (simp add: toLowerCase_def)

lemma color_stable: "hostTagColorSchema c = Some d \<Longrightarrow> hostTagColorSchema d = Some d"
proof -
  assume c: "hostTagColorSchema c = Some d"
  have "isHex (lowerChar x)" if "isHex x" for x
    using that by (auto simp: isHex_def isDigit_def lowerChar_def Let_def of_char_of)
  moreover have "lowerChar (CHR ''#'') = CHR ''#''" by code_simp
  ultimately show ?thesis using c
    by (cases c) (auto simp: hostTagColorSchema_def list_all_iff toLowerCase_def split: if_splits)
qed

lemma tagsOk_empty: "tagsOk tf emptyHostTagState"
  by (simp add: tagsOk_def emptyHostTagState_def)

lemma set_alist_update: "set (AList.update k v al) \<subseteq> insert (k, v) (set al)"
  by (induction al) auto

lemma assignHostTags_ok:
  assumes ok: "tagsOk tf st" and uuid: "tn_isUuid tf hostId" and res: "assignHostTags tf st hostId input = Inr st'"
  shows "tagsOk tf st'"
proof (cases "st' = st")
  case False
  from res obtain ids where ids: "hostTagIdsSchema tf input = Some ids" by (auto simp: assignHostTags_def split: option.splits)
  then have d: "distinct ids" "length ids \<le> LIMIT_tagsPerHost" by (auto simp: hostTagIdsSchema_def split: if_splits)
  let ?as = "if sort ids \<noteq> [] then AList.update hostId (sort ids) (gs_assignments st)
    else filter (\<lambda>e. fst e \<noteq> hostId) (gs_assignments st)"
  from res False ids have known: "set ids \<subseteq> tg_id ` set (gs_tags st)"
    and st': "st' = st\<lparr>gs_assignments := ?as, gs_revision := gs_revision st + 1\<rparr>"
    by (auto simp: assignHostTags_def Let_def split: if_splits)
  have "set ?as \<subseteq> insert (hostId, sort ids) (set (gs_assignments st))"
    using set_alist_update [of hostId "sort ids" "gs_assignments st"] by auto
  moreover have "assignmentOk tf st' (hostId, sort ids)" using uuid d known by (simp add: assignmentOk_def st')
  moreover have "assignmentOk tf st' e" if "e \<in> set (gs_assignments st)" for e
    using that ok by (auto simp: tagsOk_def assignmentOk_def st')
  moreover have "distinct (map fst ?as)" using ok by (auto simp: tagsOk_def distinct_map_filter distinct_update)
  ultimately show ?thesis using ok by (auto simp: tagsOk_def st')
qed (simp add: ok)

lemma nameTaken_free:
  assumes "\<not> nameTaken st name except" "t \<in> set (gs_tags st)" "Some (tg_id t) \<noteq> except"
  shows "toLowerCase (tg_name t) \<noteq> toLowerCase name"
  using assms by (auto simp: nameTaken_def)

lemma parsedColor_ok: "parsedColor color = Inr (Some d) \<Longrightarrow> hostTagColorSchema d = Some d"
  by (auto simp: parsedColor_def color_stable split: option.splits)

lemma defaultColor_ok: "hostTagColorSchema DEFAULT_HOST_TAG_COLOR = Some DEFAULT_HOST_TAG_COLOR"
  unfolding DEFAULT_HOST_TAG_COLOR_def by code_simp

lemma distinct_map_changed:
  assumes "distinct (map f xs)" "distinct (map g xs)"
    and "\<And>x y. x \<in> set xs \<Longrightarrow> y \<in> set xs \<Longrightarrow> f x = i \<Longrightarrow> f y \<noteq> i \<Longrightarrow> g (h x) \<noteq> g y"
  shows "distinct (map g (map (\<lambda>x. if f x = i then h x else x) xs))"
  using assms
proof (induction xs)
  case (Cons a xs)
  have "g (if f a = i then h a else a) \<noteq> g (if f x = i then h x else x)" if "x \<in> set xs" for x
  proof -
    have "f a \<noteq> f x" "g a \<noteq> g x" using that Cons.prems(1,2) by auto
    then show ?thesis using Cons.prems(3) [of a x] Cons.prems(3) [of x a] that by auto
  qed
  then have "g (if f a = i then h a else a) \<notin> set (map g (map (\<lambda>x. if f x = i then h x else x) xs))"
    unfolding set_map by blast
  moreover have "distinct (map g (map (\<lambda>x. if f x = i then h x else x) xs))"
    using Cons.prems by (intro Cons.IH) simp_all
  ultimately show ?case unfolding list.map distinct.simps by (intro conjI)
qed simp

theorem mutateHostTags_ok:
  assumes ok: "tagsOk tf st" and res: "mutateHostTags tf st expectedRevision action newId = Inr st'"
    and stable: "\<And>n m. tn_name tf n = Some m \<Longrightarrow> tn_name tf m = Some m"
    and new: "tn_isUuid tf newId" "toLowerCase newId = newId" "newId \<notin> tg_id ` set (gs_tags st)"
    and assigned: "\<And>h is es. action = AssignTags h is es \<Longrightarrow> tn_isUuid tf h"
  shows "tagsOk tf st'"
proof (cases action)
  case (CreateTag input color)
  with res obtain name c where name: "tn_name tf input = Some name" and c: "parsedColor color = Inr c"
    and free: "\<not> nameTaken st name None" and few: "length (gs_tags st) < LIMIT_tags"
    and st': "st' = st\<lparr>gs_revision := gs_revision st + 1, gs_tags := gs_tags st @ [\<lparr>tg_id = newId, tg_name = name,
      tg_color = Some (case c of None \<Rightarrow> DEFAULT_HOST_TAG_COLOR | Some d \<Rightarrow> d)\<rparr>]\<rparr>"
    by (auto simp: mutateHostTags_def andThen_Inr_iff split: if_splits option.splits)
  have "hostTagSchema tf \<lparr>tg_id = newId, tg_name = name, tg_color = Some (case c of None \<Rightarrow> DEFAULT_HOST_TAG_COLOR | Some d \<Rightarrow> d)\<rparr>"
    using new stable [OF name] c by (auto simp: hostTagSchema_def defaultColor_ok dest: parsedColor_ok split: option.splits)
  moreover have "\<forall>e \<in> set (gs_assignments st'). assignmentOk tf st' e" using ok by (auto simp: tagsOk_def assignmentOk_def st')
  ultimately show ?thesis using ok few new(3) nameTaken_free [OF free]
    unfolding tagsOk_def by (fastforce simp: st')
next
  case (RenameTag tagId input color)
  with res obtain name c where name: "tn_name tf input = Some name" and c: "parsedColor color = Inr c"
    and free: "\<not> nameTaken st name (Some tagId)"
    and st': "st' = st\<lparr>gs_revision := gs_revision st + 1, gs_tags := map (\<lambda>t. if tg_id t = tagId
      then t\<lparr>tg_name := name, tg_color := (case c of None \<Rightarrow> tg_color t | Some d \<Rightarrow> Some d)\<rparr> else t) (gs_tags st)\<rparr>"
    by (auto simp: mutateHostTags_def andThen_Inr_iff split: if_splits option.splits)
  let ?h = "\<lambda>t. t\<lparr>tg_name := name, tg_color := (case c of None \<Rightarrow> tg_color t | Some d \<Rightarrow> Some d)\<rparr>"
  have each: "hostTagSchema tf (?h t)" if "hostTagSchema tf t" for t
    using that stable [OF name] c by (auto simp: hostTagSchema_def dest: parsedColor_ok split: option.splits)
  have ids: "map tg_id (gs_tags st') = map tg_id (gs_tags st)" by (simp add: st')
  have "tg_id ` set (gs_tags st') = tg_id ` set (gs_tags st)" using ids by (metis list.set_map)
  then have "\<forall>e \<in> set (gs_assignments st). assignmentOk tf st' e" using ok by (simp add: tagsOk_def assignmentOk_def)
  moreover have "\<forall>t \<in> set (gs_tags st'). hostTagSchema tf t" using ok each by (auto simp: tagsOk_def st')
  moreover have "distinct (map (\<lambda>t. toLowerCase (tg_name t)) (gs_tags st'))"
  proof -
    have t: "gs_tags st' = map (\<lambda>t. if tg_id t = tagId then ?h t else t) (gs_tags st)" by (simp add: st')
    show ?thesis unfolding t
    proof (rule distinct_map_changed)
      fix x y assume "x \<in> set (gs_tags st)" "y \<in> set (gs_tags st)" "tg_id x = tagId" "tg_id y \<noteq> tagId"
      then show "toLowerCase (tg_name (?h x)) \<noteq> toLowerCase (tg_name y)"
        using nameTaken_free [OF free, of y] by auto
    qed (use ok in \<open>auto simp: tagsOk_def\<close>)
  qed
  moreover have "gs_revision st' = gs_revision st + 1" "length (gs_tags st') = length (gs_tags st)"
    "gs_assignments st' = gs_assignments st" by (simp_all add: st')
  ultimately show ?thesis using ok ids unfolding tagsOk_def by simp
next
  case (DeleteTag tagId)
  let ?as = "filter (\<lambda>e. snd e \<noteq> []) (map (\<lambda>(h, ids). (h, filter (\<lambda>i. i \<noteq> tagId) ids)) (gs_assignments st))"
  from DeleteTag res have st': "st' = st\<lparr>gs_revision := gs_revision st + 1, gs_assignments := ?as,
      gs_tags := filter (\<lambda>t. tg_id t \<noteq> tagId) (gs_tags st)\<rparr>"
    by (auto simp: mutateHostTags_def split: if_splits)
  have "assignmentOk tf st' (h, filter (\<lambda>i. i \<noteq> tagId) ids)" if e: "(h, ids) \<in> set (gs_assignments st)" for h ids
  proof -
    from e ok have a: "assignmentOk tf st (h, ids)" by (simp add: tagsOk_def)
    then have "length (filter (\<lambda>i. i \<noteq> tagId) ids) \<le> LIMIT_tagsPerHost"
      by (intro le_trans [OF length_filter_le]) (simp add: assignmentOk_def)
    moreover have "set (filter (\<lambda>i. i \<noteq> tagId) ids) \<subseteq> tg_id ` set (gs_tags st')" using a by (auto simp: assignmentOk_def st')
    ultimately show ?thesis using a by (simp add: assignmentOk_def)
  qed
  then have "\<forall>e \<in> set ?as. assignmentOk tf st' e" by auto
  moreover have "map fst (map (\<lambda>(h, ids). (h, filter (\<lambda>i. i \<noteq> tagId) ids)) (gs_assignments st)) = map fst (gs_assignments st)"
    by (induction "gs_assignments st") auto
  then have "distinct (map fst ?as)" using ok by (metis distinct_map_filter tagsOk_def)
  moreover have "length (filter (\<lambda>t. tg_id t \<noteq> tagId) (gs_tags st)) \<le> LIMIT_tags"
    using ok le_trans [OF length_filter_le] by (auto simp: tagsOk_def)
  ultimately show ?thesis using ok unfolding tagsOk_def by (simp add: st' distinct_map_filter)
next
  case (AssignTags hostId tagIds expectedTagIds)
  with res assigned assignHostTags_ok [OF ok] show ?thesis by (auto simp: mutateHostTags_def split: if_splits)
qed

end
