(* ===== verification/HostStore.thy ===== *)
theory HostStore
  imports Certificates HostTags MonitoringSystem IdentityServices
begin

text \<open>
  The tables behind the hosts of the proxy (\<^verbatim>\<open>web/src/db/Schema/proxyHosts.ts\<close>) and what the services keep beside them in
  the system settings: HTTP settings and response cache of a host (\<^verbatim>\<open>proxy-runtime-settings.ts\<close>), labels
  (\<^verbatim>\<open>host-tags.storage.server.ts\<close>) and the hosts that belong to Docker discovery (\<^verbatim>\<open>discovery-storage.server.ts\<close>). An
  insert or update runs the constraints of its table. Identifiers are UUID columns: the database compares them without
  regard to case, the rows hold them in lower case.
\<close>

section \<open>Rows\<close>

datatype forward_scheme = HttpScheme | HttpsScheme
datatype compression = CompressionAuto | CompressionOff

record proxy_host_row =
  ph_id :: string
  ph_forwardScheme :: forward_scheme
  ph_forwardHost :: string
  ph_forwardPort :: int
  ph_upstreamPool :: "upstream_pool option"
  ph_enabled :: bool
  ph_certificateId :: "string option"
  ph_forceHttps :: bool
  ph_verifyUpstreamTls :: bool
  ph_upstreamTlsServerName :: "string option"
  ph_trustedCaId :: "string option"
  ph_accessPolicyId :: "string option"
  ph_createdAt :: int
  ph_updatedAt :: int

record redirect_host_row =
  rh_id :: string
  rh_destination :: string
  rh_statusCode :: int
  rh_preserveRequestUri :: bool
  rh_enabled :: bool
  rh_certificateId :: "string option"
  rh_createdAt :: int
  rh_updatedAt :: int

record domain_row =
  dr_domain :: string
  dr_proxyHostId :: "string option"
  dr_redirectHostId :: "string option"

record host_http_settings =
  hh_responseCompression :: "compression option"
  hh_browserCache :: "browser_cache option"
  hh_clientMaxBodySizeBytes :: "int option"
  hh_proxyConnectTimeoutSeconds :: "int option"
  hh_proxyReadTimeoutSeconds :: "int option"
  hh_proxySendTimeoutSeconds :: "int option"

record stored_host_settings =
  sh_httpSettings :: host_http_settings
  sh_responseCache :: "response_cache option"

datatype discovery_state = ManagedHost | OrphanedHost | DetachedHost

record discovery_owner =
  ow_key :: string
  ow_hostId :: string
  ow_state :: discovery_state

datatype host_kind = ProxyKind | RedirectKind

record host_db =
  hb_proxyHosts :: "proxy_host_row list"
  hb_redirectHosts :: "redirect_host_row list"
  hb_domains :: "domain_row list"
  hb_runtimeRow :: bool
  hb_settings :: "string \<Rightarrow> stored_host_settings option"
  hb_tags :: "host_kind \<Rightarrow> host_tag_state option"
  hb_discovery :: "discovery_owner list"
  hb_certificates :: "certificate_row list"
  hb_trustedCas :: "string list"
  hb_accessPolicies :: "string list"
  hb_identity :: identity_db
  hb_monitoring :: proxy_db
  hb_nextId :: nat

text \<open>
  What the code is given: the URL parser, the formats of labels, identifiers of new rows, the answer of the controller
  and the environment of the monitoring transactions.
\<close>

record host_env =
  hv_urls :: url_lib
  hv_tags :: tag_formats
  hv_isUuidv7 :: "string \<Rightarrow> bool"
  hv_newId :: "nat \<Rightarrow> string"
  hv_controller :: controller_answer
  hv_monitoring :: db_env

abbreviation hv_isUuid :: "host_env \<Rightarrow> string \<Rightarrow> bool" where
  "hv_isUuid env \<equiv> tn_isUuid (hv_tags env)"

datatype host_error = HostInvalidInput | HostNotFound | HostDomainConflict | HostDiscoveryManaged | HostStatusUnchanged
  | HostAuth auth_error | HostLabels host_tag_error | HostCertificate certificate_error | TrustedCaNotFound
  | HostMonitoringError domain_error | StoredSettingsInvalid | HostConstraint

fun mapError :: "('e \<Rightarrow> 'f) \<Rightarrow> 'e + 'a \<Rightarrow> 'f + 'a" where
  "mapError f (Inl e) = Inl (f e)"
| "mapError f (Inr x) = Inr x"

lemma mapError_Inr [simp]: "mapError f r = Inr x \<longleftrightarrow> r = Inr x"
  by (cases r) auto

section \<open>Constraints\<close>

definition proxyHostChecks :: "host_db \<Rightarrow> proxy_host_row \<Rightarrow> bool" where
  "proxyHostChecks db h \<longleftrightarrow>
     portOk (ph_forwardPort h) \<and> forwardHostCheck (ph_forwardHost h) \<and>
     whenPresent (upstreamPoolCheck (ph_forwardHost h) (ph_forwardPort h)) (ph_upstreamPool h) \<and>
     (ph_trustedCaId h \<noteq> None \<longrightarrow> ph_forwardScheme h = HttpsScheme \<and> ph_verifyUpstreamTls h) \<and>
     (ph_forceHttps h \<longrightarrow> ph_certificateId h \<noteq> None) \<and>
     whenPresent (\<lambda>n. length n \<le> 253) (ph_upstreamTlsServerName h) \<and>
     whenPresent (contains (map ce_id (hb_certificates db))) (ph_certificateId h) \<and>
     whenPresent (contains (hb_trustedCas db)) (ph_trustedCaId h) \<and>
     whenPresent (contains (hb_accessPolicies db)) (ph_accessPolicyId h)"

definition redirectHostChecks :: "host_db \<Rightarrow> redirect_host_row \<Rightarrow> bool" where
  "redirectHostChecks db h \<longleftrightarrow>
     length (rh_destination h) \<le> 2048 \<and> contains [301, 302, 307, 308] (rh_statusCode h) \<and>
     whenPresent (contains (map ce_id (hb_certificates db))) (rh_certificateId h)"

definition domainChecks :: "host_db \<Rightarrow> domain_row \<Rightarrow> bool" where
  "domainChecks db r \<longleftrightarrow>
     domainCanonicalCheck (dr_domain r) \<and>
     ((dr_proxyHostId r = None) \<noteq> (dr_redirectHostId r = None)) \<and>
     whenPresent (contains (map ph_id (hb_proxyHosts db))) (dr_proxyHostId r) \<and>
     whenPresent (contains (map rh_id (hb_redirectHosts db))) (dr_redirectHostId r)"

text \<open>The tables the monitoring repository joins are these ones.\<close>

definition syncMonitoring :: "host_db \<Rightarrow> host_db" where
  "syncMonitoring db = db\<lparr>hb_monitoring := (hb_monitoring db)\<lparr>
     db_hosts := map (\<lambda>h. (ph_id h, ph_enabled h)) (hb_proxyHosts db),
     db_domains := concat (map (\<lambda>r. case dr_proxyHostId r of None \<Rightarrow> [] | Some i \<Rightarrow> [(i, dr_domain r)]) (hb_domains db))\<rparr>\<rparr>"

definition insertProxyHost :: "proxy_host_row \<Rightarrow> host_db \<Rightarrow> host_error + host_db" where
  "insertProxyHost h db =
     (if \<not> proxyHostChecks db h \<or> contains (map ph_id (hb_proxyHosts db)) (ph_id h) then Inl HostConstraint
      else Inr (syncMonitoring (db\<lparr>hb_proxyHosts := hb_proxyHosts db @ [h]\<rparr>)))"

definition updateProxyHost :: "proxy_host_row \<Rightarrow> host_db \<Rightarrow> host_error + host_db" where
  "updateProxyHost h db =
     (if \<not> proxyHostChecks db h then Inl HostConstraint
      else Inr (syncMonitoring (db\<lparr>hb_proxyHosts := map (\<lambda>x. if ph_id x = ph_id h then h else x) (hb_proxyHosts db)\<rparr>)))"

definition insertRedirectHost :: "redirect_host_row \<Rightarrow> host_db \<Rightarrow> host_error + host_db" where
  "insertRedirectHost h db =
     (if \<not> redirectHostChecks db h \<or> contains (map rh_id (hb_redirectHosts db)) (rh_id h) then Inl HostConstraint
      else Inr (db\<lparr>hb_redirectHosts := hb_redirectHosts db @ [h]\<rparr>))"

definition updateRedirectHost :: "redirect_host_row \<Rightarrow> host_db \<Rightarrow> host_error + host_db" where
  "updateRedirectHost h db =
     (if \<not> redirectHostChecks db h then Inl HostConstraint
      else Inr (db\<lparr>hb_redirectHosts := map (\<lambda>x. if rh_id x = rh_id h then h else x) (hb_redirectHosts db)\<rparr>))"

text \<open>
  The unique key on domains; its violation is reported as a conflict (\<^verbatim>\<open>mapHostDomainUniqueViolation\<close>).
\<close>

definition insertDomains :: "domain_row list \<Rightarrow> host_db \<Rightarrow> host_error + host_db" where
  "insertDomains rows db =
     (if \<not> list_all (domainChecks db) rows then Inl HostConstraint
      else if \<not> distinct (map dr_domain (hb_domains db @ rows)) then Inl HostDomainConflict
      else Inr (syncMonitoring (db\<lparr>hb_domains := hb_domains db @ rows\<rparr>)))"

definition proxyDomainRow :: "string \<Rightarrow> string \<Rightarrow> domain_row" where
  "proxyDomainRow hostId domain = \<lparr>dr_domain = domain, dr_proxyHostId = Some hostId, dr_redirectHostId = None\<rparr>"

definition redirectDomainRow :: "string \<Rightarrow> string \<Rightarrow> domain_row" where
  "redirectDomainRow hostId domain = \<lparr>dr_domain = domain, dr_proxyHostId = None, dr_redirectHostId = Some hostId\<rparr>"

section \<open>Settings of a host\<close>

definition emptyHttpSettings :: host_http_settings where
  "emptyHttpSettings = \<lparr>hh_responseCompression = None, hh_browserCache = None, hh_clientMaxBodySizeBytes = None,
     hh_proxyConnectTimeoutSeconds = None, hh_proxyReadTimeoutSeconds = None, hh_proxySendTimeoutSeconds = None\<rparr>"

definition proxyHostHttpSettingsSchema :: "host_http_settings \<Rightarrow> bool" where
  "proxyHostHttpSettingsSchema s \<longleftrightarrow> whenPresent browserCacheSettingsSchema (hh_browserCache s) \<and>
     whenPresent (within 1024 1073741824) (hh_clientMaxBodySizeBytes s) \<and>
     whenPresent (within 1 60) (hh_proxyConnectTimeoutSeconds s) \<and>
     whenPresent (within 1 3600) (hh_proxyReadTimeoutSeconds s) \<and>
     whenPresent (within 1 3600) (hh_proxySendTimeoutSeconds s)"

definition storedSettingsSchema :: "stored_host_settings \<Rightarrow> bool" where
  "storedSettingsSchema s \<longleftrightarrow> proxyHostHttpSettingsSchema (sh_httpSettings s) \<and> whenPresent responseCacheSchema (sh_responseCache s)"

definition parseStoredSettings :: "stored_host_settings option \<Rightarrow> host_error + stored_host_settings option" where
  "parseStoredSettings row = (if whenPresent storedSettingsSchema row then Inr row else Inl StoredSettingsInvalid)"

definition lockProxyRuntimeSettings :: "host_db \<Rightarrow> host_db" where
  "lockProxyRuntimeSettings db = db\<lparr>hb_runtimeRow := True\<rparr>"

definition hostSettingsKey :: "string \<Rightarrow> string" where
  "hostSettingsKey proxyHostId = toLowerCase proxyHostId"

definition readProxyHostHttpSettings :: "host_db \<Rightarrow> string \<Rightarrow> host_error + host_http_settings" where
  "readProxyHostHttpSettings db proxyHostId =
     andThen (parseStoredSettings (hb_settings db (hostSettingsKey proxyHostId))) (\<lambda>row.
       Inr (case row of None \<Rightarrow> emptyHttpSettings | Some st \<Rightarrow> sh_httpSettings st))"

text \<open>The result is keyed by the stored key, so in lower case.\<close>

definition readResponseCacheSettingsMap :: "host_db \<Rightarrow> string list \<Rightarrow> host_error + (string \<Rightarrow> response_cache option)" where
  "readResponseCacheSettingsMap db ids =
     (if list_all (\<lambda>i. whenPresent storedSettingsSchema (hb_settings db (hostSettingsKey i))) ids
      then Inr (\<lambda>k. if contains (map hostSettingsKey ids) k
        then Option.bind (hb_settings db k) sh_responseCache else None)
      else Inl StoredSettingsInvalid)"

definition setSettings :: "string \<Rightarrow> host_http_settings \<Rightarrow> response_cache option \<Rightarrow> host_db \<Rightarrow> host_db" where
  "setSettings key http cache db = db\<lparr>hb_settings := (hb_settings db)(key :=
     if http = emptyHttpSettings \<and> cache = None then None
     else Some \<lparr>sh_httpSettings = http, sh_responseCache = cache\<rparr>)\<rparr>"

definition writeProxyHostHttpSettings :: "string \<Rightarrow> host_http_settings \<Rightarrow> host_db \<Rightarrow> host_error + host_db" where
  "writeProxyHostHttpSettings proxyHostId settings db =
     (if \<not> proxyHostHttpSettingsSchema settings then Inl HostInvalidInput
      else andThen (readResponseCacheSettingsMap db [proxyHostId]) (\<lambda>m.
        Inr (setSettings (hostSettingsKey proxyHostId) settings (m proxyHostId) db)))"

definition writeResponseCacheSettings :: "string \<Rightarrow> response_cache option \<Rightarrow> host_db \<Rightarrow> host_error + host_db" where
  "writeResponseCacheSettings proxyHostId settings db =
     andThen (readProxyHostHttpSettings db proxyHostId) (\<lambda>http.
       if \<not> whenPresent responseCacheSchema settings then Inl HostInvalidInput
       else Inr (setSettings (hostSettingsKey proxyHostId) http settings db))"

section \<open>Labels\<close>

definition readHostTags :: "host_env \<Rightarrow> host_kind \<Rightarrow> host_db \<Rightarrow> host_error + host_tag_state" where
  "readHostTags env kind db =
     (case hb_tags db kind of
        None \<Rightarrow> Inr emptyHostTagState
      | Some st \<Rightarrow> if hostTagStateSchema (hv_tags env) st then Inr st else Inl StoredSettingsInvalid)"

definition writeHostTags :: "host_env \<Rightarrow> host_kind \<Rightarrow> host_tag_state \<Rightarrow> host_db \<Rightarrow> host_error + host_db" where
  "writeHostTags env kind st db =
     (if hostTagStateSchema (hv_tags env) st then Inr (db\<lparr>hb_tags := (hb_tags db)(kind := Some st)\<rparr>)
      else Inl StoredSettingsInvalid)"

definition assignHostTagsInTransaction :: "host_env \<Rightarrow> host_kind \<Rightarrow> string \<Rightarrow> string list option \<Rightarrow> host_db \<Rightarrow>
    host_error + host_tag list \<times> host_db" where
  "assignHostTagsInTransaction env kind hostId tagIds db =
     andThen (readHostTags env kind db) (\<lambda>st.
       case tagIds of
         None \<Rightarrow> Inr (tagsForHost (hv_tags env) st hostId, db)
       | Some ids \<Rightarrow>
           andThen (mapError HostLabels (assignHostTags (hv_tags env) st hostId ids)) (\<lambda>next.
           andThen (if next \<noteq> st then writeHostTags env kind next db else Inr db) (\<lambda>db1.
             Inr (tagsForHost (hv_tags env) next hostId, db1))))"

section \<open>Hosts of Docker discovery\<close>

text \<open>The owners of the registry, read and parsed by its schema.\<close>

definition assertDiscoveryHostEditable :: "host_db \<Rightarrow> string \<Rightarrow> string option \<Rightarrow> host_error + unit" where
  "assertDiscoveryHostEditable db hostId discoveryKey =
     (case find (\<lambda>ow. ow_hostId ow = hostId \<and> ow_state ow \<noteq> DetachedHost) (hb_discovery db) of
        None \<Rightarrow> Inr ()
      | Some ow \<Rightarrow> if Some (ow_key ow) \<noteq> discoveryKey then Inl HostDiscoveryManaged else Inr ())"

section \<open>Permissions, monitoring and certificates\<close>

definition requireActor :: "host_db \<Rightarrow> string \<Rightarrow> permission_key \<Rightarrow> host_error + authenticated_user" where
  "requireActor db actorId permission = mapError HostAuth (requirePermissionInTransaction (hb_identity db) actorId permission)"

definition requireWhen :: "bool \<Rightarrow> host_db \<Rightarrow> string \<Rightarrow> permission_key \<Rightarrow> host_error + unit" where
  "requireWhen b db actorId permission =
     (if b then andThen (requireActor db actorId permission) (\<lambda>_. Inr ()) else Inr ())"

definition invalidateMonitoring :: "host_env \<Rightarrow> string \<Rightarrow> closed_reason \<Rightarrow> int \<Rightarrow> host_db \<Rightarrow> host_error + host_db" where
  "invalidateMonitoring env hostId reason now db =
     andThen (mapError HostMonitoringError
         (invalidateHostMonitoringForHosts (hv_monitoring env) [hostId] reason now (hb_monitoring db)))
       (\<lambda>m. Inr (db\<lparr>hb_monitoring := m\<rparr>))"

definition validateCertificate :: "host_env \<Rightarrow> string option \<Rightarrow> bool \<Rightarrow> string list \<Rightarrow> int \<Rightarrow> host_db \<Rightarrow> host_error + host_db" where
  "validateCertificate env certificateId forceHttps domains now db =
     andThen (mapError HostCertificate (validateCertificateAssignmentInTransaction (hv_urls env) (hv_controller env)
         certificateId forceHttps domains True now (hb_certificates db)))
       (\<lambda>rows. Inr (db\<lparr>hb_certificates := rows\<rparr>))"

definition validateTrustedCaAssignmentInTransaction :: "string option \<Rightarrow> host_db \<Rightarrow> host_error + unit" where
  "validateTrustedCaAssignmentInTransaction trustedCaId db =
     (case trustedCaId of
        None \<Rightarrow> Inr ()
      | Some i \<Rightarrow> if contains (hb_trustedCas db) (toLowerCase i) then Inr () else Inl TrustedCaNotFound)"

definition validateAccessPolicy :: "string \<Rightarrow> host_db \<Rightarrow> host_error + unit" where
  "validateAccessPolicy i db = (if contains (hb_accessPolicies db) i then Inr () else Inl HostInvalidInput)"

end
