(* ===== verification/ProxyHosts.thy ===== *)
theory ProxyHosts
  imports HostStore
begin

text \<open>
  Proxy hosts: the schemas of their input (\<^verbatim>\<open>features/Admin/ProxyHostManagement/validation.ts\<close>), the transactions
  (\<^verbatim>\<open>proxy-hosts.mutations.server.ts\<close>, \<^verbatim>\<open>upstream-tls.service.ts\<close>) and the services around them
  (\<^verbatim>\<open>proxy-hosts.service.ts\<close>). An optional and nullable field is an option of an option, its outer \<^term>\<open>None\<close> the
  absent field. The transactions of all services take the lock of the runtime settings first, so each is one step.
  The audit entries and the reconciliation of the running proxy after the commit are not part of the state. A service
  answers with a summary of the host; the model answers with its identifier, and the reads at the end of an update that
  only fill the summary parse settings that were parsed before in the same transaction.
\<close>

section \<open>Input\<close>

record proxy_host_input =
  pi_proxyHostId :: string
  pi_responseCompression :: "compression option option"
  pi_browserCache :: "browser_cache option"
  pi_tagIds :: "string list option"
  pi_responseCache :: "response_cache option option"
  pi_domains :: "string list"
  pi_forwardScheme :: forward_scheme
  pi_forwardHost :: string
  pi_forwardPort :: int
  pi_upstreamPool :: "upstream_pool option option"
  pi_enabled :: bool
  pi_certificateId :: "string option option"
  pi_forceHttps :: "bool option"
  pi_verifyUpstreamTls :: "bool option"
  pi_upstreamTlsServerName :: "string option option"
  pi_trustedCaId :: "string option option"
  pi_accessPolicyId :: "string option option"

definition orNull :: "'a option option \<Rightarrow> 'a option" where
  "orNull x = (case x of None \<Rightarrow> None | Some v \<Rightarrow> v)"

definition lowered :: "string option option \<Rightarrow> string option" where
  "lowered x = map_option toLowerCase (orNull x)"

definition poolHosts :: "upstream_pool option \<Rightarrow> string \<Rightarrow> string list" where
  "poolHosts pool forwardHost = (case pool of None \<Rightarrow> [forwardHost] | Some p \<Rightarrow> map um_host (po_members p))"

text \<open>The optional pool and server name in their normal forms; \<^term>\<open>None\<close> when one is rejected.\<close>

definition parsePool :: "host_env \<Rightarrow> upstream_pool option option \<Rightarrow> upstream_pool option option option" where
  "parsePool env pool =
     (case pool of
        Some (Some p) \<Rightarrow> map_option (\<lambda>q. Some (Some q)) (proxyUpstreamPoolSchema (hv_urls env) p)
      | _ \<Rightarrow> Some pool)"

definition parseServerName :: "host_env \<Rightarrow> string option option \<Rightarrow> string option option option" where
  "parseServerName env name =
     (case name of
        Some (Some n) \<Rightarrow> map_option Some (proxyUpstreamTlsServerNameSchema (hv_urls env) n)
      | _ \<Rightarrow> Some name)"

definition parseTagIds :: "host_env \<Rightarrow> string list option \<Rightarrow> string list option option" where
  "parseTagIds env ids =
     (case ids of None \<Rightarrow> Some None | Some is \<Rightarrow> map_option Some (hostTagIdsSchema (hv_tags env) is))"

definition proxyHostInputSchema :: "host_env \<Rightarrow> proxy_host_input \<Rightarrow> proxy_host_input option" where
  "proxyHostInputSchema env input =
     (case (parseTagIds env (pi_tagIds input), proxyHostDomainsSchema (hv_urls env) (pi_domains input),
            proxyForwardHostSchema (hv_urls env) (pi_forwardHost input), parsePool env (pi_upstreamPool input),
            parseServerName env (pi_upstreamTlsServerName input)) of
        (Some tagIds, Some domains, Some forwardHost, Some pool, Some serverName) \<Rightarrow>
          if whenPresent browserCacheSettingsSchema (pi_browserCache input) \<and>
             whenPresent responseCacheSchema (orNull (pi_responseCache input)) \<and> portOk (pi_forwardPort input) \<and>
             whenPresent (hv_isUuid env) (orNull (pi_certificateId input)) \<and>
             whenPresent (hv_isUuidv7 env) (orNull (pi_trustedCaId input)) \<and>
             whenPresent (hv_isUuidv7 env) (orNull (pi_accessPolicyId input))
          then Some (input\<lparr>pi_tagIds := tagIds, pi_domains := domains, pi_forwardHost := forwardHost,
            pi_upstreamPool := pool, pi_upstreamTlsServerName := serverName\<rparr>)
          else None
      | _ \<Rightarrow> None)"

definition validateUpstreamTlsInput :: "host_env \<Rightarrow> proxy_host_input \<Rightarrow> bool" where
  "validateUpstreamTlsInput env input \<longleftrightarrow>
     validateUpstreamPoolPrimary (orNull (pi_upstreamPool input)) (pi_forwardHost input) (pi_forwardPort input) \<and>
     (pi_forwardScheme input = HttpsScheme \<longrightarrow>
       \<not> (pi_verifyUpstreamTls input = Some False \<and> orNull (pi_trustedCaId input) \<noteq> None) \<and>
       \<not> (pi_verifyUpstreamTls input \<noteq> Some False \<and>
         upstreamTlsRequiresServerName (hv_urls env) (poolHosts (orNull (pi_upstreamPool input)) (pi_forwardHost input)) \<and>
         orNull (pi_upstreamTlsServerName input) = None))"

definition withDefault :: "'a \<Rightarrow> 'a option \<Rightarrow> 'a option" where
  "withDefault d x = (case x of None \<Rightarrow> Some d | Some v \<Rightarrow> Some v)"

definition createProxyHostInputSchema :: "host_env \<Rightarrow> proxy_host_input \<Rightarrow> proxy_host_input option" where
  "createProxyHostInputSchema env input =
     (case proxyHostInputSchema env (input\<lparr>pi_verifyUpstreamTls := withDefault True (pi_verifyUpstreamTls input),
         pi_upstreamTlsServerName := withDefault None (pi_upstreamTlsServerName input),
         pi_trustedCaId := withDefault None (pi_trustedCaId input)\<rparr>) of
        None \<Rightarrow> None
      | Some parsed \<Rightarrow> if validateUpstreamTlsInput env parsed then Some parsed else None)"

definition updateProxyHostInputSchema :: "host_env \<Rightarrow> proxy_host_input \<Rightarrow> proxy_host_input option" where
  "updateProxyHostInputSchema env input =
     (case proxyHostInputSchema env input of
        None \<Rightarrow> None
      | Some parsed \<Rightarrow>
          if hv_isUuid env (pi_proxyHostId parsed) \<and>
             validateUpstreamPoolPrimary (orNull (pi_upstreamPool parsed)) (pi_forwardHost parsed) (pi_forwardPort parsed)
          then Some parsed else None)"

definition parsed :: "'a option \<Rightarrow> host_error + 'a" where
  "parsed x = (case x of None \<Rightarrow> Inl HostInvalidInput | Some v \<Rightarrow> Inr v)"

definition found :: "'a option \<Rightarrow> host_error + 'a" where
  "found x = (case x of None \<Rightarrow> Inl HostNotFound | Some v \<Rightarrow> Inr v)"

lemma parsed_Inr [simp]: "parsed x = Inr v \<longleftrightarrow> x = Some v"
  by (cases x) (simp_all add: parsed_def)

lemma found_Inr [simp]: "found x = Inr v \<longleftrightarrow> x = Some v"
  by (cases x) (simp_all add: found_def)

section \<open>Upstream TLS\<close>

record upstream_tls =
  tl_verifyUpstreamTls :: bool
  tl_upstreamTlsServerName :: "string option"
  tl_trustedCaId :: "string option"

definition normalizeUpstreamTlsSettings :: "host_env \<Rightarrow> proxy_host_input \<Rightarrow> upstream_pool option \<Rightarrow> proxy_host_row option \<Rightarrow>
    host_error + upstream_tls" where
  "normalizeUpstreamTlsSettings env input pool existing =
     (if pi_forwardScheme input = HttpScheme
      then Inr \<lparr>tl_verifyUpstreamTls = True, tl_upstreamTlsServerName = None, tl_trustedCaId = None\<rparr>
      else
        let preserved = (case existing of None \<Rightarrow> None | Some h \<Rightarrow> if ph_forwardScheme h = HttpsScheme then Some h else None);
            verify = (case pi_verifyUpstreamTls input of
                Some b \<Rightarrow> b
              | None \<Rightarrow> (case preserved of None \<Rightarrow> True | Some h \<Rightarrow> ph_verifyUpstreamTls h));
            serverName = (case (pi_upstreamTlsServerName input, preserved) of
                (None, Some h) \<Rightarrow> ph_upstreamTlsServerName h
              | (name, _) \<Rightarrow> orNull name);
            trustedCaId = (case (pi_trustedCaId input, preserved) of
                (None, Some h) \<Rightarrow> ph_trustedCaId h
              | (ca, _) \<Rightarrow> lowered ca)
        in if trustedCaId \<noteq> None \<and> \<not> verify then Inl HostInvalidInput
           else if verify \<and> upstreamTlsRequiresServerName (hv_urls env) (poolHosts pool (pi_forwardHost input)) \<and> serverName = None
           then Inl HostInvalidInput
           else Inr \<lparr>tl_verifyUpstreamTls = verify, tl_upstreamTlsServerName = serverName, tl_trustedCaId = trustedCaId\<rparr>)"

section \<open>Transactions\<close>

definition loadProxyHostForUpdate :: "host_db \<Rightarrow> string \<Rightarrow> proxy_host_row option" where
  "loadProxyHostForUpdate db proxyHostId = find (\<lambda>h. ph_id h = toLowerCase proxyHostId) (hb_proxyHosts db)"

definition assertDomainsAvailableInTransaction :: "host_db \<Rightarrow> string list \<Rightarrow> string option \<Rightarrow> host_error + unit" where
  "assertDomainsAvailableInTransaction db domains current =
     (if some_elem (\<lambda>r. contains domains (dr_domain r) \<and>
          (case current of
             None \<Rightarrow> True
           | Some i \<Rightarrow> dr_redirectHostId r \<noteq> None \<or> (dr_proxyHostId r \<noteq> None \<and> dr_proxyHostId r \<noteq> Some i))) (hb_domains db)
      then Inl HostDomainConflict else Inr ())"

definition replaceDomainsInTransaction :: "string \<Rightarrow> string list \<Rightarrow> host_db \<Rightarrow> host_error + host_db" where
  "replaceDomainsInTransaction proxyHostId domains db =
     insertDomains (map (proxyDomainRow proxyHostId) (sort domains))
       (db\<lparr>hb_domains := filter (\<lambda>r. dr_proxyHostId r \<noteq> Some proxyHostId) (hb_domains db)\<rparr>)"

definition loadProxyHostDomainsInTransaction :: "host_db \<Rightarrow> string \<Rightarrow> string list" where
  "loadProxyHostDomainsInTransaction db proxyHostId =
     sort (map dr_domain (filter (\<lambda>r. dr_proxyHostId r = Some proxyHostId) (hb_domains db)))"

definition writeAuthorizedResponseCacheSettings :: "string \<Rightarrow> string \<Rightarrow> response_cache option \<Rightarrow> host_db \<Rightarrow> host_error + host_db" where
  "writeAuthorizedResponseCacheSettings actorId proxyHostId settings db =
     andThen (readResponseCacheSettingsMap db [proxyHostId]) (\<lambda>m.
       if m proxyHostId = settings then Inr db
       else andThen (requireActor db actorId PROXY_HOSTS_APPLY) (\<lambda>_.
         writeResponseCacheSettings proxyHostId settings db))"

text \<open>The steps after the row was written that both transactions end with.\<close>

definition writeOptionalCache :: "string \<Rightarrow> string \<Rightarrow> response_cache option option \<Rightarrow> host_db \<Rightarrow> host_error + host_db" where
  "writeOptionalCache actorId hostId cache db =
     (case cache of None \<Rightarrow> Inr db | Some settings \<Rightarrow> writeAuthorizedResponseCacheSettings actorId hostId settings db)"

definition assignTagsFor :: "host_env \<Rightarrow> host_kind \<Rightarrow> permission_key \<Rightarrow> authenticated_user \<Rightarrow> string \<Rightarrow> string list option \<Rightarrow> host_db \<Rightarrow>
    host_error + host_db" where
  "assignTagsFor env kind view actor hostId tagIds db =
     (if tagIds \<noteq> None \<or> contains (au_permissions actor) view
      then andThen (assignHostTagsInTransaction env kind hostId tagIds db) (\<lambda>(_, db1). Inr db1)
      else Inr db)"

definition writeBrowserCache :: "string \<Rightarrow> browser_cache \<Rightarrow> host_db \<Rightarrow> host_error + host_db" where
  "writeBrowserCache hostId cache db =
     andThen (readProxyHostHttpSettings db hostId) (\<lambda>settings.
       writeProxyHostHttpSettings hostId (settings\<lparr>hh_browserCache := Some cache\<rparr>) db)"

definition writeOptionalBrowserCache :: "string \<Rightarrow> browser_cache option \<Rightarrow> host_db \<Rightarrow> host_error + host_db" where
  "writeOptionalBrowserCache hostId cache db = (case cache of None \<Rightarrow> Inr db | Some b \<Rightarrow> writeBrowserCache hostId b db)"

definition validateOptionalPolicy :: "string option \<Rightarrow> host_db \<Rightarrow> host_error + unit" where
  "validateOptionalPolicy accessPolicyId db = (case accessPolicyId of None \<Rightarrow> Inr () | Some i \<Rightarrow> validateAccessPolicy i db)"

definition newProxyHost :: "string \<Rightarrow> proxy_host_input \<Rightarrow> upstream_tls \<Rightarrow> int \<Rightarrow> proxy_host_row" where
  "newProxyHost hostId p tls now = \<lparr>ph_id = hostId, ph_forwardScheme = pi_forwardScheme p, ph_forwardHost = pi_forwardHost p,
     ph_forwardPort = pi_forwardPort p, ph_upstreamPool = orNull (pi_upstreamPool p), ph_enabled = pi_enabled p,
     ph_certificateId = lowered (pi_certificateId p), ph_forceHttps = (case pi_forceHttps p of None \<Rightarrow> False | Some b \<Rightarrow> b),
     ph_verifyUpstreamTls = tl_verifyUpstreamTls tls, ph_upstreamTlsServerName = tl_upstreamTlsServerName tls,
     ph_trustedCaId = tl_trustedCaId tls, ph_accessPolicyId = lowered (pi_accessPolicyId p), ph_createdAt = now, ph_updatedAt = now\<rparr>"

definition createProxyHostInTransaction :: "host_env \<Rightarrow> string \<Rightarrow> proxy_host_input \<Rightarrow> int \<Rightarrow> host_db \<Rightarrow>
    host_error + string \<times> host_db" where
  "createProxyHostInTransaction env actorId input now db =
     andThen (parsed (createProxyHostInputSchema env input)) (\<lambda>p.
     let domains = sort (pi_domains p); db0 = lockProxyRuntimeSettings db in
     andThen (requireActor db0 actorId PROXY_HOSTS_CREATE) (\<lambda>actor.
     andThen (requireWhen (pi_browserCache p \<noteq> None) db0 actorId PROXY_HOSTS_APPLY) (\<lambda>_.
     andThen (requireWhen (pi_tagIds p \<noteq> None) db0 actorId PROXY_HOSTS_VIEW) (\<lambda>_.
     andThen (requireWhen (orNull (pi_responseCompression p) \<noteq> None) db0 actorId PROXY_HOSTS_APPLY) (\<lambda>_.
     andThen (assertDomainsAvailableInTransaction db0 domains None) (\<lambda>_.
     andThen (normalizeUpstreamTlsSettings env p (orNull (pi_upstreamPool p)) None) (\<lambda>tls.
     andThen (requireWhen (lowered (pi_accessPolicyId p) \<noteq> None) db0 actorId ACCESS_POLICIES_ASSIGN) (\<lambda>_.
     andThen (validateOptionalPolicy (lowered (pi_accessPolicyId p)) db0) (\<lambda>_.
     andThen (validateTrustedCaAssignmentInTransaction (tl_trustedCaId tls) db0) (\<lambda>_.
     let hostId = hv_newId env (hb_nextId db0); row = newProxyHost hostId p tls now in
     andThen (validateCertificate env (ph_certificateId row) (ph_forceHttps row) domains now db0) (\<lambda>db1.
     andThen (insertProxyHost row (db1\<lparr>hb_nextId := Suc (hb_nextId db1)\<rparr>)) (\<lambda>db2.
     andThen (writeProxyHostHttpSettings hostId
         (emptyHttpSettings\<lparr>hh_responseCompression := orNull (pi_responseCompression p)\<rparr>) db2) (\<lambda>db3.
     andThen (insertDomains (map (proxyDomainRow hostId) domains) db3) (\<lambda>db4.
     andThen (writeOptionalCache actorId hostId (pi_responseCache p) db4) (\<lambda>db5.
     andThen (assignTagsFor env ProxyKind PROXY_HOSTS_VIEW actor hostId (pi_tagIds p) db5) (\<lambda>db6.
     andThen (writeOptionalBrowserCache hostId (pi_browserCache p) db6) (\<lambda>db7.
     Inr (hostId, db7))))))))))))))))))"

text \<open>The changes of a host that the monitoring of it must notice.\<close>

definition availabilityChanged :: "proxy_host_row \<Rightarrow> upstream_pool option \<Rightarrow> string list \<Rightarrow> proxy_host_row \<Rightarrow> string list \<Rightarrow> bool" where
  "availabilityChanged old oldPool oldDomains new newDomains \<longleftrightarrow>
     ph_enabled new \<noteq> ph_enabled old \<or> ph_forwardScheme new \<noteq> ph_forwardScheme old \<or>
     ph_forwardHost new \<noteq> ph_forwardHost old \<or> ph_forwardPort new \<noteq> ph_forwardPort old \<or>
     ph_upstreamPool new \<noteq> oldPool \<or> sort oldDomains \<noteq> newDomains \<or>
     (ph_forwardScheme new = HttpsScheme \<and>
       (ph_verifyUpstreamTls new \<noteq> ph_verifyUpstreamTls old \<or> ph_upstreamTlsServerName new \<noteq> ph_upstreamTlsServerName old \<or>
        ph_trustedCaId new \<noteq> ph_trustedCaId old))"

text \<open>A stored pool is parsed again before it is compared; the schema throws when it no longer accepts it.\<close>

definition storedPool :: "host_env \<Rightarrow> proxy_host_row \<Rightarrow> host_error + upstream_pool option" where
  "storedPool env h =
     (case ph_upstreamPool h of
        None \<Rightarrow> Inr None
      | Some pool \<Rightarrow> (case proxyUpstreamPoolSchema (hv_urls env) pool of None \<Rightarrow> Inl StoredSettingsInvalid | Some q \<Rightarrow> Inr (Some q)))"

definition effectivePool :: "proxy_host_input \<Rightarrow> upstream_pool option \<Rightarrow> upstream_pool option" where
  "effectivePool p existingPool = (case pi_upstreamPool p of None \<Rightarrow> existingPool | Some q \<Rightarrow> q)"

definition checkAccessPolicy :: "string \<Rightarrow> proxy_host_row \<Rightarrow> string option option \<Rightarrow> string option \<Rightarrow> host_db \<Rightarrow> host_error + unit" where
  "checkAccessPolicy actorId h input accessPolicyId db =
     (case accessPolicyId of
        Some i \<Rightarrow>
          andThen (requireWhen (accessPolicyId \<noteq> ph_accessPolicyId h) db actorId ACCESS_POLICIES_ASSIGN) (\<lambda>_.
            validateAccessPolicy i db)
      | None \<Rightarrow> requireWhen (input \<noteq> None \<and> ph_accessPolicyId h \<noteq> None) db actorId ACCESS_POLICIES_ASSIGN)"

definition writeCompression :: "string \<Rightarrow> string \<Rightarrow> compression option option \<Rightarrow> host_http_settings \<Rightarrow> host_db \<Rightarrow> host_error + host_db" where
  "writeCompression actorId hostId input settings db =
     (case input of
        None \<Rightarrow> Inr db
      | Some c \<Rightarrow>
          andThen (requireWhen (c \<noteq> hh_responseCompression settings) db actorId PROXY_HOSTS_APPLY) (\<lambda>_.
            writeProxyHostHttpSettings hostId (settings\<lparr>hh_responseCompression := c\<rparr>) db))"

definition changedProxyHost :: "proxy_host_row \<Rightarrow> proxy_host_input \<Rightarrow> upstream_pool option \<Rightarrow> upstream_tls \<Rightarrow> int \<Rightarrow> proxy_host_row" where
  "changedProxyHost h p pool tls now = h\<lparr>ph_enabled := pi_enabled p,
     ph_certificateId := (case pi_certificateId p of None \<Rightarrow> ph_certificateId h | given \<Rightarrow> lowered given),
     ph_forceHttps := (case pi_forceHttps p of None \<Rightarrow> ph_forceHttps h | Some b \<Rightarrow> b),
     ph_verifyUpstreamTls := tl_verifyUpstreamTls tls, ph_upstreamTlsServerName := tl_upstreamTlsServerName tls,
     ph_trustedCaId := tl_trustedCaId tls,
     ph_accessPolicyId := (case pi_accessPolicyId p of None \<Rightarrow> ph_accessPolicyId h | given \<Rightarrow> lowered given),
     ph_forwardHost := pi_forwardHost p, ph_forwardPort := pi_forwardPort p, ph_upstreamPool := pool,
     ph_forwardScheme := pi_forwardScheme p, ph_updatedAt := now\<rparr>"

definition invalidateIfChanged :: "host_env \<Rightarrow> bool \<Rightarrow> proxy_host_row \<Rightarrow> proxy_host_row \<Rightarrow> int \<Rightarrow> host_db \<Rightarrow> host_error + host_db" where
  "invalidateIfChanged env changed h new now db =
     (if changed
      then invalidateMonitoring env (ph_id h) (if \<not> ph_enabled new \<and> ph_enabled h then MonitoringDisabled else PolicyChanged) now db
      else Inr db)"

definition updateProxyHostInTransaction :: "host_env \<Rightarrow> string \<Rightarrow> proxy_host_input \<Rightarrow> string option \<Rightarrow> int \<Rightarrow> host_db \<Rightarrow>
    host_error + string \<times> host_db" where
  "updateProxyHostInTransaction env actorId input discoveryKey now db =
     andThen (parsed (updateProxyHostInputSchema env input)) (\<lambda>p.
     let domains = sort (pi_domains p); db0 = lockProxyRuntimeSettings db in
     andThen (requireActor db0 actorId PROXY_HOSTS_UPDATE) (\<lambda>actor.
     andThen (requireWhen (pi_browserCache p \<noteq> None) db0 actorId PROXY_HOSTS_APPLY) (\<lambda>_.
     andThen (requireWhen (pi_tagIds p \<noteq> None) db0 actorId PROXY_HOSTS_VIEW) (\<lambda>_.
     andThen (assertDiscoveryHostEditable db0 (pi_proxyHostId p) discoveryKey) (\<lambda>_.
     andThen (found (loadProxyHostForUpdate db0 (pi_proxyHostId p))) (\<lambda>h.
     andThen (requireWhen (pi_enabled p \<noteq> ph_enabled h) db0 actorId
         (if pi_enabled p then PROXY_HOSTS_ENABLE else PROXY_HOSTS_DISABLE)) (\<lambda>_.
     andThen (assertDomainsAvailableInTransaction db0 domains (Some (ph_id h))) (\<lambda>_.
     andThen (storedPool env h) (\<lambda>existingPool.
     let pool = effectivePool p existingPool in
     andThen (guardR (validateUpstreamPoolPrimary pool (pi_forwardHost p) (pi_forwardPort p)) HostInvalidInput) (\<lambda>_.
     andThen (normalizeUpstreamTlsSettings env p pool (Some h)) (\<lambda>tls.
     let new = changedProxyHost h p pool tls now in
     andThen (checkAccessPolicy actorId h (pi_accessPolicyId p) (ph_accessPolicyId new) db0) (\<lambda>_.
     andThen (validateTrustedCaAssignmentInTransaction (tl_trustedCaId tls) db0) (\<lambda>_.
     andThen (validateCertificate env (ph_certificateId new) (ph_forceHttps new) domains now db0) (\<lambda>db1.
     let previousDomains = map dr_domain (filter (\<lambda>r. dr_proxyHostId r = Some (ph_id h)) (hb_domains db1)) in
     andThen (updateProxyHost new db1) (\<lambda>db2.
     andThen (readProxyHostHttpSettings db2 (ph_id h)) (\<lambda>settings.
     andThen (writeCompression actorId (ph_id h) (pi_responseCompression p) settings db2) (\<lambda>db3.
     andThen (replaceDomainsInTransaction (ph_id h) domains db3) (\<lambda>db4.
     andThen (invalidateIfChanged env (availabilityChanged h existingPool previousDomains new domains) h new now db4) (\<lambda>db5.
     andThen (writeOptionalCache actorId (ph_id h) (pi_responseCache p) db5) (\<lambda>db6.
     andThen (assignTagsFor env ProxyKind PROXY_HOSTS_VIEW actor (ph_id h) (pi_tagIds p) db6) (\<lambda>db7.
     andThen (writeOptionalBrowserCache (ph_id h)
         (if pi_browserCache p = hh_browserCache settings then None else pi_browserCache p) db7) (\<lambda>db8.
     Inr (ph_id h, db8)))))))))))))))))))))))"

section \<open>Services\<close>

definition actorOf :: "current_session option \<Rightarrow> permission_key \<Rightarrow> host_error + authenticated_user" where
  "actorOf session permission = mapError HostAuth (requirePermissionService session permission)"

definition createProxyHostService :: "host_env \<Rightarrow> current_session option \<Rightarrow> proxy_host_input \<Rightarrow> int \<Rightarrow> host_db \<Rightarrow>
    host_error + string \<times> host_db" where
  "createProxyHostService env session input now db =
     andThen (parsed (createProxyHostInputSchema env input)) (\<lambda>p.
     andThen (actorOf session PROXY_HOSTS_CREATE) (\<lambda>actor.
       createProxyHostInTransaction env (au_id actor) p now db))"

definition updateProxyHostService :: "host_env \<Rightarrow> current_session option \<Rightarrow> proxy_host_input \<Rightarrow> int \<Rightarrow> host_db \<Rightarrow>
    host_error + string \<times> host_db" where
  "updateProxyHostService env session input now db =
     andThen (parsed (updateProxyHostInputSchema env input)) (\<lambda>p.
     andThen (actorOf session PROXY_HOSTS_UPDATE) (\<lambda>actor.
       updateProxyHostInTransaction env (au_id actor) p None now db))"

definition parseHostId :: "host_env \<Rightarrow> string \<Rightarrow> host_error + string" where
  "parseHostId env hostId = (if hv_isUuid env hostId then Inr hostId else Inl HostInvalidInput)"

text \<open>Deleting the row removes its domains, its monitoring policy and the history of it.\<close>

definition deleteProxyHostRow :: "string \<Rightarrow> host_db \<Rightarrow> host_db" where
  "deleteProxyHostRow hostId db = db\<lparr>
     hb_proxyHosts := filter (\<lambda>h. ph_id h \<noteq> hostId) (hb_proxyHosts db),
     hb_domains := filter (\<lambda>r. dr_proxyHostId r \<noteq> Some hostId) (hb_domains db),
     hb_monitoring := deleteHost hostId (hb_monitoring db)\<rparr>"

definition deleteProxyHostService :: "host_env \<Rightarrow> current_session option \<Rightarrow> string \<Rightarrow> int \<Rightarrow> host_db \<Rightarrow>
    host_error + string \<times> host_db" where
  "deleteProxyHostService env session proxyHostId now db =
     andThen (parseHostId env proxyHostId) (\<lambda>i.
     andThen (actorOf session PROXY_HOSTS_DELETE) (\<lambda>actor.
     let db0 = lockProxyRuntimeSettings db in
     andThen (requireActor db0 (au_id actor) PROXY_HOSTS_DELETE) (\<lambda>_.
     andThen (found (loadProxyHostForUpdate db0 i)) (\<lambda>h.
     andThen (writeProxyHostHttpSettings (ph_id h) emptyHttpSettings db0) (\<lambda>db1.
     andThen (writeResponseCacheSettings (ph_id h) None db1) (\<lambda>db2.
     andThen (assertDiscoveryHostEditable db2 (ph_id h) None) (\<lambda>_.
     andThen (assignHostTagsInTransaction env ProxyKind (ph_id h) (Some []) db2) (\<lambda>(_, db3).
     andThen (invalidateMonitoring env (ph_id h) PolicyChanged now (deleteProxyHostRow (ph_id h) db3)) (\<lambda>db4.
     Inr (ph_id h, db4))))))))))"

text \<open>Enabling a host checks again what it refers to.\<close>

definition validateBeforeEnabling :: "host_env \<Rightarrow> bool \<Rightarrow> proxy_host_row \<Rightarrow> int \<Rightarrow> host_db \<Rightarrow> host_error + host_db" where
  "validateBeforeEnabling env enabled h now db =
     (if enabled
      then andThen (validateTrustedCaAssignmentInTransaction (ph_trustedCaId h) db) (\<lambda>_.
        validateCertificate env (ph_certificateId h) (ph_forceHttps h) (loadProxyHostDomainsInTransaction db (ph_id h)) now db)
      else Inr db)"

definition setProxyHostEnabledService :: "host_env \<Rightarrow> current_session option \<Rightarrow> string \<Rightarrow> bool \<Rightarrow> int \<Rightarrow> host_db \<Rightarrow>
    host_error + string \<times> host_db" where
  "setProxyHostEnabledService env session proxyHostId enabled now db =
     andThen (parseHostId env proxyHostId) (\<lambda>i.
     let permission = (if enabled then PROXY_HOSTS_ENABLE else PROXY_HOSTS_DISABLE) in
     andThen (actorOf session permission) (\<lambda>actor.
     let db0 = lockProxyRuntimeSettings db in
     andThen (requireActor db0 (au_id actor) permission) (\<lambda>_.
     andThen (found (loadProxyHostForUpdate db0 i)) (\<lambda>h.
     andThen (guardR (ph_enabled h \<noteq> enabled) HostStatusUnchanged) (\<lambda>_.
     andThen (validateBeforeEnabling env enabled h now db0) (\<lambda>db1.
     andThen (updateProxyHost (h\<lparr>ph_enabled := enabled, ph_updatedAt := now\<rparr>) db1) (\<lambda>db2.
     andThen (if enabled then Inr db2 else invalidateMonitoring env (ph_id h) MonitoringDisabled now db2) (\<lambda>db3.
     andThen (readProxyHostHttpSettings db3 i) (\<lambda>_.
     andThen (readResponseCacheSettingsMap db3 [i]) (\<lambda>_.
     Inr (ph_id h, db3)))))))))))"

definition enableProxyHostService :: "host_env \<Rightarrow> current_session option \<Rightarrow> string \<Rightarrow> int \<Rightarrow> host_db \<Rightarrow> host_error + string \<times> host_db" where
  "enableProxyHostService env session proxyHostId now db = setProxyHostEnabledService env session proxyHostId True now db"

definition disableProxyHostService :: "host_env \<Rightarrow> current_session option \<Rightarrow> string \<Rightarrow> int \<Rightarrow> host_db \<Rightarrow> host_error + string \<times> host_db" where
  "disableProxyHostService env session proxyHostId now db = setProxyHostEnabledService env session proxyHostId False now db"

end
