(* ===== verification/RedirectHosts.thy ===== *)
theory RedirectHosts
  imports ProxyHosts
begin

text \<open>
  Redirect hosts: the schemas of their input (\<^verbatim>\<open>features/Admin/RedirectHostManagement/validation.ts\<close>) and the services
  (\<^verbatim>\<open>redirect-hosts.service.ts\<close>), and the service that changes labels (\<^verbatim>\<open>host-tags.service.ts\<close>). The domains of redirect
  and proxy hosts share one table.
\<close>

section \<open>Destination\<close>

definition MAX_REDIRECT_HOST_DOMAINS :: nat where "MAX_REDIRECT_HOST_DOMAINS = 50"
definition MAX_REDIRECT_DESTINATION_LENGTH :: nat where "MAX_REDIRECT_DESTINATION_LENGTH = 2048"

definition encodeRawDestinationCharacters :: "string \<Rightarrow> string" where
  "encodeRawDestinationCharacters value = concat (map (\<lambda>c.
     if c = CHR ''$'' then ''%24'' else if c = CHR 0x22 then ''%22'' else if c = CHR 0x27 then ''%27''
     else if c = CHR 0x5C then ''%5C'' else if c = CHR ''{'' then ''%7B'' else if c = CHR ''}'' then ''%7D'' else [c]) value)"

definition withoutFinalSlashes :: "string \<Rightarrow> string" where
  "withoutFinalSlashes s = rev (dropWhile (\<lambda>c. c = CHR ''/'') (rev s))"

definition normalizeRedirectDestination :: "url_lib \<Rightarrow> string \<Rightarrow> bool \<Rightarrow> string option" where
  "normalizeRedirectDestination ul value preserveRequestUri =
     (if some_elem isControl value then None
      else
        let input = trim value in
        if input = [] \<or> length input > MAX_REDIRECT_DESTINATION_LENGTH \<or> badEscape input then None
        else if contains input (CHR 0x5C) then None
        else (case ul_parse ul (encodeRawDestinationCharacters input) of
            None \<Rightarrow> None
          | Some url \<Rightarrow>
              if (pu_protocol url \<noteq> ''http:'' \<and> pu_protocol url \<noteq> ''https:'') \<or> pu_hostname url = [] \<or>
                 pu_username url \<noteq> [] \<or> pu_password url \<noteq> [] then None
              else (case normalizeForwardHost ul (if bracketed (pu_hostname url) then inner (pu_hostname url) else pu_hostname url) of
                  None \<Rightarrow> None
                | Some host \<Rightarrow>
                    if host = [] then None
                    else
                      let canonical = ul_setHostname ul url host in
                      (case ul_decode ul (pu_href canonical) of
                         None \<Rightarrow> None
                       | Some decoded \<Rightarrow>
                           if some_elem isControl decoded then None
                           else if preserveRequestUri then
                             if pu_search canonical \<noteq> [] \<or> pu_hash canonical \<noteq> [] then None
                             else
                               let pathname = withoutFinalSlashes (pu_pathname canonical);
                                   base = pu_origin canonical @ (if pathname = ''/'' then [] else pathname)
                               in if length base \<le> MAX_REDIRECT_DESTINATION_LENGTH then Some base else None
                           else if length (pu_href canonical) \<le> MAX_REDIRECT_DESTINATION_LENGTH
                           then Some (pu_href canonical) else None))))"

section \<open>Input\<close>

record redirect_host_input =
  ri_redirectHostId :: string
  ri_tagIds :: "string list option"
  ri_domains :: "string list"
  ri_destination :: string
  ri_statusCode :: int
  ri_preserveRequestUri :: bool
  ri_enabled :: bool
  ri_certificateId :: "string option option"

definition redirectHostDomainsSchema :: "url_lib \<Rightarrow> string list \<Rightarrow> string list option" where
  "redirectHostDomainsSchema ul input =
     (case allSome (map (proxyDomainSchema ul) input) of
        None \<Rightarrow> None
      | Some ds \<Rightarrow> if ds = [] \<or> length ds > MAX_REDIRECT_HOST_DOMAINS \<or> \<not> distinct ds then None else Some ds)"

definition createRedirectHostInputSchema :: "host_env \<Rightarrow> redirect_host_input \<Rightarrow> redirect_host_input option" where
  "createRedirectHostInputSchema env input =
     (case (parseTagIds env (ri_tagIds input), redirectHostDomainsSchema (hv_urls env) (ri_domains input)) of
        (Some tagIds, Some domains) \<Rightarrow>
          if length (ri_destination input) \<le> MAX_REDIRECT_DESTINATION_LENGTH \<and>
             contains [301, 302, 307, 308] (ri_statusCode input) \<and>
             whenPresent (hv_isUuid env) (orNull (ri_certificateId input))
          then map_option (\<lambda>destination. input\<lparr>ri_tagIds := tagIds, ri_domains := domains, ri_destination := destination\<rparr>)
            (normalizeRedirectDestination (hv_urls env) (ri_destination input) (ri_preserveRequestUri input))
          else None
      | _ \<Rightarrow> None)"

definition updateRedirectHostInputSchema :: "host_env \<Rightarrow> redirect_host_input \<Rightarrow> redirect_host_input option" where
  "updateRedirectHostInputSchema env input =
     (if hv_isUuid env (ri_redirectHostId input) then createRedirectHostInputSchema env input else None)"

section \<open>Transactions\<close>

definition loadRedirectHostForUpdate :: "host_db \<Rightarrow> string \<Rightarrow> redirect_host_row option" where
  "loadRedirectHostForUpdate db redirectHostId = find (\<lambda>h. rh_id h = toLowerCase redirectHostId) (hb_redirectHosts db)"

definition loadRedirectHostDomainsInTransaction :: "host_db \<Rightarrow> string \<Rightarrow> string list" where
  "loadRedirectHostDomainsInTransaction db redirectHostId =
     sort (map dr_domain (filter (\<lambda>r. dr_redirectHostId r = Some redirectHostId) (hb_domains db)))"

definition assertRedirectDomainsAvailable :: "host_db \<Rightarrow> string list \<Rightarrow> string option \<Rightarrow> host_error + unit" where
  "assertRedirectDomainsAvailable db domains current =
     (if some_elem (\<lambda>r. contains domains (dr_domain r) \<and>
          (case current of
             None \<Rightarrow> True
           | Some i \<Rightarrow> dr_proxyHostId r \<noteq> None \<or> (dr_redirectHostId r \<noteq> None \<and> dr_redirectHostId r \<noteq> Some i))) (hb_domains db)
      then Inl HostDomainConflict else Inr ())"

definition replaceRedirectDomains :: "string \<Rightarrow> string list \<Rightarrow> host_db \<Rightarrow> host_error + host_db" where
  "replaceRedirectDomains redirectHostId domains db =
     insertDomains (map (redirectDomainRow redirectHostId) (sort domains))
       (db\<lparr>hb_domains := filter (\<lambda>r. dr_redirectHostId r \<noteq> Some redirectHostId) (hb_domains db)\<rparr>)"

definition newRedirectHost :: "string \<Rightarrow> redirect_host_input \<Rightarrow> int \<Rightarrow> redirect_host_row" where
  "newRedirectHost hostId p now = \<lparr>rh_id = hostId, rh_destination = ri_destination p, rh_statusCode = ri_statusCode p,
     rh_preserveRequestUri = ri_preserveRequestUri p, rh_enabled = ri_enabled p, rh_certificateId = lowered (ri_certificateId p),
     rh_createdAt = now, rh_updatedAt = now\<rparr>"

definition changedRedirectHost :: "redirect_host_row \<Rightarrow> redirect_host_input \<Rightarrow> int \<Rightarrow> redirect_host_row" where
  "changedRedirectHost h p now = h\<lparr>rh_destination := ri_destination p, rh_statusCode := ri_statusCode p,
     rh_preserveRequestUri := ri_preserveRequestUri p, rh_enabled := ri_enabled p,
     rh_certificateId := (case ri_certificateId p of None \<Rightarrow> rh_certificateId h | given \<Rightarrow> lowered given), rh_updatedAt := now\<rparr>"

definition createRedirectHostInTransaction :: "host_env \<Rightarrow> string \<Rightarrow> redirect_host_input \<Rightarrow> int \<Rightarrow> host_db \<Rightarrow>
    host_error + string \<times> host_db" where
  "createRedirectHostInTransaction env actorId input now db =
     andThen (parsed (createRedirectHostInputSchema env input)) (\<lambda>p.
     let domains = sort (ri_domains p); db0 = lockProxyRuntimeSettings db in
     andThen (requireActor db0 actorId REDIRECT_HOSTS_CREATE) (\<lambda>actor.
     andThen (requireWhen (ri_tagIds p \<noteq> None) db0 actorId REDIRECT_HOSTS_VIEW) (\<lambda>_.
     andThen (assertRedirectDomainsAvailable db0 domains None) (\<lambda>_.
     let hostId = hv_newId env (hb_nextId db0); row = newRedirectHost hostId p now in
     andThen (validateCertificate env (rh_certificateId row) False domains now db0) (\<lambda>db1.
     andThen (insertRedirectHost row (db1\<lparr>hb_nextId := Suc (hb_nextId db1)\<rparr>)) (\<lambda>db2.
     andThen (insertDomains (map (redirectDomainRow hostId) domains) db2) (\<lambda>db3.
     andThen (assignTagsFor env RedirectKind REDIRECT_HOSTS_VIEW actor hostId (ri_tagIds p) db3) (\<lambda>db4.
     Inr (hostId, db4)))))))))"

section \<open>Services\<close>

definition createRedirectHostService :: "host_env \<Rightarrow> current_session option \<Rightarrow> redirect_host_input \<Rightarrow> int \<Rightarrow> host_db \<Rightarrow>
    host_error + string \<times> host_db" where
  "createRedirectHostService env session input now db =
     andThen (actorOf session REDIRECT_HOSTS_CREATE) (\<lambda>actor.
       createRedirectHostInTransaction env (au_id actor) input now db)"

definition updateRedirectHostService :: "host_env \<Rightarrow> current_session option \<Rightarrow> redirect_host_input \<Rightarrow> int \<Rightarrow> host_db \<Rightarrow>
    host_error + string \<times> host_db" where
  "updateRedirectHostService env session input now db =
     andThen (parsed (updateRedirectHostInputSchema env input)) (\<lambda>p.
     let domains = sort (ri_domains p) in
     andThen (actorOf session REDIRECT_HOSTS_UPDATE) (\<lambda>actor.
     let actorId = au_id actor; db0 = lockProxyRuntimeSettings db in
     andThen (requireActor db0 actorId REDIRECT_HOSTS_UPDATE) (\<lambda>currentActor.
     andThen (requireWhen (ri_tagIds p \<noteq> None) db0 actorId REDIRECT_HOSTS_VIEW) (\<lambda>_.
     andThen (found (loadRedirectHostForUpdate db0 (ri_redirectHostId p))) (\<lambda>h.
     andThen (requireWhen (ri_enabled p \<noteq> rh_enabled h) db0 actorId
         (if ri_enabled p then REDIRECT_HOSTS_ENABLE else REDIRECT_HOSTS_DISABLE)) (\<lambda>_.
     andThen (assertRedirectDomainsAvailable db0 domains (Some (rh_id h))) (\<lambda>_.
     let new = changedRedirectHost h p now in
     andThen (validateCertificate env (rh_certificateId new) False domains now db0) (\<lambda>db1.
     andThen (updateRedirectHost new db1) (\<lambda>db2.
     andThen (replaceRedirectDomains (rh_id h) domains db2) (\<lambda>db3.
     andThen (assignTagsFor env RedirectKind REDIRECT_HOSTS_VIEW currentActor (rh_id h) (ri_tagIds p) db3) (\<lambda>db4.
     Inr (rh_id h, db4))))))))))))"

definition deleteRedirectHostRow :: "string \<Rightarrow> host_db \<Rightarrow> host_db" where
  "deleteRedirectHostRow hostId db = db\<lparr>
     hb_redirectHosts := filter (\<lambda>h. rh_id h \<noteq> hostId) (hb_redirectHosts db),
     hb_domains := filter (\<lambda>r. dr_redirectHostId r \<noteq> Some hostId) (hb_domains db)\<rparr>"

definition deleteRedirectHostService :: "host_env \<Rightarrow> current_session option \<Rightarrow> string \<Rightarrow> host_db \<Rightarrow>
    host_error + string \<times> host_db" where
  "deleteRedirectHostService env session redirectHostId db =
     andThen (parseHostId env redirectHostId) (\<lambda>i.
     andThen (actorOf session REDIRECT_HOSTS_DELETE) (\<lambda>actor.
     let db0 = lockProxyRuntimeSettings db in
     andThen (requireActor db0 (au_id actor) REDIRECT_HOSTS_DELETE) (\<lambda>_.
     andThen (found (loadRedirectHostForUpdate db0 i)) (\<lambda>h.
     andThen (assignHostTagsInTransaction env RedirectKind (rh_id h) (Some []) (deleteRedirectHostRow (rh_id h) db0)) (\<lambda>(_, db1).
     Inr (rh_id h, db1))))))"

definition setRedirectHostEnabledService :: "host_env \<Rightarrow> current_session option \<Rightarrow> string \<Rightarrow> bool \<Rightarrow> int \<Rightarrow> host_db \<Rightarrow>
    host_error + string \<times> host_db" where
  "setRedirectHostEnabledService env session redirectHostId enabled now db =
     andThen (parseHostId env redirectHostId) (\<lambda>i.
     let permission = (if enabled then REDIRECT_HOSTS_ENABLE else REDIRECT_HOSTS_DISABLE) in
     andThen (actorOf session permission) (\<lambda>actor.
     let db0 = lockProxyRuntimeSettings db in
     andThen (requireActor db0 (au_id actor) permission) (\<lambda>_.
     andThen (found (loadRedirectHostForUpdate db0 i)) (\<lambda>h.
     andThen (guardR (rh_enabled h \<noteq> enabled) HostStatusUnchanged) (\<lambda>_.
     let domains = loadRedirectHostDomainsInTransaction db0 (rh_id h) in
     andThen (if enabled then validateCertificate env (rh_certificateId h) False domains now db0 else Inr db0) (\<lambda>db1.
     andThen (updateRedirectHost (h\<lparr>rh_enabled := enabled, rh_updatedAt := now\<rparr>) db1) (\<lambda>db2.
     Inr (rh_id h, db2))))))))"

definition enableRedirectHostService :: "host_env \<Rightarrow> current_session option \<Rightarrow> string \<Rightarrow> int \<Rightarrow> host_db \<Rightarrow> host_error + string \<times> host_db" where
  "enableRedirectHostService env session redirectHostId now db = setRedirectHostEnabledService env session redirectHostId True now db"

definition disableRedirectHostService :: "host_env \<Rightarrow> current_session option \<Rightarrow> string \<Rightarrow> int \<Rightarrow> host_db \<Rightarrow> host_error + string \<times> host_db" where
  "disableRedirectHostService env session redirectHostId now db = setRedirectHostEnabledService env session redirectHostId False now db"

section \<open>Changes of labels\<close>

definition viewPermission :: "host_kind \<Rightarrow> permission_key" where
  "viewPermission kind = (case kind of ProxyKind \<Rightarrow> PROXY_HOSTS_VIEW | RedirectKind \<Rightarrow> REDIRECT_HOSTS_VIEW)"

definition updatePermission :: "host_kind \<Rightarrow> permission_key" where
  "updatePermission kind = (case kind of ProxyKind \<Rightarrow> PROXY_HOSTS_UPDATE | RedirectKind \<Rightarrow> REDIRECT_HOSTS_UPDATE)"

definition hostExists :: "host_db \<Rightarrow> host_kind \<Rightarrow> string \<Rightarrow> bool" where
  "hostExists db kind i = (case kind of
     ProxyKind \<Rightarrow> contains (map ph_id (hb_proxyHosts db)) (toLowerCase i)
   | RedirectKind \<Rightarrow> contains (map rh_id (hb_redirectHosts db)) (toLowerCase i))"

text \<open>The identifiers of a change in lower case; \<^term>\<open>None\<close> when the schema rejects the change.\<close>

definition hostTagMutationSchema :: "tag_formats \<Rightarrow> host_tag_action \<Rightarrow> host_tag_action option" where
  "hostTagMutationSchema tf action =
     (case action of
        CreateTag name color \<Rightarrow>
          (case (tn_name tf name, parsedColor color) of (Some n, Inr c) \<Rightarrow> Some (CreateTag n c) | _ \<Rightarrow> None)
      | RenameTag tagId name color \<Rightarrow>
          (case (tn_name tf name, parsedColor color) of
             (Some n, Inr c) \<Rightarrow> if tn_isUuid tf tagId then Some (RenameTag (toLowerCase tagId) n c) else None
           | _ \<Rightarrow> None)
      | DeleteTag tagId \<Rightarrow> if tn_isUuid tf tagId then Some (DeleteTag (toLowerCase tagId)) else None
      | AssignTags hostId tagIds expectedTagIds \<Rightarrow>
          (case (hostTagIdsSchema tf tagIds, hostTagIdsSchema tf expectedTagIds) of
             (Some is, Some es) \<Rightarrow> if tn_isUuid tf hostId then Some (AssignTags (toLowerCase hostId) is es) else None
           | _ \<Rightarrow> None))"

definition mutateHostTagService :: "host_env \<Rightarrow> current_session option \<Rightarrow> host_kind \<Rightarrow> int \<Rightarrow> host_tag_action \<Rightarrow> string \<Rightarrow> host_db \<Rightarrow>
    host_error + (int \<times> host_tag list) \<times> host_db" where
  "mutateHostTagService env session kind expectedRevision action createdId db =
     (if \<not> (0 \<le> expectedRevision \<and> isSafeInteger expectedRevision) then Inl (HostLabels TagInvalid)
      else (case hostTagMutationSchema (hv_tags env) action of
        None \<Rightarrow> Inl (HostLabels TagInvalid)
      | Some data \<Rightarrow>
          andThen (actorOf session (viewPermission kind)) (\<lambda>actor.
          if \<not> contains (au_permissions actor) (updatePermission kind) then Inl (HostAuth PermissionDenied)
          else
            let db0 = lockProxyRuntimeSettings db in
            andThen (requireActor db0 (au_id actor) (viewPermission kind)) (\<lambda>_.
            andThen (requireActor db0 (au_id actor) (updatePermission kind)) (\<lambda>_.
            if (case data of AssignTags hostId _ _ \<Rightarrow> \<not> hostExists db0 kind hostId | _ \<Rightarrow> False) then Inl (HostLabels TagMissing)
            else
              andThen (readHostTags env kind db0) (\<lambda>st.
              andThen (mapError HostLabels (mutateHostTags (hv_tags env) st expectedRevision data createdId)) (\<lambda>next.
              andThen (if next \<noteq> st then writeHostTags env kind next db0 else Inr db0) (\<lambda>db1.
              Inr ((gs_revision next, tn_byName (hv_tags env) (gs_tags next)), db1)))))))))"

definition getHostTagCatalogService :: "host_env \<Rightarrow> current_session option \<Rightarrow> host_kind \<Rightarrow> host_db \<Rightarrow> host_error + int \<times> host_tag list" where
  "getHostTagCatalogService env session kind db =
     andThen (actorOf session (viewPermission kind)) (\<lambda>actor.
     andThen (requireActor db (au_id actor) (viewPermission kind)) (\<lambda>_.
     andThen (readHostTags env kind db) (\<lambda>st.
     Inr (gs_revision st, tn_byName (hv_tags env) (gs_tags st)))))"

end
