(* ===== verification/HostSystem.thy ===== *)
theory HostSystem
  imports RedirectHosts
begin

text \<open>
  The hosts as a system: every service that changes them is a step, in any order, with the steps of the other components
  that share the tables (people and roles change, certificates and authorities come and go while no host uses them,
  Docker discovery takes hosts over and lets them go, monitoring works on its own tables). The invariant is what the
  running proxy is built from: each domain has exactly one host, and the host is there.
\<close>

section \<open>Steps\<close>

datatype host_event =
    ProxyHostCreated string string | ProxyHostUpdated string string | ProxyHostDeleted string string
  | ProxyHostSwitched string string | RedirectHostCreated string string | RedirectHostUpdated string string
  | RedirectHostDeleted string string | RedirectHostSwitched string string | LabelsChanged string | OthersChanged

text \<open>
  What other components change: the certificate of a host, its use and the switch of a host while its certificate is
  issued (certificate jobs and the removal of a certificate), never its domains or targets. What a host refers to
  stays (\<^verbatim>\<open>onDelete: 'restrict'\<close>) and the constraints of the tables hold for what they write.
\<close>

definition certificateEdit :: "proxy_host_row \<Rightarrow> proxy_host_row \<Rightarrow> bool" where
  "certificateEdit h h' \<longleftrightarrow> h' = h\<lparr>ph_certificateId := ph_certificateId h', ph_forceHttps := ph_forceHttps h',
     ph_enabled := ph_enabled h', ph_updatedAt := ph_updatedAt h'\<rparr>"

definition redirectCertificateEdit :: "redirect_host_row \<Rightarrow> redirect_host_row \<Rightarrow> bool" where
  "redirectCertificateEdit h h' \<longleftrightarrow> h' = h\<lparr>rh_certificateId := rh_certificateId h', rh_updatedAt := rh_updatedAt h'\<rparr>"

definition otherWrites :: "host_db \<Rightarrow> host_db \<Rightarrow> bool" where
  "otherWrites db db' \<longleftrightarrow> hb_domains db' = hb_domains db \<and>
     list_all2 certificateEdit (hb_proxyHosts db) (hb_proxyHosts db') \<and>
     list_all2 redirectCertificateEdit (hb_redirectHosts db) (hb_redirectHosts db') \<and>
     list_all (proxyHostChecks db') (hb_proxyHosts db') \<and> list_all (redirectHostChecks db') (hb_redirectHosts db')"

text \<open>
  The transactions of creating and changing a host are called by the services, by imports, by certificate jobs and by
  Docker discovery, the last with the key of the container that owns the host.
\<close>

inductive hostStep :: "host_env \<Rightarrow> host_db \<Rightarrow> host_event \<Rightarrow> host_db \<Rightarrow> bool" for env :: host_env where
  createProxy: "createProxyHostInTransaction env a input now db = Inr (i, db') \<Longrightarrow> hostStep env db (ProxyHostCreated a i) db'"
| updateProxy: "updateProxyHostInTransaction env a input key now db = Inr (i, db') \<Longrightarrow> hostStep env db (ProxyHostUpdated a i) db'"
| deleteProxy: "deleteProxyHostService env (Some s) hostId now db = Inr (i, db') \<Longrightarrow>
    hostStep env db (ProxyHostDeleted (au_id (cs_user s)) i) db'"
| switchProxy: "setProxyHostEnabledService env (Some s) hostId enabled now db = Inr (i, db') \<Longrightarrow>
    hostStep env db (ProxyHostSwitched (au_id (cs_user s)) i) db'"
| createRedirect: "createRedirectHostInTransaction env a rinput now db = Inr (i, db') \<Longrightarrow>
    hostStep env db (RedirectHostCreated a i) db'"
| updateRedirect: "updateRedirectHostService env (Some s) rinput now db = Inr (i, db') \<Longrightarrow>
    hostStep env db (RedirectHostUpdated (au_id (cs_user s)) i) db'"
| deleteRedirect: "deleteRedirectHostService env (Some s) hostId db = Inr (i, db') \<Longrightarrow>
    hostStep env db (RedirectHostDeleted (au_id (cs_user s)) i) db'"
| switchRedirect: "setRedirectHostEnabledService env (Some s) hostId enabled now db = Inr (i, db') \<Longrightarrow>
    hostStep env db (RedirectHostSwitched (au_id (cs_user s)) i) db'"
| labels: "mutateHostTagService env (Some s) kind revision action createdId db = Inr (r, db') \<Longrightarrow>
    hostStep env db (LabelsChanged (au_id (cs_user s))) db'"
| others: "otherWrites db db' \<Longrightarrow> hostStep env db OthersChanged db'"

definition hostInit :: "host_db \<Rightarrow> bool" where
  "hostInit db \<longleftrightarrow> hb_proxyHosts db = [] \<and> hb_redirectHosts db = [] \<and> hb_domains db = []"

section \<open>Frames\<close>

text \<open>
  What the operations on settings, labels, certificates and monitoring leave alone: the routing tables. Certificates
  keep their identifiers.
\<close>

definition sameRouting :: "host_db \<Rightarrow> host_db \<Rightarrow> bool" where
  "sameRouting db db' \<longleftrightarrow> hb_proxyHosts db' = hb_proxyHosts db \<and> hb_redirectHosts db' = hb_redirectHosts db \<and>
     hb_domains db' = hb_domains db \<and> map ce_id (hb_certificates db') = map ce_id (hb_certificates db) \<and>
     hb_trustedCas db' = hb_trustedCas db \<and> hb_accessPolicies db' = hb_accessPolicies db \<and>
     hb_identity db' = hb_identity db \<and> hb_discovery db' = hb_discovery db \<and> hb_nextId db' = hb_nextId db"

lemma sameRouting_refl [simp]: "sameRouting db db"
  by (simp add: sameRouting_def)

lemma sameRouting_trans [trans]: "sameRouting a b \<Longrightarrow> sameRouting b c \<Longrightarrow> sameRouting a c"
  by (simp add: sameRouting_def)

lemma lock_routing [simp]: "sameRouting db (lockProxyRuntimeSettings db)"
  by (simp add: sameRouting_def lockProxyRuntimeSettings_def)

lemma setSettings_routing [simp]: "sameRouting db (setSettings key http cache db)"
  by (simp add: sameRouting_def setSettings_def)

lemma writeHttp_routing: "writeProxyHostHttpSettings i s db = Inr db' \<Longrightarrow> sameRouting db db'"
  by (auto simp: writeProxyHostHttpSettings_def andThen_Inr_iff split: if_splits)

lemma writeCache_routing: "writeResponseCacheSettings i c db = Inr db' \<Longrightarrow> sameRouting db db'"
  by (auto simp: writeResponseCacheSettings_def andThen_Inr_iff split: if_splits)

lemma writeAuthorized_routing: "writeAuthorizedResponseCacheSettings a i c db = Inr db' \<Longrightarrow> sameRouting db db'"
  by (auto simp: writeAuthorizedResponseCacheSettings_def andThen_Inr_iff dest: writeCache_routing split: if_splits)

lemma optionalCache_routing: "writeOptionalCache a i c db = Inr db' \<Longrightarrow> sameRouting db db'"
  by (auto simp: writeOptionalCache_def dest: writeAuthorized_routing split: option.splits)

lemma browserCache_routing: "writeBrowserCache i b db = Inr db' \<Longrightarrow> sameRouting db db'"
  by (auto simp: writeBrowserCache_def andThen_Inr_iff dest: writeHttp_routing)

lemma compression_routing: "writeCompression a i c s db = Inr db' \<Longrightarrow> sameRouting db db'"
  by (auto simp: writeCompression_def andThen_Inr_iff dest: writeHttp_routing split: option.splits)

lemma writeTags_routing: "writeHostTags env kind st db = Inr db' \<Longrightarrow> sameRouting db db'"
  by (auto simp: writeHostTags_def sameRouting_def split: if_splits)

lemma assignTags_routing: "assignHostTagsInTransaction env kind i ids db = Inr (ts, db') \<Longrightarrow> sameRouting db db'"
  by (auto simp: assignHostTagsInTransaction_def andThen_Inr_iff dest: writeTags_routing split: option.splits if_splits)

lemma assignTagsFor_routing: "assignTagsFor env kind v actor i ids db = Inr db' \<Longrightarrow> sameRouting db db'"
  by (auto simp: assignTagsFor_def andThen_Inr_iff dest: assignTags_routing split: if_splits)

lemma certificate_routing: "validateCertificate env c f ds now db = Inr db' \<Longrightarrow> sameRouting db db'"
  by (auto simp: validateCertificate_def andThen_Inr_iff sameRouting_def dest: validate_ids)

lemma monitoring_routing: "invalidateMonitoring env i reason now db = Inr db' \<Longrightarrow> sameRouting db db'"
  by (auto simp: invalidateMonitoring_def andThen_Inr_iff sameRouting_def)

lemmas routing = lock_routing writeHttp_routing writeCache_routing optionalCache_routing browserCache_routing
  compression_routing writeTags_routing assignTags_routing assignTagsFor_routing certificate_routing monitoring_routing

section \<open>The invariant\<close>

text \<open>
  The constraints hold for every row, a domain is routed once, and every host has a domain.
\<close>

definition tablesOk :: "host_db \<Rightarrow> bool" where
  "tablesOk db \<longleftrightarrow>
     distinct (map ph_id (hb_proxyHosts db)) \<and> distinct (map rh_id (hb_redirectHosts db)) \<and>
     distinct (map dr_domain (hb_domains db)) \<and> (\<forall>r \<in> set (hb_domains db). domainChecks db r) \<and>
     (\<forall>h \<in> set (hb_proxyHosts db). proxyHostChecks db h) \<and> (\<forall>h \<in> set (hb_redirectHosts db). redirectHostChecks db h)"

definition allServed :: "host_db \<Rightarrow> bool" where
  "allServed db \<longleftrightarrow>
     (\<forall>h \<in> set (hb_proxyHosts db). \<exists>r \<in> set (hb_domains db). dr_proxyHostId r = Some (ph_id h)) \<and>
     (\<forall>h \<in> set (hb_redirectHosts db). \<exists>r \<in> set (hb_domains db). dr_redirectHostId r = Some (rh_id h))"

definition hostsOk :: "host_db \<Rightarrow> bool" where
  "hostsOk db \<longleftrightarrow> tablesOk db \<and> allServed db"

lemma hostsOk_init: "hostInit db \<Longrightarrow> hostsOk db"
  by (simp add: hostInit_def hostsOk_def tablesOk_def allServed_def)

lemma checks_routing:
  assumes "sameRouting db db'"
  shows "proxyHostChecks db' h = proxyHostChecks db h" "redirectHostChecks db' g = redirectHostChecks db g"
    "domainChecks db' r = domainChecks db r"
  using assms by (simp_all add: sameRouting_def proxyHostChecks_def redirectHostChecks_def domainChecks_def)

lemma tablesOk_routing: "sameRouting db db' \<Longrightarrow> tablesOk db' = tablesOk db"
  unfolding tablesOk_def by (simp add: checks_routing) (simp add: sameRouting_def)

lemma allServed_routing: "sameRouting db db' \<Longrightarrow> allServed db' = allServed db"
  by (simp add: allServed_def sameRouting_def)

section \<open>Writes of rows\<close>

lemma sync_fields [simp]:
  "hb_proxyHosts (syncMonitoring db) = hb_proxyHosts db" "hb_redirectHosts (syncMonitoring db) = hb_redirectHosts db"
  "hb_domains (syncMonitoring db) = hb_domains db" "hb_settings (syncMonitoring db) = hb_settings db"
  "hb_tags (syncMonitoring db) = hb_tags db" "hb_identity (syncMonitoring db) = hb_identity db"
  "hb_discovery (syncMonitoring db) = hb_discovery db" "hb_certificates (syncMonitoring db) = hb_certificates db"
  "hb_trustedCas (syncMonitoring db) = hb_trustedCas db" "hb_accessPolicies (syncMonitoring db) = hb_accessPolicies db"
  "hb_nextId (syncMonitoring db) = hb_nextId db"
  by (simp_all add: syncMonitoring_def)

definition sameReferences :: "host_db \<Rightarrow> host_db \<Rightarrow> bool" where
  "sameReferences db db' \<longleftrightarrow> map ce_id (hb_certificates db') = map ce_id (hb_certificates db) \<and>
     hb_trustedCas db' = hb_trustedCas db \<and> hb_accessPolicies db' = hb_accessPolicies db"

lemma checks_references:
  assumes "sameReferences db db'"
  shows "proxyHostChecks db' = proxyHostChecks db" "redirectHostChecks db' = redirectHostChecks db"
  using assms by (simp_all add: fun_eq_iff sameReferences_def proxyHostChecks_def redirectHostChecks_def)

text \<open>A domain needs the host it is routed to, and nothing else of the tables.\<close>

lemma domainChecks_hosts:
  "domainChecks db r \<longleftrightarrow> domainCanonicalCheck (dr_domain r) \<and> ((dr_proxyHostId r = None) \<noteq> (dr_redirectHostId r = None)) \<and>
     dr_proxyHostId r \<in> insert None (Some ` ph_id ` set (hb_proxyHosts db)) \<and>
     dr_redirectHostId r \<in> insert None (Some ` rh_id ` set (hb_redirectHosts db))"
  by (cases "dr_proxyHostId r"; cases "dr_redirectHostId r") (simp_all add: domainChecks_def whenPresent_def image_iff)

lemma domainChecks_grow:
  assumes "domainChecks db r" "ph_id ` set (hb_proxyHosts db) \<subseteq> ph_id ` set (hb_proxyHosts db')"
    "rh_id ` set (hb_redirectHosts db) \<subseteq> rh_id ` set (hb_redirectHosts db')"
  shows "domainChecks db' r"
proof -
  have "insert None (Some ` ph_id ` set (hb_proxyHosts db)) \<subseteq> insert None (Some ` ph_id ` set (hb_proxyHosts db'))"
    "insert None (Some ` rh_id ` set (hb_redirectHosts db)) \<subseteq> insert None (Some ` rh_id ` set (hb_redirectHosts db'))"
    using image_mono [OF assms(2), of Some] image_mono [OF assms(3), of Some] by (simp_all add: subset_insertI2)
  then show ?thesis using assms(1) unfolding domainChecks_hosts by (meson subsetD)
qed

lemma insertProxyHost_ok:
  assumes ok: "tablesOk db" and res: "insertProxyHost h db = Inr db'"
  shows "tablesOk db'" "hb_proxyHosts db' = hb_proxyHosts db @ [h]" "hb_redirectHosts db' = hb_redirectHosts db" "hb_domains db' = hb_domains db"
proof -
  from res have c: "proxyHostChecks db h" "ph_id h \<notin> set (map ph_id (hb_proxyHosts db))"
    and db': "db' = syncMonitoring (db\<lparr>hb_proxyHosts := hb_proxyHosts db @ [h]\<rparr>)"
    by (auto simp: insertProxyHost_def split: if_splits)
  have same: "sameReferences db db'" by (simp add: sameReferences_def db')
  show hosts: "hb_proxyHosts db' = hb_proxyHosts db @ [h]" "hb_redirectHosts db' = hb_redirectHosts db" "hb_domains db' = hb_domains db"
    by (simp_all add: db')
  have "domainChecks db' r" if "r \<in> set (hb_domains db)" for r
    using that ok domainChecks_grow [of db r db'] hosts by (auto simp: tablesOk_def)
  then show "tablesOk db'" using ok c unfolding tablesOk_def checks_references [OF same] hosts by simp
qed

lemma updateProxyHost_ok:
  assumes "tablesOk db" "updateProxyHost h db = Inr db'"
  shows "tablesOk db'" "map ph_id (hb_proxyHosts db') = map ph_id (hb_proxyHosts db)"
    "hb_redirectHosts db' = hb_redirectHosts db" "hb_domains db' = hb_domains db"
    "set (hb_proxyHosts db') \<subseteq> insert h (set (hb_proxyHosts db))"
proof -
  from assms(2) have c: "proxyHostChecks db h"
    and db': "db' = syncMonitoring (db\<lparr>hb_proxyHosts := map (\<lambda>x. if ph_id x = ph_id h then h else x) (hb_proxyHosts db)\<rparr>)"
    by (auto simp: updateProxyHost_def split: if_splits)
  show ids: "map ph_id (hb_proxyHosts db') = map ph_id (hb_proxyHosts db)" by (simp add: db')
  show rest: "hb_redirectHosts db' = hb_redirectHosts db" "hb_domains db' = hb_domains db"
    and sub: "set (hb_proxyHosts db') \<subseteq> insert h (set (hb_proxyHosts db))" by (auto simp: db')
  have checks: "proxyHostChecks db' x = proxyHostChecks db x" "redirectHostChecks db' g = redirectHostChecks db g"
    "domainChecks db' r = domainChecks db r" for x g r
    unfolding proxyHostChecks_def redirectHostChecks_def domainChecks_def ids by (simp_all add: db')
  have "\<forall>x \<in> set (hb_proxyHosts db'). proxyHostChecks db x" using sub assms(1) c by (auto simp: tablesOk_def)
  then show "tablesOk db'" using assms(1) unfolding tablesOk_def checks ids rest by blast
qed

lemma insertRedirectHost_ok:
  assumes ok: "tablesOk db" and res: "insertRedirectHost h db = Inr db'"
  shows "tablesOk db'" "hb_redirectHosts db' = hb_redirectHosts db @ [h]" "hb_proxyHosts db' = hb_proxyHosts db" "hb_domains db' = hb_domains db"
proof -
  from res have c: "redirectHostChecks db h" "rh_id h \<notin> set (map rh_id (hb_redirectHosts db))"
    and db': "db' = db\<lparr>hb_redirectHosts := hb_redirectHosts db @ [h]\<rparr>"
    by (auto simp: insertRedirectHost_def split: if_splits)
  have same: "sameReferences db db'" by (simp add: sameReferences_def db')
  show hosts: "hb_redirectHosts db' = hb_redirectHosts db @ [h]" "hb_proxyHosts db' = hb_proxyHosts db" "hb_domains db' = hb_domains db"
    by (simp_all add: db')
  have "domainChecks db' r" if "r \<in> set (hb_domains db)" for r
    using that ok domainChecks_grow [of db r db'] hosts by (auto simp: tablesOk_def)
  then show "tablesOk db'" using ok c unfolding tablesOk_def checks_references [OF same] hosts by simp
qed

lemma updateRedirectHost_ok:
  assumes "tablesOk db" "updateRedirectHost h db = Inr db'"
  shows "tablesOk db'" "map rh_id (hb_redirectHosts db') = map rh_id (hb_redirectHosts db)"
    "hb_proxyHosts db' = hb_proxyHosts db" "hb_domains db' = hb_domains db"
    "set (hb_redirectHosts db') \<subseteq> insert h (set (hb_redirectHosts db))"
proof -
  from assms(2) have c: "redirectHostChecks db h"
    and db': "db' = db\<lparr>hb_redirectHosts := map (\<lambda>x. if rh_id x = rh_id h then h else x) (hb_redirectHosts db)\<rparr>"
    by (auto simp: updateRedirectHost_def split: if_splits)
  show ids: "map rh_id (hb_redirectHosts db') = map rh_id (hb_redirectHosts db)" by (simp add: db')
  show rest: "hb_proxyHosts db' = hb_proxyHosts db" "hb_domains db' = hb_domains db"
    and sub: "set (hb_redirectHosts db') \<subseteq> insert h (set (hb_redirectHosts db))" by (auto simp: db')
  have checks: "proxyHostChecks db' x = proxyHostChecks db x" "redirectHostChecks db' g = redirectHostChecks db g"
    "domainChecks db' r = domainChecks db r" for x g r
    unfolding proxyHostChecks_def redirectHostChecks_def domainChecks_def ids by (simp_all add: db')
  have "\<forall>x \<in> set (hb_redirectHosts db'). redirectHostChecks db x" using sub assms(1) c by (auto simp: tablesOk_def)
  then show "tablesOk db'" using assms(1) unfolding tablesOk_def checks ids rest by blast
qed

lemma insertDomains_ok:
  assumes "insertDomains rows db = Inr db'"
  shows "tablesOk db \<Longrightarrow> tablesOk db'" "hb_domains db' = hb_domains db @ rows" "hb_proxyHosts db' = hb_proxyHosts db"
    "hb_redirectHosts db' = hb_redirectHosts db"
proof -
  from assms have c: "\<forall>r \<in> set rows. domainChecks db r" "distinct (map dr_domain (hb_domains db @ rows))"
    and db': "db' = syncMonitoring (db\<lparr>hb_domains := hb_domains db @ rows\<rparr>)"
    by (auto simp: insertDomains_def list_all_iff split: if_splits)
  have same: "sameReferences db db'" by (simp add: sameReferences_def db')
  show hosts: "hb_domains db' = hb_domains db @ rows" "hb_proxyHosts db' = hb_proxyHosts db"
    "hb_redirectHosts db' = hb_redirectHosts db" by (simp_all add: db')
  have "domainChecks db' = domainChecks db" by (simp add: fun_eq_iff domainChecks_def hosts)
  then show "tablesOk db'" if "tablesOk db"
    using that c unfolding tablesOk_def checks_references [OF same] hosts by (simp add: ball_Un)
qed

lemma filterDomains_ok:
  assumes "tablesOk db"
  shows "tablesOk (db\<lparr>hb_domains := filter P (hb_domains db)\<rparr>)"
proof -
  let ?db = "db\<lparr>hb_domains := filter P (hb_domains db)\<rparr>"
  have same: "sameReferences db ?db" by (simp add: sameReferences_def)
  have "domainChecks ?db = domainChecks db" by (simp add: fun_eq_iff domainChecks_def)
  then show ?thesis using assms unfolding tablesOk_def checks_references [OF same] by (simp add: distinct_map_filter)
qed

lemma deleteProxyHostRow_ok:
  assumes "tablesOk db"
  shows "tablesOk (deleteProxyHostRow i db)"
proof -
  let ?db = "deleteProxyHostRow i db"
  have same: "sameReferences db ?db" by (simp add: sameReferences_def deleteProxyHostRow_def)
  have "domainChecks ?db r" if "domainChecks db r" "dr_proxyHostId r \<noteq> Some i" for r
    using that unfolding domainChecks_hosts by (auto simp: deleteProxyHostRow_def)
  then show ?thesis using assms unfolding tablesOk_def checks_references [OF same]
    by (simp add: deleteProxyHostRow_def distinct_map_filter)
qed

lemma deleteRedirectHostRow_ok:
  assumes "tablesOk db"
  shows "tablesOk (deleteRedirectHostRow i db)"
proof -
  let ?db = "deleteRedirectHostRow i db"
  have same: "sameReferences db ?db" by (simp add: sameReferences_def deleteRedirectHostRow_def)
  have "domainChecks ?db r" if "domainChecks db r" "dr_redirectHostId r \<noteq> Some i" for r
    using that unfolding domainChecks_hosts by (auto simp: deleteRedirectHostRow_def)
  then show ?thesis using assms unfolding tablesOk_def checks_references [OF same]
    by (simp add: deleteRedirectHostRow_def distinct_map_filter)
qed


section \<open>Transactions as a whole\<close>

text \<open>
  Each transaction is a frame, a write of rows, and a frame; the permissions it asked for come with it.
\<close>

definition may :: "host_db \<Rightarrow> string \<Rightarrow> permission_key \<Rightarrow> bool" where
  "may db actorId permission \<longleftrightarrow> (\<exists>u. requirePermissionInTransaction (hb_identity db) actorId permission = Inr u)"

lemma requirePermission_may: "requireActor db a k = Inr u \<Longrightarrow> may db a k"
  by (auto simp: requireActor_def may_def)

lemma requireWhen_may: "requireWhen b db a k = Inr u \<Longrightarrow> b \<Longrightarrow> may db a k"
  by (auto simp: requireWhen_def andThen_Inr_iff dest: requirePermission_may)

lemma may_routing: "sameRouting db db' \<Longrightarrow> may db' a k = may db a k"
  by (simp add: may_def sameRouting_def)

lemma may_lock [simp]: "may (lockProxyRuntimeSettings db) a k = may db a k"
  by (simp add: may_def lockProxyRuntimeSettings_def)

lemma optionalBrowserCache_routing: "writeOptionalBrowserCache i b db = Inr db' \<Longrightarrow> sameRouting db db'"
  by (auto simp: writeOptionalBrowserCache_def dest: browserCache_routing split: option.splits)

lemma invalidateIfChanged_routing: "invalidateIfChanged env b h new now db = Inr db' \<Longrightarrow> sameRouting db db'"
  by (auto simp: invalidateIfChanged_def dest: monitoring_routing split: if_splits)

lemma beforeEnabling_routing: "validateBeforeEnabling env b h now db = Inr db' \<Longrightarrow> sameRouting db db'"
  by (auto simp: validateBeforeEnabling_def andThen_Inr_iff dest: certificate_routing split: if_splits)

lemma create_shape:
  assumes "createProxyHostInTransaction env a input now db = Inr (i, db')"
  obtains p tls actor dbA dbB dbC dbD dbE dbF where
    "createProxyHostInputSchema env input = Some p" "i = hv_newId env (hb_nextId db)" "may db a PROXY_HOSTS_CREATE"
    "lowered (pi_accessPolicyId p) \<noteq> None \<Longrightarrow> may db a ACCESS_POLICIES_ASSIGN"
    "normalizeUpstreamTlsSettings env p (orNull (pi_upstreamPool p)) None = Inr tls"
    "validateCertificate env (ph_certificateId (newProxyHost i p tls now)) (ph_forceHttps (newProxyHost i p tls now))
       (sort (pi_domains p)) now (lockProxyRuntimeSettings db) = Inr dbA"
    "insertProxyHost (newProxyHost i p tls now) (dbA\<lparr>hb_nextId := Suc (hb_nextId dbA)\<rparr>) = Inr dbB"
    "writeProxyHostHttpSettings i (emptyHttpSettings\<lparr>hh_responseCompression := orNull (pi_responseCompression p)\<rparr>) dbB = Inr dbC"
    "insertDomains (map (proxyDomainRow i) (sort (pi_domains p))) dbC = Inr dbD"
    "writeOptionalCache a i (pi_responseCache p) dbD = Inr dbE"
    "assignTagsFor env ProxyKind PROXY_HOSTS_VIEW actor i (pi_tagIds p) dbE = Inr dbF"
    "writeOptionalBrowserCache i (pi_browserCache p) dbF = Inr db'"
proof -
  let ?db = "lockProxyRuntimeSettings db"
  have fresh: "hb_nextId ?db = hb_nextId db" by (simp add: lockProxyRuntimeSettings_def)
  from assms obtain p actor u tls dbA dbB dbC dbD dbE dbF where
    p: "createProxyHostInputSchema env input = Some p" and i: "i = hv_newId env (hb_nextId ?db)"
    and actor: "requireActor ?db a PROXY_HOSTS_CREATE = Inr actor"
    and policy: "requireWhen (lowered (pi_accessPolicyId p) \<noteq> None) ?db a ACCESS_POLICIES_ASSIGN = Inr u"
    and rest: "normalizeUpstreamTlsSettings env p (orNull (pi_upstreamPool p)) None = Inr tls"
      "validateCertificate env (ph_certificateId (newProxyHost i p tls now)) (ph_forceHttps (newProxyHost i p tls now))
        (sort (pi_domains p)) now ?db = Inr dbA"
      "insertProxyHost (newProxyHost i p tls now) (dbA\<lparr>hb_nextId := Suc (hb_nextId dbA)\<rparr>) = Inr dbB"
      "writeProxyHostHttpSettings i (emptyHttpSettings\<lparr>hh_responseCompression := orNull (pi_responseCompression p)\<rparr>) dbB = Inr dbC"
      "insertDomains (map (proxyDomainRow i) (sort (pi_domains p))) dbC = Inr dbD"
      "writeOptionalCache a i (pi_responseCache p) dbD = Inr dbE"
      "assignTagsFor env ProxyKind PROXY_HOSTS_VIEW actor i (pi_tagIds p) dbE = Inr dbF"
      "writeOptionalBrowserCache i (pi_browserCache p) dbF = Inr db'"
    by (auto simp: createProxyHostInTransaction_def Let_def andThen_Inr_iff)
  have m: "may db a PROXY_HOSTS_CREATE" using requirePermission_may [OF actor] by simp
  have q: "lowered (pi_accessPolicyId p) \<noteq> None \<Longrightarrow> may db a ACCESS_POLICIES_ASSIGN" using requireWhen_may [OF policy] by simp
  show thesis by (rule that [OF p i [unfolded fresh] m q rest])
qed

lemma update_shape:
  assumes "updateProxyHostInTransaction env a input key now db = Inr (i, db')"
  obtains p h oldPool tls settings actor dbA dbB dbC dbD dbE dbF dbG where
    "updateProxyHostInputSchema env input = Some p" "loadProxyHostForUpdate db (pi_proxyHostId p) = Some h" "i = ph_id h"
    "assertDiscoveryHostEditable db (pi_proxyHostId p) key = Inr ()"
    "may db a PROXY_HOSTS_UPDATE" "pi_browserCache p \<noteq> None \<Longrightarrow> may db a PROXY_HOSTS_APPLY" "pi_tagIds p \<noteq> None \<Longrightarrow> may db a PROXY_HOSTS_VIEW"
    "pi_enabled p \<noteq> ph_enabled h \<Longrightarrow> may db a (if pi_enabled p then PROXY_HOSTS_ENABLE else PROXY_HOSTS_DISABLE)"
    "storedPool env h = Inr oldPool"
    "validateUpstreamPoolPrimary (effectivePool p oldPool) (pi_forwardHost p) (pi_forwardPort p)"
    "normalizeUpstreamTlsSettings env p (effectivePool p oldPool) (Some h) = Inr tls"
    "checkAccessPolicy a h (pi_accessPolicyId p) (ph_accessPolicyId (changedProxyHost h p (effectivePool p oldPool) tls now)) (lockProxyRuntimeSettings db) = Inr ()"
    "validateCertificate env (ph_certificateId (changedProxyHost h p (effectivePool p oldPool) tls now)) (ph_forceHttps (changedProxyHost h p (effectivePool p oldPool) tls now))
       (sort (pi_domains p)) now (lockProxyRuntimeSettings db) = Inr dbA"
    "updateProxyHost (changedProxyHost h p (effectivePool p oldPool) tls now) dbA = Inr dbB"
    "readProxyHostHttpSettings dbB i = Inr settings" "writeCompression a i (pi_responseCompression p) settings dbB = Inr dbC"
    "replaceDomainsInTransaction i (sort (pi_domains p)) dbC = Inr dbD"
    "invalidateIfChanged env (availabilityChanged h oldPool (map dr_domain (filter (\<lambda>r. dr_proxyHostId r = Some i) (hb_domains dbA)))
       (changedProxyHost h p (effectivePool p oldPool) tls now) (sort (pi_domains p))) h (changedProxyHost h p (effectivePool p oldPool) tls now) now dbD = Inr dbE"
    "writeOptionalCache a i (pi_responseCache p) dbE = Inr dbF"
    "assignTagsFor env ProxyKind PROXY_HOSTS_VIEW actor i (pi_tagIds p) dbF = Inr dbG"
    "writeOptionalBrowserCache i (if pi_browserCache p = hh_browserCache settings then None else pi_browserCache p) dbG = Inr db'"
proof -
  let ?db = "lockProxyRuntimeSettings db"
  have same: "loadProxyHostForUpdate ?db x = loadProxyHostForUpdate db x" "assertDiscoveryHostEditable ?db x k = assertDiscoveryHostEditable db x k" for x k
    by (simp_all add: loadProxyHostForUpdate_def assertDiscoveryHostEditable_def lockProxyRuntimeSettings_def)
  from assms obtain p h oldPool tls settings actor dbA dbB dbC dbD dbE dbF dbG u1 u2 u3 where
    p: "updateProxyHostInputSchema env input = Some p" and h: "loadProxyHostForUpdate ?db (pi_proxyHostId p) = Some h" "i = ph_id h"
    and disc: "assertDiscoveryHostEditable ?db (pi_proxyHostId p) key = Inr ()"
    and req: "requireActor ?db a PROXY_HOSTS_UPDATE = Inr actor" "requireWhen (pi_browserCache p \<noteq> None) ?db a PROXY_HOSTS_APPLY = Inr u1"
      "requireWhen (pi_tagIds p \<noteq> None) ?db a PROXY_HOSTS_VIEW = Inr u2"
      "requireWhen (pi_enabled p \<noteq> ph_enabled h) ?db a (if pi_enabled p then PROXY_HOSTS_ENABLE else PROXY_HOSTS_DISABLE) = Inr u3"
    and rest: "storedPool env h = Inr oldPool"
    "validateUpstreamPoolPrimary (effectivePool p oldPool) (pi_forwardHost p) (pi_forwardPort p)"
    "normalizeUpstreamTlsSettings env p (effectivePool p oldPool) (Some h) = Inr tls"
    "checkAccessPolicy a h (pi_accessPolicyId p) (ph_accessPolicyId (changedProxyHost h p (effectivePool p oldPool) tls now)) ?db = Inr ()"
    "validateCertificate env (ph_certificateId (changedProxyHost h p (effectivePool p oldPool) tls now)) (ph_forceHttps (changedProxyHost h p (effectivePool p oldPool) tls now))
       (sort (pi_domains p)) now ?db = Inr dbA"
    "updateProxyHost (changedProxyHost h p (effectivePool p oldPool) tls now) dbA = Inr dbB"
    "readProxyHostHttpSettings dbB i = Inr settings" "writeCompression a i (pi_responseCompression p) settings dbB = Inr dbC"
    "replaceDomainsInTransaction i (sort (pi_domains p)) dbC = Inr dbD"
    "invalidateIfChanged env (availabilityChanged h oldPool (map dr_domain (filter (\<lambda>r. dr_proxyHostId r = Some i) (hb_domains dbA)))
       (changedProxyHost h p (effectivePool p oldPool) tls now) (sort (pi_domains p))) h (changedProxyHost h p (effectivePool p oldPool) tls now) now dbD = Inr dbE"
    "writeOptionalCache a i (pi_responseCache p) dbE = Inr dbF"
    "assignTagsFor env ProxyKind PROXY_HOSTS_VIEW actor i (pi_tagIds p) dbF = Inr dbG"
    "writeOptionalBrowserCache i (if pi_browserCache p = hh_browserCache settings then None else pi_browserCache p) dbG = Inr db'"
    by (auto simp: updateProxyHostInTransaction_def Let_def andThen_Inr_iff)
  have m: "may db a PROXY_HOSTS_UPDATE" "pi_browserCache p \<noteq> None \<Longrightarrow> may db a PROXY_HOSTS_APPLY" "pi_tagIds p \<noteq> None \<Longrightarrow> may db a PROXY_HOSTS_VIEW"
    "pi_enabled p \<noteq> ph_enabled h \<Longrightarrow> may db a (if pi_enabled p then PROXY_HOSTS_ENABLE else PROXY_HOSTS_DISABLE)"
    using requirePermission_may [OF req(1)] requireWhen_may [OF req(2)] requireWhen_may [OF req(3)] requireWhen_may [OF req(4)] by auto
  show thesis by (rule that [OF p h [unfolded same] disc [unfolded same] m rest])
qed

end
