(* ===== verification/HostInvariant.thy ===== *)
theory HostInvariant
  imports HostSystem
begin

text \<open>
  Every service keeps the routing tables in order: the rest of the services in the form of \<open>HostSystem\<close>, and the invariant
  by cases on the step.
\<close>

section \<open>The other services\<close>

lemma actorOf_id: "actorOf (Some s) k = Inr u \<Longrightarrow> u = cs_user s"
  by (auto simp: actorOf_def requirePermissionService_def split: if_splits)

lemma load_lock [simp]:
  "loadProxyHostForUpdate (lockProxyRuntimeSettings db) x = loadProxyHostForUpdate db x"
  "loadRedirectHostForUpdate (lockProxyRuntimeSettings db) x = loadRedirectHostForUpdate db x"
  by (simp_all add: loadProxyHostForUpdate_def loadRedirectHostForUpdate_def lockProxyRuntimeSettings_def)

lemma delete_shape:
  assumes "deleteProxyHostService env (Some s) hostId now db = Inr (i, db')"
  obtains h dbA where "loadProxyHostForUpdate db hostId = Some h" "i = ph_id h" "may db (au_id (cs_user s)) PROXY_HOSTS_DELETE"
    "sameRouting db dbA" "assertDiscoveryHostEditable dbA i None = Inr ()" "sameRouting (deleteProxyHostRow i dbA) db'"
proof -
  let ?db = "lockProxyRuntimeSettings db"
  from assms obtain u v h dbA dbB dbC ts where u: "actorOf (Some s) PROXY_HOSTS_DELETE = Inr u"
    and v: "requireActor ?db (au_id u) PROXY_HOSTS_DELETE = Inr v"
    and h: "loadProxyHostForUpdate db hostId = Some h" "i = ph_id h"
    and A: "writeProxyHostHttpSettings i emptyHttpSettings ?db = Inr dbA" and B: "writeResponseCacheSettings i None dbA = Inr dbB"
    and disc: "assertDiscoveryHostEditable dbB i None = Inr ()"
    and C: "assignHostTagsInTransaction env ProxyKind i (Some []) dbB = Inr (ts, dbC)"
    and D: "invalidateMonitoring env i PolicyChanged now (deleteProxyHostRow i dbC) = Inr db'"
    by (auto simp: deleteProxyHostService_def parseHostId_def Let_def andThen_Inr_iff split: if_splits prod.splits)
  have BC: "sameRouting dbB dbC" by (rule assignTags_routing [OF C])
  have "assertDiscoveryHostEditable dbC i None = Inr ()"
    using disc BC by (simp add: assertDiscoveryHostEditable_def sameRouting_def)
  moreover have "sameRouting db dbC"
    using writeHttp_routing [OF A] writeCache_routing [OF B] BC lock_routing by (blast intro: sameRouting_trans)
  ultimately show thesis
    using that [OF h _ _ _ monitoring_routing [OF D]] requirePermission_may [OF v] actorOf_id [OF u] by simp
qed

lemma switch_shape:
  assumes "setProxyHostEnabledService env (Some s) hostId enabled now db = Inr (i, db')"
  obtains h dbA dbB where "loadProxyHostForUpdate db hostId = Some h" "i = ph_id h" "ph_enabled h \<noteq> enabled"
    "may db (au_id (cs_user s)) (if enabled then PROXY_HOSTS_ENABLE else PROXY_HOSTS_DISABLE)"
    "validateBeforeEnabling env enabled h now (lockProxyRuntimeSettings db) = Inr dbA"
    "updateProxyHost (h\<lparr>ph_enabled := enabled, ph_updatedAt := now\<rparr>) dbA = Inr dbB"
    "(if enabled then Inr dbB else invalidateMonitoring env i MonitoringDisabled now dbB) = Inr db'"
proof -
  let ?db = "lockProxyRuntimeSettings db" and ?k = "if enabled then PROXY_HOSTS_ENABLE else PROXY_HOSTS_DISABLE"
  from assms obtain u v h dbA dbB where u: "actorOf (Some s) ?k = Inr u" and v: "requireActor ?db (au_id u) ?k = Inr v"
    and h: "loadProxyHostForUpdate db hostId = Some h" "i = ph_id h" "ph_enabled h \<noteq> enabled"
    and A: "validateBeforeEnabling env enabled h now ?db = Inr dbA"
    and B: "updateProxyHost (h\<lparr>ph_enabled := enabled, ph_updatedAt := now\<rparr>) dbA = Inr dbB"
    and C: "(if enabled then Inr dbB else invalidateMonitoring env i MonitoringDisabled now dbB) = Inr db'"
    unfolding setProxyHostEnabledService_def parseHostId_def Let_def andThen_Inr_iff found_Inr guardR_Inr_iff
    by (auto split: if_splits)
  show thesis using that [OF h _ A B C] requirePermission_may [OF v] actorOf_id [OF u] by simp
qed

lemma createRedirect_shape:
  assumes "createRedirectHostInTransaction env a input now db = Inr (i, db')"
  obtains p dbA dbB dbC where "createRedirectHostInputSchema env input = Some p" "may db a REDIRECT_HOSTS_CREATE"
    "sameRouting db dbA" "insertRedirectHost (newRedirectHost i p now) (dbA\<lparr>hb_nextId := Suc (hb_nextId dbA)\<rparr>) = Inr dbB"
    "insertDomains (map (redirectDomainRow i) (sort (ri_domains p))) dbB = Inr dbC" "sameRouting dbC db'"
proof -
  let ?db = "lockProxyRuntimeSettings db"
  from assms obtain p actor dbA dbB dbC where p: "createRedirectHostInputSchema env input = Some p"
    and actor: "requireActor ?db a REDIRECT_HOSTS_CREATE = Inr actor"
    and cert: "validateCertificate env (rh_certificateId (newRedirectHost i p now)) False (sort (ri_domains p)) now ?db = Inr dbA"
    and row: "insertRedirectHost (newRedirectHost i p now) (dbA\<lparr>hb_nextId := Suc (hb_nextId dbA)\<rparr>) = Inr dbB"
    and doms: "insertDomains (map (redirectDomainRow i) (sort (ri_domains p))) dbB = Inr dbC"
    and tags: "assignTagsFor env RedirectKind REDIRECT_HOSTS_VIEW actor i (ri_tagIds p) dbC = Inr db'"
    by (auto simp: createRedirectHostInTransaction_def Let_def andThen_Inr_iff)
  show thesis
    using that [OF p _ _ row doms assignTagsFor_routing [OF tags]] requirePermission_may [OF actor]
      sameRouting_trans [OF lock_routing certificate_routing [OF cert]] by simp
qed

lemma updateRedirect_shape:
  assumes "updateRedirectHostService env (Some s) input now db = Inr (i, db')"
  obtains p h dbA dbB dbC where "updateRedirectHostInputSchema env input = Some p"
    "loadRedirectHostForUpdate db (ri_redirectHostId p) = Some h" "i = rh_id h" "may db (au_id (cs_user s)) REDIRECT_HOSTS_UPDATE"
    "ri_enabled p \<noteq> rh_enabled h \<Longrightarrow>
       may db (au_id (cs_user s)) (if ri_enabled p then REDIRECT_HOSTS_ENABLE else REDIRECT_HOSTS_DISABLE)"
    "sameRouting db dbA" "updateRedirectHost (changedRedirectHost h p now) dbA = Inr dbB"
    "replaceRedirectDomains i (sort (ri_domains p)) dbB = Inr dbC" "sameRouting dbC db'"
proof -
  let ?db = "lockProxyRuntimeSettings db"
  from assms obtain p u actor h w dbA dbB dbC where p: "updateRedirectHostInputSchema env input = Some p"
    and u: "actorOf (Some s) REDIRECT_HOSTS_UPDATE = Inr u" and actor: "requireActor ?db (au_id u) REDIRECT_HOSTS_UPDATE = Inr actor"
    and h: "loadRedirectHostForUpdate db (ri_redirectHostId p) = Some h" "i = rh_id h"
    and sw: "requireWhen (ri_enabled p \<noteq> rh_enabled h) ?db (au_id u)
      (if ri_enabled p then REDIRECT_HOSTS_ENABLE else REDIRECT_HOSTS_DISABLE) = Inr w"
    and cert: "validateCertificate env (rh_certificateId (changedRedirectHost h p now)) False (sort (ri_domains p)) now ?db = Inr dbA"
    and row: "updateRedirectHost (changedRedirectHost h p now) dbA = Inr dbB"
    and doms: "replaceRedirectDomains i (sort (ri_domains p)) dbB = Inr dbC"
    and tags: "assignTagsFor env RedirectKind REDIRECT_HOSTS_VIEW actor i (ri_tagIds p) dbC = Inr db'"
    by (auto simp: updateRedirectHostService_def Let_def andThen_Inr_iff)
  have "may db (au_id (cs_user s)) (if ri_enabled p then REDIRECT_HOSTS_ENABLE else REDIRECT_HOSTS_DISABLE)" if "ri_enabled p \<noteq> rh_enabled h"
    using requireWhen_may [OF sw that] actorOf_id [OF u] by simp
  then show thesis
    using that [OF p h _ _ _ row doms assignTagsFor_routing [OF tags]] requirePermission_may [OF actor] actorOf_id [OF u]
      sameRouting_trans [OF lock_routing certificate_routing [OF cert]] by simp
qed

lemma deleteRedirect_shape:
  assumes "deleteRedirectHostService env (Some s) hostId db = Inr (i, db')"
  obtains h dbA where "loadRedirectHostForUpdate db hostId = Some h" "i = rh_id h" "may db (au_id (cs_user s)) REDIRECT_HOSTS_DELETE"
    "sameRouting db dbA" "sameRouting (deleteRedirectHostRow i dbA) db'"
proof -
  let ?db = "lockProxyRuntimeSettings db"
  from assms obtain u v h ts where u: "actorOf (Some s) REDIRECT_HOSTS_DELETE = Inr u"
    and v: "requireActor ?db (au_id u) REDIRECT_HOSTS_DELETE = Inr v"
    and h: "loadRedirectHostForUpdate db hostId = Some h" "i = rh_id h"
    and A: "assignHostTagsInTransaction env RedirectKind i (Some []) (deleteRedirectHostRow i ?db) = Inr (ts, db')"
    by (auto simp: deleteRedirectHostService_def parseHostId_def Let_def andThen_Inr_iff split: if_splits prod.splits)
  show thesis using that [OF h _ lock_routing assignTags_routing [OF A]] requirePermission_may [OF v] actorOf_id [OF u] by simp
qed

lemma switchRedirect_shape:
  assumes "setRedirectHostEnabledService env (Some s) hostId enabled now db = Inr (i, db')"
  obtains h dbA where "loadRedirectHostForUpdate db hostId = Some h" "i = rh_id h"
    "may db (au_id (cs_user s)) (if enabled then REDIRECT_HOSTS_ENABLE else REDIRECT_HOSTS_DISABLE)" "sameRouting db dbA"
    "updateRedirectHost (h\<lparr>rh_enabled := enabled, rh_updatedAt := now\<rparr>) dbA = Inr db'"
proof -
  let ?db = "lockProxyRuntimeSettings db" and ?k = "if enabled then REDIRECT_HOSTS_ENABLE else REDIRECT_HOSTS_DISABLE"
  from assms obtain u v h dbA where u: "actorOf (Some s) ?k = Inr u" and v: "requireActor ?db (au_id u) ?k = Inr v"
    and h: "loadRedirectHostForUpdate db hostId = Some h" "i = rh_id h"
    and A: "(if enabled then validateCertificate env (rh_certificateId h) False (loadRedirectHostDomainsInTransaction ?db (rh_id h)) now ?db
      else Inr ?db) = Inr dbA"
    and B: "updateRedirectHost (h\<lparr>rh_enabled := enabled, rh_updatedAt := now\<rparr>) dbA = Inr db'"
    unfolding setRedirectHostEnabledService_def parseHostId_def Let_def andThen_Inr_iff found_Inr guardR_Inr_iff
    by (auto split: if_splits)
  have "sameRouting ?db dbA" using A by (auto dest: certificate_routing split: if_splits)
  then have "sameRouting db dbA" by (rule sameRouting_trans [OF lock_routing])
  then show thesis using that [OF h _ _ B] requirePermission_may [OF v] actorOf_id [OF u] by simp
qed

lemma labels_shape:
  assumes "mutateHostTagService env (Some s) kind revision action createdId db = Inr (r, db')"
  shows "sameRouting db db'" "may db (au_id (cs_user s)) (viewPermission kind)" "may db (au_id (cs_user s)) (updatePermission kind)"
proof -
  let ?db = "lockProxyRuntimeSettings db"
  from assms obtain u v w st where u: "actorOf (Some s) (viewPermission kind) = Inr u"
    and v: "requireActor ?db (au_id u) (viewPermission kind) = Inr v"
    and w: "requireActor ?db (au_id u) (updatePermission kind) = Inr w"
    and db': "writeHostTags env kind st ?db = Inr db' \<or> db' = ?db"
    unfolding mutateHostTagService_def Let_def by (auto simp: andThen_Inr_iff split: if_splits option.splits)
  show "sameRouting db db'" using db' sameRouting_trans [OF lock_routing writeTags_routing] by auto
  show "may db (au_id (cs_user s)) (viewPermission kind)" "may db (au_id (cs_user s)) (updatePermission kind)"
    using requirePermission_may [OF v] requirePermission_may [OF w] actorOf_id [OF u] by simp_all
qed

section \<open>Every host keeps a domain\<close>

lemma create_domains: "createProxyHostInputSchema env input = Some p \<Longrightarrow> pi_domains p \<noteq> []"
  by (auto simp: createProxyHostInputSchema_def proxyHostInputSchema_def proxyHostDomainsSchema_def split: option.splits if_splits)

lemma update_domains: "updateProxyHostInputSchema env input = Some p \<Longrightarrow> pi_domains p \<noteq> []"
  by (auto simp: updateProxyHostInputSchema_def proxyHostInputSchema_def proxyHostDomainsSchema_def split: option.splits if_splits)

lemma createRedirect_domains: "createRedirectHostInputSchema env input = Some p \<Longrightarrow> ri_domains p \<noteq> []"
  by (auto simp: createRedirectHostInputSchema_def redirectHostDomainsSchema_def split: option.splits if_splits)

lemma updateRedirect_domains: "updateRedirectHostInputSchema env input = Some p \<Longrightarrow> ri_domains p \<noteq> []"
  by (auto simp: updateRedirectHostInputSchema_def dest: createRedirect_domains split: if_splits)

lemma sort_nonempty [simp]: "sort xs = [] \<longleftrightarrow> xs = []"
  by (metis length_0_conv length_sort)

lemma row_fields [simp]:
  "dr_proxyHostId (proxyDomainRow i d) = Some i" "dr_redirectHostId (proxyDomainRow i d) = None" "dr_domain (proxyDomainRow i d) = d"
  "dr_proxyHostId (redirectDomainRow i d) = None" "dr_redirectHostId (redirectDomainRow i d) = Some i" "dr_domain (redirectDomainRow i d) = d"
  by (simp_all add: proxyDomainRow_def redirectDomainRow_def)

lemma one_owner: "tablesOk db \<Longrightarrow> r \<in> set (hb_domains db) \<Longrightarrow> dr_redirectHostId r = Some k \<Longrightarrow> dr_proxyHostId r = None"
  "tablesOk db \<Longrightarrow> r \<in> set (hb_domains db) \<Longrightarrow> dr_proxyHostId r = Some k \<Longrightarrow> dr_redirectHostId r = None"
  by (auto simp: tablesOk_def domainChecks_def)

lemma servedD:
  "allServed db \<Longrightarrow> k \<in> ph_id ` set (hb_proxyHosts db) \<Longrightarrow> \<exists>r \<in> set (hb_domains db). dr_proxyHostId r = Some k"
  "allServed db \<Longrightarrow> k \<in> rh_id ` set (hb_redirectHosts db) \<Longrightarrow> \<exists>r \<in> set (hb_domains db). dr_redirectHostId r = Some k"
  by (auto simp: allServed_def)

lemma servedI:
  "(\<And>k. k \<in> ph_id ` set (hb_proxyHosts db) \<Longrightarrow> \<exists>r \<in> set (hb_domains db). dr_proxyHostId r = Some k) \<Longrightarrow>
   (\<And>k. k \<in> rh_id ` set (hb_redirectHosts db) \<Longrightarrow> \<exists>r \<in> set (hb_domains db). dr_redirectHostId r = Some k) \<Longrightarrow> allServed db"
  by (simp add: allServed_def)

lemma served_append:
  assumes "allServed db" "hb_domains db' = hb_domains db @ rows"
    "ph_id ` set (hb_proxyHosts db') \<subseteq> ph_id ` set (hb_proxyHosts db) \<union> {k. \<exists>r \<in> set rows. dr_proxyHostId r = Some k}"
    "rh_id ` set (hb_redirectHosts db') \<subseteq> rh_id ` set (hb_redirectHosts db) \<union> {k. \<exists>r \<in> set rows. dr_redirectHostId r = Some k}"
  shows "allServed db'"
proof (rule servedI)
  fix k assume "k \<in> ph_id ` set (hb_proxyHosts db')"
  with assms(3) have "k \<in> ph_id ` set (hb_proxyHosts db) \<or> (\<exists>r \<in> set rows. dr_proxyHostId r = Some k)" by (auto dest!: subsetD)
  with servedD(1) [OF assms(1), of k] show "\<exists>r \<in> set (hb_domains db'). dr_proxyHostId r = Some k" unfolding assms(2) set_append by blast
next
  fix k assume "k \<in> rh_id ` set (hb_redirectHosts db')"
  with assms(4) have "k \<in> rh_id ` set (hb_redirectHosts db) \<or> (\<exists>r \<in> set rows. dr_redirectHostId r = Some k)" by (auto dest!: subsetD)
  with servedD(2) [OF assms(1), of k] show "\<exists>r \<in> set (hb_domains db'). dr_redirectHostId r = Some k" unfolding assms(2) set_append by blast
qed

lemma served_replace:
  assumes "allServed db" "tablesOk db" "ph_id ` set (hb_proxyHosts db') = ph_id ` set (hb_proxyHosts db)"
    "hb_redirectHosts db' = hb_redirectHosts db" "ds \<noteq> []"
    "hb_domains db' = filter (\<lambda>r. dr_proxyHostId r \<noteq> Some i) (hb_domains db) @ map (proxyDomainRow i) ds"
  shows "allServed db'"
proof (rule servedI)
  fix k assume "k \<in> ph_id ` set (hb_proxyHosts db')"
  then obtain r where r: "r \<in> set (hb_domains db)" "dr_proxyHostId r = Some k" using assms(3) servedD(1) [OF assms(1)] by metis
  show "\<exists>r \<in> set (hb_domains db'). dr_proxyHostId r = Some k"
  proof (cases "k = i")
    case True
    with assms(5,6) show ?thesis by (cases ds) auto
  qed (use r assms(6) in auto)
next
  fix k assume "k \<in> rh_id ` set (hb_redirectHosts db')"
  then obtain r where r: "r \<in> set (hb_domains db)" "dr_redirectHostId r = Some k" using assms(4) servedD(2) [OF assms(1)] by metis
  from one_owner(1) [OF assms(2) this] r assms(6) show "\<exists>r \<in> set (hb_domains db'). dr_redirectHostId r = Some k" by auto
qed

lemma served_replace_redirect:
  assumes "allServed db" "tablesOk db" "rh_id ` set (hb_redirectHosts db') = rh_id ` set (hb_redirectHosts db)"
    "hb_proxyHosts db' = hb_proxyHosts db" "ds \<noteq> []"
    "hb_domains db' = filter (\<lambda>r. dr_redirectHostId r \<noteq> Some i) (hb_domains db) @ map (redirectDomainRow i) ds"
  shows "allServed db'"
proof (rule servedI)
  fix k assume "k \<in> rh_id ` set (hb_redirectHosts db')"
  then obtain r where r: "r \<in> set (hb_domains db)" "dr_redirectHostId r = Some k" using assms(3) servedD(2) [OF assms(1)] by metis
  show "\<exists>r \<in> set (hb_domains db'). dr_redirectHostId r = Some k"
  proof (cases "k = i")
    case True
    with assms(5,6) show ?thesis by (cases ds) auto
  qed (use r assms(6) in auto)
next
  fix k assume "k \<in> ph_id ` set (hb_proxyHosts db')"
  then obtain r where r: "r \<in> set (hb_domains db)" "dr_proxyHostId r = Some k" using assms(4) servedD(1) [OF assms(1)] by metis
  from one_owner(2) [OF assms(2) this] r assms(6) show "\<exists>r \<in> set (hb_domains db'). dr_proxyHostId r = Some k" by auto
qed

lemma served_delete:
  assumes "allServed db" "tablesOk db"
  shows "allServed (deleteProxyHostRow i db)" "allServed (deleteRedirectHostRow i db)"
proof -
  have p: "\<exists>r \<in> set (hb_domains db). dr_proxyHostId r = Some (ph_id h) \<and> dr_redirectHostId r = None" if "h \<in> set (hb_proxyHosts db)" for h
    using servedD(1) [OF assms(1)] that one_owner(2) [OF assms(2)] by blast
  have q: "\<exists>r \<in> set (hb_domains db). dr_redirectHostId r = Some (rh_id h) \<and> dr_proxyHostId r = None" if "h \<in> set (hb_redirectHosts db)" for h
    using servedD(2) [OF assms(1)] that one_owner(1) [OF assms(2)] by blast
  show "allServed (deleteProxyHostRow i db)" using p q by (fastforce simp: allServed_def deleteProxyHostRow_def)
  show "allServed (deleteRedirectHostRow i db)" using p q by (fastforce simp: allServed_def deleteRedirectHostRow_def)
qed

section \<open>The invariant of the services\<close>

lemma nextId_routing [simp]: "tablesOk (db\<lparr>hb_nextId := n\<rparr>) = tablesOk db" "allServed (db\<lparr>hb_nextId := n\<rparr>) = allServed db"
  by (simp_all add: tablesOk_def allServed_def proxyHostChecks_def redirectHostChecks_def domainChecks_def)

lemma create_ok:
  assumes ok: "hostsOk db" and res: "createProxyHostInTransaction env a input now db = Inr (i, db')"
  shows "hostsOk db'"
  using res
proof (rule create_shape)
  fix p tls actor dbA dbB dbC dbD dbE dbF
  assume p: "createProxyHostInputSchema env input = Some p"
    and cert: "validateCertificate env (ph_certificateId (newProxyHost i p tls now)) (ph_forceHttps (newProxyHost i p tls now))
       (sort (pi_domains p)) now (lockProxyRuntimeSettings db) = Inr dbA"
    and B: "insertProxyHost (newProxyHost i p tls now) (dbA\<lparr>hb_nextId := Suc (hb_nextId dbA)\<rparr>) = Inr dbB"
    and http: "writeProxyHostHttpSettings i (emptyHttpSettings\<lparr>hh_responseCompression := orNull (pi_responseCompression p)\<rparr>) dbB = Inr dbC"
    and D: "insertDomains (map (proxyDomainRow i) (sort (pi_domains p))) dbC = Inr dbD"
    and cache: "writeOptionalCache a i (pi_responseCache p) dbD = Inr dbE"
    and tags: "assignTagsFor env ProxyKind PROXY_HOSTS_VIEW actor i (pi_tagIds p) dbE = Inr dbF"
    and browser: "writeOptionalBrowserCache i (pi_browserCache p) dbF = Inr db'"
  note A = sameRouting_trans [OF lock_routing certificate_routing [OF cert]] and C = writeHttp_routing [OF http]
  have E: "sameRouting dbD db'" using optionalCache_routing [OF cache] assignTagsFor_routing [OF tags]
      optionalBrowserCache_routing [OF browser] by (blast intro: sameRouting_trans)
  have tA: "tablesOk (dbA\<lparr>hb_nextId := Suc (hb_nextId dbA)\<rparr>)" and sA: "allServed dbA"
    using ok tablesOk_routing [OF A] allServed_routing [OF A] by (simp_all add: hostsOk_def)
  note hB = insertProxyHost_ok [OF tA B] and hD = insertDomains_ok [OF D]
  have "tablesOk dbD" using hB(1) tablesOk_routing [OF C] hD(1) by simp
  moreover have "allServed dbD"
  proof (rule served_append [OF sA])
    show "hb_domains dbD = hb_domains dbA @ map (proxyDomainRow i) (sort (pi_domains p))"
      using hD(2) hB(4) C by (simp add: sameRouting_def)
    show "ph_id ` set (hb_proxyHosts dbD) \<subseteq> ph_id ` set (hb_proxyHosts dbA) \<union>
        {k. \<exists>r \<in> set (map (proxyDomainRow i) (sort (pi_domains p))). dr_proxyHostId r = Some k}"
      using hD(3) hB(2) C create_domains [OF p] by (auto simp: sameRouting_def newProxyHost_def ex_in_conv)
    show "rh_id ` set (hb_redirectHosts dbD) \<subseteq> rh_id ` set (hb_redirectHosts dbA) \<union>
        {k. \<exists>r \<in> set (map (proxyDomainRow i) (sort (pi_domains p))). dr_redirectHostId r = Some k}"
      using hD(4) hB(3) C by (simp add: sameRouting_def)
  qed
  ultimately show ?thesis using tablesOk_routing [OF E] allServed_routing [OF E] by (simp add: hostsOk_def)
qed

lemma createRedirect_ok:
  assumes ok: "hostsOk db" and res: "createRedirectHostInTransaction env a input now db = Inr (i, db')"
  shows "hostsOk db'"
  using res
proof (rule createRedirect_shape)
  fix p dbA dbB dbC
  assume p: "createRedirectHostInputSchema env input = Some p" and A: "sameRouting db dbA"
    and B: "insertRedirectHost (newRedirectHost i p now) (dbA\<lparr>hb_nextId := Suc (hb_nextId dbA)\<rparr>) = Inr dbB"
    and C: "insertDomains (map (redirectDomainRow i) (sort (ri_domains p))) dbB = Inr dbC" and D: "sameRouting dbC db'"
  have tA: "tablesOk (dbA\<lparr>hb_nextId := Suc (hb_nextId dbA)\<rparr>)" and sA: "allServed dbA"
    using ok tablesOk_routing [OF A] allServed_routing [OF A] by (simp_all add: hostsOk_def)
  note hB = insertRedirectHost_ok [OF tA B] and hC = insertDomains_ok [OF C]
  have "allServed dbC"
  proof (rule served_append [OF sA])
    show "hb_domains dbC = hb_domains dbA @ map (redirectDomainRow i) (sort (ri_domains p))" using hC(2) hB(4) by simp
    show "ph_id ` set (hb_proxyHosts dbC) \<subseteq> ph_id ` set (hb_proxyHosts dbA) \<union>
        {k. \<exists>r \<in> set (map (redirectDomainRow i) (sort (ri_domains p))). dr_proxyHostId r = Some k}"
      using hC(3) hB(3) by simp
    show "rh_id ` set (hb_redirectHosts dbC) \<subseteq> rh_id ` set (hb_redirectHosts dbA) \<union>
        {k. \<exists>r \<in> set (map (redirectDomainRow i) (sort (ri_domains p))). dr_redirectHostId r = Some k}"
      using hC(4) hB(2) createRedirect_domains [OF p] by (auto simp: newRedirectHost_def ex_in_conv)
  qed
  then show ?thesis using hC(1) [OF hB(1)] tablesOk_routing [OF D] allServed_routing [OF D] by (simp add: hostsOk_def)
qed

lemma replaceDomains_ok:
  assumes "tablesOk db" "allServed db" "replaceDomainsInTransaction i ds db = Inr db'" "ds \<noteq> []"
  shows "hostsOk db'" "hb_domains db' = filter (\<lambda>r. dr_proxyHostId r \<noteq> Some i) (hb_domains db) @ map (proxyDomainRow i) (sort ds)"
    "hb_proxyHosts db' = hb_proxyHosts db" "hb_redirectHosts db' = hb_redirectHosts db"
proof -
  note h = insertDomains_ok [OF assms(3) [unfolded replaceDomainsInTransaction_def]]
  show d: "hb_domains db' = filter (\<lambda>r. dr_proxyHostId r \<noteq> Some i) (hb_domains db) @ map (proxyDomainRow i) (sort ds)"
    and hs: "hb_proxyHosts db' = hb_proxyHosts db" "hb_redirectHosts db' = hb_redirectHosts db" using h(2-4) by simp_all
  have "allServed db'" by (rule served_replace [OF assms(2,1) _ hs(2) _ d]) (use hs assms(4) in simp_all)
  then show "hostsOk db'" using h(1) [OF filterDomains_ok [OF assms(1)]] by (simp add: hostsOk_def)
qed

lemma replaceRedirectDomains_ok:
  assumes "tablesOk db" "allServed db" "replaceRedirectDomains i ds db = Inr db'" "ds \<noteq> []"
  shows "hostsOk db'" "hb_domains db' = filter (\<lambda>r. dr_redirectHostId r \<noteq> Some i) (hb_domains db) @ map (redirectDomainRow i) (sort ds)"
    "hb_proxyHosts db' = hb_proxyHosts db" "hb_redirectHosts db' = hb_redirectHosts db"
proof -
  note h = insertDomains_ok [OF assms(3) [unfolded replaceRedirectDomains_def]]
  show d: "hb_domains db' = filter (\<lambda>r. dr_redirectHostId r \<noteq> Some i) (hb_domains db) @ map (redirectDomainRow i) (sort ds)"
    and hs: "hb_proxyHosts db' = hb_proxyHosts db" "hb_redirectHosts db' = hb_redirectHosts db" using h(2-4) by simp_all
  have "allServed db'" by (rule served_replace_redirect [OF assms(2,1) _ hs(1) _ d]) (use hs assms(4) in simp_all)
  then show "hostsOk db'" using h(1) [OF filterDomains_ok [OF assms(1)]] by (simp add: hostsOk_def)
qed

lemma served_ids:
  assumes "allServed db" "map ph_id (hb_proxyHosts db') = map ph_id (hb_proxyHosts db)"
    "map rh_id (hb_redirectHosts db') = map rh_id (hb_redirectHosts db)" "hb_domains db' = hb_domains db"
  shows "allServed db'"
proof -
  have "ph_id ` set (hb_proxyHosts db') = ph_id ` set (hb_proxyHosts db)" "rh_id ` set (hb_redirectHosts db') = rh_id ` set (hb_redirectHosts db)"
    using assms(2,3) by (metis list.set_map)+
  then show ?thesis using servedD [OF assms(1)] assms(4) by (intro servedI) simp_all
qed

lemma updateRow_ok:
  assumes "tablesOk db" "allServed db" "updateProxyHost h db = Inr db'"
  shows "hostsOk db'"
  using updateProxyHost_ok [OF assms(1,3)] served_ids [OF assms(2)] by (simp add: hostsOk_def)

lemma updateRedirectRow_ok:
  assumes "tablesOk db" "allServed db" "updateRedirectHost h db = Inr db'"
  shows "hostsOk db'"
  using updateRedirectHost_ok [OF assms(1,3)] served_ids [OF assms(2)] by (simp add: hostsOk_def)

lemma hostsOk_routing: "sameRouting db db' \<Longrightarrow> hostsOk db' = hostsOk db"
  by (simp add: hostsOk_def tablesOk_routing allServed_routing)

lemma update_ok:
  assumes ok: "hostsOk db" and res: "updateProxyHostInTransaction env a input key now db = Inr (i, db')"
  shows "hostsOk db'"
  using res
proof (rule update_shape)
  fix p h oldPool tls settings actor dbA dbB dbC dbD dbE dbF dbG
  let ?new = "changedProxyHost h p (effectivePool p oldPool) tls now"
  assume p: "updateProxyHostInputSchema env input = Some p"
    and A: "validateCertificate env (ph_certificateId ?new) (ph_forceHttps ?new) (sort (pi_domains p)) now (lockProxyRuntimeSettings db) = Inr dbA"
    and B: "updateProxyHost ?new dbA = Inr dbB" and C: "writeCompression a i (pi_responseCompression p) settings dbB = Inr dbC"
    and D: "replaceDomainsInTransaction i (sort (pi_domains p)) dbC = Inr dbD"
    and E: "invalidateIfChanged env (availabilityChanged h oldPool (map dr_domain (filter (\<lambda>r. dr_proxyHostId r = Some i) (hb_domains dbA)))
       ?new (sort (pi_domains p))) h ?new now dbD = Inr dbE"
    and F: "writeOptionalCache a i (pi_responseCache p) dbE = Inr dbF"
    and G: "assignTagsFor env ProxyKind PROXY_HOSTS_VIEW actor i (pi_tagIds p) dbF = Inr dbG"
    and H: "writeOptionalBrowserCache i (if pi_browserCache p = hh_browserCache settings then None else pi_browserCache p) dbG = Inr db'"
  have "hostsOk dbA" using ok hostsOk_routing [OF sameRouting_trans [OF lock_routing certificate_routing [OF A]]] by simp
  then have "hostsOk dbB" using updateRow_ok [OF _ _ B] by (simp add: hostsOk_def)
  then have "hostsOk dbC" using hostsOk_routing [OF compression_routing [OF C]] by simp
  then have "hostsOk dbD" using replaceDomains_ok(1) [OF _ _ D] update_domains [OF p] by (simp add: hostsOk_def)
  moreover have "sameRouting dbD db'" using invalidateIfChanged_routing [OF E] optionalCache_routing [OF F]
      assignTagsFor_routing [OF G] optionalBrowserCache_routing [OF H] by (blast intro: sameRouting_trans)
  ultimately show ?thesis using hostsOk_routing by blast
qed

lemma updateRedirect_ok:
  assumes ok: "hostsOk db" and res: "updateRedirectHostService env (Some s) input now db = Inr (i, db')"
  shows "hostsOk db'"
  using res
proof (rule updateRedirect_shape)
  fix p h dbA dbB dbC
  assume p: "updateRedirectHostInputSchema env input = Some p" and A: "sameRouting db dbA"
    and B: "updateRedirectHost (changedRedirectHost h p now) dbA = Inr dbB"
    and C: "replaceRedirectDomains i (sort (ri_domains p)) dbB = Inr dbC" and D: "sameRouting dbC db'"
  have "hostsOk dbA" using ok hostsOk_routing [OF A] by simp
  then have "hostsOk dbB" using updateRedirectRow_ok [OF _ _ B] by (simp add: hostsOk_def)
  then have "hostsOk dbC" using replaceRedirectDomains_ok(1) [OF _ _ C] updateRedirect_domains [OF p] by (simp add: hostsOk_def)
  then show ?thesis using hostsOk_routing [OF D] by simp
qed

lemma map_list_all2: "list_all2 R xs ys \<Longrightarrow> (\<And>x y. R x y \<Longrightarrow> f y = f x) \<Longrightarrow> map f ys = map f xs"
  by (induction rule: list_all2_induct) auto

lemma edit_ids: "certificateEdit h h' \<Longrightarrow> ph_id h' = ph_id h" "redirectCertificateEdit g g' \<Longrightarrow> rh_id g' = rh_id g"
  unfolding certificateEdit_def redirectCertificateEdit_def
  by (drule arg_cong [where f = ph_id], simp, drule arg_cong [where f = rh_id], simp)

lemma otherWrites_ok:
  assumes ok: "hostsOk db" and res: "otherWrites db db'"
  shows "hostsOk db'"
proof -
  have ids: "map ph_id (hb_proxyHosts db') = map ph_id (hb_proxyHosts db)" "map rh_id (hb_redirectHosts db') = map rh_id (hb_redirectHosts db)"
    using res map_list_all2 [of certificateEdit _ _ ph_id] map_list_all2 [of redirectCertificateEdit _ _ rh_id] edit_ids
    by (auto simp: otherWrites_def)
  have dom: "hb_domains db' = hb_domains db" using res by (simp add: otherWrites_def)
  have "domainChecks db' = domainChecks db" unfolding fun_eq_iff domainChecks_def ids by simp
  then have "tablesOk db'" using ok res ids unfolding hostsOk_def tablesOk_def dom by (simp add: otherWrites_def list_all_iff)
  moreover have "allServed db'" using served_ids [OF _ ids dom] ok by (simp add: hostsOk_def)
  ultimately show ?thesis by (simp add: hostsOk_def)
qed

theorem hostStep_ok:
  assumes "hostsOk db" "hostStep env db e db'"
  shows "hostsOk db'"
  using assms(2,1)
proof (cases rule: hostStep.cases)
  case (deleteProxy s hostId now i)
  from deleteProxy(2) show ?thesis
  proof (rule delete_shape)
    fix h dbA assume A: "sameRouting db dbA" and B: "sameRouting (deleteProxyHostRow i dbA) db'"
    have "hostsOk dbA" using assms(1) hostsOk_routing [OF A] by simp
    then show ?thesis using deleteProxyHostRow_ok served_delete(1) hostsOk_routing [OF B] by (simp add: hostsOk_def)
  qed
next
  case (switchProxy s hostId enabled now i)
  from switchProxy(2) show ?thesis
  proof (rule switch_shape)
    fix h dbA dbB assume A: "validateBeforeEnabling env enabled h now (lockProxyRuntimeSettings db) = Inr dbA"
      and B: "updateProxyHost (h\<lparr>ph_enabled := enabled, ph_updatedAt := now\<rparr>) dbA = Inr dbB"
      and C: "(if enabled then Inr dbB else invalidateMonitoring env i MonitoringDisabled now dbB) = Inr db'"
    have "hostsOk dbA" using assms(1) hostsOk_routing [OF sameRouting_trans [OF lock_routing beforeEnabling_routing [OF A]]] by simp
    then have "hostsOk dbB" using updateRow_ok [OF _ _ B] by (simp add: hostsOk_def)
    moreover have "sameRouting dbB db'" using C by (auto dest: monitoring_routing split: if_splits)
    ultimately show ?thesis using hostsOk_routing by blast
  qed
next
  case (deleteRedirect s hostId i)
  from deleteRedirect(2) show ?thesis
  proof (rule deleteRedirect_shape)
    fix h dbA assume A: "sameRouting db dbA" and B: "sameRouting (deleteRedirectHostRow i dbA) db'"
    have "hostsOk dbA" using assms(1) hostsOk_routing [OF A] by simp
    then show ?thesis using deleteRedirectHostRow_ok served_delete(2) hostsOk_routing [OF B] by (simp add: hostsOk_def)
  qed
next
  case (switchRedirect s hostId enabled now i)
  from switchRedirect(2) show ?thesis
  proof (rule switchRedirect_shape)
    fix h dbA assume A: "sameRouting db dbA" and B: "updateRedirectHost (h\<lparr>rh_enabled := enabled, rh_updatedAt := now\<rparr>) dbA = Inr db'"
    have "hostsOk dbA" using assms(1) hostsOk_routing [OF A] by simp
    then show ?thesis using updateRedirectRow_ok [OF _ _ B] by (simp add: hostsOk_def)
  qed
next
  case (labels s kind revision action createdId r)
  then show ?thesis using labels_shape(1) hostsOk_routing assms(1) by blast
qed (auto intro: create_ok update_ok createRedirect_ok updateRedirect_ok otherWrites_ok)

interpretation hosts: invariant_system hostInit "hostStep env" hostsOk for env
  by unfold_locales (auto intro: hostsOk_init hostStep_ok)

end
