(* ===== verification/HostPowers.thy ===== *)
theory HostPowers
  imports HostInvariant
begin

text \<open>
  Who may change what of a host: the effect of every service on one proxy host and its settings, compared with the
  permissions the acting user holds in the database at that moment.
\<close>

section \<open>Rows and settings by identifier\<close>

definition rowOf :: "host_db \<Rightarrow> string \<Rightarrow> proxy_host_row option" where
  "rowOf db i = find (\<lambda>h. ph_id h = i) (hb_proxyHosts db)"

definition settingsView :: "host_db \<Rightarrow> string \<Rightarrow> host_http_settings \<times> response_cache option" where
  "settingsView db k = (case hb_settings db k of None \<Rightarrow> (emptyHttpSettings, None) | Some st \<Rightarrow> (sh_httpSettings st, sh_responseCache st))"

lemma load_rowOf: "loadProxyHostForUpdate db x = rowOf db (toLowerCase x)"
  by (simp add: loadProxyHostForUpdate_def rowOf_def)

lemma rowOf_id: "rowOf db i = Some h \<Longrightarrow> ph_id h = i \<and> h \<in> set (hb_proxyHosts db)"
  by (auto simp: rowOf_def find_Some_iff)

lemma load_lower: "loadProxyHostForUpdate db x = Some h \<Longrightarrow> toLowerCase (ph_id h) = ph_id h \<and> rowOf db (ph_id h) = Some h"
  using rowOf_id [of db "toLowerCase x" h] by (simp add: load_rowOf)

lemma rowOf_routing: "sameRouting db db' \<Longrightarrow> rowOf db' i = rowOf db i"
  by (simp add: rowOf_def sameRouting_def)

lemma find_replaced: "find (\<lambda>x. f x = i) (map (\<lambda>x. if f x = f h then h else x) xs) =
    (if i = f h \<and> find (\<lambda>x. f x = i) xs \<noteq> None then Some h else find (\<lambda>x. f x = i) xs)"
  by (induction xs) auto

lemma rowOf_update: "updateProxyHost h db = Inr db' \<Longrightarrow> rowOf db' i = (if i = ph_id h \<and> rowOf db i \<noteq> None then Some h else rowOf db i)"
  by (auto simp: updateProxyHost_def rowOf_def find_replaced split: if_splits)

lemma find_snoc_old: "find P xs = Some x \<Longrightarrow> find P (xs @ ys) = Some x"
  by (induction xs) auto

lemma rowOf_insert: "insertProxyHost h db = Inr db' \<Longrightarrow> rowOf db i = Some x \<Longrightarrow> rowOf db' i = Some x \<and> i \<noteq> ph_id h"
proof -
  assume ins: "insertProxyHost h db = Inr db'" and x: "rowOf db i = Some x"
  have "i \<in> ph_id ` set (hb_proxyHosts db)" using rowOf_id [OF x] by force
  moreover from ins have "ph_id h \<notin> ph_id ` set (hb_proxyHosts db)" by (auto simp: insertProxyHost_def split: if_splits)
  ultimately have "i \<noteq> ph_id h" by metis
  with ins x show ?thesis by (auto simp: insertProxyHost_def rowOf_def find_snoc_old split: if_splits)
qed

lemma rowOf_delete: "rowOf (deleteProxyHostRow k db) i = (if i = k then None else rowOf db i)"
proof -
  have "find (\<lambda>h. ph_id h = k) (filter (\<lambda>h. ph_id h \<noteq> k) xs) = None" for xs :: "proxy_host_row list"
    by (auto simp: find_None_iff)
  moreover have "i \<noteq> k \<Longrightarrow> find (\<lambda>h. ph_id h = i) (filter (\<lambda>h. ph_id h \<noteq> k) xs) = find (\<lambda>h. ph_id h = i) xs" for xs :: "proxy_host_row list"
    by (induction xs) auto
  ultimately show ?thesis by (simp add: rowOf_def deleteProxyHostRow_def)
qed

lemma rowOf_domains: "insertDomains rows db = Inr db' \<Longrightarrow> rowOf db' i = rowOf db i"
  "replaceDomainsInTransaction j ds db = Inr db' \<Longrightarrow> rowOf db' i = rowOf db i"
  by (auto simp: rowOf_def replaceDomainsInTransaction_def dest: insertDomains_ok(3))

section \<open>Effects on settings\<close>

lemma view_set: "settingsView (setSettings k http c db) = (settingsView db)(k := (http, c))"
  by (auto simp: fun_eq_iff settingsView_def setSettings_def)

lemma view_http: "readProxyHostHttpSettings db i = Inr s \<Longrightarrow> fst (settingsView db (hostSettingsKey i)) = s"
  by (auto simp: readProxyHostHttpSettings_def parseStoredSettings_def andThen_Inr_iff settingsView_def split: if_splits option.splits)

lemma view_cache:
  assumes "readResponseCacheSettingsMap db [i] = Inr m" "toLowerCase i = i"
  shows "m i = snd (settingsView db i)"
  using assms by (auto simp: readResponseCacheSettingsMap_def hostSettingsKey_def settingsView_def split: if_splits option.splits)

lemma writeHttp_view:
  assumes "writeProxyHostHttpSettings i s db = Inr db'" "toLowerCase i = i"
  shows "settingsView db' = (settingsView db)(i := (s, snd (settingsView db i)))"
  using assms view_cache [OF _ assms(2)]
  by (auto simp: writeProxyHostHttpSettings_def andThen_Inr_iff view_set hostSettingsKey_def split: if_splits)

lemma writeCache_view:
  assumes "writeResponseCacheSettings i c db = Inr db'" "toLowerCase i = i"
  shows "settingsView db' = (settingsView db)(i := (fst (settingsView db i), c))"
  using assms view_http [of db i]
  by (auto simp: writeResponseCacheSettings_def andThen_Inr_iff view_set hostSettingsKey_def split: if_splits)

lemma optionalCache_view:
  assumes "writeOptionalCache a i c db = Inr db'" "toLowerCase i = i"
  shows "settingsView db' j = settingsView db j \<or> (j = i \<and> may db a PROXY_HOSTS_APPLY)"
proof (cases "db' = db")
  case False
  with assms(1) obtain settings u where u: "requireActor db a PROXY_HOSTS_APPLY = Inr u"
    and w: "writeResponseCacheSettings i settings db = Inr db'"
    by (auto simp: writeOptionalCache_def writeAuthorizedResponseCacheSettings_def andThen_Inr_iff split: option.splits if_splits)
  show ?thesis using writeCache_view [OF w assms(2)] requirePermission_may [OF u] by simp
qed simp

lemma compression_view:
  assumes "writeCompression a i c s db = Inr db'" "readProxyHostHttpSettings db i = Inr s" "toLowerCase i = i"
  shows "settingsView db' j = settingsView db j \<or> (j = i \<and> may db a PROXY_HOSTS_APPLY)"
proof (cases c)
  case (Some d)
  with assms(1) obtain u where u: "requireWhen (d \<noteq> hh_responseCompression s) db a PROXY_HOSTS_APPLY = Inr u"
    and w: "writeProxyHostHttpSettings i (s\<lparr>hh_responseCompression := d\<rparr>) db = Inr db'"
    by (auto simp: writeCompression_def andThen_Inr_iff)
  have "(s, snd (settingsView db i)) = settingsView db i"
    using view_http [OF assms(2)] assms(3) by (simp add: hostSettingsKey_def prod_eq_iff)
  then show ?thesis using writeHttp_view [OF w assms(3)] requireWhen_may [OF u] by (cases "d = hh_responseCompression s") auto
qed (use assms(1) in \<open>simp add: writeCompression_def\<close>)

lemma browserCache_view:
  assumes "writeOptionalBrowserCache i b db = Inr db'" "toLowerCase i = i"
  shows "settingsView db' j = settingsView db j \<or> (j = i \<and> b \<noteq> None)"
  using assms writeHttp_view [OF _ assms(2)]
  by (auto simp: writeOptionalBrowserCache_def writeBrowserCache_def andThen_Inr_iff split: option.splits)

text \<open>Everything else leaves the settings alone.\<close>

lemma view_settings: "hb_settings db' = hb_settings db \<Longrightarrow> settingsView db' = settingsView db"
  by (simp add: fun_eq_iff settingsView_def)

lemma view_nextId [simp]: "settingsView (db\<lparr>hb_nextId := n\<rparr>) = settingsView db"
  by (simp add: fun_eq_iff settingsView_def)

lemma settings_frames:
  "hb_settings (lockProxyRuntimeSettings db) = hb_settings db"
  "validateCertificate env c f ds now db = Inr db' \<Longrightarrow> hb_settings db' = hb_settings db"
  "insertProxyHost h db = Inr db' \<Longrightarrow> hb_settings db' = hb_settings db"
  "updateProxyHost h db = Inr db' \<Longrightarrow> hb_settings db' = hb_settings db"
  "insertDomains rows db = Inr db' \<Longrightarrow> hb_settings db' = hb_settings db"
  "replaceDomainsInTransaction i ds db = Inr db' \<Longrightarrow> hb_settings db' = hb_settings db"
  "invalidateMonitoring env i reason now db = Inr db' \<Longrightarrow> hb_settings db' = hb_settings db"
  "assignHostTagsInTransaction env kind i ids db = Inr (ts, db') \<Longrightarrow> hb_settings db' = hb_settings db"
  "hb_settings (deleteProxyHostRow i db) = hb_settings db"
  by (auto simp: lockProxyRuntimeSettings_def validateCertificate_def andThen_Inr_iff insertProxyHost_def updateProxyHost_def insertDomains_def
      replaceDomainsInTransaction_def invalidateMonitoring_def assignHostTagsInTransaction_def writeHostTags_def deleteProxyHostRow_def
      split: if_splits option.splits)

lemma settings_frames_derived:
  "assignTagsFor env kind v actor i ids db = Inr db' \<Longrightarrow> hb_settings db' = hb_settings db"
  "invalidateIfChanged env b h new now db = Inr db' \<Longrightarrow> hb_settings db' = hb_settings db"
  "validateBeforeEnabling env b h now db = Inr db' \<Longrightarrow> hb_settings db' = hb_settings db"
  by (auto simp: assignTagsFor_def invalidateIfChanged_def validateBeforeEnabling_def andThen_Inr_iff dest: settings_frames(2,7,8) split: if_splits)

section \<open>What a step may do to a host\<close>

text \<open>
  A change of one host by a user: the switch, the access policy and the settings of caching and compression have
  permissions of their own; the rest of the row needs the permission to change hosts, and its removal the one to
  delete them.
\<close>

definition permitted :: "host_db \<Rightarrow> string \<Rightarrow> string \<Rightarrow> host_db \<Rightarrow> bool" where
  "permitted db a i db' \<longleftrightarrow>
     (case (rowOf db i, rowOf db' i) of
        (Some h, Some h') \<Rightarrow>
          (ph_enabled h' \<noteq> ph_enabled h \<longrightarrow> may db a (if ph_enabled h' then PROXY_HOSTS_ENABLE else PROXY_HOSTS_DISABLE)) \<and>
          (ph_accessPolicyId h' \<noteq> ph_accessPolicyId h \<longrightarrow> may db a ACCESS_POLICIES_ASSIGN) \<and>
          (h' \<noteq> h\<lparr>ph_enabled := ph_enabled h', ph_updatedAt := ph_updatedAt h'\<rparr> \<longrightarrow> may db a PROXY_HOSTS_UPDATE) \<and>
          (settingsView db' i \<noteq> settingsView db i \<longrightarrow> may db a PROXY_HOSTS_APPLY)
      | (Some h, None) \<Rightarrow> may db a PROXY_HOSTS_DELETE
      | (None, Some h') \<Rightarrow> may db a PROXY_HOSTS_CREATE \<and> (ph_accessPolicyId h' \<noteq> None \<longrightarrow> may db a ACCESS_POLICIES_ASSIGN)
      | (None, None) \<Rightarrow> True)"

lemma permitted_same: "rowOf db' i = rowOf db i \<Longrightarrow> settingsView db' i = settingsView db i \<Longrightarrow> permitted db a i db'"
  by (cases "rowOf db i") (simp_all add: permitted_def)

lemma checkAccessPolicy_may:
  assumes "checkAccessPolicy a h input policy (lockProxyRuntimeSettings db) = Inr ()" "input = None \<Longrightarrow> policy = ph_accessPolicyId h"
    "policy \<noteq> ph_accessPolicyId h"
  shows "may db a ACCESS_POLICIES_ASSIGN"
proof (cases policy)
  case None
  with assms have "requireWhen True (lockProxyRuntimeSettings db) a ACCESS_POLICIES_ASSIGN = Inr ()"
    by (cases input; cases "ph_accessPolicyId h") (auto simp: checkAccessPolicy_def)
  from requireWhen_may [OF this] show ?thesis by simp
next
  case (Some k)
  with assms obtain u where "requireWhen True (lockProxyRuntimeSettings db) a ACCESS_POLICIES_ASSIGN = Inr u"
    by (auto simp: checkAccessPolicy_def andThen_Inr_iff)
  from requireWhen_may [OF this] show ?thesis by simp
qed

lemma update_permitted:
  assumes res: "updateProxyHostInTransaction env a input key now db = Inr (i, db')"
  shows "permitted db a j db'"
  using res
proof (rule update_shape)
  fix p h oldPool tls settings actor dbA dbB dbC dbD dbE dbF dbG
  let ?new = "changedProxyHost h p (effectivePool p oldPool) tls now"
  assume h: "loadProxyHostForUpdate db (pi_proxyHostId p) = Some h" "i = ph_id h" and upd: "may db a PROXY_HOSTS_UPDATE"
    and appl: "pi_browserCache p \<noteq> None \<Longrightarrow> may db a PROXY_HOSTS_APPLY"
    and sw: "pi_enabled p \<noteq> ph_enabled h \<Longrightarrow> may db a (if pi_enabled p then PROXY_HOSTS_ENABLE else PROXY_HOSTS_DISABLE)"
    and pol: "checkAccessPolicy a h (pi_accessPolicyId p) (ph_accessPolicyId ?new) (lockProxyRuntimeSettings db) = Inr ()"
    and A: "validateCertificate env (ph_certificateId ?new) (ph_forceHttps ?new) (sort (pi_domains p)) now (lockProxyRuntimeSettings db) = Inr dbA"
    and B: "updateProxyHost ?new dbA = Inr dbB" and read: "readProxyHostHttpSettings dbB i = Inr settings"
    and C: "writeCompression a i (pi_responseCompression p) settings dbB = Inr dbC"
    and D: "replaceDomainsInTransaction i (sort (pi_domains p)) dbC = Inr dbD"
    and E: "invalidateIfChanged env (availabilityChanged h oldPool (map dr_domain (filter (\<lambda>r. dr_proxyHostId r = Some i) (hb_domains dbA)))
       ?new (sort (pi_domains p))) h ?new now dbD = Inr dbE"
    and F: "writeOptionalCache a i (pi_responseCache p) dbE = Inr dbF"
    and G: "assignTagsFor env ProxyKind PROXY_HOSTS_VIEW actor i (pi_tagIds p) dbF = Inr dbG"
    and H: "writeOptionalBrowserCache i (if pi_browserCache p = hh_browserCache settings then None else pi_browserCache p) dbG = Inr db'"
  have i: "toLowerCase i = i" "rowOf db i = Some h" using load_lower [OF h(1)] h(2) by auto
  have rA: "sameRouting db dbA" by (rule sameRouting_trans [OF lock_routing certificate_routing [OF A]])
  have rD: "sameRouting dbD db'" using invalidateIfChanged_routing [OF E] optionalCache_routing [OF F] assignTagsFor_routing [OF G]
      optionalBrowserCache_routing [OF H] by (blast intro: sameRouting_trans)
  have row: "rowOf db' k = (if k = i then Some ?new else rowOf db k)" for k
    using rowOf_routing [OF rD] rowOf_domains(2) [OF D] rowOf_routing [OF compression_routing [OF C]] rowOf_update [OF B]
      rowOf_routing [OF rA] i(2) h(2) by (simp add: changedProxyHost_def)
  have idB: "hb_identity dbB = hb_identity db" using rA B by (auto simp: sameRouting_def updateProxyHost_def split: if_splits)
  have idE: "hb_identity dbE = hb_identity db"
    using idB compression_routing [OF C] D invalidateIfChanged_routing [OF E]
    by (auto simp: sameRouting_def replaceDomainsInTransaction_def insertDomains_def split: if_splits)
  have view: "settingsView db' k = settingsView db k \<or> (k = i \<and> may db a PROXY_HOSTS_APPLY)" for k
    using browserCache_view [OF H i(1), of k] view_settings [OF settings_frames_derived(1) [OF G]] optionalCache_view [OF F i(1), of k]
      view_settings [OF settings_frames_derived(2) [OF E]] view_settings [OF settings_frames(6) [OF D]] compression_view [OF C read i(1), of k]
      view_settings [OF settings_frames(4) [OF B]] view_settings [OF settings_frames(2) [OF A]] view_settings [OF settings_frames(1)] appl
    by (auto simp: may_def idB idE split: if_splits)
  show ?thesis
  proof (cases "j = i")
    case True
    have "may db a ACCESS_POLICIES_ASSIGN" if "ph_accessPolicyId ?new \<noteq> ph_accessPolicyId h"
      by (rule checkAccessPolicy_may [OF pol _ that]) (simp add: changedProxyHost_def)
    then show ?thesis using True row i(2) sw upd view [of i] by (auto simp: permitted_def changedProxyHost_def)
  qed (use row [of j] view [of j] in \<open>auto intro: permitted_same\<close>)
qed

text \<open>The database makes identifiers in lower case.\<close>

definition lowerIds :: "host_env \<Rightarrow> bool" where
  "lowerIds env \<longleftrightarrow> (\<forall>n. toLowerCase (hv_newId env n) = hv_newId env n)"

lemma rowOf_insert_new: "insertProxyHost h db = Inr db' \<Longrightarrow> rowOf db i = None \<Longrightarrow> rowOf db' i = (if i = ph_id h then Some h else None)"
proof -
  have "find P xs = None \<Longrightarrow> find P (xs @ [h]) = (if P h then Some h else None)" for P and xs :: "proxy_host_row list"
    by (induction xs) auto
  then show "insertProxyHost h db = Inr db' \<Longrightarrow> rowOf db i = None \<Longrightarrow> rowOf db' i = (if i = ph_id h then Some h else None)"
    by (auto simp: insertProxyHost_def rowOf_def split: if_splits)
qed

lemma create_permitted:
  assumes res: "createProxyHostInTransaction env a input now db = Inr (i, db')" and lower: "lowerIds env"
  shows "permitted db a j db'"
  using res
proof (rule create_shape)
  fix p tls actor dbA dbB dbC dbD dbE dbF
  assume i: "i = hv_newId env (hb_nextId db)" and may: "may db a PROXY_HOSTS_CREATE"
    and pol: "lowered (pi_accessPolicyId p) \<noteq> None \<Longrightarrow> may db a ACCESS_POLICIES_ASSIGN"
    and A: "validateCertificate env (ph_certificateId (newProxyHost i p tls now)) (ph_forceHttps (newProxyHost i p tls now))
       (sort (pi_domains p)) now (lockProxyRuntimeSettings db) = Inr dbA"
    and B: "insertProxyHost (newProxyHost i p tls now) (dbA\<lparr>hb_nextId := Suc (hb_nextId dbA)\<rparr>) = Inr dbB"
    and C: "writeProxyHostHttpSettings i (emptyHttpSettings\<lparr>hh_responseCompression := orNull (pi_responseCompression p)\<rparr>) dbB = Inr dbC"
    and D: "insertDomains (map (proxyDomainRow i) (sort (pi_domains p))) dbC = Inr dbD"
    and E: "writeOptionalCache a i (pi_responseCache p) dbD = Inr dbE"
    and F: "assignTagsFor env ProxyKind PROXY_HOSTS_VIEW actor i (pi_tagIds p) dbE = Inr dbF"
    and G: "writeOptionalBrowserCache i (pi_browserCache p) dbF = Inr db'"
  let ?row = "newProxyHost i p tls now"
  have low: "toLowerCase i = i" using lower i by (simp add: lowerIds_def)
  have rA: "rowOf (dbA\<lparr>hb_nextId := Suc (hb_nextId dbA)\<rparr>) k = rowOf db k" for k
    using rowOf_routing [OF sameRouting_trans [OF lock_routing certificate_routing [OF A]]] by (simp add: rowOf_def)
  have after: "rowOf db' k = rowOf dbB k" for k
    using rowOf_routing [OF optionalBrowserCache_routing [OF G]] rowOf_routing [OF assignTagsFor_routing [OF F]]
      rowOf_routing [OF optionalCache_routing [OF E]] rowOf_domains(1) [OF D] rowOf_routing [OF writeHttp_routing [OF C]] by simp
  show ?thesis
  proof (cases "rowOf db j")
    case None
    then have "rowOf db' j = (if j = i then Some ?row else None)" using rowOf_insert_new [OF B] rA after by (simp add: newProxyHost_def)
    then show ?thesis using None may pol by (auto simp: permitted_def newProxyHost_def)
  next
    case (Some h)
    then have row: "rowOf db' j = Some h" and other: "j \<noteq> i" using rowOf_insert [OF B] rA after by (simp_all add: newProxyHost_def)
    have "settingsView db' j = settingsView db j"
      using browserCache_view [OF G low, of j] view_settings [OF settings_frames_derived(1) [OF F]] optionalCache_view [OF E low, of j]
        view_settings [OF settings_frames(5) [OF D]] writeHttp_view [OF C low] view_settings [OF settings_frames(3) [OF B]]
        view_settings [OF settings_frames(2) [OF A]] view_settings [OF settings_frames(1)] other by auto
    with row Some show ?thesis by (intro permitted_same) simp_all
  qed
qed

lemma delete_permitted:
  assumes res: "deleteProxyHostService env (Some s) hostId now db = Inr (i, db')"
  shows "permitted db (au_id (cs_user s)) j db'"
proof -
  let ?db = "lockProxyRuntimeSettings db"
  from res obtain u v h dbA dbB dbC ts where u: "actorOf (Some s) PROXY_HOSTS_DELETE = Inr u"
    and v: "requireActor ?db (au_id u) PROXY_HOSTS_DELETE = Inr v"
    and h: "loadProxyHostForUpdate db hostId = Some h" "i = ph_id h"
    and A: "writeProxyHostHttpSettings i emptyHttpSettings ?db = Inr dbA" and B: "writeResponseCacheSettings i None dbA = Inr dbB"
    and C: "assignHostTagsInTransaction env ProxyKind i (Some []) dbB = Inr (ts, dbC)"
    and D: "invalidateMonitoring env i PolicyChanged now (deleteProxyHostRow i dbC) = Inr db'"
    by (auto simp: deleteProxyHostService_def parseHostId_def Let_def andThen_Inr_iff split: if_splits prod.splits)
  have i: "toLowerCase i = i" "rowOf db i = Some h" using load_lower [OF h(1)] h(2) by auto
  have row: "rowOf db' k = (if k = i then None else rowOf db k)" for k
    using rowOf_routing [OF monitoring_routing [OF D]] rowOf_delete rowOf_routing [OF assignTags_routing [OF C]]
      rowOf_routing [OF writeCache_routing [OF B]] rowOf_routing [OF writeHttp_routing [OF A]] rowOf_routing [OF lock_routing] by simp
  show ?thesis
  proof (cases "j = i")
    case True
    then show ?thesis using row i(2) requirePermission_may [OF v] actorOf_id [OF u] by (simp add: permitted_def)
  next
    case False
    have "settingsView db' j = settingsView db j"
      using view_settings [OF settings_frames(7) [OF D]] view_settings [OF settings_frames(9)] view_settings [OF settings_frames(8) [OF C]]
        writeCache_view [OF B i(1)] writeHttp_view [OF A i(1)] view_settings [OF settings_frames(1)] False by simp
    with False row show ?thesis by (intro permitted_same) simp_all
  qed
qed

lemma switch_permitted:
  assumes res: "setProxyHostEnabledService env (Some s) hostId enabled now db = Inr (i, db')"
  shows "permitted db (au_id (cs_user s)) j db'"
  using res
proof (rule switch_shape)
  fix h dbA dbB
  assume h: "loadProxyHostForUpdate db hostId = Some h" "i = ph_id h"
    and may: "may db (au_id (cs_user s)) (if enabled then PROXY_HOSTS_ENABLE else PROXY_HOSTS_DISABLE)"
    and A: "validateBeforeEnabling env enabled h now (lockProxyRuntimeSettings db) = Inr dbA"
    and B: "updateProxyHost (h\<lparr>ph_enabled := enabled, ph_updatedAt := now\<rparr>) dbA = Inr dbB"
    and C: "(if enabled then Inr dbB else invalidateMonitoring env i MonitoringDisabled now dbB) = Inr db'"
  have i: "rowOf db i = Some h" using load_lower [OF h(1)] h(2) by auto
  have rC: "sameRouting dbB db'" "hb_settings db' = hb_settings dbB"
    using C by (auto dest: monitoring_routing settings_frames(7) split: if_splits)
  have row: "rowOf db' k = (if k = i then Some (h\<lparr>ph_enabled := enabled, ph_updatedAt := now\<rparr>) else rowOf db k)" for k
    using rowOf_routing [OF rC(1)] rowOf_update [OF B] rowOf_routing [OF sameRouting_trans [OF lock_routing beforeEnabling_routing [OF A]]]
      i h(2) by simp
  have view: "settingsView db' = settingsView db"
    using view_settings [OF rC(2)] view_settings [OF settings_frames(4) [OF B]] view_settings [OF settings_frames_derived(3) [OF A]]
      view_settings [OF settings_frames(1)] by simp
  show ?thesis
  proof (cases "j = i")
    case True
    then show ?thesis using row i may view by (cases enabled) (auto simp: permitted_def)
  qed (use row view in \<open>auto intro: permitted_same\<close>)
qed

text \<open>Redirect hosts and labels leave proxy hosts alone.\<close>

lemma redirect_rows:
  "insertRedirectHost h db = Inr db' \<Longrightarrow> rowOf db' i = rowOf db i \<and> settingsView db' = settingsView db"
  "updateRedirectHost h db = Inr db' \<Longrightarrow> rowOf db' i = rowOf db i \<and> settingsView db' = settingsView db"
  "rowOf (deleteRedirectHostRow k db) i = rowOf db i \<and> settingsView (deleteRedirectHostRow k db) = settingsView db"
  by (auto simp: insertRedirectHost_def updateRedirectHost_def deleteRedirectHostRow_def rowOf_def settingsView_def fun_eq_iff split: if_splits)

fun hostActor :: "host_event \<Rightarrow> string option" where
  "hostActor (ProxyHostCreated a i) = Some a"
| "hostActor (ProxyHostUpdated a i) = Some a"
| "hostActor (ProxyHostDeleted a i) = Some a"
| "hostActor (ProxyHostSwitched a i) = Some a"
| "hostActor (RedirectHostCreated a i) = Some a"
| "hostActor (RedirectHostUpdated a i) = Some a"
| "hostActor (RedirectHostDeleted a i) = Some a"
| "hostActor (RedirectHostSwitched a i) = Some a"
| "hostActor (LabelsChanged a) = Some a"
| "hostActor OthersChanged = None"

lemma createRedirect_permitted:
  assumes "createRedirectHostInTransaction env a input now db = Inr (i, db')"
  shows "permitted db b j db'"
proof -
  from assms obtain p actor dbA dbB dbC where
    A: "validateCertificate env (rh_certificateId (newRedirectHost i p now)) False (sort (ri_domains p)) now (lockProxyRuntimeSettings db) = Inr dbA"
    and B: "insertRedirectHost (newRedirectHost i p now) (dbA\<lparr>hb_nextId := Suc (hb_nextId dbA)\<rparr>) = Inr dbB"
    and C: "insertDomains (map (redirectDomainRow i) (sort (ri_domains p))) dbB = Inr dbC"
    and D: "assignTagsFor env RedirectKind REDIRECT_HOSTS_VIEW actor i (ri_tagIds p) dbC = Inr db'"
    by (auto simp: createRedirectHostInTransaction_def Let_def andThen_Inr_iff)
  have "rowOf (dbA\<lparr>hb_nextId := Suc (hb_nextId dbA)\<rparr>) j = rowOf dbA j" by (simp add: rowOf_def)
  then have "rowOf db' j = rowOf db j"
    using rowOf_routing [OF assignTagsFor_routing [OF D]] rowOf_domains(1) [OF C] redirect_rows(1) [OF B, of j]
      rowOf_routing [OF sameRouting_trans [OF lock_routing certificate_routing [OF A]]] by simp
  moreover have "settingsView db' = settingsView db"
    using view_settings [OF settings_frames_derived(1) [OF D]] view_settings [OF settings_frames(5) [OF C]] redirect_rows(1) [OF B]
      view_settings [OF settings_frames(2) [OF A]] view_settings [OF settings_frames(1)] by simp
  ultimately show ?thesis by (intro permitted_same) simp_all
qed

lemma updateRedirect_permitted:
  assumes "updateRedirectHostService env (Some s) input now db = Inr (i, db')"
  shows "permitted db b j db'"
proof -
  from assms obtain p actor h dbA dbB dbC where
    A: "validateCertificate env (rh_certificateId (changedRedirectHost h p now)) False (sort (ri_domains p)) now (lockProxyRuntimeSettings db) = Inr dbA"
    and B: "updateRedirectHost (changedRedirectHost h p now) dbA = Inr dbB"
    and C: "replaceRedirectDomains i (sort (ri_domains p)) dbB = Inr dbC"
    and D: "assignTagsFor env RedirectKind REDIRECT_HOSTS_VIEW actor i (ri_tagIds p) dbC = Inr db'"
    by (auto simp: updateRedirectHostService_def Let_def andThen_Inr_iff)
  have C': "rowOf dbC j = rowOf dbB j" "hb_settings dbC = hb_settings dbB"
    using C by (auto simp: replaceRedirectDomains_def rowOf_def dest: insertDomains_ok(3) settings_frames(5))
  have "rowOf db' j = rowOf db j"
    using rowOf_routing [OF assignTagsFor_routing [OF D]] C' redirect_rows(2) [OF B, of j]
      rowOf_routing [OF sameRouting_trans [OF lock_routing certificate_routing [OF A]]] by simp
  moreover have "settingsView db' = settingsView db"
    using view_settings [OF settings_frames_derived(1) [OF D]] view_settings [OF C'(2)] redirect_rows(2) [OF B]
      view_settings [OF settings_frames(2) [OF A]] view_settings [OF settings_frames(1)] by simp
  ultimately show ?thesis by (intro permitted_same) simp_all
qed

lemma deleteRedirect_permitted:
  assumes "deleteRedirectHostService env (Some s) hostId db = Inr (i, db')"
  shows "permitted db b j db'"
proof -
  from assms obtain h ts where
    A: "assignHostTagsInTransaction env RedirectKind i (Some []) (deleteRedirectHostRow i (lockProxyRuntimeSettings db)) = Inr (ts, db')"
    by (auto simp: deleteRedirectHostService_def parseHostId_def Let_def andThen_Inr_iff split: if_splits prod.splits)
  show ?thesis
    using rowOf_routing [OF assignTags_routing [OF A]] rowOf_routing [OF lock_routing] view_settings [OF settings_frames(8) [OF A]]
      view_settings [OF settings_frames(1)] redirect_rows(3) by (intro permitted_same) simp_all
qed

lemma switchRedirect_permitted:
  assumes "setRedirectHostEnabledService env (Some s) hostId enabled now db = Inr (i, db')"
  shows "permitted db b j db'"
proof -
  let ?db = "lockProxyRuntimeSettings db"
  from assms obtain h dbA where
    A: "(if enabled then validateCertificate env (rh_certificateId h) False (loadRedirectHostDomainsInTransaction ?db (rh_id h)) now ?db
      else Inr ?db) = Inr dbA"
    and B: "updateRedirectHost (h\<lparr>rh_enabled := enabled, rh_updatedAt := now\<rparr>) dbA = Inr db'"
    unfolding setRedirectHostEnabledService_def parseHostId_def Let_def andThen_Inr_iff found_Inr guardR_Inr_iff
    by (auto split: if_splits)
  have r: "sameRouting ?db dbA" and v: "hb_settings dbA = hb_settings ?db"
    using A by (auto dest: certificate_routing settings_frames(2) split: if_splits)
  have "rowOf db' j = rowOf db j" using redirect_rows(2) [OF B, of j] rowOf_routing [OF sameRouting_trans [OF lock_routing r], of j] by simp
  moreover have "settingsView db' = settingsView db"
    using redirect_rows(2) [OF B] view_settings [OF v] view_settings [OF settings_frames(1), of db] by simp
  ultimately show ?thesis by (intro permitted_same) simp_all
qed

lemma labels_permitted:
  assumes "mutateHostTagService env (Some s) kind revision action createdId db = Inr (r, db')"
  shows "permitted db b j db'"
proof -
  let ?db = "lockProxyRuntimeSettings db"
  from assms obtain st where "writeHostTags env kind st ?db = Inr db' \<or> db' = ?db"
    unfolding mutateHostTagService_def Let_def by (auto simp: andThen_Inr_iff split: if_splits option.splits)
  then have "hb_settings db' = hb_settings db" by (auto simp: writeHostTags_def lockProxyRuntimeSettings_def split: if_splits)
  from permitted_same [OF rowOf_routing [OF labels_shape(1) [OF assms]]] view_settings [OF this] show ?thesis by simp
qed

theorem hostStep_permitted:
  assumes "hostStep env db e db'" "hostActor e = Some a" "lowerIds env"
  shows "permitted db a j db'"
  using assms
  by (cases rule: hostStep.cases)
    (auto intro: create_permitted update_permitted delete_permitted switch_permitted createRedirect_permitted updateRedirect_permitted
      deleteRedirect_permitted switchRedirect_permitted labels_permitted)

end
