(* ===== verification/HostConstraints.thy ===== *)
theory HostConstraints
  imports HostPowers
begin

text \<open>
  The validation of the services and the constraints of the tables agree: what the services accept, the tables take.
\<close>

section \<open>Other errors\<close>

lemma mapError_Inl: "mapError f r = Inl e \<longleftrightarrow> (\<exists>d. r = Inl d \<and> e = f d)"
  by (cases r) auto

lemma guards_not_constraint:
  "requireActor db a k \<noteq> Inl HostConstraint" "requireWhen b db a k \<noteq> Inl HostConstraint" "parsed x \<noteq> Inl HostConstraint"
  "found y \<noteq> Inl HostConstraint" "assertDomainsAvailableInTransaction db ds c \<noteq> Inl HostConstraint"
  "normalizeUpstreamTlsSettings env p pool existing \<noteq> Inl HostConstraint" "validateOptionalPolicy o1 db \<noteq> Inl HostConstraint"
  "validateTrustedCaAssignmentInTransaction o2 db \<noteq> Inl HostConstraint" "validateCertificate env c f ds now db \<noteq> Inl HostConstraint"
  "storedPool env h \<noteq> Inl HostConstraint" "checkAccessPolicy a h inp pol db \<noteq> Inl HostConstraint"
  "assertDiscoveryHostEditable db i key \<noteq> Inl HostConstraint"
  by (auto simp: requireActor_def mapError_Inl requireWhen_def andThen_Inl_iff parsed_def found_def assertDomainsAvailableInTransaction_def
      normalizeUpstreamTlsSettings_def Let_def validateOptionalPolicy_def validateAccessPolicy_def validateTrustedCaAssignmentInTransaction_def
      validateCertificate_def storedPool_def checkAccessPolicy_def assertDiscoveryHostEditable_def split: if_splits option.splits)

lemma writes_not_constraint:
  "readProxyHostHttpSettings db i \<noteq> Inl HostConstraint" "writeProxyHostHttpSettings i s db \<noteq> Inl HostConstraint"
  "writeResponseCacheSettings i rc db \<noteq> Inl HostConstraint" "writeCompression a i c s db \<noteq> Inl HostConstraint"
  "invalidateMonitoring env i reason now db \<noteq> Inl HostConstraint" "invalidateIfChanged env b h new now db \<noteq> Inl HostConstraint"
  "writeBrowserCache i bc db \<noteq> Inl HostConstraint" "writeOptionalBrowserCache i ob db \<noteq> Inl HostConstraint"
proof -
  show rd: "readProxyHostHttpSettings db i \<noteq> Inl HostConstraint" for db i
    by (auto simp: readProxyHostHttpSettings_def parseStoredSettings_def andThen_Inl_iff split: if_splits)
  show wr: "writeProxyHostHttpSettings i s db \<noteq> Inl HostConstraint" for i s db
    by (auto simp: writeProxyHostHttpSettings_def readResponseCacheSettingsMap_def andThen_Inl_iff split: if_splits)
  show "writeResponseCacheSettings i rc db \<noteq> Inl HostConstraint"
    using rd by (auto simp: writeResponseCacheSettings_def andThen_Inl_iff split: if_splits)
  show "writeCompression a i c s db \<noteq> Inl HostConstraint"
    using wr guards_not_constraint(2) by (auto simp: writeCompression_def andThen_Inl_iff split: option.splits)
  show inv: "invalidateMonitoring env i reason now db \<noteq> Inl HostConstraint" for env i reason now db
    by (auto simp: invalidateMonitoring_def andThen_Inl_iff mapError_Inl)
  show "invalidateIfChanged env b h new now db \<noteq> Inl HostConstraint" using inv by (auto simp: invalidateIfChanged_def)
  show bro: "writeBrowserCache i bc db \<noteq> Inl HostConstraint" for i bc db
    using rd wr by (auto simp: writeBrowserCache_def andThen_Inl_iff)
  show "writeOptionalBrowserCache i ob db \<noteq> Inl HostConstraint" using bro by (auto simp: writeOptionalBrowserCache_def split: option.splits)
qed

lemma more_not_constraint:
  "writeOptionalCache a i oc db \<noteq> Inl HostConstraint" "assignTagsFor env kind v actor i ids db \<noteq> Inl HostConstraint"
  using writes_not_constraint(3) guards_not_constraint(1)
  by (auto simp: writeOptionalCache_def writeAuthorizedResponseCacheSettings_def readResponseCacheSettingsMap_def andThen_Inl_iff
      assignTagsFor_def assignHostTagsInTransaction_def readHostTags_def writeHostTags_def mapError_Inl split: option.splits if_splits)

lemmas not_constraint = guards_not_constraint writes_not_constraint more_not_constraint

section \<open>Accepted values\<close>

lemma input_values:
  assumes laws: "urlLaws (hv_urls env)" and res: "proxyHostInputSchema env input = Some p"
  shows "portOk (pi_forwardPort p)" "forwardHostCheck (pi_forwardHost p)" "pi_domains p \<noteq> []" "\<forall>d \<in> set (pi_domains p). domainCanonicalCheck d"
    "whenPresent (\<lambda>n. length n \<le> 253) (orNull (pi_upstreamTlsServerName p))"
    "orNull (pi_upstreamPool p) = Some pool \<Longrightarrow> \<exists>raw. proxyUpstreamPoolSchema (hv_urls env) raw = Some pool"
proof -
  from res obtain ds fh pl sn where ds: "proxyHostDomainsSchema (hv_urls env) (pi_domains input) = Some ds" "pi_domains p = ds"
    and fh: "proxyForwardHostSchema (hv_urls env) (pi_forwardHost input) = Some fh" "pi_forwardHost p = fh"
    and pl: "parsePool env (pi_upstreamPool input) = Some pl" "pi_upstreamPool p = pl"
    and sn: "parseServerName env (pi_upstreamTlsServerName input) = Some sn" "pi_upstreamTlsServerName p = sn"
    and port: "portOk (pi_forwardPort p)"
    by (auto simp: proxyHostInputSchema_def split: option.splits if_splits)
  show "portOk (pi_forwardPort p)" by (rule port)
  show "forwardHostCheck (pi_forwardHost p)"
    using fh normalizeForwardHost_check [OF laws] by (auto simp: proxyForwardHostSchema_def split: if_splits)
  show "pi_domains p \<noteq> []" "\<forall>d \<in> set (pi_domains p). domainCanonicalCheck d" using domainsSchema_ok [OF laws ds(1)] ds(2) by auto
  show "whenPresent (\<lambda>n. length n \<le> 253) (orNull (pi_upstreamTlsServerName p))"
  proof (cases "orNull sn")
    case (Some n)
    with sn(1) obtain v where "normalizeProxyDomain (hv_urls env) v = Some n"
      by (auto simp: parseServerName_def proxyUpstreamTlsServerNameSchema_def orNull_def split: option.splits if_splits)
    from normalizeProxyDomain_canonical [OF laws this] show ?thesis using Some sn(2) by (simp add: whenPresent_def domainCanonicalCheck_def)
  qed (simp add: sn(2) whenPresent_def)
  show "\<exists>raw. proxyUpstreamPoolSchema (hv_urls env) raw = Some pool" if "orNull (pi_upstreamPool p) = Some pool"
    using that pl by (auto simp: parsePool_def orNull_def split: option.splits)
qed

lemma tls_values:
  assumes "normalizeUpstreamTlsSettings env p pool existing = Inr tls"
  shows "tl_trustedCaId tls \<noteq> None \<Longrightarrow> pi_forwardScheme p = HttpsScheme \<and> tl_verifyUpstreamTls tls"
    "tl_upstreamTlsServerName tls \<in> {None, orNull (pi_upstreamTlsServerName p)} \<union> (case existing of None \<Rightarrow> {} | Some h \<Rightarrow> {ph_upstreamTlsServerName h})"
    "tl_trustedCaId tls \<in> {None, lowered (pi_trustedCaId p)} \<union> (case existing of None \<Rightarrow> {} | Some h \<Rightarrow> {ph_trustedCaId h})"
  using assms by (cases "pi_forwardScheme p"; force simp: normalizeUpstreamTlsSettings_def Let_def split: if_splits option.splits)+

section \<open>Rows the tables take\<close>

lemma lowered_known:
  assumes "validateTrustedCaAssignmentInTransaction ca db = Inr ()" "ca = Some k" "toLowerCase k = k"
  shows "k \<in> set (hb_trustedCas db)"
  using assms by (auto simp: validateTrustedCaAssignmentInTransaction_def split: if_splits)

lemma lowered_lower: "lowered x = Some k \<Longrightarrow> toLowerCase k = k"
  by (auto simp: lowered_def)

lemma certificate_known:
  assumes "validateCertificate env c f ds now db = Inr dbA"
  shows "(f \<longrightarrow> c \<noteq> None) \<and> (\<forall>k. c = Some k \<longrightarrow> toLowerCase k \<in> ce_id ` set (hb_certificates db)) \<and> sameRouting db dbA"
  using assms validated_certificate certificate_routing [OF assms] by (fastforce simp: validateCertificate_def andThen_Inr_iff)

lemma new_row_checks:
  assumes laws: "urlLaws (hv_urls env)" and p: "createProxyHostInputSchema env input = Some p"
    and tls: "normalizeUpstreamTlsSettings env p (orNull (pi_upstreamPool p)) None = Inr tls"
    and pol: "validateOptionalPolicy (lowered (pi_accessPolicyId p)) db = Inr ()"
    and ca: "validateTrustedCaAssignmentInTransaction (tl_trustedCaId tls) db = Inr ()"
    and cert: "validateCertificate env (ph_certificateId (newProxyHost i p tls now)) (ph_forceHttps (newProxyHost i p tls now))
       (sort (pi_domains p)) now db = Inr dbA"
  shows "proxyHostChecks dbA (newProxyHost i p tls now)"
proof -
  from p obtain input' where raw: "proxyHostInputSchema env input' = Some p" and valid: "validateUpstreamTlsInput env p"
    by (auto simp: createProxyHostInputSchema_def split: option.splits if_splits)
  note v = input_values [OF laws raw] and t = tls_values [OF tls] and c = certificate_known [OF cert]
  have "whenPresent (upstreamPoolCheck (pi_forwardHost p) (pi_forwardPort p)) (orNull (pi_upstreamPool p))"
  proof (cases "orNull (pi_upstreamPool p)")
    case (Some pool)
    with v(6) obtain r where "proxyUpstreamPoolSchema (hv_urls env) r = Some pool" by blast
    from poolSchema_check [OF laws this] valid Some show ?thesis by (simp add: whenPresent_def validateUpstreamTlsInput_def)
  qed (simp add: whenPresent_def)
  moreover have "whenPresent (\<lambda>n. length n \<le> 253) (tl_upstreamTlsServerName tls)" using t(2) v(5) by (auto simp: whenPresent_def)
  moreover have "whenPresent (contains (map ce_id (hb_certificates dbA))) (lowered (pi_certificateId p))"
    using c lowered_lower by (auto simp: whenPresent_def newProxyHost_def sameRouting_def simp flip: set_map split: option.splits)
  moreover have "whenPresent (contains (hb_trustedCas dbA)) (tl_trustedCaId tls)"
    using t(3) lowered_known [OF ca] lowered_lower c by (auto simp: whenPresent_def sameRouting_def split: option.splits)
  moreover have "whenPresent (contains (hb_accessPolicies dbA)) (lowered (pi_accessPolicyId p))"
    using pol c by (auto simp: validateOptionalPolicy_def validateAccessPolicy_def whenPresent_def sameRouting_def split: option.splits if_splits)
  ultimately show ?thesis using v(1,2) t(1) c by (auto simp: proxyHostChecks_def newProxyHost_def)
qed

lemma changed_row_checks:
  assumes laws: "urlLaws (hv_urls env)" and p: "updateProxyHostInputSchema env input = Some p" and old: "proxyHostChecks db h"
    and stored: "storedPool env h = Inr oldPool" and pool: "pool = effectivePool p oldPool"
    and first: "validateUpstreamPoolPrimary pool (pi_forwardHost p) (pi_forwardPort p)"
    and tls: "normalizeUpstreamTlsSettings env p pool (Some h) = Inr tls"
    and pol: "checkAccessPolicy a h (pi_accessPolicyId p) (ph_accessPolicyId (changedProxyHost h p pool tls now)) db = Inr ()"
    and ca: "validateTrustedCaAssignmentInTransaction (tl_trustedCaId tls) db = Inr ()"
    and cert: "validateCertificate env (ph_certificateId (changedProxyHost h p pool tls now)) (ph_forceHttps (changedProxyHost h p pool tls now))
       (sort (pi_domains p)) now db = Inr dbA"
  shows "proxyHostChecks dbA (changedProxyHost h p pool tls now)"
proof -
  from p have raw: "proxyHostInputSchema env input = Some p"
    by (auto simp: updateProxyHostInputSchema_def split: option.splits if_splits)
  note v = input_values [OF laws raw] and t = tls_values [OF tls] and c = certificate_known [OF cert]
  have refs: "whenPresent (contains (map ce_id (hb_certificates db))) (ph_certificateId h)"
    "whenPresent (contains (hb_trustedCas db)) (ph_trustedCaId h)" "whenPresent (\<lambda>n. length n \<le> 253) (ph_upstreamTlsServerName h)"
    using old by (simp_all add: proxyHostChecks_def)
  have same: "map ce_id (hb_certificates dbA) = map ce_id (hb_certificates db)" "hb_trustedCas dbA = hb_trustedCas db"
    "hb_accessPolicies dbA = hb_accessPolicies db" using c by (simp_all add: sameRouting_def)
  have "whenPresent (upstreamPoolCheck (pi_forwardHost p) (pi_forwardPort p)) pool"
  proof (cases pool)
    case (Some q)
    have "\<exists>r. proxyUpstreamPoolSchema (hv_urls env) r = Some q"
    proof (cases "pi_upstreamPool p")
      case None
      with pool Some stored show ?thesis by (auto simp: effectivePool_def storedPool_def split: option.splits)
    next
      case (Some x)
      with pool \<open>pool = Some q\<close> have "orNull (pi_upstreamPool p) = Some q" by (simp add: effectivePool_def orNull_def)
      then show ?thesis by (rule v(6))
    qed
    then show ?thesis using poolSchema_check [OF laws] first Some by (auto simp: whenPresent_def)
  qed (simp add: whenPresent_def)
  moreover have "whenPresent (\<lambda>n. length n \<le> 253) (tl_upstreamTlsServerName tls)" using t(2) v(5) refs(3) by (auto simp: whenPresent_def)
  moreover have "whenPresent (contains (map ce_id (hb_certificates db))) (ph_certificateId (changedProxyHost h p pool tls now))"
  proof (cases "pi_certificateId p")
    case (Some x)
    then have "ph_certificateId (changedProxyHost h p pool tls now) = lowered (pi_certificateId p)" by (simp add: changedProxyHost_def)
    then show ?thesis using c lowered_lower by (auto simp: whenPresent_def simp flip: set_map split: option.splits)
  qed (use refs(1) in \<open>simp add: changedProxyHost_def\<close>)
  moreover have "whenPresent (contains (hb_trustedCas db)) (tl_trustedCaId tls)"
  proof -
    consider "tl_trustedCaId tls = None" | "tl_trustedCaId tls = lowered (pi_trustedCaId p)" | "tl_trustedCaId tls = ph_trustedCaId h" using t(3) by auto
    then show ?thesis using lowered_known [OF ca] lowered_lower refs(2) by cases (auto simp: whenPresent_def split: option.splits)
  qed
  moreover have "whenPresent (contains (hb_accessPolicies db)) (ph_accessPolicyId (changedProxyHost h p pool tls now))"
    using pol by (auto simp: checkAccessPolicy_def validateAccessPolicy_def whenPresent_def andThen_Inr_iff split: option.splits if_splits)
  ultimately show ?thesis using v(1,2) t(1) c unfolding proxyHostChecks_def same by (auto simp: changedProxyHost_def)
qed

section \<open>No transaction is stopped by a constraint\<close>

lemma insertDomains_taken:
  assumes "\<forall>d \<in> set ds. domainCanonicalCheck d" "i \<in> ph_id ` set (hb_proxyHosts db)"
  shows "insertDomains (map (proxyDomainRow i) ds) db \<noteq> Inl HostConstraint"
  using assms by (auto simp: insertDomains_def list_all_iff domainChecks_def whenPresent_def)

lemma checks_lock [simp]: "proxyHostChecks (lockProxyRuntimeSettings db) h = proxyHostChecks db h"
  by (simp add: proxyHostChecks_def lockProxyRuntimeSettings_def)

lemma create_not_constraint:
  assumes laws: "urlLaws (hv_urls env)" and fresh: "hv_newId env (hb_nextId db) \<notin> ph_id ` set (hb_proxyHosts db)"
  shows "createProxyHostInTransaction env a input now db \<noteq> Inl HostConstraint"
proof
  let ?db = "lockProxyRuntimeSettings db" and ?i = "hv_newId env (hb_nextId (lockProxyRuntimeSettings db))"
  assume "createProxyHostInTransaction env a input now db = Inl HostConstraint"
  then obtain p tls dbA where p: "createProxyHostInputSchema env input = Some p"
    and tls: "normalizeUpstreamTlsSettings env p (orNull (pi_upstreamPool p)) None = Inr tls"
    and pol: "validateOptionalPolicy (lowered (pi_accessPolicyId p)) ?db = Inr ()"
    and ca: "validateTrustedCaAssignmentInTransaction (tl_trustedCaId tls) ?db = Inr ()"
    and cert: "validateCertificate env (ph_certificateId (newProxyHost ?i p tls now)) (ph_forceHttps (newProxyHost ?i p tls now))
       (sort (pi_domains p)) now ?db = Inr dbA"
    and stop: "insertProxyHost (newProxyHost ?i p tls now) (dbA\<lparr>hb_nextId := Suc (hb_nextId dbA)\<rparr>) = Inl HostConstraint \<or>
      (\<exists>dbB dbC. insertProxyHost (newProxyHost ?i p tls now) (dbA\<lparr>hb_nextId := Suc (hb_nextId dbA)\<rparr>) = Inr dbB \<and>
        writeProxyHostHttpSettings ?i (emptyHttpSettings\<lparr>hh_responseCompression := orNull (pi_responseCompression p)\<rparr>) dbB = Inr dbC \<and>
        insertDomains (map (proxyDomainRow ?i) (sort (pi_domains p))) dbC = Inl HostConstraint)"
    unfolding createProxyHostInTransaction_def Let_def andThen_Inl_iff
    by (auto simp: not_constraint)
  have row: "proxyHostChecks dbA (newProxyHost ?i p tls now)" by (rule new_row_checks [OF laws p tls pol ca cert])
  have A: "sameRouting db dbA" by (rule sameRouting_trans [OF lock_routing certificate_routing [OF cert]])
  have "?i \<notin> ph_id ` set (hb_proxyHosts dbA)" using fresh A by (simp add: sameRouting_def lockProxyRuntimeSettings_def)
  then obtain dbB where B: "insertProxyHost (newProxyHost ?i p tls now) (dbA\<lparr>hb_nextId := Suc (hb_nextId dbA)\<rparr>) = Inr dbB"
    and hB: "newProxyHost ?i p tls now \<in> set (hb_proxyHosts dbB)"
    using row by (auto simp: insertProxyHost_def newProxyHost_def proxyHostChecks_def)
  from stop B obtain dbC where C: "sameRouting dbB dbC"
    and D: "insertDomains (map (proxyDomainRow ?i) (sort (pi_domains p))) dbC = Inl HostConstraint" by (auto dest: writeHttp_routing)
  have "ph_id (newProxyHost ?i p tls now) \<in> ph_id ` set (hb_proxyHosts dbC)" using hB C by (simp add: sameRouting_def)
  then have "?i \<in> ph_id ` set (hb_proxyHosts dbC)" by (simp add: newProxyHost_def)
  moreover from p obtain input' where raw: "proxyHostInputSchema env input' = Some p"
    by (auto simp: createProxyHostInputSchema_def split: option.splits if_splits)
  ultimately show False using insertDomains_taken [of "sort (pi_domains p)" ?i dbC] input_values(4) [OF laws raw] D by simp
qed

lemma update_not_constraint:
  assumes laws: "urlLaws (hv_urls env)" and ok: "hostsOk db"
  shows "updateProxyHostInTransaction env a input key now db \<noteq> Inl HostConstraint"
proof
  let ?db = "lockProxyRuntimeSettings db"
  assume "updateProxyHostInTransaction env a input key now db = Inl HostConstraint"
  then obtain p h oldPool tls dbA where p: "updateProxyHostInputSchema env input = Some p"
    and h: "loadProxyHostForUpdate db (pi_proxyHostId p) = Some h" and stored: "storedPool env h = Inr oldPool"
    and first: "validateUpstreamPoolPrimary (effectivePool p oldPool) (pi_forwardHost p) (pi_forwardPort p)"
    and tls: "normalizeUpstreamTlsSettings env p (effectivePool p oldPool) (Some h) = Inr tls"
    and pol: "checkAccessPolicy a h (pi_accessPolicyId p) (ph_accessPolicyId (changedProxyHost h p (effectivePool p oldPool) tls now)) ?db = Inr ()"
    and ca: "validateTrustedCaAssignmentInTransaction (tl_trustedCaId tls) ?db = Inr ()"
    and cert: "validateCertificate env (ph_certificateId (changedProxyHost h p (effectivePool p oldPool) tls now))
       (ph_forceHttps (changedProxyHost h p (effectivePool p oldPool) tls now)) (sort (pi_domains p)) now ?db = Inr dbA"
    and stop: "updateProxyHost (changedProxyHost h p (effectivePool p oldPool) tls now) dbA = Inl HostConstraint \<or>
      (\<exists>dbB. updateProxyHost (changedProxyHost h p (effectivePool p oldPool) tls now) dbA = Inr dbB \<and>
        (\<exists>settings. readProxyHostHttpSettings dbB (ph_id h) = Inr settings \<and>
          (\<exists>dbC. writeCompression a (ph_id h) (pi_responseCompression p) settings dbB = Inr dbC \<and>
            replaceDomainsInTransaction (ph_id h) (sort (pi_domains p)) dbC = Inl HostConstraint)))"
    unfolding updateProxyHostInTransaction_def Let_def andThen_Inl_iff guardR_Inl_iff
    by (auto simp: not_constraint)
  let ?new = "changedProxyHost h p (effectivePool p oldPool) tls now"
  have "rowOf db (ph_id h) = Some h" using load_lower [OF h] by simp
  from rowOf_id [OF this] have mem: "h \<in> set (hb_proxyHosts db)" by simp
  then have old: "proxyHostChecks ?db h" using ok by (simp add: hostsOk_def tablesOk_def)
  have row: "proxyHostChecks dbA ?new"
    by (rule changed_row_checks [OF laws p old stored refl first tls pol ca cert])
  then obtain dbB where B: "updateProxyHost ?new dbA = Inr dbB" by (simp add: updateProxyHost_def)
  from stop B obtain dbC where C: "sameRouting dbB dbC"
    and D: "replaceDomainsInTransaction (ph_id h) (sort (pi_domains p)) dbC = Inl HostConstraint" by (auto dest: compression_routing)
  have "tablesOk dbA" using ok tablesOk_routing [OF sameRouting_trans [OF lock_routing certificate_routing [OF cert]]] by (simp add: hostsOk_def)
  from updateProxyHost_ok(2) [OF this B] have "ph_id ` set (hb_proxyHosts dbB) = ph_id ` set (hb_proxyHosts dbA)" by (metis list.set_map)
  moreover have "ph_id h \<in> ph_id ` set (hb_proxyHosts dbA)"
    using mem sameRouting_trans [OF lock_routing certificate_routing [OF cert]] by (simp add: sameRouting_def)
  ultimately have "ph_id h \<in> ph_id ` set (hb_proxyHosts dbC)" using C by (simp add: sameRouting_def)
  moreover from p have raw: "proxyHostInputSchema env input = Some p"
    by (auto simp: updateProxyHostInputSchema_def split: option.splits if_splits)
  ultimately show False using D input_values(4) [OF laws raw]
      insertDomains_taken [of "sort (sort (pi_domains p))" "ph_id h" "dbC\<lparr>hb_domains := filter (\<lambda>r. dr_proxyHostId r \<noteq> Some (ph_id h)) (hb_domains dbC)\<rparr>"]
    by (simp add: replaceDomainsInTransaction_def)
qed

end
