(* ===== verification/HostSample.thy ===== *)
theory HostSample
  imports HostConstraints MonitoringProperties
begin

text \<open>
  A small installation on which the properties of hosts are evaluated: one user who may create and change hosts.
\<close>

definition hostUrls :: url_lib where
  "hostUrls = \<lparr>ul_hostname = (\<lambda>s.
       if list_all (\<lambda>c. isDigit c \<or> c = CHR ''.'') (withoutFinalDot (toLowerCase s)) then None
       else if bracketed s \<and> \<not> (inner s \<noteq> [] \<and> length (inner s) \<le> 45 \<and> list_all addressChar (inner s)) then None else Some s),
     ul_parse = (\<lambda>_. None), ul_setHostname = (\<lambda>u _. u), ul_decode = Some,
     ul_isIpv4 = (\<lambda>s. s \<noteq> [] \<and> length s \<le> 15 \<and> list_all (\<lambda>c. isDigit c \<or> c = CHR ''.'') s), ul_isIpv6 = (\<lambda>s. contains s (CHR '':''))\<rparr>"

definition hostEnv :: host_env where
  "hostEnv = \<lparr>hv_urls = hostUrls, hv_tags = \<lparr>tn_isUuid = (\<lambda>s. s \<noteq> []), tn_name = Some, tn_byName = (\<lambda>ts. ts)\<rparr>, hv_isUuidv7 = (\<lambda>s. s \<noteq> []),
     hv_newId = (\<lambda>n. CHR ''h'' # replicate n (CHR ''x'')), hv_controller = (\<lambda>_. Inl CertificateNotFound), hv_monitoring = monEnv\<rparr>"

definition hostIdentity :: identity_db where
  "hostIdentity = \<lparr>id_users = [\<lparr>us_id = ''u'', us_displayName = ''Sample'', us_email = ''u@x'', us_emailVerifiedAt = Some 0,
       us_passwordHash = None, us_oidcProviderId = None, us_profileImageVersion = 0, us_status = ActiveUser, us_createdAt = 0, us_updatedAt = 0\<rparr>],
     id_roles = [\<lparr>ro_id = ''r'', ro_key = ''hosts'', ro_name = ''hosts'', ro_description = [], ro_isSystem = False, ro_createdAt = 0, ro_updatedAt = 0\<rparr>],
     id_permissions = [\<lparr>pe_id = ''1'', pe_key = PROXY_HOSTS_CREATE\<rparr>, \<lparr>pe_id = ''2'', pe_key = PROXY_HOSTS_UPDATE\<rparr>],
     id_userRoles = [(''u'', ''r'')], id_rolePermissions = [(''r'', ''1''), (''r'', ''2'')],
     id_sessions = [], id_resetTokens = [], id_invites = [], id_totpFactors = [], id_recoveryCodes = [], id_passkeys = [],
     id_oidc = \<lparr>os_revision = 0, os_providers = []\<rparr>, id_rows = 0\<rparr>"

definition hostDb :: host_db where
  "hostDb = \<lparr>hb_proxyHosts = [], hb_redirectHosts = [], hb_domains = [], hb_runtimeRow = False, hb_settings = (\<lambda>_. None), hb_tags = (\<lambda>_. None),
     hb_discovery = [], hb_certificates = [], hb_trustedCas = [], hb_accessPolicies = [], hb_identity = hostIdentity,
     hb_monitoring = monDb\<lparr>db_hosts := [], db_domains := []\<rparr>, hb_nextId = 0\<rparr>"

definition hostInput :: "string \<Rightarrow> string \<Rightarrow> proxy_host_input" where
  "hostInput hostId domain = \<lparr>pi_proxyHostId = hostId, pi_responseCompression = None, pi_browserCache = None, pi_tagIds = None,
     pi_responseCache = None, pi_domains = [domain], pi_forwardScheme = HttpScheme, pi_forwardHost = ''c'', pi_forwardPort = 80,
     pi_upstreamPool = None, pi_enabled = True, pi_certificateId = None, pi_forceHttps = None, pi_verifyUpstreamTls = None,
     pi_upstreamTlsServerName = None, pi_trustedCaId = None, pi_accessPolicyId = None\<rparr>"

definition resultDb :: "host_db \<Rightarrow> host_error + string \<times> host_db \<Rightarrow> host_db" where
  "resultDb d r = (case r of Inl e \<Rightarrow> d | Inr x \<Rightarrow> snd x)"

definition succeeds :: "string \<Rightarrow> host_error + string \<times> host_db \<Rightarrow> bool" where
  "succeeds i r = (case r of Inl e \<Rightarrow> False | Inr x \<Rightarrow> fst x = i)"

lemma succeeds_Inr: "succeeds i r \<Longrightarrow> r = Inr (i, resultDb d r)"
  by (auto simp: succeeds_def resultDb_def split: sum.splits)

definition createdDb :: host_db where
  "createdDb = resultDb hostDb (createProxyHostInTransaction hostEnv ''u'' (hostInput [] ''A.b.'') 5 hostDb)"

lemma sample_create: "succeeds ''h'' (createProxyHostInTransaction hostEnv ''u'' (hostInput [] ''A.b.'') 5 hostDb)"
  by code_simp

end
