(* ===== verification/HostServing.thy ===== *)
theory HostServing
  imports HostPowers
begin

text \<open>
  What a saved host is served with: the certificate a host is created, changed or enabled with was checked against the
  very domains it is stored with.
\<close>

definition servedWithCertificate :: "host_env \<Rightarrow> int \<Rightarrow> host_db \<Rightarrow> string \<Rightarrow> bool" where
  "servedWithCertificate env now db i \<longleftrightarrow>
     (case rowOf db i of
        None \<Rightarrow> False
      | Some h \<Rightarrow> (ph_forceHttps h \<longrightarrow> ph_certificateId h \<noteq> None) \<and>
          (\<forall>c. ph_certificateId h = Some c \<longrightarrow>
             certificateServes (hv_urls env) (hv_controller env) now c (loadProxyHostDomainsInTransaction db i)))"

lemma sort_again [simp]: "sort (sort xs) = sort xs"
  by (rule sorted_sort_id) simp

text \<open>The domains of one host, before and after a write.\<close>

lemma domains_routing: "sameRouting db db' \<Longrightarrow> loadProxyHostDomainsInTransaction db' i = loadProxyHostDomainsInTransaction db i"
  by (simp add: loadProxyHostDomainsInTransaction_def sameRouting_def)

lemma domains_of_new_rows:
  "filter (\<lambda>r. dr_proxyHostId r = Some i) (map (proxyDomainRow i) ds) = map (proxyDomainRow i) ds"
  "map dr_domain (map (proxyDomainRow i) ds) = ds"
  by (simp_all add: proxyDomainRow_def comp_def filter_map)

lemma domains_insert:
  assumes "insertDomains (map (proxyDomainRow i) ds) db = Inr db'" "\<forall>r \<in> set (hb_domains db). dr_proxyHostId r \<noteq> Some i"
  shows "loadProxyHostDomainsInTransaction db' i = sort ds"
proof -
  have none: "filter (\<lambda>r. dr_proxyHostId r = Some i) (hb_domains db) = []" using assms(2) by (simp add: filter_empty_conv)
  show ?thesis
    unfolding loadProxyHostDomainsInTransaction_def insertDomains_ok(2) [OF assms(1)] filter_append none append_Nil domains_of_new_rows
    by (rule refl)
qed

lemma domains_replace:
  assumes "replaceDomainsInTransaction i ds db = Inr db'"
  shows "loadProxyHostDomainsInTransaction db' i = sort ds"
  using domains_insert [OF assms [unfolded replaceDomainsInTransaction_def]] by simp

lemma no_domains_without_host:
  assumes "tablesOk db" "i \<notin> ph_id ` set (hb_proxyHosts db)"
  shows "\<forall>r \<in> set (hb_domains db). dr_proxyHostId r \<noteq> Some i"
  using assms by (fastforce simp: tablesOk_def domainChecks_hosts)

lemma validated_serves:
  assumes "validateCertificate env c f ds now db = Inr db'"
  shows "(f \<longrightarrow> c \<noteq> None) \<and> (\<forall>k. c = Some k \<longrightarrow> certificateServes (hv_urls env) (hv_controller env) now k ds)"
  using assms by (auto simp: validateCertificate_def andThen_Inr_iff dest!: validated_certificate)

lemma served_intro:
  assumes "rowOf db i = Some h" "validateCertificate env (ph_certificateId h) (ph_forceHttps h) (loadProxyHostDomainsInTransaction db i) now dbA = Inr dbB"
  shows "servedWithCertificate env now db i"
  using validated_serves [OF assms(2)] assms(1) by (simp add: servedWithCertificate_def)

lemma create_served:
  assumes ok: "hostsOk db" and res: "createProxyHostInTransaction env a input now db = Inr (i, db')"
  shows "servedWithCertificate env now db' i"
  using res
proof (rule create_shape)
  fix p tls actor dbA dbB dbC dbD dbE dbF
  let ?row = "newProxyHost i p tls now"
  assume A: "validateCertificate env (ph_certificateId ?row) (ph_forceHttps ?row) (sort (pi_domains p)) now (lockProxyRuntimeSettings db) = Inr dbA"
    and B: "insertProxyHost ?row (dbA\<lparr>hb_nextId := Suc (hb_nextId dbA)\<rparr>) = Inr dbB"
    and C: "writeProxyHostHttpSettings i (emptyHttpSettings\<lparr>hh_responseCompression := orNull (pi_responseCompression p)\<rparr>) dbB = Inr dbC"
    and D: "insertDomains (map (proxyDomainRow i) (sort (pi_domains p))) dbC = Inr dbD"
    and E: "writeOptionalCache a i (pi_responseCache p) dbD = Inr dbE"
    and F: "assignTagsFor env ProxyKind PROXY_HOSTS_VIEW actor i (pi_tagIds p) dbE = Inr dbF"
    and G: "writeOptionalBrowserCache i (pi_browserCache p) dbF = Inr db'"
  have rA: "sameRouting db dbA" by (rule sameRouting_trans [OF lock_routing certificate_routing [OF A]])
  have rD: "sameRouting dbD db'" using optionalCache_routing [OF E] assignTagsFor_routing [OF F] optionalBrowserCache_routing [OF G]
    by (blast intro: sameRouting_trans)
  have fresh: "i \<notin> ph_id ` set (hb_proxyHosts db)" and domains: "hb_domains dbB = hb_domains db"
    using B rA by (auto simp: insertProxyHost_def newProxyHost_def sameRouting_def split: if_splits)
  then have "rowOf dbA i = None" using rA by (auto simp: rowOf_def find_None_iff sameRouting_def)
  then have "rowOf dbB i = Some ?row" using rowOf_insert_new [OF B, of i] by (simp add: rowOf_def newProxyHost_def)
  then have row: "rowOf db' i = Some ?row"
    using rowOf_routing [OF rD] rowOf_domains(1) [OF D] rowOf_routing [OF writeHttp_routing [OF C]] by simp
  have "hb_domains dbC = hb_domains db" using domains writeHttp_routing [OF C] by (simp add: sameRouting_def)
  then have "loadProxyHostDomainsInTransaction dbD i = sort (sort (pi_domains p))"
    using domains_insert [OF D] no_domains_without_host [OF _ fresh] ok by (simp add: hostsOk_def)
  then have "loadProxyHostDomainsInTransaction db' i = sort (pi_domains p)" using domains_routing [OF rD] by simp
  with A row show ?thesis by (auto intro: served_intro)
qed

lemma update_served:
  assumes res: "updateProxyHostInTransaction env a input key now db = Inr (i, db')"
  shows "servedWithCertificate env now db' i"
  using res
proof (rule update_shape)
  fix p h oldPool tls settings actor dbA dbB dbC dbD dbE dbF dbG
  let ?new = "changedProxyHost h p (effectivePool p oldPool) tls now"
  assume h: "loadProxyHostForUpdate db (pi_proxyHostId p) = Some h" "i = ph_id h"
    and A: "validateCertificate env (ph_certificateId ?new) (ph_forceHttps ?new) (sort (pi_domains p)) now (lockProxyRuntimeSettings db) = Inr dbA"
    and B: "updateProxyHost ?new dbA = Inr dbB" and C: "writeCompression a i (pi_responseCompression p) settings dbB = Inr dbC"
    and D: "replaceDomainsInTransaction i (sort (pi_domains p)) dbC = Inr dbD"
    and E: "invalidateIfChanged env (availabilityChanged h oldPool (map dr_domain (filter (\<lambda>r. dr_proxyHostId r = Some i) (hb_domains dbA)))
       ?new (sort (pi_domains p))) h ?new now dbD = Inr dbE"
    and F: "writeOptionalCache a i (pi_responseCache p) dbE = Inr dbF"
    and G: "assignTagsFor env ProxyKind PROXY_HOSTS_VIEW actor i (pi_tagIds p) dbF = Inr dbG"
    and H: "writeOptionalBrowserCache i (if pi_browserCache p = hh_browserCache settings then None else pi_browserCache p) dbG = Inr db'"
  have rA: "sameRouting db dbA" by (rule sameRouting_trans [OF lock_routing certificate_routing [OF A]])
  have rD: "sameRouting dbD db'" using invalidateIfChanged_routing [OF E] optionalCache_routing [OF F] assignTagsFor_routing [OF G]
      optionalBrowserCache_routing [OF H] by (blast intro: sameRouting_trans)
  have row: "rowOf db' i = Some ?new"
    using rowOf_routing [OF rD] rowOf_domains(2) [OF D] rowOf_routing [OF compression_routing [OF C]] rowOf_update [OF B]
      rowOf_routing [OF rA] load_lower [OF h(1)] h(2) by (simp add: changedProxyHost_def)
  have "loadProxyHostDomainsInTransaction db' i = sort (pi_domains p)" using domains_replace [OF D] domains_routing [OF rD] by simp
  with A row show ?thesis by (auto intro: served_intro)
qed

lemma enable_served:
  assumes res: "setProxyHostEnabledService env (Some s) hostId True now db = Inr (i, db')"
  shows "servedWithCertificate env now db' i"
  using res
proof (rule switch_shape)
  fix h dbA dbB
  assume h: "loadProxyHostForUpdate db hostId = Some h" "i = ph_id h"
    and A: "validateBeforeEnabling env True h now (lockProxyRuntimeSettings db) = Inr dbA"
    and B: "updateProxyHost (h\<lparr>ph_enabled := True, ph_updatedAt := now\<rparr>) dbA = Inr dbB"
    and C: "(if True then Inr dbB else invalidateMonitoring env i MonitoringDisabled now dbB) = Inr db'"
  let ?db = "lockProxyRuntimeSettings db"
  from A h(2) have v: "validateCertificate env (ph_certificateId h) (ph_forceHttps h) (loadProxyHostDomainsInTransaction ?db i) now ?db = Inr dbA"
    by (auto simp: validateBeforeEnabling_def andThen_Inr_iff)
  have rA: "sameRouting db dbA" by (rule sameRouting_trans [OF lock_routing certificate_routing [OF v]])
  have db': "db' = dbB" using C by simp
  have "rowOf db' i = Some (h\<lparr>ph_enabled := True, ph_updatedAt := now\<rparr>)"
    using rowOf_update [OF B] rowOf_routing [OF rA] load_lower [OF h(1)] h(2) db' by simp
  moreover have "loadProxyHostDomainsInTransaction db' i = loadProxyHostDomainsInTransaction ?db i"
    using B rA db' by (auto simp: updateProxyHost_def loadProxyHostDomainsInTransaction_def sameRouting_def lockProxyRuntimeSettings_def split: if_splits)
  ultimately show ?thesis using v by (auto intro: served_intro)
qed

end
