(* ===== verification/HostProperties.thy ===== *)
theory HostProperties
  imports HostSample HostServing
begin

text \<open>
  The properties of hosts: the routing of domains over every reachable state, who may change what, agreement of the
  validation with the constraints of the tables, and certificates.
\<close>

section \<open>Routing\<close>

datatype route = ToProxyHost string | ToRedirectHost string

definition routesOf :: "host_db \<Rightarrow> string \<Rightarrow> route list" where
  "routesOf db d = concat (map (\<lambda>r. (case dr_proxyHostId r of None \<Rightarrow> [] | Some i \<Rightarrow> [ToProxyHost i]) @
     (case dr_redirectHostId r of None \<Rightarrow> [] | Some i \<Rightarrow> [ToRedirectHost i])) (filter (\<lambda>r. dr_domain r = d) (hb_domains db)))"

definition routeTargets :: "host_db \<Rightarrow> route set" where
  "routeTargets db = ToProxyHost ` ph_id ` set (hb_proxyHosts db) \<union> ToRedirectHost ` rh_id ` set (hb_redirectHosts db)"

lemma filter_unique: "distinct (map f xs) \<Longrightarrow> x \<in> set xs \<Longrightarrow> filter (\<lambda>y. f y = f x) xs = [x]"
  by (induction xs) (auto simp: filter_empty_conv rev_image_eqI)

lemma domain_route:
  assumes "tablesOk db" "d \<in> dr_domain ` set (hb_domains db)"
  shows "\<exists>t \<in> routeTargets db. routesOf db d = [t]"
proof -
  from assms(2) obtain r where r: "r \<in> set (hb_domains db)" "d = dr_domain r" by auto
  with assms(1) have one: "filter (\<lambda>x. dr_domain x = d) (hb_domains db) = [r]" and c: "domainChecks db r"
    by (simp_all add: tablesOk_def filter_unique)
  show ?thesis using c
    by (cases "dr_proxyHostId r"; cases "dr_redirectHostId r") (auto simp: routesOf_def one domainChecks_hosts routeTargets_def)
qed

lemma target_domain:
  assumes "hostsOk db" "t \<in> routeTargets db"
  shows "\<exists>d \<in> dr_domain ` set (hb_domains db). routesOf db d = [t]"
proof -
  from assms obtain r where r: "r \<in> set (hb_domains db)"
    and t: "t = ToProxyHost (the (dr_proxyHostId r)) \<and> dr_proxyHostId r \<noteq> None \<or> t = ToRedirectHost (the (dr_redirectHostId r)) \<and> dr_redirectHostId r \<noteq> None"
    by (fastforce simp: hostsOk_def allServed_def routeTargets_def)
  with assms(1) have one: "filter (\<lambda>x. dr_domain x = dr_domain r) (hb_domains db) = [r]" and c: "domainChecks db r"
    by (simp_all add: hostsOk_def tablesOk_def filter_unique)
  have "routesOf db (dr_domain r) = [t]" using c t
    by (cases "dr_proxyHostId r"; cases "dr_redirectHostId r") (auto simp: routesOf_def one domainChecks_def)
  with r show ?thesis by blast
qed

lemma created_reach: "reach hostInit (hostStep hostEnv) createdDb"
proof (rule reach_step)
  show "reach hostInit (hostStep hostEnv) hostDb" by (rule reach_init) (simp add: hostInit_def hostDb_def)
  show "hostStep hostEnv hostDb (ProxyHostCreated ''u'' ''h'') createdDb"
    unfolding createdDb_def by (rule hostStep.createProxy [OF succeeds_Inr [OF sample_create]])
qed

text \<open>
  Claim C7: in every state the services of proxy hosts, redirect hosts and labels reach, in any order and with the writes of
  certificate jobs between them, each stored domain is in the canonical form of the table and leads to exactly one
  host that exists, and every proxy or redirect host is reached by one of its domains. What the proxy is configured
  with is never ambiguous and has no dangling target.
\<close>

theorem domains_are_routed_once:
  assumes "reach hostInit (hostStep env) db"
  shows "(\<forall>d \<in> dr_domain ` set (hb_domains db). domainCanonicalCheck d \<and> (\<exists>t \<in> routeTargets db. routesOf db d = [t])) \<and>
    (\<forall>t \<in> routeTargets db. \<exists>d \<in> dr_domain ` set (hb_domains db). routesOf db d = [t])"
proof -
  have ok: "hostsOk db" using hosts.inv_reach [OF assms] .
  then have canonical: "\<forall>d \<in> dr_domain ` set (hb_domains db). domainCanonicalCheck d"
    by (auto simp: hostsOk_def tablesOk_def domainChecks_def)
  show ?thesis using canonical domain_route [of db] target_domain [OF ok] ok by (simp add: hostsOk_def)
qed

lemma sample_routes: "routesOf createdDb ''a.b'' = [ToProxyHost ''h''] \<and> map dr_domain (hb_domains createdDb) = [''a.b'']"
  by code_simp

theorem domains_are_routed_once_witness:
  "reach hostInit (hostStep hostEnv) createdDb \<and> (\<exists>t \<in> routeTargets createdDb. routesOf createdDb ''a.b'' = [t]) \<and>
   ToProxyHost ''h'' \<in> routeTargets createdDb"
proof -
  have "''a.b'' \<in> dr_domain ` set (hb_domains createdDb)" using sample_routes by (metis list.set_intros(1) set_map)
  then obtain t where t: "t \<in> routeTargets createdDb" "routesOf createdDb ''a.b'' = [t]"
    using domains_are_routed_once [OF created_reach] by blast
  then show ?thesis using created_reach sample_routes by auto
qed

section \<open>Permissions\<close>

lemma sample_lowerIds: "lowerIds hostEnv"
proof -
  have "lowerChar (CHR ''h'') = CHR ''h''" "lowerChar (CHR ''x'') = CHR ''x''" by code_simp+
  then show ?thesis by (simp add: lowerIds_def hostEnv_def toLowerCase_def map_replicate_const)
qed

text \<open>
  Claim C12: whatever a user does through the services and transactions of hosts and labels, a proxy host only appears,
  disappears, is switched on or off, gets another access policy, another target or certificate, or other caching and
  compression settings if that user holds the permission for this very change in the database of that moment.
\<close>

theorem host_changes_need_permission:
  assumes "hostStep env db e db'" "hostActor e = Some a" "lowerIds env"
  shows "permitted db a i db'"
  using assms by (rule hostStep_permitted)

theorem host_changes_need_permission_witness:
  "hostStep hostEnv hostDb (ProxyHostCreated ''u'' ''h'') createdDb \<and> permitted hostDb ''u'' ''h'' createdDb"
proof -
  have step: "hostStep hostEnv hostDb (ProxyHostCreated ''u'' ''h'') createdDb"
    unfolding createdDb_def by (rule hostStep.createProxy [OF succeeds_Inr [OF sample_create]])
  then show ?thesis using host_changes_need_permission [OF step _ sample_lowerIds, of "''u''" "''h''"] by simp
qed

section \<open>Constraints\<close>

lemma sample_urlLaws: "urlLaws hostUrls"
proof -
  have "bracketed (''['' @ a @ '']'')" for a by (cases a) (auto simp: bracketed_def)
  then show ?thesis by (auto simp: urlLaws_def hostUrls_def addressChar_def isHex_def isDigit_def list_all_iff split: if_splits)
qed



section \<open>Certificates\<close>

definition sampleMetadata :: certificate_metadata where
  "sampleMetadata = \<lparr>cm_id = ''c'', cm_source = ManualCertificate, cm_environment = None, cm_domains = [''*.b''], cm_status = ValidCertificate,
     cm_operation = ''idle'', cm_currentOperation = None, cm_challengeType = None, cm_issuedAt = Some 1, cm_expiresAt = Some 9,
     cm_issuer = None, cm_fingerprint = Some ''f'', cm_candidate = None, cm_dnsCleanupPending = None, cm_lastErrorCode = None, cm_updatedAt = 4,
     cm_nextAttemptAt = None, cm_attemptCount = None, cm_lastAttemptAt = None, cm_lastSuccessAt = None, cm_nextRenewalAt = None,
     cm_lastActivatedAt = None, cm_lastErrorAt = None\<rparr>"

definition sampleCertificate :: certificate_row where
  "sampleCertificate = \<lparr>ce_id = ''c'', ce_source = ManualCertificate, ce_environment = None, ce_status = ValidCertificate, ce_operation = ''idle'',
     ce_currentOperation = None, ce_challengeType = None, ce_issuedAt = None, ce_expiresAt = None, ce_issuer = None, ce_fingerprint = None,
     ce_candidate = None, ce_dnsCleanupPending = False, ce_lastErrorCode = None, ce_lastActivatedAt = None, ce_lastErrorAt = None,
     ce_nextAttemptAt = None, ce_attemptCount = 0, ce_lastAttemptAt = None, ce_lastSuccessAt = None, ce_nextRenewalAt = None,
     ce_controllerUpdatedAt = None, ce_updatedAt = 0, ce_domains = []\<rparr>"

definition certificateEnv :: host_env where
  "certificateEnv = hostEnv\<lparr>hv_controller := (\<lambda>i. if i = ''c'' then Inr sampleMetadata else Inl CertificateNotFound)\<rparr>"

definition certificateDb :: host_db where
  "certificateDb = hostDb\<lparr>hb_certificates := [sampleCertificate]\<rparr>"

definition certificateInput :: "string \<Rightarrow> proxy_host_input" where
  "certificateInput domain = (hostInput [] domain)\<lparr>pi_certificateId := Some (Some ''C''), pi_forceHttps := Some True\<rparr>"

lemma sample_certificate: "succeeds ''h'' (createProxyHostInTransaction certificateEnv ''u'' (certificateInput ''a.b'') 5 certificateDb)"
  by code_simp



text \<open>A certificate for the names below a domain does not serve the domain itself, and the host is not stored.\<close>

definition failsWith :: "host_error \<Rightarrow> host_error + 'a \<Rightarrow> bool" where
  "failsWith e r = (case r of Inl d \<Rightarrow> d = e | Inr _ \<Rightarrow> False)"

lemma wildcard_does_not_serve_its_base:
  "failsWith (HostCertificate DomainMismatch) (createProxyHostInTransaction certificateEnv ''u'' (certificateInput ''b'') 5 certificateDb)"
  by code_simp

section \<open>Hosts of Docker discovery\<close>

text \<open>
  The guard of hosts that belong to Docker discovery compares the identifier as it was sent, while the row is found
  without regard to case: the same change is refused for one spelling and carried out for another.
\<close>

definition managedDb :: host_db where
  "managedDb = createdDb\<lparr>hb_discovery := [\<lparr>ow_key = ''k'', ow_hostId = ''h'', ow_state = ManagedHost\<rparr>]\<rparr>"

lemma discovery_guard_depends_on_spelling:
  "failsWith HostDiscoveryManaged (updateProxyHostInTransaction hostEnv ''u'' (hostInput ''h'' ''c.d'') None 7 managedDb)"
  "succeeds ''h'' (updateProxyHostInTransaction hostEnv ''u'' (hostInput ''H'' ''c.d'') None 7 managedDb)"
  by code_simp+

end
