(* ===== verification/Spec2Isabelle.thy ===== *)
theory Spec2Isabelle
  imports NotificationWorker EngineTermination MonitoringProperties IpRules IdentityProperties FactorProperties
    SecondFactorProperties RateLimiter HostProperties
begin

text \<open>
  A verification of the control plane of RentnerProxy, the TypeScript web application under \<^verbatim>\<open>src/web\<close> that manages
  a reverse proxy: proxy and redirect hosts, accounts and access, second factors, rate limits, host monitoring,
  notifications and the IP rules of access policies. Paths below are relative to \<^verbatim>\<open>src/web/src\<close>.

  \<^bold>\<open>How the program is put together.\<close> Services under \<^verbatim>\<open>server\<close> answer requests. They keep hosts, accounts, sessions,
  monitoring and notification state in a PostgreSQL database and short-lived challenges, locks and counters in a Valkey store.
  Workers poll: one collects signals, opens incidents and sends notifications, one probes hosts. The notification
  configuration and queue are two JSON documents in a settings table; host monitoring writes its transitions into the
  same queue, and what a user may see, send or change is decided by the permissions of the account tables. Saving a host
  checks its certificate with the controller, labels it and resets its monitoring, in one transaction. Second factors and
  passkeys use the challenge store and the account tables in turn.

  \<^bold>\<open>How it is modelled.\<close> Records and datatypes carry the names of the source. A transaction is a function from the
  tables to an error or the new tables; the code serializes conflicting transactions by advisory and row locks, so a
  transaction is one step. A command or script of the key-value store is one step and takes the moment it runs at.
  A raised error is a value of a sum type, and an error inside a transaction leaves the tables as they were. Loops are
  structural recursion or library combinators, so no definition needs fuel; the one search with a measure of its own is
  \<open>longestZeros\<close>. Numbers are \<open>int\<close>, with the safe-integer checks the code makes written out; strings are lists of
  8-bit characters. Clocks, generated identifiers, hashes, encryption and the libraries for mail addresses, one-time
  passwords and passkeys are arguments; that identifiers differ is a hypothesis of the theorems that need it.

  \<^bold>\<open>Shared theories.\<close>
    \<^item> \<open>Prelude\<close>: list updates, the result type, steps, reachability and the interface \<open>invariant_system\<close>, through which
      every stateful component lifts what one step keeps to all reachable states.
    \<^item> \<open>JsLib\<close>: the parts of the JavaScript library the sources use.
    \<^item> \<open>ValkeyStore\<close>: expiring keys, and the interface \<open>expiring_lock\<close> with its interpretation on them.
    \<^item> \<open>Permissions\<close>: \<^verbatim>\<open>config/permissions.config.ts\<close>, \<^verbatim>\<open>lib/Permissions/systemRoles.ts\<close>.

  \<^bold>\<open>Notifications\<close> (\<^verbatim>\<open>server/Notifications\<close>, \<^verbatim>\<open>lib/Notifications\<close>).
    \<^item> \<open>NotificationTypes\<close>, \<open>IncidentEngine\<close>: the state and every operation of \<^verbatim>\<open>incident-engine.ts\<close>.
    \<^item> \<open>StateSchema\<close>: the validator of the persisted state. \<open>NotificationQueue\<close>: host transitions, channel tests, backup
      outcomes, summaries.
    \<^item> \<open>EngineInvariant\<close>, \<open>EngineLifecycle\<close>, \<open>EngineIdentity\<close>, \<open>EngineWorld\<close>, \<open>QueueWriters\<close>: each operation keeps the rules of
      the validator, moves deliveries along an abstract life cycle (\<open>queue_relation\<close>, \<open>delivery_update\<close>) and keeps
      identifiers distinct.
    \<^item> \<open>NotificationSystem\<close>, \<open>EngineProperties\<close>, \<open>EngineTermination\<close>: all writers as steps in any order. Reachable states pass
      validation (C1), leases exclude each other (C2), the life cycle is followed and final states are final (C3, C4), what
      is claimed may be sent (C5), retrying ends after eight attempts (C6), transitions are announced once (C8), failing
      signals are recorded (C9); a disabled engine is silent and retry delays are bounded.
    \<^item> \<open>NotificationConfig\<close>: the stored configuration, its update and its narrowing to the owners' permissions (C11).
    \<^item> \<open>Observations\<close>: how signals become observations (C20).
    \<^item> \<open>NotificationStore\<close>, \<open>NotificationServices\<close>, \<open>NotificationRepository\<close>, \<open>NotificationProperties\<close>: the transactions on the
      two stored documents and the services for administrators and users; every transaction is a run of engine steps (C22),
      rows stay readable (C23), a collection commits once (C24), users change only their channels within their permissions
      (C25, C27), no update is lost (C28).
    \<^item> \<open>NotificationWorker\<close>: ticks of the worker and the authorization before a transport (C29, C30).

  \<^bold>\<open>Host monitoring\<close> (\<^verbatim>\<open>server/HostMonitoring\<close>, \<^verbatim>\<open>lib/HostMonitoring\<close>).
    \<^item> \<open>MonitoringState\<close>: the streak state machine (C13, C14). \<open>HostMonitoring\<close>, \<open>MonitoringService\<close>: the transactions of the
      repository, the policy service, the probe and a round of the worker.
    \<^item> \<open>MonitoringInvariant\<close>, \<open>MonitoringKeeps\<close>, \<open>MonitoringComplete\<close>, \<open>MonitoringSystem\<close>, \<open>MonitoringProperties\<close>: the tables stay
      consistent (C15), lost claims write nothing (C16), probes release their lease (C17), the shown state agrees with the
      incidents (C18), a second save conflicts.

  \<^bold>\<open>Hosts\<close> (\<^verbatim>\<open>server/Admin/ProxyHostManagement\<close>, \<^verbatim>\<open>server/Admin/RedirectHostManagement\<close>, \<^verbatim>\<open>server/Admin/HostTags\<close>,
  \<^verbatim>\<open>server/ProxyRuntime/proxy-runtime-settings.ts\<close>, \<^verbatim>\<open>db/Schema/proxyHosts.ts\<close>).
    \<^item> \<open>UpstreamPools\<close>: host names, pools of targets with their health checks, caches, and the constraints of the tables.
      \<open>HostTags\<close>: labels. \<open>Certificates\<close>: the metadata of a certificate, its copy and its check against domains.
    \<^item> \<open>HostStore\<close>: the tables, settings and guards. \<open>ProxyHosts\<close>, \<open>RedirectHosts\<close>: schemas, transactions and services.
    \<^item> \<open>HostSystem\<close>, \<open>HostInvariant\<close>, \<open>HostPowers\<close>, \<open>HostConstraints\<close>, \<open>HostServing\<close>: the services as steps in any order, what
      they keep, whom they obey, and how validation relates to the tables. What certificate jobs and removals write to the
      tables of hosts is one step bounded by the constraints (\<open>otherWrites\<close>).
    \<^item> \<open>HostSample\<close>, \<open>HostProperties\<close>: each domain leads to one host that exists (C7), saved hosts have a valid certificate for
      their domains (C10), every change of a host needs its permission (C12), validated input never violates a constraint
      (C19). The URL parser, the format of identifiers and labels and the answer of the controller are arguments; C19 takes
      what the URL standard says of bracketed and dotted hosts as \<open>urlLaws\<close>.

  \<^bold>\<open>Accounts and access\<close> (\<^verbatim>\<open>server/Auth\<close>, \<^verbatim>\<open>server/Admin/RoleManagement\<close>, \<^verbatim>\<open>server/Admin/UserManagement\<close>).
    \<^item> \<open>IdentityStore\<close>, \<open>IdentityServices\<close>: tables, access checks, sessions. \<open>AccountServices\<close>: roles and users.
      \<open>CredentialServices\<close>: first owner, invitations, password resets, own account, password login, external accounts.
      \<open>FactorServices\<close>: the transactions of second factors, passkeys and external logins.
    \<^item> \<open>IdentitySystem\<close>: one step per transaction, in any order, by any actor. \<open>IdentityKeeps\<close>, \<open>FactorKeeps\<close>,
      \<open>IdentityEffects\<close>, \<open>IdentityReach\<close>, \<open>IdentityPowers\<close>, \<open>FactorTables\<close>: what each transaction does to the tables.
    \<^item> \<open>IdentitySample\<close>, \<open>IdentityProperties\<close>: an active owner remains and external accounts are no owners (C34), no permission
      is gained through management (C35), changing a recovery address needs the power of its user (C36), revoked sessions
      stay revoked (C37), a created session resolves (C38), a password login needs the current password (C39).
    \<^item> \<open>FactorProperties\<close>: one-time and recovery codes complete one login (C40).

  \<^bold>\<open>Challenges, second factors and rate limits\<close> (\<^verbatim>\<open>server/Valkey\<close>, \<^verbatim>\<open>server/Auth/TwoFactor\<close>, \<^verbatim>\<open>server/Auth/Passkey\<close>).
    \<^item> \<open>AuthChallenges\<close>, \<open>ChallengeProperties\<close>: challenges, the verification lock and the scripts; wrong codes are bounded and
      a challenge is used once, whatever requests interleave (C26).
    \<^item> \<open>SecondFactor\<close>, \<open>SecondFactorProperties\<close>: the services over store and tables, with other requests running between
      their calls; recovery codes read back as shown, and a login needs a matching code.
    \<^item> \<open>RateLimiter\<close>: policies, keys and the counter script; the limits hold for any interleaving (C21).

  \<^bold>\<open>IP rules\<close> (\<^verbatim>\<open>lib/AccessPolicies/ipAccessRules.ts\<close>). \<open>IpRules\<close>: parsing, masking and printing of networks; the canonical
  text is a round trip (C31), decides equality of address sets (C32), and stored lists are canonical (C33).

  \<^bold>\<open>Bounds.\<close> Limits are those of the code: eight attempts, leases of 90 seconds, five wrong codes, locks of 15 seconds. The
  byte limits of the stored documents are modelled by the size of their JSON text; C1 leaves them out, since the engine
  reserves space by an estimate.

  \<^bold>\<open>Not modelled.\<close> The user interface and routes; the audit log, which no modelled decision reads; mail, HTTP and DNS
  transports and the calls to the proxy controller, which are I\<open>/\<close>O; the OpenID Connect protocol, whose verified identity is
  an argument, and the editing of provider settings, which change as one step over any storable value; the generated
  configuration of the running proxy and its reconciliation after a commit; issuing, importing and renewing certificates,
  dynamic DNS, the planning of Docker discovery, imports, backups and updates, which mostly validate forms and hand them to
  the controller; bulk actions and the editor of a host's HTTP settings; the random generators and cookies; the Rust data plane, the Caddy modules, scripts and
  packaging.
\<close>

end
